(* ===== verification/Tgw_Prelude.thy ===== *)
theory Tgw_Prelude
  imports
    Complex_Main
    "HOL-Library.AList"
    "HOL-Library.Char_ord"
    "HOL-Library.List_Lexorder"
    "HOL-Library.Product_Lexorder"
    "HOL-Library.Multiset"
begin

text \<open>
  The shared layer of the development: the types that name points in time, identities and
  failures, the Python string operations the modelled code uses, and the generic lemmas on
  lists, sorting and association lists that the component theories rest on.

  A Python \<^verbatim>\<open>str\<close> is an Isabelle \<^typ>\<open>string\<close>, read as its UTF-8 bytes: byte-wise
  lexicographic order agrees with Python's code point order, and JSON output with
  \<^verbatim>\<open>ensure_ascii=False\<close> is the byte string itself. White space is ASCII white space.
  A time stamp is a rational number of seconds; PostgreSQL's rounding to microseconds is
  not modelled.
\<close>

section \<open>Shared types\<close>

type_synonym time = rat
type_synonym uuid = string

text \<open>Every exception the modelled code raises, with the messages that callers tell apart
  kept as strings.\<close>

datatype py_error =
    ValueError string
  | TypeError string
  | RuntimeError string
  | KeyError string
  | AttributeError string
  | MissingManifestFieldError string
  | EbayQueueEnvironmentError string
  | UniqueViolation string
  | CheckViolation string
  | DatabaseError string
  | ProviderEffectConflict string
  | ProviderEffectReconciliationRequired string
  | ProviderObservationConflict string
  | GenerationConflict string
  | OverflowError string
  | PlanResolutionError string
  | StalePlanCommit string
  | OSError string
  | FileNotFoundError string

type_synonym 'a result = "py_error + 'a"

abbreviation Err :: "py_error \<Rightarrow> 'a result" where
  "Err \<equiv> Inl"

abbreviation Ok :: "'a \<Rightarrow> 'a result" where
  "Ok \<equiv> Inr"

definition is_ok :: "'a result \<Rightarrow> bool" where
  "is_ok r = (case r of Inl _ \<Rightarrow> False | Inr _ \<Rightarrow> True)"

lemma is_ok_simps [simp]: "is_ok (Inr x)" "\<not> is_ok (Inl e)"
  by (simp_all add: is_ok_def)

section \<open>Collections of facts\<close>

named_theorems str_simps \<open>evaluation rules for the Python string operations\<close>
named_theorems sql_simps \<open>reading a table after a statement\<close>
named_theorems lease_intros \<open>preservation of the queue invariant, one rule per operation\<close>

section \<open>Python strings\<close>

definition starts_with :: "string \<Rightarrow> string \<Rightarrow> bool" where
  "starts_with s p = (take (length p) s = p)"

definition ends_with :: "string \<Rightarrow> string \<Rightarrow> bool" where
  "ends_with s p = (length p \<le> length s \<and> drop (length s - length p) s = p)"

definition chop_end :: "string \<Rightarrow> string \<Rightarrow> string" where
  "chop_end s p = take (length s - length p) s"

definition is_space :: "char \<Rightarrow> bool" where
  "is_space c = (of_char c \<in> {9, 10, 11, 12, 13, 28, 29, 30, 31, 32 :: nat})"

definition py_strip :: "string \<Rightarrow> string" where
  "py_strip s = rev (dropWhile is_space (rev (dropWhile is_space s)))"

text \<open>\<^verbatim>\<open>bool(s.strip())\<close>\<close>

definition non_blank :: "string \<Rightarrow> bool" where
  "non_blank s = (py_strip s \<noteq> [])"

definition lower_char :: "char \<Rightarrow> char" where
  "lower_char c = (if 65 \<le> (of_char c :: nat) \<and> (of_char c :: nat) \<le> 90
                   then char_of (of_char c + 32 :: nat) else c)"

definition upper_char :: "char \<Rightarrow> char" where
  "upper_char c = (if 97 \<le> (of_char c :: nat) \<and> (of_char c :: nat) \<le> 122
                   then char_of (of_char c - 32 :: nat) else c)"

definition py_lower :: "string \<Rightarrow> string" where
  "py_lower s = map lower_char s"

definition py_upper :: "string \<Rightarrow> string" where
  "py_upper s = map upper_char s"

text \<open>\<^verbatim>\<open>pattern in s\<close>\<close>

fun contains_sub :: "string \<Rightarrow> string \<Rightarrow> bool" where
  "contains_sub p [] = (p = [])"
| "contains_sub p (c # cs) = (starts_with (c # cs) p \<or> contains_sub p cs)"

text \<open>\<^verbatim>\<open>sep.join(parts)\<close>\<close>

fun py_join :: "string \<Rightarrow> string list \<Rightarrow> string" where
  "py_join sep [] = []"
| "py_join sep [x] = x"
| "py_join sep (x # y # ys) = x @ sep @ py_join sep (y # ys)"

text \<open>\<^verbatim>\<open>str(n)\<close> for an integer.\<close>

fun show_nat :: "nat \<Rightarrow> string" where
  "show_nat n = (if n < 10 then [char_of (48 + n)] else show_nat (n div 10) @ [char_of (48 + n mod 10)])"

declare show_nat.simps [simp del]

definition show_int :: "int \<Rightarrow> string" where
  "show_int i = (if i < 0 then ''-'' @ show_nat (nat (- i)) else show_nat (nat i))"

text \<open>\<^verbatim>\<open>s[:n]\<close>: the first \<open>n\<close> characters, so that no UTF-8 sequence is cut.\<close>

fun py_take :: "nat \<Rightarrow> string \<Rightarrow> string" where
  "py_take n [] = []"
| "py_take n (c # s) =
     (if 128 \<le> (of_char c :: nat) \<and> (of_char c :: nat) < 192 then c # py_take n s
      else (case n of 0 \<Rightarrow> [] | Suc m \<Rightarrow> c # py_take m s))"

lemma starts_with_append [simp]: "starts_with (p @ s) p"
  by (simp add: starts_with_def)

lemma starts_with_iff: "starts_with s p \<longleftrightarrow> (\<exists>t. s = p @ t)"
proof
  assume "starts_with s p"
  then have "s = p @ drop (length p) s"
    by (metis append_take_drop_id starts_with_def)
  then show "\<exists>t. s = p @ t" ..
qed auto

lemma ends_with_append [simp]: "ends_with (s @ p) p"
  by (simp add: ends_with_def)

lemma ends_with_iff: "ends_with s p \<longleftrightarrow> (\<exists>t. s = t @ p)"
proof
  assume "ends_with s p"
  then have "s = take (length s - length p) s @ p"
    by (metis append_take_drop_id ends_with_def)
  then show "\<exists>t. s = t @ p" ..
qed auto

lemma chop_end_append [simp]: "chop_end (s @ p) p = s"
  by (simp add: chop_end_def)

lemma py_join_colon_inj:
  assumes "length xs = length ys" and "\<forall>x\<in>set xs. CHR '':'' \<notin> set x" and "\<forall>y\<in>set ys. CHR '':'' \<notin> set y"
    and "py_join '':'' xs = py_join '':'' ys"
  shows "xs = ys"
  using assms
proof (induction xs ys rule: list_induct2)
  case Nil
  then show ?case by simp
next
  case (Cons x xs y ys)
  show ?case
  proof (cases xs)
    case Nil
    with Cons.hyps have "ys = []" by simp
    with Nil Cons.prems show ?thesis by simp
  next
    case (Cons x' xs')
    then obtain y' ys' where ys: "ys = y' # ys'" using Cons.hyps by (cases ys) auto
    have eq: "x @ CHR '':'' # py_join '':'' xs = y @ CHR '':'' # py_join '':'' ys"
      using Cons.prems(3) Cons ys by simp
    have "CHR '':'' \<notin> set x" "CHR '':'' \<notin> set y" using Cons.prems by auto
    with eq have "x = y \<and> py_join '':'' xs = py_join '':'' ys"
      by (auto simp: append_eq_append_conv2 Cons_eq_append_conv append_eq_Cons_conv)
    with Cons.IH Cons.prems show ?thesis by simp
  qed
qed

section \<open>Sorting and sets\<close>

text \<open>\<^verbatim>\<open>sorted(set(xs))\<close>\<close>

definition sorted_set :: "'a::linorder list \<Rightarrow> 'a list" where
  "sorted_set xs = sort (remdups xs)"

lemma set_sorted_set [simp]: "set (sorted_set xs) = set xs"
  by (simp add: sorted_set_def)

lemma distinct_sorted_set [simp]: "distinct (sorted_set xs)"
  by (simp add: sorted_set_def)

lemma sorted_sorted_set [simp]: "sorted (sorted_set xs)"
  by (simp add: sorted_set_def)

lemma sorted_set_cong: "set xs = set ys \<Longrightarrow> sorted_set xs = sorted_set ys"
  by (rule sorted_distinct_set_unique) simp_all

lemma sorted_set_eq_Nil [simp]: "sorted_set xs = [] \<longleftrightarrow> xs = []"
  by (metis set_empty set_sorted_set)

lemma sort_mset_cong: "mset xs = mset ys \<Longrightarrow> sort xs = sort ys"
  by (metis mset_sort properties_for_sort sorted_sort)

text \<open>Sorting by a key that is injective on the elements forgets the input order.\<close>

lemma sort_key_mset_cong:
  assumes "mset xs = mset ys" and "inj_on f (set xs)"
  shows "sort_key f xs = sort_key f ys"
proof (rule properties_for_sort_key)
  show "mset (sort_key f ys) = mset xs" using assms(1) by simp
  show "sorted (map f (sort_key f ys))" by simp
  fix k assume "k \<in> set (sort_key f ys)"
  with assms(1) have k: "k \<in> set xs" by (metis set_mset_mset set_sort)
  have *: "filter (\<lambda>x. f k = f x) zs = replicate (count (mset xs) k) k"
    if "mset zs = mset xs" for zs
  proof -
    have "filter (\<lambda>x. f k = f x) zs = filter (\<lambda>x. k = x) zs"
      using k assms(2) that
      by (intro filter_cong) (auto simp: inj_on_def dest: mset_eq_setD)
    also have "\<dots> = replicate (count (mset zs) k) k"
      by (induction zs) auto
    finally show ?thesis using that by simp
  qed
  show "filter (\<lambda>x. f k = f x) (sort_key f ys) = filter (\<lambda>x. f k = f x) xs"
    using assms(1) by (simp add: *)
qed

lemma find_SomeD: "find P xs = Some x \<Longrightarrow> x \<in> set xs \<and> P x"
  by (induction xs) (auto split: if_splits)

section \<open>Association lists as dictionaries\<close>

text \<open>A Python dictionary or a JSON object is an association list: \<open>map_of\<close> looks a key up,
  \<^const>\<open>AList.update\<close> assigns, and \<open>dict_merge\<close> is \<^verbatim>\<open>{**a, **b}\<close>,
  \<^verbatim>\<open>a.update(b)\<close> and PostgreSQL's \<^verbatim>\<open>a || b\<close>.\<close>

definition dict_merge :: "('k \<times> 'v) list \<Rightarrow> ('k \<times> 'v) list \<Rightarrow> ('k \<times> 'v) list" where
  "dict_merge a b = AList.merge a b"

lemma map_of_dict_merge [simp]: "map_of (dict_merge a b) = map_of a ++ map_of b"
  by (rule ext) (simp add: dict_merge_def merge_conv)

lemma dict_merge_Nil [simp]: "dict_merge a [] = a"
  by (simp add: dict_merge_def AList.merge_def)

lemma dict_merge_single: "dict_merge a [(k, v)] = AList.update k v a"
  by (simp add: dict_merge_def AList.merge_def)

lemma distinct_dict_merge: "distinct (map fst a) \<Longrightarrow> distinct (map fst (dict_merge a b))"
  unfolding dict_merge_def by (rule distinct_merge)

lemma map_of_update_same [simp]: "map_of (AList.update k v a) k = Some v"
  by (simp add: update_conv)

lemma map_of_update_other [simp]: "k' \<noteq> k \<Longrightarrow> map_of (AList.update k v a) k' = map_of a k'"
  by (simp add: update_conv)

end
