(* ===== verification/Json_Value.thy ===== *)
theory Json_Value
  imports Tgw_Prelude
begin

text \<open>
  JSON values as the queue payloads, provider requests and receipts carry them, the two
  equalities the code compares them with (Python's \<^verbatim>\<open>==\<close> and PostgreSQL's jsonb equality),
  the canonical text \<^verbatim>\<open>json.dumps(value, sort_keys=True, separators=(",", ":"),
  ensure_ascii=False)\<close> that every content hash of the program is taken of, and the
  validator \<^verbatim>\<open>_validate_json_value\<close> of \<^verbatim>\<open>queue/state_machine.py\<close> that guards durable
  checkpoints. The theorems show that the validator accepts exactly the JSON values.
\<close>

section \<open>Values\<close>

datatype json =
    JNull
  | JBool bool
  | JInt int
  | JFloat rat
  | JStr string
  | JList "json list"
  | JObj "(string \<times> json) list"

type_synonym jobj = "(string \<times> json) list"

text \<open>\<^verbatim>\<open>d.get(key)\<close>: Python's \<^verbatim>\<open>None\<close> is \<^term>\<open>JNull\<close>.\<close>

definition jget :: "jobj \<Rightarrow> string \<Rightarrow> json" where
  "jget d k = (case map_of d k of None \<Rightarrow> JNull | Some v \<Rightarrow> v)"

definition has_key :: "jobj \<Rightarrow> string \<Rightarrow> bool" where
  "has_key d k = (map_of d k \<noteq> None)"

fun is_jstr :: "json \<Rightarrow> bool" where
  "is_jstr (JStr _) = True"
| "is_jstr _ = False"

fun jstr :: "json \<Rightarrow> string option" where
  "jstr (JStr s) = Some s"
| "jstr _ = None"

fun jobj_of :: "json \<Rightarrow> jobj option" where
  "jobj_of (JObj d) = Some d"
| "jobj_of _ = None"

text \<open>\<^verbatim>\<open>isinstance(value, str) and value\<close> and \<^verbatim>\<open>isinstance(value, str) and value.strip()\<close>\<close>

fun nonempty_str :: "json \<Rightarrow> bool" where
  "nonempty_str (JStr s) = (s \<noteq> [])"
| "nonempty_str _ = False"

fun nonblank_str :: "json \<Rightarrow> bool" where
  "nonblank_str (JStr s) = non_blank s"
| "nonblank_str _ = False"

text \<open>Python truth of a value.\<close>

fun truthy :: "json \<Rightarrow> bool" where
  "truthy JNull = False"
| "truthy (JBool b) = b"
| "truthy (JInt i) = (i \<noteq> 0)"
| "truthy (JFloat r) = (r \<noteq> 0)"
| "truthy (JStr s) = (s \<noteq> [])"
| "truthy (JList xs) = (xs \<noteq> [])"
| "truthy (JObj d) = (d \<noteq> [])"

definition jstrs :: "string list \<Rightarrow> json" where
  "jstrs xs = JList (map JStr xs)"

section \<open>Equality\<close>

text \<open>
  Two JSON values are equal when they have the same normal form: objects sorted by key, an
  integral float as the integer it equals, and, for Python's \<^verbatim>\<open>==\<close> but not for jsonb, a
  boolean as the integer it equals.
\<close>

primrec json_norm :: "bool \<Rightarrow> json \<Rightarrow> json" where
  "json_norm ib JNull = JNull"
| "json_norm ib (JBool b) = (if ib then JInt (if b then 1 else 0) else JBool b)"
| "json_norm ib (JInt i) = JInt i"
| "json_norm ib (JFloat r) = (if of_int \<lfloor>r\<rfloor> = r then JInt \<lfloor>r\<rfloor> else JFloat r)"
| "json_norm ib (JStr s) = JStr s"
| "json_norm ib (JList xs) = JList (map (json_norm ib) xs)"
| "json_norm ib (JObj d) =
     JObj (sort_key fst (AList.clearjunk (map (map_prod id (json_norm ib)) d)))"

definition py_eq :: "json \<Rightarrow> json \<Rightarrow> bool" where
  "py_eq a b = (json_norm True a = json_norm True b)"

definition jsonb_eq :: "json \<Rightarrow> json \<Rightarrow> bool" where
  "jsonb_eq a b = (json_norm False a = json_norm False b)"

lemma py_eq_refl [simp]: "py_eq a a"
  by (simp add: py_eq_def)

lemma jsonb_eq_refl [simp]: "jsonb_eq a a"
  by (simp add: jsonb_eq_def)

lemma json_norm_JStr_iff [simp]: "json_norm ib v = JStr s \<longleftrightarrow> v = JStr s"
  by (cases v) auto

lemma py_eq_JStr [simp]: "py_eq v (JStr s) \<longleftrightarrow> v = JStr s" "py_eq (JStr s) v \<longleftrightarrow> v = JStr s"
  unfolding py_eq_def by (metis json_norm.simps(5) json_norm_JStr_iff)+

lemma py_eq_JNull [simp]: "py_eq v JNull \<longleftrightarrow> v = JNull"
  by (cases v) (auto simp: py_eq_def)

lemma map_of_map_prod_id: "map_of (map (map_prod id f) d) k = map_option f (map_of d k)"
  by (induction d) auto

section \<open>Canonical text\<close>

text \<open>
  What the program takes from the host: the SHA-256 digest and the shortest decimal form of
  a binary float. Nothing is assumed of either.
\<close>

record pylib =
  sha256_hex :: "string \<Rightarrow> string"
  float_repr :: "rat \<Rightarrow> string"

definition hex_digit :: "nat \<Rightarrow> char" where
  "hex_digit n = (if n < 10 then char_of (48 + n) else char_of (87 + n))"

definition esc_char :: "char \<Rightarrow> string" where
  "esc_char c =
     (if c = CHR 0x22 then [CHR 0x5C, CHR 0x22]
      else if c = CHR 0x5C then [CHR 0x5C, CHR 0x5C]
      else if c = CHR 0x0A then [CHR 0x5C, CHR ''n'']
      else if c = CHR 0x0D then [CHR 0x5C, CHR ''r'']
      else if c = CHR 0x09 then [CHR 0x5C, CHR ''t'']
      else if c = CHR 0x0C then [CHR 0x5C, CHR ''f'']
      else if c = CHR 0x08 then [CHR 0x5C, CHR ''b'']
      else if (of_char c :: nat) < 32
        then [CHR 0x5C, CHR ''u'', CHR ''0'', CHR ''0'', hex_digit (of_char c div 16), hex_digit (of_char c mod 16)]
      else [c])"

definition dump_str :: "string \<Rightarrow> string" where
  "dump_str s = [CHR 0x22] @ concat (map esc_char s) @ [CHR 0x22]"

text \<open>With \<^verbatim>\<open>ensure_ascii=True\<close>, the default of \<^verbatim>\<open>json.dumps\<close>, everything outside the printable
  ASCII range is escaped as UTF-16 code units; the UTF-8 bytes are decoded for that.\<close>

definition hex4 :: "nat \<Rightarrow> string" where
  "hex4 n = [hex_digit (n div 4096 mod 16), hex_digit (n div 256 mod 16), hex_digit (n div 16 mod 16), hex_digit (n mod 16)]"

definition esc_point :: "nat \<Rightarrow> string" where
  "esc_point n =
     (if n < 65536 then [CHR 0x5C, CHR ''u''] @ hex4 n
      else [CHR 0x5C, CHR ''u''] @ hex4 (55296 + (n - 65536) div 1024)
           @ [CHR 0x5C, CHR ''u''] @ hex4 (56320 + (n - 65536) mod 1024))"

fun cont_bytes :: "nat \<Rightarrow> nat \<Rightarrow> string \<Rightarrow> (nat \<times> string) option" where
  "cont_bytes acc 0 s = Some (acc, s)"
| "cont_bytes acc (Suc n) [] = None"
| "cont_bytes acc (Suc n) (c # s) =
     (if 128 \<le> (of_char c :: nat) \<and> (of_char c :: nat) < 192 then cont_bytes (acc * 64 + (of_char c - 128)) n s else None)"

lemma cont_bytes_length: "cont_bytes acc n s = Some (p, t) \<Longrightarrow> length t \<le> length s"
  by (induction acc n s rule: cont_bytes.induct) (auto split: if_splits)

definition lead_byte :: "nat \<Rightarrow> nat \<times> nat" where
  "lead_byte b = (if b < 224 then (b - 192, 1) else if b < 240 then (b - 224, 2) else (b - 240, 3))"

function esc_ascii :: "string \<Rightarrow> string" where
  "esc_ascii [] = []"
| "esc_ascii (c # s) =
     (if (of_char c :: nat) < 127 then esc_char c @ esc_ascii s
      else if (of_char c :: nat) < 192 then esc_point (of_char c) @ esc_ascii s
      else (case cont_bytes (fst (lead_byte (of_char c))) (snd (lead_byte (of_char c))) s of
              None \<Rightarrow> esc_point (of_char c) @ esc_ascii s
            | Some (p, t) \<Rightarrow> esc_point p @ esc_ascii t))"
  by pat_completeness auto
termination by (relation "measure length") (auto dest: cont_bytes_length)

definition dump_ascii :: "string \<Rightarrow> string" where
  "dump_ascii s = [CHR 0x22] @ esc_ascii s @ [CHR 0x22]"

text \<open>\<^verbatim>\<open>json.dumps\<close> with sorted keys and compact separators, for either way to write a string.\<close>

primrec dumps :: "(string \<Rightarrow> string) \<Rightarrow> pylib \<Rightarrow> json \<Rightarrow> string" where
  "dumps q lib JNull = ''null''"
| "dumps q lib (JBool b) = (if b then ''true'' else ''false'')"
| "dumps q lib (JInt i) = show_int i"
| "dumps q lib (JFloat r) = float_repr lib r"
| "dumps q lib (JStr s) = q s"
| "dumps q lib (JList xs) = ''['' @ py_join '','' (map (dumps q lib) xs) @ '']''"
| "dumps q lib (JObj d) =
     ''{'' @ py_join '',''
       (map (\<lambda>(k, t). q k @ '':'' @ t) (sort_key fst (map (map_prod id (dumps q lib)) d))) @ ''}''"

text \<open>\<^verbatim>\<open>_canonical\<close> of the workflow evaluator and of the provider-effect ledger.\<close>

definition canonical :: "pylib \<Rightarrow> json \<Rightarrow> string" where
  "canonical lib v = dumps dump_str lib v"

definition hash_json :: "pylib \<Rightarrow> json \<Rightarrow> string" where
  "hash_json lib v = sha256_hex lib (canonical lib v)"

text \<open>The canonical text of an object does not depend on the order of its entries.\<close>

lemma dumps_JObj_cong:
  assumes "distinct (map fst d)" and "mset d = mset d'"
  shows "dumps q lib (JObj d) = dumps q lib (JObj d')"
proof -
  let ?f = "map_prod id (dumps q lib) :: string \<times> json \<Rightarrow> string \<times> string"
  have "mset (map ?f d) = mset (map ?f d')" using assms(2) by (metis mset_map)
  moreover have "inj_on fst (set (map ?f d))"
    using assms(1) by (auto simp: distinct_map inj_on_def)
  ultimately have "sort_key fst (map ?f d) = sort_key fst (map ?f d')"
    by (rule sort_key_mset_cong)
  then show ?thesis by simp
qed

section \<open>Python values and their validation\<close>

text \<open>
  A Python value before it is known to be JSON: a dictionary may have keys of any type, a
  float may be infinite or not a number (\<^term>\<open>None\<close>), and \<open>PyOther\<close> is a value of any other
  type, with the name of the type.
\<close>

datatype pyval =
    PyNone
  | PyBool bool
  | PyInt int
  | PyFloat "rat option"
  | PyStr string
  | PyList "pyval list"
  | PyDict "(pyval \<times> pyval) list"
  | PyOther string

fun validate_json_value :: "pyval \<Rightarrow> string \<Rightarrow> unit result"
and validate_items :: "pyval list \<Rightarrow> nat \<Rightarrow> string \<Rightarrow> unit result"
and validate_entries :: "(pyval \<times> pyval) list \<Rightarrow> string \<Rightarrow> unit result" where
  "validate_json_value PyNone path = Ok ()"
| "validate_json_value (PyBool b) path = Ok ()"
| "validate_json_value (PyStr s) path = Ok ()"
| "validate_json_value (PyInt i) path = Ok ()"
| "validate_json_value (PyFloat r) path =
     (if r = None then Err (ValueError (path @ '' contains a non-finite number'')) else Ok ())"
| "validate_json_value (PyList xs) path = validate_items xs 0 path"
| "validate_json_value (PyDict d) path = validate_entries d path"
| "validate_json_value (PyOther ty) path = Err (TypeError (path @ '' contains non-JSON value '' @ ty))"
| "validate_items [] i path = Ok ()"
| "validate_items (x # xs) i path =
     (case validate_json_value x (path @ ''['' @ show_nat i @ '']'') of
        Inl e \<Rightarrow> Err e
      | Inr _ \<Rightarrow> validate_items xs (Suc i) path)"
| "validate_entries [] path = Ok ()"
| "validate_entries ((k, v) # d) path =
     (case k of
        PyStr key \<Rightarrow>
          (case validate_json_value v (path @ ''.'' @ key) of
             Inl e \<Rightarrow> Err e
           | Inr _ \<Rightarrow> validate_entries d path)
      | _ \<Rightarrow> Err (TypeError (path @ '' contains a non-string key'')))"

text \<open>The JSON value a Python value denotes, and back.\<close>

fun json_of :: "pyval \<Rightarrow> json option"
and jsons_of :: "pyval list \<Rightarrow> json list option"
and jobj_entries_of :: "(pyval \<times> pyval) list \<Rightarrow> jobj option" where
  "json_of PyNone = Some JNull"
| "json_of (PyBool b) = Some (JBool b)"
| "json_of (PyInt i) = Some (JInt i)"
| "json_of (PyFloat r) = map_option JFloat r"
| "json_of (PyStr s) = Some (JStr s)"
| "json_of (PyList xs) = map_option JList (jsons_of xs)"
| "json_of (PyDict d) = map_option JObj (jobj_entries_of d)"
| "json_of (PyOther ty) = None"
| "jsons_of [] = Some []"
| "jsons_of (x # xs) =
     (case json_of x of None \<Rightarrow> None | Some j \<Rightarrow> map_option ((#) j) (jsons_of xs))"
| "jobj_entries_of [] = Some []"
| "jobj_entries_of ((k, v) # d) =
     (case k of
        PyStr key \<Rightarrow>
          (case json_of v of None \<Rightarrow> None | Some j \<Rightarrow> map_option ((#) (key, j)) (jobj_entries_of d))
      | _ \<Rightarrow> None)"

primrec pyval_of :: "json \<Rightarrow> pyval" where
  "pyval_of JNull = PyNone"
| "pyval_of (JBool b) = PyBool b"
| "pyval_of (JInt i) = PyInt i"
| "pyval_of (JFloat r) = PyFloat (Some r)"
| "pyval_of (JStr s) = PyStr s"
| "pyval_of (JList xs) = PyList (map pyval_of xs)"
| "pyval_of (JObj d) = PyDict (map (map_prod PyStr pyval_of) d)"

lemma validate_iff_json_of:
  "is_ok (validate_json_value v p) \<longleftrightarrow> json_of v \<noteq> None"
  "is_ok (validate_items xs i p) \<longleftrightarrow> jsons_of xs \<noteq> None"
  "is_ok (validate_entries d p) \<longleftrightarrow> jobj_entries_of d \<noteq> None"
  by (induction v p and xs i p and d p
      rule: validate_json_value_validate_items_validate_entries.induct)
    (auto split: sum.splits option.splits pyval.splits)

lemma json_of_SomeD:
  "json_of v = Some j \<Longrightarrow> pyval_of j = v"
  "jsons_of xs = Some js \<Longrightarrow> map pyval_of js = xs"
  "jobj_entries_of d = Some es \<Longrightarrow> map (map_prod PyStr pyval_of) es = d"
  by (induction v and xs and d arbitrary: j and js and es
      rule: json_of_jsons_of_jobj_entries_of.induct)
    (auto split: option.splits pyval.splits)

lemma jsons_of_map: "(\<And>x. x \<in> set xs \<Longrightarrow> json_of (f x) = Some (g x)) \<Longrightarrow> jsons_of (map f xs) = Some (map g xs)"
  by (induction xs) auto

lemma jobj_entries_of_map:
  "\<forall>e\<in>set d. json_of (pyval_of (snd e)) = Some (snd e) \<Longrightarrow>
   jobj_entries_of (map (map_prod PyStr pyval_of) d) = Some d"
  by (induction d) auto

lemma json_of_pyval_of: "json_of (pyval_of j) = Some j"
proof (induction j)
  case (JList xs)
  then show ?case using jsons_of_map[of xs pyval_of "\<lambda>x. x"] by simp
next
  case (JObj d)
  have "\<forall>e\<in>set d. json_of (pyval_of (snd e)) = Some (snd e)"
    using JObj by (auto simp: snds.simps)
  then have "jobj_entries_of (map (map_prod PyStr pyval_of) d) = Some d"
    by (rule jobj_entries_of_map)
  then show ?case by simp
qed auto

text \<open>C38: the checkpoint validator accepts a Python value exactly when it is the image of a
  JSON value, at any path; so everything that reaches a durable checkpoint column is JSON and
  no JSON value is refused.\<close>

theorem validate_json_value_exact:
  "validate_json_value v path = Ok () \<longleftrightarrow> (\<exists>j. v = pyval_of j)"
proof -
  have "validate_json_value v path = Ok () \<longleftrightarrow> json_of v \<noteq> None"
    using validate_iff_json_of(1)[of v path]
    by (cases "validate_json_value v path") auto
  also have "\<dots> \<longleftrightarrow> (\<exists>j. v = pyval_of j)"
    using json_of_SomeD(1) json_of_pyval_of by fastforce
  finally show ?thesis .
qed

text \<open>A text is at least as long as the texts in it.\<close>

lemma py_join_length: "sum_list (map length xs) \<le> length (py_join sep xs)"
  by (induction sep xs rule: py_join.induct) simp_all

lemma dump_str_length: "length s \<le> length (dump_str s)"
proof -
  have "length s \<le> length (concat (map esc_char s))"
    by (induction s) (simp, simp add: esc_char_def)
  then show ?thesis by (simp add: dump_str_def)
qed

lemma canonical_str_length: "length s \<le> length (canonical lib (JStr s))"
  using dump_str_length[of s] by (simp add: canonical_def)

lemma canonical_obj_length: "(\<Sum>(k, v)\<leftarrow>d. length k + length (canonical lib v)) \<le> length (canonical lib (JObj d))"
proof -
  let ?f = "\<lambda>(k, t). dump_str k @ '':'' @ t"
  let ?ts = "map (map_prod id (dumps dump_str lib)) d"
  have "(case x of (k, v) \<Rightarrow> length k + length (canonical lib v)) \<le> length (?f (map_prod id (dumps dump_str lib) x))" for x
    using dump_str_length[of "fst x"] by (cases x) (simp add: canonical_def)
  then have "(\<Sum>(k, v)\<leftarrow>d. length k + length (canonical lib v)) \<le> sum_list (map length (map ?f ?ts))"
    unfolding map_map comp_def by (intro sum_list_mono)
  also have "\<dots> = sum_list (map length (map ?f (sort_key fst ?ts)))"
    by (simp only: mset_map mset_sort flip: sum_mset_sum_list)
  also have "\<dots> \<le> length (canonical lib (JObj d))"
    using py_join_length[of "map ?f (sort_key fst ?ts)" "'',''"] by (simp add: canonical_def)
  finally show ?thesis .
qed

end
