(* ===== verification/Queue_Names.thy ===== *)
theory Queue_Names
  imports Json_Value
begin

text \<open>
  The environment routing of eBay queues: \<^verbatim>\<open>normalize_ebay_environment\<close> of
  \<^verbatim>\<open>config.py\<close> and the name functions at the top of \<^verbatim>\<open>queue/state_machine.py\<close>. Production
  and sandbox share one queue table; the physical queue name, the payload stamp and the
  dedupe prefix keep their rows apart. The theorems show that a logical name and its
  physical route determine each other, that the two environments' routes of eBay queues are
  disjoint, and what a routed manifest carries. Names that already end in two sandbox
  suffixes escape the routing; the development states that as a theorem too.
\<close>

section \<open>Environments\<close>

definition EBAY_ENVIRONMENTS :: "string list" where
  "EBAY_ENVIRONMENTS = [''production'', ''sandbox'']"

text \<open>The argument is any Python value; \<^term>\<open>JNull\<close> is \<^verbatim>\<open>None\<close>.\<close>

definition bad_environment :: py_error where
  "bad_environment = ValueError (''ebay_environment must be exactly '' @
     [CHR 0x27] @ ''production'' @ [CHR 0x27] @ '' or '' @ [CHR 0x27] @ ''sandbox'' @ [CHR 0x27])"

definition normalize_ebay_environment :: "json \<Rightarrow> string result" where
  "normalize_ebay_environment v =
     (let environment = (if v = JNull then JStr ''production'' else v) in
      case environment of
        JStr s \<Rightarrow>
          (if s \<in> set EBAY_ENVIRONMENTS then Ok s
           else Err bad_environment)
      | _ \<Rightarrow> Err bad_environment)"

definition valid_env :: "string \<Rightarrow> bool" where
  "valid_env e = (e \<in> set EBAY_ENVIRONMENTS)"

lemma valid_env_iff: "valid_env e \<longleftrightarrow> e = ''production'' \<or> e = ''sandbox''"
  by (auto simp: valid_env_def EBAY_ENVIRONMENTS_def)

lemma normalize_Ok_valid: "normalize_ebay_environment v = Ok e \<Longrightarrow> valid_env e"
  by (auto simp: normalize_ebay_environment_def Let_def valid_env_def split: json.splits if_splits)

lemma normalize_valid [simp]: "valid_env e \<Longrightarrow> normalize_ebay_environment (JStr e) = Ok e"
  by (simp add: normalize_ebay_environment_def valid_env_def)

lemma normalize_None [simp]: "normalize_ebay_environment JNull = Ok ''production''"
  by (simp add: normalize_ebay_environment_def EBAY_ENVIRONMENTS_def)

lemma normalize_JStr_iff [simp]: "normalize_ebay_environment (JStr s) = Ok e \<longleftrightarrow> valid_env s \<and> e = s"
  by (auto simp: normalize_ebay_environment_def valid_env_def)

section \<open>Logical and physical names\<close>

definition EBAY_SANDBOX_QUEUE_SUFFIX :: string where
  "EBAY_SANDBOX_QUEUE_SUFFIX = ''@sandbox''"

definition EBAY_SANDBOX_DEDUPE_PREFIX :: string where
  "EBAY_SANDBOX_DEDUPE_PREFIX = ''ebay-environment:sandbox:''"

definition EBAY_ENVIRONMENT_SCOPED_LOCAL_QUEUES :: "string list" where
  "EBAY_ENVIRONMENT_SCOPED_LOCAL_QUEUES =
     [''ai_identify'', ''normalize_condition'', ''token_refresh'', ''workflow_evaluate'']"

definition logical_queue_name :: "string \<Rightarrow> string" where
  "logical_queue_name q =
     (if ends_with q EBAY_SANDBOX_QUEUE_SUFFIX then
        (let candidate = chop_end q EBAY_SANDBOX_QUEUE_SUFFIX in
         if starts_with candidate ''ebay_'' \<or> candidate \<in> set EBAY_ENVIRONMENT_SCOPED_LOCAL_QUEUES
         then candidate else q)
      else q)"

definition is_ebay_environment_scoped_queue :: "string \<Rightarrow> bool" where
  "is_ebay_environment_scoped_queue q =
     (let logical_name = logical_queue_name q in
      starts_with logical_name ''ebay_'' \<or> logical_name \<in> set EBAY_ENVIRONMENT_SCOPED_LOCAL_QUEUES)"

definition queue_name_for_environment :: "string \<Rightarrow> json \<Rightarrow> string result" where
  "queue_name_for_environment q environment =
     (case normalize_ebay_environment environment of
        Inl e \<Rightarrow> Err e
      | Inr selected \<Rightarrow>
          (let logical_name = logical_queue_name q in
           if \<not> is_ebay_environment_scoped_queue logical_name then Ok logical_name
           else if selected = ''sandbox'' then Ok (logical_name @ EBAY_SANDBOX_QUEUE_SUFFIX)
           else Ok logical_name))"

text \<open>The same function on an environment that is already normalised.\<close>

definition route_name :: "string \<Rightarrow> string \<Rightarrow> string" where
  "route_name q env =
     (let logical_name = logical_queue_name q in
      if is_ebay_environment_scoped_queue logical_name \<and> env = ''sandbox''
      then logical_name @ EBAY_SANDBOX_QUEUE_SUFFIX else logical_name)"

lemma queue_name_for_environment_route:
  "valid_env env \<Longrightarrow> queue_name_for_environment q (JStr env) = Ok (route_name q env)"
  by (simp add: queue_name_for_environment_def route_name_def Let_def)

definition queue_names_equivalent :: "json \<Rightarrow> json \<Rightarrow> bool" where
  "queue_names_equivalent actual logical_name =
     (case (actual, logical_name) of
        (JStr a, JStr l) \<Rightarrow> logical_queue_name a = logical_queue_name l
      | _ \<Rightarrow> False)"

definition queue_name_matches_environment :: "json \<Rightarrow> json \<Rightarrow> json \<Rightarrow> bool" where
  "queue_name_matches_environment actual logical_name environment =
     (case (actual, logical_name) of
        (JStr a, JStr l) \<Rightarrow>
          (case normalize_ebay_environment environment of
             Inl _ \<Rightarrow> False
           | Inr selected \<Rightarrow> queue_name_for_environment l (JStr selected) = Ok a)
      | _ \<Rightarrow> False)"

text \<open>\<open>env\<close> is the module variable \<^verbatim>\<open>_EBAY_QUEUE_ENVIRONMENT\<close>.\<close>

definition queue_name_visible_in_environment :: "string \<Rightarrow> json \<Rightarrow> json \<Rightarrow> bool result" where
  "queue_name_visible_in_environment env q environment =
     (case q of
        JStr s \<Rightarrow>
          (let logical_name = logical_queue_name s in
           if \<not> is_ebay_environment_scoped_queue logical_name then Ok True
           else (case (if environment = JNull then Ok env else normalize_ebay_environment environment) of
                   Inl e \<Rightarrow> Err e
                 | Inr selected \<Rightarrow> Ok (queue_name_matches_environment (JStr s) (JStr logical_name) (JStr selected))))
      | _ \<Rightarrow> Ok False)"

definition scope_ebay_dedupe_key :: "string option \<Rightarrow> string \<Rightarrow> string option" where
  "scope_ebay_dedupe_key dk environment =
     (case dk of
        None \<Rightarrow> None
      | Some k \<Rightarrow>
          (if k = [] \<or> environment = ''production'' then Some k
           else if starts_with k EBAY_SANDBOX_DEDUPE_PREFIX then Some k
           else Some (EBAY_SANDBOX_DEDUPE_PREFIX @ k)))"

definition route_queue_manifest ::
  "string \<Rightarrow> string \<Rightarrow> jobj \<Rightarrow> string option \<Rightarrow> (string \<times> jobj \<times> string option) result" where
  "route_queue_manifest env q payload dk =
     (let logical_name = logical_queue_name q in
      if \<not> is_ebay_environment_scoped_queue logical_name then Ok (logical_name, payload, dk)
      else
        (case normalize_ebay_environment (JStr env) of
           Inl e \<Rightarrow> Err e
         | Inr configured \<Rightarrow>
             (let supplied = jget payload ''ebay_environment'' in
              case (if supplied = JNull then Ok configured
                    else (case normalize_ebay_environment supplied of
                            Inl e \<Rightarrow> Err e
                          | Inr s \<Rightarrow>
                              (if s \<noteq> configured
                               then Err (EbayQueueEnvironmentError logical_name)
                               else Ok s))) of
                Inl e \<Rightarrow> Err e
              | Inr environment \<Rightarrow>
                  (let routed_payload =
                         (if environment = ''sandbox'' \<and> jget payload ''ebay_environment'' \<noteq> JStr environment
                          then AList.update ''ebay_environment'' (JStr environment) payload else payload)
                   in case queue_name_for_environment logical_name (JStr environment) of
                        Inl e \<Rightarrow> Err e
                      | Inr routed \<Rightarrow>
                          Ok (routed, routed_payload, scope_ebay_dedupe_key dk environment)))))"

section \<open>Names that carry at most one suffix\<close>

text \<open>A queue name whose logical name is final: taking the logical name again changes
  nothing. Every name without a suffix of its own and every routed form of one is such.\<close>

definition single_suffix :: "string \<Rightarrow> bool" where
  "single_suffix q = (logical_queue_name (logical_queue_name q) = logical_queue_name q)"

lemma logical_no_suffix: "\<not> ends_with q EBAY_SANDBOX_QUEUE_SUFFIX \<Longrightarrow> logical_queue_name q = q"
  by (simp add: logical_queue_name_def)

lemma single_suffix_plain: "\<not> ends_with q EBAY_SANDBOX_QUEUE_SUFFIX \<Longrightarrow> single_suffix q"
  by (simp add: single_suffix_def logical_no_suffix)

lemma logical_suffix:
  "starts_with q ''ebay_'' \<or> q \<in> set EBAY_ENVIRONMENT_SCOPED_LOCAL_QUEUES \<Longrightarrow>
   logical_queue_name (q @ EBAY_SANDBOX_QUEUE_SUFFIX) = q"
  by (auto simp: logical_queue_name_def Let_def)

lemma logical_route_name:
  assumes "single_suffix q"
  shows "logical_queue_name (route_name q env) = logical_queue_name q"
proof (cases "is_ebay_environment_scoped_queue (logical_queue_name q) \<and> env = ''sandbox''")
  case True
  let ?l = "logical_queue_name q"
  from assms have l: "logical_queue_name ?l = ?l" by (simp add: single_suffix_def)
  with True have "starts_with ?l ''ebay_'' \<or> ?l \<in> set EBAY_ENVIRONMENT_SCOPED_LOCAL_QUEUES"
    by (simp add: is_ebay_environment_scoped_queue_def Let_def)
  then have "logical_queue_name (?l @ EBAY_SANDBOX_QUEUE_SUFFIX) = ?l" by (rule logical_suffix)
  with True show ?thesis by (simp add: route_name_def)
next
  case False
  then have "route_name q env = logical_queue_name q"
    unfolding route_name_def Let_def by (rule if_not_P)
  with assms show ?thesis by (simp add: single_suffix_def)
qed

lemma single_suffix_route: "single_suffix q \<Longrightarrow> single_suffix (route_name q env)"
  by (simp add: single_suffix_def logical_route_name)

lemma scoped_logical:
  "single_suffix q \<Longrightarrow> is_ebay_environment_scoped_queue (logical_queue_name q) = is_ebay_environment_scoped_queue q"
  by (simp add: is_ebay_environment_scoped_queue_def single_suffix_def)

lemma route_name_cases:
  assumes "single_suffix q"
  shows "route_name q env =
    (if is_ebay_environment_scoped_queue q \<and> env = ''sandbox''
     then logical_queue_name q @ EBAY_SANDBOX_QUEUE_SUFFIX else logical_queue_name q)"
  using assms by (simp add: route_name_def scoped_logical Let_def)

lemma suffix_nonempty [simp]: "EBAY_SANDBOX_QUEUE_SUFFIX \<noteq> []"
  by (simp add: EBAY_SANDBOX_QUEUE_SUFFIX_def)

lemma route_name_disjoint:
  assumes "single_suffix q" "single_suffix q'" "is_ebay_environment_scoped_queue q"
  shows "route_name q ''production'' \<noteq> route_name q' ''sandbox''"
proof
  assume eq: "route_name q ''production'' = route_name q' ''sandbox''"
  then have l: "logical_queue_name q = logical_queue_name q'"
    using logical_route_name assms(1,2) by metis
  then have "is_ebay_environment_scoped_queue q'"
    using assms by (metis scoped_logical)
  with eq assms l show False by (simp add: route_name_cases)
qed

text \<open>Routing is idempotent and loses no identity: for every queue name that does not
  already carry two sandbox suffixes, the logical name of its route in either environment is
  its own logical name, and routing the route again gives the route of the second
  environment.\<close>

lemma queue_route_roundtrip:
  assumes "single_suffix q" and "valid_env env" and "valid_env env'"
  shows "\<exists>r. queue_name_for_environment q (JStr env) = Ok r
           \<and> logical_queue_name r = logical_queue_name q
           \<and> queue_name_for_environment r (JStr env') = queue_name_for_environment q (JStr env')"
proof (intro exI conjI)
  show "queue_name_for_environment q (JStr env) = Ok (route_name q env)"
    using assms(2) by (rule queue_name_for_environment_route)
  show "logical_queue_name (route_name q env) = logical_queue_name q"
    using assms(1) by (rule logical_route_name)
  then have "route_name (route_name q env) env' = route_name q env'"
    by (simp add: route_name_def)
  then show "queue_name_for_environment (route_name q env) (JStr env') = queue_name_for_environment q (JStr env')"
    using assms(3) by (simp add: queue_name_for_environment_route)
qed

text \<open>The two environments never share a physical eBay queue: the production route of
  an eBay queue is not the sandbox route of any queue, and a sandbox payload is always
  stamped with its environment.\<close>

lemma environment_routes_disjoint:
  assumes "single_suffix q" "single_suffix q'" and "is_ebay_environment_scoped_queue q"
    and "route_queue_manifest ''production'' q p dk = Ok (r, p1, dk1)"
    and "route_queue_manifest ''sandbox'' q' p' dk' = Ok (r', p2, dk2)"
  shows "r \<noteq> r' \<and> (is_ebay_environment_scoped_queue q' \<longrightarrow> jget p2 ''ebay_environment'' = JStr ''sandbox'')"
proof -
  have v: "valid_env ''production''" "valid_env ''sandbox''" by (simp_all add: valid_env_iff)
  have r: "r = route_name q ''production''"
    using assms(1,3,4) v
    by (auto simp: route_queue_manifest_def Let_def scoped_logical queue_name_for_environment_route
        route_name_def single_suffix_def split: if_splits sum.splits)
  have r': "r' = route_name q' ''sandbox''"
    using assms(2,5) v
    by (auto simp: route_queue_manifest_def Let_def scoped_logical queue_name_for_environment_route
        route_name_def single_suffix_def split: if_splits sum.splits)
  have "jget p2 ''ebay_environment'' = JStr ''sandbox''" if "is_ebay_environment_scoped_queue q'"
    using assms(2,5) v that
    by (auto simp: route_queue_manifest_def Let_def scoped_logical jget_def split: if_splits sum.splits)
  with r r' route_name_disjoint[OF assms(1-3)] show ?thesis by simp
qed

text \<open>A name that already carries two sandbox suffixes escapes the routing. The
  docstring calls the helper idempotent, yet the production route of
  \<^verbatim>\<open>ebay_stage@sandbox@sandbox\<close> is the sandbox queue of \<^verbatim>\<open>ebay_stage\<close>, and routing that
  again in production gives a third name.\<close>

lemma double_suffix_escapes_routing:
  "queue_name_for_environment ''ebay_stage@sandbox@sandbox'' (JStr ''production'')
     = queue_name_for_environment ''ebay_stage'' (JStr ''sandbox'')
   \<and> queue_name_for_environment ''ebay_stage@sandbox'' (JStr ''production'') = Ok ''ebay_stage''"
  by code_simp

section \<open>What a routed manifest carries\<close>

lemma route_queue_manifest_unscoped:
  "\<not> is_ebay_environment_scoped_queue (logical_queue_name q) \<Longrightarrow>
   route_queue_manifest env q payload dk = Ok (logical_queue_name q, payload, dk)"
  by (simp add: route_queue_manifest_def)

lemma route_queue_manifest_production:
  "route_queue_manifest ''production'' q payload dk = Ok (r, p, k) \<Longrightarrow> p = payload \<and> k = dk"
  by (auto simp: route_queue_manifest_def Let_def scope_ebay_dedupe_key_def valid_env_iff
      split: if_splits sum.splits option.splits)

lemma route_queue_manifest_dedupe_None:
  "route_queue_manifest env q payload dk = Ok (r, p, k) \<Longrightarrow> k = None \<longleftrightarrow> dk = None"
  by (auto simp: route_queue_manifest_def Let_def scope_ebay_dedupe_key_def
      split: if_splits sum.splits option.splits)

lemma route_queue_manifest_env_conflict:
  assumes "is_ebay_environment_scoped_queue (logical_queue_name q)" "valid_env env"
    and "jget payload ''ebay_environment'' = JStr e" "valid_env e" "e \<noteq> env"
  shows "route_queue_manifest env q payload dk = Err (EbayQueueEnvironmentError (logical_queue_name q))"
  using assms by (simp add: route_queue_manifest_def)

lemma jget_update_other [simp]: "k' \<noteq> k \<Longrightarrow> jget (AList.update k v d) k' = jget d k'"
  by (simp add: jget_def)

lemma jget_update_same [simp]: "jget (AList.update k v d) k = v"
  by (simp add: jget_def)

lemma route_queue_manifest_payload:
  assumes "route_queue_manifest env q payload dk = Ok (r, p, k)" and "key \<noteq> ''ebay_environment''"
  shows "jget p key = jget payload key"
  using assms by (auto simp: route_queue_manifest_def Let_def split: if_splits sum.splits)

end
