(* ===== verification/Queue_Rules.thy ===== *)
theory Queue_Rules
  imports Queue_Names
begin

text \<open>
  The job life cycle as \<^verbatim>\<open>queue/state_machine.py\<close> declares it: the states, the table of
  allowed transitions and the rule table, with the two functions that read them, the choice
  of the failure state, the retry delay of \<^verbatim>\<open>mark_failed\<close> and the priority lookup. The
  theorems show that the two tables agree on every pair of strings, so that
  \<^verbatim>\<open>validate_transition\<close> never misses a rule, and that the retry delay stays within its
  bounds and grows with the attempts.
\<close>

section \<open>States\<close>

datatype job_state =
  Queued | Leased | Running | Retry_wait | Succeeded | Failed | Dead_letter | Cancelled

fun state_name :: "job_state \<Rightarrow> string" where
  "state_name Queued = ''queued''"
| "state_name Leased = ''leased''"
| "state_name Running = ''running''"
| "state_name Retry_wait = ''retry_wait''"
| "state_name Succeeded = ''succeeded''"
| "state_name Failed = ''failed''"
| "state_name Dead_letter = ''dead_letter''"
| "state_name Cancelled = ''cancelled''"

lemma state_name_inj [simp]: "state_name a = state_name b \<longleftrightarrow> a = b"
  by (cases a; cases b) simp_all

definition STATES :: "string list" where
  "STATES = [''queued'', ''leased'', ''running'', ''retry_wait'', ''succeeded'', ''failed'',
             ''dead_letter'', ''cancelled'']"

definition ALLOWED_TRANSITIONS :: "(string \<times> string list) list" where
  "ALLOWED_TRANSITIONS =
     [(''queued'', [''leased'', ''cancelled'']),
      (''leased'', [''running'', ''queued'', ''cancelled'', ''dead_letter'']),
      (''running'', [''succeeded'', ''retry_wait'', ''failed'', ''queued'', ''cancelled'', ''dead_letter'']),
      (''retry_wait'', [''queued'', ''cancelled'', ''dead_letter'']),
      (''failed'', [''dead_letter'', ''queued'', ''cancelled'']),
      (''succeeded'', []),
      (''dead_letter'', [''queued'', ''cancelled'']),
      (''cancelled'', [''queued''])]"

record transition_rule =
  old_state :: string
  new_state :: string
  requires_worker :: bool
  terminal :: bool

definition rule :: "string \<Rightarrow> string \<Rightarrow> bool \<Rightarrow> bool \<Rightarrow> (string \<times> string) \<times> transition_rule" where
  "rule a b w t = ((a, b), \<lparr>old_state = a, new_state = b, requires_worker = w, terminal = t\<rparr>)"

definition RULES :: "((string \<times> string) \<times> transition_rule) list" where
  "RULES =
     [rule ''queued'' ''leased'' True False,
      rule ''leased'' ''running'' True False,
      rule ''leased'' ''queued'' False False,
      rule ''leased'' ''dead_letter'' False True,
      rule ''running'' ''succeeded'' True True,
      rule ''running'' ''retry_wait'' True False,
      rule ''running'' ''failed'' True True,
      rule ''running'' ''dead_letter'' False True,
      rule ''running'' ''queued'' False False,
      rule ''retry_wait'' ''queued'' False False,
      rule ''retry_wait'' ''dead_letter'' False True,
      rule ''failed'' ''dead_letter'' False True,
      rule ''failed'' ''queued'' False False,
      rule ''dead_letter'' ''queued'' False False,
      rule ''queued'' ''cancelled'' False True,
      rule ''leased'' ''cancelled'' False True,
      rule ''running'' ''cancelled'' False True,
      rule ''retry_wait'' ''cancelled'' False True,
      rule ''failed'' ''cancelled'' False True,
      rule ''dead_letter'' ''cancelled'' False True,
      rule ''cancelled'' ''queued'' False False]"

definition can_transition :: "string \<Rightarrow> string \<Rightarrow> bool" where
  "can_transition a b =
     (if a \<notin> set STATES \<or> b \<notin> set STATES then False
      else (case map_of ALLOWED_TRANSITIONS a of None \<Rightarrow> False | Some bs \<Rightarrow> b \<in> set bs))"

definition validate_transition :: "string \<Rightarrow> string \<Rightarrow> string option \<Rightarrow> transition_rule result" where
  "validate_transition a b worker_id =
     (if \<not> can_transition a b
      then Err (ValueError (''invalid transition: '' @ a @ '' -> '' @ b))
      else (case map_of RULES (a, b) of
              None \<Rightarrow> Err (KeyError (a @ b))
            | Some r \<Rightarrow>
                (if requires_worker r \<and> (worker_id = None \<or> worker_id = Some [])
                 then Err (ValueError (''transition '' @ a @ '' -> '' @ b @ '' requires worker_id''))
                 else Ok r)))"

definition next_failure_state :: "int \<Rightarrow> int \<Rightarrow> job_state" where
  "next_failure_state attempts limit = (if attempts \<ge> limit then Failed else Retry_wait)"

text \<open>\<^verbatim>\<open>min(30 * (2 ** (attempt - 1)), 3600)\<close>; a non-positive exponent gives a Python float.\<close>

definition retry_backoff :: "int \<Rightarrow> rat" where
  "retry_backoff attempt =
     min (30 * (if attempt \<ge> 1 then 2 ^ nat (attempt - 1) else 1 / 2 ^ nat (1 - attempt))) 3600"

section \<open>Priorities\<close>

text \<open>\<open>file\<close> is the parsed priority file, an error when it is missing or cannot be read; the
  second component of the result is the module-level cache.\<close>

definition load_queue_priorities :: "jobj option \<Rightarrow> json result \<Rightarrow> jobj \<times> jobj option" where
  "load_queue_priorities cache file =
     (case cache of
        Some cfg \<Rightarrow> (cfg, cache)
      | None \<Rightarrow>
          (let cfg = (case file of
                        Inr (JObj raw) \<Rightarrow> filter (\<lambda>(k, v). \<not> starts_with k ''_'') raw
                      | _ \<Rightarrow> [])
           in (cfg, Some cfg)))"

definition resolve_priority :: "jobj \<Rightarrow> string \<Rightarrow> string \<Rightarrow> int result" where
  "resolve_priority cfg q op =
     (case jget cfg (q @ '':'' @ op) of
        JNull \<Rightarrow> Ok 100
      | JInt i \<Rightarrow> Ok i
      | JBool b \<Rightarrow> Ok (if b then 1 else 0)
      | JObj entry \<Rightarrow>
          (if has_key entry ''use_default'' then
             (case (if has_key cfg ''defaults'' then jget cfg ''defaults'' else JObj []) of
                JObj defaults \<Rightarrow>
                  (case jget entry ''use_default'' of
                     JStr default_name \<Rightarrow>
                       (case jget defaults default_name of
                          JInt i \<Rightarrow> Ok i
                        | JBool b \<Rightarrow> Ok (if b then 1 else 0)
                        | _ \<Rightarrow> Ok 100)
                   | JList _ \<Rightarrow> Err (TypeError ''unhashable type'')
                   | JObj _ \<Rightarrow> Err (TypeError ''unhashable type'')
                   | _ \<Rightarrow> Ok 100)
              | _ \<Rightarrow> Err (AttributeError ''get''))
           else Ok 100)
      | _ \<Rightarrow> Ok 100)"

lemma resolve_priority_empty [simp]: "resolve_priority [] q op = Ok 100"
  by (simp add: resolve_priority_def jget_def)

section \<open>Properties of the tables\<close>

definition terminal_names :: "string list" where
  "terminal_names = [''succeeded'', ''failed'', ''dead_letter'', ''cancelled'']"

definition rule_ok :: "string \<Rightarrow> string \<Rightarrow> bool" where
  "rule_ok a b = (case map_of RULES (a, b) of None \<Rightarrow> False | Some r \<Rightarrow>
     old_state r = a \<and> new_state r = b \<and> (terminal r \<longleftrightarrow> b \<in> set terminal_names))"

lemma rules_allowed: "list_all (\<lambda>(a, b). can_transition a b) (map fst RULES)"
  by code_simp

lemma allowed_rules: "list_all (\<lambda>(a, bs). list_all (rule_ok a) bs) ALLOWED_TRANSITIONS"
  by code_simp

lemma can_transitionD:
  "can_transition a b \<Longrightarrow> \<exists>bs. (a, bs) \<in> set ALLOWED_TRANSITIONS \<and> b \<in> set bs"
  by (auto simp: can_transition_def split: if_splits option.splits dest: map_of_SomeD)

text \<open>The transition table and the rule table describe the same relation: for every
  pair of strings a rule is registered exactly when the transition is allowed, the rule is
  about that pair, and it is marked terminal exactly when its target state is a terminal one.
  Hence \<^verbatim>\<open>validate_transition\<close> never fails with a missing rule.\<close>

lemma rules_match_transitions:
  "can_transition a b \<longleftrightarrow>
     (\<exists>r. map_of RULES (a, b) = Some r \<and> old_state r = a \<and> new_state r = b
        \<and> (terminal r \<longleftrightarrow> b \<in> set terminal_names))"
proof
  assume "can_transition a b"
  then obtain bs where "(a, bs) \<in> set ALLOWED_TRANSITIONS" "b \<in> set bs"
    using can_transitionD by blast
  then have "rule_ok a b"
    using allowed_rules by (fastforce simp: list_all_iff)
  then show "\<exists>r. map_of RULES (a, b) = Some r \<and> old_state r = a \<and> new_state r = b
        \<and> (terminal r \<longleftrightarrow> b \<in> set terminal_names)"
    by (auto simp: rule_ok_def split: option.splits)
next
  assume "\<exists>r. map_of RULES (a, b) = Some r \<and> old_state r = a \<and> new_state r = b
        \<and> (terminal r \<longleftrightarrow> b \<in> set terminal_names)"
  then have "(a, b) \<in> set (map fst RULES)"
    by (force dest: map_of_SomeD)
  then show "can_transition a b"
    using rules_allowed by (auto simp: list_all_iff)
qed

text \<open>The retry delay of a job that has been claimed at least once is between half a
  minute and an hour, never shrinks from one attempt to the next, and doubles until the cap.\<close>

lemma retry_backoff_bounds:
  assumes "1 \<le> attempt"
  shows "30 \<le> retry_backoff attempt \<and> retry_backoff attempt \<le> 3600
    \<and> retry_backoff attempt \<le> retry_backoff (attempt + 1)
    \<and> (retry_backoff (attempt + 1) < 3600 \<longrightarrow> retry_backoff (attempt + 1) = 2 * retry_backoff attempt)"
proof -
  define n where "n = nat (attempt - 1)"
  have n: "nat (attempt + 1 - 1) = Suc n" using assms by (simp add: n_def)
  have e: "retry_backoff attempt = min (30 * 2 ^ n) 3600"
    "retry_backoff (attempt + 1) = min (30 * 2 ^ Suc n) 3600"
    using assms n by (simp_all add: retry_backoff_def n_def)
  have "(1::rat) \<le> 2 ^ n" by simp
  then show ?thesis unfolding e by (auto simp: min_def)
qed

end
