(* ===== verification/Queue_Table.thy ===== *)
theory Queue_Table
  imports Queue_Rules
begin

text \<open>
  The table \<^verbatim>\<open>queue_jobs\<close> with its history table, and the statements the program runs on
  them, from \<^verbatim>\<open>queue/live_schema.sql\<close>. A row is a record with the columns the code reads or
  writes (\<^verbatim>\<open>run_mode\<close>, \<^verbatim>\<open>remaining_runs\<close>, \<^verbatim>\<open>parent_job_id\<close> and \<^verbatim>\<open>trace_id\<close> are never
  written by the program and are left out); an \<^verbatim>\<open>UPDATE\<close> rewrites the rows its condition
  selects, runs the two row triggers and checks the column constraints and the partial unique
  index; an \<^verbatim>\<open>INSERT\<close> appends a row. Transactions run one after the other: a transaction that
  raises leaves the database as it was. \<^verbatim>\<open>NOW()\<close> is the argument \<open>now\<close> of a transaction,
  \<^verbatim>\<open>gen_random_uuid()\<close> an argument with the generated values.

  The second half is the set of SQL functions the Python code calls, and the facts about
  statements that the later theories use: what a statement leaves of the other rows, and
  that a row-wise property kept by the statement's row function is kept by the statement.
\<close>

section \<open>Rows and tables\<close>

record job =
  job_id :: uuid
  dedupe_key :: "string option"
  entity_type :: string
  entity_id :: string
  operation :: string
  handler_family :: string
  queue_name :: string
  priority :: int
  state :: job_state
  payload_json :: jobj
  run_at :: time
  not_before :: "time option"
  attempt_count :: int
  max_attempts :: int
  lease_owner :: "string option"
  lease_token :: "uuid option"
  lease_expires_at :: "time option"
  last_heartbeat_at :: "time option"
  error_code :: "string option"
  error_detail :: "string option"
  created_at :: time
  updated_at :: time
  started_at :: "time option"
  finished_at :: "time option"

record history_row =
  hist_job_id :: uuid
  hist_old_state :: job_state
  hist_new_state :: job_state
  hist_transition :: string
  hist_worker_id :: "string option"
  hist_created_at :: time

record queue_db =
  jobs :: "job list"
  history :: "history_row list"

text \<open>The transaction-local settings \<^verbatim>\<open>tgw.queue_transition\<close> and \<^verbatim>\<open>tgw.worker_id\<close>.\<close>

record settings =
  queue_transition :: "string option"
  worker_setting :: "string option"

definition no_settings :: settings where
  "no_settings = \<lparr>queue_transition = None, worker_setting = None\<rparr>"

definition terminal_states :: "job_state list" where
  "terminal_states = [Succeeded, Failed, Dead_letter, Cancelled]"

definition active_states :: "job_state list" where
  "active_states = [Queued, Retry_wait, Leased, Running]"

definition pending_states :: "job_state list" where
  "pending_states = [Queued, Retry_wait]"

definition leased_states :: "job_state list" where
  "leased_states = [Leased, Running]"

lemma active_iff_not_terminal: "s \<in> set active_states \<longleftrightarrow> s \<notin> set terminal_states"
  by (cases s) (simp_all add: active_states_def terminal_states_def)

text \<open>The keys of the rows that \<^verbatim>\<open>uq_queue_jobs_dedupe_key_active\<close> indexes; the index
  \<^verbatim>\<open>uq_queue_jobs_dedupe_key_pending\<close> covers a subset of the same rows.\<close>

definition active_keys :: "job list \<Rightarrow> string list" where
  "active_keys js = map (the \<circ> dedupe_key)
     (filter (\<lambda>j. dedupe_key j \<noteq> None \<and> state j \<notin> set terminal_states) js)"

definition uq_active :: "job list \<Rightarrow> bool" where
  "uq_active js = distinct (active_keys js)"

definition row_checks :: "job \<Rightarrow> bool" where
  "row_checks j = (attempt_count j \<ge> 0 \<and> max_attempts j \<ge> 0)"

section \<open>Statements\<close>

definition history_entry :: "settings \<Rightarrow> time \<Rightarrow> job \<Rightarrow> job \<Rightarrow> history_row list" where
  "history_entry cfg now old new =
     (if state new \<noteq> state old then
        [\<lparr>hist_job_id = job_id new, hist_old_state = state old, hist_new_state = state new,
          hist_transition = (case queue_transition cfg of None \<Rightarrow> ''state_change'' | Some t \<Rightarrow> t),
          hist_worker_id = worker_setting cfg, hist_created_at = now\<rparr>]
      else [])"

definition touch :: "time \<Rightarrow> (job \<Rightarrow> job) \<Rightarrow> job \<Rightarrow> job" where
  "touch now f j = (f j)\<lparr>updated_at := now\<rparr>"

text \<open>\<^verbatim>\<open>UPDATE queue_jobs SET f WHERE p RETURNING *\<close>\<close>

definition sql_update ::
  "settings \<Rightarrow> time \<Rightarrow> (job \<Rightarrow> bool) \<Rightarrow> (job \<Rightarrow> job) \<Rightarrow> queue_db \<Rightarrow> (job list \<times> queue_db) result" where
  "sql_update cfg now p f db =
     (let js = map (\<lambda>j. if p j then touch now f j else j) (jobs db);
          hs = concat (map (\<lambda>j. if p j then history_entry cfg now j (touch now f j) else []) (jobs db))
      in if \<not> list_all row_checks js then Err (CheckViolation ''queue_jobs'')
         else if \<not> uq_active js then Err (UniqueViolation ''uq_queue_jobs_dedupe_key_active'')
         else Ok (map (touch now f) (filter p (jobs db)), db\<lparr>jobs := js, history := history db @ hs\<rparr>))"

text \<open>The same where the caller treats a statement that matched no row as an error.\<close>

definition update_one ::
  "settings \<Rightarrow> time \<Rightarrow> (job \<Rightarrow> bool) \<Rightarrow> (job \<Rightarrow> job) \<Rightarrow> py_error \<Rightarrow> queue_db \<Rightarrow> (job \<times> queue_db) result" where
  "update_one cfg now p f e db =
     (case sql_update cfg now p f db of
        Inl e' \<Rightarrow> Err e'
      | Inr (rows, db') \<Rightarrow> (case rows of [] \<Rightarrow> Err e | j # _ \<Rightarrow> Ok (j, db')))"

text \<open>A freshly inserted row: the column defaults of the table.\<close>

definition new_job ::
  "time \<Rightarrow> uuid \<Rightarrow> string \<Rightarrow> string \<Rightarrow> string \<Rightarrow> string \<Rightarrow> string \<Rightarrow> int \<Rightarrow> jobj \<Rightarrow> time option \<Rightarrow>
   string option \<Rightarrow> int \<Rightarrow> job" where
  "new_job now jid q etype eid op hf prio payload nb dk limit =
     \<lparr>job_id = jid, dedupe_key = dk, entity_type = etype, entity_id = eid, operation = op,
      handler_family = hf, queue_name = q, priority = prio, state = Queued, payload_json = payload,
      run_at = now, not_before = nb, attempt_count = 0, max_attempts = limit, lease_owner = None,
      lease_token = None, lease_expires_at = None, last_heartbeat_at = None, error_code = None,
      error_detail = None, created_at = now, updated_at = now, started_at = None, finished_at = None\<rparr>"

definition sql_insert :: "job \<Rightarrow> queue_db \<Rightarrow> (uuid \<times> queue_db) result" where
  "sql_insert j db =
     (let js = jobs db @ [j] in
      if \<not> row_checks j then Err (CheckViolation ''queue_jobs'')
      else if job_id j \<in> set (map job_id (jobs db)) then Err (UniqueViolation ''queue_jobs_pkey'')
      else if \<not> uq_active js then Err (UniqueViolation ''uq_queue_jobs_dedupe_key_active'')
      else Ok (job_id j, db\<lparr>jobs := js\<rparr>))"

text \<open>\<^verbatim>\<open>SELECT * FROM queue_jobs WHERE p\<close>, and its \<^verbatim>\<open>fetchone()\<close>.\<close>

definition sql_select :: "(job \<Rightarrow> bool) \<Rightarrow> queue_db \<Rightarrow> job list" where
  "sql_select p db = filter p (jobs db)"

definition fetchone :: "'a list \<Rightarrow> 'a option" where
  "fetchone rows = (case rows of [] \<Rightarrow> None | r # _ \<Rightarrow> Some r)"

text \<open>SQL's three-valued comparisons: a comparison with \<^verbatim>\<open>NULL\<close> selects no row.\<close>

definition before_or_null :: "time option \<Rightarrow> time \<Rightarrow> bool" where
  "before_or_null t now = (case t of None \<Rightarrow> True | Some x \<Rightarrow> x \<le> now)"

definition later_than :: "time option \<Rightarrow> time \<Rightarrow> bool" where
  "later_than t now = (case t of None \<Rightarrow> False | Some x \<Rightarrow> x > now)"

definition coalesce :: "'a option \<Rightarrow> 'a option \<Rightarrow> 'a option" where
  "coalesce a b = (case a of None \<Rightarrow> b | Some x \<Rightarrow> Some x)"

definition greatest :: "time option \<Rightarrow> time option \<Rightarrow> time option" where
  "greatest a b = (case (a, b) of (Some x, Some y) \<Rightarrow> Some (max x y) | (None, _) \<Rightarrow> b | (_, None) \<Rightarrow> a)"

section \<open>The SQL functions\<close>

definition runnable :: "time \<Rightarrow> job \<Rightarrow> bool" where
  "runnable now j = (state j = Queued \<and> run_at j \<le> now \<and> before_or_null (not_before j) now)"

definition claim_order :: "job \<Rightarrow> int \<times> time \<times> time" where
  "claim_order j = (priority j, run_at j, created_at j)"

definition sql_claim_row :: "(uuid \<Rightarrow> uuid) \<Rightarrow> time \<Rightarrow> string \<Rightarrow> int \<Rightarrow> job \<Rightarrow> job" where
  "sql_claim_row tok now worker secs j =
     j\<lparr>state := Leased, lease_owner := Some worker, lease_token := Some (tok (job_id j)),
       lease_expires_at := Some (now + of_int secs), last_heartbeat_at := Some now,
       started_at := coalesce (started_at j) (Some now), attempt_count := attempt_count j + 1,
       error_code := None, error_detail := None, not_before := None, finished_at := None\<rparr>"

definition claim_candidates :: "time \<Rightarrow> string \<Rightarrow> nat \<Rightarrow> queue_db \<Rightarrow> job list" where
  "claim_candidates now q limit db =
     take limit (sort_key claim_order (filter (\<lambda>j. queue_name j = q \<and> runnable now j) (jobs db)))"

definition sql_claim_queue_jobs ::
  "(uuid \<Rightarrow> uuid) \<Rightarrow> time \<Rightarrow> string \<Rightarrow> string \<Rightarrow> nat \<Rightarrow> int \<Rightarrow> queue_db \<Rightarrow> (job list \<times> queue_db) result" where
  "sql_claim_queue_jobs tok now worker q limit secs db =
     sql_update no_settings now
       (\<lambda>j. job_id j \<in> set (map job_id (claim_candidates now q limit db)))
       (sql_claim_row tok now worker secs) db"

text \<open>The lease guard of every completion: the row is in the given state under exactly this
  owner and token, and the lease has not expired at \<open>t\<close>.\<close>

definition holds_lease :: "job_state \<Rightarrow> uuid \<Rightarrow> string \<Rightarrow> uuid \<Rightarrow> time \<Rightarrow> job \<Rightarrow> bool" where
  "holds_lease st jid owner tok t j =
     (job_id j = jid \<and> state j = st \<and> lease_owner j = Some owner \<and> lease_token j = Some tok
      \<and> later_than (lease_expires_at j) t)"

definition sql_start_job :: "time \<Rightarrow> uuid \<Rightarrow> string \<Rightarrow> uuid \<Rightarrow> queue_db \<Rightarrow> (job \<times> queue_db) result" where
  "sql_start_job now jid owner tok db =
     update_one no_settings now
       (\<lambda>j. job_id j = jid \<and> state j = Leased \<and> lease_owner j = Some owner \<and> lease_token j = Some tok
            \<and> (case lease_expires_at j of None \<Rightarrow> False | Some x \<Rightarrow> x \<ge> now))
       (\<lambda>j. j\<lparr>state := Running, last_heartbeat_at := Some now\<rparr>)
       (DatabaseError ''start_job denied'') db"

definition release_lease :: "job \<Rightarrow> job" where
  "release_lease j = j\<lparr>lease_owner := None, lease_token := None, lease_expires_at := None\<rparr>"

definition put_result :: "json \<Rightarrow> job \<Rightarrow> job" where
  "put_result r j = j\<lparr>payload_json := AList.update ''result'' r (payload_json j)\<rparr>"

text \<open>\<open>clk\<close> is \<^verbatim>\<open>clock_timestamp()\<close>, the wall clock when the statement runs.\<close>

definition sql_succeed_job ::
  "time \<Rightarrow> time \<Rightarrow> uuid \<Rightarrow> string \<Rightarrow> uuid \<Rightarrow> json \<Rightarrow> queue_db \<Rightarrow> (job \<times> queue_db) result" where
  "sql_succeed_job now clk jid owner tok res db =
     update_one no_settings now (holds_lease Running jid owner tok clk)
       (\<lambda>j. release_lease (put_result res (j\<lparr>state := Succeeded, finished_at := Some now,
          last_heartbeat_at := Some now, error_code := None, error_detail := None, not_before := None\<rparr>)))
       (DatabaseError ''succeed_job denied'') db"

definition sql_fail_job ::
  "time \<Rightarrow> time \<Rightarrow> uuid \<Rightarrow> string \<Rightarrow> uuid \<Rightarrow> string \<Rightarrow> string \<Rightarrow> int \<Rightarrow> queue_db \<Rightarrow> (job \<times> queue_db) result" where
  "sql_fail_job now clk jid owner tok code detail delay db =
     update_one no_settings now (holds_lease Running jid owner tok clk)
       (\<lambda>j. release_lease
          (if attempt_count j \<ge> max_attempts j
           then j\<lparr>state := Failed, finished_at := Some now, last_heartbeat_at := Some now,
                  error_code := Some code, error_detail := Some detail\<rparr>
           else j\<lparr>state := Retry_wait, not_before := Some (now + of_int delay),
                  last_heartbeat_at := Some now, error_code := Some code, error_detail := Some detail\<rparr>))
       (DatabaseError ''fail_job denied'') db"

definition expired :: "time \<Rightarrow> job \<Rightarrow> bool" where
  "expired now j =
     (state j \<in> set leased_states \<and> (case lease_expires_at j of None \<Rightarrow> False | Some x \<Rightarrow> x < now))"

definition recover_row :: "time \<Rightarrow> job \<Rightarrow> job" where
  "recover_row now j =
     release_lease
       (j\<lparr>state := (if attempt_count j \<ge> max_attempts j then Failed else Queued),
          last_heartbeat_at := None,
          not_before := (if attempt_count j \<ge> max_attempts j then not_before j else Some now),
          error_code := coalesce (error_code j) (Some ''LEASE_EXPIRED''),
          error_detail := coalesce (error_detail j) (Some ''Lease expired before completion''),
          finished_at := (if attempt_count j \<ge> max_attempts j then Some now else finished_at j)\<rparr>)"

definition retry_due :: "time \<Rightarrow> job \<Rightarrow> bool" where
  "retry_due now j =
     (state j = Retry_wait \<and> (case not_before j of None \<Rightarrow> False | Some x \<Rightarrow> x \<le> now))"

definition sql_recover_expired_jobs :: "time \<Rightarrow> queue_db \<Rightarrow> (int \<times> queue_db) result" where
  "sql_recover_expired_jobs now db =
     (case sql_update no_settings now (expired now) (recover_row now) db of
        Inl e \<Rightarrow> Err e
      | Inr (rows1, db1) \<Rightarrow>
          (case sql_update no_settings now (retry_due now)
                  (\<lambda>j. j\<lparr>state := Queued, not_before := None\<rparr>) db1 of
             Inl e \<Rightarrow> Err e
           | Inr (rows2, db2) \<Rightarrow> Ok (int (length rows1) + int (length rows2), db2)))"

section \<open>Reading a table after a statement\<close>

text \<open>The table as a map from job id to row.\<close>

definition row_of :: "queue_db \<Rightarrow> uuid \<Rightarrow> job option" where
  "row_of db i = map_of (map (\<lambda>j. (job_id j, j)) (jobs db)) i"

definition distinct_ids :: "queue_db \<Rightarrow> bool" where
  "distinct_ids db = distinct (map job_id (jobs db))"

lemma touch_simps [simp]:
  "job_id (touch now f j) = job_id (f j)" "dedupe_key (touch now f j) = dedupe_key (f j)"
  "state (touch now f j) = state (f j)" "queue_name (touch now f j) = queue_name (f j)"
  "payload_json (touch now f j) = payload_json (f j)" "lease_owner (touch now f j) = lease_owner (f j)"
  "lease_token (touch now f j) = lease_token (f j)" "lease_expires_at (touch now f j) = lease_expires_at (f j)"
  "attempt_count (touch now f j) = attempt_count (f j)" "max_attempts (touch now f j) = max_attempts (f j)"
  "not_before (touch now f j) = not_before (f j)" "error_code (touch now f j) = error_code (f j)"
  "priority (touch now f j) = priority (f j)" "run_at (touch now f j) = run_at (f j)"
  "created_at (touch now f j) = created_at (f j)" "entity_id (touch now f j) = entity_id (f j)"
  "entity_type (touch now f j) = entity_type (f j)" "operation (touch now f j) = operation (f j)"
  by (simp_all add: touch_def)

lemma release_lease_simps [simp]:
  "job_id (release_lease j) = job_id j" "dedupe_key (release_lease j) = dedupe_key j"
  "state (release_lease j) = state j" "queue_name (release_lease j) = queue_name j"
  "payload_json (release_lease j) = payload_json j" "lease_owner (release_lease j) = None"
  "lease_token (release_lease j) = None" "lease_expires_at (release_lease j) = None"
  "attempt_count (release_lease j) = attempt_count j" "max_attempts (release_lease j) = max_attempts j"
  "not_before (release_lease j) = not_before j" "error_code (release_lease j) = error_code j"
  "entity_id (release_lease j) = entity_id j" "entity_type (release_lease j) = entity_type j"
  "operation (release_lease j) = operation j"
  by (simp_all add: release_lease_def)

lemma put_result_simps [simp]:
  "job_id (put_result r j) = job_id j" "dedupe_key (put_result r j) = dedupe_key j"
  "state (put_result r j) = state j" "queue_name (put_result r j) = queue_name j"
  "lease_owner (put_result r j) = lease_owner j" "lease_token (put_result r j) = lease_token j"
  "lease_expires_at (put_result r j) = lease_expires_at j"
  "attempt_count (put_result r j) = attempt_count j" "max_attempts (put_result r j) = max_attempts j"
  "not_before (put_result r j) = not_before j" "error_code (put_result r j) = error_code j"
  "payload_json (put_result r j) = AList.update ''result'' r (payload_json j)"
  "entity_id (put_result r j) = entity_id j" "entity_type (put_result r j) = entity_type j"
  "operation (put_result r j) = operation j"
  by (simp_all add: put_result_def)

lemma sql_update_OkD:
  assumes "sql_update cfg now p f db = Ok (rows, db')"
  shows "jobs db' = map (\<lambda>j. if p j then touch now f j else j) (jobs db)"
    and "rows = map (touch now f) (filter p (jobs db))"
    and "uq_active (jobs db')" and "list_all row_checks (jobs db')"
    and "history db' = history db @
      concat (map (\<lambda>j. if p j then history_entry cfg now j (touch now f j) else []) (jobs db))"
  using assms by (auto simp: sql_update_def Let_def split: if_splits)

lemma sql_update_no_match:
  assumes "\<forall>j\<in>set (jobs db). \<not> p j" and "list_all row_checks (jobs db)" and "uq_active (jobs db)"
  shows "sql_update cfg now p f db = Ok ([], db)"
proof -
  have "map (\<lambda>j. if p j then touch now f j else j) (jobs db) = jobs db"
    using assms(1) by (simp add: map_idI)
  moreover have "concat (map (\<lambda>j. if p j then history_entry cfg now j (touch now f j) else []) (jobs db)) = []"
    using assms(1) by simp
  moreover have "filter p (jobs db) = []" using assms(1) by (simp add: filter_empty_conv)
  ultimately show ?thesis using assms(2,3) by (simp add: sql_update_def)
qed

lemma active_keys_Cons [simp]:
  "active_keys (j # js) =
     (if dedupe_key j \<noteq> None \<and> state j \<notin> set terminal_states
      then the (dedupe_key j) # active_keys js else active_keys js)"
  by (simp add: active_keys_def)

lemma active_keys_Nil [simp]: "active_keys [] = []"
  by (simp add: active_keys_def)

lemma active_keys_append: "active_keys (xs @ ys) = active_keys xs @ active_keys ys"
  by (simp add: active_keys_def)

lemma set_active_keys:
  "set (active_keys js) = {k. \<exists>j\<in>set js. dedupe_key j = Some k \<and> state j \<notin> set terminal_states}"
  by (force simp: active_keys_def)

text \<open>An update that keeps the dedupe keys and makes no terminal row active cannot violate
  the unique index.\<close>

lemma uq_active_map:
  assumes "uq_active js"
    and "\<forall>j\<in>set js. dedupe_key (g j) = dedupe_key j \<and> (state j \<in> set terminal_states \<longrightarrow> state (g j) \<in> set terminal_states)"
  shows "uq_active (map g js)"
proof -
  have sub: "set (active_keys (map g js)) \<subseteq> set (active_keys js)"
    if "\<forall>j\<in>set js. dedupe_key (g j) = dedupe_key j \<and> (state j \<in> set terminal_states \<longrightarrow> state (g j) \<in> set terminal_states)"
    for js using that by (auto simp: set_active_keys)
  show ?thesis using assms
  proof (induction js)
    case Nil
    then show ?case by (simp add: uq_active_def)
  next
    case (Cons j js)
    then have "uq_active (map g js)" by (auto simp: uq_active_def split: if_splits)
    with Cons.prems sub[of js] show ?case
      by (auto simp: uq_active_def split: if_splits)
  qed
qed

lemma sql_update_Ok:
  assumes "uq_active (jobs db)" and "list_all row_checks (jobs db)"
    and "\<And>j. j \<in> set (jobs db) \<Longrightarrow> p j \<Longrightarrow> dedupe_key (f j) = dedupe_key j"
    and "\<And>j. j \<in> set (jobs db) \<Longrightarrow> p j \<Longrightarrow> state j \<in> set terminal_states \<Longrightarrow> state (f j) \<in> set terminal_states"
    and "\<And>j. j \<in> set (jobs db) \<Longrightarrow> p j \<Longrightarrow> row_checks j \<Longrightarrow> row_checks (f j)"
  shows "\<exists>db'. sql_update cfg now p f db = Ok (map (touch now f) (filter p (jobs db)), db')"
proof -
  let ?g = "\<lambda>j. if p j then touch now f j else j"
  have "uq_active (map ?g (jobs db))"
    using assms(1,3,4) by (intro uq_active_map) auto
  moreover have "list_all row_checks (map ?g (jobs db))"
    using assms(2,5) by (auto simp: list_all_iff row_checks_def)
  ultimately show ?thesis by (auto simp: sql_update_def)
qed

lemma row_of_SomeD: "row_of db i = Some j \<Longrightarrow> j \<in> set (jobs db) \<and> job_id j = i"
  by (auto simp: row_of_def dest: map_of_SomeD)

lemma row_of_iff:
  "distinct_ids db \<Longrightarrow> row_of db i = Some j \<longleftrightarrow> j \<in> set (jobs db) \<and> job_id j = i"
  unfolding distinct_ids_def row_of_def
  by (subst map_of_eq_Some_iff) (auto simp: comp_def)

lemma distinct_ids_same:
  "distinct_ids db \<Longrightarrow> j \<in> set (jobs db) \<Longrightarrow> j' \<in> set (jobs db) \<Longrightarrow> job_id j = job_id j' \<Longrightarrow> j = j'"
  by (metis row_of_iff option.inject)

lemma map_of_map_keep:
  "(\<And>j. h (g j) = h j) \<Longrightarrow>
   map_of (map (\<lambda>j. (h j, j)) (map g js)) i = map_option g (map_of (map (\<lambda>j. (h j, j)) js) i)"
  by (induction js) auto

lemma sql_update_row_of:
  assumes "sql_update cfg now p f db = Ok (rows, db')" and "\<And>j. job_id (f j) = job_id j"
  shows "row_of db' i = map_option (\<lambda>j. if p j then touch now f j else j) (row_of db i)"
  unfolding row_of_def sql_update_OkD(1)[OF assms(1)]
  by (rule map_of_map_keep) (simp add: assms(2))

lemma sql_update_ids:
  assumes "sql_update cfg now p f db = Ok (rows, db')" and "\<And>j. job_id (f j) = job_id j"
  shows "map job_id (jobs db') = map job_id (jobs db)"
  unfolding sql_update_OkD(1)[OF assms(1)] by (simp add: assms(2))

lemma update_one_OkD:
  assumes "update_one cfg now p f e db = Ok (r, db')"
  obtains rows j where "sql_update cfg now p f db = Ok (rows, db')" "j \<in> set (jobs db)" "p j" "r = touch now f j"
proof -
  from assms obtain rows where u: "sql_update cfg now p f db = Ok (rows, db')" and "rows \<noteq> []" "r = hd rows"
    by (auto simp: update_one_def split: sum.splits list.splits)
  moreover from sql_update_OkD(2)[OF u] have "rows = map (touch now f) (filter p (jobs db))" .
  ultimately obtain j js where fj: "filter p (jobs db) = j # js" and r: "r = touch now f j"
    by (cases "filter p (jobs db)") auto
  from fj have "j \<in> set (filter p (jobs db))" by simp
  then have "j \<in> set (jobs db)" "p j" by simp_all
  with u r that show ?thesis by blast
qed

lemma update_one_unmatched:
  assumes "\<forall>j\<in>set (jobs db). \<not> p j" and "list_all row_checks (jobs db)" and "uq_active (jobs db)"
  shows "update_one cfg now p f e db = Err e"
  by (simp add: update_one_def sql_update_no_match[OF assms])

lemma update_one_row_of:
  assumes "update_one cfg now p f e db = Ok (r, db')" and "\<And>j. job_id (f j) = job_id j"
    and "\<And>j. p j \<Longrightarrow> job_id j = i" and "distinct_ids db"
  shows "\<exists>j. row_of db i = Some j \<and> p j \<and> r = touch now f j \<and> row_of db' = (row_of db)(i \<mapsto> touch now f j)"
proof -
  from assms(1) obtain rows j where u: "sql_update cfg now p f db = Ok (rows, db')"
    and j: "j \<in> set (jobs db)" "p j" "r = touch now f j"
    by (rule update_one_OkD)
  from j assms(3) have "job_id j = i" by simp
  with j(1) assms(4) have ji: "row_of db i = Some j" by (simp add: row_of_iff)
  have "row_of db' k = ((row_of db)(i \<mapsto> touch now f j)) k" for k
  proof (cases "k = i")
    case True
    then show ?thesis using sql_update_row_of[OF u assms(2)] ji j(2) by simp
  next
    case False
    then have "row_of db k = Some j' \<Longrightarrow> \<not> p j'" for j'
      using assms(3) by (auto dest: row_of_SomeD)
    then show ?thesis using False sql_update_row_of[OF u assms(2)]
      by (cases "row_of db k") auto
  qed
  with ji j show ?thesis by auto
qed

lemma sql_insert_OkD:
  assumes "sql_insert j db = Ok (i, db')"
  shows "i = job_id j" and "jobs db' = jobs db @ [j]" and "uq_active (jobs db')"
    and "job_id j \<notin> set (map job_id (jobs db))" and "history db' = history db" and "row_checks j"
  using assms by (auto simp: sql_insert_def Let_def split: if_splits)

section \<open>Row-wise properties\<close>

text \<open>A property of rows that does not look at the time of the last change. What a
  statement's row function keeps, the statement keeps for the whole table.\<close>

locale row_property =
  fixes P :: "job \<Rightarrow> bool"
  assumes touch_indep: "P (j\<lparr>updated_at := t\<rparr>) = P j"
begin

definition all_rows :: "queue_db \<Rightarrow> bool" where
  "all_rows db = (\<forall>j\<in>set (jobs db). P j)"

lemma touch_keeps: "P (touch now f j) = P (f j)"
  by (simp add: touch_def touch_indep)

lemma sql_update_keeps:
  assumes "sql_update cfg now p f db = Ok (rows, db')" and "all_rows db"
    and "\<And>j. P j \<Longrightarrow> p j \<Longrightarrow> P (f j)"
  shows "all_rows db'"
  using assms(2,3) by (auto simp: all_rows_def sql_update_OkD(1)[OF assms(1)] touch_keeps)

lemma update_one_keeps:
  assumes "update_one cfg now p f e db = Ok (r, db')" and "all_rows db"
    and "\<And>j. P j \<Longrightarrow> p j \<Longrightarrow> P (f j)"
  shows "all_rows db' \<and> P r"
proof -
  from assms(1) obtain rows j where u: "sql_update cfg now p f db = Ok (rows, db')"
    and j: "j \<in> set (jobs db)" "p j" "r = touch now f j"
    by (rule update_one_OkD)
  from sql_update_keeps[OF u assms(2,3)] j assms(2,3) show ?thesis
    by (auto simp: all_rows_def touch_keeps)
qed

lemma sql_insert_keeps:
  assumes "sql_insert j db = Ok (i, db')" and "all_rows db" and "P j"
  shows "all_rows db'"
  using assms(2,3) by (auto simp: all_rows_def sql_insert_OkD(2)[OF assms(1)])

end

end
