(* ===== verification/Host_Text.thy ===== *)
theory Host_Text
  imports Json_Value
begin

text \<open>
  The texts of identities and times that the queue and the effect ledger read: how PostgreSQL
  and how Python's \<^verbatim>\<open>uuid.UUID\<close> read a UUID, the hexadecimal digests, and what the program
  takes of \<^verbatim>\<open>datetime\<close>.
\<close>

section \<open>UUID texts\<close>

definition is_hex :: "char \<Rightarrow> bool" where
  "is_hex c = ((48 \<le> (of_char c :: nat) \<and> (of_char c :: nat) \<le> 57) \<or> (65 \<le> (of_char c :: nat) \<and> (of_char c :: nat) \<le> 70)
     \<or> (97 \<le> (of_char c :: nat) \<and> (of_char c :: nat) \<le> 102))"

definition lower_hex :: "char \<Rightarrow> bool" where
  "lower_hex c = (is_hex c \<and> lower_char c = c)"

definition hex64 :: "string \<Rightarrow> bool" where
  "hex64 s = (length s = 64 \<and> list_all lower_hex s)"

text \<open>\<^verbatim>\<open>s.replace(old, "")\<close>, scanning from the left.\<close>

fun remove_sub :: "nat \<Rightarrow> string \<Rightarrow> string \<Rightarrow> string" where
  "remove_sub k old [] = []"
| "remove_sub (Suc k) old (c # s) = remove_sub k old s"
| "remove_sub 0 old (c # s) = (if starts_with (c # s) old then remove_sub (length old - 1) old s else c # remove_sub 0 old s)"

text \<open>\<^verbatim>\<open>int(s, 16)\<close> is defined: white space around, a sign, a prefix \<^verbatim>\<open>0x\<close>, and digits with single
  underscores between them (one is allowed after the prefix).\<close>

fun hex_groups :: "string \<Rightarrow> bool" where
  "hex_groups [] = False"
| "hex_groups [c] = is_hex c"
| "hex_groups (c # d # s) = (is_hex c \<and> (if d = CHR ''_'' then hex_groups s else hex_groups (d # s)))"

definition int16_ok :: "string \<Rightarrow> bool" where
  "int16_ok s =
     (let t = py_strip s;
          u = (case t of [] \<Rightarrow> [] | c # r \<Rightarrow> (if c = CHR ''+'' \<or> c = CHR ''-'' then r else t))
      in if starts_with (py_lower u) ''0x'' then hex_groups (case drop 2 u of [] \<Rightarrow> [] | c # r \<Rightarrow> (if c = CHR ''_'' then r else c # r))
         else hex_groups u)"

text \<open>\<^verbatim>\<open>uuid.UUID(s)\<close> does not raise.\<close>

definition strip_braces :: "string \<Rightarrow> string" where
  "strip_braces s = rev (dropWhile (\<lambda>c. c = CHR ''{'' \<or> c = CHR ''}'') (rev (dropWhile (\<lambda>c. c = CHR ''{'' \<or> c = CHR ''}'') s)))"

definition uuid_ok :: "string \<Rightarrow> bool" where
  "uuid_ok s =
     (let h = filter (\<lambda>c. c \<noteq> CHR ''-'') (strip_braces (remove_sub 0 ''uuid:'' (remove_sub 0 ''urn:'' s)))
      in length h = 32 \<and> int16_ok h)"

text \<open>The text of a \<^verbatim>\<open>uuid\<close> column for an input text, \<^const>\<open>None\<close> when the database refuses it: sixteen
  bytes in hexadecimal, a hyphen allowed after every second byte, all of it possibly in braces.\<close>

fun uuid_bytes :: "nat \<Rightarrow> string \<Rightarrow> (string \<times> string) option" where
  "uuid_bytes 0 s = Some ([], s)"
| "uuid_bytes (Suc n) (a # b # s) =
     (if is_hex a \<and> is_hex b then
        map_option (\<lambda>(h, r). (lower_char a # lower_char b # h, r))
          (uuid_bytes n (case s of [] \<Rightarrow> [] | c # r \<Rightarrow> (if c = CHR ''-'' \<and> even n \<and> n > 0 then r else s)))
      else None)"
| "uuid_bytes (Suc n) s = None"

definition uuid_text :: "string \<Rightarrow> string" where
  "uuid_text h = py_join ''-'' [take 8 h, take 4 (drop 8 h), take 4 (drop 12 h), take 4 (drop 16 h), drop 20 h]"

definition pg_uuid :: "string \<Rightarrow> uuid option" where
  "pg_uuid s =
     (let brace = starts_with s ''{''
      in case uuid_bytes 16 (if brace then tl s else s) of
           None \<Rightarrow> None
         | Some (h, r) \<Rightarrow> (if r = (if brace then ''}'' else []) then Some (uuid_text h) else None))"

definition canonical_uuid :: "string \<Rightarrow> bool" where
  "canonical_uuid s = (pg_uuid s = Some s)"

text \<open>\<^verbatim>\<open>str(uuid.UUID(s))\<close>: the number written with leading zeros.\<close>

definition py_uuid :: "string \<Rightarrow> uuid option" where
  "py_uuid s =
     (if uuid_ok s then
        (let h = filter (\<lambda>c. c \<noteq> CHR ''-'') (strip_braces (remove_sub 0 ''uuid:'' (remove_sub 0 ''urn:'' s)));
             t = py_strip h;
             u = (if starts_with t ''+'' then tl t else t);
             ds = filter is_hex (if starts_with (py_lower u) ''0x'' then drop 2 u else u)
         in Some (uuid_text (replicate (32 - length ds) (CHR ''0'') @ map lower_char ds)))
      else None)"

section \<open>Times\<close>

text \<open>A \<^verbatim>\<open>datetime\<close> has a time zone or none.\<close>

datatype py_datetime = Naive rat | Aware time

text \<open>What the program takes of \<^verbatim>\<open>datetime\<close>: \<^verbatim>\<open>fromisoformat\<close>, and the UTC text with microseconds that
  ends in \<^verbatim>\<open>Z\<close>. Nothing is assumed of either.\<close>

record isolib =
  iso_parse :: "string \<Rightarrow> py_datetime option"
  iso_utc :: "time \<Rightarrow> string"

end
