(* ===== verification/Queue_Lifecycle.thy ===== *)
theory Queue_Lifecycle
  imports Queue_Enqueue Host_Text
begin

text \<open>
  The operations of \<^verbatim>\<open>queue/state_machine.py\<close> that move a job through its life: claiming,
  starting, checkpointing, completing, failing, cancelling, recovering and requeueing. Each
  is one transaction: an error leaves the database as it was. The optional result of an
  operation is the Python \<^verbatim>\<open>None\<close> of the code.
\<close>

section \<open>Claiming\<close>

text \<open>The process environment, or the one the caller names.\<close>

definition select_environment :: "string \<Rightarrow> json \<Rightarrow> string result" where
  "select_environment env ebay_environment =
     (if ebay_environment = JNull then Ok env else normalize_ebay_environment ebay_environment)"

definition claim_queue_jobs ::
  "string \<Rightarrow> (uuid \<Rightarrow> uuid) \<Rightarrow> time \<Rightarrow> string \<Rightarrow> string \<Rightarrow> int \<Rightarrow> nat \<Rightarrow> json \<Rightarrow> queue_db \<Rightarrow> (job list \<times> queue_db) result" where
  "claim_queue_jobs env tok now q owner secs limit ebay_environment db =
     (case select_environment env ebay_environment of
        Inl e \<Rightarrow> Err e
      | Inr selected \<Rightarrow>
          (case queue_name_for_environment q (JStr selected) of
             Inl e \<Rightarrow> Err e
           | Inr physical \<Rightarrow> sql_claim_queue_jobs tok now owner physical limit secs db))"

definition get_job :: "uuid \<Rightarrow> queue_db \<Rightarrow> job option" where
  "get_job jid db = fetchone (sql_select (\<lambda>j. job_id j = jid) db)"

text \<open>PostgreSQL's \<^verbatim>\<open>->>\<close>; \<open>jtext\<close> is the text form of a value that is not a string.\<close>

definition json_text :: "(json \<Rightarrow> string) \<Rightarrow> json \<Rightarrow> string option" where
  "json_text jtext v = (case v of JNull \<Rightarrow> None | JStr s \<Rightarrow> Some s | _ \<Rightarrow> Some (jtext v))"

definition next_queued_job ::
  "(json \<Rightarrow> string) \<Rightarrow> time \<Rightarrow> string \<Rightarrow> string option \<Rightarrow> queue_db \<Rightarrow> job option" where
  "next_queued_job jtext now q worker_identity db =
     fetchone (sort_key (\<lambda>j. (priority j, run_at j, created_at j, job_id j))
       (sql_select (\<lambda>j. queue_name j = q \<and> runnable now j
          \<and> (worker_identity = None
             \<or> json_text jtext (jget (payload_json j) ''worker_identity'') = worker_identity)) db))"

text \<open>The claim of one named job. Unlike the queue claim it keeps \<^verbatim>\<open>not_before\<close> and
  \<^verbatim>\<open>finished_at\<close>.\<close>

definition claim_row :: "uuid \<Rightarrow> time \<Rightarrow> string \<Rightarrow> int \<Rightarrow> job \<Rightarrow> job" where
  "claim_row tok now owner secs j =
     j\<lparr>state := Leased, lease_owner := Some owner, lease_token := Some tok,
       lease_expires_at := Some (now + of_int secs), last_heartbeat_at := Some now,
       started_at := coalesce (started_at j) (Some now), attempt_count := attempt_count j + 1,
       error_code := None, error_detail := None\<rparr>"

definition update_optional ::
  "time \<Rightarrow> (job \<Rightarrow> bool) \<Rightarrow> (job \<Rightarrow> job) \<Rightarrow> queue_db \<Rightarrow> (job option \<times> queue_db) result" where
  "update_optional now p f db =
     (case sql_update no_settings now p f db of
        Inl e \<Rightarrow> Err e
      | Inr (rows, db') \<Rightarrow> Ok (fetchone rows, db'))"

definition claim_job ::
  "uuid \<Rightarrow> time \<Rightarrow> uuid \<Rightarrow> string \<Rightarrow> int \<Rightarrow> queue_db \<Rightarrow> (job option \<times> queue_db) result" where
  "claim_job tok now jid owner secs db =
     update_optional now (\<lambda>j. job_id j = jid \<and> runnable now j) (claim_row tok now owner secs) db"

definition claim_job_with_envelope ::
  "uuid \<Rightarrow> time \<Rightarrow> uuid \<Rightarrow> string \<Rightarrow> jobj \<Rightarrow> int \<Rightarrow> queue_db \<Rightarrow> (job option \<times> queue_db) result" where
  "claim_job_with_envelope tok now jid owner envelope secs db =
     update_optional now (\<lambda>j. job_id j = jid \<and> runnable now j)
       (\<lambda>j. (claim_row tok now owner secs j)\<lparr>payload_json := dict_merge (payload_json j) envelope\<rparr>) db"

definition envelope_conflicts :: "jobj \<Rightarrow> jobj \<Rightarrow> bool" where
  "envelope_conflicts payload envelope =
     list_ex (\<lambda>(k, v). has_key payload k \<and> \<not> jsonb_eq (jget payload k) v) envelope"

definition record_claim_envelope ::
  "time \<Rightarrow> uuid \<Rightarrow> string \<Rightarrow> uuid \<Rightarrow> jobj \<Rightarrow> queue_db \<Rightarrow> (job option \<times> queue_db) result" where
  "record_claim_envelope now jid owner tok envelope db =
     update_optional now
       (\<lambda>j. holds_lease Leased jid owner tok now j \<and> \<not> envelope_conflicts (payload_json j) envelope)
       (\<lambda>j. j\<lparr>payload_json := dict_merge (payload_json j) envelope\<rparr>) db"

section \<open>Running and completing\<close>

definition start_claimed_job :: "time \<Rightarrow> uuid \<Rightarrow> string \<Rightarrow> uuid \<Rightarrow> queue_db \<Rightarrow> (job \<times> queue_db) result" where
  "start_claimed_job now jid owner tok db = sql_start_job now jid owner tok db"

definition succeed_claimed_job ::
  "time \<Rightarrow> time \<Rightarrow> uuid \<Rightarrow> string \<Rightarrow> uuid \<Rightarrow> json \<Rightarrow> queue_db \<Rightarrow> (job \<times> queue_db) result" where
  "succeed_claimed_job now clk jid owner tok res db = sql_succeed_job now clk jid owner tok res db"

definition fail_claimed_job ::
  "time \<Rightarrow> time \<Rightarrow> uuid \<Rightarrow> string \<Rightarrow> uuid \<Rightarrow> string \<Rightarrow> json option \<Rightarrow> queue_db \<Rightarrow> (job \<times> queue_db) result" where
  "fail_claimed_job now clk jid owner tok err res db =
     (case sql_fail_job now clk jid owner tok ''WORKER_EXCEPTION'' (py_take 2000 err) 0 db of
        Inl e \<Rightarrow> Err e
      | Inr (failed, db1) \<Rightarrow>
          (case res of
             Some r \<Rightarrow>
               (if state failed = Failed
                then update_one no_settings now (\<lambda>j. job_id j = jid \<and> state j = Failed) (put_result r)
                       (TypeError ''no row'') db1
                else Ok (failed, db1))
           | None \<Rightarrow> Ok (failed, db1)))"

definition mark_running :: "time \<Rightarrow> uuid \<Rightarrow> string \<Rightarrow> uuid \<Rightarrow> queue_db \<Rightarrow> (job \<times> queue_db) result" where
  "mark_running now jid owner tok db =
     update_one no_settings now (holds_lease Leased jid owner tok now) (\<lambda>j. j\<lparr>state := Running\<rparr>)
       (RuntimeError ''lost leased job while marking running'') db"

definition MAX_RUNNING_CHECKPOINT_BYTES :: nat where
  "MAX_RUNNING_CHECKPOINT_BYTES = 256 * 1024"

text \<open>The argument is a Python value; a checkpoint that is not a dictionary is refused
  before it is validated.\<close>

definition checkpoint_value :: "pyval \<Rightarrow> jobj result" where
  "checkpoint_value checkpoint =
     (case checkpoint of
        PyDict d \<Rightarrow>
          (case validate_json_value checkpoint ''checkpoint'' of
             Inl e \<Rightarrow> Err e
           | Inr _ \<Rightarrow> (case json_of checkpoint of Some (JObj o') \<Rightarrow> Ok o' | _ \<Rightarrow> Err (TypeError ''checkpoint'')))
      | _ \<Rightarrow> Err (TypeError ''running checkpoint must be a JSON object''))"

definition checkpoint_running_job ::
  "pylib \<Rightarrow> time \<Rightarrow> uuid \<Rightarrow> string \<Rightarrow> uuid \<Rightarrow> pyval \<Rightarrow> queue_db \<Rightarrow> (json \<times> queue_db) result" where
  "checkpoint_running_job lib now jid owner tok checkpoint db =
     (case checkpoint_value checkpoint of
        Inl e \<Rightarrow> Err e
      | Inr cp \<Rightarrow>
          (let encoded = dumps dump_ascii lib (JObj cp) in
           if length encoded > MAX_RUNNING_CHECKPOINT_BYTES
           then Err (ValueError ''running checkpoint exceeds maximum encoded size'')
           else
             (case fetchone (sql_select (holds_lease Running jid owner tok now) db) of
                None \<Rightarrow> Err (RuntimeError ''lost running lease while recording checkpoint'')
              | Some row \<Rightarrow>
                  (if has_key (payload_json row) ''observation_checkpoint'' then
                     (let existing = jget (payload_json row) ''observation_checkpoint'' in
                      if dumps dump_ascii lib existing \<noteq> encoded
                      then Err (ValueError ''running checkpoint conflicts with durable value'')
                      else Ok (existing, db))
                   else
                     (case update_one no_settings now (holds_lease Running jid owner tok now)
                             (\<lambda>j. j\<lparr>payload_json := AList.update ''observation_checkpoint'' (JObj cp) (payload_json j)\<rparr>)
                             (RuntimeError ''lost running lease while recording checkpoint'') db of
                        Inl e \<Rightarrow> Err e
                      | Inr (j, db') \<Rightarrow> Ok (jget (payload_json j) ''observation_checkpoint'', db'))))))"

text \<open>\<open>running\<close> to \<open>succeeded\<close>, shared by the completions.\<close>

definition succeed_row :: "time \<Rightarrow> json option \<Rightarrow> job \<Rightarrow> job" where
  "succeed_row now res j =
     (let j' = release_lease (j\<lparr>state := Succeeded, finished_at := Some now, error_code := None,
                               error_detail := None\<rparr>)
      in case res of None \<Rightarrow> j' | Some r \<Rightarrow> put_result r j')"

definition mark_succeeded ::
  "time \<Rightarrow> uuid \<Rightarrow> string \<Rightarrow> uuid \<Rightarrow> json option \<Rightarrow> queue_db \<Rightarrow> (job \<times> queue_db) result" where
  "mark_succeeded now jid owner tok res db =
     update_one no_settings now (holds_lease Running jid owner tok now) (succeed_row now res)
       (RuntimeError ''lost running lease while marking succeeded'') db"

definition EVALUATION_EVENT_NOT_REQUIRED :: string where
  "EVALUATION_EVENT_NOT_REQUIRED = ''evaluation-event-not-required''"

definition carried_keys :: "string list" where
  "carried_keys = [''operator_authority_id'', ''operator_identity'', ''operator_surface'',
     ''pre_authority_condition_hash'', ''ebay_environment'', ''ebay_endpoint'']"

definition event_payload :: "string \<Rightarrow> uuid \<Rightarrow> jobj \<Rightarrow> jobj \<Rightarrow> jobj" where
  "event_payload eid jid res payload =
     [(''entity_id'', JStr eid), (''origin_job_id'', JStr jid), (''origin_receipt'', JObj res),
      (''goal_profile_id'', jget payload ''goal_profile_id''),
      (''goal_profile_version'', jget payload ''goal_profile_version''),
      (''prior_graph_id'', jget payload ''graph_id''),
      (''prior_object_generation'', jget payload ''object_generation'')]
     @ map (\<lambda>k. (k, jget payload k)) (filter (\<lambda>k. nonempty_str (jget payload k)) carried_keys)"

definition evidence_unchanged :: "jobj \<Rightarrow> bool" where
  "evidence_unchanged res =
     (case jget res ''evidence'' of
        JObj ev \<Rightarrow> jget ev ''changed'' = JBool False
      | _ \<Rightarrow> False)"

definition complete_treatment_and_enqueue_evaluation ::
  "string \<Rightarrow> jobj \<Rightarrow> time \<Rightarrow> uuid \<Rightarrow> uuid \<Rightarrow> string \<Rightarrow> uuid \<Rightarrow> jobj \<Rightarrow> queue_db \<Rightarrow> (string \<times> queue_db) result" where
  "complete_treatment_and_enqueue_evaluation env prios now new_id jid owner tok res db =
     (case update_one no_settings now (holds_lease Running jid owner tok now)
             (succeed_row now (Some (JObj res)))
             (RuntimeError (''lost running lease while completing treatment job '' @ jid)) db of
        Inl e \<Rightarrow> Err e
      | Inr (completed, db1) \<Rightarrow>
          (if evidence_unchanged res then Ok (EVALUATION_EVENT_NOT_REQUIRED, db1)
           else
             (case route_queue_manifest env ''workflow_evaluate''
                     (event_payload (entity_id completed) jid res (payload_json completed))
                     (Some (''workflow-evaluate:'' @ jid)) of
                Inl e \<Rightarrow> Err e
              | Inr (q, p, k) \<Rightarrow>
                  (case resolve_priority prios ''workflow_evaluate'' ''evidence_changed'' of
                     Inl e \<Rightarrow> Err e
                   | Inr prio \<Rightarrow>
                       sql_insert (new_job now new_id q ''item'' (entity_id completed) ''evidence_changed''
                         ''workflow_evaluate'' prio p None k 3) db1))))"

text \<open>A JSON number that is not a boolean, as a time.\<close>

definition json_time :: "json \<Rightarrow> time option" where
  "json_time v = (case v of JInt i \<Rightarrow> Some (of_int i) | JFloat r \<Rightarrow> Some r | _ \<Rightarrow> None)"

definition timer_window_ok :: "time \<Rightarrow> json \<Rightarrow> bool" where
  "timer_window_ok clk v =
     (case json_time v of
        None \<Rightarrow> False
      | Some t \<Rightarrow> 1 \<le> t - clk \<and> t - clk \<le> 7 * 24 * 3600)"

definition timer_attempts_ok :: "json \<Rightarrow> bool" where
  "timer_attempts_ok v = (case v of JInt i \<Rightarrow> 1 \<le> i \<and> i \<le> 10 | _ \<Rightarrow> False)"

definition jget_default :: "jobj \<Rightarrow> string \<Rightarrow> json \<Rightarrow> json" where
  "jget_default d k v = (if has_key d k then jget d k else v)"

text \<open>The receipt has passed \<^verbatim>\<open>_waiting_treatment_receipt_error\<close>, so its timer is an object
  with a string queue and key and an object payload; other shapes raise.\<close>

definition complete_treatment_and_schedule_timer ::
  "string \<Rightarrow> jobj \<Rightarrow> time \<Rightarrow> time \<Rightarrow> uuid \<Rightarrow> uuid \<Rightarrow> string \<Rightarrow> uuid \<Rightarrow> jobj \<Rightarrow> queue_db \<Rightarrow> (uuid \<times> queue_db) result" where
  "complete_treatment_and_schedule_timer env prios now clk new_id jid owner tok res db =
     (case jget res ''timer'' of
        JObj timer \<Rightarrow>
          (if \<not> timer_window_ok clk (jget timer ''not_before'')
           then Err (ValueError ''timer not_before is outside the trusted future window'')
           else if \<not> timer_attempts_ok (jget_default timer ''max_attempts'' (JInt 3))
           then Err (ValueError ''timer max_attempts must be an integer from 1 through 10'')
           else
             (case update_one no_settings now (holds_lease Running jid owner tok now)
                     (succeed_row now (Some (JObj res)))
                     (RuntimeError (''lost running lease while scheduling timer for job '' @ jid)) db of
                Inl e \<Rightarrow> Err e
              | Inr (completed, db1) \<Rightarrow>
                  (case (jget timer ''queue_name'', jget timer ''payload'', jget timer ''dedupe_key'',
                         jget_default timer ''max_attempts'' (JInt 3)) of
                     (JStr tq, JObj tp, JStr tk, JInt limit) \<Rightarrow>
                       (let logical = logical_queue_name tq in
                        case route_queue_manifest env logical tp (Some tk) of
                          Inl e \<Rightarrow> Err e
                        | Inr (q, p, k) \<Rightarrow>
                            (case resolve_priority prios logical ''timer_elapsed'' of
                               Inl e \<Rightarrow> Err e
                             | Inr prio \<Rightarrow>
                                 sql_insert (new_job now new_id q (entity_type completed) (entity_id completed)
                                   ''timer_elapsed'' logical prio p (json_time (jget timer ''not_before'')) k limit) db1))
                   | _ \<Rightarrow> Err (AttributeError ''timer''))))
      | _ \<Rightarrow> Err (AttributeError ''timer''))"

section \<open>Failing and requeueing\<close>

definition retry_row :: "time \<Rightarrow> time \<Rightarrow> string \<Rightarrow> job \<Rightarrow> job" where
  "retry_row now due err j =
     release_lease (j\<lparr>state := Retry_wait, not_before := Some due, error_code := Some ''WORKER_EXCEPTION'',
       error_detail := Some (py_take 2000 err), finished_at := Some now\<rparr>)"

definition failed_row :: "time \<Rightarrow> string \<Rightarrow> job \<Rightarrow> job" where
  "failed_row now err j =
     release_lease (j\<lparr>state := Failed, error_code := Some ''WORKER_EXCEPTION'',
       error_detail := Some (py_take 2000 err), finished_at := Some now\<rparr>)"

text \<open>\<open>clk\<close> is \<^verbatim>\<open>datetime.now()\<close> in the worker process.\<close>

definition mark_failed ::
  "time \<Rightarrow> time \<Rightarrow> uuid \<Rightarrow> string \<Rightarrow> uuid \<Rightarrow> string \<Rightarrow> queue_db \<Rightarrow> (job_state \<times> queue_db) result" where
  "mark_failed now clk jid owner tok err db =
     (case fetchone (sql_select (holds_lease Running jid owner tok now) db) of
        None \<Rightarrow> Err (RuntimeError ''lost running lease while marking failed'')
      | Some row \<Rightarrow>
          (if next_failure_state (attempt_count row) (max_attempts row) = Retry_wait then
             (case update_one no_settings now (holds_lease Running jid owner tok now)
                     (retry_row now (clk + retry_backoff (attempt_count row)) err)
                     (RuntimeError ''lost running lease while marking failed'') db of
                Inl e \<Rightarrow> Err e
              | Inr (_, db') \<Rightarrow> Ok (Retry_wait, db'))
           else
             (case update_one no_settings now (holds_lease Running jid owner tok now)
                     (failed_row now err)
                     (RuntimeError ''lost running lease while marking failed'') db of
                Inl e \<Rightarrow> Err e
              | Inr (_, db1) \<Rightarrow>
                  (case sql_update no_settings now (\<lambda>j. job_id j = jid \<and> state j = Failed)
                          (\<lambda>j. j\<lparr>state := Dead_letter\<rparr>) db1 of
                     Inl e \<Rightarrow> Err e
                   | Inr (_, db2) \<Rightarrow> Ok (Dead_letter, db2)))))"

definition mark_dead_letter ::
  "time \<Rightarrow> uuid \<Rightarrow> string \<Rightarrow> uuid \<Rightarrow> string \<Rightarrow> json option \<Rightarrow> queue_db \<Rightarrow> (job \<times> queue_db) result" where
  "mark_dead_letter now jid owner tok err res db =
     update_one no_settings now (holds_lease Running jid owner tok now)
       (\<lambda>j. (case res of None \<Rightarrow> (\<lambda>x. x) | Some r \<Rightarrow> put_result r)
              (release_lease (j\<lparr>state := Dead_letter, error_code := Some ''HARD_FAILURE'',
                 error_detail := Some (py_take 2000 err), finished_at := Some now\<rparr>)))
       (RuntimeError ''lost running lease while marking dead letter'') db"

definition requeue_with_backoff ::
  "time \<Rightarrow> uuid \<Rightarrow> string \<Rightarrow> uuid \<Rightarrow> int \<Rightarrow> string \<Rightarrow> queue_db \<Rightarrow> (job \<times> queue_db) result" where
  "requeue_with_backoff now jid owner tok delay detail db =
     update_one no_settings now (holds_lease Running jid owner tok now)
       (\<lambda>j. release_lease (j\<lparr>state := Retry_wait, not_before := Some (now + of_int delay),
          attempt_count := 1, error_code := Some ''TRANSIENT'', error_detail := Some (py_take 2000 detail),
          finished_at := None\<rparr>))
       (RuntimeError ''lost running lease while requeueing with backoff'') db"

definition recover_expired_jobs :: "time \<Rightarrow> queue_db \<Rightarrow> (int \<times> queue_db) result" where
  "recover_expired_jobs now db = sql_recover_expired_jobs now db"

section \<open>Cancelling\<close>

definition publication_codes :: "string list" where
  "publication_codes = [''PUBLICATION_CLOSING'', ''PUBLICATION_RECONCILIATION_REQUIRED'']"

text \<open>The stop control of an active runner is bound to the lease it stops. The id and token
  columns are PostgreSQL uuids, so reading them as Python UUIDs fails only for \<^verbatim>\<open>NULL\<close>.\<close>

definition bind_stop_control :: "job \<Rightarrow> json \<Rightarrow> json result" where
  "bind_stop_control current res =
     (case res of
        JObj d \<Rightarrow>
          (case jget d ''stop_control'' of
             JObj control \<Rightarrow>
               (if jget control ''kind'' = JStr ''runner_cancel_requested'' then
                  (case lease_token current of
                     None \<Rightarrow> Err (RuntimeError ''active cancellation lacks exact durable lease identity'')
                   | Some tok \<Rightarrow>
                       (case lease_owner current of
                          None \<Rightarrow> Err (RuntimeError ''active cancellation has malformed durable lease identity'')
                        | Some owner \<Rightarrow>
                            (if queue_name current = [] \<or> owner = []
                             then Err (RuntimeError ''active cancellation has malformed durable lease identity'')
                             else Ok (JObj (AList.update ''stop_control''
                                    (JObj (AList.update ''request_identity''
                                       (JObj [(''job_id'', JStr (job_id current)), (''queue_name'', JStr (queue_name current)),
                                              (''lease_owner'', JStr owner), (''lease_token'', JStr tok)]) control)) d)))))
                else Ok res)
           | _ \<Rightarrow> Ok res)
      | _ \<Rightarrow> Ok res)"

definition cancel_row :: "time \<Rightarrow> string option \<Rightarrow> json option \<Rightarrow> job \<Rightarrow> job" where
  "cancel_row now message res j =
     (case res of None \<Rightarrow> (\<lambda>x. x) | Some r \<Rightarrow> put_result r)
       (release_lease (j\<lparr>state := Cancelled, finished_at := coalesce (finished_at j) (Some now),
          last_heartbeat_at := Some now, error_code := Some ''CANCELLED'',
          error_detail := coalesce message (error_detail j)\<rparr>))"

definition cancel_job ::
  "time \<Rightarrow> uuid \<Rightarrow> string option \<Rightarrow> json option \<Rightarrow> queue_db \<Rightarrow> (job \<times> queue_db) result" where
  "cancel_job now jid message res db =
     (case get_job jid db of
        None \<Rightarrow> Err (RuntimeError (''cancel_job denied for missing job '' @ jid))
      | Some current \<Rightarrow>
          (if state current = Running \<and> error_code current \<in> Some ` set publication_codes then Ok (current, db)
           else if state current \<in> set terminal_states then Ok (current, db)
           else
             (case (case res of None \<Rightarrow> Ok None
                    | Some r \<Rightarrow> (case bind_stop_control current r of Inl e \<Rightarrow> Err e | Inr r' \<Rightarrow> Ok (Some r'))) of
                Inl e \<Rightarrow> Err e
              | Inr durable \<Rightarrow>
                  update_one no_settings now (\<lambda>j. job_id j = jid \<and> state j \<in> set active_states)
                    (cancel_row now message durable) (RuntimeError ''cancel_job lost locked active row'') db)))"

section \<open>Acknowledging a cancellation\<close>

definition same_keys :: "jobj \<Rightarrow> string list \<Rightarrow> bool" where
  "same_keys d ks = (set (map fst d) = set ks)"

text \<open>\<^verbatim>\<open>str(uuid.UUID(value))\<close> of a JSON value, and of its text.\<close>

definition uuid_value :: "json \<Rightarrow> uuid option" where
  "uuid_value v = (case v of JStr s \<Rightarrow> py_uuid s | _ \<Rightarrow> None)"

definition uuid_of_text :: "json \<Rightarrow> uuid option" where
  "uuid_of_text v = (case v of JStr s \<Rightarrow> py_uuid s | JInt i \<Rightarrow> py_uuid (show_int i) | _ \<Rightarrow> None)"

definition ack_keys :: "string list" where
  "ack_keys = [''schema'', ''job_id'', ''worker'', ''runner'', ''ack_id'', ''observed_at'', ''reason'', ''reaped'']"

definition ack_reasons :: "string list" where
  "ack_reasons = [''stopped'', ''timeout'', ''reaped'', ''no_runner'']"

definition runner_keys :: "json \<Rightarrow> string list" where
  "runner_keys why =
     [''schema'', ''job_id'', ''queue_name'', ''lease_owner'', ''lease_token'']
     @ (if why = JStr ''no_runner'' then [''kind''] else [])"

definition request_keys :: "string list" where
  "request_keys = [''job_id'', ''queue_name'', ''lease_owner'', ''lease_token'']"

text \<open>The three identities and the time that must be readable: the job of the call, the job and the
  id of the acknowledgement.\<close>

definition ack_identity :: "isolib \<Rightarrow> string \<Rightarrow> jobj \<Rightarrow> (uuid \<times> uuid \<times> py_datetime) option" where
  "ack_identity il jid ack =
     (case (py_uuid jid, uuid_value (jget ack ''job_id''), uuid_value (jget ack ''ack_id''), jget ack ''observed_at'') of
        (Some durable, Some acked, Some _, JStr s) \<Rightarrow> map_option (\<lambda>d. (durable, acked, d)) (iso_parse il s)
      | _ \<Rightarrow> None)"

definition request_matches :: "jobj \<Rightarrow> jobj \<Rightarrow> uuid \<Rightarrow> jobj \<Rightarrow> unit result" where
  "request_matches ack runner runner_token request =
     (if \<not> same_keys request request_keys then Err (ValueError ''cancellation request identity has invalid fields'')
      else (case (uuid_of_text (jget request ''job_id''), uuid_of_text (jget request ''lease_token'')) of
              (Some j, Some t) \<Rightarrow>
                (if jget runner ''job_id'' = JStr j \<and> runner_token = t
                    \<and> py_eq (jget runner ''queue_name'') (jget request ''queue_name'')
                    \<and> py_eq (jget runner ''lease_owner'') (jget request ''lease_owner'')
                    \<and> py_eq (jget ack ''worker'') (jget request ''lease_owner'')
                 then Ok () else Err (ValueError ''acknowledgement does not match durable cancellation request''))
            | _ \<Rightarrow> Err (ValueError ''cancellation request identity is invalid'')))"

definition runner_checks :: "jobj \<Rightarrow> uuid \<Rightarrow> string \<Rightarrow> jobj \<Rightarrow> jobj option \<Rightarrow> unit result" where
  "runner_checks ack durable worker runner request =
     (let why = jget ack ''reason'' in
      if \<not> same_keys runner (runner_keys why) \<or> jget runner ''schema'' \<noteq> JStr ''tgw-coding-runner/v2''
      then Err (ValueError ''cancellation acknowledgement runner identity is invalid'')
      else if jget runner ''job_id'' \<noteq> JStr durable \<or> jget runner ''lease_owner'' \<noteq> JStr worker
      then Err (ValueError ''cancellation acknowledgement runner is not worker-owned'')
      else (case uuid_of_text (jget runner ''lease_token'') of
              None \<Rightarrow> Err (ValueError ''cancellation acknowledgement runner lease is invalid'')
            | Some runner_token \<Rightarrow>
                (if why = JStr ''no_runner'' \<and> jget runner ''kind'' \<noteq> JStr ''no_runner''
                 then Err (ValueError ''no-runner acknowledgement lacks no-runner evidence'')
                 else (case request of None \<Rightarrow> Ok () | Some rq \<Rightarrow> request_matches ack runner runner_token rq))))"

definition validate_cancellation_acknowledgement ::
  "isolib \<Rightarrow> string \<Rightarrow> jobj \<Rightarrow> jobj option \<Rightarrow> unit result" where
  "validate_cancellation_acknowledgement il jid ack request =
     (if \<not> same_keys ack ack_keys then Err (ValueError ''cancellation acknowledgement has invalid fields'')
      else if jget ack ''schema'' \<noteq> JStr ''tgw-coding-stop-ack/v1''
      then Err (ValueError ''cancellation acknowledgement has invalid schema'')
      else (case ack_identity il jid ack of
              None \<Rightarrow> Err (ValueError ''cancellation acknowledgement identity is invalid'')
            | Some (durable, acked, observed) \<Rightarrow>
                (if durable \<noteq> acked \<or> (case observed of Naive _ \<Rightarrow> True | Aware _ \<Rightarrow> False)
                 then Err (ValueError ''cancellation acknowledgement is not bound to this job'')
                 else (case jget ack ''reason'' of
                         JList _ \<Rightarrow> Err (TypeError ''unhashable type'')
                       | JObj _ \<Rightarrow> Err (TypeError ''unhashable type'')
                       | why \<Rightarrow>
                           (if why \<notin> JStr ` set ack_reasons
                            then Err (ValueError ''cancellation acknowledgement reason is invalid'')
                            else if jget ack ''reaped'' \<noteq> JBool True
                            then Err (ValueError ''cancellation acknowledgement must confirm a closed runner scope'')
                            else (case (jget ack ''worker'', jget ack ''runner'') of
                                    (JStr worker, JObj runner) \<Rightarrow>
                                      (if worker = [] then Err (ValueError ''cancellation acknowledgement worker identity is invalid'')
                                       else runner_checks ack durable worker runner request)
                                  | _ \<Rightarrow> Err (ValueError ''cancellation acknowledgement worker identity is invalid'')))))))"

definition sub_object :: "jobj \<Rightarrow> string \<Rightarrow> jobj" where
  "sub_object d k = (case jget d k of JObj e \<Rightarrow> e | _ \<Rightarrow> [])"

definition stop_control :: "job \<Rightarrow> jobj" where
  "stop_control j = sub_object (sub_object (payload_json j) ''result'') ''stop_control''"

definition runner_identity :: "jobj \<Rightarrow> json" where
  "runner_identity runner = JObj (map (\<lambda>k. (k, jget runner k)) request_keys)"

text \<open>\<^verbatim>\<open>jsonb_set(payload_json, '{result,stop_control,acknowledgement}', ack, true)\<close>\<close>

definition put_acknowledgement :: "jobj \<Rightarrow> job \<Rightarrow> job" where
  "put_acknowledgement ack j =
     j\<lparr>payload_json := AList.update ''result''
         (JObj (AList.update ''stop_control'' (JObj (AList.update ''acknowledgement'' (JObj ack) (stop_control j)))
            (sub_object (payload_json j) ''result''))) (payload_json j)\<rparr>"

definition acknowledgeable :: "uuid \<Rightarrow> jobj \<Rightarrow> job \<Rightarrow> bool" where
  "acknowledgeable jid ack j =
     (job_id j = jid \<and> state j = Cancelled \<and> jget (stop_control j) ''kind'' = JStr ''runner_cancel_requested''
      \<and> jsonb_eq (jget (stop_control j) ''request_identity'') (runner_identity (sub_object ack ''runner''))
      \<and> \<not> has_key (stop_control j) ''acknowledgement'')"

definition acknowledge_cancellation ::
  "isolib \<Rightarrow> time \<Rightarrow> uuid \<Rightarrow> jobj \<Rightarrow> queue_db \<Rightarrow> (job option \<times> queue_db) result" where
  "acknowledge_cancellation il now jid ack db =
     (case validate_cancellation_acknowledgement il jid ack None of
        Inl e \<Rightarrow> Err e
      | Inr _ \<Rightarrow> update_optional now (acknowledgeable jid ack) (put_acknowledgement ack) db)"

section \<open>Operator maintenance\<close>

definition cancel_in_state :: "string \<Rightarrow> time \<Rightarrow> job_state \<Rightarrow> string \<Rightarrow> queue_db \<Rightarrow> (int \<times> queue_db) result" where
  "cancel_in_state env now st q db =
     (case queue_name_for_environment q (JStr env) of
        Inl e \<Rightarrow> Err e
      | Inr physical \<Rightarrow>
          (case sql_update no_settings now (\<lambda>j. queue_name j = physical \<and> state j = st)
                  (\<lambda>j. j\<lparr>state := Cancelled\<rparr>) db of
             Inl e \<Rightarrow> Err e
           | Inr (rows, db') \<Rightarrow> Ok (int (length rows), db')))"

definition cancel_queued :: "string \<Rightarrow> time \<Rightarrow> string \<Rightarrow> queue_db \<Rightarrow> (int \<times> queue_db) result" where
  "cancel_queued env now q db = cancel_in_state env now Queued q db"

definition clear_dead_letter :: "string \<Rightarrow> time \<Rightarrow> string \<Rightarrow> queue_db \<Rightarrow> (int \<times> queue_db) result" where
  "clear_dead_letter env now q db = cancel_in_state env now Dead_letter q db"

definition requeue_dead_letter_job ::
  "string \<Rightarrow> time \<Rightarrow> uuid \<Rightarrow> uuid \<Rightarrow> queue_db \<Rightarrow> (uuid \<times> queue_db) result" where
  "requeue_dead_letter_job env now new_id jid db =
     (case fetchone (sql_select (\<lambda>j. job_id j = jid \<and> state j = Dead_letter) db) of
        None \<Rightarrow> Err (ValueError (''job '' @ jid @ '' not found or not in dead_letter state''))
      | Some row \<Rightarrow>
          (case queue_name_visible_in_environment env (JStr (queue_name row)) JNull of
             Inl e \<Rightarrow> Err e
           | Inr visible \<Rightarrow>
               (if \<not> visible then Err (ValueError (''job '' @ jid @ '' belongs to a different eBay environment''))
                else
                  (case sql_update no_settings now (\<lambda>j. job_id j = jid) (\<lambda>j. j\<lparr>state := Cancelled\<rparr>) db of
                     Inl e \<Rightarrow> Err e
                   | Inr (_, db1) \<Rightarrow>
                       sql_insert (new_job now new_id (queue_name row) (entity_type row) (entity_id row)
                         (operation row) (logical_queue_name (queue_name row)) (priority row) (payload_json row)
                         None None (max_attempts row)) db1))))"

definition FLAKE_MUTATION_QUEUE :: string where
  "FLAKE_MUTATION_QUEUE = ''flake_mutation''"

definition mark_flake_mutation_executed ::
  "time \<Rightarrow> uuid \<Rightarrow> string option \<Rightarrow> queue_db \<Rightarrow> (job \<times> queue_db) result" where
  "mark_flake_mutation_executed now jid executed_by db =
     update_one
       \<lparr>queue_transition = Some ''flake_mark_executed'',
        worker_setting = (if executed_by = Some [] then None else executed_by)\<rparr>
       now (\<lambda>j. job_id j = jid \<and> queue_name j = FLAKE_MUTATION_QUEUE \<and> state j = Queued)
       (\<lambda>j. j\<lparr>state := Succeeded, finished_at := Some now\<rparr>)
       (ValueError ''mark_flake_mutation_executed: no queued flake_mutation job found'') db"

end
