(* ===== verification/Queue_Publication.thy ===== *)
theory Queue_Publication
  imports Queue_Lifecycle
begin

text \<open>
  \<^verbatim>\<open>close_local_success\<close> of \<^verbatim>\<open>queue/state_machine.py\<close>: a worker that publishes files closes
  its job in several transactions around the publication, with an undo callback and a
  reconciliation of a commit whose outcome is unknown. The transactions are definitions of
  their own; the protocol composes them with everything the environment may do: whether each
  commit returns, fails, or fails although it is durable, whether the publication registers
  its undo, raises, and whether undoing works, whether a replacement session can be opened,
  and what other transactions do whenever the row lock is not held. A ghost value records
  what is left on the file system; a publication registers its undo before it has effects.
\<close>

section \<open>The transactions\<close>

definition closing_note :: "uuid \<Rightarrow> json" where
  "closing_note jid = JObj [(''schema'', JStr ''tgw-publication-reconciliation/v1''),
     (''job_id'', JStr jid), (''state'', JStr ''closing'')]"

definition commit_note :: "uuid \<Rightarrow> string \<Rightarrow> uuid \<Rightarrow> json" where
  "commit_note jid owner tok = JObj [(''schema'', JStr ''tgw-publication-commit/v1''),
     (''job_id'', JStr jid), (''lease_owner'', JStr owner), (''lease_token'', JStr tok)]"

definition fence_row :: "uuid \<Rightarrow> job \<Rightarrow> job" where
  "fence_row jid j =
     j\<lparr>error_code := Some ''PUBLICATION_CLOSING'', error_detail := Some ''filesystem publication is fenced'',
       payload_json := AList.update ''publication_reconciliation'' (closing_note jid) (payload_json j)\<rparr>"

definition publish_row :: "time \<Rightarrow> uuid \<Rightarrow> string \<Rightarrow> uuid \<Rightarrow> json \<Rightarrow> job \<Rightarrow> job" where
  "publish_row now jid owner tok res j =
     release_lease (j\<lparr>state := Succeeded, finished_at := Some now, error_code := None, error_detail := None,
       payload_json := AList.update ''publication_commit'' (commit_note jid owner tok)
         (AList.update ''result'' res (AList.delete ''publication_reconciliation'' (payload_json j)))\<rparr>)"

definition unfence_row :: "job \<Rightarrow> job" where
  "unfence_row j = j\<lparr>error_code := None, error_detail := None,
     payload_json := AList.delete ''publication_reconciliation'' (payload_json j)\<rparr>"

definition torn_row :: "time \<Rightarrow> uuid \<Rightarrow> string \<Rightarrow> string \<Rightarrow> job \<Rightarrow> job" where
  "torn_row now jid primary_error cleanup_error j =
     release_lease (j\<lparr>state := Failed, finished_at := Some now,
       error_code := Some ''PUBLICATION_RECONCILIATION_REQUIRED'', error_detail := Some cleanup_error,
       payload_json := AList.update ''publication_reconciliation''
         (JObj [(''schema'', JStr ''tgw-publication-reconciliation/v1''), (''job_id'', JStr jid),
                (''success_error'', JStr primary_error), (''cleanup_error'', JStr cleanup_error)]) (payload_json j)\<rparr>)"

text \<open>The guards of the statements after the first one do not look at the lease expiry.\<close>

definition running_under :: "uuid \<Rightarrow> string \<Rightarrow> uuid \<Rightarrow> job \<Rightarrow> bool" where
  "running_under jid owner tok j =
     (job_id j = jid \<and> state j = Running \<and> lease_owner j = Some owner \<and> lease_token j = Some tok)"

definition closing_under :: "uuid \<Rightarrow> string \<Rightarrow> uuid \<Rightarrow> job \<Rightarrow> bool" where
  "closing_under jid owner tok j =
     (running_under jid owner tok j \<and> error_code j = Some ''PUBLICATION_CLOSING'')"

definition publication_fence :: "time \<Rightarrow> uuid \<Rightarrow> string \<Rightarrow> uuid \<Rightarrow> queue_db \<Rightarrow> (bool \<times> queue_db) result" where
  "publication_fence now jid owner tok db =
     (case fetchone (sql_select (holds_lease Running jid owner tok now) db) of
        None \<Rightarrow> Ok (False, db)
      | Some _ \<Rightarrow>
          (case update_one no_settings now (running_under jid owner tok) (fence_row jid)
                  (RuntimeError ''lost locked local publication fence'') db of
             Inl e \<Rightarrow> Err e
           | Inr (_, db') \<Rightarrow> Ok (True, db')))"

definition publication_success ::
  "time \<Rightarrow> uuid \<Rightarrow> string \<Rightarrow> uuid \<Rightarrow> json \<Rightarrow> queue_db \<Rightarrow> (job \<times> queue_db) result" where
  "publication_success now jid owner tok res db =
     update_one no_settings now (closing_under jid owner tok) (publish_row now jid owner tok res)
       (RuntimeError ''lost locked local success closure'') db"

definition publication_torn ::
  "time \<Rightarrow> uuid \<Rightarrow> string \<Rightarrow> string \<Rightarrow> queue_db \<Rightarrow> (job \<times> queue_db) result" where
  "publication_torn now jid primary_error cleanup_error db =
     update_one no_settings now
       (\<lambda>j. job_id j = jid \<and> state j = Running \<and> error_code j = Some ''PUBLICATION_CLOSING'')
       (torn_row now jid primary_error cleanup_error)
       (RuntimeError ''lost local closure while fencing failed rollback'') db"

definition publication_repair ::
  "time \<Rightarrow> uuid \<Rightarrow> string \<Rightarrow> uuid \<Rightarrow> queue_db \<Rightarrow> (job list \<times> queue_db) result" where
  "publication_repair now jid owner tok db =
     sql_update no_settings now (closing_under jid owner tok) unfence_row db"

section \<open>The protocol\<close>

datatype commit_outcome = Committed | Commit_lost | Commit_unreported

text \<open>What the publication left behind: nothing was started, its effects are in place, they
  were undone, or undoing them failed.\<close>

datatype published = Untouched | In_place | Undone | Torn

record closure_env =
  ce_now1 :: time
  ce_now2 :: time
  ce_now3 :: time
  ce_commit1 :: commit_outcome
  ce_between :: "queue_db \<Rightarrow> queue_db"
  ce_between2 :: "queue_db \<Rightarrow> queue_db"
  ce_between3 :: "queue_db \<Rightarrow> queue_db"
  ce_registers :: bool
  ce_raises :: bool
  ce_commit2 :: commit_outcome
  ce_reconnects :: bool
  ce_undo_raises :: bool
  ce_cleanup_commits :: bool
  ce_primary_text :: string
  ce_cleanup_text :: string

text \<open>The compensation: run the undo if one was registered, then either record the torn
  publication or take the fence off. A statement or commit that fails here leaves the
  durable fence in place. The row lock is released before, so other transactions may run.\<close>

definition compensate ::
  "closure_env \<Rightarrow> uuid \<Rightarrow> string \<Rightarrow> uuid \<Rightarrow> py_error \<Rightarrow> published \<Rightarrow> queue_db \<Rightarrow> bool result \<times> queue_db \<times> published" where
  "compensate ce jid owner tok primary pub db0 =
     (let registered = (pub \<noteq> Untouched); db = ce_between3 ce db0 in
      if registered \<and> ce_undo_raises ce then
        (Err (RuntimeError ''coding publication rollback requires reconciliation''),
         (if ce_cleanup_commits ce then
            (case publication_torn (ce_now3 ce) jid (ce_primary_text ce) (ce_cleanup_text ce) db of
               Inl _ \<Rightarrow> db
             | Inr (_, db') \<Rightarrow> db')
          else db),
         Torn)
      else
        (Err primary,
         (if ce_cleanup_commits ce then
            (case publication_repair (ce_now3 ce) jid owner tok db of
               Inl _ \<Rightarrow> db
             | Inr (_, db') \<Rightarrow> db')
          else db),
         (if registered then Undone else Untouched)))"

definition commit_proven :: "uuid \<Rightarrow> string \<Rightarrow> uuid \<Rightarrow> json \<Rightarrow> job option \<Rightarrow> bool" where
  "commit_proven jid owner tok res durable =
     (case durable of
        None \<Rightarrow> False
      | Some j \<Rightarrow> state j = Succeeded \<and> lease_owner j = None \<and> lease_token j = None
          \<and> py_eq (jget (payload_json j) ''publication_commit'') (commit_note jid owner tok)
          \<and> py_eq (jget (payload_json j) ''result'') res)"

definition still_closing :: "uuid \<Rightarrow> string \<Rightarrow> uuid \<Rightarrow> job option \<Rightarrow> bool" where
  "still_closing jid owner tok durable =
     (case durable of
        None \<Rightarrow> False
      | Some j \<Rightarrow> state j = Running \<and> lease_owner j = Some owner \<and> lease_token j = Some tok
          \<and> py_eq (jget (payload_json j) ''publication_reconciliation'') (closing_note jid))"

text \<open>After the final commit reported an error: read the durable row in a new session.\<close>

definition reconcile_commit ::
  "closure_env \<Rightarrow> uuid \<Rightarrow> string \<Rightarrow> uuid \<Rightarrow> json \<Rightarrow> queue_db \<Rightarrow> bool result \<times> queue_db \<times> published" where
  "reconcile_commit ce jid owner tok res db =
     (if \<not> ce_reconnects ce
      then (Err (RuntimeError ''coding publication commit outcome requires reconciliation''), db, In_place)
      else
        (let durable_db = ce_between2 ce db; durable = get_job jid durable_db in
         if commit_proven jid owner tok res durable then (Ok True, durable_db, In_place)
         else if \<not> still_closing jid owner tok durable
         then (Err (RuntimeError ''coding publication commit outcome requires reconciliation''), durable_db, In_place)
         else compensate ce jid owner tok (DatabaseError ''commit'') In_place durable_db))"

text \<open>The second transaction: publication, success, final commit.\<close>

definition publish_and_commit ::
  "closure_env \<Rightarrow> uuid \<Rightarrow> string \<Rightarrow> uuid \<Rightarrow> json \<Rightarrow> queue_db \<Rightarrow> bool result \<times> queue_db \<times> published" where
  "publish_and_commit ce jid owner tok res db =
     (if sql_select (closing_under jid owner tok) db = []
      then compensate ce jid owner tok (RuntimeError ''durable local publication fence was lost'') Untouched db
      else if \<not> ce_registers ce
      then compensate ce jid owner tok
             (RuntimeError (if ce_raises ce then ''publication failed''
                            else ''publication did not register undo before effects'')) Untouched db
      else if ce_raises ce
      then compensate ce jid owner tok (RuntimeError ''publication failed'') In_place db
      else
        (case publication_success (ce_now2 ce) jid owner tok res db of
           Inl e \<Rightarrow> compensate ce jid owner tok e In_place db
         | Inr (_, db2) \<Rightarrow>
             (case ce_commit2 ce of
                Committed \<Rightarrow> (Ok True, db2, In_place)
              | Commit_lost \<Rightarrow> reconcile_commit ce jid owner tok res db
              | Commit_unreported \<Rightarrow> reconcile_commit ce jid owner tok res db2)))"

definition close_local_success ::
  "closure_env \<Rightarrow> uuid \<Rightarrow> string \<Rightarrow> uuid \<Rightarrow> json \<Rightarrow> queue_db \<Rightarrow> bool result \<times> queue_db \<times> published" where
  "close_local_success ce jid owner tok res db =
     (case publication_fence (ce_now1 ce) jid owner tok db of
        Inl e \<Rightarrow> compensate ce jid owner tok e Untouched db
      | Inr (False, _) \<Rightarrow> (Ok False, db, Untouched)
      | Inr (True, db1) \<Rightarrow>
          (case ce_commit1 ce of
             Committed \<Rightarrow> publish_and_commit ce jid owner tok res (ce_between ce db1)
           | Commit_lost \<Rightarrow> compensate ce jid owner tok (DatabaseError ''commit'') Untouched db
           | Commit_unreported \<Rightarrow> compensate ce jid owner tok (DatabaseError ''commit'') Untouched db1))"

end
