(* ===== verification/Queue_Steps.thy ===== *)
theory Queue_Steps
  imports Queue_Publication
begin

text \<open>
  The queue as a transition system. A row moves by a \<open>row_step\<close>, a table by a \<open>table_step\<close>
  (one statement whose rows all move by row steps, or one insertion of a fresh row), and the
  database by a \<open>queue_step\<close>, one committed transaction of \<^verbatim>\<open>queue/state_machine.py\<close> each.
  The first half shows that every operation is a sequence of table steps; the second half
  proves the invariants once, for all reachable databases, through two locales: a property
  of single rows that every row step keeps, and a fence that a lost lease cannot cross.
\<close>

section \<open>Steps of a row\<close>

definition same_identity :: "job \<Rightarrow> job \<Rightarrow> bool" where
  "same_identity j j' =
     (job_id j' = job_id j \<and> dedupe_key j' = dedupe_key j \<and> entity_type j' = entity_type j
      \<and> entity_id j' = entity_id j \<and> operation j' = operation j \<and> handler_family j' = handler_family j
      \<and> queue_name j' = queue_name j \<and> priority j' = priority j \<and> max_attempts j' = max_attempts j
      \<and> run_at j' = run_at j \<and> created_at j' = created_at j)"

definition same_lease :: "job \<Rightarrow> job \<Rightarrow> bool" where
  "same_lease j j' =
     (lease_owner j' = lease_owner j \<and> lease_token j' = lease_token j
      \<and> lease_expires_at j' = lease_expires_at j)"

definition unleased :: "job \<Rightarrow> bool" where
  "unleased j = (lease_owner j = None \<and> lease_token j = None \<and> lease_expires_at j = None)"

text \<open>A time before which the row must not run is not forgotten.\<close>

definition keeps_due :: "job \<Rightarrow> job \<Rightarrow> bool" where
  "keeps_due j j' = (not_before j' = None \<longrightarrow> not_before j = None)"

lemma greatest_None [simp]: "greatest a b = None \<longleftrightarrow> a = None \<and> b = None"
  by (auto simp: greatest_def split: option.splits)

text \<open>\<open>T\<close> holds the lease tokens that \<^verbatim>\<open>gen_random_uuid()\<close> may return.\<close>

inductive row_step :: "uuid set \<Rightarrow> job \<Rightarrow> job \<Rightarrow> bool" for T where
  data: "same_identity j j' \<Longrightarrow> state j' = state j \<Longrightarrow> same_lease j j' \<Longrightarrow> attempt_count j' = attempt_count j
         \<Longrightarrow> keeps_due j j' \<Longrightarrow> row_step T j j'"
| claim: "same_identity j j' \<Longrightarrow> state j = Queued \<Longrightarrow> state j' = Leased \<Longrightarrow> lease_owner j' = Some w
          \<Longrightarrow> lease_token j' = Some tok \<Longrightarrow> tok \<in> T \<Longrightarrow> lease_expires_at j' = Some x
          \<Longrightarrow> attempt_count j' = attempt_count j + 1 \<Longrightarrow> row_step T j j'"
| start: "same_identity j j' \<Longrightarrow> state j = Leased \<Longrightarrow> state j' = Running \<Longrightarrow> same_lease j j'
          \<Longrightarrow> attempt_count j' = attempt_count j \<Longrightarrow> row_step T j j'"
| finish: "same_identity j j' \<Longrightarrow> state j = Running \<Longrightarrow> state j' \<in> {Succeeded, Failed, Dead_letter, Retry_wait}
           \<Longrightarrow> (state j' = Retry_wait \<Longrightarrow> attempt_count j < max_attempts j)
           \<Longrightarrow> (state j' = Retry_wait \<Longrightarrow> not_before j' \<noteq> None)
           \<Longrightarrow> unleased j' \<Longrightarrow> attempt_count j' = attempt_count j \<Longrightarrow> row_step T j j'"
| backoff: "same_identity j j' \<Longrightarrow> state j = Running \<Longrightarrow> state j' = Retry_wait \<Longrightarrow> unleased j'
            \<Longrightarrow> attempt_count j' = 1 \<Longrightarrow> not_before j' \<noteq> None \<Longrightarrow> row_step T j j'"
| expire: "same_identity j j' \<Longrightarrow> state j \<in> {Leased, Running}
           \<Longrightarrow> state j' = (if attempt_count j \<ge> max_attempts j then Failed else Queued)
           \<Longrightarrow> unleased j' \<Longrightarrow> attempt_count j' = attempt_count j \<Longrightarrow> row_step T j j'"
| due: "same_identity j j' \<Longrightarrow> state j = Retry_wait \<Longrightarrow> state j' = Queued \<Longrightarrow> same_lease j j'
        \<Longrightarrow> attempt_count j' = attempt_count j \<Longrightarrow> row_step T j j'"
| bury: "same_identity j j' \<Longrightarrow> state j = Failed \<Longrightarrow> state j' = Dead_letter \<Longrightarrow> same_lease j j'
         \<Longrightarrow> attempt_count j' = attempt_count j \<Longrightarrow> row_step T j j'"
| stop: "same_identity j j' \<Longrightarrow> state j \<in> set active_states \<Longrightarrow> state j' = Cancelled \<Longrightarrow> unleased j'
         \<Longrightarrow> attempt_count j' = attempt_count j \<Longrightarrow> row_step T j j'"
| drop_idle: "same_identity j j' \<Longrightarrow> state j \<in> {Queued, Retry_wait, Failed, Dead_letter} \<Longrightarrow> state j' = Cancelled
         \<Longrightarrow> same_lease j j' \<Longrightarrow> attempt_count j' = attempt_count j \<Longrightarrow> row_step T j j'"
| attest: "same_identity j j' \<Longrightarrow> queue_name j = FLAKE_MUTATION_QUEUE \<Longrightarrow> state j = Queued \<Longrightarrow> state j' = Succeeded
           \<Longrightarrow> same_lease j j' \<Longrightarrow> attempt_count j' = attempt_count j \<Longrightarrow> row_step T j j'"

lemmas row_kinds = same_identity_def same_lease_def unleased_def keeps_due_def

lemma row_step_identity: "row_step T j j' \<Longrightarrow> same_identity j j'"
  by (cases rule: row_step.cases) auto

lemma row_step_touch:
  assumes "row_step T j (f j)"
  shows "row_step T j (touch now f j)"
proof -
  have "row_step T j ((f j)\<lparr>updated_at := now\<rparr>)"
    using assms
  proof (cases rule: row_step.cases)
    case claim
    then show ?thesis by (intro row_step.claim) (auto simp: row_kinds)
  qed (auto simp: row_kinds intro: row_step.data row_step.start row_step.finish row_step.backoff
        row_step.expire row_step.due row_step.bury row_step.stop row_step.drop_idle row_step.attest)
  then show ?thesis by (simp add: touch_def)
qed

section \<open>Steps of a table\<close>

text \<open>What an insertion of the program puts into the table.\<close>

definition fresh_row :: "job \<Rightarrow> bool" where
  "fresh_row j = (state j = Queued \<and> unleased j \<and> attempt_count j = 0)"

lemma fresh_new_job [simp]: "fresh_row (new_job now i q et ei op hf pr pl nb dk ma)"
  by (simp add: fresh_row_def new_job_def unleased_def)

inductive table_step :: "uuid set \<Rightarrow> queue_db \<Rightarrow> queue_db \<Rightarrow> bool" for T where
  update: "sql_update cfg now p f db = Ok (rows, db')
    \<Longrightarrow> \<forall>j\<in>set (jobs db). p j \<longrightarrow> row_step T j (f j) \<Longrightarrow> table_step T db db'"
| insert: "sql_insert j db = Ok (i, db') \<Longrightarrow> fresh_row j \<Longrightarrow> table_step T db db'"

text \<open>The common shape of the two rules.\<close>

lemma history_entry_same [simp]: "history_entry cfg now j j = []"
  by (simp add: history_entry_def)

lemma table_stepE:
  assumes "table_step T db db'"
  obtains g news cfg now where
    "jobs db' = map g (jobs db) @ news"
    "\<forall>j\<in>set (jobs db). g j = j \<or> row_step T j (g j)"
    "\<forall>j\<in>set news. fresh_row j \<and> row_checks j \<and> job_id j \<notin> set (map job_id (jobs db))"
    "history db' = history db @ concat (map (\<lambda>j. history_entry cfg now j (g j)) (jobs db))"
  using assms
proof cases
  case (update cfg now p f rows)
  show ?thesis
  proof (rule that[of "\<lambda>j. if p j then touch now f j else j" "[]" cfg now])
    show "\<forall>j\<in>set (jobs db). (if p j then touch now f j else j) = j \<or> row_step T j (if p j then touch now f j else j)"
      using update(2) by (auto intro: row_step_touch)
    show "history db' = history db @ concat (map (\<lambda>j. history_entry cfg now j (if p j then touch now f j else j)) (jobs db))"
      unfolding sql_update_OkD(5)[OF update(1)]
      by (auto intro!: arg_cong[where f = concat] map_cong)
  qed (simp_all add: sql_update_OkD(1)[OF update(1)])
next
  case (insert j i)
  show ?thesis
    by (rule that[of "\<lambda>j. j" "[j]" no_settings 0])
      (use insert(2) sql_insert_OkD[OF insert(1)] in auto)
qed

lemma table_step_ids:
  assumes "table_step T db db'" and "distinct_ids db"
  shows "distinct_ids db'"
  using assms(1)
proof cases
  case (update cfg now p f rows)
  have "map job_id (jobs db') = map job_id (jobs db)"
    unfolding sql_update_OkD(1)[OF update(1)]
    using update(2) by (auto dest!: row_step_identity simp: same_identity_def)
  with assms(2) show ?thesis by (simp add: distinct_ids_def)
next
  case (insert j i)
  with assms(2) show ?thesis
    using sql_insert_OkD(2,4)[OF insert(1)] by (simp add: distinct_ids_def)
qed

lemma table_steps_ids: "(table_step T)\<^sup>*\<^sup>* db db' \<Longrightarrow> distinct_ids db \<Longrightarrow> distinct_ids db'"
  by (induction rule: rtranclp_induct) (auto intro: table_step_ids)

lemma table_update:
  assumes "sql_update cfg now p f db = Ok (rows, db')"
    and "\<And>j. j \<in> set (jobs db) \<Longrightarrow> p j \<Longrightarrow> row_step T j (f j)"
  shows "(table_step T)\<^sup>*\<^sup>* db db'"
  using assms by (blast intro: table_step.update)

lemma table_update_one:
  assumes "update_one cfg now p f e db = Ok (r, db')"
    and "\<And>j. j \<in> set (jobs db) \<Longrightarrow> p j \<Longrightarrow> row_step T j (f j)"
  shows "(table_step T)\<^sup>*\<^sup>* db db'"
  using assms by (elim update_one_OkD) (blast intro: table_update)

lemma table_insert:
  assumes "sql_insert j db = Ok (i, db')" and "fresh_row j"
  shows "(table_step T)\<^sup>*\<^sup>* db db'"
  using assms by (blast intro: table_step.insert)

section \<open>Every operation is a sequence of table steps\<close>

named_theorems op_steps \<open>an operation that returns made table steps\<close>

lemma update_optional_OkD:
  assumes "update_optional now p f db = Ok (r, db')"
  obtains rows where "sql_update no_settings now p f db = Ok (rows, db')" "r = fetchone rows"
  using assms by (auto simp: update_optional_def split: sum.splits)

lemma table_update_optional:
  assumes "update_optional now p f db = Ok (r, db')"
    and "\<And>j. j \<in> set (jobs db) \<Longrightarrow> p j \<Longrightarrow> row_step T j (f j)"
  shows "(table_step T)\<^sup>*\<^sup>* db db'"
  using assms by (elim update_optional_OkD) (blast intro: table_update)

lemma fetchone_SomeD: "fetchone rows = Some r \<Longrightarrow> r \<in> set rows"
  by (auto simp: fetchone_def split: list.splits)

lemma fetchone_select_SomeD: "fetchone (sql_select p db) = Some r \<Longrightarrow> r \<in> set (jobs db) \<and> p r"
  using fetchone_SomeD[of "sql_select p db" r] by (simp add: sql_select_def)

lemma holds_leaseD:
  "holds_lease st jid owner tok t j \<Longrightarrow>
     job_id j = jid \<and> state j = st \<and> lease_owner j = Some owner \<and> lease_token j = Some tok"
  by (simp add: holds_lease_def)

lemma row_step_claim:
  assumes "state j = Queued" and "tok \<in> T"
  shows "row_step T j (claim_row tok now owner secs j)"
    and "row_step T j ((claim_row tok now owner secs j)\<lparr>payload_json := pl\<rparr>)"
  using assms by (auto simp: claim_row_def row_kinds intro!: row_step.claim[where w = owner and tok = tok])

lemma row_step_sql_claim:
  assumes "state j = Queued" and "\<And>i. tok i \<in> T"
  shows "row_step T j (sql_claim_row tok now owner secs j)"
  using assms by (auto simp: sql_claim_row_def row_kinds intro!: row_step.claim[where w = owner])

lemma claim_candidates_subset:
  "j \<in> set (claim_candidates now q limit db) \<Longrightarrow> j \<in> set (jobs db) \<and> queue_name j = q \<and> runnable now j"
  unfolding claim_candidates_def by (auto dest!: in_set_takeD)

lemma claim_queue_jobs_steps [op_steps]:
  assumes "claim_queue_jobs env tok now q owner secs limit ee db = Ok (rows, db')"
    and "distinct_ids db" and "\<And>i. tok i \<in> T"
  shows "(table_step T)\<^sup>*\<^sup>* db db'"
proof -
  from assms(1) obtain physical where
    u: "sql_claim_queue_jobs tok now owner physical limit secs db = Ok (rows, db')"
    by (auto simp: claim_queue_jobs_def split: sum.splits)
  have "state j = Queued" if "j \<in> set (jobs db)"
    "job_id j \<in> set (map job_id (claim_candidates now physical limit db))" for j
  proof -
    from that(2) obtain c where "c \<in> set (claim_candidates now physical limit db)" "job_id c = job_id j"
      by auto
    with claim_candidates_subset distinct_ids_same[OF assms(2) _ that(1)] show ?thesis
      by (metis runnable_def)
  qed
  with u show ?thesis
    unfolding sql_claim_queue_jobs_def
    by (elim table_update) (auto intro!: row_step_sql_claim assms(3))
qed

lemma claim_job_steps [op_steps]:
  assumes "claim_job tok now jid owner secs db = Ok (r, db')" and "tok \<in> T"
  shows "(table_step T)\<^sup>*\<^sup>* db db'"
  using assms unfolding claim_job_def
  by (elim table_update_optional) (auto simp: runnable_def intro: row_step_claim)

lemma claim_job_with_envelope_steps [op_steps]:
  assumes "claim_job_with_envelope tok now jid owner envelope secs db = Ok (r, db')" and "tok \<in> T"
  shows "(table_step T)\<^sup>*\<^sup>* db db'"
  using assms unfolding claim_job_with_envelope_def
  by (elim table_update_optional) (auto simp: runnable_def intro: row_step_claim)

lemma record_claim_envelope_steps [op_steps]:
  assumes "record_claim_envelope now jid owner tok envelope db = Ok (r, db')"
  shows "(table_step T)\<^sup>*\<^sup>* db db'"
  using assms unfolding record_claim_envelope_def
  by (elim table_update_optional) (auto simp: row_kinds intro!: row_step.data)

lemma acknowledge_cancellation_steps [op_steps]:
  assumes "acknowledge_cancellation il now jid ack db = Ok (r, db')"
  shows "(table_step T)\<^sup>*\<^sup>* db db'"
  using assms unfolding acknowledge_cancellation_def
  by (cases "validate_cancellation_acknowledgement il jid ack None")
    (auto simp: row_kinds put_acknowledgement_def elim!: table_update_optional intro!: row_step.data)

lemma start_claimed_job_steps [op_steps]:
  assumes "start_claimed_job now jid owner tok db = Ok (r, db')"
  shows "(table_step T)\<^sup>*\<^sup>* db db'"
  using assms unfolding start_claimed_job_def sql_start_job_def
  by (elim table_update_one) (auto simp: row_kinds intro!: row_step.start)

lemma mark_running_steps [op_steps]:
  assumes "mark_running now jid owner tok db = Ok (r, db')"
  shows "(table_step T)\<^sup>*\<^sup>* db db'"
  using assms unfolding mark_running_def
  by (elim table_update_one) (auto simp: row_kinds dest!: holds_leaseD intro!: row_step.start)

lemma succeed_claimed_job_steps [op_steps]:
  assumes "succeed_claimed_job now clk jid owner tok res db = Ok (r, db')"
  shows "(table_step T)\<^sup>*\<^sup>* db db'"
  using assms unfolding succeed_claimed_job_def sql_succeed_job_def
  by (elim table_update_one) (auto simp: row_kinds release_lease_def put_result_def dest!: holds_leaseD intro!: row_step.finish)

lemma row_step_put_result: "row_step T j (put_result r j)"
  by (auto simp: row_kinds put_result_def intro!: row_step.data)

lemma row_step_succeed: "state j = Running \<Longrightarrow> row_step T j (succeed_row now res j)"
  by (cases res) (auto simp: row_kinds succeed_row_def release_lease_def put_result_def intro!: row_step.finish)

lemma fail_claimed_job_OkD:
  assumes "fail_claimed_job now clk jid owner tok err res db = Ok (r, db')"
  obtains failed db1 where
    "sql_fail_job now clk jid owner tok ''WORKER_EXCEPTION'' (py_take 2000 err) 0 db = Ok (failed, db1)"
    "db' = db1 \<or> (\<exists>v. update_one no_settings now (\<lambda>j. job_id j = jid \<and> state j = Failed)
       (put_result v) (TypeError ''no row'') db1 = Ok (r, db'))"
  using assms unfolding fail_claimed_job_def
  by (cases "sql_fail_job now clk jid owner tok ''WORKER_EXCEPTION'' (py_take 2000 err) 0 db")
    (fastforce split: option.splits if_splits)+

lemma put_result_steps:
  "db' = db1 \<or> (\<exists>v. update_one no_settings now p (put_result v) e db1 = Ok (r, db')) \<Longrightarrow> (table_step T)\<^sup>*\<^sup>* db1 db'"
  by (auto elim!: table_update_one intro!: row_step_put_result)

lemma fail_claimed_job_steps [op_steps]:
  assumes "fail_claimed_job now clk jid owner tok err res db = Ok (r, db')"
  shows "(table_step T)\<^sup>*\<^sup>* db db'"
  using assms
proof (rule fail_claimed_job_OkD)
  fix failed db1
  assume f: "sql_fail_job now clk jid owner tok ''WORKER_EXCEPTION'' (py_take 2000 err) 0 db = Ok (failed, db1)"
    and rest: "db' = db1 \<or> (\<exists>v. update_one no_settings now (\<lambda>j. job_id j = jid \<and> state j = Failed)
       (put_result v) (TypeError ''no row'') db1 = Ok (r, db'))"
  have "(table_step T)\<^sup>*\<^sup>* db db1"
    using f unfolding sql_fail_job_def
    by (elim table_update_one) (auto simp: row_kinds release_lease_def dest!: holds_leaseD intro!: row_step.finish)
  then show ?thesis using put_result_steps[OF rest] by (rule rtranclp_trans)
qed

lemma checkpoint_running_job_steps [op_steps]:
  assumes "checkpoint_running_job lib now jid owner tok checkpoint db = Ok (v, db')"
  shows "(table_step T)\<^sup>*\<^sup>* db db'"
proof -
  from assms have "db' = db \<or> (\<exists>cp j. update_one no_settings now (holds_lease Running jid owner tok now)
       (\<lambda>j. j\<lparr>payload_json := AList.update ''observation_checkpoint'' (JObj cp) (payload_json j)\<rparr>)
       (RuntimeError ''lost running lease while recording checkpoint'') db = Ok (j, db'))"
    by (auto simp: checkpoint_running_job_def Let_def split: sum.splits option.splits if_splits)
  then show ?thesis
    by (auto elim!: table_update_one simp: row_kinds intro!: row_step.data)
qed

lemma evaluation_OkD:
  assumes "complete_treatment_and_enqueue_evaluation env prios now new_id jid owner tok res db = Ok (s, db')"
  obtains completed db1 where
    "update_one no_settings now (holds_lease Running jid owner tok now) (succeed_row now (Some (JObj res)))
       (RuntimeError (''lost running lease while completing treatment job '' @ jid)) db = Ok (completed, db1)"
    "db' = db1 \<or> (\<exists>j i. fresh_row j \<and> sql_insert j db1 = Ok (i, db'))"
  using assms unfolding complete_treatment_and_enqueue_evaluation_def
  by (auto split: sum.splits if_splits prod.splits intro!: fresh_new_job)

lemma timer_OkD:
  assumes "complete_treatment_and_schedule_timer env prios now clk new_id jid owner tok res db = Ok (s, db')"
  obtains completed db1 where
    "update_one no_settings now (holds_lease Running jid owner tok now) (succeed_row now (Some (JObj res)))
       (RuntimeError (''lost running lease while scheduling timer for job '' @ jid)) db = Ok (completed, db1)"
    "db' = db1 \<or> (\<exists>j i. fresh_row j \<and> sql_insert j db1 = Ok (i, db'))"
  using assms unfolding complete_treatment_and_schedule_timer_def Let_def
  by (auto split: sum.splits if_splits prod.splits json.splits intro!: fresh_new_job)

lemma maybe_insert_steps:
  "db' = db1 \<or> (\<exists>j i. fresh_row j \<and> sql_insert j db1 = Ok (i, db')) \<Longrightarrow> (table_step T)\<^sup>*\<^sup>* db1 db'"
  by (auto intro: table_insert)

lemma table_succeed:
  assumes "update_one no_settings now (holds_lease Running jid owner tok now) (succeed_row now res) e db = Ok (r, db')"
  shows "(table_step T)\<^sup>*\<^sup>* db db'"
  using assms by (elim table_update_one) (auto dest!: holds_leaseD intro!: row_step_succeed)

lemma mark_succeeded_steps [op_steps]:
  "mark_succeeded now jid owner tok res db = Ok (r, db') \<Longrightarrow> (table_step T)\<^sup>*\<^sup>* db db'"
  unfolding mark_succeeded_def by (rule table_succeed)

lemma complete_treatment_and_enqueue_evaluation_steps [op_steps]:
  assumes "complete_treatment_and_enqueue_evaluation env prios now new_id jid owner tok res db = Ok (s, db')"
  shows "(table_step T)\<^sup>*\<^sup>* db db'"
  using assms by (rule evaluation_OkD) (blast intro: rtranclp_trans table_succeed maybe_insert_steps)

lemma complete_treatment_and_schedule_timer_steps [op_steps]:
  assumes "complete_treatment_and_schedule_timer env prios now clk new_id jid owner tok res db = Ok (s, db')"
  shows "(table_step T)\<^sup>*\<^sup>* db db'"
  using assms by (rule timer_OkD) (blast intro: rtranclp_trans table_succeed maybe_insert_steps)

lemma row_step_retry: "state j = Running \<Longrightarrow> attempt_count j < max_attempts j \<Longrightarrow> row_step T j (retry_row now due err j)"
  by (auto simp: row_kinds retry_row_def release_lease_def intro!: row_step.finish)

lemma row_step_failed: "state j = Running \<Longrightarrow> row_step T j (failed_row now err j)"
  by (auto simp: row_kinds failed_row_def release_lease_def intro!: row_step.finish)

lemma mark_failed_OkD:
  assumes "mark_failed now clk jid owner tok err db = Ok (s, db')"
  obtains (retry) r due row where "fetchone (sql_select (holds_lease Running jid owner tok now) db) = Some row"
      "next_failure_state (attempt_count row) (max_attempts row) = Retry_wait" "s = Retry_wait"
      "due = clk + retry_backoff (attempt_count row)"
      "update_one no_settings now (holds_lease Running jid owner tok now) (retry_row now due err)
         (RuntimeError ''lost running lease while marking failed'') db = Ok (r, db')"
  | (bury) r row rows db1 where "fetchone (sql_select (holds_lease Running jid owner tok now) db) = Some row"
      "next_failure_state (attempt_count row) (max_attempts row) \<noteq> Retry_wait" "s = Dead_letter"
      "update_one no_settings now (holds_lease Running jid owner tok now) (failed_row now err)
         (RuntimeError ''lost running lease while marking failed'') db = Ok (r, db1)"
      "sql_update no_settings now (\<lambda>j. job_id j = jid \<and> state j = Failed) (\<lambda>j. j\<lparr>state := Dead_letter\<rparr>) db1
         = Ok (rows, db')"
  using assms unfolding mark_failed_def by (auto split: sum.splits option.splits if_splits prod.splits)

lemma table_bury:
  "sql_update cfg now (\<lambda>j. job_id j = jid \<and> state j = Failed) (\<lambda>j. j\<lparr>state := Dead_letter\<rparr>) db = Ok (rows, db')
   \<Longrightarrow> (table_step T)\<^sup>*\<^sup>* db db'"
  by (erule table_update) (auto simp: row_kinds intro!: row_step.bury)

lemma mark_failed_steps [op_steps]:
  assumes "mark_failed now clk jid owner tok err db = Ok (s, db')" and "distinct_ids db"
  shows "(table_step T)\<^sup>*\<^sup>* db db'"
  using assms(1)
proof (cases rule: mark_failed_OkD)
  case (retry r due row)
  have "attempt_count j < max_attempts j" if j: "j \<in> set (jobs db)" "holds_lease Running jid owner tok now j" for j
  proof -
    have "j = row"
      using distinct_ids_same[OF assms(2) j(1)] fetchone_select_SomeD[OF retry(1)] j(2) by (metis holds_leaseD)
    with retry(2) show ?thesis by (force simp: next_failure_state_def split: if_splits)
  qed
  with retry(5) show ?thesis by (elim table_update_one) (auto dest: holds_leaseD intro!: row_step_retry)
next
  case (bury r row rows db1)
  have "(table_step T)\<^sup>*\<^sup>* db db1"
    using bury(4) by (elim table_update_one) (auto dest!: holds_leaseD intro!: row_step_failed)
  with table_bury[OF bury(5)] show ?thesis by (rule rtranclp_trans[rotated])
qed

lemma mark_dead_letter_steps [op_steps]:
  assumes "mark_dead_letter now jid owner tok err res db = Ok (r, db')"
  shows "(table_step T)\<^sup>*\<^sup>* db db'"
  using assms unfolding mark_dead_letter_def
  by (elim table_update_one)
    (auto simp: row_kinds release_lease_def put_result_def dest!: holds_leaseD intro!: row_step.finish split: option.splits)

lemma requeue_with_backoff_steps [op_steps]:
  assumes "requeue_with_backoff now jid owner tok delay detail db = Ok (r, db')"
  shows "(table_step T)\<^sup>*\<^sup>* db db'"
  using assms unfolding requeue_with_backoff_def
  by (elim table_update_one) (auto simp: row_kinds release_lease_def dest!: holds_leaseD intro!: row_step.backoff)

lemma row_step_recover: "expired now j \<Longrightarrow> row_step T j (recover_row now j)"
  by (auto simp: row_kinds recover_row_def release_lease_def expired_def leased_states_def intro!: row_step.expire)

lemma recover_expired_jobs_steps [op_steps]:
  assumes "recover_expired_jobs now db = Ok (n, db')"
  shows "(table_step T)\<^sup>*\<^sup>* db db'"
proof -
  from assms obtain rows1 db1 rows2 where
    u1: "sql_update no_settings now (expired now) (recover_row now) db = Ok (rows1, db1)" and
    u2: "sql_update no_settings now (retry_due now) (\<lambda>j. j\<lparr>state := Queued, not_before := None\<rparr>) db1 = Ok (rows2, db')"
    unfolding recover_expired_jobs_def sql_recover_expired_jobs_def
    by (auto split: sum.splits)
  have "(table_step T)\<^sup>*\<^sup>* db db1" using u1 by (elim table_update) (rule row_step_recover)
  moreover have "(table_step T)\<^sup>*\<^sup>* db1 db'"
    using u2 by (elim table_update) (auto simp: row_kinds retry_due_def intro!: row_step.due)
  ultimately show ?thesis by (rule rtranclp_trans)
qed

lemma row_step_cancel: "state j \<in> set active_states \<Longrightarrow> row_step T j (cancel_row now message res j)"
  by (cases res) (auto simp: row_kinds cancel_row_def release_lease_def put_result_def intro!: row_step.stop)

lemma cancel_job_OkD:
  assumes "cancel_job now jid message res db = Ok (r, db')"
  obtains (kept) "db' = db" "get_job jid db = Some r"
      "state r \<in> set terminal_states \<or> state r = Running \<and> error_code r \<in> Some ` set publication_codes"
  | (cancelled) durable current where "get_job jid db = Some current" "state current \<notin> set terminal_states"
      "\<not> (state current = Running \<and> error_code current \<in> Some ` set publication_codes)"
      "update_one no_settings now (\<lambda>j. job_id j = jid \<and> state j \<in> set active_states)
         (cancel_row now message durable) (RuntimeError ''cancel_job lost locked active row'') db = Ok (r, db')"
proof (cases "get_job jid db")
  case None
  with assms show ?thesis by (simp add: cancel_job_def)
next
  case (Some current)
  with assms that show ?thesis
    unfolding cancel_job_def by (auto split: sum.splits if_splits)
qed

lemma cancel_job_steps [op_steps]:
  assumes "cancel_job now jid message res db = Ok (r, db')"
  shows "(table_step T)\<^sup>*\<^sup>* db db'"
  using assms by (cases rule: cancel_job_OkD) (auto elim!: table_update_one intro!: row_step_cancel)

lemma cancel_in_state_steps:
  assumes "cancel_in_state env now st q db = Ok (n, db')" and "st \<in> {Queued, Retry_wait, Failed, Dead_letter}"
  shows "(table_step T)\<^sup>*\<^sup>* db db'"
  using assms unfolding cancel_in_state_def
  by (auto split: sum.splits elim!: table_update simp: row_kinds intro!: row_step.drop_idle)

lemma cancel_queued_steps [op_steps]:
  "cancel_queued env now q db = Ok (n, db') \<Longrightarrow> (table_step T)\<^sup>*\<^sup>* db db'"
  unfolding cancel_queued_def by (erule cancel_in_state_steps) simp

lemma clear_dead_letter_steps [op_steps]:
  "clear_dead_letter env now q db = Ok (n, db') \<Longrightarrow> (table_step T)\<^sup>*\<^sup>* db db'"
  unfolding clear_dead_letter_def by (erule cancel_in_state_steps) simp

lemma requeue_dead_letter_job_OkD:
  assumes "requeue_dead_letter_job env now new_id jid db = Ok (i, db')"
  obtains row rows db1 where "row \<in> set (jobs db)" "job_id row = jid" "state row = Dead_letter"
    "sql_update no_settings now (\<lambda>j. job_id j = jid) (\<lambda>j. j\<lparr>state := Cancelled\<rparr>) db = Ok (rows, db1)"
    "sql_insert (new_job now new_id (queue_name row) (entity_type row) (entity_id row)
       (operation row) (logical_queue_name (queue_name row)) (priority row) (payload_json row)
       None None (max_attempts row)) db1 = Ok (i, db')"
proof (cases "fetchone (sql_select (\<lambda>j. job_id j = jid \<and> state j = Dead_letter) db)")
  case None
  with assms show ?thesis by (simp add: requeue_dead_letter_job_def)
next
  case (Some row)
  with fetchone_select_SomeD[OF Some] assms that show ?thesis
    unfolding requeue_dead_letter_job_def by (auto split: sum.splits if_splits)
qed

lemma requeue_dead_letter_job_steps [op_steps]:
  assumes "requeue_dead_letter_job env now new_id jid db = Ok (i, db')" and "distinct_ids db"
  shows "(table_step T)\<^sup>*\<^sup>* db db'"
  using assms(1)
proof (rule requeue_dead_letter_job_OkD)
  fix row rows db1
  assume row: "row \<in> set (jobs db)" "job_id row = jid" "state row = Dead_letter"
    and u: "sql_update no_settings now (\<lambda>j. job_id j = jid) (\<lambda>j. j\<lparr>state := Cancelled\<rparr>) db = Ok (rows, db1)"
    and i: "sql_insert (new_job now new_id (queue_name row) (entity_type row) (entity_id row)
       (operation row) (logical_queue_name (queue_name row)) (priority row) (payload_json row)
       None None (max_attempts row)) db1 = Ok (i, db')"
  have "j = row" if "j \<in> set (jobs db)" "job_id j = jid" for j
    using distinct_ids_same[OF assms(2) that(1) row(1)] that(2) row(2) by simp
  with row(3) have "(table_step T)\<^sup>*\<^sup>* db db1"
    using u by (elim table_update) (auto simp: row_kinds intro!: row_step.drop_idle)
  with i show ?thesis by (blast intro: rtranclp_trans table_insert fresh_new_job)
qed

lemma mark_flake_mutation_executed_steps [op_steps]:
  assumes "mark_flake_mutation_executed now jid by db = Ok (r, db')"
  shows "(table_step T)\<^sup>*\<^sup>* db db'"
  using assms unfolding mark_flake_mutation_executed_def
  by (elim table_update_one) (auto simp: row_kinds intro!: row_step.attest)

lemma fresh_enqueue_row [simp]: "fresh_row (enqueue_row now jid m r k)"
  by (simp add: enqueue_row_def)

lemma enqueue_debounce_steps:
  assumes "enqueue_debounce now jid m r db = Ok (i, db')"
  shows "(table_step T)\<^sup>*\<^sup>* db db'"
  using assms unfolding enqueue_debounce_def Let_def
  by (auto split: sum.splits option.splits elim!: table_update_one simp: row_kinds
      intro!: row_step.data intro: table_insert)

lemma enqueue_supersede_steps:
  assumes "enqueue_supersede now k db = Ok db'"
  shows "(table_step T)\<^sup>*\<^sup>* db db'"
  using assms unfolding enqueue_supersede_def superseded_states_def
  by (auto split: sum.splits if_splits elim!: table_update simp: row_kinds intro!: row_step.drop_idle)

lemma enqueue_job_steps [op_steps]:
  assumes "enqueue_job env prios now jid m db = Ok (i, db')"
  shows "(table_step T)\<^sup>*\<^sup>* db db'"
  using assms unfolding enqueue_job_def
  by (auto split: sum.splits option.splits if_splits dest!: enqueue_supersede_steps
      intro: rtranclp_trans table_insert[OF _ fresh_enqueue_row] enqueue_debounce_steps)

lemma publication_fence_steps [op_steps]:
  assumes "publication_fence now jid owner tok db = Ok (b, db')"
  shows "(table_step T)\<^sup>*\<^sup>* db db'"
  using assms unfolding publication_fence_def
  by (auto split: sum.splits option.splits elim!: table_update_one simp: row_kinds fence_row_def intro!: row_step.data)

lemma publication_success_steps [op_steps]:
  assumes "publication_success now jid owner tok res db = Ok (r, db')"
  shows "(table_step T)\<^sup>*\<^sup>* db db'"
  using assms unfolding publication_success_def
  by (elim table_update_one)
    (auto simp: row_kinds publish_row_def release_lease_def closing_under_def running_under_def intro!: row_step.finish)

lemma publication_torn_steps [op_steps]:
  assumes "publication_torn now jid pe ce db = Ok (r, db')"
  shows "(table_step T)\<^sup>*\<^sup>* db db'"
  using assms unfolding publication_torn_def
  by (elim table_update_one) (auto simp: row_kinds torn_row_def release_lease_def intro!: row_step.finish)

lemma publication_repair_steps [op_steps]:
  assumes "publication_repair now jid owner tok db = Ok (rows, db')"
  shows "(table_step T)\<^sup>*\<^sup>* db db'"
  using assms unfolding publication_repair_def
  by (elim table_update) (auto simp: row_kinds unfence_row_def intro!: row_step.data)

section \<open>Steps of the queue\<close>

text \<open>One rule per transaction that commits. The tokens a claim generates are in \<open>T\<close>.\<close>

inductive queue_step :: "uuid set \<Rightarrow> queue_db \<Rightarrow> queue_db \<Rightarrow> bool" for T where
  enqueue: "enqueue_job env prios now jid m db = Ok (i, db') \<Longrightarrow> queue_step T db db'"
| claim_queue: "claim_queue_jobs env tok now q owner secs limit ee db = Ok (rows, db')
    \<Longrightarrow> \<forall>i. tok i \<in> T \<Longrightarrow> queue_step T db db'"
| claim_one: "claim_job tok now jid owner secs db = Ok (r, db') \<Longrightarrow> tok \<in> T \<Longrightarrow> queue_step T db db'"
| claim_envelope: "claim_job_with_envelope tok now jid owner envelope secs db = Ok (r, db')
    \<Longrightarrow> tok \<in> T \<Longrightarrow> queue_step T db db'"
| envelope: "record_claim_envelope now jid owner tok envelope db = Ok (r, db') \<Longrightarrow> queue_step T db db'"
| start_claimed: "start_claimed_job now jid owner tok db = Ok (j, db') \<Longrightarrow> queue_step T db db'"
| succeed_claimed: "succeed_claimed_job now clk jid owner tok res db = Ok (j, db') \<Longrightarrow> queue_step T db db'"
| fail_claimed: "fail_claimed_job now clk jid owner tok err r db = Ok (j, db') \<Longrightarrow> queue_step T db db'"
| running: "mark_running now jid owner tok db = Ok (j, db') \<Longrightarrow> queue_step T db db'"
| checkpoint: "checkpoint_running_job lib now jid owner tok cp db = Ok (v, db') \<Longrightarrow> queue_step T db db'"
| succeeded: "mark_succeeded now jid owner tok r db = Ok (j, db') \<Longrightarrow> queue_step T db db'"
| evaluation: "complete_treatment_and_enqueue_evaluation env prios now new_id jid owner tok d db = Ok (s, db')
    \<Longrightarrow> queue_step T db db'"
| timer: "complete_treatment_and_schedule_timer env prios now clk new_id jid owner tok d db = Ok (s, db')
    \<Longrightarrow> queue_step T db db'"
| failed: "mark_failed now clk jid owner tok err db = Ok (st, db') \<Longrightarrow> queue_step T db db'"
| dead: "mark_dead_letter now jid owner tok err r db = Ok (j, db') \<Longrightarrow> queue_step T db db'"
| backoff: "requeue_with_backoff now jid owner tok delay detail db = Ok (j, db') \<Longrightarrow> queue_step T db db'"
| recover: "recover_expired_jobs now db = Ok (n, db') \<Longrightarrow> queue_step T db db'"
| cancel: "cancel_job now jid message r db = Ok (j, db') \<Longrightarrow> queue_step T db db'"
| acknowledge: "acknowledge_cancellation il now jid ack db = Ok (r, db') \<Longrightarrow> queue_step T db db'"
| cancel_all: "cancel_queued env now q db = Ok (n, db') \<Longrightarrow> queue_step T db db'"
| clear: "clear_dead_letter env now q db = Ok (n, db') \<Longrightarrow> queue_step T db db'"
| requeue_dead: "requeue_dead_letter_job env now new_id jid db = Ok (i, db') \<Longrightarrow> queue_step T db db'"
| flake: "mark_flake_mutation_executed now jid by' db = Ok (j, db') \<Longrightarrow> queue_step T db db'"
| fence: "publication_fence now jid owner tok db = Ok (b, db') \<Longrightarrow> queue_step T db db'"
| publish: "publication_success now jid owner tok res db = Ok (j, db') \<Longrightarrow> queue_step T db db'"
| torn: "publication_torn now jid pe ce db = Ok (j, db') \<Longrightarrow> queue_step T db db'"
| repair: "publication_repair now jid owner tok db = Ok (rows, db') \<Longrightarrow> queue_step T db db'"

lemma queue_step_table:
  assumes "queue_step T db db'" and "distinct_ids db"
  shows "(table_step T)\<^sup>*\<^sup>* db db'"
  using assms by (cases rule: queue_step.cases) (auto intro: op_steps)

lemma queue_steps_table:
  assumes "(queue_step T)\<^sup>*\<^sup>* db db'" and "distinct_ids db"
  shows "(table_step T)\<^sup>*\<^sup>* db db'"
  using assms(1)
proof (induction rule: rtranclp_induct)
  case (step db1 db2)
  then show ?case
    using queue_step_table table_steps_ids[OF step.IH assms(2)] by (meson rtranclp_trans)
qed simp

definition empty_queue :: queue_db where
  "empty_queue = \<lparr>jobs = [], history = []\<rparr>"

text \<open>The databases the program can reach from an empty one.\<close>

definition reachable :: "queue_db \<Rightarrow> bool" where
  "reachable db = (queue_step UNIV)\<^sup>*\<^sup>* empty_queue db"

lemma reachable_table: "reachable db \<Longrightarrow> (table_step UNIV)\<^sup>*\<^sup>* empty_queue db"
  unfolding reachable_def by (erule queue_steps_table) (simp add: empty_queue_def distinct_ids_def)

end
