(* ===== verification/Queue_Invariants.thy ===== *)
theory Queue_Invariants
  imports Queue_Steps
begin

text \<open>
  What holds in every database the program can reach. The locale \<open>row_invariant\<close> turns a
  property of rows that every row step keeps into an invariant of the queue; it is
  interpreted for the lease columns and for the attempt counter. The locale \<open>lease_fence\<close>
  says that a lease, once lost, is lost for good and that completing ends it, and concludes
  that a lease completes at most once. The remaining theorems are about the life of a row:
  its identity never changes, a terminal row never becomes active again, and the history
  table replays every row from \<^verbatim>\<open>queued\<close> to its present state.
\<close>

section \<open>Invariants of rows\<close>

locale row_invariant = row_property +
  assumes fresh: "fresh_row j \<Longrightarrow> row_checks j \<Longrightarrow> P j"
    and step: "row_step T j j' \<Longrightarrow> P j \<Longrightarrow> P j'"
begin

lemma table_step_keeps:
  assumes "table_step T db db'" and "all_rows db"
  shows "all_rows db'"
  using assms(1)
proof cases
  case (update cfg now p f rows)
  from update(2) assms(2) have "\<forall>j\<in>set (jobs db). p j \<longrightarrow> P (f j)"
    by (auto simp: all_rows_def intro: step)
  with assms(2) show ?thesis
    by (auto simp: all_rows_def sql_update_OkD(1)[OF update(1)] touch_keeps)
next
  case (insert j i)
  then show ?thesis
    using sql_insert_keeps[OF insert(1) assms(2)] sql_insert_OkD(6)[OF insert(1)] fresh by blast
qed

lemma table_steps_keep: "(table_step T)\<^sup>*\<^sup>* db db' \<Longrightarrow> all_rows db \<Longrightarrow> all_rows db'"
  by (induction rule: rtranclp_induct) (auto intro: table_step_keeps)

lemma queue_steps_keep: "(queue_step T)\<^sup>*\<^sup>* db db' \<Longrightarrow> distinct_ids db \<Longrightarrow> all_rows db \<Longrightarrow> all_rows db'"
  by (blast intro: table_steps_keep queue_steps_table)

lemma reachable_row:
  assumes "reachable db" and "j \<in> set (jobs db)"
  shows "P j"
proof -
  have "all_rows db"
    using table_steps_keep[OF reachable_table[OF assms(1)]] by (simp add: all_rows_def empty_queue_def)
  with assms(2) show ?thesis by (simp add: all_rows_def)
qed

end

definition lease_ok :: "job \<Rightarrow> bool" where
  "lease_ok j =
     ((state j \<in> {Leased, Running} \<longleftrightarrow> lease_owner j \<noteq> None)
      \<and> (lease_token j = None \<longleftrightarrow> lease_owner j = None)
      \<and> (lease_expires_at j = None \<longleftrightarrow> lease_owner j = None))"

interpretation lease: row_invariant lease_ok
proof unfold_locales
  fix j t show "lease_ok (j\<lparr>updated_at := t\<rparr>) = lease_ok j" by (simp add: lease_ok_def)
next
  fix j show "fresh_row j \<Longrightarrow> lease_ok j" by (simp add: fresh_row_def lease_ok_def unleased_def)
next
  fix T j j' assume "row_step T j j'" "lease_ok j"
  then show "lease_ok j'"
    by (cases rule: row_step.cases) (auto simp: lease_ok_def row_kinds active_states_def)
qed

definition attempts_ok :: "job \<Rightarrow> bool" where
  "attempts_ok j =
     (0 \<le> attempt_count j \<and> attempt_count j \<le> max (max_attempts j) 2
      \<and> (state j \<in> {Queued, Retry_wait} \<longrightarrow> attempt_count j < max_attempts j \<or> attempt_count j \<le> 1))"

interpretation attempts: row_invariant attempts_ok
proof unfold_locales
  fix j t show "attempts_ok (j\<lparr>updated_at := t\<rparr>) = attempts_ok j" by (simp add: attempts_ok_def)
next
  fix j show "fresh_row j \<Longrightarrow> attempts_ok j" by (simp add: fresh_row_def attempts_ok_def)
next
  fix T j j' assume "row_step T j j'" "attempts_ok j"
  then show "attempts_ok j'"
    by (cases rule: row_step.cases) (auto simp: attempts_ok_def same_identity_def)
qed

section \<open>A sample run\<close>

text \<open>A job enqueued, claimed and started, as a concrete reachable database.\<close>

definition sample_manifest :: manifest where
  "sample_manifest = (manifest_defaults ''intake'' (JObj [(''sku'', JStr ''A1'')]))\<lparr>m_dedupe_key := Some ''k1''\<rparr>"

definition sample_row :: job where
  "sample_row = new_job 0 ''j1'' ''intake'' ''generic'' ''intake'' ''run'' ''intake'' 100
     [(''sku'', JStr ''A1'')] None (Some ''k1'') 5"

definition sample_queued :: queue_db where
  "sample_queued = \<lparr>jobs = [sample_row], history = []\<rparr>"

definition sample_claimed :: queue_db where
  "sample_claimed =
     \<lparr>jobs = [sample_row\<lparr>state := Leased, attempt_count := 1, lease_owner := Some ''w1'', lease_token := Some ''t1'',
        lease_expires_at := Some 301, last_heartbeat_at := Some 1, updated_at := 1, started_at := Some 1\<rparr>],
      history = [\<lparr>hist_job_id = ''j1'', hist_old_state = Queued, hist_new_state = Leased,
        hist_transition = ''state_change'', hist_worker_id = None, hist_created_at = 1\<rparr>]\<rparr>"

definition sample_running :: queue_db where
  "sample_running =
     \<lparr>jobs = [sample_row\<lparr>state := Running, attempt_count := 1, lease_owner := Some ''w1'', lease_token := Some ''t1'',
        lease_expires_at := Some 301, last_heartbeat_at := Some 1, updated_at := 2, started_at := Some 1\<rparr>],
      history = history sample_claimed @
       [\<lparr>hist_job_id = ''j1'', hist_old_state = Leased, hist_new_state = Running,
        hist_transition = ''state_change'', hist_worker_id = None, hist_created_at = 2\<rparr>]\<rparr>"

lemma sample_enqueue: "enqueue_job ''production'' [] 0 ''j1'' sample_manifest empty_queue = Ok (''j1'', sample_queued)"
  by code_simp

lemma sample_claim:
  "claim_queue_jobs ''production'' (\<lambda>_. ''t1'') 1 ''intake'' ''w1'' 300 1 JNull sample_queued
   = Ok (jobs sample_claimed, sample_claimed)"
  by code_simp

lemma sample_start: "mark_running 2 ''j1'' ''w1'' ''t1'' sample_claimed = Ok (hd (jobs sample_running), sample_running)"
  by code_simp

lemma reachable_step: "reachable db \<Longrightarrow> queue_step UNIV db db' \<Longrightarrow> reachable db'"
  unfolding reachable_def by simp

lemma sample_reachable: "reachable sample_running"
proof -
  have "reachable empty_queue" by (simp add: reachable_def)
  then have "reachable sample_queued"
    using sample_enqueue by (rule reachable_step[OF _ queue_step.enqueue])
  then have "reachable sample_claimed"
    using sample_claim by (blast intro: reachable_step queue_step.claim_queue)
  then show ?thesis
    using sample_start by (rule reachable_step[OF _ queue_step.running])
qed

section \<open>Leases and attempts\<close>

text \<open>C35: in every reachable database a row carries a lease owner exactly while it is leased or
  running, and the owner, the token and the expiry are set and cleared together. So a row that
  is pending or finished can never be completed under a stale token.\<close>

theorem lease_columns_invariant:
  assumes "reachable db" and "j \<in> set (jobs db)"
  shows "(state j \<in> {Leased, Running} \<longleftrightarrow> lease_owner j \<noteq> None)
    \<and> (lease_token j = None \<longleftrightarrow> lease_owner j = None)
    \<and> (lease_expires_at j = None \<longleftrightarrow> lease_owner j = None)"
  using lease.reachable_row[OF assms] by (simp add: lease_ok_def)

theorem lease_columns_invariant_witness:
  "reachable sample_running \<and> hd (jobs sample_running) \<in> set (jobs sample_running)
   \<and> lease_owner (hd (jobs sample_running)) = Some ''w1'' \<and> lease_token (hd (jobs sample_running)) \<noteq> None"
  using lease_columns_invariant[OF sample_reachable, of "hd (jobs sample_running)"] sample_reachable
  by (simp add: sample_running_def sample_row_def new_job_def)

text \<open>The attempt counter of a reachable row never exceeds its limit by more than the one
  attempt that the reset of \<^verbatim>\<open>requeue_with_backoff\<close> or a limit of zero allows: it is at most
  \<open>max_attempts\<close>, or two when the limit is smaller; and a pending row has attempts left, or at
  most one behind it.\<close>

lemma attempts_bounded:
  assumes "reachable db" and "j \<in> set (jobs db)"
  shows "0 \<le> attempt_count j \<and> attempt_count j \<le> max (max_attempts j) 2
    \<and> (state j \<in> {Queued, Retry_wait} \<longrightarrow> attempt_count j < max_attempts j \<or> attempt_count j \<le> 1)"
  using attempts.reachable_row[OF assms] by (simp add: attempts_ok_def)

section \<open>The life of a row\<close>

text \<open>How a row may look after any number of steps.\<close>

definition descends :: "job \<Rightarrow> job \<Rightarrow> bool" where
  "descends j j' =
     (same_identity j j' \<and> (state j \<in> set terminal_states \<longrightarrow> state j' \<in> set terminal_states)
      \<and> (state j \<in> {Succeeded, Cancelled} \<longrightarrow> state j' = state j))"

lemma descends_refl [simp]: "descends j j"
  by (simp add: descends_def same_identity_def)

lemma descends_trans: "descends a b \<Longrightarrow> descends b c \<Longrightarrow> descends a c"
  by (auto simp: descends_def same_identity_def)

lemma row_step_descends: "row_step T j j' \<Longrightarrow> descends j j'"
  by (cases rule: row_step.cases) (auto simp: descends_def terminal_states_def active_states_def)

lemma descends_touch: "descends j (f j) \<Longrightarrow> descends j (touch now f j)"
  by (simp add: descends_def same_identity_def touch_def)

lemma table_step_descends:
  assumes "table_step T db db'" and "distinct_ids db" and "row_of db i = Some j"
  shows "\<exists>j'. row_of db' i = Some j' \<and> descends j j'"
proof -
  from assms(2,3) have j: "j \<in> set (jobs db)" "job_id j = i" by (simp_all add: row_of_iff)
  have d': "distinct_ids db'" by (rule table_step_ids[OF assms(1,2)])
  from assms(1) obtain g news where "jobs db' = map g (jobs db) @ news" "g j = j \<or> row_step T j (g j)"
    using j(1) by (metis table_stepE)
  with j(1) have "g j \<in> set (jobs db')" "descends j (g j)" by (auto dest: row_step_descends)
  with j d' show ?thesis by (auto simp: row_of_iff descends_def same_identity_def)
qed

lemma table_steps_descend:
  "(table_step T)\<^sup>*\<^sup>* db db' \<Longrightarrow> distinct_ids db \<Longrightarrow> row_of db i = Some j \<Longrightarrow>
   \<exists>j'. row_of db' i = Some j' \<and> descends j j'"
proof (induction rule: rtranclp_induct)
  case (step db1 db2)
  then show ?case using table_steps_ids table_step_descends descends_trans by metis
qed simp

lemma reachable_ids: "reachable db \<Longrightarrow> distinct_ids db"
  using table_steps_ids[OF reachable_table] by (simp add: empty_queue_def distinct_ids_def)

lemma queue_steps_descend:
  "(queue_step T)\<^sup>*\<^sup>* db db' \<Longrightarrow> reachable db \<Longrightarrow> row_of db i = Some j \<Longrightarrow>
   \<exists>j'. row_of db' i = Some j' \<and> descends j j'"
  using queue_steps_table reachable_ids table_steps_descend by blast

text \<open>Whatever transactions run, in any order and any number, a row of a reachable
  database is never deleted and keeps its queue, entity, key and attempt limit; once
  it is in a terminal state it stays in a terminal state (although the transition table
  would allow \<^verbatim>\<open>cancelled\<close>, \<^verbatim>\<open>failed\<close> and \<^verbatim>\<open>dead_letter\<close> rows to be queued again), and a succeeded
  or cancelled row keeps exactly its state.\<close>

lemma terminal_rows_stay_terminal:
  assumes "reachable db" and "(queue_step T)\<^sup>*\<^sup>* db db'" and "row_of db i = Some j"
  shows "\<exists>j'. row_of db' i = Some j' \<and> queue_name j' = queue_name j \<and> entity_id j' = entity_id j
    \<and> dedupe_key j' = dedupe_key j \<and> max_attempts j' = max_attempts j
    \<and> (state j \<in> set terminal_states \<longrightarrow> state j' \<in> set terminal_states)
    \<and> (state j \<in> {Succeeded, Cancelled} \<longrightarrow> state j' = state j)"
  using queue_steps_descend[OF assms(2,1,3)] by (auto simp: descends_def same_identity_def)

section \<open>The history table\<close>

text \<open>A transition the program makes: one of the transition table, or one of the two that the
  table does not list.\<close>

definition transition_made :: "job_state \<Rightarrow> job_state \<Rightarrow> bool" where
  "transition_made a b =
     (can_transition (state_name a) (state_name b) \<or> (a = Leased \<and> b = Failed) \<or> (a = Queued \<and> b = Succeeded))"

lemma transitions_listed:
  "\<forall>(a, b) \<in> set [(Queued, Leased), (Leased, Running), (Running, Succeeded), (Running, Failed), (Running, Dead_letter),
     (Running, Retry_wait), (Leased, Failed), (Leased, Queued), (Running, Queued), (Retry_wait, Queued),
     (Failed, Dead_letter), (Queued, Cancelled), (Retry_wait, Cancelled), (Leased, Cancelled), (Running, Cancelled),
     (Failed, Cancelled), (Dead_letter, Cancelled), (Queued, Succeeded)]. transition_made a b"
  by code_simp

lemma row_step_transition: "row_step T j j' \<Longrightarrow> state j' = state j \<or> transition_made (state j) (state j')"
  using transitions_listed
  by (elim row_step.cases) (auto simp: active_states_def split: if_splits)

text \<open>The entries of one job, and the state they lead to from \<^verbatim>\<open>queued\<close>.\<close>

definition entries_of :: "uuid \<Rightarrow> history_row list \<Rightarrow> history_row list" where
  "entries_of i hs = filter (\<lambda>h. hist_job_id h = i) hs"

fun replay :: "job_state \<Rightarrow> history_row list \<Rightarrow> job_state option" where
  "replay s [] = Some s"
| "replay s (h # hs) = (if hist_old_state h = s then replay (hist_new_state h) hs else None)"

lemma replay_append: "replay s (xs @ ys) = (case replay s xs of None \<Rightarrow> None | Some s' \<Rightarrow> replay s' ys)"
  by (induction xs arbitrary: s) auto

lemma entries_of_append [simp]: "entries_of i (xs @ ys) = entries_of i xs @ entries_of i ys"
  by (simp add: entries_of_def)

lemma entries_of_concat:
  assumes "distinct (map job_id js)" and "\<And>j. j \<in> set js \<Longrightarrow> job_id (g j) = job_id j"
  shows "entries_of i (concat (map (\<lambda>j. history_entry cfg now j (g j)) js)) =
    (case map_of (map (\<lambda>j. (job_id j, j)) js) i of None \<Rightarrow> [] | Some j \<Rightarrow> history_entry cfg now j (g j))"
  using assms
proof (induction js)
  case Nil
  then show ?case by (simp add: entries_of_def)
next
  case (Cons j js)
  have none: "map_of (map (\<lambda>j. (job_id j, j)) js) (job_id j) = None"
    using Cons.prems(1) by (auto simp: map_of_eq_None_iff image_image)
  have own: "entries_of i (history_entry cfg now j (g j)) = (if i = job_id j then history_entry cfg now j (g j) else [])"
    using Cons.prems(2)[of j] by (auto simp: entries_of_def history_entry_def)
  have IH: "entries_of i (concat (map (\<lambda>j. history_entry cfg now j (g j)) js)) =
    (case map_of (map (\<lambda>j. (job_id j, j)) js) i of None \<Rightarrow> [] | Some j \<Rightarrow> history_entry cfg now j (g j))"
    using Cons.prems by (intro Cons.IH) auto
  show ?case using own none by (simp add: IH)
qed

definition history_ok :: "queue_db \<Rightarrow> bool" where
  "history_ok db =
     (distinct_ids db
      \<and> (\<forall>h\<in>set (history db). transition_made (hist_old_state h) (hist_new_state h) \<and> row_of db (hist_job_id h) \<noteq> None)
      \<and> (\<forall>j\<in>set (jobs db). replay Queued (entries_of (job_id j) (history db)) = Some (state j)))"

lemma table_step_history:
  assumes "table_step T db db'" and "history_ok db"
  shows "history_ok db'"
proof -
  from assms(2) have d: "distinct_ids db" by (simp add: history_ok_def)
  have d': "distinct_ids db'" by (rule table_step_ids[OF assms(1) d])
  from assms(1) obtain g news cfg now where js: "jobs db' = map g (jobs db) @ news"
    and gs: "\<forall>j\<in>set (jobs db). g j = j \<or> row_step T j (g j)"
    and ns: "\<forall>j\<in>set news. fresh_row j \<and> row_checks j \<and> job_id j \<notin> set (map job_id (jobs db))"
    and hs: "history db' = history db @ concat (map (\<lambda>j. history_entry cfg now j (g j)) (jobs db))"
    by (rule table_stepE)
  note g = gs[rule_format] and news = ns[rule_format]
  have id: "job_id (g j) = job_id j" if "j \<in> set (jobs db)" for j
    using g[OF that] by (auto dest!: row_step_identity simp: same_identity_def)
  have entries: "entries_of i (history db') = entries_of i (history db) @
      (case row_of db i of None \<Rightarrow> [] | Some j \<Rightarrow> history_entry cfg now j (g j))" for i
    unfolding hs row_of_def using entries_of_concat[of "jobs db" g i cfg now] d id by (simp add: distinct_ids_def)
  have "replay Queued (entries_of (job_id j') (history db')) = Some (state j')" if "j' \<in> set (jobs db')" for j'
  proof (cases "j' \<in> set news")
    case True
    then have n: "row_of db (job_id j') = None"
      using news[OF True] by (auto simp: row_of_def map_of_eq_None_iff image_image)
    then have "entries_of (job_id j') (history db) = []"
      using assms(2) by (auto simp: history_ok_def entries_of_def filter_empty_conv)
    with n news[OF True] show ?thesis by (simp add: entries fresh_row_def)
  next
    case False
    with that js obtain j where j: "j \<in> set (jobs db)" "j' = g j" by auto
    then have "row_of db (job_id j) = Some j" using d by (simp add: row_of_iff)
    moreover have "replay Queued (entries_of (job_id j) (history db)) = Some (state j)"
      using assms(2) j(1) by (simp add: history_ok_def)
    ultimately show ?thesis using j id[OF j(1)]
      by (simp add: entries replay_append history_entry_def)
  qed
  moreover have "transition_made (hist_old_state h) (hist_new_state h) \<and> row_of db' (hist_job_id h) \<noteq> None"
    if "h \<in> set (history db')" for h
  proof (cases "h \<in> set (history db)")
    case True
    then obtain j where j: "row_of db (hist_job_id h) = Some j" and t: "transition_made (hist_old_state h) (hist_new_state h)"
      using assms(2) by (auto simp: history_ok_def)
    from table_step_descends[OF assms(1) d j] t show ?thesis by auto
  next
    case False
    with that obtain j where j: "j \<in> set (jobs db)" "h \<in> set (history_entry cfg now j (g j))" by (auto simp: hs)
    then have "row_of db' (job_id (g j)) = Some (g j)" using d' js by (simp add: row_of_iff)
    with j g[OF j(1)] show ?thesis
      by (auto simp: history_entry_def split: if_splits dest!: row_step_transition)
  qed
  ultimately show ?thesis using d' by (simp add: history_ok_def)
qed

lemma reachable_history: "reachable db \<Longrightarrow> history_ok db"
proof -
  have "(table_step T)\<^sup>*\<^sup>* db0 db \<Longrightarrow> history_ok db0 \<Longrightarrow> history_ok db" for T db0
    by (induction rule: rtranclp_induct) (auto intro: table_step_history)
  moreover have "history_ok empty_queue" by (simp add: history_ok_def empty_queue_def distinct_ids_def)
  ultimately show "reachable db \<Longrightarrow> history_ok db" using reachable_table by blast
qed

text \<open>C36: the history table is a faithful log: replaying the entries of a job from \<^verbatim>\<open>queued\<close>
  always succeeds, each entry starting where the previous one ended, and leads to the state
  that the row has now.\<close>

theorem history_replays_to_state:
  assumes "reachable db" and "j \<in> set (jobs db)"
  shows "replay Queued (entries_of (job_id j) (history db)) = Some (state j)"
  using reachable_history[OF assms(1)] assms(2) by (simp add: history_ok_def)

theorem history_replays_to_state_witness:
  "reachable sample_running \<and> hd (jobs sample_running) \<in> set (jobs sample_running)
   \<and> replay Queued (entries_of ''j1'' (history sample_running)) = Some Running"
  using history_replays_to_state[OF sample_reachable, of "hd (jobs sample_running)"] sample_reachable
  by (simp add: sample_running_def sample_row_def new_job_def)

text \<open>C37: every transition recorded in the history of a reachable database is allowed by
  \<^verbatim>\<open>can_transition\<close>, with two exceptions that the operations make although the table does not
  list them: \<^verbatim>\<open>leased\<close> to \<^verbatim>\<open>failed\<close> (the recovery of an expired lease) and \<^verbatim>\<open>queued\<close> to
  \<^verbatim>\<open>succeeded\<close> (the attestation of a flake mutation).\<close>

theorem history_transitions_allowed:
  assumes "reachable db" and "h \<in> set (history db)"
  shows "can_transition (state_name (hist_old_state h)) (state_name (hist_new_state h))
    \<or> (hist_old_state h, hist_new_state h) \<in> {(Leased, Failed), (Queued, Succeeded)}"
  using reachable_history[OF assms(1)] assms(2) by (auto simp: history_ok_def transition_made_def)

theorem history_transitions_allowed_witness:
  "reachable sample_running \<and> hd (history sample_running) \<in> set (history sample_running)
   \<and> can_transition ''queued'' ''leased''"
  using history_transitions_allowed[OF sample_reachable, of "hd (history sample_running)"] sample_reachable
  by (simp add: sample_running_def sample_claimed_def)

section \<open>Constraints of the table\<close>

definition constraints_ok :: "queue_db \<Rightarrow> bool" where
  "constraints_ok db = (distinct_ids db \<and> uq_active (jobs db) \<and> list_all row_checks (jobs db))"

lemma constraintsD:
  assumes "constraints_ok db"
  shows "distinct_ids db" and "uq_active (jobs db)" and "list_all row_checks (jobs db)"
  using assms by (simp_all add: constraints_ok_def)

lemma table_step_constraints:
  assumes "table_step T db db'" and "constraints_ok db"
  shows "constraints_ok db'"
proof -
  have "distinct_ids db'" using table_step_ids assms by (simp add: constraints_ok_def)
  moreover have "uq_active (jobs db') \<and> list_all row_checks (jobs db')"
    using assms(1)
  proof cases
    case (update cfg now p f rows)
    then show ?thesis using sql_update_OkD(3,4) by blast
  next
    case (insert j i)
    then show ?thesis using sql_insert_OkD[OF insert(1)] assms(2) by (simp add: constraints_ok_def)
  qed
  ultimately show ?thesis by (simp add: constraints_ok_def)
qed

lemma table_steps_constraints: "(table_step T)\<^sup>*\<^sup>* db db' \<Longrightarrow> constraints_ok db \<Longrightarrow> constraints_ok db'"
  by (induction rule: rtranclp_induct) (auto intro: table_step_constraints)

lemma queue_steps_constraints:
  "(queue_step T)\<^sup>*\<^sup>* db db' \<Longrightarrow> constraints_ok db \<Longrightarrow> constraints_ok db'"
  using queue_steps_table table_steps_constraints constraintsD(1) by blast

lemma constraints_empty [simp]: "constraints_ok empty_queue"
  by (simp add: constraints_ok_def empty_queue_def distinct_ids_def uq_active_def)

lemma reachable_constraints: "reachable db \<Longrightarrow> constraints_ok db"
  unfolding reachable_def by (erule queue_steps_constraints) simp

section \<open>A lost lease stays lost\<close>

locale lease_fence =
  fixes sound :: "'s \<Rightarrow> bool" and move :: "'s \<Rightarrow> 's \<Rightarrow> bool" and holds :: "'s \<Rightarrow> bool"
    and finish :: "'c \<Rightarrow> 's \<Rightarrow> 's result"
  assumes sound_move: "sound s \<Longrightarrow> move s s' \<Longrightarrow> sound s'"
    and lost: "sound s \<Longrightarrow> move s s' \<Longrightarrow> \<not> holds s \<Longrightarrow> \<not> holds s'"
    and finish_sound: "sound s \<Longrightarrow> finish c s = Ok s' \<Longrightarrow> sound s'"
    and finish_needs: "sound s \<Longrightarrow> finish c s = Ok s' \<Longrightarrow> holds s"
    and finish_ends: "sound s \<Longrightarrow> finish c s = Ok s' \<Longrightarrow> \<not> holds s'"
begin

lemma lost_forever: "move\<^sup>*\<^sup>* s s' \<Longrightarrow> sound s \<Longrightarrow> \<not> holds s \<Longrightarrow> sound s' \<and> \<not> holds s'"
  by (induction rule: rtranclp_induct) (auto intro: sound_move dest: lost)

lemma stale_rejected:
  assumes "sound s" and "\<not> holds s" and "move\<^sup>*\<^sup>* s s'"
  shows "\<exists>e. finish c s' = Err e"
  using lost_forever[OF assms(3,1,2)] finish_needs by (cases "finish c s'") auto

lemma at_most_once:
  assumes "sound s" and "finish c s = Ok s1" and "move\<^sup>*\<^sup>* s1 s2"
  shows "\<exists>e. finish c' s2 = Err e"
  using stale_rejected finish_sound finish_ends assms by blast

end

text \<open>The operations that end the work on a job under its lease.\<close>

datatype completion =
    Succeed_claimed time time json
  | Fail_claimed time time string "json option"
  | Mark_succeeded time "json option"
  | Complete_evaluation string jobj time uuid jobj
  | Complete_timer string jobj time time uuid jobj
  | Mark_failed time time string
  | Mark_dead_letter time string "json option"
  | Requeue_backoff time int string

fun complete_as :: "uuid \<Rightarrow> string \<Rightarrow> uuid \<Rightarrow> completion \<Rightarrow> queue_db \<Rightarrow> queue_db result" where
  "complete_as jid owner tok (Succeed_claimed now clk res) db =
     map_sum id snd (succeed_claimed_job now clk jid owner tok res db)"
| "complete_as jid owner tok (Fail_claimed now clk err res) db =
     map_sum id snd (fail_claimed_job now clk jid owner tok err res db)"
| "complete_as jid owner tok (Mark_succeeded now res) db =
     map_sum id snd (mark_succeeded now jid owner tok res db)"
| "complete_as jid owner tok (Complete_evaluation env prios now new_id res) db =
     map_sum id snd (complete_treatment_and_enqueue_evaluation env prios now new_id jid owner tok res db)"
| "complete_as jid owner tok (Complete_timer env prios now clk new_id res) db =
     map_sum id snd (complete_treatment_and_schedule_timer env prios now clk new_id jid owner tok res db)"
| "complete_as jid owner tok (Mark_failed now clk err) db =
     map_sum id snd (mark_failed now clk jid owner tok err db)"
| "complete_as jid owner tok (Mark_dead_letter now err res) db =
     map_sum id snd (mark_dead_letter now jid owner tok err res db)"
| "complete_as jid owner tok (Requeue_backoff now delay detail) db =
     map_sum id snd (requeue_with_backoff now jid owner tok delay detail db)"

definition token_held :: "uuid \<Rightarrow> uuid \<Rightarrow> queue_db \<Rightarrow> bool" where
  "token_held jid tok db = (\<exists>j. row_of db jid = Some j \<and> lease_token j = Some tok)"

lemma map_sum_Ok [simp]: "map_sum id f r = Ok y \<longleftrightarrow> (\<exists>x. r = Ok x \<and> y = f x)"
  by (cases r) auto

lemma row_step_token:
  "row_step T j j' \<Longrightarrow> lease_token j' = Some tok \<Longrightarrow> tok \<notin> T \<Longrightarrow> lease_token j = Some tok"
  by (cases rule: row_step.cases) (auto simp: row_kinds)

lemma table_step_token:
  assumes "table_step T db db'" and "distinct_ids db" and "tok \<notin> T" and "\<not> token_held jid tok db"
  shows "\<not> token_held jid tok db'"
proof
  assume "token_held jid tok db'"
  then obtain j' where j': "j' \<in> set (jobs db')" "job_id j' = jid" "lease_token j' = Some tok"
    by (auto simp: token_held_def dest: row_of_SomeD)
  from assms(1) obtain g news where js: "jobs db' = map g (jobs db) @ news"
    and g: "\<forall>j\<in>set (jobs db). g j = j \<or> row_step T j (g j)" and n: "\<forall>j\<in>set news. fresh_row j"
    by (rule table_stepE) blast
  from n j'(3) have "j' \<notin> set news" by (auto simp: fresh_row_def unleased_def)
  with j' js obtain j where j: "j \<in> set (jobs db)" "j' = g j" by auto
  with g have "j' = j \<or> row_step T j j'" by blast
  then have "lease_token j = Some tok \<and> job_id j = jid"
    using j'(2,3) assms(3) by (auto dest: row_step_token row_step_identity simp: same_identity_def)
  with j(1) assms(2,4) show False by (auto simp: token_held_def row_of_iff)
qed

lemma table_steps_token:
  "(table_step T)\<^sup>*\<^sup>* db db' \<Longrightarrow> distinct_ids db \<Longrightarrow> tok \<notin> T \<Longrightarrow> \<not> token_held jid tok db \<Longrightarrow> \<not> token_held jid tok db'"
proof (induction rule: rtranclp_induct)
  case (step db1 db2)
  then show ?case using table_step_token table_steps_ids by blast
qed

text \<open>Every completion starts with the guarded update that takes the row out of the lease.\<close>

definition lease_ended :: "uuid \<Rightarrow> string \<Rightarrow> uuid \<Rightarrow> queue_db \<Rightarrow> queue_db \<Rightarrow> bool" where
  "lease_ended jid owner tok db db' =
     (\<exists>now t f e r db1. update_one no_settings now (holds_lease Running jid owner tok t) f e db = Ok (r, db1)
        \<and> (\<forall>j. job_id (f j) = job_id j \<and> unleased (f j)) \<and> (table_step {})\<^sup>*\<^sup>* db1 db')"

lemma lease_endedI:
  "update_one no_settings now (holds_lease Running jid owner tok t) f e db = Ok (r, db1) \<Longrightarrow>
   (\<And>j. job_id (f j) = job_id j \<and> unleased (f j)) \<Longrightarrow> (table_step {})\<^sup>*\<^sup>* db1 db' \<Longrightarrow> lease_ended jid owner tok db db'"
  unfolding lease_ended_def by blast

lemma succeed_row_ends: "job_id (succeed_row now res j) = job_id j \<and> unleased (succeed_row now res j)"
  by (cases res) (simp_all add: succeed_row_def unleased_def)

lemma complete_as_ends: "complete_as jid owner tok c db = Ok db' \<Longrightarrow> lease_ended jid owner tok db db'"
proof (induction jid owner tok c db rule: complete_as.induct)
  case 1
  then show ?case
    by (auto simp: succeed_claimed_job_def sql_succeed_job_def unleased_def intro!: lease_endedI)
next
  case 2
  then show ?case
    by (auto elim!: fail_claimed_job_OkD simp: sql_fail_job_def unleased_def intro!: lease_endedI put_result_steps)
next
  case 3
  then show ?case by (auto simp: mark_succeeded_def succeed_row_ends intro!: lease_endedI)
next
  case 4
  then show ?case by (auto elim!: evaluation_OkD simp: succeed_row_ends intro!: lease_endedI maybe_insert_steps)
next
  case 5
  then show ?case by (auto elim!: timer_OkD simp: succeed_row_ends intro!: lease_endedI maybe_insert_steps)
next
  case 6
  then show ?case
    by (auto elim!: mark_failed_OkD simp: retry_row_def failed_row_def unleased_def intro!: lease_endedI intro: table_bury)
next
  case 7
  then show ?case
    by (auto simp: mark_dead_letter_def unleased_def intro!: lease_endedI split: option.splits)
next
  case 8
  then show ?case by (auto simp: requeue_with_backoff_def unleased_def intro!: lease_endedI)
qed

lemma lease_ended_row:
  assumes "lease_ended jid owner tok db db'" and "distinct_ids db"
  shows "\<exists>j t. row_of db jid = Some j \<and> holds_lease Running jid owner tok t j" and "\<not> token_held jid tok db'"
proof -
  from assms(1) obtain now t f e r db1 where
    u: "update_one no_settings now (holds_lease Running jid owner tok t) f e db = Ok (r, db1)"
    and f: "\<And>j. job_id (f j) = job_id j" "\<And>j. unleased (f j)" and rest: "(table_step {})\<^sup>*\<^sup>* db1 db'"
    unfolding lease_ended_def by blast
  from update_one_row_of[OF u f(1) _ assms(2)] obtain j where
    j: "row_of db jid = Some j" "holds_lease Running jid owner tok t j" "row_of db1 = (row_of db)(jid \<mapsto> touch now f j)"
    by (auto simp: holds_lease_def)
  then show "\<exists>j t. row_of db jid = Some j \<and> holds_lease Running jid owner tok t j" by blast
  have "\<not> token_held jid tok db1" using j(3) f(2)[of j] by (simp add: token_held_def unleased_def)
  moreover have "distinct_ids db1"
    using u assms(2) f(1) by (elim update_one_OkD) (auto simp: distinct_ids_def dest: sql_update_ids)
  ultimately show "\<not> token_held jid tok db'" using table_steps_token[OF rest] by simp
qed

lemma complete_as_step:
  "complete_as jid owner tok c db = Ok db' \<Longrightarrow> queue_step T db db'"
  by (cases c) (auto intro: queue_step.intros)

interpretation fence: lease_fence "constraints_ok" "queue_step (- {tok})" "token_held jid tok" "complete_as jid owner tok"
  for jid owner tok
proof unfold_locales
  fix db db'
  assume ok: "constraints_ok db" and q: "queue_step (- {tok}) db db'"
  then show "constraints_ok db'" using queue_steps_constraints by blast
  from queue_step_table[OF q] ok have "(table_step (- {tok}))\<^sup>*\<^sup>* db db'" by (simp add: constraintsD)
  then show "\<not> token_held jid tok db \<Longrightarrow> \<not> token_held jid tok db'"
    using table_steps_token ok by (auto simp: constraintsD)
next
  fix db c db'
  assume ok: "constraints_ok db" and c: "complete_as jid owner tok c db = Ok db'"
  then show "constraints_ok db'" using queue_steps_constraints complete_as_step by blast
  from lease_ended_row[OF complete_as_ends[OF c] constraintsD(1)[OF ok]]
  show "token_held jid tok db" "\<not> token_held jid tok db'"
    by (auto simp: token_held_def holds_lease_def)
qed

text \<open>C2: a lease is completed at most once. When one of the eight completing operations has
  succeeded for a job under a token, then after any further transactions (in any order, of any
  workers) that do not draw the same token again, every completing operation for this job under
  this token is rejected, whatever owner it names and whatever the clocks say.\<close>

theorem lease_completes_at_most_once:
  assumes "reachable db" and "complete_as jid owner tok c db = Ok db1" and "(queue_step (- {tok}))\<^sup>*\<^sup>* db1 db2"
  shows "\<exists>e. complete_as jid owner' tok c' db2 = Err e"
proof -
  have ok: "constraints_ok db" by (rule reachable_constraints[OF assms(1)])
  show ?thesis
    using fence.stale_rejected[OF fence.finish_sound[OF ok assms(2)] fence.finish_ends[OF ok assms(2)] assms(3)] .
qed

theorem lease_completes_at_most_once_witness:
  "\<exists>db1. complete_as ''j1'' ''w1'' ''t1'' (Mark_succeeded 3 None) sample_running = Ok db1
     \<and> (\<exists>e. complete_as ''j1'' ''w1'' ''t1'' (Mark_failed 4 4 ''late'') db1 = Err e)"
proof -
  have "is_ok (complete_as ''j1'' ''w1'' ''t1'' (Mark_succeeded 3 None) sample_running)" by code_simp
  then obtain db1 where "complete_as ''j1'' ''w1'' ''t1'' (Mark_succeeded 3 None) sample_running = Ok db1"
    by (cases "complete_as ''j1'' ''w1'' ''t1'' (Mark_succeeded 3 None) sample_running") auto
  with lease_completes_at_most_once[OF sample_reachable this rtranclp.rtrancl_refl] show ?thesis by blast
qed

section \<open>When a completion is accepted\<close>

lemma update_one_accepts:
  assumes "constraints_ok db" and "\<And>j. p j \<Longrightarrow> job_id j = jid"
    and "\<And>j. p j \<Longrightarrow> dedupe_key (f j) = dedupe_key j"
    and "\<And>j. p j \<Longrightarrow> state j \<in> set terminal_states \<Longrightarrow> state (f j) \<in> set terminal_states"
    and "\<And>j. p j \<Longrightarrow> row_checks j \<Longrightarrow> row_checks (f j)"
  shows "(\<exists>r db'. update_one cfg now p f e db = Ok (r, db')) \<longleftrightarrow> (\<exists>j. row_of db jid = Some j \<and> p j)"
    and "(\<exists>j. row_of db jid = Some j \<and> p j) \<or> update_one cfg now p f e db = Err e"
proof -
  note ok = constraintsD[OF assms(1)]
  have row: "(\<exists>j. row_of db jid = Some j \<and> p j) \<longleftrightarrow> (\<exists>j\<in>set (jobs db). p j)"
    using row_of_iff[OF ok(1)] assms(2) by blast
  have "\<exists>r db'. update_one cfg now p f e db = Ok (r, db')" if "\<exists>j\<in>set (jobs db). p j"
  proof -
    obtain db' where u: "sql_update cfg now p f db = Ok (map (touch now f) (filter p (jobs db)), db')"
      using sql_update_Ok[OF ok(2,3), of p f cfg now] assms(3-5) by blast
    from that obtain r rs where "filter p (jobs db) = r # rs"
      by (metis filter_empty_conv neq_Nil_conv)
    with u show ?thesis by (simp add: update_one_def)
  qed
  moreover have "update_one cfg now p f e db = Err e" if "\<not> (\<exists>j\<in>set (jobs db). p j)"
    using that update_one_unmatched ok by blast
  ultimately show "(\<exists>r db'. update_one cfg now p f e db = Ok (r, db')) \<longleftrightarrow> (\<exists>j. row_of db jid = Some j \<and> p j)"
    "(\<exists>j. row_of db jid = Some j \<and> p j) \<or> update_one cfg now p f e db = Err e"
    unfolding row by (cases "\<exists>j\<in>set (jobs db). p j"; simp)+
qed

text \<open>\<^verbatim>\<open>mark_succeeded\<close> is accepted exactly when the job exists, is running under exactly this
  owner and token, and the lease has not expired; the row is then succeeded, carries the result
  and no lease, and no other row has changed. Otherwise the operation raises.\<close>

lemma mark_succeeded_exact:
  assumes "reachable db"
  shows "if \<exists>j. row_of db jid = Some j \<and> holds_lease Running jid owner tok now j
         then \<exists>r db'. mark_succeeded now jid owner tok (Some res) db = Ok (r, db')
           \<and> state r = Succeeded \<and> jget (payload_json r) ''result'' = res \<and> unleased r
           \<and> row_of db' = (row_of db)(jid \<mapsto> r)
         else mark_succeeded now jid owner tok (Some res) db
           = Err (RuntimeError ''lost running lease while marking succeeded'')"
proof -
  note ok = reachable_constraints[OF assms]
  let ?p = "holds_lease Running jid owner tok now" and ?f = "succeed_row now (Some res)"
  have acc: "(\<exists>r db'. mark_succeeded now jid owner tok (Some res) db = Ok (r, db')) \<longleftrightarrow> (\<exists>j. row_of db jid = Some j \<and> ?p j)"
    "(\<exists>j. row_of db jid = Some j \<and> ?p j) \<or> mark_succeeded now jid owner tok (Some res) db
       = Err (RuntimeError ''lost running lease while marking succeeded'')"
    unfolding mark_succeeded_def
    by (rule update_one_accepts[OF ok]; simp add: holds_lease_def succeed_row_def row_checks_def terminal_states_def)+
  show ?thesis
  proof (cases "\<exists>j. row_of db jid = Some j \<and> ?p j")
    case True
    with acc obtain r db' where u: "mark_succeeded now jid owner tok (Some res) db = Ok (r, db')" by blast
    from update_one_row_of[OF u[unfolded mark_succeeded_def], of jid] constraintsD(1)[OF ok] obtain j where
      "r = touch now ?f j" "row_of db' = (row_of db)(jid \<mapsto> r)"
      by (auto simp: succeed_row_def holds_lease_def)
    then show ?thesis using True u
      by (auto simp: succeed_row_def unleased_def jget_def)
  next
    case False
    with acc show ?thesis by auto
  qed
qed

end
