(* ===== verification/Queue_Closure.thy ===== *)
theory Queue_Closure
  imports Queue_Invariants
begin

text \<open>
  Properties of cancellation and of the publication protocol: the protocol is a sequence of
  transactions of the queue, it reports success only for a durable success with the files in
  place, it leaves a job it does not own alone, and as long as nobody else touches the row, files
  that are in place are never left behind on a job that \<^verbatim>\<open>cancel_job\<close> would cancel. The last
  theorem shows what undoes this protection: the recovery of expired leases.
\<close>

section \<open>Cancellation\<close>

lemma fetchone_filter: "fetchone (filter (\<lambda>j. job_id j = i) js) = map_of (map (\<lambda>j. (job_id j, j)) js) i"
  by (induction js) (auto simp: fetchone_def)

lemma get_job_row_of: "get_job i db = row_of db i"
  by (simp add: get_job_def sql_select_def row_of_def fetchone_filter)

text \<open>A row that \<^verbatim>\<open>cancel_job\<close> returns as it is.\<close>

definition protected :: "job \<Rightarrow> bool" where
  "protected j = (state j \<in> set terminal_states \<or> state j = Running \<and> error_code j \<in> Some ` set publication_codes)"

lemma cancel_job_protected:
  "row_of db jid = Some j \<Longrightarrow> protected j \<Longrightarrow> cancel_job now jid message res db = Ok (j, db)"
  by (auto simp: cancel_job_def get_job_row_of protected_def)

lemma cancel_row_simps [simp]:
  "job_id (cancel_row now m r j) = job_id j" "state (cancel_row now m r j) = Cancelled"
  "dedupe_key (cancel_row now m r j) = dedupe_key j" "unleased (cancel_row now m r j)"
  "attempt_count (cancel_row now m r j) = attempt_count j" "max_attempts (cancel_row now m r j) = max_attempts j"
  by (cases r; simp add: cancel_row_def unleased_def)+

lemma cancel_update:
  assumes "constraints_ok db" and "row_of db jid = Some j" and "state j \<in> set active_states"
  shows "\<exists>r db'. update_one no_settings now (\<lambda>j. job_id j = jid \<and> state j \<in> set active_states)
      (cancel_row now message d) e db = Ok (r, db') \<and> r = touch now (cancel_row now message d) j
      \<and> row_of db' = (row_of db)(jid \<mapsto> r)"
proof -
  let ?p = "\<lambda>j. job_id j = jid \<and> state j \<in> set active_states"
  have "job_id j = jid" using row_of_SomeD[OF assms(2)] by simp
  with assms(2,3) have "\<exists>j. row_of db jid = Some j \<and> ?p j" by blast
  then obtain r db' where u: "update_one no_settings now ?p (cancel_row now message d) e db = Ok (r, db')"
    using update_one_accepts(1)[OF assms(1), of ?p jid "cancel_row now message d" no_settings now e]
    by (auto simp: row_checks_def terminal_states_def)
  with update_one_row_of[OF u, of jid] constraintsD(1)[OF assms(1)] assms(2) show ?thesis by auto
qed

text \<open>\<^verbatim>\<open>cancel_job\<close> on a job of a reachable database, without a stop control: it returns the
  row unchanged when the job is terminal or its publication is closing; otherwise it cancels it, clears the
  lease and touches no other row. It raises exactly for a missing job.\<close>

lemma cancel_job_outcome:
  assumes "reachable db"
  shows "case row_of db jid of
      None \<Rightarrow> cancel_job now jid message None db = Err (RuntimeError (''cancel_job denied for missing job '' @ jid))
    | Some j \<Rightarrow>
        (if state j \<in> set terminal_states \<or> state j = Running \<and> error_code j \<in> Some ` set publication_codes
         then cancel_job now jid message None db = Ok (j, db)
         else \<exists>r db'. cancel_job now jid message None db = Ok (r, db') \<and> state r = Cancelled \<and> unleased r
                \<and> row_of db' = (row_of db)(jid \<mapsto> r))"
proof (cases "row_of db jid")
  case None
  then show ?thesis by (simp add: cancel_job_def get_job_row_of)
next
  case (Some j)
  show ?thesis
  proof (cases "protected j")
    case True
    with cancel_job_protected[OF Some] show ?thesis by (simp add: Some protected_def)
  next
    case False
    then have "state j \<in> set active_states" by (simp add: protected_def active_iff_not_terminal)
    then obtain r db' where u: "update_one no_settings now (\<lambda>j. job_id j = jid \<and> state j \<in> set active_states)
        (cancel_row now message None) (RuntimeError ''cancel_job lost locked active row'') db = Ok (r, db')"
      and r: "r = touch now (cancel_row now message None) j" "row_of db' = (row_of db)(jid \<mapsto> r)"
      using cancel_update[OF reachable_constraints[OF assms] Some] by blast
    have "state r = Cancelled \<and> unleased r" using r(1) cancel_row_simps[of now message None j]
      by (simp add: unleased_def)
    with u r(2) Some False show ?thesis by (simp add: cancel_job_def get_job_row_of protected_def)
  qed
qed

section \<open>The publication protocol is a sequence of transactions\<close>

definition only_steps :: "uuid set \<Rightarrow> (queue_db \<Rightarrow> queue_db) \<Rightarrow> bool" where
  "only_steps T f = (\<forall>db. (queue_step T)\<^sup>*\<^sup>* db (f db))"

lemma only_stepsD: "only_steps T f \<Longrightarrow> (queue_step T)\<^sup>*\<^sup>* db (f db)"
  by (simp add: only_steps_def)

definition env_steps :: "uuid set \<Rightarrow> closure_env \<Rightarrow> bool" where
  "env_steps T ce = (only_steps T (ce_between ce) \<and> only_steps T (ce_between2 ce) \<and> only_steps T (ce_between3 ce))"

lemma env_stepsD:
  assumes "env_steps T ce"
  shows "(queue_step T)\<^sup>*\<^sup>* db (ce_between ce db)" "(queue_step T)\<^sup>*\<^sup>* db (ce_between2 ce db)"
    "(queue_step T)\<^sup>*\<^sup>* db (ce_between3 ce db)"
  using assms by (simp_all add: env_steps_def only_steps_def)

lemma compensate_steps:
  assumes "env_steps T ce"
  shows "(queue_step T)\<^sup>*\<^sup>* db (fst (snd (compensate ce jid owner tok e pub db)))"
proof -
  have "(queue_step T)\<^sup>*\<^sup>* d (case publication_torn now jid pe c d of Inl _ \<Rightarrow> d | Inr (_, d') \<Rightarrow> d')" for d now pe c
    by (auto split: sum.splits intro: queue_step.torn)
  moreover have "(queue_step T)\<^sup>*\<^sup>* d (case publication_repair now jid owner tok d of Inl _ \<Rightarrow> d | Inr (_, d') \<Rightarrow> d')" for d now
    by (auto split: sum.splits intro: queue_step.repair)
  ultimately show ?thesis
    using env_stepsD(3)[OF assms, of db] by (simp add: compensate_def Let_def rtranclp_trans)
qed

lemma reconcile_commit_steps:
  assumes "env_steps T ce"
  shows "(queue_step T)\<^sup>*\<^sup>* db (fst (snd (reconcile_commit ce jid owner tok res db)))"
  using env_stepsD(2)[OF assms, of db] compensate_steps[OF assms]
  by (auto simp: reconcile_commit_def Let_def intro: rtranclp_trans)

lemma publish_and_commit_steps:
  assumes "env_steps T ce"
  shows "(queue_step T)\<^sup>*\<^sup>* db (fst (snd (publish_and_commit ce jid owner tok res db)))"
proof (cases "publication_success (ce_now2 ce) jid owner tok res db")
  case (Inl e)
  then show ?thesis by (simp add: publish_and_commit_def compensate_steps[OF assms])
next
  case (Inr rdb)
  obtain r db2 where "publication_success (ce_now2 ce) jid owner tok res db = Ok (r, db2)"
    using Inr by (cases rdb) auto
  moreover from this have "(queue_step T)\<^sup>*\<^sup>* db db2" by (blast intro: queue_step.publish)
  ultimately show ?thesis
    using compensate_steps[OF assms] reconcile_commit_steps[OF assms]
    by (auto simp: publish_and_commit_def split: commit_outcome.splits intro: rtranclp_trans)
qed

text \<open>Whatever happens to the commits, the publication and its undo, \<^verbatim>\<open>close_local_success\<close>
  changes the database only by a sequence of committed transactions of the queue, so that all
  the invariants of reachable databases hold at every point of it and after it.\<close>

lemma close_local_success_steps:
  assumes "env_steps T ce"
  shows "(queue_step T)\<^sup>*\<^sup>* db (fst (snd (close_local_success ce jid owner tok res db)))"
proof (cases "publication_fence (ce_now1 ce) jid owner tok db")
  case (Inl e)
  then show ?thesis by (simp add: close_local_success_def compensate_steps[OF assms])
next
  case (Inr rdb)
  obtain b db1 where f: "publication_fence (ce_now1 ce) jid owner tok db = Ok (b, db1)"
    using Inr by (cases rdb) auto
  then have s: "(queue_step T)\<^sup>*\<^sup>* db db1" by (blast intro: queue_step.fence)
  moreover have "(queue_step T)\<^sup>*\<^sup>* db1 (fst (snd (publish_and_commit ce jid owner tok res (ce_between ce db1))))"
    using env_stepsD(1)[OF assms] publish_and_commit_steps[OF assms] by (rule rtranclp_trans)
  ultimately show ?thesis
    using f compensate_steps[OF assms]
    by (auto simp: close_local_success_def split: commit_outcome.splits bool.splits intro: rtranclp_trans)
qed

definition sample_env :: closure_env where
  "sample_env = \<lparr>ce_now1 = 3, ce_now2 = 4, ce_now3 = 5, ce_commit1 = Committed, ce_between = id, ce_between2 = id,
     ce_between3 = id, ce_registers = True, ce_raises = False, ce_commit2 = Committed, ce_reconnects = True,
     ce_undo_raises = False, ce_cleanup_commits = True, ce_primary_text = [], ce_cleanup_text = []\<rparr>"

section \<open>What the protocol leaves behind\<close>

definition row_fenced :: "uuid \<Rightarrow> string \<Rightarrow> uuid \<Rightarrow> queue_db \<Rightarrow> bool" where
  "row_fenced jid owner tok db =
     (\<exists>j. row_of db jid = Some j \<and> closing_under jid owner tok j
        \<and> jget (payload_json j) ''publication_reconciliation'' = closing_note jid)"

definition row_published :: "uuid \<Rightarrow> string \<Rightarrow> uuid \<Rightarrow> json \<Rightarrow> queue_db \<Rightarrow> bool" where
  "row_published jid owner tok res db = commit_proven jid owner tok res (row_of db jid)"

lemma update_one_row:
  assumes "update_one cfg now p f e db = Ok (r, db')" and "constraints_ok db"
    and "\<And>j. job_id (f j) = job_id j" and "\<And>j. p j \<Longrightarrow> job_id j = jid"
  shows "\<exists>j. row_of db jid = Some j \<and> p j \<and> r = touch now f j \<and> row_of db' = (row_of db)(jid \<mapsto> r)"
  using update_one_row_of[OF assms(1,3,4) constraintsD(1)[OF assms(2)]] by auto

lemma closing_under_id: "closing_under jid owner tok j \<Longrightarrow> job_id j = jid"
  by (simp add: closing_under_def running_under_def)

lemma publication_fence_row:
  assumes "publication_fence now jid owner tok db = Ok (True, db1)" and "constraints_ok db"
  shows "row_fenced jid owner tok db1"
proof -
  from assms(1) obtain r where u: "update_one no_settings now (running_under jid owner tok) (fence_row jid)
      (RuntimeError ''lost locked local publication fence'') db = Ok (r, db1)"
    by (auto simp: publication_fence_def split: option.splits sum.splits)
  from update_one_row[OF u assms(2), of jid] obtain j where
    "running_under jid owner tok j" "r = touch now (fence_row jid) j" "row_of db1 jid = Some r"
    by (auto simp: fence_row_def running_under_def)
  then show ?thesis
    by (simp add: row_fenced_def closing_under_def running_under_def fence_row_def jget_def)
qed

lemma publication_success_row:
  assumes "publication_success now jid owner tok res db = Ok (r, db2)" and "constraints_ok db"
  shows "row_published jid owner tok res db2"
proof -
  from update_one_row[OF assms(1)[unfolded publication_success_def] assms(2), of jid] obtain j where
    "r = touch now (publish_row now jid owner tok res) j" "row_of db2 jid = Some r"
    by (auto simp: publish_row_def closing_under_id)
  then show ?thesis by (simp add: row_published_def commit_proven_def publish_row_def jget_def)
qed

lemma reconcile_commit_True:
  "reconcile_commit ce jid owner tok res db = (Ok True, db', pub) \<Longrightarrow> pub = In_place \<and> row_published jid owner tok res db'"
  by (auto simp: reconcile_commit_def compensate_def Let_def row_published_def get_job_row_of split: if_splits)

lemma compensate_Err: "\<exists>e d p. compensate ce jid owner tok e0 pub db = (Err e, d, p)"
  by (simp add: compensate_def Let_def)

lemma publish_and_commit_True:
  assumes "publish_and_commit ce jid owner tok res db = (Ok True, db', pub)" and "constraints_ok db"
  shows "pub = In_place \<and> row_published jid owner tok res db'"
proof (cases "publication_success (ce_now2 ce) jid owner tok res db")
  case (Inl e)
  with assms(1) show ?thesis by (auto simp: publish_and_commit_def compensate_def Let_def split: if_splits)
next
  case (Inr rdb)
  then obtain r db2 where s: "publication_success (ce_now2 ce) jid owner tok res db = Ok (r, db2)" by (cases rdb) auto
  from assms(1) s have "(db' = db2 \<and> pub = In_place) \<or> (\<exists>d. reconcile_commit ce jid owner tok res d = (Ok True, db', pub))"
    by (auto simp: publish_and_commit_def compensate_def Let_def split: if_splits commit_outcome.splits)
  then show ?thesis
    using publication_success_row[OF s assms(2)] reconcile_commit_True by blast
qed

text \<open>When \<^verbatim>\<open>close_local_success\<close> returns true, the durable row is succeeded without a lease and
  carries exactly this result and the commit note of this lease, and the published files are in place; when it returns
  false, the caller did not hold the lease, nothing was published and the database is unchanged.\<close>

lemma close_local_success_result:
  assumes "reachable db" and "env_steps UNIV ce"
    and "close_local_success ce jid owner tok res db = (Ok b, db', pub)"
  shows "if b then pub = In_place \<and> (\<exists>j. row_of db' jid = Some j \<and> state j = Succeeded \<and> lease_token j = None
             \<and> py_eq (jget (payload_json j) ''result'') res
             \<and> py_eq (jget (payload_json j) ''publication_commit'') (commit_note jid owner tok))
         else pub = Untouched \<and> db' = db \<and> \<not> (\<exists>j. row_of db jid = Some j \<and> holds_lease Running jid owner tok (ce_now1 ce) j)"
proof (cases "publication_fence (ce_now1 ce) jid owner tok db")
  case (Inl e)
  with assms(3) show ?thesis by (simp add: close_local_success_def compensate_def Let_def split: if_splits)
next
  case (Inr fdb)
  then obtain won db1 where f: "publication_fence (ce_now1 ce) jid owner tok db = Ok (won, db1)" by (cases fdb) auto
  have ok: "constraints_ok (ce_between ce db1)"
    using queue_steps_constraints reachable_constraints[OF assms(1)] env_stepsD(1)[OF assms(2)] queue_step.fence[OF f]
    by (meson converse_rtranclp_into_rtranclp)
  show ?thesis
  proof (cases won)
    case True
    with assms(3) f have p: "publish_and_commit ce jid owner tok res (ce_between ce db1) = (Ok b, db', pub)"
      by (auto simp: close_local_success_def compensate_def Let_def split: if_splits commit_outcome.splits)
    moreover have b
      using p by (auto simp: publish_and_commit_def reconcile_commit_def compensate_def Let_def
          split: if_splits sum.splits commit_outcome.splits)
    ultimately have "pub = In_place \<and> row_published jid owner tok res db'"
      using publish_and_commit_True[OF _ ok] by auto
    with \<open>b\<close> show ?thesis
      by (cases "row_of db' jid") (auto simp: row_published_def commit_proven_def)
  next
    case False
    with f have "filter (holds_lease Running jid owner tok (ce_now1 ce)) (jobs db) = []"
      by (auto simp: publication_fence_def sql_select_def fetchone_def split: list.splits sum.splits)
    with False f assms(3) show ?thesis
      by (auto simp: close_local_success_def filter_empty_conv dest!: row_of_SomeD)
  qed
qed

text \<open>Nobody else touches the row: it is as before after each interleaving.\<close>

definition env_quiet :: "uuid \<Rightarrow> closure_env \<Rightarrow> bool" where
  "env_quiet jid ce =
     (\<forall>db. row_of (ce_between ce db) jid = row_of db jid \<and> row_of (ce_between2 ce db) jid = row_of db jid
         \<and> row_of (ce_between3 ce db) jid = row_of db jid)"

definition effects_accounted :: "uuid \<Rightarrow> queue_db \<Rightarrow> published \<Rightarrow> bool" where
  "effects_accounted jid db pub =
     (pub \<in> {In_place, Torn} \<longrightarrow>
        (\<exists>j. row_of db jid = Some j \<and> protected j
           \<and> (state j = Succeeded \<or> error_code j \<in> Some ` set publication_codes)))"

lemma row_fenced_accounted: "row_fenced jid owner tok db \<Longrightarrow> effects_accounted jid db pub"
  by (auto simp: row_fenced_def effects_accounted_def protected_def closing_under_def running_under_def publication_codes_def)

lemma row_published_accounted: "row_published jid owner tok res db \<Longrightarrow> effects_accounted jid db pub"
  by (auto simp: row_published_def commit_proven_def effects_accounted_def protected_def terminal_states_def split: option.splits)

lemma torn_accounted:
  assumes "publication_torn now jid pe ce db = Ok (r, db')" and "constraints_ok db"
  shows "effects_accounted jid db' pub"
proof -
  from update_one_row[OF assms(1)[unfolded publication_torn_def] assms(2), of jid] obtain j where
    "r = touch now (torn_row now jid pe ce) j" "row_of db' jid = Some r"
    by (auto simp: torn_row_def)
  then show ?thesis
    by (simp add: effects_accounted_def protected_def torn_row_def terminal_states_def publication_codes_def)
qed

lemma compensate_accounted:
  assumes "compensate ce jid owner tok e pub0 db = (r, db', pub)" and "row_fenced jid owner tok db"
    and "env_quiet jid ce" and "constraints_ok (ce_between3 ce db)"
  shows "effects_accounted jid db' pub"
proof -
  have "row_fenced jid owner tok (ce_between3 ce db)"
    using assms(2,3) by (simp add: row_fenced_def env_quiet_def)
  then have acc: "effects_accounted jid (ce_between3 ce db) p" for p by (rule row_fenced_accounted)
  have undone: "effects_accounted jid d Undone" "effects_accounted jid d Untouched" for d
    by (simp_all add: effects_accounted_def)
  show ?thesis
    using assms(1) acc undone torn_accounted[OF _ assms(4)]
    by (auto simp: compensate_def Let_def split: if_splits sum.splits)
qed

lemma reconcile_accounted:
  assumes "reconcile_commit ce jid owner tok res db = (r, db', pub)"
    and "row_fenced jid owner tok db \<or> row_published jid owner tok res db"
    and "env_quiet jid ce" and "env_steps UNIV ce" and "constraints_ok db"
  shows "effects_accounted jid db' pub"
proof -
  let ?d = "ce_between2 ce db"
  have d: "row_fenced jid owner tok ?d \<or> row_published jid owner tok res ?d"
    using assms(2,3) by (simp add: row_fenced_def row_published_def env_quiet_def)
  have ok: "constraints_ok (ce_between3 ce ?d)"
    using queue_steps_constraints env_stepsD(2,3)[OF assms(4)] assms(5) by blast
  have acc: "effects_accounted jid ?d p" "effects_accounted jid db p" for p
    using d assms(2) row_fenced_accounted row_published_accounted by blast+
  have "row_fenced jid owner tok ?d" if "\<not> commit_proven jid owner tok res (row_of ?d jid)"
    using that d by (simp add: row_published_def)
  then show ?thesis
    using assms(1) acc compensate_accounted[OF _ _ assms(3) ok]
    by (auto simp: reconcile_commit_def Let_def get_job_row_of split: if_splits)
qed

lemma publish_and_commit_accounted:
  assumes "publish_and_commit ce jid owner tok res db = (r, db', pub)" and "row_fenced jid owner tok db"
    and "env_quiet jid ce" and "env_steps UNIV ce" and "constraints_ok db"
  shows "effects_accounted jid db' pub"
proof -
  have ok3: "constraints_ok (ce_between3 ce db)" using queue_steps_constraints env_stepsD(3)[OF assms(4)] assms(5) by blast
  have published: "row_published jid owner tok res db2 \<and> constraints_ok db2"
    if "publication_success (ce_now2 ce) jid owner tok res db = Ok (x, db2)" for x db2
    using publication_success_row[OF that assms(5)] queue_steps_constraints[of UNIV db db2] assms(5) queue_step.publish[OF that]
    by blast
  show ?thesis
    using assms(1) compensate_accounted[OF _ assms(2,3) ok3] reconcile_accounted[OF _ _ assms(3,4)] assms(2,5)
      published row_published_accounted
    by (auto simp: publish_and_commit_def split: if_splits sum.splits commit_outcome.splits)
qed

text \<open>C3: as long as no other transaction touches the row, published files are never
  left on a job that could still be cancelled: whenever the protocol ends with the files in place or with a
  failed undo, whatever happened to its commits and callbacks, the row is succeeded or carries the closing fence or the
  reconciliation evidence, and \<^verbatim>\<open>cancel_job\<close> returns it unchanged.\<close>

theorem published_files_never_cancelled:
  assumes "reachable db" and "env_steps UNIV ce" and "env_quiet jid ce"
    and "close_local_success ce jid owner tok res db = (r, db', pub)" and "pub \<in> {In_place, Torn}"
  shows "\<exists>j. row_of db' jid = Some j \<and> (state j = Succeeded \<or> error_code j \<in> Some ` set publication_codes)
    \<and> cancel_job now jid message stop db' = Ok (j, db')"
proof -
  have "effects_accounted jid db' pub"
  proof (cases "publication_fence (ce_now1 ce) jid owner tok db")
    case (Inl e)
    with assms(4,5) show ?thesis by (auto simp: close_local_success_def compensate_def Let_def split: if_splits)
  next
    case (Inr fdb)
    then obtain won db1 where f: "publication_fence (ce_now1 ce) jid owner tok db = Ok (won, db1)" by (cases fdb) auto
    have ok: "constraints_ok (ce_between ce db1)"
      using queue_steps_constraints reachable_constraints[OF assms(1)] env_stepsD(1)[OF assms(2)] queue_step.fence[OF f]
      by (meson converse_rtranclp_into_rtranclp)
    from f assms(4,5) have won: "won" and p: "publish_and_commit ce jid owner tok res (ce_between ce db1) = (r, db', pub)"
      by (auto simp: close_local_success_def compensate_def Let_def split: if_splits commit_outcome.splits bool.splits)
    have "row_fenced jid owner tok (ce_between ce db1)"
      using publication_fence_row f won reachable_constraints[OF assms(1)] assms(3)
      by (auto simp: row_fenced_def env_quiet_def)
    from publish_and_commit_accounted[OF p this assms(3,2) ok] show ?thesis .
  qed
  with assms(5) obtain j where j: "row_of db' jid = Some j" "protected j"
    "state j = Succeeded \<or> error_code j \<in> Some ` set publication_codes"
    unfolding effects_accounted_def by blast
  with cancel_job_protected[OF j(1,2)] show ?thesis by blast
qed

text \<open>The commit outcome is unknown and no replacement session can be opened.\<close>

definition broken_env :: closure_env where
  "broken_env = sample_env\<lparr>ce_commit2 := Commit_lost, ce_reconnects := False\<rparr>"

lemma broken_env_steps: "env_steps T broken_env" and broken_env_quiet: "env_quiet jid broken_env"
  by (simp_all add: env_steps_def only_steps_def env_quiet_def sample_env_def broken_env_def)

theorem published_files_never_cancelled_witness:
  "\<exists>r db'. close_local_success broken_env ''j1'' ''w1'' ''t1'' JNull sample_running = (r, db', In_place)
     \<and> (\<exists>j. row_of db' ''j1'' = Some j \<and> cancel_job 9 ''j1'' None None db' = Ok (j, db'))"
proof -
  have "snd (snd (close_local_success broken_env ''j1'' ''w1'' ''t1'' JNull sample_running)) = In_place" by code_simp
  then obtain r db' where
    c: "close_local_success broken_env ''j1'' ''w1'' ''t1'' JNull sample_running = (r, db', In_place)"
    by (metis prod.collapse)
  from published_files_never_cancelled[OF sample_reachable broken_env_steps broken_env_quiet c, of 9 None None]
  show ?thesis using c by blast
qed

section \<open>What takes the fence away\<close>

lemma recover_update:
  assumes "constraints_ok db"
  shows "\<exists>rows db'. sql_update no_settings now (expired now) (recover_row now) db = Ok (rows, db')"
proof -
  have "\<exists>db'. sql_update no_settings now (expired now) (recover_row now) db
      = Ok (map (touch now (recover_row now)) (filter (expired now) (jobs db)), db')"
    by (rule sql_update_Ok[OF constraintsD(2,3)[OF assms]])
      (auto simp: recover_row_def expired_def leased_states_def terminal_states_def row_checks_def)
  then show ?thesis by blast
qed

lemma due_update:
  assumes "constraints_ok db"
  shows "\<exists>rows db'. sql_update no_settings now (retry_due now) (\<lambda>j. j\<lparr>state := Queued, not_before := None\<rparr>) db = Ok (rows, db')"
proof -
  have "\<exists>db'. sql_update no_settings now (retry_due now) (\<lambda>j. j\<lparr>state := Queued, not_before := None\<rparr>) db
      = Ok (map (touch now (\<lambda>j. j\<lparr>state := Queued, not_before := None\<rparr>)) (filter (retry_due now) (jobs db)), db')"
    by (rule sql_update_Ok[OF constraintsD(2,3)[OF assms]]) (auto simp: retry_due_def terminal_states_def row_checks_def)
  then show ?thesis by blast
qed

definition recovered :: "time \<Rightarrow> job \<Rightarrow> job" where
  "recovered now j = (if expired now j then touch now (recover_row now) j else j)"

definition made_due :: "time \<Rightarrow> job \<Rightarrow> job" where
  "made_due now j = (if retry_due now j then touch now (\<lambda>j. j\<lparr>state := Queued, not_before := None\<rparr>) j else j)"

lemma recover_expired_jobs_total:
  assumes "constraints_ok db"
  shows "\<exists>n db'. recover_expired_jobs now db = Ok (n, db')
    \<and> row_of db' i = map_option (\<lambda>j. made_due now (recovered now j)) (row_of db i)"
proof -
  obtain rows1 db1 where u1: "sql_update no_settings now (expired now) (recover_row now) db = Ok (rows1, db1)"
    using recover_update[OF assms] by blast
  have "(table_step {})\<^sup>*\<^sup>* db db1" using u1 by (rule table_update) (rule row_step_recover)
  then have ok1: "constraints_ok db1" using assms by (rule table_steps_constraints)
  obtain rows2 db2 where u2: "sql_update no_settings now (retry_due now) (\<lambda>j. j\<lparr>state := Queued, not_before := None\<rparr>) db1
      = Ok (rows2, db2)" using due_update[OF ok1] by blast
  have "row_of db1 i = map_option (recovered now) (row_of db i)"
    using sql_update_row_of[OF u1] by (simp add: recover_row_def recovered_def[abs_def])
  moreover have "row_of db2 i = map_option (made_due now) (row_of db1 i)"
    using sql_update_row_of[OF u2] by (simp add: made_due_def[abs_def])
  ultimately show ?thesis
    using u1 u2 by (simp add: recover_expired_jobs_def sql_recover_expired_jobs_def option.map_comp comp_def)
qed

text \<open>\<^verbatim>\<open>recover_expired_jobs\<close> never fails, and it treats every row by itself: a leased or running
  row whose lease has expired loses the lease and is queued again, or is failed when its attempts
  are used up, and a waiting row that is due is queued; every other row is untouched.\<close>

lemma recover_expired_jobs_exact:
  assumes "reachable db" and "row_of db i = Some j"
  shows "\<exists>n db' j'. recover_expired_jobs now db = Ok (n, db') \<and> row_of db' i = Some j'
    \<and> (if expired now j then unleased j' \<and> state j' = (if attempt_count j \<ge> max_attempts j then Failed else Queued)
       else if retry_due now j then state j' = Queued \<and> not_before j' = None
       else j' = j)"
proof -
  obtain n db' where r: "recover_expired_jobs now db = Ok (n, db')"
      "row_of db' i = map_option (\<lambda>j. made_due now (recovered now j)) (row_of db i)"
    using recover_expired_jobs_total[OF reachable_constraints[OF assms(1)]] by blast
  have e: "state j \<in> {Leased, Running}" if "expired now j" using that by (auto simp: expired_def leased_states_def)
  have "if expired now j then unleased (made_due now (recovered now j))
          \<and> state (made_due now (recovered now j)) = (if attempt_count j \<ge> max_attempts j then Failed else Queued)
       else if retry_due now j then state (made_due now (recovered now j)) = Queued \<and> not_before (made_due now (recovered now j)) = None
       else made_due now (recovered now j) = j"
    using e by (auto simp: recovered_def made_due_def retry_due_def recover_row_def unleased_def)
  with r assms(2) show ?thesis by auto
qed

text \<open>The closing fence does not outlive the lease. When the protocol had to stop with
  the fence in place and the lease then expires, \<^verbatim>\<open>recover_expired_jobs\<close> queues the row again although its
  error code still says that a publication is closing, and a later \<^verbatim>\<open>cancel_job\<close> reports the job as
  cancelled work. (The documentation of \<^verbatim>\<open>close_local_success\<close> promises that the closing condition
  remains and that Stop cannot do this.)\<close>

lemma closing_fence_lost_on_expiry:
  assumes "reachable db" and "row_of db jid = Some j" and "state j = Running"
    and "error_code j = Some ''PUBLICATION_CLOSING''" and "expired now j" and "attempt_count j < max_attempts j"
  shows "\<exists>n db1 r db2. recover_expired_jobs now db = Ok (n, db1) \<and> cancel_job now' jid message None db1 = Ok (r, db2)
    \<and> state r = Cancelled \<and> row_of db2 jid = Some r"
proof -
  obtain n db1 where r: "recover_expired_jobs now db = Ok (n, db1)"
      "row_of db1 jid = map_option (\<lambda>j. made_due now (recovered now j)) (row_of db jid)"
    using recover_expired_jobs_total[OF reachable_constraints[OF assms(1)]] by blast
  have ok: "constraints_ok db1"
    using queue_steps_constraints[of UNIV db db1] reachable_constraints[OF assms(1)] queue_step.recover[OF r(1)] by blast
  let ?j = "made_due now (recovered now j)"
  have row: "row_of db1 jid = Some ?j" using r(2) assms(2) by simp
  have st: "state ?j = Queued" using assms(5,6) by (simp add: recovered_def made_due_def retry_due_def recover_row_def)
  then have "state ?j \<in> set active_states" by (simp add: active_states_def)
  from cancel_update[OF ok row this] obtain x db2 where
    u: "update_one no_settings now' (\<lambda>j. job_id j = jid \<and> state j \<in> set active_states) (cancel_row now' message None)
      (RuntimeError ''cancel_job lost locked active row'') db1 = Ok (x, db2)"
    and x: "x = touch now' (cancel_row now' message None) ?j" "row_of db2 = (row_of db1)(jid \<mapsto> x)" by blast
  then have "cancel_job now' jid message None db1 = Ok (x, db2)"
    using row st by (simp add: cancel_job_def get_job_row_of terminal_states_def)
  with r(1) x show ?thesis by auto
qed

end
