(* ===== verification/Queue_Contracts.thy ===== *)
theory Queue_Contracts
  imports Queue_Closure
begin

text \<open>
  The contracts of enqueueing and claiming: the outcome of each collision mode of
  \<^verbatim>\<open>enqueue_job\<close> on every branch, what a claim hands out and that two claims never hand out the
  same job, and the immutability of a running job's checkpoint.
\<close>

section \<open>Enqueueing\<close>

text \<open>The manifest passes the checks and is routed as \<open>r\<close>.\<close>

definition routed_as :: "string \<Rightarrow> jobj \<Rightarrow> manifest \<Rightarrow> routed \<Rightarrow> bool" where
  "routed_as env prios m r =
     (case enqueue_checks m of Inl _ \<Rightarrow> False | Inr payload \<Rightarrow> enqueue_route env prios m payload = Ok r)"

text \<open>A generated id that is not in use, and a limit the column accepts.\<close>

definition insertable :: "uuid \<Rightarrow> manifest \<Rightarrow> queue_db \<Rightarrow> bool" where
  "insertable jid m db = (jid \<notin> set (map job_id (jobs db)) \<and> 0 \<le> m_max_attempts m)"

lemma enqueue_job_routed:
  assumes "routed_as env prios m r"
  shows "enqueue_job env prios now jid m db =
    (case (if m_idempotent m then enqueue_idempotent m r db else Ok None) of
       Inl e \<Rightarrow> Err e
     | Inr (Some existing) \<Rightarrow> Ok (existing, db)
     | Inr None \<Rightarrow>
         (case (if m_supersede m then enqueue_supersede now (rt_key r) db else Ok db) of
            Inl e \<Rightarrow> Err e
          | Inr db1 \<Rightarrow>
              (if m_debounce m then enqueue_debounce now jid m r db1
               else sql_insert (enqueue_row now jid m r (rt_key r)) db1)))"
  using assms by (auto simp: routed_as_def enqueue_job_def split: sum.splits)

lemma enqueue_row_simps [simp]:
  "job_id (enqueue_row now jid m r k) = jid" "state (enqueue_row now jid m r k) = Queued"
  "dedupe_key (enqueue_row now jid m r k) = k" "payload_json (enqueue_row now jid m r k) = rt_payload r"
  "queue_name (enqueue_row now jid m r k) = rt_queue r" "max_attempts (enqueue_row now jid m r k) = m_max_attempts m"
  "attempt_count (enqueue_row now jid m r k) = 0" "not_before (enqueue_row now jid m r k) = m_not_before m"
  by (simp_all add: enqueue_row_def new_job_def)

lemma key_rows_set:
  "set (key_rows k sts db) = {j \<in> set (jobs db). dedupe_key j = k \<and> k \<noteq> None \<and> state j \<in> set sts}"
  by (cases k) (auto simp: key_rows_def sql_select_def)

lemma key_rows_Nil_iff:
  "key_rows k sts db = [] \<longleftrightarrow> (\<forall>j\<in>set (jobs db). \<not> (dedupe_key j = k \<and> k \<noteq> None \<and> state j \<in> set sts))"
  using key_rows_set[of k sts db] by (auto simp: set_empty[symmetric] simp del: set_empty)

lemma uq_active_snoc:
  assumes "uq_active (jobs db)" and "state j = Queued"
  shows "uq_active (jobs db @ [j]) \<longleftrightarrow> key_rows (dedupe_key j) active_states db = []"
  using assms
  by (cases "dedupe_key j")
    (auto simp: uq_active_def active_keys_append terminal_states_def set_active_keys key_rows_Nil_iff active_iff_not_terminal)

lemma sql_insert_queued:
  assumes "constraints_ok db" and "insertable jid m db"
  shows "sql_insert (enqueue_row now jid m r k) db =
    (if key_rows k active_states db = [] then Ok (jid, db\<lparr>jobs := jobs db @ [enqueue_row now jid m r k]\<rparr>)
     else Err (UniqueViolation ''uq_queue_jobs_dedupe_key_active''))"
  using assms uq_active_snoc[of db "enqueue_row now jid m r k"]
  by (simp add: sql_insert_def Let_def insertable_def row_checks_def constraints_ok_def)

text \<open>An enqueue without a collision mode inserts exactly one queued row with the routed
  manifest when no queued, waiting, leased or running row has the same key, and otherwise is
  rejected with a unique violation and changes nothing.\<close>

lemma enqueue_plain_outcome:
  assumes "reachable db" and "routed_as env prios m r" and "insertable jid m db"
    and "\<not> m_idempotent m" and "\<not> m_supersede m" and "\<not> m_debounce m"
  shows "enqueue_job env prios now jid m db =
    (if \<exists>j\<in>set (jobs db). dedupe_key j = rt_key r \<and> rt_key r \<noteq> None \<and> state j \<in> {Queued, Retry_wait, Leased, Running}
     then Err (UniqueViolation ''uq_queue_jobs_dedupe_key_active'')
     else Ok (jid, db\<lparr>jobs := jobs db @ [enqueue_row now jid m r (rt_key r)]\<rparr>))"
  unfolding enqueue_job_routed[OF assms(2)]
  using assms(4-6) sql_insert_queued[OF reachable_constraints[OF assms(1)] assms(3)]
  by (auto simp: key_rows_Nil_iff active_states_def)

definition sample_route :: routed where
  "sample_route = \<lparr>rt_queue = ''intake'', rt_entity_id = ''intake'', rt_family = ''intake'', rt_priority = 100,
     rt_payload = [(''sku'', JStr ''A1'')], rt_key = Some ''k1''\<rparr>"

text \<open>The modes in one record, for the witnesses.\<close>

definition with_mode :: "bool \<Rightarrow> bool \<Rightarrow> bool \<Rightarrow> manifest \<Rightarrow> manifest" where
  "with_mode d s i m = m\<lparr>m_debounce := d, m_supersede := s, m_idempotent := i\<rparr>"

lemma sample_routed:
  "routed_as ''production'' [] sample_manifest sample_route"
  "routed_as ''production'' [] (with_mode True False False sample_manifest) sample_route"
  "routed_as ''production'' [] (with_mode False True False sample_manifest) sample_route"
  "routed_as ''production'' [] (with_mode False False True sample_manifest) sample_route"
  by code_simp+

section \<open>Superseding\<close>

definition supersede_row :: "time \<Rightarrow> string option \<Rightarrow> job \<Rightarrow> job" where
  "supersede_row now k j =
     (if dedupe_key j = k \<and> state j \<in> set superseded_states then touch now (\<lambda>j. j\<lparr>state := Cancelled\<rparr>) j else j)"

lemma enqueue_supersede_Ok:
  assumes "constraints_ok db" and "\<not> falsy_key k"
  shows "\<exists>db1. enqueue_supersede now k db = Ok db1 \<and> jobs db1 = map (supersede_row now k) (jobs db) \<and> constraints_ok db1"
proof -
  let ?p = "\<lambda>j. dedupe_key j = k \<and> state j \<in> set superseded_states"
  obtain rows db1 where u: "sql_update no_settings now ?p (\<lambda>j. j\<lparr>state := Cancelled\<rparr>) db = Ok (rows, db1)"
    using sql_update_Ok[OF constraintsD(2,3)[OF assms(1)], of ?p "\<lambda>j. j\<lparr>state := Cancelled\<rparr>" no_settings now]
    by (auto simp: terminal_states_def row_checks_def)
  then have e: "enqueue_supersede now k db = Ok db1" using assms(2) by (simp add: enqueue_supersede_def)
  moreover have "jobs db1 = map (supersede_row now k) (jobs db)"
    using sql_update_OkD(1)[OF u] by (simp add: supersede_row_def[abs_def])
  moreover have "constraints_ok db1" using table_steps_constraints[OF enqueue_supersede_steps[OF e, of "{}"] assms(1)] .
  ultimately show ?thesis by blast
qed

lemma supersede_row_simps [simp]:
  "job_id (supersede_row now k j) = job_id j" "dedupe_key (supersede_row now k j) = dedupe_key j"
  "state (supersede_row now k j) =
     (if dedupe_key j = k \<and> state j \<in> set superseded_states then Cancelled else state j)"
  by (simp_all add: supersede_row_def)

lemma key_rows_superseded:
  assumes "jobs db1 = map (supersede_row now k) (jobs db)"
  shows "key_rows k active_states db1 = [] \<longleftrightarrow> key_rows k leased_states db = []"
  by (auto simp: key_rows_Nil_iff assms active_states_def leased_states_def superseded_states_def)

text \<open>C39: superseding. When a row under the key is leased or running, the enqueue fails with a
  unique violation and nothing is cancelled, although its documentation says that any existing
  non-terminal row is cancelled and that the collision is cleared. Otherwise every queued, waiting, failed or
  dead-lettered row under the key is cancelled, all other rows are untouched, and the new row is
  the only active one under the key.\<close>

theorem enqueue_supersede_outcome:
  assumes "reachable db" and "routed_as env prios m r" and "insertable jid m db"
    and "m_supersede m" and "\<not> m_idempotent m" and "\<not> m_debounce m" and "\<not> falsy_key (rt_key r)"
  shows "if \<exists>j\<in>set (jobs db). dedupe_key j = rt_key r \<and> state j \<in> {Leased, Running}
    then enqueue_job env prios now jid m db = Err (UniqueViolation ''uq_queue_jobs_dedupe_key_active'')
    else \<exists>db'. enqueue_job env prios now jid m db = Ok (jid, db')
      \<and> jobs db' = map (supersede_row now (rt_key r)) (jobs db) @ [enqueue_row now jid m r (rt_key r)]
      \<and> (\<forall>j\<in>set (jobs db'). dedupe_key j = rt_key r \<and> state j \<in> set active_states \<longrightarrow> job_id j = jid)"
proof -
  obtain db1 where s: "enqueue_supersede now (rt_key r) db = Ok db1"
    and js: "jobs db1 = map (supersede_row now (rt_key r)) (jobs db)" and ok: "constraints_ok db1"
    using enqueue_supersede_Ok[OF reachable_constraints[OF assms(1)] assms(7)] by blast
  have ins: "insertable jid m db1" using assms(3) by (simp add: insertable_def js image_image)
  have key: "rt_key r \<noteq> None" using assms(7) by (simp add: falsy_key_def)
  have e: "enqueue_job env prios now jid m db =
     (if key_rows (rt_key r) leased_states db = []
      then Ok (jid, db1\<lparr>jobs := jobs db1 @ [enqueue_row now jid m r (rt_key r)]\<rparr>)
      else Err (UniqueViolation ''uq_queue_jobs_dedupe_key_active''))"
    unfolding enqueue_job_routed[OF assms(2)]
    using assms(4-6) s sql_insert_queued[OF ok ins] by (simp add: key_rows_superseded[OF js])
  have leased: "key_rows (rt_key r) leased_states db = [] \<longleftrightarrow>
      \<not> (\<exists>j\<in>set (jobs db). dedupe_key j = rt_key r \<and> state j \<in> {Leased, Running})"
    using key by (auto simp: key_rows_Nil_iff leased_states_def)
  have only: "\<forall>j\<in>set (jobs db1). \<not> (dedupe_key j = rt_key r \<and> state j \<in> set active_states)"
    if "key_rows (rt_key r) leased_states db = []"
    using that key unfolding key_rows_superseded[OF js, symmetric] by (auto simp: key_rows_Nil_iff)
  show ?thesis
  proof (cases "key_rows (rt_key r) leased_states db = []")
    case True
    let ?db' = "db1\<lparr>jobs := jobs db1 @ [enqueue_row now jid m r (rt_key r)]\<rparr>"
    have "enqueue_job env prios now jid m db = Ok (jid, ?db')" using e True by simp
    moreover have "jobs ?db' = map (supersede_row now (rt_key r)) (jobs db) @ [enqueue_row now jid m r (rt_key r)]"
      by (simp add: js)
    moreover have "\<forall>j\<in>set (jobs ?db'). dedupe_key j = rt_key r \<and> state j \<in> set active_states \<longrightarrow> job_id j = jid"
      using only[OF True] by auto
    ultimately show ?thesis using True leased by (subst if_not_P) blast+
  next
    case False
    with e leased show ?thesis by simp
  qed
qed

theorem enqueue_supersede_outcome_witness:
  "enqueue_job ''production'' [] 7 ''j2'' (with_mode False True False sample_manifest) sample_running
   = Err (UniqueViolation ''uq_queue_jobs_dedupe_key_active'')"
proof -
  let ?m = "with_mode False True False sample_manifest"
  have i: "insertable ''j2'' ?m sample_running" by code_simp
  have m: "m_supersede ?m" "\<not> m_idempotent ?m" "\<not> m_debounce ?m" by code_simp+
  have "\<not> falsy_key (rt_key sample_route)" by code_simp
  from enqueue_supersede_outcome[OF sample_reachable sample_routed(3) i m this, of 7] show ?thesis
    by (simp add: sample_running_def sample_row_def new_job_def sample_route_def)
qed

section \<open>Debouncing\<close>

lemma fetchone_None_iff [simp]: "fetchone xs = None \<longleftrightarrow> xs = []"
  by (simp add: fetchone_def split: list.splits)

definition coalesce_row :: "manifest \<Rightarrow> routed \<Rightarrow> job \<Rightarrow> job" where
  "coalesce_row m r j = j\<lparr>not_before := greatest (not_before j) (m_not_before m), payload_json := rt_payload r\<rparr>"

lemma debounce_pending:
  assumes "constraints_ok db" and "fetchone (key_rows (rt_key r) pending_states db) = Some p"
  shows "\<exists>db'. enqueue_debounce now jid m r db = Ok (job_id p, db')
    \<and> row_of db' = (row_of db)(job_id p \<mapsto> touch now (coalesce_row m r) p)"
proof -
  have p: "p \<in> set (jobs db)" using fetchone_SomeD[OF assms(2)] by (simp add: key_rows_set)
  then have row: "row_of db (job_id p) = Some p" using row_of_iff constraintsD(1)[OF assms(1)] by blast
  obtain x db' where u: "update_one no_settings now (\<lambda>j. job_id j = job_id p) (coalesce_row m r) (TypeError ''no row'') db = Ok (x, db')"
    using update_one_accepts(1)[OF assms(1), of "\<lambda>j. job_id j = job_id p" "job_id p" "coalesce_row m r" no_settings now] row
    by (fastforce simp: coalesce_row_def row_checks_def)
  from update_one_row[OF u assms(1), of "job_id p"] row
  have "x = touch now (coalesce_row m r) p" "row_of db' = (row_of db)(job_id p \<mapsto> x)" by (auto simp: coalesce_row_def)
  with u assms(2) show ?thesis by (auto simp: enqueue_debounce_def coalesce_row_def[abs_def])
qed

text \<open>A debounced enqueue never violates the unique index. When a queued or waiting row has the
  key, that row takes the new payload and the later of the two start times and its id is returned,
  no other row changes and none is added; otherwise one fresh row is added, which carries
  the key, unless a leased or running row has it: then the fresh row has no key.\<close>

lemma enqueue_debounce_outcome:
  assumes "reachable db" and "routed_as env prios m r" and "insertable jid m db"
    and "m_debounce m" and "\<not> m_idempotent m" and "\<not> m_supersede m"
  shows "(\<exists>p db'. p \<in> set (jobs db) \<and> dedupe_key p = rt_key r \<and> rt_key r \<noteq> None \<and> state p \<in> {Queued, Retry_wait}
           \<and> enqueue_job env prios now jid m db = Ok (job_id p, db')
           \<and> row_of db' = (row_of db)(job_id p \<mapsto>
               p\<lparr>not_before := greatest (not_before p) (m_not_before m), payload_json := rt_payload r, updated_at := now\<rparr>))
       \<or> (\<forall>p\<in>set (jobs db). \<not> (dedupe_key p = rt_key r \<and> rt_key r \<noteq> None \<and> state p \<in> {Queued, Retry_wait}))
         \<and> enqueue_job env prios now jid m db = Ok (jid, db\<lparr>jobs := jobs db @ [enqueue_row now jid m r
             (if \<exists>p\<in>set (jobs db). dedupe_key p = rt_key r \<and> rt_key r \<noteq> None \<and> state p \<in> {Leased, Running}
              then None else rt_key r)]\<rparr>)"
proof (cases "fetchone (key_rows (rt_key r) pending_states db)")
  case (Some p)
  have e: "enqueue_job env prios now jid m db = enqueue_debounce now jid m r db"
    unfolding enqueue_job_routed[OF assms(2)] using assms(4-6) by simp
  have p: "p \<in> set (jobs db) \<and> dedupe_key p = rt_key r \<and> rt_key r \<noteq> None \<and> state p \<in> {Queued, Retry_wait}"
    using fetchone_SomeD[OF Some] by (auto simp: key_rows_set pending_states_def)
  from debounce_pending[OF reachable_constraints[OF assms(1)] Some] p show ?thesis
    unfolding e by (intro disjI1) (auto simp: touch_def coalesce_row_def)
next
  case None
  then have no: "\<forall>p\<in>set (jobs db). \<not> (dedupe_key p = rt_key r \<and> rt_key r \<noteq> None \<and> state p \<in> {Queued, Retry_wait})"
    by (simp add: key_rows_Nil_iff pending_states_def)
  define key where "key = (if key_rows (rt_key r) leased_states db \<noteq> [] then None else rt_key r)"
  have k: "key_rows key active_states db = []"
    using no by (auto simp: key_def key_rows_Nil_iff active_states_def leased_states_def)
  have "enqueue_debounce now jid m r db = sql_insert (enqueue_row now jid m r key) db"
    using None by (simp add: enqueue_debounce_def key_def fetchone_def)
  with k have "enqueue_job env prios now jid m db = Ok (jid, db\<lparr>jobs := jobs db @ [enqueue_row now jid m r key]\<rparr>)"
    unfolding enqueue_job_routed[OF assms(2)]
    using assms(4-6) sql_insert_queued[OF reachable_constraints[OF assms(1)] assms(3)] by simp
  moreover have "key_rows (rt_key r) leased_states db \<noteq> [] \<longleftrightarrow>
      (\<exists>p\<in>set (jobs db). dedupe_key p = rt_key r \<and> rt_key r \<noteq> None \<and> state p \<in> {Leased, Running})"
    by (auto simp: key_rows_Nil_iff leased_states_def)
  ultimately show ?thesis using no by (simp add: key_def)
qed

section \<open>Idempotent enqueue\<close>

lemma jget_distinct: "distinct (map fst d) \<Longrightarrow> (k, v) \<in> set d \<Longrightarrow> has_key d k \<and> jget d k = v"
  by (simp add: has_key_def jget_def)

lemma same_request_self:
  assumes "distinct (map fst (rt_payload r))"
  shows "same_request m r (enqueue_row now jid m r k)"
  using jget_distinct[OF assms]
  by (auto simp: same_request_def enqueue_row_def new_job_def list_all_iff)

text \<open>An idempotent enqueue can be repeated: when it has returned an id, the same request
  again, at any later time and with any other generated id, returns the same id and changes nothing.\<close>

lemma enqueue_idempotent_repeatable:
  assumes "reachable db" and "routed_as env prios m r" and "m_idempotent m" and "distinct (map fst (rt_payload r))"
    and "enqueue_job env prios now jid m db = Ok (i, db')"
  shows "enqueue_job env prios now' jid' m db' = Ok (i, db')"
proof -
  have modes: "\<not> m_supersede m" "\<not> m_debounce m"
    using assms(2,3) by (auto simp: routed_as_def enqueue_checks_def split: sum.splits json.splits if_splits)
  note e = enqueue_job_routed[OF assms(2)]
  from assms(3,5) have "(enqueue_idempotent m r db = Ok (Some i) \<and> db' = db)
      \<or> (enqueue_idempotent m r db = Ok None \<and> sql_insert (enqueue_row now jid m r (rt_key r)) db = Ok (i, db'))"
    by (auto simp: e modes split: sum.splits option.splits)
  then show ?thesis
  proof
    assume "enqueue_idempotent m r db = Ok (Some i) \<and> db' = db"
    then show ?thesis using assms(3) by (simp add: e)
  next
    assume a: "enqueue_idempotent m r db = Ok None \<and> sql_insert (enqueue_row now jid m r (rt_key r)) db = Ok (i, db')"
    let ?row = "enqueue_row now jid m r (rt_key r)"
    from a have key: "\<not> falsy_key (rt_key r)" and none: "key_rows (rt_key r) active_states db = []"
      by (auto simp: enqueue_idempotent_def split: if_splits option.splits)
    from a have "jobs db' = jobs db @ [?row]" and i: "i = jid" using sql_insert_OkD(1,2)[of ?row db i db'] by auto
    then have "key_rows (rt_key r) active_states db' = key_rows (rt_key r) active_states db @ [?row]"
      using key by (auto simp: key_rows_def sql_select_def falsy_key_def active_states_def split: option.splits)
    then have "fetchone (key_rows (rt_key r) active_states db') = Some ?row" using none by (simp add: fetchone_def)
    then have "enqueue_idempotent m r db' = Ok (Some jid)"
      using key same_request_self[OF assms(4)] by (simp add: enqueue_idempotent_def)
    then show ?thesis using assms(3) i by (simp add: e)
  qed
qed

section \<open>Claiming\<close>

lemma sorted_take_drop:
  assumes "sorted (map f xs)" and "x \<in> set (take n xs)" and "y \<in> set (drop n xs)"
  shows "f x \<le> f y"
proof -
  have "map f xs = map f (take n xs) @ map f (drop n xs)" by (simp add: map_append[symmetric] del: map_append)
  then have "sorted (map f (take n xs) @ map f (drop n xs))" using assms(1) by simp
  then show ?thesis using assms(2,3) by (simp add: sorted_append)
qed

lemma distinct_jobs: "distinct_ids db \<Longrightarrow> distinct (jobs db)"
  by (simp add: distinct_ids_def distinct_map)

lemma claimed_filter:
  assumes "distinct_ids db"
  shows "mset (filter (\<lambda>j. job_id j \<in> set (map job_id (claim_candidates now q limit db))) (jobs db))
         = mset (claim_candidates now q limit db)"
proof -
  let ?c = "claim_candidates now q limit db"
  have "distinct ?c" using distinct_jobs[OF assms] by (simp add: claim_candidates_def)
  moreover have "set (filter (\<lambda>j. job_id j \<in> set (map job_id ?c)) (jobs db)) = set ?c"
  proof (intro set_eqI iffI)
    fix j assume "j \<in> set (filter (\<lambda>j. job_id j \<in> set (map job_id ?c)) (jobs db))"
    then obtain c where "j \<in> set (jobs db)" "c \<in> set ?c" "job_id c = job_id j" by auto
    then show "j \<in> set ?c" using claim_candidates_subset distinct_ids_same[OF assms] by metis
  next
    fix j assume "j \<in> set ?c"
    then show "j \<in> set (filter (\<lambda>j. job_id j \<in> set (map job_id ?c)) (jobs db))"
      using claim_candidates_subset by auto
  qed
  ultimately show ?thesis
    using distinct_jobs[OF assms] by (intro iffD1[OF set_eq_iff_mset_eq_distinct]) simp_all
qed

lemma claim_candidates_first:
  assumes "c \<in> set (claim_candidates now q limit db)" and "w \<in> set (jobs db)" "queue_name w = q" "runnable now w"
    and "w \<notin> set (claim_candidates now q limit db)"
  shows "claim_order c \<le> claim_order w"
proof -
  let ?s = "sort_key claim_order (filter (\<lambda>j. queue_name j = q \<and> runnable now j) (jobs db))"
  have "w \<in> set ?s" using assms(2-4) by simp
  then have "w \<in> set (take limit ?s) \<union> set (drop limit ?s)" by (metis append_take_drop_id set_append)
  then have "w \<in> set (drop limit ?s)" using assms(5) by (auto simp: claim_candidates_def)
  moreover have "sorted (map claim_order ?s)" by simp
  ultimately show ?thesis using assms(1) sorted_take_drop by (fastforce simp: claim_candidates_def)
qed

lemma sql_claim_row_simps [simp]:
  "job_id (sql_claim_row tok now w secs j) = job_id j" "dedupe_key (sql_claim_row tok now w secs j) = dedupe_key j"
  "state (sql_claim_row tok now w secs j) = Leased" "lease_owner (sql_claim_row tok now w secs j) = Some w"
  "lease_token (sql_claim_row tok now w secs j) = Some (tok (job_id j))"
  "lease_expires_at (sql_claim_row tok now w secs j) = Some (now + of_int secs)"
  "attempt_count (sql_claim_row tok now w secs j) = attempt_count j + 1"
  "max_attempts (sql_claim_row tok now w secs j) = max_attempts j"
  by (simp_all add: sql_claim_row_def)

lemma claim_queue_jobs_sql:
  assumes "valid_env env"
  shows "claim_queue_jobs env tok now q owner secs limit JNull db
    = sql_claim_queue_jobs tok now owner (route_name q env) limit secs db"
  using assms by (simp add: claim_queue_jobs_def select_environment_def queue_name_for_environment_route)

lemma sql_claim_total:
  assumes "constraints_ok db"
  shows "\<exists>db'. sql_claim_queue_jobs tok now owner q limit secs db
    = Ok (map (touch now (sql_claim_row tok now owner secs))
        (filter (\<lambda>j. job_id j \<in> set (map job_id (claim_candidates now q limit db))) (jobs db)), db')"
proof -
  let ?p = "\<lambda>j. job_id j \<in> set (map job_id (claim_candidates now q limit db))"
  have "\<not> state j \<in> set terminal_states" if "j \<in> set (jobs db)" "?p j" for j
  proof -
    have "j \<in> set (filter ?p (jobs db))" using that by simp
    then have "j \<in> set (claim_candidates now q limit db)"
      using claimed_filter[OF constraintsD(1)[OF assms]] by (metis set_mset_mset)
    then show ?thesis using claim_candidates_subset by (auto simp: runnable_def terminal_states_def)
  qed
  then show ?thesis
    unfolding sql_claim_queue_jobs_def
    by (intro sql_update_Ok[OF constraintsD(2,3)[OF assms]]) (auto simp: row_checks_def)
qed

text \<open>A claim always succeeds on a reachable database. It hands out exactly as many jobs as
  the limit allows of those that are runnable in the physical queue of the environment; each one was
  runnable there, is now leased to the worker under its own fresh token until the lease time is
  over, is not later in the order of priority, run time and creation than any runnable job that was passed
  over, and no other row has changed.\<close>

lemma claim_queue_jobs_exact:
  assumes "reachable db" and "valid_env env"
  shows "\<exists>rows db'. claim_queue_jobs env tok now q owner secs limit JNull db = Ok (rows, db')
    \<and> length rows = min limit (length (filter (\<lambda>j. queue_name j = route_name q env \<and> runnable now j) (jobs db)))
    \<and> (\<forall>r\<in>set rows. \<exists>j. row_of db (job_id r) = Some j \<and> queue_name j = route_name q env \<and> runnable now j
         \<and> row_of db' (job_id r) = Some r \<and> state r = Leased \<and> lease_owner r = Some owner
         \<and> lease_token r = Some (tok (job_id r)) \<and> lease_expires_at r = Some (now + of_int secs)
         \<and> (\<forall>w\<in>set (jobs db). queue_name w = route_name q env \<and> runnable now w \<and> job_id w \<notin> job_id ` set rows
              \<longrightarrow> claim_order j \<le> claim_order w))
    \<and> (\<forall>i. i \<notin> job_id ` set rows \<longrightarrow> row_of db' i = row_of db i)"
proof -
  define phys where "phys = route_name q env"
  define c where "c = claim_candidates now phys limit db"
  define f where "f = sql_claim_row tok now owner secs"
  let ?p = "\<lambda>j. job_id j \<in> set (map job_id c)"
  define rows where "rows = map (touch now f) (filter ?p (jobs db))"
  note ok = reachable_constraints[OF assms(1)]
  obtain db' where u: "sql_claim_queue_jobs tok now owner phys limit secs db = Ok (rows, db')"
    using sql_claim_total[OF ok] unfolding rows_def c_def f_def by blast
  have m: "mset (filter ?p (jobs db)) = mset c" unfolding c_def by (rule claimed_filter[OF constraintsD(1)[OF ok]])
  have sc: "set (filter ?p (jobs db)) = set c" using m by (rule mset_eq_setD)
  have ids: "job_id ` set rows = job_id ` set c" unfolding rows_def f_def using sc by (simp add: image_image)
  have len: "length rows = min limit (length (filter (\<lambda>j. queue_name j = phys \<and> runnable now j) (jobs db)))"
    unfolding rows_def using mset_eq_length[OF m] by (simp add: c_def claim_candidates_def min.commute)
  have upd: "row_of db' i = map_option (\<lambda>j. if ?p j then touch now f j else j) (row_of db i)" for i
    using u unfolding sql_claim_queue_jobs_def c_def f_def by (intro sql_update_row_of) simp_all
  have rest: "row_of db' i = row_of db i" if "i \<notin> job_id ` set rows" for i
    using that upd[of i] row_of_SomeD[of db i] by (cases "row_of db i") (auto simp: ids)
  have each: "\<exists>j. row_of db (job_id r) = Some j \<and> queue_name j = phys \<and> runnable now j
         \<and> row_of db' (job_id r) = Some r \<and> state r = Leased \<and> lease_owner r = Some owner
         \<and> lease_token r = Some (tok (job_id r)) \<and> lease_expires_at r = Some (now + of_int secs)
         \<and> (\<forall>w\<in>set (jobs db). queue_name w = phys \<and> runnable now w \<and> job_id w \<notin> job_id ` set rows
              \<longrightarrow> claim_order j \<le> claim_order w)" if "r \<in> set rows" for r
  proof -
    from that obtain j where j: "j \<in> set c" "r = touch now f j" unfolding rows_def using sc by auto
    have jq: "j \<in> set (jobs db)" "queue_name j = phys" "runnable now j"
      using j(1) claim_candidates_subset unfolding c_def by blast+
    have row: "row_of db (job_id r) = Some j"
      using j(2) jq(1) row_of_iff[OF constraintsD(1)[OF ok]] by (simp add: f_def)
    have new: "row_of db' (job_id r) = Some r" using upd[of "job_id r"] row j by simp
    have "claim_order j \<le> claim_order w"
      if "w \<in> set (jobs db)" "queue_name w = phys" "runnable now w" "job_id w \<notin> job_id ` set rows" for w
      using claim_candidates_first[of j now phys limit db w] j(1) that by (auto simp: ids c_def)
    with row new jq j(2) show ?thesis by (auto simp: f_def)
  qed
  show ?thesis
    unfolding claim_queue_jobs_sql[OF assms(2)] phys_def[symmetric]
    using u len each rest by blast
qed

section \<open>Checkpoints\<close>

lemma fetch_held:
  assumes "constraints_ok db"
  shows "fetchone (sql_select (holds_lease st jid owner tok t) db) =
    (case row_of db jid of None \<Rightarrow> None | Some j \<Rightarrow> if holds_lease st jid owner tok t j then Some j else None)"
proof (cases "fetchone (sql_select (holds_lease st jid owner tok t) db)")
  case None
  then have "\<forall>j\<in>set (jobs db). \<not> holds_lease st jid owner tok t j" by (simp add: sql_select_def filter_empty_conv)
  with None show ?thesis by (auto split: option.splits dest!: row_of_SomeD)
next
  case (Some j)
  then have j: "j \<in> set (jobs db)" "holds_lease st jid owner tok t j" by (auto dest: fetchone_select_SomeD)
  then have "row_of db jid = Some j" using row_of_iff[OF constraintsD(1)[OF assms]] by (simp add: holds_lease_def)
  with Some j show ?thesis by simp
qed

definition checkpointed :: "uuid \<Rightarrow> json \<Rightarrow> queue_db \<Rightarrow> bool" where
  "checkpointed jid v db = (case row_of db jid of None \<Rightarrow> False
     | Some j \<Rightarrow> has_key (payload_json j) ''observation_checkpoint'' \<and> jget (payload_json j) ''observation_checkpoint'' = v)"

lemma checkpoint_OkD:
  assumes "checkpoint_running_job lib now jid owner tok cp db = Ok (v, db')" and "constraints_ok db"
  obtains d j j' where "checkpoint_value cp = Ok d" "length (dumps dump_ascii lib (JObj d)) \<le> MAX_RUNNING_CHECKPOINT_BYTES"
    "dumps dump_ascii lib v = dumps dump_ascii lib (JObj d)" "checkpointed jid v db'"
    "row_of db jid = Some j" "holds_lease Running jid owner tok now j" "row_of db' jid = Some j'" "same_lease j j'" "state j' = state j"
    "has_key (payload_json j) ''observation_checkpoint'' \<Longrightarrow> db' = db"
proof -
  from assms(1) obtain d where d: "checkpoint_value cp = Ok d"
    "length (dumps dump_ascii lib (JObj d)) \<le> MAX_RUNNING_CHECKPOINT_BYTES"
    by (auto simp: checkpoint_running_job_def Let_def split: sum.splits if_splits)
  with assms(1) obtain j where j: "row_of db jid = Some j" "holds_lease Running jid owner tok now j"
    by (auto simp: checkpoint_running_job_def Let_def fetch_held[OF assms(2)] split: option.splits if_splits)
  show ?thesis
  proof (cases "has_key (payload_json j) ''observation_checkpoint''")
    case True
    with assms(1) d j have "db' = db" "v = jget (payload_json j) ''observation_checkpoint''"
      "dumps dump_ascii lib v = dumps dump_ascii lib (JObj d)"
      by (auto simp: checkpoint_running_job_def Let_def fetch_held[OF assms(2)] split: if_splits)
    with True j d show ?thesis by (intro that[of d j j]) (simp_all add: checkpointed_def same_lease_def)
  next
    case False
    let ?f = "\<lambda>j. j\<lparr>payload_json := AList.update ''observation_checkpoint'' (JObj d) (payload_json j)\<rparr>"
    from False assms(1) d j obtain r where
      u: "update_one no_settings now (holds_lease Running jid owner tok now) ?f
        (RuntimeError ''lost running lease while recording checkpoint'') db = Ok (r, db')"
      and v: "v = jget (payload_json r) ''observation_checkpoint''"
      by (auto simp: checkpoint_running_job_def Let_def fetch_held[OF assms(2)] split: if_splits sum.splits)
    from update_one_row[OF u assms(2), of jid] j have r: "r = touch now ?f j" "row_of db' jid = Some r"
      by (auto simp: holds_lease_def)
    then have "v = JObj d" using v by simp
    with r j d False show ?thesis
      by (intro that[of d j r]) (simp_all add: checkpointed_def same_lease_def has_key_def)
  qed
qed

text \<open>A checkpoint is written once and stays: after a call has returned a value, the same
  call returns the same value again and changes nothing as long as the lease is valid, and no call,
  with whatever checkpoint and lease, can return another value or change the database.\<close>

lemma checkpoint_immutable:
  assumes "reachable db" and "checkpoint_running_job lib now jid owner tok cp db = Ok (v, db1)"
  shows "(if \<exists>j. row_of db1 jid = Some j \<and> holds_lease Running jid owner tok now' j
          then checkpoint_running_job lib now' jid owner tok cp db1 = Ok (v, db1)
          else checkpoint_running_job lib now' jid owner tok cp db1
            = Err (RuntimeError ''lost running lease while recording checkpoint''))
    \<and> (checkpoint_running_job lib now'' jid owner' tok' cp' db1 = Ok (v', db2) \<longrightarrow> v' = v \<and> db2 = db1)"
proof -
  note ok = reachable_constraints[OF assms(1)]
  have ok1: "constraints_ok db1"
    using queue_steps_constraints[of UNIV db db1] ok queue_step.checkpoint[OF assms(2)] by blast
  from assms(2) ok obtain d where d: "checkpoint_value cp = Ok d"
    "length (dumps dump_ascii lib (JObj d)) \<le> MAX_RUNNING_CHECKPOINT_BYTES"
    "dumps dump_ascii lib v = dumps dump_ascii lib (JObj d)" "checkpointed jid v db1"
    by (rule checkpoint_OkD)
  have replay: "v' = v \<and> db2 = db1" if "checkpoint_running_job lib now'' jid owner' tok' cp' db1 = Ok (v', db2)"
    using that ok1
  proof (rule checkpoint_OkD)
    fix d' j j'
    assume "checkpointed jid v' db2" "row_of db1 jid = Some j"
      "has_key (payload_json j) ''observation_checkpoint'' \<Longrightarrow> db2 = db1"
    with d(4) show ?thesis by (auto simp: checkpointed_def split: option.splits)
  qed
  moreover have "if \<exists>j. row_of db1 jid = Some j \<and> holds_lease Running jid owner tok now' j
          then checkpoint_running_job lib now' jid owner tok cp db1 = Ok (v, db1)
          else checkpoint_running_job lib now' jid owner tok cp db1
            = Err (RuntimeError ''lost running lease while recording checkpoint'')"
    using d by (auto simp: checkpoint_running_job_def Let_def fetch_held[OF ok1] checkpointed_def split: option.splits)
  ultimately show ?thesis by blast
qed

definition sample_lib :: pylib where
  "sample_lib = \<lparr>sha256_hex = (\<lambda>s. s), float_repr = (\<lambda>_. ''0.5'')\<rparr>"

definition sample_checkpointed :: queue_db where
  "sample_checkpointed = sample_running\<lparr>jobs := [(hd (jobs sample_running))\<lparr>updated_at := 3,
     payload_json := [(''sku'', JStr ''A1''), (''observation_checkpoint'', JObj [])]\<rparr>]\<rparr>"

lemmas sample_rows = sample_checkpointed_def sample_running_def sample_row_def new_job_def

lemma sample_checkpoint:
  "checkpoint_running_job sample_lib 3 ''j1'' ''w1'' ''t1'' (PyDict []) sample_running = Ok (JObj [], sample_checkpointed)"
  by (simp add: checkpoint_running_job_def checkpoint_value_def MAX_RUNNING_CHECKPOINT_BYTES_def sql_select_def fetchone_def
      sample_rows holds_lease_def later_than_def has_key_def update_one_def sql_update_def row_checks_def uq_active_def
      touch_def history_entry_def jget_def)

section \<open>Failing\<close>

lemma update_one_constraints:
  assumes "update_one cfg now p f e db = Ok (r, db')" and "constraints_ok db" and "\<And>j. job_id (f j) = job_id j"
  shows "constraints_ok db'"
  using assms(1)
proof (rule update_one_OkD)
  fix rows assume u: "sql_update cfg now p f db = Ok (rows, db')"
  have "distinct_ids db'" using sql_update_ids[OF u assms(3)] assms(2) by (simp add: constraints_ok_def distinct_ids_def)
  with sql_update_OkD(3,4)[OF u] show ?thesis by (simp add: constraints_ok_def)
qed

text \<open>An update of the one row that is running under the lease.\<close>

lemma held_update:
  assumes "constraints_ok db" and "row_of db jid = Some j" and "holds_lease Running jid owner tok t j"
    and "\<And>j. job_id (f j) = job_id j" and "\<And>j. dedupe_key (f j) = dedupe_key j" and "\<And>j. row_checks j \<Longrightarrow> row_checks (f j)"
  shows "\<exists>db'. update_one cfg now (holds_lease Running jid owner tok t) f e db = Ok (touch now f j, db')
    \<and> row_of db' = (row_of db)(jid \<mapsto> touch now f j) \<and> constraints_ok db'"
proof -
  let ?held = "holds_lease Running jid owner tok t"
  have "(\<exists>r db'. update_one cfg now ?held f e db = Ok (r, db')) \<longleftrightarrow> (\<exists>j. row_of db jid = Some j \<and> ?held j)"
    using assms(5,6) by (intro update_one_accepts(1)[OF assms(1)]) (auto simp: holds_lease_def terminal_states_def)
  then obtain r db' where u: "update_one cfg now ?held f e db = Ok (r, db')" using assms(2,3) by blast
  from update_one_row[OF u assms(1,4), of jid] assms(2)
  have "r = touch now f j" "row_of db' = (row_of db)(jid \<mapsto> r)" by (auto simp: holds_lease_def)
  with u update_one_constraints[OF u assms(1,4)] show ?thesis by blast
qed

lemma bury_update:
  assumes "constraints_ok db" and "row_of db jid = Some j" and "state j = Failed"
  shows "\<exists>rows db'. sql_update no_settings now (\<lambda>j. job_id j = jid \<and> state j = Failed) (\<lambda>j. j\<lparr>state := Dead_letter\<rparr>) db = Ok (rows, db')
    \<and> row_of db' = (row_of db)(jid \<mapsto> touch now (\<lambda>j. j\<lparr>state := Dead_letter\<rparr>) j)"
proof -
  let ?p = "\<lambda>j. job_id j = jid \<and> state j = Failed" and ?b = "\<lambda>j::job. j\<lparr>state := Dead_letter\<rparr>"
  obtain rows db' where b: "sql_update no_settings now ?p ?b db = Ok (rows, db')"
    using sql_update_Ok[OF constraintsD(2,3)[OF assms(1)], of ?p ?b no_settings now]
    by (auto simp: terminal_states_def row_checks_def)
  have jid: "job_id j = jid" using row_of_SomeD[OF assms(2)] by simp
  have upd: "row_of db' i = map_option (\<lambda>j. if ?p j then touch now ?b j else j) (row_of db i)" for i
    using b by (rule sql_update_row_of) simp
  have "row_of db' i = ((row_of db)(jid \<mapsto> touch now ?b j)) i" for i
  proof (cases "i = jid")
    case True
    then show ?thesis using upd[of jid] assms(2,3) jid by simp
  next
    case False
    then have "\<forall>x. row_of db i = Some x \<longrightarrow> job_id x \<noteq> jid" using row_of_SomeD by blast
    then show ?thesis using upd[of i] False by (cases "row_of db i") simp_all
  qed
  with b show ?thesis by blast
qed

lemma mark_failed_held:
  assumes "constraints_ok db" and "row_of db jid = Some j" and "holds_lease Running jid owner tok now j"
  shows "\<exists>db' r. row_of db' = (row_of db)(jid \<mapsto> r) \<and> unleased r \<and> error_detail r = Some (py_take 2000 err)
    \<and> (if attempt_count j < max_attempts j
       then mark_failed now clk jid owner tok err db = Ok (Retry_wait, db') \<and> state r = Retry_wait
         \<and> not_before r = Some (clk + retry_backoff (attempt_count j))
       else mark_failed now clk jid owner tok err db = Ok (Dead_letter, db') \<and> state r = Dead_letter)"
proof -
  let ?e = "RuntimeError ''lost running lease while marking failed''"
  have fetched: "fetchone (sql_select (holds_lease Running jid owner tok now) db) = Some j"
    using assms(2,3) by (simp add: fetch_held[OF assms(1)])
  show ?thesis
  proof (cases "attempt_count j < max_attempts j")
    case True
    let ?f = "retry_row now (clk + retry_backoff (attempt_count j)) err"
    obtain db' where "update_one no_settings now (holds_lease Running jid owner tok now) ?f ?e db = Ok (touch now ?f j, db')"
      "row_of db' = (row_of db)(jid \<mapsto> touch now ?f j)"
      using held_update[OF assms, of ?f no_settings now ?e] by (auto simp: retry_row_def row_checks_def)
    with True fetched show ?thesis
      by (auto simp: mark_failed_def next_failure_state_def retry_row_def unleased_def touch_def release_lease_def)
  next
    case False
    let ?f = "failed_row now err"
    obtain db1 where u: "update_one no_settings now (holds_lease Running jid owner tok now) ?f ?e db = Ok (touch now ?f j, db1)"
      "row_of db1 = (row_of db)(jid \<mapsto> touch now ?f j)" and ok1: "constraints_ok db1"
      using held_update[OF assms, of ?f no_settings now ?e] by (auto simp: failed_row_def row_checks_def)
    from bury_update[OF ok1, of jid "touch now ?f j" now] u(2) obtain rows db2 where
      b: "sql_update no_settings now (\<lambda>j. job_id j = jid \<and> state j = Failed) (\<lambda>j. j\<lparr>state := Dead_letter\<rparr>) db1 = Ok (rows, db2)"
      "row_of db2 = (row_of db)(jid \<mapsto> touch now (\<lambda>j. j\<lparr>state := Dead_letter\<rparr>) (touch now ?f j))"
      by (auto simp: failed_row_def)
    have "mark_failed now clk jid owner tok err db = Ok (Dead_letter, db2)"
      using False fetched u(1) b(1) by (simp add: mark_failed_def next_failure_state_def)
    with b(2) False show ?thesis by (auto simp: failed_row_def unleased_def touch_def release_lease_def)
  qed
qed

text \<open>\<^verbatim>\<open>mark_failed\<close> is accepted exactly under an unexpired running lease. A job with attempts
  left then waits for its retry delay after the worker's clock, one without is dead-lettered; in both cases
  the lease is gone, the error is recorded and no other row has changed.\<close>

lemma mark_failed_exact:
  assumes "reachable db"
  shows "case row_of db jid of
      None \<Rightarrow> mark_failed now clk jid owner tok err db = Err (RuntimeError ''lost running lease while marking failed'')
    | Some j \<Rightarrow>
        (if \<not> holds_lease Running jid owner tok now j
         then mark_failed now clk jid owner tok err db = Err (RuntimeError ''lost running lease while marking failed'')
         else \<exists>db' r. row_of db' = (row_of db)(jid \<mapsto> r) \<and> unleased r \<and> error_detail r = Some (py_take 2000 err)
           \<and> (if attempt_count j < max_attempts j
              then mark_failed now clk jid owner tok err db = Ok (Retry_wait, db') \<and> state r = Retry_wait
                \<and> not_before r = Some (clk + retry_backoff (attempt_count j))
              else mark_failed now clk jid owner tok err db = Ok (Dead_letter, db') \<and> state r = Dead_letter))"
proof -
  note ok = reachable_constraints[OF assms]
  have lost: "mark_failed now clk jid owner tok err db = Err (RuntimeError ''lost running lease while marking failed'')"
    if "\<forall>j. row_of db jid = Some j \<longrightarrow> \<not> holds_lease Running jid owner tok now j"
    using that by (simp add: mark_failed_def fetch_held[OF ok] split: option.splits)
  show ?thesis
  proof (cases "row_of db jid")
    case None
    then show ?thesis using lost by simp
  next
    case (Some j)
    show ?thesis
    proof (cases "holds_lease Running jid owner tok now j")
      case True
      then show ?thesis using mark_failed_held[OF ok Some True, of err clk] Some by simp
    next
      case False
      then show ?thesis using lost Some by simp
    qed
  qed
qed

section \<open>Completing a treatment\<close>

lemma route_evaluate:
  assumes "valid_env env" and "route_queue_manifest env ''workflow_evaluate'' payload (Some key) = Ok (q, p, k)"
  shows "q = route_name ''workflow_evaluate'' env" and "x \<noteq> ''ebay_environment'' \<Longrightarrow> jget p x = jget payload x"
proof -
  have l: "logical_queue_name ''workflow_evaluate'' = ''workflow_evaluate''" by code_simp
  show "q = route_name ''workflow_evaluate'' env" "x \<noteq> ''ebay_environment'' \<Longrightarrow> jget p x = jget payload x"
    using assms by (auto simp: route_queue_manifest_def Let_def l queue_name_for_environment_route
        is_ebay_environment_scoped_queue_def EBAY_ENVIRONMENT_SCOPED_LOCAL_QUEUES_def
        split: if_splits sum.splits dest: normalize_Ok_valid)
qed

definition evaluation_inserted :: "string \<Rightarrow> time \<Rightarrow> uuid \<Rightarrow> uuid \<Rightarrow> jobj \<Rightarrow> job \<Rightarrow> queue_db \<Rightarrow> uuid \<Rightarrow> queue_db \<Rightarrow> bool" where
  "evaluation_inserted env now new_id jid res c db1 s db' =
     (\<exists>q p k prio. route_queue_manifest env ''workflow_evaluate'' (event_payload (entity_id c) jid res (payload_json c))
          (Some (''workflow-evaluate:'' @ jid)) = Ok (q, p, k)
        \<and> sql_insert (new_job now new_id q ''item'' (entity_id c) ''evidence_changed'' ''workflow_evaluate'' prio p None k 3) db1
          = Ok (s, db'))"

lemma evaluation_split:
  assumes "complete_treatment_and_enqueue_evaluation env prios now new_id jid owner tok res db = Ok (s, db')"
  shows "\<exists>c db1. update_one no_settings now (holds_lease Running jid owner tok now) (succeed_row now (Some (JObj res)))
        (RuntimeError (''lost running lease while completing treatment job '' @ jid)) db = Ok (c, db1)
    \<and> (if evidence_unchanged res then s = EVALUATION_EVENT_NOT_REQUIRED \<and> db' = db1
       else evaluation_inserted env now new_id jid res c db1 s db')"
  using assms unfolding complete_treatment_and_enqueue_evaluation_def evaluation_inserted_def
  by (auto split: sum.splits if_splits) blast

text \<open>Completing a treatment is one atomic change: the job was running under the caller's
  unexpired lease and is now succeeded with the receipt as its result, and unless the receipt
  says that the evidence is unchanged, exactly one new queued job asks the workflow evaluation
  of the same environment to look at the same entity, naming this job and carrying its receipt.\<close>

lemma treatment_completion_enqueues_evaluation:
  assumes "reachable db" and "valid_env env"
    and "complete_treatment_and_enqueue_evaluation env prios now new_id jid owner tok res db = Ok (s, db')"
  shows "\<exists>j r. row_of db jid = Some j \<and> holds_lease Running jid owner tok now j \<and> row_of db' jid = Some r
    \<and> state r = Succeeded \<and> unleased r \<and> jget (payload_json r) ''result'' = JObj res
    \<and> (if evidence_unchanged res then s = EVALUATION_EVENT_NOT_REQUIRED \<and> map job_id (jobs db') = map job_id (jobs db)
       else s = new_id \<and> map job_id (jobs db') = map job_id (jobs db) @ [new_id]
         \<and> (\<exists>e. row_of db' new_id = Some e \<and> state e = Queued \<and> queue_name e = route_name ''workflow_evaluate'' env
              \<and> entity_type e = ''item'' \<and> entity_id e = entity_id j \<and> operation e = ''evidence_changed''
              \<and> jget (payload_json e) ''origin_job_id'' = JStr jid \<and> jget (payload_json e) ''origin_receipt'' = JObj res))"
proof -
  note ok = reachable_constraints[OF assms(1)]
  let ?f = "succeed_row now (Some (JObj res))"
  from evaluation_split[OF assms(3)] obtain c db1 where u: "update_one no_settings now (holds_lease Running jid owner tok now) ?f
        (RuntimeError (''lost running lease while completing treatment job '' @ jid)) db = Ok (c, db1)"
    and rest: "if evidence_unchanged res then s = EVALUATION_EVENT_NOT_REQUIRED \<and> db' = db1
      else evaluation_inserted env now new_id jid res c db1 s db'"
    by blast
  from update_one_row[OF u ok, of jid] obtain j where j: "row_of db jid = Some j" "holds_lease Running jid owner tok now j"
    and c: "c = touch now ?f j" and row1: "row_of db1 = (row_of db)(jid \<mapsto> c)"
    by (auto simp: holds_lease_def succeed_row_def)
  have fin: "state c = Succeeded" "unleased c" "jget (payload_json c) ''result'' = JObj res" "entity_id c = entity_id j"
    unfolding c by (simp_all add: succeed_row_def unleased_def)
  have ids: "map job_id (jobs db1) = map job_id (jobs db)"
    using u by (elim update_one_OkD) (auto dest!: sql_update_ids simp: succeed_row_def)
  have ok1: "constraints_ok db1" using update_one_constraints[OF u ok] by (simp add: succeed_row_def)
  show ?thesis
  proof (cases "evidence_unchanged res")
    case True
    with rest j row1 fin ids show ?thesis by auto
  next
    case False
    with rest obtain q p k prio where
      m: "route_queue_manifest env ''workflow_evaluate'' (event_payload (entity_id c) jid res (payload_json c))
            (Some (''workflow-evaluate:'' @ jid)) = Ok (q, p, k)"
      and i: "sql_insert (new_job now new_id q ''item'' (entity_id c) ''evidence_changed'' ''workflow_evaluate'' prio p None k 3) db1 = Ok (s, db')"
      by (auto simp: evaluation_inserted_def)
    let ?e = "new_job now new_id q ''item'' (entity_id c) ''evidence_changed'' ''workflow_evaluate'' prio p None k 3"
    have js: "jobs db' = jobs db1 @ [?e]" and s: "s = new_id" using sql_insert_OkD(1,2)[OF i] by (simp_all add: new_job_def)
    have d': "distinct_ids db'" using table_step_ids[OF table_step.insert[OF i] constraintsD(1)[OF ok1]] by simp
    have "row_of db' new_id = Some ?e" using row_of_iff[OF d'] by (simp add: js new_job_def)
    moreover have "row_of db' jid = Some c"
      using row1 row_of_iff[OF d'] row_of_iff[OF constraintsD(1)[OF ok1], of jid c] by (simp add: js)
    moreover have "jget (event_payload (entity_id c) jid res (payload_json c)) ''origin_job_id'' = JStr jid"
      "jget (event_payload (entity_id c) jid res (payload_json c)) ''origin_receipt'' = JObj res"
      by (simp_all add: event_payload_def jget_def)
    ultimately show ?thesis
      using False j fin ids js s route_evaluate[OF assms(2) m] by (auto simp: new_job_def)
  qed
qed

end
