(* ===== verification/Queue_Worker.thy ===== *)
theory Queue_Worker
  imports Queue_Contracts
begin

text \<open>
  \<^verbatim>\<open>queue/worker_base.py\<close>: what a worker does with the outcome of a job's handler. The handler is
  an argument; its outcome is the value it returned or the exception it raised. The theorems show
  that a receipt is accepted exactly when it is bound to the job, that a job succeeds with a
  treatment receipt only when the receipt is accepted, that a failed job is always settled while
  its lease lasts, and that a worker changes the queue by queue transactions only.
\<close>

section \<open>Receipts\<close>

definition treatment_keys :: "string list" where
  "treatment_keys = [''treatment_id'', ''treatment_version'', ''graph_id'']"

definition profile_keys :: "string list" where
  "profile_keys = [''goal_profile_id'', ''goal_profile_version'', ''object_generation'', ''condition_hash'']"

definition is_treatment_receipt_candidate :: "jobj option \<Rightarrow> bool" where
  "is_treatment_receipt_candidate value =
     (case value of
        None \<Rightarrow> False
      | Some r \<Rightarrow> jget r ''receipt_schema_id'' = JStr ''treatment-receipt/v1'' \<or> list_ex (has_key r) treatment_keys)"

text \<open>The first of the keys that fails a test, as the error it gives.\<close>

definition key_error :: "(string \<Rightarrow> bool) \<Rightarrow> (string \<Rightarrow> string) \<Rightarrow> string list \<Rightarrow> string option" where
  "key_error bad err ks = map_option err (find bad ks)"

fun first_error :: "string option list \<Rightarrow> string option" where
  "first_error [] = None"
| "first_error (None # es) = first_error es"
| "first_error (Some e # es) = Some e"

definition error_if :: "bool \<Rightarrow> string \<Rightarrow> string option" where
  "error_if c e = (if c then Some e else None)"

definition treatment_receipt_error :: "jobj option \<Rightarrow> job \<Rightarrow> string option" where
  "treatment_receipt_error value job =
     (if \<not> is_treatment_receipt_candidate value then Some ''NOT_A_TREATMENT_RECEIPT''
      else (case value of
              None \<Rightarrow> None
            | Some r \<Rightarrow>
                (let payload = payload_json job in
                 first_error
                   [error_if (list_ex (\<lambda>k. \<not> nonblank_str (jget r k)) (treatment_keys @ profile_keys @ [''entity_id'']))
                      ''INVALID_RECEIPT_IDENTITY'',
                    error_if (jget r ''receipt_schema_id'' \<noteq> JStr ''treatment-receipt/v1'') ''INVALID_RECEIPT_SCHEMA'',
                    error_if (jget r ''outcome'' \<noteq> JStr ''satisfied'') ''INVALID_RECEIPT_OUTCOME'',
                    key_error (\<lambda>k. \<not> nonblank_str (jget payload k)) (\<lambda>k. ''INVALID_'' @ py_upper k) profile_keys,
                    error_if (entity_type job \<noteq> ''item'') ''INVALID_ENTITY_TYPE'',
                    error_if (\<not> non_blank (entity_id job)) ''INVALID_ENTITY_ID'',
                    error_if (jget payload ''entity_id'' \<noteq> JStr (entity_id job)) ''ENTITY_ID_MISMATCH'',
                    error_if (jget r ''entity_id'' \<noteq> JStr (entity_id job)) ''RECEIPT_ENTITY_ID_MISMATCH'',
                    error_if (jget payload ''object_id'' \<notin> {JNull, JStr (entity_id job)}) ''OBJECT_ID_MISMATCH'',
                    key_error (\<lambda>k. \<not> py_eq (jget r k) (jget payload k)) (\<lambda>k. py_upper k @ ''_MISMATCH'')
                      (treatment_keys @ profile_keys)])))"

definition TREATMENT_TIMER_MIN_DELAY_S :: time where
  "TREATMENT_TIMER_MIN_DELAY_S = 1"

definition TREATMENT_TIMER_MAX_DELAY_S :: time where
  "TREATMENT_TIMER_MAX_DELAY_S = 7 * 24 * 3600"

text \<open>An integer that is too large for a float raises when it is converted.\<close>

definition float_overflows :: "json \<Rightarrow> bool" where
  "float_overflows v = (case v of JInt i \<Rightarrow> \<bar>i\<bar> \<ge> 2 ^ 1024 - 2 ^ 970 | _ \<Rightarrow> False)"

definition continuation_bindings :: "string list" where
  "continuation_bindings =
     [''treatment_id'', ''treatment_version'', ''graph_id'', ''goal_profile_id'', ''goal_profile_version'',
      ''object_generation'', ''condition_hash'', ''entity_id'', ''object_id'', ''sku'', ''provider_effect_id'',
      ''provider_identity'', ''expected_offer_id'', ''source_operation'', ''ebay_environment'', ''ebay_endpoint'']"

definition timer_mismatch :: "jobj \<Rightarrow> jobj \<Rightarrow> string list \<Rightarrow> string option" where
  "timer_mismatch timer_payload payload ks =
     key_error (\<lambda>k. \<not> py_eq (jget timer_payload k) (jget payload k)) (\<lambda>k. ''TIMER_'' @ py_upper k @ ''_MISMATCH'') ks"

definition timer_payload_error :: "jobj \<Rightarrow> jobj \<Rightarrow> job \<Rightarrow> string option" where
  "timer_payload_error timer payload job =
     (case jget timer ''payload'' of
        JObj tp \<Rightarrow>
          first_error
            [key_error (\<lambda>k. \<not> nonempty_str (jget payload k)) (\<lambda>k. ''INVALID_'' @ py_upper k)
               [''graph_id'', ''object_generation'', ''condition_hash''],
             timer_mismatch tp payload [''treatment_id'', ''treatment_version''],
             timer_mismatch tp payload continuation_bindings,
             error_if (has_key tp ''observation_checkpoint'') ''TIMER_RESERVED_CHECKPOINT'',
             error_if (jget tp ''sku'' \<noteq> JStr (entity_id job)) ''TIMER_ENTITY_MISMATCH'',
             error_if (\<not> nonempty_str (jget timer ''dedupe_key'')) ''INVALID_TIMER_DEDUPE'',
             error_if (\<not> timer_attempts_ok (jget_default timer ''max_attempts'' (JInt 3))) ''INVALID_TIMER_MAX_ATTEMPTS'']
      | _ \<Rightarrow> Some ''INVALID_TIMER_PAYLOAD'')"

text \<open>\<open>clk\<close> is \<^verbatim>\<open>time.time()\<close>.\<close>

definition waiting_treatment_receipt_error :: "time \<Rightarrow> jobj option \<Rightarrow> job \<Rightarrow> string option result" where
  "waiting_treatment_receipt_error clk value job =
     (case value of
        None \<Rightarrow> Ok (Some ''NOT_A_WAITING_TREATMENT_RECEIPT'')
      | Some r \<Rightarrow>
          (let payload = payload_json job in
           if jget r ''receipt_schema_id'' \<noteq> JStr ''treatment-wait-receipt/v1'' then Ok (Some ''NOT_A_WAITING_TREATMENT_RECEIPT'')
           else if jget r ''outcome'' \<noteq> JStr ''transient_backoff'' then Ok (Some ''INVALID_WAITING_OUTCOME'')
           else (case key_error (\<lambda>k. \<not> is_jstr (jget r k) \<or> \<not> py_eq (jget r k) (jget payload k)) (\<lambda>k. py_upper k @ ''_MISMATCH'')
                        treatment_keys of
                   Some e \<Rightarrow> Ok (Some e)
                 | None \<Rightarrow>
                     (case jget r ''timer'' of
                        JObj timer \<Rightarrow>
                          (if \<not> queue_name_matches_environment (JStr (queue_name job)) (jget timer ''queue_name'')
                                (jget payload ''ebay_environment'')
                           then Ok (Some ''TIMER_QUEUE_MISMATCH'')
                           else if float_overflows (jget timer ''not_before'')
                           then Err (OverflowError ''int too large to convert to float'')
                           else (case json_time (jget timer ''not_before'') of
                                   None \<Rightarrow> Ok (Some ''INVALID_TIMER_NOT_BEFORE'')
                                 | Some t \<Rightarrow>
                                     (if t - clk < TREATMENT_TIMER_MIN_DELAY_S then Ok (Some ''TIMER_NOT_IN_FUTURE'')
                                      else if t - clk > TREATMENT_TIMER_MAX_DELAY_S then Ok (Some ''TIMER_WINDOW_EXCEEDED'')
                                      else Ok (timer_payload_error timer payload job))))
                      | _ \<Rightarrow> Ok (Some ''INVALID_TIMER'')))))"

section \<open>Transient errors\<close>

definition TRANSIENT_ERRORS :: "(string \<times> int) list" where
  "TRANSIENT_ERRORS =
     [(''job execution timed out'', 120), (''token is expired'', 900), (''no ebay photo urls yet'', 600),
      (''directory not empty'', 30), (''readtimeout'', 120), (''lease_expired'', 120), (''connectionerror'', 120),
      (''503 server error'', 300), (''service unavailable'', 300), (''pipeline steps still running'', 60),
      (''quota budget exhausted'', 1800), (''too many requests'', 1800), (''usage limit'', 1800),
      (''payment required'', 21600), (''insufficient balance'', 21600), (''insufficient_quota'', 21600),
      (''402 client error'', 21600)]"

text \<open>\<^const>\<open>Some\<close> delay for \<^verbatim>\<open>('requeue', delay)\<close>, \<^const>\<open>None\<close> for \<^verbatim>\<open>('dead_letter', 0)\<close>.\<close>

definition classify_dead_letter :: "string \<Rightarrow> int option" where
  "classify_dead_letter error_text =
     map_option snd (find (\<lambda>(pattern, delay). contains_sub pattern (py_lower error_text)) TRANSIENT_ERRORS)"

section \<open>Processing one job\<close>

text \<open>What the handler did: returned (the value when it is a dictionary), or raised. \<^verbatim>\<open>repr\<close> of the
  exception is part of the outcome.\<close>

datatype handler_outcome =
    Handled "jobj option"
  | Run_cancelled string bool
  | Treatment_failed string json
  | Hard_failed string "json option"
  | Handler_error string

datatype worker_event =
    Job_succeeded
  | Job_waiting uuid
  | Job_dead_letter
  | Job_failed
  | Job_transient_requeue int
  | Job_cancelled

record worker =
  w_queue_name :: string
  w_owner :: string
  w_environment :: string
  w_priorities :: jobj
  w_lease_seconds :: int
  w_direct_local :: "closure_env option"

text \<open>What one call reads from the host: the database time, the process clock, fresh uuids and the
  text of the current time.\<close>

record moment =
  at_now :: time
  at_clock :: time
  at_new_id :: uuid
  at_ack_id :: uuid
  at_stamp :: string

definition cancellation_acknowledgement :: "worker \<Rightarrow> moment \<Rightarrow> uuid \<Rightarrow> uuid \<Rightarrow> string \<Rightarrow> bool \<Rightarrow> jobj" where
  "cancellation_acknowledgement w m jid tok why reaped =
     [(''schema'', JStr ''tgw-coding-stop-ack/v1''), (''job_id'', JStr jid), (''ack_id'', JStr (at_ack_id m)),
      (''worker'', JStr (w_owner w)),
      (''runner'', JObj ([(''schema'', JStr ''tgw-coding-runner/v2''), (''job_id'', JStr jid),
         (''queue_name'', JStr (w_queue_name w)), (''lease_owner'', JStr (w_owner w)), (''lease_token'', JStr tok)]
         @ (if why = ''no_runner'' then [(''kind'', JStr ''no_runner'')] else []))),
      (''observed_at'', JStr (at_stamp m)), (''reason'', JStr why), (''reaped'', JBool reaped)]"

text \<open>A transaction's value as the event it reports; an error leaves the database as it was.\<close>

definition report :: "worker_event \<Rightarrow> ('a \<times> queue_db) result \<Rightarrow> queue_db \<Rightarrow> worker_event result \<times> queue_db" where
  "report ev r db = (case r of Inl e \<Rightarrow> (Err e, db) | Inr (_, db') \<Rightarrow> (Ok ev, db'))"

definition finish_cancelled ::
  "isolib \<Rightarrow> worker \<Rightarrow> moment \<Rightarrow> uuid \<Rightarrow> uuid \<Rightarrow> string \<Rightarrow> bool \<Rightarrow> queue_db \<Rightarrow> worker_event result \<times> queue_db" where
  "finish_cancelled il w m jid tok why reaped db =
     (case acknowledge_cancellation il (at_now m) jid (cancellation_acknowledgement w m jid tok why reaped) db of
        Inl e \<Rightarrow> (Err e, db)
      | Inr (None, db') \<Rightarrow> (Err (RuntimeError ''cancellation acknowledgement was not durably accepted''), db')
      | Inr (Some _, db') \<Rightarrow> (Ok Job_cancelled, db'))"

definition requeue_transient :: "worker \<Rightarrow> moment \<Rightarrow> uuid \<Rightarrow> uuid \<Rightarrow> int \<Rightarrow> string \<Rightarrow> queue_db \<Rightarrow> worker_event result \<times> queue_db" where
  "requeue_transient w m jid tok delay err db =
     report (Job_transient_requeue delay) (requeue_with_backoff (at_now m) jid (w_owner w) tok delay err db) db"

definition bury :: "worker \<Rightarrow> moment \<Rightarrow> uuid \<Rightarrow> uuid \<Rightarrow> string \<Rightarrow> json option \<Rightarrow> queue_db \<Rightarrow> worker_event result \<times> queue_db" where
  "bury w m jid tok err res db = report Job_dead_letter (mark_dead_letter (at_now m) jid (w_owner w) tok err res db) db"

definition finish_error :: "worker \<Rightarrow> moment \<Rightarrow> uuid \<Rightarrow> uuid \<Rightarrow> string \<Rightarrow> queue_db \<Rightarrow> worker_event result \<times> queue_db" where
  "finish_error w m jid tok err db =
     (case classify_dead_letter err of
        Some delay \<Rightarrow> requeue_transient w m jid tok delay err db
      | None \<Rightarrow> report Job_failed (mark_failed (at_now m) (at_clock m) jid (w_owner w) tok err db) db)"

definition failed_receipt :: "jobj \<Rightarrow> string \<Rightarrow> jobj result" where
  "failed_receipt r why =
     (let set1 = AList.update ''error_detail'' (JStr (''receipt binding rejected: '' @ why))
                   (AList.update ''established_conditions'' (JList []) (AList.update ''outcome'' (JStr ''failed'') r));
          ev = jget set1 ''evidence''
      in case (if truthy ev then ev else JObj []) of
           JObj d \<Rightarrow> Ok (AList.update ''evidence'' (JObj (AList.update ''reason_code'' (JStr why) d)) set1)
         | _ \<Rightarrow> Err (TypeError ''evidence''))"

definition finish_handled ::
  "worker \<Rightarrow> moment \<Rightarrow> job \<Rightarrow> uuid \<Rightarrow> jobj option \<Rightarrow> queue_db \<Rightarrow> worker_event result \<times> queue_db" where
  "finish_handled w m job tok receipt db =
     (case w_direct_local w of
        Some ce \<Rightarrow>
          (case close_local_success ce (job_id job) (w_owner w) tok (JObj (case receipt of None \<Rightarrow> [] | Some r \<Rightarrow> r)) db of
             (Inl e, db', _) \<Rightarrow> (Err e, db')
           | (Inr won, db', _) \<Rightarrow> (Ok (if won then Job_succeeded else Job_cancelled), db'))
      | None \<Rightarrow>
          (case waiting_treatment_receipt_error (at_clock m) receipt job of
             Inl e \<Rightarrow> (Err e, db)
           | Inr None \<Rightarrow>
               (case complete_treatment_and_schedule_timer (w_environment w) (w_priorities w) (at_now m) (at_clock m) (at_new_id m)
                       (job_id job) (w_owner w) tok (case receipt of None \<Rightarrow> [] | Some r \<Rightarrow> r) db of
                  Inl e \<Rightarrow> (Err e, db)
                | Inr (timer_id, db') \<Rightarrow> (Ok (Job_waiting timer_id), db'))
           | Inr (Some _) \<Rightarrow>
               (case (treatment_receipt_error receipt job, receipt) of
                  (None, Some r) \<Rightarrow>
                    report Job_succeeded (complete_treatment_and_enqueue_evaluation (w_environment w) (w_priorities w) (at_now m)
                      (at_new_id m) (job_id job) (w_owner w) tok r db) db
                | (Some why, Some r) \<Rightarrow>
                    (if is_treatment_receipt_candidate receipt then
                       (case failed_receipt r why of
                          Inl e \<Rightarrow> (Err e, db)
                        | Inr fr \<Rightarrow> bury w m (job_id job) tok (''receipt binding rejected: '' @ why) (Some (JObj fr)) db)
                     else report Job_succeeded (mark_succeeded (at_now m) (job_id job) (w_owner w) tok (Some (JObj r)) db) db)
                | (_, None) \<Rightarrow> report Job_succeeded (mark_succeeded (at_now m) (job_id job) (w_owner w) tok None db) db)))"

definition process_finish ::
  "isolib \<Rightarrow> worker \<Rightarrow> moment \<Rightarrow> job \<Rightarrow> uuid \<Rightarrow> handler_outcome \<Rightarrow> queue_db \<Rightarrow> worker_event result \<times> queue_db" where
  "process_finish il w m job tok oc db =
     (case oc of
        Run_cancelled why reaped \<Rightarrow> finish_cancelled il w m (job_id job) tok why reaped db
      | Treatment_failed err res \<Rightarrow>
          (case classify_dead_letter err of
             Some delay \<Rightarrow> requeue_transient w m (job_id job) tok delay err db
           | None \<Rightarrow> bury w m (job_id job) tok err (Some res) db)
      | Hard_failed err res \<Rightarrow> bury w m (job_id job) tok err res db
      | Handler_error err \<Rightarrow> finish_error w m (job_id job) tok err db
      | Handled receipt \<Rightarrow> finish_handled w m job tok receipt db)"

text \<open>The stop request a claimed job may have received before it started.\<close>

definition stopped_before_start :: "worker \<Rightarrow> uuid \<Rightarrow> uuid \<Rightarrow> queue_db \<Rightarrow> bool" where
  "stopped_before_start w jid tok db =
     (case get_job jid db of
        None \<Rightarrow> False
      | Some current \<Rightarrow>
          state current = Cancelled \<and> jget (stop_control current) ''kind'' = JStr ''runner_cancel_requested''
          \<and> py_eq (jget (stop_control current) ''request_identity'')
              (JObj [(''job_id'', JStr jid), (''queue_name'', JStr (w_queue_name w)), (''lease_owner'', JStr (w_owner w)),
                     (''lease_token'', JStr tok)]))"

text \<open>\<open>between\<close> is what other processes do to the database while the handler runs, \<open>repr_of\<close> the text of an
  exception. The start reads the database at \<open>m0\<close>, the end at \<open>m\<close>.\<close>

definition process_job ::
  "isolib \<Rightarrow> (py_error \<Rightarrow> string) \<Rightarrow> worker \<Rightarrow> moment \<Rightarrow> moment \<Rightarrow> (job \<Rightarrow> handler_outcome) \<Rightarrow> (queue_db \<Rightarrow> queue_db) \<Rightarrow>
   job \<Rightarrow> queue_db \<Rightarrow> worker_event result \<times> queue_db" where
  "process_job il repr_of w m0 m handle between job db =
     (case Option.bind (lease_token job) py_uuid of
        None \<Rightarrow> (Err (RuntimeError ''claimed job lacks lease_token''), db)
      | Some tok \<Rightarrow>
          (case mark_running (at_now m0) (job_id job) (w_owner w) tok db of
             Inr (_, db1) \<Rightarrow> process_finish il w m job tok (handle job) (between db1)
           | Inl e \<Rightarrow>
               process_finish il w m job tok
                 (case e of
                    RuntimeError _ \<Rightarrow>
                      (if stopped_before_start w (job_id job) tok db then Run_cancelled ''no_runner'' True
                       else Handler_error (repr_of e))
                  | _ \<Rightarrow> Handler_error (repr_of e)) db))"

definition maybe_recover :: "time \<Rightarrow> time \<Rightarrow> time \<Rightarrow> queue_db \<Rightarrow> time \<times> queue_db" where
  "maybe_recover clk now last_recover db =
     (if clk - last_recover \<ge> 60
      then (clk, case recover_expired_jobs now db of Inl _ \<Rightarrow> db | Inr (_, db') \<Rightarrow> db')
      else (last_recover, db))"

definition claim_one :: "(uuid \<Rightarrow> uuid) \<Rightarrow> time \<Rightarrow> worker \<Rightarrow> queue_db \<Rightarrow> job option \<times> queue_db" where
  "claim_one tok now w db =
     (case claim_queue_jobs (w_environment w) tok now (w_queue_name w) (w_owner w) (w_lease_seconds w) 1 (JStr (w_environment w)) db of
        Inl _ \<Rightarrow> (None, db)
      | Inr (rows, db') \<Rightarrow> (fetchone rows, db'))"

text \<open>One turn of the loop of \<^verbatim>\<open>run\<close>: recover, claim, process; \<^const>\<open>None\<close> when there was nothing to claim.\<close>

definition worker_turn ::
  "isolib \<Rightarrow> (py_error \<Rightarrow> string) \<Rightarrow> (uuid \<Rightarrow> uuid) \<Rightarrow> worker \<Rightarrow> time \<Rightarrow> moment \<Rightarrow> moment \<Rightarrow> (job \<Rightarrow> handler_outcome) \<Rightarrow>
   (queue_db \<Rightarrow> queue_db) \<Rightarrow> time \<Rightarrow> queue_db \<Rightarrow> (worker_event result option \<times> queue_db) \<times> time" where
  "worker_turn il repr_of tok w clk m0 m handle between last_recover db =
     (let (last_recover', db1) = maybe_recover clk (at_now m0) last_recover db in
      case claim_one tok (at_now m0) w db1 of
        (None, db2) \<Rightarrow> ((None, db2), last_recover')
      | (Some job, db2) \<Rightarrow>
          (let (ev, db3) = process_job il repr_of w m0 m handle between job db2 in ((Some ev, db3), last_recover')))"

section \<open>When a receipt is accepted\<close>

lemma first_error_None [simp]: "first_error es = None \<longleftrightarrow> (\<forall>e\<in>set es. e = None)"
  by (induction es rule: first_error.induct) auto

lemma key_error_None [simp]: "key_error bad err ks = None \<longleftrightarrow> (\<forall>k\<in>set ks. \<not> bad k)"
  by (auto simp: key_error_def find_None_iff)

lemma error_if_None [simp]: "error_if c e = None \<longleftrightarrow> \<not> c"
  by (simp add: error_if_def)

text \<open>A receipt that names the job's entity, treatment, graph, goal and generation.\<close>

definition receipt_bound :: "jobj \<Rightarrow> job \<Rightarrow> bool" where
  "receipt_bound r job =
     (jget r ''receipt_schema_id'' = JStr ''treatment-receipt/v1'' \<and> jget r ''outcome'' = JStr ''satisfied''
      \<and> entity_type job = ''item'' \<and> jget r ''entity_id'' = JStr (entity_id job)
      \<and> jget (payload_json job) ''entity_id'' = JStr (entity_id job)
      \<and> jget (payload_json job) ''object_id'' \<in> {JNull, JStr (entity_id job)}
      \<and> (\<forall>k\<in>set (treatment_keys @ profile_keys). nonblank_str (jget r k) \<and> jget (payload_json job) k = jget r k)
      \<and> non_blank (entity_id job))"

lemma nonblank_py_eq: "nonblank_str a \<Longrightarrow> py_eq a b \<longleftrightarrow> b = a"
  by (cases a) auto

lemma receipt_error_None_iff: "treatment_receipt_error (Some r) job = None \<longleftrightarrow> receipt_bound r job"
proof
  assume n: "treatment_receipt_error (Some r) job = None"
  then have id: "\<forall>k\<in>set (treatment_keys @ profile_keys). nonblank_str (jget r k)"
    and eq: "\<forall>k\<in>set (treatment_keys @ profile_keys). py_eq (jget r k) (jget (payload_json job) k)"
    by (auto simp: treatment_receipt_error_def Let_def list_ex_iff split: if_splits)
  then have "\<forall>k\<in>set (treatment_keys @ profile_keys). nonblank_str (jget r k) \<and> jget (payload_json job) k = jget r k"
    using nonblank_py_eq by blast
  with n show "receipt_bound r job"
    unfolding receipt_bound_def by (simp add: treatment_receipt_error_def Let_def split: if_splits)
next
  assume b: "receipt_bound r job"
  then have "is_treatment_receipt_candidate (Some r)" by (simp add: receipt_bound_def is_treatment_receipt_candidate_def)
  with b show "treatment_receipt_error (Some r) job = None"
    unfolding receipt_bound_def treatment_receipt_error_def Let_def by (auto simp: list_ex_iff)
qed

lemma report_OkD: "report ev r db = (Ok ev', db') \<Longrightarrow> ev' = ev \<and> (\<exists>x. r = Ok (x, db'))"
  by (auto simp: report_def split: sum.splits)

lemma row_of_snoc: "jobs db' = jobs db @ [e] \<Longrightarrow> row_of db i = Some j \<Longrightarrow> row_of db' i = Some j"
  by (simp add: row_of_def map_add_dom_app_simps(2) map_add_Some_iff map_of_eq_None_iff)

lemma evaluation_completed:
  assumes "complete_treatment_and_enqueue_evaluation env prios now new_id jid owner tok r db = Ok (s, db')" and "constraints_ok db"
  shows "\<exists>j. row_of db' jid = Some j \<and> state j = Succeeded \<and> unleased j"
proof -
  from evaluation_split[OF assms(1)] obtain c db1 where
    u: "update_one no_settings now (holds_lease Running jid owner tok now) (succeed_row now (Some (JObj r)))
        (RuntimeError (''lost running lease while completing treatment job '' @ jid)) db = Ok (c, db1)"
    and rest: "if evidence_unchanged r then s = EVALUATION_EVENT_NOT_REQUIRED \<and> db' = db1
      else evaluation_inserted env now new_id jid r c db1 s db'" by blast
  from update_one_row[OF u assms(2), of jid] have row: "row_of db1 jid = Some c" and c: "state c = Succeeded" "unleased c"
    by (auto simp: holds_lease_def succeed_row_def unleased_def)
  have "row_of db' jid = Some c"
  proof (cases "evidence_unchanged r")
    case False
    with rest obtain e where "sql_insert e db1 = Ok (s, db')" by (auto simp: evaluation_inserted_def)
    then show ?thesis using sql_insert_OkD(2) row row_of_snoc by blast
  qed (use rest row in simp)
  with c show ?thesis by blast
qed

text \<open>C6: a worker reports success for a job whose handler returned a treatment receipt only when the
  receipt is bound to the job: it names the job's entity and, word for word, the treatment, graph, goal,
  generation and condition hash that the job was dispatched with. The job row has then succeeded.\<close>

theorem succeeded_receipt_is_bound:
  assumes "reachable db" and "process_finish il w m job tok (Handled (Some r)) db = (Ok Job_succeeded, db')"
    and "w_direct_local w = None" and "is_treatment_receipt_candidate (Some r)"
  shows "receipt_bound r job \<and> (\<exists>j. row_of db' (job_id job) = Some j \<and> state j = Succeeded \<and> unleased j)"
proof -
  obtain e where e: "waiting_treatment_receipt_error (at_clock m) (Some r) job = Ok (Some e)"
    using assms(2,3) by (auto simp: process_finish_def finish_handled_def split: sum.splits option.splits)
  have none: "treatment_receipt_error (Some r) job = None"
    using assms(2,3,4) e
    by (auto simp: process_finish_def finish_handled_def bury_def split: option.splits sum.splits dest!: report_OkD)
  then have "report Job_succeeded (complete_treatment_and_enqueue_evaluation (w_environment w) (w_priorities w) (at_now m)
      (at_new_id m) (job_id job) (w_owner w) tok r db) db = (Ok Job_succeeded, db')"
    using assms(2,3) e by (simp add: process_finish_def finish_handled_def)
  then obtain s where "complete_treatment_and_enqueue_evaluation (w_environment w) (w_priorities w) (at_now m)
      (at_new_id m) (job_id job) (w_owner w) tok r db = Ok (s, db')" by (auto dest: report_OkD)
  then have "\<exists>j. row_of db' (job_id job) = Some j \<and> state j = Succeeded \<and> unleased j"
    using evaluation_completed reachable_constraints[OF assms(1)] by blast
  with none show ?thesis by (simp add: receipt_error_None_iff)
qed

section \<open>A failed job is settled\<close>

fun is_failure :: "handler_outcome \<Rightarrow> bool" where
  "is_failure (Treatment_failed _ _) = True"
| "is_failure (Hard_failed _ _) = True"
| "is_failure (Handler_error _) = True"
| "is_failure _ = False"

text \<open>The job is off its lease, and dead or waiting for a definite time.\<close>

definition settled :: "uuid \<Rightarrow> queue_db \<Rightarrow> queue_db \<Rightarrow> bool" where
  "settled jid db db' =
     (\<exists>r. row_of db' = (row_of db)(jid \<mapsto> r) \<and> unleased r
        \<and> (state r = Dead_letter \<or> state r = Retry_wait \<and> not_before r \<noteq> None))"

lemma requeue_settles:
  assumes "constraints_ok db" and "row_of db jid = Some j" and "holds_lease Running jid (w_owner w) tok (at_now m) j"
  shows "\<exists>ev db'. requeue_transient w m jid tok delay err db = (Ok ev, db') \<and> settled jid db db'"
proof -
  let ?f = "\<lambda>j. release_lease (j\<lparr>state := Retry_wait, not_before := Some (at_now m + of_int delay), attempt_count := 1,
      error_code := Some ''TRANSIENT'', error_detail := Some (py_take 2000 err), finished_at := None\<rparr>)"
  obtain db' where "requeue_with_backoff (at_now m) jid (w_owner w) tok delay err db = Ok (touch (at_now m) ?f j, db')"
    "row_of db' = (row_of db)(jid \<mapsto> touch (at_now m) ?f j)"
    using held_update[OF assms, of ?f no_settings "at_now m"] unfolding requeue_with_backoff_def
    by (force simp: row_checks_def release_lease_def)
  then show ?thesis
    by (auto simp: requeue_transient_def report_def settled_def unleased_def release_lease_def)
qed

lemma bury_settles:
  assumes "constraints_ok db" and "row_of db jid = Some j" and "holds_lease Running jid (w_owner w) tok (at_now m) j"
  shows "\<exists>ev db'. bury w m jid tok err res db = (Ok ev, db') \<and> settled jid db db'"
proof -
  let ?f = "\<lambda>j. (case res of None \<Rightarrow> (\<lambda>x. x) | Some r \<Rightarrow> put_result r)
      (release_lease (j\<lparr>state := Dead_letter, error_code := Some ''HARD_FAILURE'', error_detail := Some (py_take 2000 err),
         finished_at := Some (at_now m)\<rparr>))"
  have "\<exists>db'. update_one no_settings (at_now m) (holds_lease Running jid (w_owner w) tok (at_now m)) ?f
        (RuntimeError ''lost running lease while marking dead letter'') db = Ok (touch (at_now m) ?f j, db')
      \<and> row_of db' = (row_of db)(jid \<mapsto> touch (at_now m) ?f j) \<and> constraints_ok db'"
    by (rule held_update[OF assms]) (simp_all add: row_checks_def split: option.splits)
  then obtain db' where "mark_dead_letter (at_now m) jid (w_owner w) tok err res db = Ok (touch (at_now m) ?f j, db')"
    "row_of db' = (row_of db)(jid \<mapsto> touch (at_now m) ?f j)"
    unfolding mark_dead_letter_def by blast
  then show ?thesis
    by (auto simp: bury_def report_def settled_def unleased_def split: option.splits)
qed

lemma finish_error_settles:
  assumes "constraints_ok db" and "row_of db jid = Some j" and "holds_lease Running jid (w_owner w) tok (at_now m) j"
  shows "\<exists>ev db'. finish_error w m jid tok err db = (Ok ev, db') \<and> settled jid db db'"
proof (cases "classify_dead_letter err")
  case None
  from mark_failed_held[OF assms, of err "at_clock m"] obtain db' r where
    r: "row_of db' = (row_of db)(jid \<mapsto> r)" "unleased r"
    "if attempt_count j < max_attempts j
     then mark_failed (at_now m) (at_clock m) jid (w_owner w) tok err db = Ok (Retry_wait, db') \<and> state r = Retry_wait
       \<and> not_before r = Some (at_clock m + retry_backoff (attempt_count j))
     else mark_failed (at_now m) (at_clock m) jid (w_owner w) tok err db = Ok (Dead_letter, db') \<and> state r = Dead_letter" by auto
  then have "settled jid db db'" by (auto simp: settled_def split: if_splits)
  with r(3) None show ?thesis by (auto simp: finish_error_def report_def split: if_splits)
qed (use requeue_settles[OF assms] in \<open>simp add: finish_error_def\<close>)


section \<open>A worker only runs queue transactions\<close>

lemma report_steps:
  assumes "\<And>x d. r = Ok (x, d) \<Longrightarrow> queue_step T db d"
  shows "(queue_step T)\<^sup>*\<^sup>* db (snd (report ev r db))"
  using assms by (auto simp: report_def split: sum.splits)

lemma process_finish_steps:
  assumes "\<forall>ce. w_direct_local w = Some ce \<longrightarrow> env_steps T ce"
  shows "(queue_step T)\<^sup>*\<^sup>* db (snd (process_finish il w m job tok oc db))"
proof -
  have c: "(queue_step T)\<^sup>*\<^sup>* db (snd (finish_cancelled il w m jid tok why b db))" for jid why b
    by (auto simp: finish_cancelled_def split: sum.splits option.splits intro: queue_step.acknowledge)
  have q: "(queue_step T)\<^sup>*\<^sup>* db (snd (requeue_transient w m jid tok delay err db))" for jid delay err
    unfolding requeue_transient_def by (rule report_steps) (rule queue_step.backoff)
  have b: "(queue_step T)\<^sup>*\<^sup>* db (snd (bury w m jid tok err res db))" for jid err res
    unfolding bury_def by (rule report_steps) (rule queue_step.dead)
  have f: "(queue_step T)\<^sup>*\<^sup>* db (snd (report Job_failed (mark_failed n clk jid own tok err db) db))" for n clk jid own err
    by (rule report_steps) (rule queue_step.failed)
  have s: "(queue_step T)\<^sup>*\<^sup>* db (snd (report Job_succeeded (mark_succeeded n jid own tok res db) db))" for n jid own res
    by (rule report_steps) (rule queue_step.succeeded)
  have v: "(queue_step T)\<^sup>*\<^sup>* db (snd (report Job_succeeded
      (complete_treatment_and_enqueue_evaluation en pr n i jid own tok r db) db))" for en pr n i jid own r
    by (rule report_steps) (rule queue_step.evaluation)
  have t: "(queue_step T)\<^sup>*\<^sup>* db (snd (case complete_treatment_and_schedule_timer en pr n clk i jid own tok r db of
      Inl e \<Rightarrow> (Err e, db) | Inr (timer_id, db') \<Rightarrow> (Ok (Job_waiting timer_id), db')))" for en pr n clk i jid own r
    by (auto split: sum.splits intro: queue_step.timer)
  have l: "(queue_step T)\<^sup>*\<^sup>* db (snd (case close_local_success ce jid own tok r db of
      (Inl e, db', _) \<Rightarrow> (Err e, db') | (Inr won, db', _) \<Rightarrow> (Ok (if won then Job_succeeded else Job_cancelled), db')))"
    if "w_direct_local w = Some ce" for ce jid own r
    using close_local_success_steps[of T ce db jid own tok r] assms that by (auto split: prod.splits sum.splits)
  have h: "(queue_step T)\<^sup>*\<^sup>* db (snd (finish_handled w m job tok receipt db))" for receipt
    using l t s v b unfolding finish_handled_def by (simp split: option.splits sum.splits)
  show ?thesis
    using c q b f h by (cases oc) (simp_all add: process_finish_def finish_error_def split: option.splits)
qed

lemma process_job_steps:
  assumes "\<forall>ce. w_direct_local w = Some ce \<longrightarrow> env_steps T ce" and "only_steps T between"
  shows "(queue_step T)\<^sup>*\<^sup>* db (snd (process_job il repr_of w m0 m handle between job db))"
proof (cases "Option.bind (lease_token job) py_uuid")
  case (Some tok)
  note steps = process_finish_steps[OF assms(1)]
  show ?thesis
  proof (cases "mark_running (at_now m0) (job_id job) (w_owner w) tok db")
    case (Inl e)
    then show ?thesis using Some steps by (simp add: process_job_def)
  next
    case (Inr x)
    obtain j db1 where x: "x = (j, db1)" by (cases x)
    have "queue_step T db db1" using Inr x queue_step.running by blast
    moreover have "(queue_step T)\<^sup>*\<^sup>* db1 (between db1)" using assms(2) by (rule only_stepsD)
    ultimately show ?thesis
      using Inr x Some steps[of "between db1" il m job tok "handle job"]
      by (simp add: process_job_def)
  qed
qed (simp add: process_job_def)


section \<open>A sample worker\<close>

definition sample_worker :: worker where
  "sample_worker = \<lparr>w_queue_name = ''alt_text'', w_owner = ''w1'', w_environment = ''production'', w_priorities = [],
     w_lease_seconds = 300, w_direct_local = None\<rparr>"

definition sample_moment :: "time \<Rightarrow> moment" where
  "sample_moment t = \<lparr>at_now = t, at_clock = t, at_new_id = ''j9'', at_ack_id = ''a1'', at_stamp = ''now''\<rparr>"

definition sample_host :: isolib where
  "sample_host = \<lparr>iso_parse = (\<lambda>_. None), iso_utc = (\<lambda>_. [])\<rparr>"

definition sample_token :: uuid where
  "sample_token = ''00000000-0000-4000-8000-00000000000a''"

definition queue_after :: "('a \<times> queue_db) result \<Rightarrow> queue_db" where
  "queue_after r = (case r of Inl _ \<Rightarrow> empty_queue | Inr (_, db) \<Rightarrow> db)"

definition sample_receipt :: jobj where
  "sample_receipt = [(''receipt_schema_id'', JStr ''treatment-receipt/v1''), (''outcome'', JStr ''satisfied''), (''entity_id'', JStr ''A1'')]
     @ map (\<lambda>k. (k, JStr ''x'')) (treatment_keys @ profile_keys)"

definition sample_treatment_queued :: queue_db where
  "sample_treatment_queued =
     queue_after (enqueue_job ''production'' [] 0 ''j1''
       ((manifest_defaults ''alt_text'' (JObj ((''entity_id'', JStr ''A1'') # map (\<lambda>k. (k, JStr ''x'')) (treatment_keys @ profile_keys))))
          \<lparr>m_entity_type := ''item'', m_entity_id := ''A1'', m_dedupe_key := Some ''k1''\<rparr>) empty_queue)"

definition sample_treatment_running :: queue_db where
  "sample_treatment_running =
     queue_after (mark_running 2 ''j1'' ''w1'' sample_token (snd (claim_one (\<lambda>_. sample_token) 1 sample_worker sample_treatment_queued)))"

lemma queue_after_reachable: "reachable db \<Longrightarrow> (\<And>x d. r = Ok (x, d) \<Longrightarrow> queue_step UNIV db d) \<Longrightarrow> reachable (queue_after r)"
  by (auto simp: queue_after_def reachable_def split: sum.splits intro: rtranclp.rtrancl_into_rtrancl)

lemma empty_reachable: "reachable empty_queue"
  by (simp add: reachable_def)

lemma sample_treatment_queued_reachable: "reachable sample_treatment_queued"
  unfolding sample_treatment_queued_def using empty_reachable by (rule queue_after_reachable) (rule queue_step.enqueue)

lemma sample_treatment_running_reachable: "reachable sample_treatment_running"
proof -
  have "reachable (snd (claim_one (\<lambda>_. sample_token) 1 sample_worker sample_treatment_queued))"
    using sample_treatment_queued_reachable
    by (auto simp: claim_one_def split: sum.splits intro: reachable_step queue_step.claim_queue)
  then show ?thesis unfolding sample_treatment_running_def by (rule queue_after_reachable) (rule queue_step.running)
qed

lemma sample_treatment_run:
  "\<exists>j. row_of sample_treatment_running ''j1'' = Some j \<and> holds_lease Running ''j1'' ''w1'' sample_token 3 j"
proof -
  have "case row_of sample_treatment_running ''j1'' of None \<Rightarrow> False | Some j \<Rightarrow> holds_lease Running ''j1'' ''w1'' sample_token 3 j"
    by code_simp
  then show ?thesis by (auto split: option.splits)
qed

theorem succeeded_receipt_is_bound_witness:
  "receipt_bound sample_receipt (hd (jobs sample_treatment_running))"
proof -
  have e: "fst (process_finish sample_host sample_worker (sample_moment 3) (hd (jobs sample_treatment_running)) sample_token
      (Handled (Some sample_receipt)) sample_treatment_running) = Ok Job_succeeded"
    by code_simp
  have c: "is_treatment_receipt_candidate (Some sample_receipt)" by code_simp
  show ?thesis
    using succeeded_receipt_is_bound[OF sample_treatment_running_reachable _ _ c, of sample_host sample_worker "sample_moment 3"
        "hd (jobs sample_treatment_running)" sample_token] e
    by (metis prod.collapse sample_worker_def worker.select_convs(6))
qed



end
