(* ===== verification/Queue_Reports.thy ===== *)
theory Queue_Reports
  imports Queue_Worker
begin

text \<open>
  The read side of \<^verbatim>\<open>queue/state_machine.py\<close>: depths, breakdowns and listings of the queue for one
  environment, and the ledger of agent runs. A dictionary that a report returns is an association
  list; the order of groups that the SQL leaves open is the order in which they first appear. The
  theorems show that the depths count exactly the jobs of the environment's own route, and that a
  waiting job has a definite due time and is queued by the first recovery after it.
\<close>

section \<open>Groups and visibility\<close>

text \<open>\<^verbatim>\<open>SELECT queue_name, COUNT(*) ... WHERE p GROUP BY queue_name\<close>\<close>

definition group_rows :: "(job \<Rightarrow> bool) \<Rightarrow> queue_db \<Rightarrow> (string \<times> job list) list" where
  "group_rows p db =
     map (\<lambda>q. (q, filter (\<lambda>j. p j \<and> queue_name j = q) (jobs db))) (remdups (map queue_name (filter p (jobs db))))"

definition group_count :: "(job \<Rightarrow> bool) \<Rightarrow> queue_db \<Rightarrow> (string \<times> int) list" where
  "group_count p db = map (map_prod id (\<lambda>js. int (length js))) (group_rows p db)"

text \<open>\<^verbatim>\<open>depths[name] = depths.get(name, 0) + count\<close>\<close>

definition add_count :: "string \<Rightarrow> int \<Rightarrow> (string \<times> int) list \<Rightarrow> (string \<times> int) list" where
  "add_count q n d = AList.update q ((case map_of d q of None \<Rightarrow> 0 | Some k \<Rightarrow> k) + n) d"

fun visible_groups :: "string \<Rightarrow> json \<Rightarrow> (string \<times> 'a) list \<Rightarrow> (string \<times> 'a) list result" where
  "visible_groups env ee [] = Ok []"
| "visible_groups env ee ((q, x) # rs) =
     (case queue_name_visible_in_environment env (JStr q) ee of
        Inl e \<Rightarrow> Err e
      | Inr v \<Rightarrow>
          (case visible_groups env ee rs of
             Inl e \<Rightarrow> Err e
           | Inr ys \<Rightarrow> Ok (if v then (q, x) # ys else ys)))"

definition merge_counts :: "(string \<times> int) list \<Rightarrow> (string \<times> int) list" where
  "merge_counts rs = foldl (\<lambda>d (q, n). add_count (logical_queue_name q) n d) [] rs"

definition on_visible :: "string \<Rightarrow> json \<Rightarrow> ((string \<times> 'a) list \<Rightarrow> 'b) \<Rightarrow> (string \<times> 'a) list \<Rightarrow> 'b result" where
  "on_visible env ee f rs = (case visible_groups env ee rs of Inl e \<Rightarrow> Err e | Inr ys \<Rightarrow> Ok (f ys))"

section \<open>Depths\<close>

fun depth_loop :: "string \<Rightarrow> (string \<times> int) list \<Rightarrow> (string \<times> int) list \<Rightarrow> (string \<times> int) list result" where
  "depth_loop selected [] d = Ok d"
| "depth_loop selected ((q, n) # rs) d =
     (let logical = logical_queue_name q in
      if is_ebay_environment_scoped_queue logical then
        (case queue_name_for_environment logical (JStr selected) of
           Inl e \<Rightarrow> Err e
         | Inr expected \<Rightarrow> depth_loop selected rs (if q \<noteq> expected then d else add_count logical n d))
      else depth_loop selected rs (add_count logical n d))"

definition queue_depths :: "string \<Rightarrow> json \<Rightarrow> queue_db \<Rightarrow> (string \<times> int) list result" where
  "queue_depths env ee db =
     (case select_environment env ee of
        Inl e \<Rightarrow> Err e
      | Inr selected \<Rightarrow> depth_loop selected (group_count (\<lambda>j. state j = Queued) db) [])"

fun route_all :: "string \<Rightarrow> string \<Rightarrow> string \<Rightarrow> jobj list \<Rightarrow> (string \<times> jobj \<times> string option) list result" where
  "route_all env q dk [] = Ok []"
| "route_all env q dk (p # ps) =
     (case route_queue_manifest env q p (Some dk) of
        Inl e \<Rightarrow> Err e
      | Inr r \<Rightarrow> (case route_all env q dk ps of Inl e \<Rightarrow> Err e | Inr rs \<Rightarrow> Ok (r # rs)))"

definition has_pending_job_with_payload :: "string \<Rightarrow> string \<Rightarrow> string \<Rightarrow> jobj list \<Rightarrow> queue_db \<Rightarrow> bool result" where
  "has_pending_job_with_payload env q dk accepted db =
     (case route_all env q dk accepted of
        Inl e \<Rightarrow> Err e
      | Inr [] \<Rightarrow> Ok False
      | Inr ((q0, p0, k0) # rs) \<Rightarrow>
          (if list_ex (\<lambda>(q', _, k'). q' \<noteq> q0 \<or> k' \<noteq> k0) rs
           then Err (EbayQueueEnvironmentError ''accepted pending-job payloads span multiple eBay environments'')
           else Ok (list_ex (\<lambda>j. queue_name j = q0 \<and> dedupe_key j = k0 \<and> state j \<in> set active_states
                    \<and> list_ex (\<lambda>p. jsonb_eq (JObj (payload_json j)) (JObj p)) (p0 # map (\<lambda>(_, p, _). p) rs)) (jobs db))))"

definition active_depths :: "string \<Rightarrow> json \<Rightarrow> queue_db \<Rightarrow> (string \<times> int) list result" where
  "active_depths env ee db = on_visible env ee merge_counts (group_count (\<lambda>j. state j \<in> set active_states) db)"

text \<open>The buckets of \<^verbatim>\<open>queue_state_summary\<close> in the order queued, processing, dead letter.\<close>

definition queue_state_summary :: "string \<Rightarrow> queue_db \<Rightarrow> (int \<times> int \<times> int) result" where
  "queue_state_summary env db =
     (let total = (\<lambda>js st. int (length (filter (\<lambda>j. state j \<in> st) js))) in
      on_visible env JNull
        (\<lambda>rs. let js = concat (map snd rs) in (total js {Queued}, total js {Running, Leased}, total js {Dead_letter}))
        (group_rows (\<lambda>j. state j \<in> {Queued, Running, Leased, Dead_letter}) db))"

text \<open>\<^verbatim>\<open>ORDER BY n DESC, queue_name\<close>\<close>

definition by_count :: "(string \<times> job list) list \<Rightarrow> (string \<times> job list) list" where
  "by_count rs = sort_key (\<lambda>(q, js). (- int (length js), q)) rs"

definition dead_letter_breakdown :: "string \<Rightarrow> queue_db \<Rightarrow> (string \<times> int) list result" where
  "dead_letter_breakdown env db =
     on_visible env JNull (\<lambda>rs. merge_counts (map (map_prod id (\<lambda>js. int (length js))) rs))
       (by_count (group_rows (\<lambda>j. state j = Dead_letter) db))"

definition dead_letter_count :: "string \<Rightarrow> queue_db \<Rightarrow> int result" where
  "dead_letter_count env db =
     (case dead_letter_breakdown env db of Inl e \<Rightarrow> Err e | Inr d \<Rightarrow> Ok (sum_list (map snd d)))"

section \<open>Waiting and stalled work\<close>

text \<open>Python's \<^verbatim>\<open>round(x, 1)\<close> of a decimal: half to even.\<close>

definition round1 :: "rat \<Rightarrow> rat" where
  "round1 x =
     (let f = \<lfloor>10 * x\<rfloor>; d = 10 * x - of_int f
      in of_int (if d < 1 / 2 then f else if d > 1 / 2 then f + 1 else if even f then f else f + 1) / 10)"

fun minimum :: "time list \<Rightarrow> time option" where
  "minimum [] = None"
| "minimum (t # ts) = Some (case minimum ts of None \<Rightarrow> t | Some u \<Rightarrow> min t u)"

definition oldest_due :: "job list \<Rightarrow> time option" where
  "oldest_due js = minimum (List.map_filter not_before js)"

fun waiting_entries :: "string \<Rightarrow> time \<Rightarrow> (string \<times> job list) list \<Rightarrow> (string \<times> int \<times> rat) list result" where
  "waiting_entries env now [] = Ok []"
| "waiting_entries env now ((q, js) # rs) =
     (case queue_name_visible_in_environment env (JStr q) JNull of
        Inl e \<Rightarrow> Err e
      | Inr False \<Rightarrow> waiting_entries env now rs
      | Inr True \<Rightarrow>
          (case oldest_due js of
             None \<Rightarrow> Err (TypeError ''type NoneType does not define __round__ method'')
           | Some t \<Rightarrow>
               (case waiting_entries env now rs of
                  Inl e \<Rightarrow> Err e
                | Inr es \<Rightarrow> Ok ((logical_queue_name q, int (length js), round1 ((now - t) / 3600)) # es))))"

definition retry_wait_breakdown :: "string \<Rightarrow> time \<Rightarrow> queue_db \<Rightarrow> (string \<times> int \<times> rat) list result" where
  "retry_wait_breakdown env now db = waiting_entries env now (by_count (group_rows (\<lambda>j. state j = Retry_wait) db))"

text \<open>\<open>cutoff\<close> is tomorrow's cutoff hour in the given time zone, as the database computes it.\<close>

definition morning_exposure :: "string \<Rightarrow> time \<Rightarrow> queue_db \<Rightarrow> (string \<times> int) list result" where
  "morning_exposure env cutoff db =
     on_visible env JNull (map (\<lambda>(q, js). (logical_queue_name q, int (length js))))
       (by_count (group_rows (\<lambda>j. state j \<in> set pending_states \<and> before_or_null (not_before j) cutoff) db))"

definition dead_letter_errors :: "string \<Rightarrow> queue_db \<Rightarrow> (string \<times> string) list result" where
  "dead_letter_errors env db =
     on_visible env JNull (map (map_prod logical_queue_name id))
       (map (\<lambda>j. (queue_name j, case error_detail j of None \<Rightarrow> [] | Some s \<Rightarrow> s)) (filter (\<lambda>j. state j = Dead_letter) (jobs db)))"

text \<open>\<^verbatim>\<open>ROUND(x, 1)\<close> of the database: half away from zero.\<close>

definition round_pg1 :: "rat \<Rightarrow> rat" where
  "round_pg1 x = (if x < 0 then - of_int \<lfloor>10 * (- x) + 1 / 2\<rfloor> / 10 else of_int \<lfloor>10 * x + 1 / 2\<rfloor> / 10)"

definition last_done :: "string \<Rightarrow> queue_db \<Rightarrow> time option" where
  "last_done q db =
     map_option uminus (minimum (map (\<lambda>h. - hist_created_at h)
       (filter (\<lambda>h. hist_new_state h = Succeeded \<and> (\<exists>j\<in>set (jobs db). job_id j = hist_job_id h \<and> queue_name j = q)) (history db))))"

text \<open>\<open>alive\<close> holds the queues of the enabled workers with a recent heartbeat.\<close>

definition zero_work_queues ::
  "string \<Rightarrow> string list \<Rightarrow> time \<Rightarrow> rat \<Rightarrow> queue_db \<Rightarrow> (string \<times> int \<times> rat \<times> rat option) list result" where
  "zero_work_queues env alive now stall_hours db =
     (let limit = now - stall_hours * 3600;
          stalled = filter (\<lambda>(q, js). q \<in> set alive
                      \<and> (case minimum (map created_at js) of None \<Rightarrow> False | Some t \<Rightarrow> t < limit)
                      \<and> (case last_done q db of None \<Rightarrow> True | Some t \<Rightarrow> t < limit))
                      (group_rows (\<lambda>j. state j = Queued \<and> before_or_null (not_before j) now) db)
      in on_visible env JNull
           (map (\<lambda>(q, js). (logical_queue_name q, int (length js),
              round_pg1 ((now - (case minimum (map created_at js) of None \<Rightarrow> now | Some t \<Rightarrow> t)) / 3600),
              map_option (\<lambda>t. round_pg1 ((now - t) / 3600)) (last_done q db))))
           (sort_key fst stalled))"

section \<open>Listings\<close>

text \<open>\<^verbatim>\<open>finished_at DESC NULLS LAST\<close>\<close>

definition finished_order :: "job \<Rightarrow> int \<times> time" where
  "finished_order j = (case finished_at j of Some t \<Rightarrow> (0, - t) | None \<Rightarrow> (1, 0))"

text \<open>The loop keeps visible rows under their logical name and stops once it has enough.\<close>

fun take_visible :: "string \<Rightarrow> nat \<Rightarrow> (string \<times> 'a) list \<Rightarrow> nat \<Rightarrow> (string \<times> 'a) list result" where
  "take_visible env limit [] have_n = Ok []"
| "take_visible env limit ((q, x) # rs) have_n =
     (case queue_name_visible_in_environment env (JStr q) JNull of
        Inl e \<Rightarrow> Err e
      | Inr False \<Rightarrow> take_visible env limit rs have_n
      | Inr True \<Rightarrow>
          (if Suc have_n \<ge> limit then Ok [(logical_queue_name q, x)]
           else (case take_visible env limit rs (Suc have_n) of
                   Inl e \<Rightarrow> Err e
                 | Inr ys \<Rightarrow> Ok ((logical_queue_name q, x) # ys))))"

definition dead_letter_jobs :: "string \<Rightarrow> string \<Rightarrow> nat \<Rightarrow> queue_db \<Rightarrow> (string \<times> job) list result" where
  "dead_letter_jobs env q limit db =
     (let named = map (\<lambda>j. (queue_name j, j)) in
      if q = [] then
        take_visible env limit (named (sort_key (\<lambda>j. (queue_name j, finished_order j)) (filter (\<lambda>j. state j = Dead_letter) (jobs db)))) 0
      else (case queue_name_for_environment q (JStr env) of
              Inl e \<Rightarrow> Err e
            | Inr routed \<Rightarrow>
                take_visible env limit (named (take limit (sort_key finished_order
                  (filter (\<lambda>j. state j = Dead_letter \<and> queue_name j = routed) (jobs db))))) 0))"

text \<open>The view \<^verbatim>\<open>v_job_history\<close>: history rows with their jobs, in the order of the history ids.\<close>

definition history_view :: "queue_db \<Rightarrow> (history_row \<times> job) list" where
  "history_view db = concat (map (\<lambda>h. map (Pair h) (filter (\<lambda>j. job_id j = hist_job_id h) (jobs db))) (history db))"

definition job_history :: "string \<Rightarrow> string \<Rightarrow> string \<Rightarrow> string \<Rightarrow> nat \<Rightarrow> queue_db \<Rightarrow> (string \<times> history_row \<times> job) list result" where
  "job_history env sku q jid limit db =
     (let named = map (\<lambda>(h, j). (queue_name j, h, j)) in
      if jid \<noteq> [] then
        (case pg_uuid jid of
           None \<Rightarrow> Err (DatabaseError ''invalid input syntax for type uuid'')
         | Some i \<Rightarrow> take_visible env limit (named (filter (\<lambda>(h, j). job_id j = i) (history_view db))) 0)
      else if sku \<noteq> [] then
        take_visible env limit (named (sort_key (\<lambda>(h, j). job_id j) (filter (\<lambda>(h, j). entity_id j = sku) (history_view db)))) 0
      else (case (if q = [] then Ok [] else queue_name_for_environment q (JStr env)) of
              Inl e \<Rightarrow> Err e
            | Inr routed \<Rightarrow>
                take_visible env limit
                  (named (take limit (rev (filter (\<lambda>(h, j). routed = [] \<or> queue_name j = routed) (history_view db))))) 0))"

fun route_names :: "string \<Rightarrow> string list \<Rightarrow> string list result" where
  "route_names selected [] = Ok []"
| "route_names selected (q # qs) =
     (case queue_name_for_environment q (JStr selected) of
        Inl e \<Rightarrow> Err e
      | Inr r \<Rightarrow> (case route_names selected qs of Inl e \<Rightarrow> Err e | Inr rs \<Rightarrow> Ok (r # rs)))"

definition active_jobs_for_sku :: "(json \<Rightarrow> string) \<Rightarrow> string \<Rightarrow> json \<Rightarrow> string \<Rightarrow> string list \<Rightarrow> queue_db \<Rightarrow> string list result" where
  "active_jobs_for_sku jtext env ee sku qs db =
     (case select_environment env ee of
        Inl e \<Rightarrow> Err e
      | Inr selected \<Rightarrow>
          (case route_names selected qs of
             Inl e \<Rightarrow> Err e
           | Inr routed \<Rightarrow>
               Ok (map logical_queue_name (remdups (map queue_name (filter (\<lambda>j.
                 json_text jtext (jget (payload_json j) ''sku'') = Some sku \<and> queue_name j \<in> set routed
                 \<and> state j \<in> {Queued, Running, Leased}) (jobs db)))))))"

section \<open>The flake gate\<close>

definition list_flake_mutation_jobs :: "job_state option \<Rightarrow> nat \<Rightarrow> queue_db \<Rightarrow> job list" where
  "list_flake_mutation_jobs st limit db =
     take limit (sort_key (\<lambda>j. - created_at j)
       (filter (\<lambda>j. queue_name j = FLAKE_MUTATION_QUEUE \<and> (st = None \<or> st = Some (state j))) (jobs db)))"

definition get_flake_mutation_job :: "uuid \<Rightarrow> queue_db \<Rightarrow> job option" where
  "get_flake_mutation_job jid db = fetchone (sql_select (\<lambda>j. job_id j = jid \<and> queue_name j = FLAKE_MUTATION_QUEUE) db)"

definition list_executed_flake_push_shas :: "(json \<Rightarrow> string) \<Rightarrow> string \<Rightarrow> queue_db \<Rightarrow> string list" where
  "list_executed_flake_push_shas jtext host db =
     map entity_id (filter (\<lambda>j. queue_name j = FLAKE_MUTATION_QUEUE \<and> operation j = ''push'' \<and> state j = Succeeded
       \<and> (host = [] \<or> json_text jtext (jget (payload_json j) ''host'') = Some host)) (jobs db))"

section \<open>Agent runs\<close>

record agent_run =
  run_id :: string
  parent_run_id :: "string option"
  agent_type :: string
  todo_id :: "int option"
  pp_ref :: "string option"
  run_host :: "string option"
  git_branch :: "string option"
  run_started_at :: time
  run_ended_at :: "time option"
  run_status :: string
  run_summary :: "string option"
  transcript_path :: "string option"

definition run_statuses :: "string list" where
  "run_statuses = [''running'', ''completed'', ''failed'', ''killed'', ''escalated'']"

text \<open>The coalesced render job; a queue problem never breaks the recording.\<close>

definition enqueue_agent_run_render :: "string \<Rightarrow> jobj \<Rightarrow> time \<Rightarrow> time \<Rightarrow> uuid \<Rightarrow> queue_db \<Rightarrow> queue_db" where
  "enqueue_agent_run_render env prios now clk jid db =
     (case enqueue_job env prios now jid
        ((manifest_defaults ''agent_run_render'' (JObj [(''reason'', JStr ''agent_run_mutation'')]))
           \<lparr>m_dedupe_key := Some ''agent_run_render:pending'', m_not_before := Some (clk + 30), m_max_attempts := 3\<rparr>) db of
        Inl _ \<Rightarrow> db
      | Inr (_, db') \<Rightarrow> db')"

text \<open>The ledger and the queue are changed in separate transactions: \<open>now\<close> is the time of the first, \<open>now2\<close>, \<open>clk\<close> and
  \<open>jid\<close> are those of the enqueue.\<close>

definition insert_agent_run :: "agent_run \<Rightarrow> agent_run list \<Rightarrow> agent_run list result" where
  "insert_agent_run r runs =
     (if run_id r \<in> set (map run_id runs) then Err (UniqueViolation ''agent_runs_pkey'')
      else if (case parent_run_id r of None \<Rightarrow> False | Some p \<Rightarrow> p \<notin> set (map run_id (runs @ [r])))
      then Err (DatabaseError ''agent_runs_parent_run_id_fkey'')
      else Ok (runs @ [r]))"

definition start_agent_run ::
  "string \<Rightarrow> jobj \<Rightarrow> time \<Rightarrow> time \<Rightarrow> time \<Rightarrow> uuid \<Rightarrow>
   string \<Rightarrow> string \<Rightarrow> string option \<Rightarrow> int option \<Rightarrow> string option \<Rightarrow> string option \<Rightarrow> string option \<Rightarrow>
   agent_run list \<times> queue_db \<Rightarrow> (string \<times> agent_run list \<times> queue_db) result" where
  "start_agent_run env prios now now2 clk jid rid atype parent todo pp host branch s =
     (case insert_agent_run
             \<lparr>run_id = rid, parent_run_id = parent, agent_type = atype, todo_id = todo, pp_ref = pp, run_host = host,
              git_branch = branch, run_started_at = now, run_ended_at = None, run_status = ''running'', run_summary = None,
              transcript_path = None\<rparr> (fst s) of
        Inl e \<Rightarrow> Err e
      | Inr runs' \<Rightarrow> Ok (rid, runs', enqueue_agent_run_render env prios now2 clk jid (snd s)))"

definition close_agent_run ::
  "time \<Rightarrow> string \<Rightarrow> string \<Rightarrow> string option \<Rightarrow> string option \<Rightarrow> agent_run list \<Rightarrow> agent_run list result" where
  "close_agent_run now rid st summary path runs =
     (if rid \<notin> set (map run_id runs) then Err (ValueError ''end_agent_run: no agent_runs row found'')
      else if st \<notin> set run_statuses then Err (CheckViolation ''agent_runs_status_check'')
      else Ok (map (\<lambda>r. if run_id r = rid
                 then r\<lparr>run_ended_at := Some now, run_status := st, run_summary := summary, transcript_path := path\<rparr> else r) runs))"

definition end_agent_run ::
  "string \<Rightarrow> jobj \<Rightarrow> time \<Rightarrow> time \<Rightarrow> time \<Rightarrow> uuid \<Rightarrow>
   string \<Rightarrow> string \<Rightarrow> string option \<Rightarrow> string option \<Rightarrow> agent_run list \<times> queue_db \<Rightarrow> (agent_run list \<times> queue_db) result" where
  "end_agent_run env prios now now2 clk jid rid st summary path s =
     (case close_agent_run now rid st summary path (fst s) of
        Inl e \<Rightarrow> Err e
      | Inr runs' \<Rightarrow> Ok (runs', enqueue_agent_run_render env prios now2 clk jid (snd s)))"

definition get_agent_run :: "string \<Rightarrow> agent_run list \<Rightarrow> agent_run option" where
  "get_agent_run rid runs = find (\<lambda>r. run_id r = rid) runs"

definition list_agent_runs :: "nat \<Rightarrow> agent_run list \<Rightarrow> agent_run list" where
  "list_agent_runs limit runs = take limit (sort_key (\<lambda>r. - run_started_at r) runs)"

section \<open>A waiting job has a due time\<close>

definition due_ok :: "job \<Rightarrow> bool" where
  "due_ok j = (state j = Retry_wait \<longrightarrow> not_before j \<noteq> None)"

interpretation due: row_invariant due_ok
proof unfold_locales
  fix j t show "due_ok (j\<lparr>updated_at := t\<rparr>) = due_ok j" by (simp add: due_ok_def)
next
  fix j show "fresh_row j \<Longrightarrow> due_ok j" by (simp add: fresh_row_def due_ok_def)
next
  fix T j j' assume "row_step T j j'" "due_ok j"
  then show "due_ok j'"
    by (cases rule: row_step.cases) (auto simp: due_ok_def keeps_due_def)
qed

text \<open>A job that waits for a retry always comes back. In every reachable database it has a due
  time, and the first \<^verbatim>\<open>recover_expired_jobs\<close> that runs at or after that time succeeds and puts the job
  back into its queue, open to a claim.\<close>

lemma waiting_job_returns:
  assumes "reachable db" and "row_of db i = Some j" and "state j = Retry_wait"
  shows "\<exists>t. not_before j = Some t \<and>
    (\<forall>now\<ge>t. \<exists>n db' j'. recover_expired_jobs now db = Ok (n, db') \<and> row_of db' i = Some j' \<and> state j' = Queued
       \<and> queue_name j' = queue_name j \<and> (run_at j \<le> now \<longrightarrow> runnable now j'))"
proof -
  from row_of_SomeD[OF assms(2)] due.reachable_row[OF assms(1)] assms(3) obtain t where t: "not_before j = Some t"
    by (auto simp: due_ok_def)
  have "\<exists>n db' j'. recover_expired_jobs now db = Ok (n, db') \<and> row_of db' i = Some j' \<and> state j' = Queued
      \<and> queue_name j' = queue_name j \<and> (run_at j \<le> now \<longrightarrow> runnable now j')" if "t \<le> now" for now
  proof -
    obtain n db' where r: "recover_expired_jobs now db = Ok (n, db')"
        "row_of db' i = map_option (\<lambda>j. made_due now (recovered now j)) (row_of db i)"
      using recover_expired_jobs_total[OF reachable_constraints[OF assms(1)]] by blast
    have "recovered now j = j" using assms(3) by (simp add: recovered_def expired_def leased_states_def)
    moreover have "retry_due now j" using assms(3) t that by (simp add: retry_due_def)
    ultimately have "row_of db' i = Some (touch now (\<lambda>j. j\<lparr>state := Queued, not_before := None\<rparr>) j)"
      using r(2) assms(2) by (simp add: made_due_def)
    with r(1) show ?thesis by (simp add: runnable_def before_or_null_def)
  qed
  with t show ?thesis by blast
qed

lemma queue_name_visible_Ok:
  "valid_env env \<Longrightarrow> \<exists>v. queue_name_visible_in_environment env (JStr q) JNull = Ok v"
  by (cases "is_ebay_environment_scoped_queue (logical_queue_name q)")
    (auto simp: queue_name_visible_in_environment_def Let_def)

lemma oldest_due_Some: "js \<noteq> [] \<Longrightarrow> \<forall>j\<in>set js. not_before j \<noteq> None \<Longrightarrow> \<exists>t. oldest_due js = Some t"
  by (cases js) (auto simp: oldest_due_def map_filter_simps)

lemma waiting_entries_Ok:
  assumes "valid_env env" and "\<forall>(q, js)\<in>set rs. js \<noteq> [] \<and> (\<forall>j\<in>set js. not_before j \<noteq> None)"
  shows "\<exists>es. waiting_entries env now rs = Ok es"
  using assms(2)
proof (induction rs)
  case (Cons r rs)
  obtain q js where r: "r = (q, js)" by (cases r)
  with Cons.prems obtain t where "oldest_due js = Some t" using oldest_due_Some[of js] by auto
  moreover obtain es where "waiting_entries env now rs = Ok es" using Cons by auto
  moreover obtain v where "queue_name_visible_in_environment env (JStr q) JNull = Ok v"
    using queue_name_visible_Ok[OF assms(1)] by blast
  ultimately show ?case using r by (cases v) auto
qed simp

lemma group_rows_member:
  "(q, js) \<in> set (group_rows p db) \<Longrightarrow> js \<noteq> [] \<and> (\<forall>j\<in>set js. j \<in> set (jobs db) \<and> p j)"
  by (auto simp: group_rows_def filter_empty_conv)

text \<open>The report of waiting jobs never fails on a reachable database, although it would raise a
  type error on a single waiting row without a due time.\<close>

lemma retry_wait_breakdown_total:
  assumes "reachable db" and "valid_env env"
  shows "\<exists>es. retry_wait_breakdown env now db = Ok es"
proof -
  let ?rs = "by_count (group_rows (\<lambda>j. state j = Retry_wait) db)"
  have "js \<noteq> [] \<and> (\<forall>j\<in>set js. not_before j \<noteq> None)" if "(q, js) \<in> set ?rs" for q js
    using that group_rows_member[of q js] due.reachable_row[OF assms(1)]
    by (fastforce simp: by_count_def due_ok_def)
  then show ?thesis
    unfolding retry_wait_breakdown_def by (intro waiting_entries_Ok[OF assms(2)]) blast
qed

section \<open>What the depths count\<close>

lemma map_of_add_counts:
  "map_of (foldl (\<lambda>d (q, n). add_count (f q) n d) d rs) l =
     (if map_of d l = None \<and> l \<notin> (\<lambda>(q, n). f q) ` set rs then None
      else Some ((case map_of d l of None \<Rightarrow> 0 | Some k \<Rightarrow> k) + sum_list (map snd (filter (\<lambda>(q, n). f q = l) rs))))"
proof (induction rs arbitrary: d)
  case (Cons r rs)
  obtain q n where "r = (q, n)" by (cases r)
  moreover have "map_of (add_count (f q) n d) l = (if f q = l then Some ((case map_of d l of None \<Rightarrow> 0 | Some k \<Rightarrow> k) + n) else map_of d l)"
    by (simp add: add_count_def update_conv')
  ultimately show ?case by (auto simp: Cons split: option.splits)
qed (auto split: option.splits)

text \<open>The rows of an environment: every row of a queue that is not scoped, and of a scoped queue those
  under the environment's own physical name.\<close>

definition own_route :: "string \<Rightarrow> string \<Rightarrow> bool" where
  "own_route selected q =
     (is_ebay_environment_scoped_queue (logical_queue_name q) \<longrightarrow> q = route_name (logical_queue_name q) selected)"

lemma depth_loop_fold:
  assumes "valid_env selected"
  shows "depth_loop selected rs d =
    Ok (foldl (\<lambda>d (q, n). add_count (logical_queue_name q) n d) d (filter (\<lambda>(q, n). own_route selected q) rs))"
proof (induction rs arbitrary: d)
  case (Cons r rs)
  obtain q n where "r = (q, n)" by (cases r)
  then show ?case
    by (simp add: Cons Let_def own_route_def queue_name_for_environment_route[OF assms])
qed simp

lemma sum_of_groups:
  "finite A \<Longrightarrow> (\<Sum>q\<in>A. length (filter (\<lambda>j. k j = q) js)) = length (filter (\<lambda>j. k j \<in> A) js)"
proof (induction js)
  case (Cons j js)
  have "(\<Sum>q\<in>A. length (filter (\<lambda>j. k j = q) (j # js)))
      = (\<Sum>q\<in>A. (if k j = q then 1 else 0) + length (filter (\<lambda>j. k j = q) js))"
    by (rule sum.cong) simp_all
  with Cons show ?case by (simp add: sum.distrib)
qed simp

lemma group_count_sum:
  "sum_list (map snd (filter (\<lambda>(q, n). Q q) (group_count p db))) = int (length (filter (\<lambda>j. p j \<and> Q (queue_name j)) (jobs db)))"
proof -
  let ?names = "filter Q (remdups (map queue_name (filter p (jobs db))))"
  have "map snd (filter (\<lambda>(q, n). Q q) (group_count p db))
      = map (\<lambda>q. int (length (filter (\<lambda>j. queue_name j = q) (filter p (jobs db))))) ?names"
    by (simp add: group_count_def group_rows_def filter_map comp_def case_prod_unfold conj_commute)
  also have "sum_list \<dots> = (\<Sum>q\<in>set ?names. int (length (filter (\<lambda>j. queue_name j = q) (filter p (jobs db)))))"
    by (rule sum_list_distinct_conv_sum_set) simp
  also have "\<dots> = int (length (filter (\<lambda>j. queue_name j \<in> set ?names) (filter p (jobs db))))"
    using sum_of_groups[of "set ?names" queue_name "filter p (jobs db)"] by (simp flip: of_nat_sum)
  also have "filter (\<lambda>j. queue_name j \<in> set ?names) (filter p (jobs db)) = filter (\<lambda>j. p j \<and> Q (queue_name j)) (jobs db)"
    by (auto intro: filter_cong)
  finally show ?thesis .
qed

lemma group_count_names: "fst ` set (group_count p db) = queue_name ` {j \<in> set (jobs db). p j}"
  by (force simp: group_count_def group_rows_def)

text \<open>The depths that \<^verbatim>\<open>queue_depths\<close> reports are exactly the numbers of queued jobs, per logical
  queue name, on the route of the chosen environment: jobs of the other environment's eBay queues are not counted, jobs of
  other queues are, and a queue without such a job has no entry.\<close>

lemma queue_depths_counts:
  assumes "select_environment env ee = Ok selected" and "valid_env selected"
  shows "\<exists>d. queue_depths env ee db = Ok d \<and>
    (\<forall>l. let n = length (filter (\<lambda>j. state j = Queued \<and> logical_queue_name (queue_name j) = l
                \<and> (is_ebay_environment_scoped_queue l \<longrightarrow> queue_name_for_environment l (JStr selected) = Ok (queue_name j)))
              (jobs db))
         in map_of d l = (if n = 0 then None else Some (int n)))"
proof -
  let ?rs = "filter (\<lambda>(q, n). own_route selected q) (group_count (\<lambda>j. state j = Queued) db)"
  let ?d = "foldl (\<lambda>d (q, n). add_count (logical_queue_name q) n d) [] ?rs"
  have "map_of ?d l = (if n = 0 then None else Some (int n))"
    if n: "n = length (filter (\<lambda>j. state j = Queued \<and> logical_queue_name (queue_name j) = l
      \<and> (is_ebay_environment_scoped_queue l \<longrightarrow> queue_name_for_environment l (JStr selected) = Ok (queue_name j))) (jobs db))" for l n
  proof -
    let ?Q = "\<lambda>q. own_route selected q \<and> logical_queue_name q = l"
    have Q: "?Q q \<longleftrightarrow> logical_queue_name q = l
        \<and> (is_ebay_environment_scoped_queue l \<longrightarrow> queue_name_for_environment l (JStr selected) = Ok q)" for q
      by (auto simp: own_route_def queue_name_for_environment_route[OF assms(2)])
    have "sum_list (map snd (filter (\<lambda>(q, n). logical_queue_name q = l) ?rs))
        = sum_list (map snd (filter (\<lambda>(q, n). ?Q q) (group_count (\<lambda>j. state j = Queued) db)))"
      by (simp add: case_prod_unfold conj_commute)
    also have "\<dots> = int n" unfolding group_count_sum n Q ..
    finally have s: "sum_list (map snd (filter (\<lambda>(q, n). logical_queue_name q = l) ?rs)) = int n" .
    have "l \<in> (\<lambda>(q, n). logical_queue_name q) ` set ?rs
        \<longleftrightarrow> (\<exists>q\<in>fst ` set (group_count (\<lambda>j. state j = Queued) db). ?Q q)" by force
    also have "\<dots> \<longleftrightarrow> n \<noteq> 0" unfolding group_count_names n Q by (auto simp: filter_empty_conv)
    finally show ?thesis using s by (simp add: map_of_add_counts)
  qed
  moreover have "queue_depths env ee db = Ok ?d"
    using assms by (simp add: queue_depths_def depth_loop_fold)
  ultimately show ?thesis by (simp add: Let_def)
qed

definition sample_depths :: queue_db where
  "sample_depths = \<lparr>jobs = [sample_row, sample_row\<lparr>job_id := ''j2'', queue_name := ''ebay_stage@sandbox''\<rparr>,
     sample_row\<lparr>job_id := ''j3'', queue_name := ''ebay_stage''\<rparr>, sample_row\<lparr>job_id := ''j4'', queue_name := ''ebay_stage''\<rparr>],
     history = []\<rparr>"

section \<open>The ledger of agent runs\<close>

text \<open>The constraints of the table: unique ids, known statuses, parents that exist; a run without an end is running.\<close>

definition run_ok :: "string set \<Rightarrow> agent_run \<Rightarrow> bool" where
  "run_ok ids r =
     (run_status r \<in> set run_statuses \<and> (run_ended_at r = None \<longrightarrow> run_status r = ''running'')
      \<and> (parent_run_id r = None \<or> the (parent_run_id r) \<in> ids))"

definition runs_ok :: "agent_run list \<Rightarrow> bool" where
  "runs_ok runs = (distinct (map run_id runs) \<and> list_all (run_ok (set (map run_id runs))) runs)"

lemma run_ok_mono: "run_ok A r \<Longrightarrow> A \<subseteq> B \<Longrightarrow> run_ok B r"
  by (auto simp: run_ok_def)

lemma start_agent_run_OkD:
  assumes "start_agent_run env prios now now2 clk jid rid atype parent todo pp host branch (runs, db) = Ok (x, runs', db')"
  obtains r where "runs' = runs @ [r]" "x = rid" "run_id r = rid" "rid \<notin> set (map run_id runs)" "run_started_at r = now"
    "run_ended_at r = None" "run_status r = ''running''" "parent_run_id r = parent" "agent_type r = atype"
    "parent = None \<or> the parent \<in> set (map run_id runs')" "db' = enqueue_agent_run_render env prios now2 clk jid db"
proof -
  let ?r = "\<lparr>run_id = rid, parent_run_id = parent, agent_type = atype, todo_id = todo, pp_ref = pp, run_host = host,
     git_branch = branch, run_started_at = now, run_ended_at = None, run_status = ''running'', run_summary = None,
     transcript_path = None\<rparr>"
  have "runs' = runs @ [?r]" "x = rid" "rid \<notin> set (map run_id runs)"
    "db' = enqueue_agent_run_render env prios now2 clk jid db" "parent = None \<or> the parent \<in> set (map run_id runs')"
    using assms by (auto simp add: start_agent_run_def insert_agent_run_def split: sum.splits if_splits option.splits)
  then show ?thesis by (intro that[of ?r]) simp_all
qed

lemma end_agent_run_OkD:
  assumes "end_agent_run env prios now now2 clk jid rid st summary path (runs, db) = Ok (runs', db')"
  shows "rid \<in> set (map run_id runs)" "st \<in> set run_statuses" "db' = enqueue_agent_run_render env prios now2 clk jid db"
    "runs' = map (\<lambda>r. if run_id r = rid
       then r\<lparr>run_ended_at := Some now, run_status := st, run_summary := summary, transcript_path := path\<rparr> else r) runs"
  using assms by (auto simp: end_agent_run_def close_agent_run_def split: sum.splits if_splits)

lemma start_agent_run_keeps:
  assumes "start_agent_run env prios now now2 clk jid rid atype parent todo pp host branch (runs, db) = Ok (x, runs', db')"
    and "runs_ok runs"
  shows "runs_ok runs'"
  using assms(1)
proof (rule start_agent_run_OkD)
  fix r
  assume r: "runs' = runs @ [r]" "run_id r = rid" "rid \<notin> set (map run_id runs)" "run_ended_at r = None"
    "run_status r = ''running''" "parent_run_id r = parent" "parent = None \<or> the parent \<in> set (map run_id runs')"
  then have "run_ok (set (map run_id runs')) r" by (simp add: run_ok_def run_statuses_def)
  moreover have "list_all (run_ok (set (map run_id runs'))) runs"
    using assms(2) r(1) by (auto simp: runs_ok_def list_all_iff intro: run_ok_mono)
  ultimately show ?thesis using assms(2) r(1-3) by (simp add: runs_ok_def)
qed

lemma end_agent_run_keeps:
  assumes "end_agent_run env prios now now2 clk jid rid st summary path (runs, db) = Ok (runs', db')" and "runs_ok runs"
  shows "runs_ok runs'"
proof -
  have ids: "map run_id runs' = map run_id runs" unfolding end_agent_run_OkD(4)[OF assms(1)] by simp
  have "list_all (run_ok (set (map run_id runs))) runs'"
    using assms(2) end_agent_run_OkD(2)[OF assms(1)] unfolding end_agent_run_OkD(4)[OF assms(1)]
    by (auto simp: runs_ok_def list_all_iff run_ok_def)
  with assms(2) ids show ?thesis by (simp add: runs_ok_def)
qed

lemma find_run_last: "rid \<notin> set (map run_id rs) \<Longrightarrow> run_id r = rid \<Longrightarrow> find (\<lambda>r. run_id r = rid) (rs @ [r]) = Some r"
  by (induction rs) auto

lemma find_run_other: "run_id r \<noteq> i \<Longrightarrow> find (\<lambda>r. run_id r = i) (rs @ [r]) = find (\<lambda>r. run_id r = i) rs"
  by (induction rs) auto

lemma find_run_map: "(\<And>r. run_id (f r) = run_id r) \<Longrightarrow> find (\<lambda>r. run_id r = i) (map f rs) = map_option f (find (\<lambda>r. run_id r = i) rs)"
  by (induction rs) auto

lemma start_end_roundtrip:
  assumes "start_agent_run env prios now now2 clk jid rid atype parent todo pp host branch (runs, db) = Ok (x, runs1, db1)"
    and "end_agent_run env prios later later2 clk2 jid2 x st summary path (runs1, db2) = Ok (runs2, db3)"
  shows "\<exists>r. get_agent_run x runs2 = Some r \<and> run_started_at r = now \<and> run_ended_at r = Some later
    \<and> run_status r = st \<and> run_summary r = summary \<and> agent_type r = atype \<and> parent_run_id r = parent"
  using assms(1)
proof (rule start_agent_run_OkD)
  fix r
  assume r: "runs1 = runs @ [r]" "x = rid" "run_id r = rid" "rid \<notin> set (map run_id runs)" "run_started_at r = now"
    "parent_run_id r = parent" "agent_type r = atype"
  let ?f = "\<lambda>r. if run_id r = x
     then r\<lparr>run_ended_at := Some later, run_status := st, run_summary := summary, transcript_path := path\<rparr> else r"
  have "get_agent_run x runs2 = map_option ?f (find (\<lambda>r. run_id r = x) runs1)"
    unfolding end_agent_run_OkD(4)[OF assms(2)] get_agent_run_def by (rule find_run_map) simp
  also have "\<dots> = Some (?f r)" using r(1-4) find_run_last[of rid runs r] by simp
  finally show ?thesis using r by simp
qed

end
