(* ===== verification/Kernel_Evaluator.thy ===== *)
theory Kernel_Evaluator
  imports Json_Value
begin

text \<open>
  The pure workflow evaluator, \<^verbatim>\<open>workflow_kernel/contracts.py\<close> and
  \<^verbatim>\<open>workflow_kernel/evaluator.py\<close>: from a snapshot of an object, a goal profile, the treatment
  contracts and the recorded attempts it derives the fingerprint of every condition and decides
  which treatments are eligible and which wait. The theorems characterise eligibility exactly,
  show that the requirements of the goal and the treatments are partitioned, that ownership
  conflicts are found, and that the whole graph, hashes included, does not depend on the order in
  which evidence, attempts and treatments are supplied.
\<close>

section \<open>Contracts\<close>

datatype fingerprint_result = TRUE | FALSE | UNKNOWN | STALE | CONTRADICTORY | NOT_APPLICABLE

fun result_value :: "fingerprint_result \<Rightarrow> string" where
  "result_value TRUE = ''true''"
| "result_value FALSE = ''false''"
| "result_value UNKNOWN = ''unknown''"
| "result_value STALE = ''stale''"
| "result_value CONTRADICTORY = ''contradictory''"
| "result_value NOT_APPLICABLE = ''not_applicable''"

datatype effect_class = LOCAL | EXTERNAL

fun effect_value :: "effect_class \<Rightarrow> string" where
  "effect_value LOCAL = ''local''"
| "effect_value EXTERNAL = ''external''"

record evidence_reference =
  ref_identity :: string
  source_class :: string
  source_generation :: string
  freshness_identity :: string
  supersession_identity :: string

record evidence_assertion =
  as_condition_id :: string
  as_result :: fingerprint_result
  as_reasons :: "string list"
  as_evidence :: "evidence_reference list"

record object_snapshot =
  snap_object_id :: string
  generation :: string
  assertions :: "evidence_assertion list"
  external_effect_ambiguities :: "string list"

record goal_profile =
  goal_identity :: string
  goal_version :: string
  required :: "string list"

record requirement =
  rq_condition_id :: string
  accepted_results :: "fingerprint_result list"

record treatment_contract =
  tr_identity :: string
  tr_version :: string
  requires :: "requirement list"
  may_establish :: "string list"
  must_preserve :: "string list"
  ownership :: "string list"
  tr_effect_class :: effect_class
  receipt_schema_id :: string

record fingerprint =
  condition_id :: string
  fp_result :: fingerprint_result
  fp_reasons :: "string list"
  fp_evidence :: "evidence_reference list"

record treatment_disposition =
  treatment_id :: string
  treatment_version :: string
  disp_reasons :: "string list"

text \<open>A receipt id may be any JSON value; the evaluator tests whether it is a string.\<close>

record treatment_attempt =
  at_treatment_id :: string
  at_treatment_version :: string
  at_object_generation :: string
  at_condition_hash :: string
  at_outcome :: string
  at_receipt_id :: json

record runtime_work_graph =
  schema_version :: string
  graph_id :: string
  object_id :: string
  object_generation :: string
  goal_profile_id :: string
  goal_profile_version :: string
  evaluator_version :: string
  evidence_set_hash :: string
  condition_hash :: string
  treatment_registry_hash :: string
  fingerprints :: "fingerprint list"
  satisfied_requirements :: "string list"
  unmet_requirements :: "string list"
  explicit_requirements :: "(string \<times> fingerprint_result) list"
  eligible_treatments :: "treatment_disposition list"
  waiting_treatments :: "treatment_disposition list"
  ownership_conflicts :: "(string \<times> string \<times> string list) list"
  reconciliation_gates :: "string list"
  next_event_classes :: "string list"
  retry_requested :: bool

section \<open>Values as JSON\<close>

definition reference_json :: "evidence_reference \<Rightarrow> json" where
  "reference_json r = JObj [(''identity'', JStr (ref_identity r)), (''source_class'', JStr (source_class r)),
     (''source_generation'', JStr (source_generation r)), (''freshness_identity'', JStr (freshness_identity r)),
     (''supersession_identity'', JStr (supersession_identity r))]"

definition requirement_json :: "requirement \<Rightarrow> json" where
  "requirement_json r = JObj [(''condition_id'', JStr (rq_condition_id r)),
     (''accepted_results'', jstrs (map result_value (accepted_results r)))]"

definition treatment_json :: "treatment_contract \<Rightarrow> json" where
  "treatment_json t = JObj [(''identity'', JStr (tr_identity t)), (''version'', JStr (tr_version t)),
     (''requires'', JList (map requirement_json (requires t))), (''may_establish'', jstrs (may_establish t)),
     (''must_preserve'', jstrs (must_preserve t)), (''ownership'', jstrs (ownership t)),
     (''effect_class'', JStr (effect_value (tr_effect_class t))), (''receipt_schema_id'', JStr (receipt_schema_id t))]"

definition attempt_json :: "treatment_attempt \<Rightarrow> json" where
  "attempt_json a = JObj [(''treatment_id'', JStr (at_treatment_id a)), (''treatment_version'', JStr (at_treatment_version a)),
     (''object_generation'', JStr (at_object_generation a)), (''condition_hash'', JStr (at_condition_hash a)),
     (''outcome'', JStr (at_outcome a)), (''receipt_id'', at_receipt_id a)]"

definition fingerprint_json :: "fingerprint \<Rightarrow> json" where
  "fingerprint_json f = JObj [(''condition_id'', JStr (condition_id f)), (''result'', JStr (result_value (fp_result f))),
     (''reasons'', jstrs (fp_reasons f)), (''evidence'', JList (map reference_json (fp_evidence f)))]"

definition reference_key :: "evidence_reference \<Rightarrow> string \<times> string \<times> string \<times> string \<times> string" where
  "reference_key r =
     (source_class r, ref_identity r, source_generation r, freshness_identity r, supersession_identity r)"

definition assertion_data :: "evidence_assertion \<Rightarrow> json" where
  "assertion_data a = JObj [(''condition_id'', JStr (as_condition_id a)), (''result'', JStr (result_value (as_result a))),
     (''reasons'', jstrs (sort (as_reasons a))),
     (''evidence'', JList (map reference_json (sort_key reference_key (as_evidence a))))]"

section \<open>Fingerprints\<close>

definition derive_fingerprint :: "string \<Rightarrow> evidence_assertion list \<Rightarrow> fingerprint" where
  "derive_fingerprint c as =
     (let matching = filter (\<lambda>a. as_condition_id a = c) as;
          evidence = sort_key reference_key (remdups (concat (map as_evidence matching)));
          results = remdups (map as_result matching);
          reasons = sorted_set (concat (map as_reasons matching))
      in case results of
           [] \<Rightarrow> \<lparr>condition_id = c, fp_result = UNKNOWN, fp_reasons = [''no evidence''], fp_evidence = []\<rparr>
         | [r] \<Rightarrow> \<lparr>condition_id = c, fp_result = r, fp_reasons = reasons, fp_evidence = evidence\<rparr>
         | _ \<Rightarrow> \<lparr>condition_id = c, fp_result = CONTRADICTORY,
                 fp_reasons = [''conflicting results: '' @ py_join '', '' (sort (map result_value results))],
                 fp_evidence = evidence\<rparr>)"

definition reason :: "fingerprint \<Rightarrow> string" where
  "reason f =
     (let suffix = py_join ''; '' (fp_reasons f)
      in condition_id f @ ''='' @ result_value (fp_result f) @ (if suffix = [] then [] else '': '' @ suffix))"

definition established :: "fingerprint_result \<Rightarrow> bool" where
  "established r = (r \<in> {TRUE, NOT_APPLICABLE})"

section \<open>Evaluation\<close>

definition condition_ids :: "goal_profile \<Rightarrow> treatment_contract list \<Rightarrow> string list" where
  "condition_ids goal ts =
     sorted_set (required goal @ concat (map (\<lambda>t. map rq_condition_id (requires t) @ may_establish t) ts))"

text \<open>\<^verbatim>\<open>by_id[condition_id]\<close>: the dictionary holds the derived fingerprint of every condition that
  the goal or a treatment names, and only those are looked up.\<close>

definition by_id :: "object_snapshot \<Rightarrow> string \<Rightarrow> fingerprint" where
  "by_id snap c = derive_fingerprint c (assertions snap)"

definition graph_fingerprints :: "object_snapshot \<Rightarrow> goal_profile \<Rightarrow> treatment_contract list \<Rightarrow> fingerprint list" where
  "graph_fingerprints snap goal ts = map (by_id snap) (condition_ids goal ts)"

definition graph_condition_hash :: "pylib \<Rightarrow> object_snapshot \<Rightarrow> goal_profile \<Rightarrow> treatment_contract list \<Rightarrow> string" where
  "graph_condition_hash lib snap goal ts = hash_json lib (JList (map fingerprint_json (graph_fingerprints snap goal ts)))"

definition suppressing_outcomes :: "string list" where
  "suppressing_outcomes = [''failed'', ''partial'', ''conflict'']"

definition relevant_attempt :: "object_snapshot \<Rightarrow> treatment_contract list \<Rightarrow> string \<Rightarrow> treatment_attempt \<Rightarrow> bool" where
  "relevant_attempt snap ts chash a =
     (at_object_generation a = generation snap \<and> at_condition_hash a = chash
      \<and> (at_treatment_id a, at_treatment_version a) \<in> set (map (\<lambda>t. (tr_identity t, tr_version t)) ts)
      \<and> at_outcome a \<in> set suppressing_outcomes \<and> nonblank_str (at_receipt_id a))"

definition ambiguity_of :: "object_snapshot \<Rightarrow> treatment_contract \<Rightarrow> string list" where
  "ambiguity_of snap t =
     (if tr_effect_class t = EXTERNAL
      then sorted_set (filter (\<lambda>o'. o' \<in> set (ownership t)) (external_effect_ambiguities snap)) else [])"

definition unmet_of :: "object_snapshot \<Rightarrow> treatment_contract \<Rightarrow> requirement list" where
  "unmet_of snap t = filter (\<lambda>r. fp_result (by_id snap (rq_condition_id r)) \<notin> set (accepted_results r)) (requires t)"

definition unchanged_attempts :: "treatment_attempt list \<Rightarrow> treatment_contract \<Rightarrow> treatment_attempt list" where
  "unchanged_attempts relevant t =
     filter (\<lambda>a. at_treatment_id a = tr_identity t \<and> at_treatment_version a = tr_version t) relevant"

definition receipt_text :: "treatment_attempt \<Rightarrow> string" where
  "receipt_text a = (case at_receipt_id a of JStr s \<Rightarrow> s | _ \<Rightarrow> [])"

definition all_established :: "object_snapshot \<Rightarrow> treatment_contract \<Rightarrow> bool" where
  "all_established snap t =
     (may_establish t \<noteq> [] \<and> list_all (\<lambda>c. established (fp_result (by_id snap c))) (may_establish t))"

definition disposition_of :: "treatment_contract \<Rightarrow> string list \<Rightarrow> treatment_disposition" where
  "disposition_of t rs = \<lparr>treatment_id = tr_identity t, treatment_version = tr_version t, disp_reasons = rs\<rparr>"

text \<open>One turn of the classification loop: the flag tells an eligible treatment from a waiting one.\<close>

definition classify :: "object_snapshot \<Rightarrow> treatment_attempt list \<Rightarrow> treatment_contract \<Rightarrow> bool \<times> treatment_disposition" where
  "classify snap relevant t =
     (if ambiguity_of snap t \<noteq> []
      then (False, disposition_of t (map (\<lambda>o'. ''external effect ambiguous: '' @ o') (ambiguity_of snap t)))
      else if unmet_of snap t \<noteq> []
      then (False, disposition_of t (map (\<lambda>r. reason (by_id snap (rq_condition_id r))) (unmet_of snap t)))
      else if unchanged_attempts relevant t \<noteq> []
      then (let ua = unchanged_attempts relevant t;
                receipts = py_join '', '' (sort (map receipt_text ua));
                outcomes = py_join '', '' (sorted_set (map at_outcome ua))
            in (False, disposition_of t [''unchanged non-success attempt already recorded ('' @ outcomes @ ''): '' @ receipts]))
      else if all_established snap t
      then (False, disposition_of t [''all treatment conditions already established''])
      else (True, disposition_of t (map (\<lambda>r. reason (by_id snap (rq_condition_id r))) (requires t))))"

definition by_identity :: "treatment_contract list \<Rightarrow> treatment_contract list" where
  "by_identity ts = sort_key (\<lambda>t. (tr_identity t, tr_version t)) ts"

text \<open>\<^verbatim>\<open>treatment_by_id\<close> keeps the last treatment supplied under a key.\<close>

definition treatment_by_id :: "treatment_contract list \<Rightarrow> string \<times> string \<Rightarrow> treatment_contract option" where
  "treatment_by_id ts = map_of (rev (map (\<lambda>t. ((tr_identity t, tr_version t), t)) ts))"

definition owned_by :: "treatment_contract list \<Rightarrow> treatment_disposition \<Rightarrow> string list" where
  "owned_by ts d = (case treatment_by_id ts (treatment_id d, treatment_version d) of None \<Rightarrow> [] | Some t \<Rightarrow> ownership t)"

definition overlap :: "treatment_contract list \<Rightarrow> treatment_disposition \<Rightarrow> treatment_disposition \<Rightarrow> string list" where
  "overlap ts l r = sorted_set (filter (\<lambda>o'. o' \<in> set (owned_by ts r)) (owned_by ts l))"

fun conflicts :: "treatment_contract list \<Rightarrow> treatment_disposition list \<Rightarrow> (string \<times> string \<times> string list) list" where
  "conflicts ts [] = []"
| "conflicts ts (l # ds) =
     map (\<lambda>r. (treatment_id l, treatment_id r, overlap ts l r)) (filter (\<lambda>r. overlap ts l r \<noteq> []) ds) @ conflicts ts ds"

definition sort_canonical :: "pylib \<Rightarrow> json list \<Rightarrow> json list" where
  "sort_canonical lib xs = sort_key (canonical lib) xs"

definition graph_evidence_hash :: "pylib \<Rightarrow> object_snapshot \<Rightarrow> treatment_attempt list \<Rightarrow> string" where
  "graph_evidence_hash lib snap relevant = hash_json lib (JObj
     [(''assertions'', JList (sort_canonical lib (map assertion_data (assertions snap)))),
      (''attempts'', JList (sort_canonical lib (map attempt_json relevant))),
      (''external_effect_ambiguities'', jstrs (sorted_set (external_effect_ambiguities snap)))])"

definition graph_registry_hash :: "pylib \<Rightarrow> treatment_contract list \<Rightarrow> string" where
  "graph_registry_hash lib ts = hash_json lib (JList (sort_canonical lib (map treatment_json ts)))"

definition evaluate ::
  "pylib \<Rightarrow> object_snapshot \<Rightarrow> goal_profile \<Rightarrow> treatment_contract list \<Rightarrow> string \<Rightarrow> treatment_attempt list \<Rightarrow>
   runtime_work_graph" where
  "evaluate lib snap goal ts version attempts =
     (let fps = graph_fingerprints snap goal ts;
          chash = graph_condition_hash lib snap goal ts;
          relevant = filter (relevant_attempt snap ts chash) attempts;
          req = sorted_set (required goal);
          classified = map (classify snap relevant) (by_identity ts);
          eligible = map snd (filter fst classified);
          waiting = map snd (filter (\<lambda>c. \<not> fst c) classified);
          ehash = graph_evidence_hash lib snap relevant;
          rhash = graph_registry_hash lib ts;
          binding = JObj [(''object_id'', JStr (snap_object_id snap)), (''object_generation'', JStr (generation snap)),
            (''goal_profile_id'', JStr (goal_identity goal)), (''goal_profile_version'', JStr (goal_version goal)),
            (''evaluator_version'', JStr version), (''evidence_set_hash'', JStr ehash),
            (''condition_hash'', JStr chash), (''treatment_registry_hash'', JStr rhash)]
      in \<lparr>schema_version = ''runtime-work-graph/v1'', graph_id = hash_json lib binding,
          object_id = snap_object_id snap, object_generation = generation snap,
          goal_profile_id = goal_identity goal, goal_profile_version = goal_version goal,
          evaluator_version = version, evidence_set_hash = ehash, condition_hash = chash,
          treatment_registry_hash = rhash, fingerprints = fps,
          satisfied_requirements = filter (\<lambda>c. established (fp_result (by_id snap c))) req,
          unmet_requirements = filter (\<lambda>c. fp_result (by_id snap c) = FALSE) req,
          explicit_requirements = map (\<lambda>c. (c, fp_result (by_id snap c)))
            (filter (\<lambda>c. fp_result (by_id snap c) \<in> {UNKNOWN, STALE, CONTRADICTORY}) req),
          eligible_treatments = eligible, waiting_treatments = waiting,
          ownership_conflicts = conflicts ts eligible,
          reconciliation_gates = sorted_set (external_effect_ambiguities snap),
          next_event_classes = (if list_ex (\<lambda>f. fp_result f = UNKNOWN) fps then [''evidence_changed''] else []),
          retry_requested = False\<rparr>)"

section \<open>What a fingerprint means\<close>

lemma condition_id_derive [simp]: "condition_id (derive_fingerprint c as) = c"
  by (simp add: derive_fingerprint_def Let_def split: list.splits)

text \<open>The dictionary of the source and the function \<^const>\<open>by_id\<close> agree on every condition that is looked up.\<close>

lemma by_id_dictionary:
  assumes "c \<in> set (condition_ids goal ts)"
  shows "map_of (map (\<lambda>f. (condition_id f, f)) (graph_fingerprints snap goal ts)) c = Some (by_id snap c)"
proof -
  have "map (\<lambda>f. (condition_id f, f)) (graph_fingerprints snap goal ts) = map (\<lambda>c. (c, by_id snap c)) (condition_ids goal ts)"
    by (simp add: graph_fingerprints_def by_id_def comp_def)
  then show ?thesis using assms by (simp add: map_of_map_restrict)
qed

lemma condition_ids_cover:
  "c \<in> set (required goal) \<Longrightarrow> c \<in> set (condition_ids goal ts)"
  "t \<in> set ts \<Longrightarrow> r \<in> set (requires t) \<Longrightarrow> rq_condition_id r \<in> set (condition_ids goal ts)"
  "t \<in> set ts \<Longrightarrow> c \<in> set (may_establish t) \<Longrightarrow> c \<in> set (condition_ids goal ts)"
  by (auto simp: condition_ids_def)

text \<open>The verdict on a condition: without an assertion it is unknown, with assertions that
  disagree it is contradictory, and otherwise it is exactly what all of them say. So a condition counts as
  true only when there is evidence and every piece of evidence says so.\<close>

lemma fingerprint_verdict:
  "fp_result (derive_fingerprint c as) =
    (if \<forall>a\<in>set as. as_condition_id a \<noteq> c then UNKNOWN
     else if \<exists>a\<in>set as. \<exists>b\<in>set as. as_condition_id a = c \<and> as_condition_id b = c \<and> as_result a \<noteq> as_result b then CONTRADICTORY
     else as_result (hd (filter (\<lambda>a. as_condition_id a = c) as)))"
proof -
  define ms where "ms = filter (\<lambda>a. as_condition_id a = c) as"
  define rs where "rs = remdups (map as_result ms)"
  have set_ms: "set ms = {a \<in> set as. as_condition_id a = c}" by (auto simp: ms_def)
  have fp: "fp_result (derive_fingerprint c as) = (case rs of [] \<Rightarrow> UNKNOWN | [r] \<Rightarrow> r | _ \<Rightarrow> CONTRADICTORY)"
    by (simp add: derive_fingerprint_def Let_def ms_def rs_def split: list.splits)
  have srs: "set rs = as_result ` set ms" and d: "distinct rs" by (simp_all add: rs_def)
  show ?thesis
  proof (cases rs)
    case Nil
    then show ?thesis using fp srs set_ms by auto
  next
    case (Cons r rest)
    have ne: "\<not> (\<forall>a\<in>set as. as_condition_id a \<noteq> c)" using Cons srs set_ms by auto
    show ?thesis
    proof (cases rest)
      case Nil
      with Cons srs have all: "as_result a = r" if "a \<in> set ms" for a using that by auto
      moreover have "ms \<noteq> []" using Cons by (auto simp: rs_def)
      then have "as_result (hd ms) = r" using all by simp
      moreover have "\<not> (\<exists>a\<in>set as. \<exists>b\<in>set as. as_condition_id a = c \<and> as_condition_id b = c \<and> as_result a \<noteq> as_result b)"
        using all set_ms by auto
      ultimately show ?thesis using fp Cons Nil ne by (simp only: if_False list.simps ms_def)
    next
      case (Cons r' rest')
      with \<open>rs = r # rest\<close> d srs obtain a b where "a \<in> set ms" "b \<in> set ms" "as_result a = r" "as_result b = r'" "r \<noteq> r'"
        by (auto simp: image_iff) (metis imageE insertI1 insertI2)
      then have "\<exists>a\<in>set as. \<exists>b\<in>set as. as_condition_id a = c \<and> as_condition_id b = c \<and> as_result a \<noteq> as_result b"
        using set_ms by blast
      then show ?thesis using fp Cons \<open>rs = r # rest\<close> ne by (simp only: if_True if_False list.simps)
    qed
  qed
qed

section \<open>Who is eligible\<close>

lemma classify_eligible:
  "fst (classify snap relevant t) \<longleftrightarrow>
     ambiguity_of snap t = [] \<and> unmet_of snap t = [] \<and> unchanged_attempts relevant t = [] \<and> \<not> all_established snap t"
  by (simp add: classify_def Let_def)

lemma ambiguity_Nil:
  "ambiguity_of snap t = [] \<longleftrightarrow> (tr_effect_class t = EXTERNAL \<longrightarrow> set (ownership t) \<inter> set (external_effect_ambiguities snap) = {})"
  by (auto simp: ambiguity_of_def filter_empty_conv)

lemma unmet_Nil:
  "unmet_of snap t = [] \<longleftrightarrow>
     (\<forall>r\<in>set (requires t). fp_result (derive_fingerprint (rq_condition_id r) (assertions snap)) \<in> set (accepted_results r))"
  by (auto simp: unmet_of_def filter_empty_conv by_id_def)

lemma unchanged_Nil:
  assumes "t \<in> set ts"
  shows "unchanged_attempts (filter (relevant_attempt snap ts chash) attempts) t = [] \<longleftrightarrow>
    \<not> (\<exists>a\<in>set attempts. at_treatment_id a = tr_identity t \<and> at_treatment_version a = tr_version t
         \<and> at_object_generation a = generation snap \<and> at_condition_hash a = chash
         \<and> at_outcome a \<in> {''failed'', ''partial'', ''conflict''} \<and> nonblank_str (at_receipt_id a))"
proof -
  have "(tr_identity t, tr_version t) \<in> set (map (\<lambda>t. (tr_identity t, tr_version t)) ts)" using assms by auto
  then show ?thesis
    by (auto simp: unchanged_attempts_def filter_empty_conv relevant_attempt_def suppressing_outcomes_def simp del: set_map)
qed

lemma not_all_established:
  "\<not> all_established snap t \<longleftrightarrow> may_establish t = [] \<or>
     (\<exists>c\<in>set (may_establish t). fp_result (derive_fingerprint c (assertions snap)) \<notin> {TRUE, NOT_APPLICABLE})"
  by (auto simp: all_established_def established_def by_id_def list_all_iff)

lemma classify_disposition:
  "treatment_id (snd (classify snap relevant t)) = tr_identity t"
  "treatment_version (snd (classify snap relevant t)) = tr_version t"
  by (simp_all add: classify_def disposition_of_def Let_def)

text \<open>A treatment is eligible exactly when one of the supplied contracts has its identity and
  version and: an external treatment owns nothing with an ambiguous external effect, every requirement's condition has an
  accepted result, no failed, partial or conflicting attempt with a receipt is recorded for the same object
  generation and condition hash, and not everything it may establish is established already.\<close>

lemma eligible_treatments_exact:
  "(\<exists>d\<in>set (eligible_treatments (evaluate lib snap goal ts version attempts)). treatment_id d = i \<and> treatment_version d = v) \<longleftrightarrow>
    (\<exists>t\<in>set ts. tr_identity t = i \<and> tr_version t = v
       \<and> (tr_effect_class t = EXTERNAL \<longrightarrow> set (ownership t) \<inter> set (external_effect_ambiguities snap) = {})
       \<and> (\<forall>r\<in>set (requires t). fp_result (derive_fingerprint (rq_condition_id r) (assertions snap)) \<in> set (accepted_results r))
       \<and> \<not> (\<exists>a\<in>set attempts. at_treatment_id a = i \<and> at_treatment_version a = v \<and> at_object_generation a = generation snap
             \<and> at_condition_hash a = condition_hash (evaluate lib snap goal ts version attempts) \<and> at_outcome a \<in> {''failed'', ''partial'', ''conflict''}
             \<and> nonblank_str (at_receipt_id a))
       \<and> (may_establish t = [] \<or> (\<exists>c\<in>set (may_establish t).
             fp_result (derive_fingerprint c (assertions snap)) \<notin> {TRUE, NOT_APPLICABLE})))"
proof -
  let ?g = "evaluate lib snap goal ts version attempts"
  define relevant where "relevant = filter (relevant_attempt snap ts (graph_condition_hash lib snap goal ts)) attempts"
  have chash: "condition_hash ?g = graph_condition_hash lib snap goal ts" by (simp add: evaluate_def Let_def)
  have "eligible_treatments ?g = map snd (filter fst (map (classify snap relevant) (by_identity ts)))"
    by (simp add: evaluate_def Let_def relevant_def)
  then have "(\<exists>d\<in>set (eligible_treatments ?g). treatment_id d = i \<and> treatment_version d = v) \<longleftrightarrow>
      (\<exists>t\<in>set ts. fst (classify snap relevant t) \<and> tr_identity t = i \<and> tr_version t = v)"
    by (force simp: by_identity_def classify_disposition)
  also have "\<dots> \<longleftrightarrow> (\<exists>t\<in>set ts. tr_identity t = i \<and> tr_version t = v
      \<and> ambiguity_of snap t = [] \<and> unmet_of snap t = [] \<and> unchanged_attempts relevant t = [] \<and> \<not> all_established snap t)"
    by (auto simp: classify_eligible)
  finally have *: "(\<exists>d\<in>set (eligible_treatments ?g). treatment_id d = i \<and> treatment_version d = v) \<longleftrightarrow>
      (\<exists>t\<in>set ts. tr_identity t = i \<and> tr_version t = v
      \<and> ambiguity_of snap t = [] \<and> unmet_of snap t = [] \<and> unchanged_attempts relevant t = [] \<and> \<not> all_established snap t)" .
  show ?thesis
    unfolding * chash relevant_def
    by (intro bex_cong refl conj_cong) (simp_all only: ambiguity_Nil unmet_Nil unchanged_Nil not_all_established)
qed

section \<open>A sample evaluation\<close>

definition sample_treatment :: treatment_contract where
  "sample_treatment = \<lparr>tr_identity = ''t'', tr_version = ''1'',
     requires = [\<lparr>rq_condition_id = ''photos'', accepted_results = [TRUE]\<rparr>], may_establish = [''drafted''], must_preserve = [],
     ownership = [''draft''], tr_effect_class = EXTERNAL, receipt_schema_id = ''r''\<rparr>"

definition sample_snapshot :: object_snapshot where
  "sample_snapshot = \<lparr>snap_object_id = ''A1'', generation = ''g1'',
     assertions = [\<lparr>as_condition_id = ''photos'', as_result = TRUE, as_reasons = [], as_evidence = []\<rparr>,
                   \<lparr>as_condition_id = ''drafted'', as_result = FALSE, as_reasons = [''none''], as_evidence = []\<rparr>],
     external_effect_ambiguities = []\<rparr>"

definition sample_goal :: goal_profile where
  "sample_goal = \<lparr>goal_identity = ''goal'', goal_version = ''1'', required = [''drafted'']\<rparr>"

section \<open>Partitions\<close>

text \<open>The graph accounts for everything: each supplied treatment is either eligible or
  waiting and in no list twice, and each required condition is satisfied, unmet or explicitly undecided,
  exactly one of the three, in sorted order without repetition.\<close>

lemma graph_partitions:
  "mset (map (\<lambda>d. (treatment_id d, treatment_version d))
      (eligible_treatments (evaluate lib snap goal ts version attempts) @ waiting_treatments (evaluate lib snap goal ts version attempts)))
     = mset (map (\<lambda>t. (tr_identity t, tr_version t)) ts)
   \<and> mset (satisfied_requirements (evaluate lib snap goal ts version attempts)
        @ unmet_requirements (evaluate lib snap goal ts version attempts)
        @ map fst (explicit_requirements (evaluate lib snap goal ts version attempts)))
     = mset (sorted_set (required goal))"
proof -
  define relevant where "relevant = filter (relevant_attempt snap ts (graph_condition_hash lib snap goal ts)) attempts"
  let ?g = "evaluate lib snap goal ts version attempts" and ?cs = "map (classify snap relevant) (by_identity ts)"
  have e: "eligible_treatments ?g = map snd (filter fst ?cs)" "waiting_treatments ?g = map snd (filter (\<lambda>c. \<not> fst c) ?cs)"
    by (simp_all add: evaluate_def Let_def relevant_def)
  have "mset (map h (map snd (filter fst cs) @ map snd (filter (\<lambda>c. \<not> fst c) cs))) = image_mset (\<lambda>c. h (snd c)) (mset cs)"
    for h :: "treatment_disposition \<Rightarrow> string \<times> string" and cs
    by (induction cs) simp_all
  then have "mset (map (\<lambda>d. (treatment_id d, treatment_version d)) (map snd (filter fst ?cs) @ map snd (filter (\<lambda>c. \<not> fst c) ?cs)))
      = image_mset (\<lambda>c. (treatment_id (snd c), treatment_version (snd c))) (mset ?cs)" .
  also have "\<dots> = mset (map (\<lambda>t. (tr_identity t, tr_version t)) ts)"
    by (simp add: image_mset.compositionality comp_def classify_disposition by_identity_def)
  finally have treatments: "mset (map (\<lambda>d. (treatment_id d, treatment_version d)) (eligible_treatments ?g @ waiting_treatments ?g))
      = mset (map (\<lambda>t. (tr_identity t, tr_version t)) ts)" by (simp only: e)
  have three: "mset (filter (\<lambda>c. established (f c)) xs @ filter (\<lambda>c. f c = FALSE) xs
      @ filter (\<lambda>c. f c \<in> {UNKNOWN, STALE, CONTRADICTORY}) xs) = mset xs" for f and xs :: "string list"
  proof (induction xs)
    case (Cons x xs)
    then show ?case by (cases "f x") (auto simp: established_def)
  qed simp
  have "mset (satisfied_requirements ?g @ unmet_requirements ?g @ map fst (explicit_requirements ?g)) = mset (sorted_set (required goal))"
    using three[of "\<lambda>c. fp_result (by_id snap c)" "sorted_set (required goal)"] by (simp add: evaluate_def Let_def comp_def)
  with treatments show ?thesis by blast
qed

section \<open>Conflicts\<close>

lemma overlap_Nil: "overlap ts l r = [] \<longleftrightarrow> set (owned_by ts l) \<inter> set (owned_by ts r) = {}"
  by (auto simp: overlap_def filter_empty_conv)

lemma conflicts_Nil:
  "conflicts ts ds = [] \<longleftrightarrow> sorted_wrt (\<lambda>l r. set (owned_by ts l) \<inter> set (owned_by ts r) = {}) ds"
  by (induction ds) (auto simp: overlap_Nil filter_empty_conv)

lemma treatment_by_id_distinct:
  assumes "distinct (map (\<lambda>t. (tr_identity t, tr_version t)) ts)" and "t \<in> set ts"
  shows "treatment_by_id ts (tr_identity t, tr_version t) = Some t"
  unfolding treatment_by_id_def using assms
  by (subst map_of_eq_Some_iff) (auto simp: rev_map[symmetric] comp_def)

text \<open>When the graph reports no ownership conflict, no two eligible treatments own the
  same thing, so that running any of them cannot interfere with what another one owns.\<close>

lemma no_conflict_means_disjoint_ownership:
  assumes "ownership_conflicts (evaluate lib snap goal ts version attempts) = []"
    and "distinct (map (\<lambda>t. (tr_identity t, tr_version t)) ts)"
    and "eligible_treatments (evaluate lib snap goal ts version attempts) = ds1 @ l # ds2 @ r # ds3"
    and "s \<in> set ts" and "treatment_id l = tr_identity s" and "treatment_version l = tr_version s"
    and "t \<in> set ts" and "treatment_id r = tr_identity t" and "treatment_version r = tr_version t"
  shows "set (ownership s) \<inter> set (ownership t) = {}"
proof -
  have "conflicts ts (ds1 @ l # ds2 @ r # ds3) = []"
    using assms(1,3) by (simp add: evaluate_def Let_def)
  then have "set (owned_by ts l) \<inter> set (owned_by ts r) = {}"
    by (simp add: conflicts_Nil sorted_wrt_append)
  then show ?thesis
    using treatment_by_id_distinct[OF assms(2)] assms(4-9) by (simp add: owned_by_def)
qed

definition sample_treatment2 :: treatment_contract where
  "sample_treatment2 = sample_treatment\<lparr>tr_identity := ''u'', ownership := [''price'']\<rparr>"

lemma eligible_without_attempts:
  "eligible_treatments (evaluate lib snap goal ts version []) = map snd (filter fst (map (classify snap []) (by_identity ts)))"
  "ownership_conflicts (evaluate lib snap goal ts version [])
     = conflicts ts (map snd (filter fst (map (classify snap []) (by_identity ts))))"
  by (simp_all add: evaluate_def Let_def)

section \<open>Independence of order\<close>

lemma inj_reference_key: "inj_on reference_key A"
  by (auto simp: inj_on_def reference_key_def intro: evidence_reference.equality)

lemma mset_remdups_cong: "set xs = set ys \<Longrightarrow> mset (remdups xs) = mset (remdups ys)"
  using set_eq_iff_mset_eq_distinct[of "remdups xs" "remdups ys"] by simp

lemma derive_fingerprint_cong:
  assumes "mset as = mset as'"
  shows "derive_fingerprint c as = derive_fingerprint c as'"
proof -
  let ?m = "\<lambda>as. filter (\<lambda>a. as_condition_id a = c) as"
  have s: "set as = set as'" using assms by (rule mset_eq_setD)
  have ev: "sort_key reference_key (remdups (concat (map as_evidence (?m as))))
      = sort_key reference_key (remdups (concat (map as_evidence (?m as'))))"
    by (rule sort_key_mset_cong[OF mset_remdups_cong inj_reference_key]) (simp add: s)
  have rs: "mset (remdups (map as_result (?m as))) = mset (remdups (map as_result (?m as')))"
    by (rule mset_remdups_cong) (simp add: s)
  have re: "sorted_set (concat (map as_reasons (?m as))) = sorted_set (concat (map as_reasons (?m as')))"
    by (rule sorted_set_cong) (simp add: s)
  have words: "sort (map result_value (remdups (map as_result (?m as)))) = sort (map result_value (remdups (map as_result (?m as'))))"
    by (rule sort_mset_cong) (simp add: rs)
  have len: "length (remdups (map as_result (?m as))) = length (remdups (map as_result (?m as')))"
    using rs by (rule mset_eq_length)
  have shape: "(case xs of [] \<Rightarrow> a | [r] \<Rightarrow> f r | _ \<Rightarrow> b) = (case ys of [] \<Rightarrow> a | [r] \<Rightarrow> f r | _ \<Rightarrow> b)"
    if "mset xs = mset ys" for xs ys :: "fingerprint_result list" and a b :: fingerprint and f
  proof (cases xs)
    case Nil
    with that show ?thesis by simp
  next
    case (Cons x xs')
    show ?thesis
    proof (cases xs')
      case Nil
      then have "ys = [x]" using that Cons by simp
      then show ?thesis using Cons Nil by simp
    next
      case (Cons x' xs'')
      have "length ys = length xs" using that by (metis mset_eq_length)
      then obtain y y' ys' where "ys = y # y' # ys'" using \<open>xs = x # xs'\<close> Cons by (cases ys; cases "tl ys") auto
      then show ?thesis using \<open>xs = x # xs'\<close> Cons by simp
    qed
  qed
  show ?thesis
    unfolding derive_fingerprint_def Let_def ev re words by (rule shape[OF rs])
qed

lemma map_sort_key_self: "map f (sort_key f xs) = sort (map f xs)"
  by (rule sym, rule properties_for_sort) simp_all

lemma canonical_sorted_cong:
  assumes "mset xs = mset ys"
  shows "canonical lib (JList (sort_canonical lib xs)) = canonical lib (JList (sort_canonical lib ys))"
proof -
  have "map (canonical lib) (sort_canonical lib xs) = map (canonical lib) (sort_canonical lib ys)"
    unfolding sort_canonical_def map_sort_key_self using assms by (intro sort_mset_cong) simp
  then show ?thesis by (simp add: canonical_def[abs_def])
qed

lemma canonical_JObj_entries:
  assumes "map (\<lambda>(k, v). (k, canonical lib v)) d = map (\<lambda>(k, v). (k, canonical lib v)) d'"
  shows "canonical lib (JObj d) = canonical lib (JObj d')"
proof -
  have "map (map_prod id (dumps dump_str lib)) d = map (map_prod id (dumps dump_str lib)) d'"
    using assms by (simp add: canonical_def map_prod_def case_prod_unfold)
  then show ?thesis by (simp add: canonical_def)
qed

lemma evidence_hash_cong:
  assumes "mset (assertions snap) = mset (assertions snap')" and "mset rel = mset rel'"
    and "set (external_effect_ambiguities snap) = set (external_effect_ambiguities snap')"
  shows "graph_evidence_hash lib snap rel = graph_evidence_hash lib snap' rel'"
  unfolding graph_evidence_hash_def hash_json_def
  by (intro arg_cong[where f = "sha256_hex lib"] canonical_JObj_entries)
    (simp add: canonical_sorted_cong assms(1,2) sorted_set_cong[OF assms(3)])

lemma registry_hash_cong: "mset ts = mset ts' \<Longrightarrow> graph_registry_hash lib ts = graph_registry_hash lib ts'"
  unfolding graph_registry_hash_def hash_json_def
  by (rule arg_cong[where f = "sha256_hex lib"], rule canonical_sorted_cong) simp

lemma classify_cong:
  assumes "by_id snap = by_id snap'" and "mset rel = mset rel'"
    and "set (external_effect_ambiguities snap) = set (external_effect_ambiguities snap')"
  shows "classify snap rel t = classify snap' rel' t"
proof -
  have a: "ambiguity_of snap t = ambiguity_of snap' t"
    unfolding ambiguity_of_def using assms(3) by (auto intro!: sorted_set_cong)
  have u: "unmet_of snap t = unmet_of snap' t" "all_established snap t = all_established snap' t"
    by (simp_all add: unmet_of_def all_established_def assms(1))
  have m: "mset (unchanged_attempts rel t) = mset (unchanged_attempts rel' t)"
    by (simp add: unchanged_attempts_def assms(2))
  then have n: "unchanged_attempts rel t = [] \<longleftrightarrow> unchanged_attempts rel' t = []"
    by (metis mset_zero_iff)
  have r: "sort (map receipt_text (unchanged_attempts rel t)) = sort (map receipt_text (unchanged_attempts rel' t))"
    by (rule sort_mset_cong) (simp add: m)
  have o': "sorted_set (map at_outcome (unchanged_attempts rel t)) = sorted_set (map at_outcome (unchanged_attempts rel' t))"
    by (rule sorted_set_cong) (simp add: mset_eq_setD[OF m])
  show ?thesis unfolding classify_def a u n r o' Let_def assms(1) ..
qed

lemma conflicts_cong:
  assumes "mset ts = mset ts'" and "distinct (map (\<lambda>t. (tr_identity t, tr_version t)) ts)"
  shows "conflicts ts ds = conflicts ts' ds"
proof -
  have "distinct (map (\<lambda>t. (tr_identity t, tr_version t)) ts')"
    using assms by (metis mset_eq_imp_distinct_iff mset_map)
  then have "treatment_by_id ts = treatment_by_id ts'"
    unfolding treatment_by_id_def using assms(2) mset_eq_setD[OF assms(1)]
    by (subst map_of_inject_set) (simp_all add: rev_map[symmetric] comp_def)
  then have "overlap ts = overlap ts'" by (intro ext) (simp add: overlap_def owned_by_def)
  then show ?thesis by (induction ds) simp_all
qed

text \<open>C16: evaluation is deterministic in the strong sense: supplying the same assertions, attempts,
  treatments (with distinct identity and version), goal conditions and ambiguities in another order gives the very same
  graph, including every hash and the graph id.\<close>

theorem evaluate_order_independent:
  assumes "mset as = mset as'" and "mset ts = mset ts'" and "mset attempts = mset attempts'"
    and "set req = set req'" and "set amb = set amb'"
    and "distinct (map (\<lambda>t. (tr_identity t, tr_version t)) ts)"
  shows "evaluate lib \<lparr>snap_object_id = i, generation = g, assertions = as, external_effect_ambiguities = amb\<rparr>
           \<lparr>goal_identity = gi, goal_version = gv, required = req\<rparr> ts version attempts
       = evaluate lib \<lparr>snap_object_id = i, generation = g, assertions = as', external_effect_ambiguities = amb'\<rparr>
           \<lparr>goal_identity = gi, goal_version = gv, required = req'\<rparr> ts' version attempts'"
proof -
  let ?s = "\<lparr>snap_object_id = i, generation = g, assertions = as, external_effect_ambiguities = amb\<rparr>"
  let ?s' = "\<lparr>snap_object_id = i, generation = g, assertions = as', external_effect_ambiguities = amb'\<rparr>"
  let ?q = "\<lparr>goal_identity = gi, goal_version = gv, required = req\<rparr>" and ?q' = "\<lparr>goal_identity = gi, goal_version = gv, required = req'\<rparr>"
  have b: "by_id ?s = by_id ?s'" using derive_fingerprint_cong[OF assms(1)] by (intro ext) (simp add: by_id_def)
  have c: "condition_ids ?q ts = condition_ids ?q' ts'"
    unfolding condition_ids_def using mset_eq_setD[OF assms(2)] assms(4) by (intro sorted_set_cong) simp
  have f: "graph_fingerprints ?s ?q ts = graph_fingerprints ?s' ?q' ts'" by (simp add: graph_fingerprints_def b c)
  have h: "graph_condition_hash lib ?s ?q ts = graph_condition_hash lib ?s' ?q' ts'" by (simp add: graph_condition_hash_def f)
  have r: "relevant_attempt ?s ts x = relevant_attempt ?s' ts' x" for x
    using mset_eq_setD[OF assms(2)] by (intro ext) (simp add: relevant_attempt_def)
  define rel where "rel = filter (relevant_attempt ?s' ts' (graph_condition_hash lib ?s' ?q' ts')) attempts"
  define rel' where "rel' = filter (relevant_attempt ?s' ts' (graph_condition_hash lib ?s' ?q' ts')) attempts'"
  have m: "mset rel = mset rel'" by (simp add: rel_def rel'_def assms(3))
  have i: "by_identity ts = by_identity ts'"
    unfolding by_identity_def using assms(2,6) by (intro sort_key_mset_cong) (simp_all add: distinct_map)
  have k: "classify ?s rel = classify ?s' rel'" using classify_cong[OF b m] assms(5) by (intro ext) simp
  have e: "graph_evidence_hash lib ?s rel = graph_evidence_hash lib ?s' rel'"
    using assms(1,5) m by (intro evidence_hash_cong) simp_all
  have q: "sorted_set req = sorted_set req'" "sorted_set amb = sorted_set amb'" by (rule sorted_set_cong[OF assms(4)], rule sorted_set_cong[OF assms(5)])
  show ?thesis
    unfolding evaluate_def Let_def f h r rel_def[symmetric] rel'_def[symmetric] i k e
      registry_hash_cong[OF assms(2)] conflicts_cong[OF assms(2,6)] b
    by (simp add: q)
qed

theorem evaluate_order_independent_witness:
  "evaluate \<lparr>sha256_hex = id, float_repr = (\<lambda>_. [])\<rparr> (sample_snapshot\<lparr>assertions := rev (assertions sample_snapshot)\<rparr>) sample_goal [sample_treatment2, sample_treatment] ''v'' []
   = evaluate \<lparr>sha256_hex = id, float_repr = (\<lambda>_. [])\<rparr> sample_snapshot sample_goal [sample_treatment, sample_treatment2] ''v'' []"
proof -
  have "distinct (map (\<lambda>t. (tr_identity t, tr_version t)) [sample_treatment2, sample_treatment])" by code_simp
  from evaluate_order_independent[of "rev (assertions sample_snapshot)" "assertions sample_snapshot"
      "[sample_treatment2, sample_treatment]" "[sample_treatment, sample_treatment2]" "[]" "[]" "required sample_goal"
      "required sample_goal" "[]" "[]", OF _ _ _ _ _ this]
  show ?thesis by (simp add: sample_snapshot_def sample_goal_def)
qed

end
