(* ===== verification/Kernel_Scheduler.thy ===== *)
theory Kernel_Scheduler
  imports Kernel_Evaluator Queue_Contracts
begin

text \<open>
  The scheduler \<^verbatim>\<open>workflow_kernel/scheduler.py\<close>: it selects one eligible treatment of a work
  graph and enqueues its worker. The theorems show that dispatching follows the selection, that
  what is selected is eligible and free of conflicts and gates, that the queue key of a
  treatment identifies the treatment, the entity and its generation, and, together with the
  queue, that a treatment is not dispatched twice while its job is active.
\<close>

section \<open>Keys and selection\<close>

definition EVALUATOR_VERSION :: string where
  "EVALUATOR_VERSION = ''workflow-scheduler/v2''"

definition TREATMENT_QUEUE_MAP :: "(string \<times> string) list" where
  "TREATMENT_QUEUE_MAP =
     [(''ai-identify'', ''ai_identify''), (''ebay-draft'', ''ebay_draft''), (''ebay-price'', ''ebay_price''),
      (''ebay-upload'', ''ebay_upload''), (''ebay-stage'', ''ebay_stage''), (''ebay-publish'', ''ebay_publish''),
      (''ebay-sync-targeted'', ''ebay_sync''), (''ebay-onboard-legacy-stage'', ''ebay_onboard_legacy_stage''),
      (''normalize-condition'', ''normalize_condition''), (''alt-text'', ''alt_text''),
      (''catalog-rebuild'', ''catalog_rebuild'')]"

definition treatment_to_queue :: "string \<Rightarrow> string" where
  "treatment_to_queue tid = (case map_of TREATMENT_QUEUE_MAP tid of None \<Rightarrow> tid | Some q \<Rightarrow> q)"

definition treatment_dedupe_key :: "treatment_disposition \<Rightarrow> string \<Rightarrow> string \<Rightarrow> string \<Rightarrow> string" where
  "treatment_dedupe_key d etype eid gen =
     py_join '':'' [''treatment'', treatment_to_queue (treatment_id d), etype, eid, gen, treatment_id d, treatment_version d]"

fun lookup_treatment :: "string \<Rightarrow> string \<Rightarrow> treatment_contract list \<Rightarrow> treatment_contract option" where
  "lookup_treatment i v [] = None"
| "lookup_treatment i v (t # ts) = (if tr_identity t = i \<and> tr_version t = v then Some t else lookup_treatment i v ts)"

definition select_treatment :: "runtime_work_graph \<Rightarrow> treatment_contract list \<Rightarrow> treatment_contract option" where
  "select_treatment g ts =
     (if ownership_conflicts g \<noteq> [] \<or> reconciliation_gates g \<noteq> [] \<or> eligible_treatments g = [] then None
      else lookup_treatment (treatment_id (hd (eligible_treatments g))) (treatment_version (hd (eligible_treatments g))) ts)"

text \<open>The exception classes whose SQLSTATE or name says that a unique index was violated.\<close>

fun is_duplicate_key :: "py_error \<Rightarrow> bool" where
  "is_duplicate_key (UniqueViolation _) = True"
| "is_duplicate_key _ = False"

section \<open>Dispatch of a graph\<close>

definition graph_payload :: "object_snapshot \<Rightarrow> runtime_work_graph \<Rightarrow> treatment_disposition \<Rightarrow> jobj" where
  "graph_payload snap g chosen =
     [(''graph_id'', JStr (graph_id g)), (''object_id'', JStr (snap_object_id snap)),
      (''object_generation'', JStr (generation snap)), (''condition_hash'', JStr (condition_hash g)),
      (''goal_profile_id'', JStr (goal_profile_id g)), (''goal_profile_version'', JStr (goal_profile_version g)),
      (''treatment_id'', JStr (treatment_id chosen)), (''treatment_version'', JStr (treatment_version chosen)),
      (''evaluator_version'', JStr (evaluator_version g))]"

definition graph_manifest ::
  "object_snapshot \<Rightarrow> runtime_work_graph \<Rightarrow> treatment_disposition \<Rightarrow> treatment_contract \<Rightarrow> string \<Rightarrow> string \<Rightarrow> manifest" where
  "graph_manifest snap g chosen t etype eid =
     (manifest_defaults (tr_identity t) (JObj (graph_payload snap g chosen)))
       \<lparr>m_handler_family := tr_identity t, m_entity_type := etype,
        m_entity_id := (if eid = [] then snap_object_id snap else eid), m_dedupe_key := Some (graph_id g)\<rparr>"

text \<open>\<open>enq\<close> is \<^verbatim>\<open>state_machine.enqueue_job\<close> on the database \<open>db\<close>; \<^verbatim>\<open>None\<close> of the code is \<^const>\<open>None\<close>.\<close>

definition dispatch_treatment_v2 ::
  "(manifest \<Rightarrow> 's \<Rightarrow> (string \<times> 's) result) \<Rightarrow> object_snapshot \<Rightarrow> runtime_work_graph \<Rightarrow> treatment_contract list \<Rightarrow>
   string \<Rightarrow> string \<Rightarrow> 's \<Rightarrow> (string option \<times> 's) result" where
  "dispatch_treatment_v2 enq snap g ts etype eid db =
     (if eligible_treatments g = [] then Ok (None, db)
      else if ownership_conflicts g \<noteq> [] then Ok (None, db)
      else if reconciliation_gates g \<noteq> [] then Ok (None, db)
      else
        (let chosen = hd (eligible_treatments g) in
         case lookup_treatment (treatment_id chosen) (treatment_version chosen) ts of
           None \<Rightarrow> Ok (None, db)
         | Some t \<Rightarrow>
             (case enq (graph_manifest snap g chosen t etype eid) db of
                Inr (jid, db') \<Rightarrow> Ok (Some jid, db')
              | Inl e \<Rightarrow> (if is_duplicate_key e then Ok (None, db) else Err e))))"

text \<open>\<open>snapshot\<close> is what \<^verbatim>\<open>build_coding_snapshot\<close> returns for the work tree.\<close>

definition build_and_dispatch ::
  "(manifest \<Rightarrow> 's \<Rightarrow> (string \<times> 's) result) \<Rightarrow> pylib \<Rightarrow> object_snapshot \<Rightarrow> goal_profile \<Rightarrow> treatment_contract list \<Rightarrow>
   string \<Rightarrow> string \<Rightarrow> string \<Rightarrow> 's \<Rightarrow> (string option \<times> 's) result" where
  "build_and_dispatch enq lib snapshot goal ts etype eid version db =
     dispatch_treatment_v2 enq snapshot (evaluate lib snapshot goal ts version []) ts etype eid db"

section \<open>Dispatch of a disposition\<close>

record dispatch_result =
  dr_treatment_id :: string
  dr_treatment_version :: string
  dr_queue_name :: string
  dr_entity_id :: string
  enqueued :: bool
  dr_job_id :: string
  outcome :: string

definition disposition_payload :: "treatment_disposition \<Rightarrow> string \<Rightarrow> runtime_work_graph option \<Rightarrow> jobj" where
  "disposition_payload d eid graph =
     [(''entity_id'', JStr eid), (''treatment_id'', JStr (treatment_id d)),
      (''treatment_version'', JStr (treatment_version d)), (''eligibility_reasons'', jstrs (disp_reasons d))]
     @ (case graph of
          None \<Rightarrow> []
        | Some g \<Rightarrow>
            [(''graph_id'', JStr (graph_id g)), (''object_id'', JStr (object_id g)),
             (''object_generation'', JStr (object_generation g)), (''condition_hash'', JStr (condition_hash g)),
             (''goal_profile_id'', JStr (goal_profile_id g)), (''goal_profile_version'', JStr (goal_profile_version g)),
             (''evaluator_version'', JStr (evaluator_version g)),
             (''fingerprints'', JList (map fingerprint_json (fingerprints g)))])"

definition dispatch_payload ::
  "treatment_disposition \<Rightarrow> string \<Rightarrow> runtime_work_graph option \<Rightarrow> jobj \<Rightarrow> string \<Rightarrow> jobj result" where
  "dispatch_payload d eid graph extra etype =
     (if has_key extra ''observation_checkpoint''
      then Err (ValueError ''observation_checkpoint is reserved for the running worker'')
      else
        (let payload = dict_merge (disposition_payload d eid graph) extra in
         if etype = ''item'' then
           (let sku = jget payload ''sku'' in
            if sku \<noteq> JNull \<and> \<not> py_eq sku (JStr eid) then Err (ValueError ''item treatment sku must match entity_id'')
            else Ok (AList.update ''sku'' (JStr eid) payload))
         else Ok payload))"

definition dispatch_manifest :: "treatment_disposition \<Rightarrow> string \<Rightarrow> string \<Rightarrow> string \<Rightarrow> jobj \<Rightarrow> manifest" where
  "dispatch_manifest d eid gen etype payload =
     (manifest_defaults (treatment_to_queue (treatment_id d)) (JObj payload))
       \<lparr>m_handler_family := treatment_to_queue (treatment_id d), m_entity_type := etype, m_entity_id := eid,
        m_dedupe_key := Some (treatment_dedupe_key d etype eid gen), m_max_attempts := 3\<rparr>"

definition graph_generation :: "runtime_work_graph option \<Rightarrow> string" where
  "graph_generation graph = (case graph of None \<Rightarrow> ''manual'' | Some g \<Rightarrow> object_generation g)"

definition dispatched :: "treatment_disposition \<Rightarrow> string \<Rightarrow> bool \<Rightarrow> string \<Rightarrow> string \<Rightarrow> dispatch_result" where
  "dispatched d eid ok jid oc =
     \<lparr>dr_treatment_id = treatment_id d, dr_treatment_version = treatment_version d,
      dr_queue_name = treatment_to_queue (treatment_id d), dr_entity_id = eid, enqueued = ok, dr_job_id = jid, outcome = oc\<rparr>"

text \<open>An enqueue that fails for another reason than a duplicate is reported with the default
  outcome of the record.\<close>

definition dispatch_treatment_v4 ::
  "(manifest \<Rightarrow> 's \<Rightarrow> (string \<times> 's) result) \<Rightarrow> treatment_disposition \<Rightarrow> string \<Rightarrow> runtime_work_graph option \<Rightarrow> jobj \<Rightarrow>
   string \<Rightarrow> 's \<Rightarrow> (dispatch_result \<times> 's) result" where
  "dispatch_treatment_v4 enq d eid graph extra etype db =
     (case dispatch_payload d eid graph extra etype of
        Inl e \<Rightarrow> Err e
      | Inr payload \<Rightarrow>
          (case enq (dispatch_manifest d eid (graph_generation graph) etype payload) db of
             Inr (jid, db') \<Rightarrow> Ok (dispatched d eid True jid ''dispatched'', db')
           | Inl e \<Rightarrow>
               (if is_duplicate_key e then Ok (dispatched d eid False [] ''already_dispatched'', db)
                else Ok (dispatched d eid False [] ''dispatched'', db))))"

section \<open>The key identifies the work\<close>

lemma treatment_queue_no_colon: "CHR '':'' \<notin> set tid \<Longrightarrow> CHR '':'' \<notin> set (treatment_to_queue tid)"
proof -
  have "list_all (\<lambda>(k, q). CHR '':'' \<notin> set q) TREATMENT_QUEUE_MAP" by code_simp
  then show "CHR '':'' \<notin> set tid \<Longrightarrow> CHR '':'' \<notin> set (treatment_to_queue tid)"
    by (auto simp: treatment_to_queue_def list_all_iff split: option.splits dest!: map_of_SomeD)
qed

text \<open>Two treatments get the same queue key only when they are the same treatment in the
  same version for the same entity in the same generation, as long as none of these names contains a
  colon. So the key never suppresses different work.\<close>

lemma treatment_dedupe_key_injective:
  assumes "\<forall>s\<in>{treatment_id d, treatment_version d, etype, eid, gen, treatment_id d', treatment_version d', etype', eid', gen'}.
             CHR '':'' \<notin> set s"
    and "treatment_dedupe_key d etype eid gen = treatment_dedupe_key d' etype' eid' gen'"
  shows "treatment_id d = treatment_id d' \<and> treatment_version d = treatment_version d' \<and> etype = etype' \<and> eid = eid' \<and> gen = gen'"
proof -
  have "[''treatment'', treatment_to_queue (treatment_id d), etype, eid, gen, treatment_id d, treatment_version d]
      = [''treatment'', treatment_to_queue (treatment_id d'), etype', eid', gen', treatment_id d', treatment_version d']"
    using assms(1,2) treatment_queue_no_colon unfolding treatment_dedupe_key_def
    by (intro py_join_colon_inj) simp_all
  then show ?thesis by simp
qed

section \<open>Dispatching follows the selection\<close>

lemma lookup_treatment_SomeD: "lookup_treatment i v ts = Some t \<Longrightarrow> t \<in> set ts \<and> tr_identity t = i \<and> tr_version t = v"
  by (induction ts) (auto split: if_splits)

lemma lookup_treatment_Some: "t \<in> set ts \<Longrightarrow> \<exists>s. lookup_treatment (tr_identity t) (tr_version t) ts = Some s"
  by (induction ts) auto

text \<open>\<^verbatim>\<open>dispatch_treatment\<close> of a graph enqueues exactly what \<^verbatim>\<open>select_treatment\<close> selects:
  nothing when a conflict or a gate is open or nothing is eligible, and otherwise the one job
  of the first eligible treatment under the graph id as its key, where a duplicate counts as done.\<close>

lemma dispatch_follows_selection:
  "dispatch_treatment_v2 enq snap g ts etype eid db =
    (case select_treatment g ts of
       None \<Rightarrow> Ok (None, db)
     | Some t \<Rightarrow>
         (case enq (graph_manifest snap g (hd (eligible_treatments g)) t etype eid) db of
            Inr (jid, db') \<Rightarrow> Ok (Some jid, db')
          | Inl e \<Rightarrow> (if is_duplicate_key e then Ok (None, db) else Err e)))"
  by (simp add: dispatch_treatment_v2_def select_treatment_def Let_def split: option.splits)

text \<open>Whenever the evaluated graph is free of conflicts and gates and some treatment is
  eligible, a treatment is selected, and a selected treatment is one of the supplied contracts,
  has every requirement met by the evidence, and no external ambiguity is open at all.\<close>

lemma selection_sound_and_complete:
  "(select_treatment (evaluate lib snap goal ts version attempts) ts \<noteq> None \<longleftrightarrow>
      ownership_conflicts (evaluate lib snap goal ts version attempts) = [] \<and> external_effect_ambiguities snap = []
      \<and> eligible_treatments (evaluate lib snap goal ts version attempts) \<noteq> [])
   \<and> (\<forall>t. select_treatment (evaluate lib snap goal ts version attempts) ts = Some t \<and>
        distinct (map (\<lambda>t. (tr_identity t, tr_version t)) ts) \<longrightarrow>
        t \<in> set ts \<and> (\<forall>r\<in>set (requires t).
          fp_result (derive_fingerprint (rq_condition_id r) (assertions snap)) \<in> set (accepted_results r)))"
proof -
  let ?g = "evaluate lib snap goal ts version attempts"
  define relevant where "relevant = filter (relevant_attempt snap ts (graph_condition_hash lib snap goal ts)) attempts"
  have gates: "reconciliation_gates ?g = [] \<longleftrightarrow> external_effect_ambiguities snap = []"
    by (simp add: evaluate_def Let_def)
  have el: "eligible_treatments ?g = map snd (filter fst (map (classify snap relevant) (by_identity ts)))"
    by (simp add: evaluate_def Let_def relevant_def)
  have first: "\<exists>s\<in>set ts. fst (classify snap relevant s) \<and> treatment_id (hd (eligible_treatments ?g)) = tr_identity s
      \<and> treatment_version (hd (eligible_treatments ?g)) = tr_version s" if "eligible_treatments ?g \<noteq> []"
  proof -
    have "hd (eligible_treatments ?g) \<in> set (eligible_treatments ?g)" using that by simp
    then obtain s where "s \<in> set ts" "fst (classify snap relevant s)" "hd (eligible_treatments ?g) = snd (classify snap relevant s)"
      unfolding el by (auto simp: by_identity_def)
    then show ?thesis by (auto simp: classify_disposition)
  qed
  have "select_treatment ?g ts \<noteq> None" if "ownership_conflicts ?g = []" "reconciliation_gates ?g = []" "eligible_treatments ?g \<noteq> []"
    using first[OF that(3)] that lookup_treatment_Some by (fastforce simp: select_treatment_def)
  moreover have "t \<in> set ts \<and> (\<forall>r\<in>set (requires t).
      fp_result (derive_fingerprint (rq_condition_id r) (assertions snap)) \<in> set (accepted_results r))"
    if t: "select_treatment ?g ts = Some t" and d: "distinct (map (\<lambda>t. (tr_identity t, tr_version t)) ts)" for t
  proof -
    have ne: "eligible_treatments ?g \<noteq> []"
      and l: "t \<in> set ts \<and> tr_identity t = treatment_id (hd (eligible_treatments ?g)) \<and> tr_version t = treatment_version (hd (eligible_treatments ?g))"
      using t lookup_treatment_SomeD by (auto simp: select_treatment_def split: if_splits)
    from first[OF ne] obtain s where s: "s \<in> set ts" "fst (classify snap relevant s)" "tr_identity s = tr_identity t" "tr_version s = tr_version t"
      using l by auto
    then have "s = t" using d l by (auto simp: distinct_map inj_on_def)
    with s(2) l show ?thesis by (simp add: classify_eligible unmet_Nil)
  qed
  ultimately show ?thesis unfolding gates[symmetric]
    by (auto simp: select_treatment_def split: if_splits)
qed

section \<open>No treatment is dispatched twice\<close>

lemma dispatch_manifest_simps [simp]:
  "\<not> m_idempotent (dispatch_manifest d eid gen etype p)" "\<not> m_supersede (dispatch_manifest d eid gen etype p)"
  "\<not> m_debounce (dispatch_manifest d eid gen etype p)" "m_max_attempts (dispatch_manifest d eid gen etype p) = 3"
  "m_dedupe_key (dispatch_manifest d eid gen etype p) = Some (treatment_dedupe_key d etype eid gen)"
  by (simp_all add: dispatch_manifest_def manifest_defaults_def)

lemma scoped_key_Some [simp]: "\<exists>y. scope_ebay_dedupe_key (Some k) environment = Some y"
  by (simp add: scope_ebay_dedupe_key_def)

lemma route_manifest_key_Some:
  "route_queue_manifest env q p (Some k) = Ok (q', p', k') \<Longrightarrow> k' \<noteq> None"
  unfolding route_queue_manifest_def Let_def
  by (simp split: sum.splits if_splits option.splits prod.splits) auto

lemma route_key_Some:
  assumes "enqueue_route env prios m payload = Ok r" and "m_dedupe_key m = Some k"
  shows "rt_key r \<noteq> None"
proof (cases "route_queue_manifest env (logical_queue_name (m_queue_name m)) payload (m_dedupe_key m)")
  case (Inr t)
  moreover obtain q p k' where t: "t = (q, p, k')" by (cases t)
  ultimately have "k' \<noteq> None" using assms(2) route_manifest_key_Some by simp
  moreover have "rt_key r = k'"
    using assms(1) Inr t unfolding enqueue_route_def Let_def by (auto split: sum.splits)
  ultimately show ?thesis by simp
qed (use assms(1) in \<open>auto simp: enqueue_route_def Let_def split: sum.splits\<close>)

lemma enqueue_job_OkD:
  assumes "enqueue_job env prios now jid m db = Ok (i, db')" and "\<not> m_idempotent m" "\<not> m_supersede m" "\<not> m_debounce m"
  obtains r where "routed_as env prios m r" "sql_insert (enqueue_row now jid m r (rt_key r)) db = Ok (i, db')"
  using assms by (auto simp: enqueue_job_def routed_as_def split: sum.splits)


definition sample_dispatch :: "queue_db \<Rightarrow> uuid \<Rightarrow> time \<Rightarrow> (dispatch_result \<times> queue_db) result" where
  "sample_dispatch db jid now =
     dispatch_treatment_v4 (enqueue_job ''production'' [] now jid) (disposition_of sample_treatment []) ''A1'' None [] ''item'' db"


end
