(* ===== verification/Ledger_Table.thy ===== *)
theory Ledger_Table
  imports Host_Text
begin

text \<open>
  The tables \<^verbatim>\<open>operator_authorities\<close> and \<^verbatim>\<open>provider_effects\<close> of \<^verbatim>\<open>queue/live_schema.sql\<close>
  and the statements run on them with the constraints they check. The columns of an effect that say
  what is done to what (provider to request) are grouped into one record, because the code
  always hashes and compares them together. A transaction that raises leaves both tables as
  they were; a jsonb column returns the value that was stored.
\<close>

section \<open>The rows\<close>

record operator_authority =
  authority_id :: uuid
  operator_identity :: string
  surface :: string
  oa_entity_id :: string
  oa_goal_profile_id :: string
  oa_goal_profile_version :: string
  oa_object_generation :: string
  pre_authority_condition_hash :: string
  content_identity :: string
  provider_identity :: string
  scopes :: "string list"
  issued_at :: time
  expires_at :: time
  superseded_at :: "time option"
  superseded_by :: "string option"

datatype effect_state =
    Eff_reserved
  | Eff_dispatched
  | Eff_succeeded
  | Eff_rejected
  | Eff_ambiguous
  | Eff_reconciliation_required

record effect_binding =
  eb_provider :: string
  eb_operation :: string
  eb_entity_type :: string
  eb_entity_id :: string
  eb_object_generation :: string
  eb_graph_id :: string
  eb_treatment_id :: string
  eb_treatment_version :: string
  eb_condition_hash :: string
  eb_request :: jobj

record effect_row =
  er_effect_id :: string
  er_binding :: effect_binding
  er_authority_json :: jobj
  er_state :: effect_state
  er_result_json :: "jobj option"
  er_error_detail :: "string option"
  er_created_at :: time
  er_updated_at :: time
  er_dispatched_at :: "time option"
  er_finished_at :: "time option"

record ledger =
  authorities :: "operator_authority list"
  effects :: "effect_row list"

definition empty_ledger :: ledger where
  "empty_ledger = \<lparr>authorities = [], effects = []\<rparr>"

section \<open>Constraints\<close>

definition unresolved_states :: "effect_state list" where
  "unresolved_states = [Eff_reserved, Eff_dispatched, Eff_ambiguous, Eff_reconciliation_required]"

text \<open>The states after the request may have left for the provider.\<close>

definition in_flight_states :: "effect_state list" where
  "in_flight_states = [Eff_dispatched, Eff_ambiguous, Eff_reconciliation_required]"

definition effect_scope :: "effect_binding \<Rightarrow> string \<times> string \<times> string \<times> string" where
  "effect_scope b = (eb_provider b, eb_operation b, eb_entity_type b, eb_entity_id b)"

definition unresolved_in :: "string \<times> string \<times> string \<times> string \<Rightarrow> effect_row \<Rightarrow> bool" where
  "unresolved_in sc r = (effect_scope (er_binding r) = sc \<and> er_state r \<in> set unresolved_states)"

definition generation_key :: "effect_row \<Rightarrow> (string \<times> string \<times> string \<times> string) \<times> string" where
  "generation_key r = (effect_scope (er_binding r), eb_object_generation (er_binding r))"

definition effects_violation :: "effect_row list \<Rightarrow> py_error option" where
  "effects_violation es =
     (if \<not> list_all (\<lambda>r. hex64 (er_effect_id r)) es then Some (CheckViolation ''provider_effects'')
      else if \<not> distinct (map er_effect_id es) then Some (UniqueViolation ''provider_effects_pkey'')
      else if \<not> distinct (map generation_key es) then Some (UniqueViolation ''provider_effects_generation_key'')
      else if \<not> distinct (map (\<lambda>r. effect_scope (er_binding r)) (filter (\<lambda>r. er_state r \<in> set unresolved_states) es))
      then Some (UniqueViolation ''uq_provider_effects_unresolved_entity'')
      else None)"

definition authorities_violation :: "operator_authority list \<Rightarrow> py_error option" where
  "authorities_violation as =
     (if \<not> list_all (\<lambda>a. expires_at a > issued_at a \<and> scopes a \<noteq> []) as then Some (CheckViolation ''operator_authorities'')
      else if \<not> distinct (map authority_id as) then Some (UniqueViolation ''operator_authorities_pkey'')
      else None)"

definition ledger_ok :: "ledger \<Rightarrow> bool" where
  "ledger_ok l = (effects_violation (effects l) = None \<and> authorities_violation (authorities l) = None)"

section \<open>Statements\<close>

definition put_effects :: "effect_row list \<Rightarrow> ledger \<Rightarrow> ledger result" where
  "put_effects es l = (case effects_violation es of None \<Rightarrow> Ok (l\<lparr>effects := es\<rparr>) | Some e \<Rightarrow> Err e)"

definition put_authorities :: "operator_authority list \<Rightarrow> ledger \<Rightarrow> ledger result" where
  "put_authorities as l = (case authorities_violation as of None \<Rightarrow> Ok (l\<lparr>authorities := as\<rparr>) | Some e \<Rightarrow> Err e)"

definition effect_insert :: "effect_row \<Rightarrow> ledger \<Rightarrow> (effect_row \<times> ledger) result" where
  "effect_insert r l = (case put_effects (effects l @ [r]) l of Inl e \<Rightarrow> Err e | Inr l' \<Rightarrow> Ok (r, l'))"

text \<open>\<^verbatim>\<open>UPDATE provider_effects SET f WHERE effect_id=... AND state IN ... RETURNING *\<close> with its
  \<^verbatim>\<open>fetchone()\<close>: the id is the primary key, so at most one row is returned.\<close>

definition effect_update ::
  "string \<Rightarrow> effect_state list \<Rightarrow> (effect_row \<Rightarrow> effect_row) \<Rightarrow> ledger \<Rightarrow> (effect_row option \<times> ledger) result" where
  "effect_update eid sts f l =
     (let p = (\<lambda>r. er_effect_id r = eid \<and> er_state r \<in> set sts)
      in case put_effects (map (\<lambda>r. if p r then f r else r) (effects l)) l of
           Inl e \<Rightarrow> Err e
         | Inr l' \<Rightarrow> Ok (map_option f (find p (effects l)), l'))"

definition effect_by_id :: "string \<Rightarrow> ledger \<Rightarrow> effect_row option" where
  "effect_by_id eid l = find (\<lambda>r. er_effect_id r = eid) (effects l)"

definition authority_row :: "uuid \<Rightarrow> ledger \<Rightarrow> operator_authority option" where
  "authority_row aid l = find (\<lambda>a. authority_id a = aid) (authorities l)"

end
