(* ===== verification/Operator_Authority.thy ===== *)
theory Operator_Authority
  imports Ledger_Table
begin

text \<open>
  \<^verbatim>\<open>workflow/operator_authority.py\<close>: the operator's durable permission for provider effects. An
  authority is issued for one exact binding, replaces the older intent of the same operator for
  the same item, and stays valid until it is superseded. The lemmas say what each operation
  does to the table on every branch.
\<close>

section \<open>Identities and bindings\<close>

definition SCOPES :: "string list" where
  "SCOPES = [''upload'', ''stage'', ''publish'', ''force-restage'', ''withdraw'']"

definition listing_content_identity :: "pylib \<Rightarrow> jobj \<Rightarrow> string" where
  "listing_content_identity lib item =
     hash_json lib (JObj (map (\<lambda>key. (key, jget item key))
       [''condition'', ''draft_listing'', ''ebay_category_id'', ''ebay_photos'', ''item_specifics'', ''title'']))"

text \<open>The keyword arguments of \<^verbatim>\<open>validate_authority\<close> that bind an authority to its subject; the
  provider workers pass them as one dictionary with these keys in this order.\<close>

record authority_binding =
  ab_entity_id :: string
  ab_goal_profile_id :: string
  ab_goal_profile_version :: string
  ab_object_generation :: string
  ab_pre_authority_condition_hash :: string
  ab_content_identity :: string
  ab_provider_identity :: string

definition binding_items :: "authority_binding \<Rightarrow> (string \<times> string) list" where
  "binding_items b =
     [(''entity_id'', ab_entity_id b), (''goal_profile_id'', ab_goal_profile_id b),
      (''goal_profile_version'', ab_goal_profile_version b), (''object_generation'', ab_object_generation b),
      (''pre_authority_condition_hash'', ab_pre_authority_condition_hash b),
      (''content_identity'', ab_content_identity b), (''provider_identity'', ab_provider_identity b)]"

definition binding_of :: "operator_authority \<Rightarrow> authority_binding" where
  "binding_of a =
     \<lparr>ab_entity_id = oa_entity_id a, ab_goal_profile_id = oa_goal_profile_id a,
      ab_goal_profile_version = oa_goal_profile_version a, ab_object_generation = oa_object_generation a,
      ab_pre_authority_condition_hash = pre_authority_condition_hash a,
      ab_content_identity = content_identity a, ab_provider_identity = provider_identity a\<rparr>"

record authority_request =
  rq_operator :: string
  rq_surface :: string
  rq_binding :: authority_binding
  rq_scopes :: "string list"
  rq_issued_at :: py_datetime
  rq_expires_at :: py_datetime

definition request_values :: "authority_request \<Rightarrow> string list" where
  "request_values q = rq_operator q # rq_surface q # map snd (binding_items (rq_binding q))"

text \<open>Both time stamps aware and increasing.\<close>

definition aware_window :: "authority_request \<Rightarrow> (time \<times> time) result" where
  "aware_window q =
     (case (rq_issued_at q, rq_expires_at q) of
        (Aware i, Aware e) \<Rightarrow>
          (if e \<le> i then Err (ValueError ''authority timestamps must be aware and increasing'') else Ok (i, e))
      | _ \<Rightarrow> Err (ValueError ''authority timestamps must be aware and increasing''))"

definition authority_of :: "uuid \<Rightarrow> authority_request \<Rightarrow> time \<times> time \<Rightarrow> operator_authority" where
  "authority_of aid q w =
     \<lparr>authority_id = aid, operator_identity = rq_operator q, surface = rq_surface q,
      oa_entity_id = ab_entity_id (rq_binding q), oa_goal_profile_id = ab_goal_profile_id (rq_binding q),
      oa_goal_profile_version = ab_goal_profile_version (rq_binding q),
      oa_object_generation = ab_object_generation (rq_binding q),
      pre_authority_condition_hash = ab_pre_authority_condition_hash (rq_binding q),
      content_identity = ab_content_identity (rq_binding q), provider_identity = ab_provider_identity (rq_binding q),
      scopes = sorted_set (rq_scopes q), issued_at = fst w, expires_at = snd w,
      superseded_at = None, superseded_by = None\<rparr>"

section \<open>Issuing\<close>

definition issue_authority :: "uuid \<Rightarrow> authority_request \<Rightarrow> ledger \<Rightarrow> (uuid \<times> ledger) result" where
  "issue_authority aid q l =
     (if \<not> list_all non_blank (request_values q) then Err (ValueError ''authority bindings must be non-empty'')
      else if rq_scopes q = [] \<or> \<not> set (rq_scopes q) \<subseteq> set SCOPES then Err (ValueError ''invalid authority scopes'')
      else (case aware_window q of
              Inl e \<Rightarrow> Err e
            | Inr w \<Rightarrow>
                (case put_authorities (authorities l @ [authority_of aid q w]) l of
                   Inl e \<Rightarrow> Err e
                 | Inr l' \<Rightarrow> Ok (aid, l'))))"

text \<open>\<^verbatim>\<open>value->>'authority_id'\<close>: the text of a string or of a number; the text of any other value is
  not an identity.\<close>

fun identity_text :: "json \<Rightarrow> string option" where
  "identity_text (JStr s) = Some s"
| "identity_text (JInt i) = Some (show_int i)"
| "identity_text (JFloat r) = (if of_int \<lfloor>r\<rfloor> = r then Some (show_int \<lfloor>r\<rfloor>) else None)"
| "identity_text _ = None"

definition has_in_flight_effect :: "string \<Rightarrow> ledger \<Rightarrow> bool" where
  "has_in_flight_effect aid l =
     list_ex (\<lambda>r. identity_text (jget (er_authority_json r) ''authority_id'') = Some aid \<and> er_state r \<in> set in_flight_states)
       (effects l)"

text \<open>\<^verbatim>\<open>UPDATE operator_authorities SET superseded_at=NOW(), superseded_by=... WHERE authority_id=...
  AND superseded_at IS NULL\<close>, with the number of rows; no constraint reads these columns.\<close>

definition mark_superseded :: "time \<Rightarrow> string \<Rightarrow> uuid \<Rightarrow> ledger \<Rightarrow> nat \<times> ledger" where
  "mark_superseded now by_id aid l =
     (let p = (\<lambda>a. authority_id a = aid \<and> superseded_at a = None)
      in (length (filter p (authorities l)),
          l\<lparr>authorities := map (\<lambda>a. if p a then a\<lparr>superseded_at := Some now, superseded_by := Some by_id\<rparr> else a) (authorities l)\<rparr>))"

definition exact_match :: "time \<Rightarrow> authority_request \<Rightarrow> operator_authority \<Rightarrow> bool" where
  "exact_match now q a =
     (operator_identity a = rq_operator q \<and> surface a = rq_surface q \<and> binding_of a = rq_binding q
      \<and> scopes a = sorted_set (rq_scopes q) \<and> superseded_at a = None \<and> expires_at a > now)"

definition same_intent :: "authority_request \<Rightarrow> operator_authority \<Rightarrow> bool" where
  "same_intent q a =
     (operator_identity a = rq_operator q \<and> surface a = rq_surface q \<and> oa_entity_id a = ab_entity_id (rq_binding q)
      \<and> oa_goal_profile_id a = ab_goal_profile_id (rq_binding q)
      \<and> provider_identity a = ab_provider_identity (rq_binding q))"

fun supersede_all :: "time \<Rightarrow> uuid \<Rightarrow> uuid list \<Rightarrow> ledger \<Rightarrow> ledger result" where
  "supersede_all now aid [] l = Ok l"
| "supersede_all now aid (c # cs) l =
     (if has_in_flight_effect c l then Err (RuntimeError ''prior operator authority has an unresolved provider effect'')
      else supersede_all now aid cs (snd (mark_superseded now aid c l)))"

definition issue_or_reuse_authority :: "time \<Rightarrow> uuid \<Rightarrow> authority_request \<Rightarrow> ledger \<Rightarrow> ((uuid \<times> bool) \<times> ledger) result" where
  "issue_or_reuse_authority now aid q l =
     (if rq_scopes q = [] \<or> \<not> set (rq_scopes q) \<subseteq> set SCOPES then Err (ValueError ''invalid authority scopes'')
      else (case aware_window q of
              Inl e \<Rightarrow> Err e
            | Inr w \<Rightarrow>
                (case find (exact_match now q) (authorities l) of
                   Some a \<Rightarrow> Ok ((authority_id a, False), l)
                 | None \<Rightarrow>
                     (case supersede_all now aid
                             (map authority_id (filter (\<lambda>a. same_intent q a \<and> superseded_at a = None) (authorities l))) l of
                        Inl e \<Rightarrow> Err e
                      | Inr l1 \<Rightarrow>
                          (case put_authorities (authorities l1 @ [authority_of aid q w]) l1 of
                             Inl e \<Rightarrow> Err e
                           | Inr l2 \<Rightarrow> Ok ((aid, True), l2))))))"

section \<open>Reading, superseding and validating\<close>

definition get_authority :: "string \<Rightarrow> ledger \<Rightarrow> operator_authority option result" where
  "get_authority aid l =
     (if \<not> uuid_ok aid then Ok None
      else (case pg_uuid aid of
              None \<Rightarrow> Err (DatabaseError ''invalid input syntax for type uuid'')
            | Some a \<Rightarrow> Ok (authority_row a l)))"

definition supersede_authority :: "time \<Rightarrow> string \<Rightarrow> string \<Rightarrow> ledger \<Rightarrow> (bool \<times> ledger) result" where
  "supersede_authority now aid by_id l =
     (if \<not> non_blank by_id then Err (ValueError ''superseding authority identity required'')
      else (case pg_uuid aid of
              None \<Rightarrow> Err (DatabaseError ''invalid input syntax for type uuid'')
            | Some a \<Rightarrow>
                (case authority_row a l of
                   None \<Rightarrow> Ok (False, l)
                 | Some row \<Rightarrow>
                     (if superseded_at row \<noteq> None then Ok (False, l)
                      else if has_in_flight_effect aid l then Ok (False, l)
                      else (let (n, l') = mark_superseded now by_id a l in Ok (n = 1, l'))))))"

definition validate_authority ::
  "string option \<Rightarrow> authority_binding \<Rightarrow> string \<Rightarrow> (string \<Rightarrow> operator_authority option result) \<Rightarrow>
   (operator_authority option \<times> string) result" where
  "validate_authority aid b scope lookup =
     (case aid of
        None \<Rightarrow> Ok (None, ''operator authority absent'')
      | Some i \<Rightarrow>
          (if i = [] then Ok (None, ''operator authority absent'')
           else (case lookup i of
                   Inl e \<Rightarrow> Err e
                 | Inr None \<Rightarrow> Ok (None, ''operator authority absent or superseded'')
                 | Inr (Some a) \<Rightarrow>
                     (if superseded_at a \<noteq> None then Ok (None, ''operator authority absent or superseded'')
                      else if binding_of a \<noteq> b \<or> scope \<notin> set (scopes a) then Ok (None, ''operator authority binding mismatch'')
                      else Ok (Some a, ''operator authority exact durable binding valid'')))))"

definition validate_provider_effect_authority ::
  "string \<Rightarrow> authority_binding \<Rightarrow> string \<Rightarrow> ledger \<Rightarrow> (operator_authority option \<times> string) result" where
  "validate_provider_effect_authority aid b scope l = validate_authority (Some aid) b scope (\<lambda>i. get_authority i l)"

end
