(* ===== verification/Provider_Effects.thy ===== *)
theory Provider_Effects
  imports Operator_Authority
begin

text \<open>
  \<^verbatim>\<open>provider_effects.py\<close>: the ledger of externally visible effects. An effect is reserved and
  marked as dispatched in the transaction that checks the operator's authority, before the
  request leaves; afterwards it can only be finished or reconciled.
\<close>

section \<open>Records and identities\<close>

record provider_effect =
  pe_effect_id :: string
  pe_binding :: effect_binding
  pe_authority :: jobj
  pe_state :: effect_state
  pe_result :: "jobj option"
  pe_error_detail :: string

text \<open>\<^verbatim>\<open>_record\<close>: an empty result object reads as no result.\<close>

definition effect_record :: "effect_row \<Rightarrow> provider_effect" where
  "effect_record r =
     \<lparr>pe_effect_id = er_effect_id r, pe_binding = er_binding r, pe_authority = er_authority_json r, pe_state = er_state r,
      pe_result = (case er_result_json r of Some (e # d) \<Rightarrow> Some (e # d) | _ \<Rightarrow> None),
      pe_error_detail = (case er_error_detail r of None \<Rightarrow> [] | Some s \<Rightarrow> s)\<rparr>"

definition binding_json :: "effect_binding \<Rightarrow> jobj" where
  "binding_json b =
     [(''provider'', JStr (eb_provider b)), (''operation'', JStr (eb_operation b)), (''entity_type'', JStr (eb_entity_type b)),
      (''entity_id'', JStr (eb_entity_id b)), (''object_generation'', JStr (eb_object_generation b)),
      (''graph_id'', JStr (eb_graph_id b)), (''treatment_id'', JStr (eb_treatment_id b)),
      (''treatment_version'', JStr (eb_treatment_version b)), (''condition_hash'', JStr (eb_condition_hash b)),
      (''request'', JObj (eb_request b))]"

definition effect_identity :: "pylib \<Rightarrow> jobj \<Rightarrow> jobj \<Rightarrow> string" where
  "effect_identity lib binding authority = hash_json lib (JObj (binding @ [(''authority'', JObj authority)]))"

text \<open>\<open>isofmt\<close> is \<^verbatim>\<open>datetime.isoformat\<close> of a time stamp in the time zone of the database session.\<close>

definition authority_json :: "(time \<Rightarrow> string) \<Rightarrow> operator_authority \<Rightarrow> jobj" where
  "authority_json isofmt a =
     [(''authority_id'', JStr (authority_id a)), (''operator_identity'', JStr (operator_identity a)),
      (''surface'', JStr (surface a)), (''entity_id'', JStr (oa_entity_id a)),
      (''goal_profile_id'', JStr (oa_goal_profile_id a)), (''goal_profile_version'', JStr (oa_goal_profile_version a)),
      (''object_generation'', JStr (oa_object_generation a)),
      (''pre_authority_condition_hash'', JStr (pre_authority_condition_hash a)),
      (''content_identity'', JStr (content_identity a)), (''provider_identity'', JStr (provider_identity a)),
      (''scopes'', JList (map JStr (scopes a))), (''issued_at'', JStr (isofmt (issued_at a))),
      (''expires_at'', JStr (isofmt (expires_at a))),
      (''superseded_at'', (case superseded_at a of None \<Rightarrow> JNull | Some t \<Rightarrow> JStr (isofmt t))),
      (''superseded_by'', (case superseded_by a of None \<Rightarrow> JNull | Some s \<Rightarrow> JStr s))]"

text \<open>\<^verbatim>\<open>scope in stored.get("scopes", ())\<close>: membership in a list, of a key in an object, of a part in a
  string; other values are not containers.\<close>

fun json_in :: "string \<Rightarrow> json \<Rightarrow> bool result" where
  "json_in s (JList xs) = Ok (JStr s \<in> set xs)"
| "json_in s (JStr t) = Ok (contains_sub s t)"
| "json_in s (JObj d) = Ok (has_key d s)"
| "json_in s _ = Err (TypeError ''argument is not iterable'')"

definition historical_effect_matches ::
  "pylib \<Rightarrow> provider_effect \<Rightarrow> string \<Rightarrow> string \<Rightarrow> authority_binding \<Rightarrow> jobj \<Rightarrow> bool result" where
  "historical_effect_matches lib rec aid scope ab binding =
     (let stored = pe_authority rec in
      if jget stored ''authority_id'' \<noteq> JStr aid then Ok False
      else (case json_in scope (if has_key stored ''scopes'' then jget stored ''scopes'' else JList []) of
              Inl e \<Rightarrow> Err e
            | Inr False \<Rightarrow> Ok False
            | Inr True \<Rightarrow>
                (if list_ex (\<lambda>(k, v). jget stored k \<noteq> JStr v) (binding_items ab) then Ok False
                 else Ok (pe_effect_id rec = effect_identity lib binding stored))))"

definition reconciliation_required :: "provider_effect \<Rightarrow> py_error" where
  "reconciliation_required rec =
     ProviderEffectReconciliationRequired (''provider effect '' @ pe_effect_id rec @ '' requires reconciliation'')"

section \<open>Reserving and dispatching\<close>

definition new_effect :: "time \<Rightarrow> string \<Rightarrow> effect_binding \<Rightarrow> jobj \<Rightarrow> effect_state \<Rightarrow> time option \<Rightarrow> effect_row" where
  "new_effect now eid b auth st sent =
     \<lparr>er_effect_id = eid, er_binding = b, er_authority_json = auth, er_state = st, er_result_json = None,
      er_error_detail = None, er_created_at = now, er_updated_at = now, er_dispatched_at = sent, er_finished_at = None\<rparr>"

definition dispatch_row :: "time \<Rightarrow> effect_row \<Rightarrow> effect_row" where
  "dispatch_row now r = r\<lparr>er_state := Eff_dispatched, er_dispatched_at := Some now, er_updated_at := now\<rparr>"

definition unresolved_effect :: "effect_binding \<Rightarrow> ledger \<Rightarrow> effect_row option" where
  "unresolved_effect b l = find (unresolved_in (effect_scope b)) (effects l)"

definition generation_effect :: "effect_binding \<Rightarrow> ledger \<Rightarrow> effect_row option" where
  "generation_effect b l =
     find (\<lambda>r. effect_scope (er_binding r) = effect_scope b \<and> eb_object_generation (er_binding r) = eb_object_generation b) (effects l)"

text \<open>\<^verbatim>\<open>validate_authority\<close> on the authority that the transaction has locked.\<close>

definition locked_authority ::
  "operator_authority option \<Rightarrow> string \<Rightarrow> string \<Rightarrow> authority_binding \<Rightarrow> operator_authority result" where
  "locked_authority authority aid scope ab =
     (case validate_authority (Some aid) ab scope (\<lambda>_. Ok authority) of
        Inl e \<Rightarrow> Err e
      | Inr (None, detail) \<Rightarrow> Err (ProviderEffectConflict (''operator authority invalid: '' @ detail))
      | Inr (Some a, _) \<Rightarrow> Ok a)"

definition reserve_and_begin_authorized_effect ::
  "pylib \<Rightarrow> (time \<Rightarrow> string) \<Rightarrow> time \<Rightarrow> string \<Rightarrow> string \<Rightarrow> authority_binding \<Rightarrow> effect_binding \<Rightarrow> ledger \<Rightarrow>
   (provider_effect \<times> ledger) result" where
  "reserve_and_begin_authorized_effect lib isofmt now aid scope ab b l =
     (case get_authority aid l of
        Inl e \<Rightarrow> Err e
      | Inr authority \<Rightarrow>
          (case unresolved_effect b l of
             Some row \<Rightarrow>
               (case historical_effect_matches lib (effect_record row) aid scope ab (binding_json b) of
                  Inl e \<Rightarrow> Err e
                | Inr False \<Rightarrow> Err (ProviderEffectConflict ''provider effect entity has unresolved work'')
                | Inr True \<Rightarrow>
                    (if er_state row \<noteq> Eff_reserved then Err (reconciliation_required (effect_record row))
                     else (case locked_authority authority aid scope ab of
                             Inl e \<Rightarrow> Err e
                           | Inr _ \<Rightarrow>
                               (case effect_update (er_effect_id row) [Eff_reserved] (dispatch_row now) l of
                                  Inl e \<Rightarrow> Err e
                                | Inr (None, _) \<Rightarrow> Err (TypeError ''NoneType'')
                                | Inr (Some r, l') \<Rightarrow> Ok (effect_record r, l')))))
           | None \<Rightarrow>
               (case generation_effect b l of
                  Some row \<Rightarrow>
                    (case historical_effect_matches lib (effect_record row) aid scope ab (binding_json b) of
                       Inl e \<Rightarrow> Err e
                     | Inr False \<Rightarrow> Err (ProviderEffectConflict ''provider effect binding mismatch'')
                     | Inr True \<Rightarrow>
                         (if er_state row \<in> {Eff_succeeded, Eff_rejected} then Ok (effect_record row, l)
                          else Err (reconciliation_required (effect_record row))))
                | None \<Rightarrow>
                    (case locked_authority authority aid scope ab of
                       Inl e \<Rightarrow> Err e
                     | Inr a \<Rightarrow>
                         (case effect_insert (new_effect now (effect_identity lib (binding_json b) (authority_json isofmt a)) b
                                  (authority_json isofmt a) Eff_dispatched (Some now)) l of
                            Inl e \<Rightarrow> Err e
                          | Inr (r, l') \<Rightarrow> Ok (effect_record r, l'))))))"

definition reserve_provider_effect ::
  "pylib \<Rightarrow> time \<Rightarrow> effect_binding \<Rightarrow> jobj \<Rightarrow> ledger \<Rightarrow> (provider_effect \<times> ledger) result" where
  "reserve_provider_effect lib now b authority l =
     (let eid = effect_identity lib (binding_json b) authority in
      case unresolved_effect b l of
        Some row \<Rightarrow>
          (if er_effect_id row \<noteq> eid then Err (ProviderEffectConflict ''provider effect entity has an unresolved reservation'')
           else Ok (effect_record row, l))
      | None \<Rightarrow>
          (case generation_effect b l of
             Some row \<Rightarrow>
               (if er_effect_id row \<noteq> eid
                then Err (ProviderEffectConflict ''provider effect scope already has a different exact binding'')
                else Ok (effect_record row, l))
           | None \<Rightarrow>
               (case effect_insert (new_effect now eid b authority Eff_reserved None) l of
                  Inl e \<Rightarrow> Err e
                | Inr (r, l') \<Rightarrow> Ok (effect_record r, l'))))"

definition begin_provider_dispatch :: "time \<Rightarrow> string \<Rightarrow> ledger \<Rightarrow> (provider_effect \<times> ledger) result" where
  "begin_provider_dispatch now eid l =
     (case effect_update eid [Eff_reserved] (dispatch_row now) l of
        Inl e \<Rightarrow> Err e
      | Inr (Some r, l') \<Rightarrow> Ok (effect_record r, l')
      | Inr (None, l') \<Rightarrow>
          (case effect_by_id eid l' of
             None \<Rightarrow> Err (KeyError eid)
           | Some row \<Rightarrow>
               (if er_state row = Eff_succeeded then Ok (effect_record row, l')
                else Err (reconciliation_required (effect_record row)))))"

section \<open>Finishing and reconciling\<close>

fun outcome_state :: "string \<Rightarrow> effect_state option" where
  "outcome_state s =
     (if s = ''succeeded'' then Some Eff_succeeded else if s = ''rejected'' then Some Eff_rejected
      else if s = ''ambiguous'' then Some Eff_ambiguous
      else if s = ''reconciliation_required'' then Some Eff_reconciliation_required else None)"

definition finish_row :: "time \<Rightarrow> effect_state \<Rightarrow> jobj option \<Rightarrow> string \<Rightarrow> effect_row \<Rightarrow> effect_row" where
  "finish_row now st res err r =
     r\<lparr>er_state := st, er_result_json := res, er_error_detail := Some err, er_finished_at := Some now, er_updated_at := now\<rparr>"

text \<open>An update whose condition no longer holds is a conflict.\<close>

definition effect_advance ::
  "string \<Rightarrow> effect_state list \<Rightarrow> (effect_row \<Rightarrow> effect_row) \<Rightarrow> string \<Rightarrow> ledger \<Rightarrow> (provider_effect \<times> ledger) result" where
  "effect_advance eid sts f msg l =
     (case effect_update eid sts f l of
        Inl e \<Rightarrow> Err e
      | Inr (None, _) \<Rightarrow> Err (ProviderEffectConflict msg)
      | Inr (Some r, l') \<Rightarrow> Ok (effect_record r, l'))"

definition finish_provider_effect ::
  "time \<Rightarrow> string \<Rightarrow> string \<Rightarrow> jobj option \<Rightarrow> string \<Rightarrow> ledger \<Rightarrow> (provider_effect \<times> ledger) result" where
  "finish_provider_effect now eid st res err l =
     (case outcome_state st of
        None \<Rightarrow> Err (ValueError ''invalid provider effect outcome'')
      | Some s \<Rightarrow>
          effect_advance eid [Eff_dispatched] (finish_row now s res (py_take 2000 err))
            (''effect '' @ eid @ '' is not in dispatched state'') l)"

text \<open>\<^verbatim>\<open>str(value or "")\<close>; \<open>txt_of\<close> gives the text of a list or an object.\<close>

definition detail_text :: "pylib \<Rightarrow> (json \<Rightarrow> string) \<Rightarrow> json \<Rightarrow> string" where
  "detail_text lib txt_of v =
     (if \<not> truthy v then []
      else (case v of JStr s \<Rightarrow> s | JInt i \<Rightarrow> show_int i | JBool b \<Rightarrow> ''True'' | JFloat r \<Rightarrow> float_repr lib r | _ \<Rightarrow> txt_of v))"

definition finish_reconciliation_required ::
  "pylib \<Rightarrow> (json \<Rightarrow> string) \<Rightarrow> time \<Rightarrow> string \<Rightarrow> jobj \<Rightarrow> ledger \<Rightarrow> (provider_effect \<times> ledger) result" where
  "finish_reconciliation_required lib txt_of now eid obs l =
     effect_advance eid in_flight_states
       (\<lambda>r. r\<lparr>er_state := Eff_reconciliation_required, er_result_json := Some obs,
              er_error_detail := Some (py_take 2000 (detail_text lib txt_of (jget obs ''detail''))), er_updated_at := now\<rparr>)
       ''effect changed during reconciliation'' l"

text \<open>\<open>l1\<close> is the ledger that the first transaction reads and \<open>l\<close> the ledger when the second one
  starts, after the provider has been asked; \<open>observe\<close> is the read-only callback.\<close>

definition reconcile_provider_effect ::
  "pylib \<Rightarrow> (json \<Rightarrow> string) \<Rightarrow> (provider_effect \<Rightarrow> jobj result) \<Rightarrow> time \<Rightarrow> string \<Rightarrow> ledger \<Rightarrow> ledger \<Rightarrow>
   (provider_effect \<times> ledger) result" where
  "reconcile_provider_effect lib txt_of observe now eid l1 l =
     (case effect_by_id eid l1 of
        None \<Rightarrow> Err (KeyError eid)
      | Some row \<Rightarrow>
          (if er_state row = Eff_succeeded then Ok (effect_record row, l)
           else if er_state row \<notin> set in_flight_states then Err (ProviderEffectConflict (''effect '' @ eid @ '' is not reconcilable''))
           else (case observe (effect_record row) of
                   Inl e \<Rightarrow> Err e
                 | Inr obs \<Rightarrow>
                     (if jget obs ''outcome'' = JStr ''succeeded'' then
                        effect_advance eid in_flight_states (finish_row now Eff_succeeded (Some obs) [])
                          ''effect changed during reconciliation'' l
                      else if jget obs ''outcome'' = JStr ''not_applied'' then
                        effect_advance eid in_flight_states
                          (finish_row now Eff_rejected (Some obs) (py_take 2000 (detail_text lib txt_of (jget obs ''detail''))))
                          ''effect changed during reconciliation'' l
                      else finish_reconciliation_required lib txt_of now eid obs l))))"

section \<open>Evidence lookups\<close>

definition authority_attribute :: "operator_authority \<Rightarrow> authority_binding \<Rightarrow> unit result" where
  "authority_attribute a ab =
     (case find (\<lambda>((_, v), (_, w)). v \<noteq> w) (zip (binding_items (binding_of a)) (binding_items ab)) of
        None \<Rightarrow> Ok ()
      | Some ((key, _), _) \<Rightarrow> Err (ProviderEffectConflict (''operator authority '' @ key @ '' mismatch'')))"

definition validate_succeeded_authorized_effect ::
  "pylib \<Rightarrow> string \<Rightarrow> string \<Rightarrow> string \<Rightarrow> authority_binding \<Rightarrow> jobj \<Rightarrow> ledger \<Rightarrow> provider_effect result" where
  "validate_succeeded_authorized_effect lib eid aid scope ab expected l =
     (case get_authority aid l of
        Inl e \<Rightarrow> Err e
      | Inr None \<Rightarrow> Err (ProviderEffectConflict ''operator authority absent'')
      | Inr (Some a) \<Rightarrow>
          (case authority_attribute a ab of
             Inl e \<Rightarrow> Err e
           | Inr _ \<Rightarrow>
               (case effect_by_id eid l of
                  None \<Rightarrow> Err (ProviderEffectConflict ''provider effect absent'')
                | Some row \<Rightarrow>
                    (let rec = effect_record row in
                     case historical_effect_matches lib rec aid scope ab expected of
                       Inl e \<Rightarrow> Err e
                     | Inr False \<Rightarrow> Err (ProviderEffectConflict ''provider effect identity mismatch'')
                     | Inr True \<Rightarrow>
                         (if pe_state rec \<noteq> Eff_succeeded \<or> pe_result rec = None then Err (reconciliation_required rec)
                          else Ok rec)))))"

definition record_result :: "provider_effect \<Rightarrow> jobj" where
  "record_result rec = (case pe_result rec of None \<Rightarrow> [] | Some d \<Rightarrow> d)"

definition lookup_authoritative_stage_receipt ::
  "pylib \<Rightarrow> string \<Rightarrow> string \<Rightarrow> string \<Rightarrow> string \<Rightarrow> string \<Rightarrow> ledger \<Rightarrow> (string \<times> string) list result" where
  "lookup_authoritative_stage_receipt lib sku eid stage_content offer_id expected_provider l =
     (case effect_by_id eid l of
        None \<Rightarrow> Err (ProviderEffectConflict ''stage provider effect absent'')
      | Some row \<Rightarrow>
          (let rec = effect_record row; b = pe_binding rec in
           if effect_identity lib (binding_json b) (pe_authority rec) \<noteq> eid
           then Err (ProviderEffectConflict ''stage provider effect identity mismatch'')
           else if eb_provider b \<noteq> ''ebay'' \<or> eb_operation b \<noteq> ''stage-draft'' \<or> eb_entity_type b \<noteq> ''item''
             \<or> eb_entity_id b \<noteq> sku \<or> pe_state rec \<noteq> Eff_succeeded \<or> pe_result rec = None
           then Err (ProviderEffectConflict ''stage provider effect is not exact succeeded evidence'')
           else if jget (pe_authority rec) ''provider_identity'' \<noteq> JStr expected_provider
           then Err (ProviderEffectConflict ''stage provider identity does not match authority'')
           else if jget (eb_request b) ''content_identity'' \<noteq> JStr stage_content
             \<or> jget (record_result rec) ''offer_id'' \<noteq> JStr offer_id
           then Err (ProviderEffectConflict ''canonical stage evidence does not match provider receipt'')
           else Ok [(''receipt_id'', pe_effect_id rec), (''content_identity'', stage_content), (''offer_id'', offer_id)]))"

definition default_operations :: "string list" where
  "default_operations = [''stage-draft'', ''publish-offer'']"

definition bound_offer :: "provider_effect \<Rightarrow> json result" where
  "bound_offer rec =
     (if eb_operation (pe_binding rec) = ''stage-draft'' then Ok (jget (record_result rec) ''offer_id'')
      else
        (let bound = jget (eb_request (pe_binding rec)) ''offer_id'';
             first = jget (record_result rec) ''offer_id'';
             corroborated = (if truthy first then first else jget (record_result rec) ''offerId'')
         in if truthy corroborated \<and> \<not> py_eq corroborated bound
            then Err (ProviderEffectConflict ''publish result contradicts requested offer'')
            else Ok bound))"

definition resolve_succeeded_provider_effect ::
  "pylib \<Rightarrow> string \<Rightarrow> string \<Rightarrow> string \<Rightarrow> string list \<Rightarrow> ledger \<Rightarrow> (provider_effect \<times> string) result" where
  "resolve_succeeded_provider_effect lib eid sku provider operations l =
     (case effect_by_id eid l of
        None \<Rightarrow> Err (ProviderEffectConflict ''source provider effect absent'')
      | Some row \<Rightarrow>
          (let rec = effect_record row; b = pe_binding rec in
           if effect_identity lib (binding_json b) (pe_authority rec) \<noteq> eid
           then Err (ProviderEffectConflict ''source provider effect identity mismatch'')
           else if eb_provider b \<noteq> ''ebay'' \<or> eb_operation b \<notin> set operations \<or> eb_entity_type b \<noteq> ''item''
             \<or> eb_entity_id b \<noteq> sku \<or> pe_state rec \<noteq> Eff_succeeded
             \<or> jget (pe_authority rec) ''provider_identity'' \<noteq> JStr provider
           then Err (ProviderEffectConflict ''source provider effect binding mismatch'')
           else (case bound_offer rec of
                   Inl e \<Rightarrow> Err e
                 | Inr (JStr s) \<Rightarrow>
                     (if non_blank s then Ok (rec, s) else Err (ProviderEffectConflict ''source provider effect offer mismatch''))
                 | Inr _ \<Rightarrow> Err (ProviderEffectConflict ''source provider effect offer mismatch''))))"

definition lookup_succeeded_provider_effect ::
  "pylib \<Rightarrow> string \<Rightarrow> string \<Rightarrow> string \<Rightarrow> string \<Rightarrow> string list \<Rightarrow> ledger \<Rightarrow> (provider_effect \<times> string) result" where
  "lookup_succeeded_provider_effect lib eid sku provider expected_offer operations l =
     (case resolve_succeeded_provider_effect lib eid sku provider operations l of
        Inl e \<Rightarrow> Err e
      | Inr (rec, offer) \<Rightarrow>
          (if offer \<noteq> expected_offer then Err (ProviderEffectConflict ''source provider effect offer mismatch'') else Ok (rec, offer)))"

end
