(* ===== verification/Ledger_Steps.thy ===== *)
theory Ledger_Steps
  imports Provider_Effects
begin

text \<open>
  The effect ledger as a transition system: one \<open>ledger_step\<close> is one committed transaction of
  \<^verbatim>\<open>provider_effects.py\<close> or \<^verbatim>\<open>operator_authority.py\<close>. The locale \<open>one_way_table\<close> states what a
  table of one-way rows promises (a row is never lost and moves only forward) and concludes that a
  row that cannot move stays as it is. The theorems show that a dispatched effect is never handed
  out again while it is unresolved, that a settled effect never changes, that an authority with an
  effect in flight cannot be superseded, and that every dispatch had a live authority of exactly
  its binding.
\<close>

section \<open>Rows that only move forward\<close>

locale one_way_table =
  fixes sound :: "'l \<Rightarrow> bool" and step :: "'l \<Rightarrow> 'l \<Rightarrow> bool" and row_at :: "'l \<Rightarrow> 'k \<Rightarrow> 'r option"
    and move :: "'r \<Rightarrow> 'r \<Rightarrow> bool"
  assumes sound_step: "sound l \<Longrightarrow> step l l' \<Longrightarrow> sound l'"
    and row_step: "sound l \<Longrightarrow> step l l' \<Longrightarrow> row_at l k = Some r \<Longrightarrow> \<exists>r'. row_at l' k = Some r' \<and> (r' = r \<or> move r r')"
begin

lemma sound_steps: "step\<^sup>*\<^sup>* l l' \<Longrightarrow> sound l \<Longrightarrow> sound l'"
  by (induction rule: rtranclp_induct) (auto intro: sound_step)

lemma row_steps: "step\<^sup>*\<^sup>* l l' \<Longrightarrow> sound l \<Longrightarrow> row_at l k = Some r \<Longrightarrow> \<exists>r'. row_at l' k = Some r' \<and> move\<^sup>*\<^sup>* r r'"
proof (induction rule: rtranclp_induct)
  case base
  then show ?case by auto
next
  case (step l1 l2)
  then obtain r1 where r1: "row_at l1 k = Some r1" "move\<^sup>*\<^sup>* r r1" by blast
  moreover have "sound l1" using step.hyps(1) step.prems(1) by (rule sound_steps)
  ultimately obtain r2 where "row_at l2 k = Some r2" "r2 = r1 \<or> move r1 r2"
    using row_step step.hyps(2) by blast
  with r1(2) show ?case by (auto intro: rtranclp.rtrancl_into_rtrancl)
qed

lemma settled_steps:
  assumes "step\<^sup>*\<^sup>* l l'" and "sound l" and "row_at l k = Some r" and "\<And>r'. \<not> move r r'"
  shows "row_at l' k = Some r"
proof -
  obtain r' where "row_at l' k = Some r'" "move\<^sup>*\<^sup>* r r'" using row_steps[OF assms(1-3)] by blast
  with assms(4) show ?thesis by (metis converse_rtranclpE)
qed

end

section \<open>Steps of the ledger\<close>

definition same_effect :: "effect_row \<Rightarrow> effect_row \<Rightarrow> bool" where
  "same_effect r r' =
     (er_effect_id r' = er_effect_id r \<and> er_binding r' = er_binding r \<and> er_authority_json r' = er_authority_json r
      \<and> er_created_at r' = er_created_at r)"

inductive effect_move :: "effect_row \<Rightarrow> effect_row \<Rightarrow> bool" where
  begin_dispatch: "same_effect r r' \<Longrightarrow> er_state r = Eff_reserved \<Longrightarrow> er_state r' = Eff_dispatched \<Longrightarrow> effect_move r r'"
| settle: "same_effect r r' \<Longrightarrow> er_state r \<in> set in_flight_states \<Longrightarrow> er_state r' \<noteq> Eff_reserved \<Longrightarrow> effect_move r r'"

inductive ledger_step :: "ledger \<Rightarrow> ledger \<Rightarrow> bool" where
  issue: "issue_authority aid q l = Ok (i, l') \<Longrightarrow> ledger_step l l'"
| issue_or_reuse: "issue_or_reuse_authority now aid q l = Ok (i, l') \<Longrightarrow> ledger_step l l'"
| supersede: "canonical_uuid aid \<Longrightarrow> supersede_authority now aid by_id l = Ok (done_it, l') \<Longrightarrow> ledger_step l l'"
| authorized: "reserve_and_begin_authorized_effect lib isofmt now aid scope ab b l = Ok (rec, l') \<Longrightarrow> ledger_step l l'"
| reserve: "reserve_provider_effect lib now b authority l = Ok (rec, l') \<Longrightarrow> ledger_step l l'"
| begin_it: "begin_provider_dispatch now eid l = Ok (rec, l') \<Longrightarrow> ledger_step l l'"
| finish: "finish_provider_effect now eid st res err l = Ok (rec, l') \<Longrightarrow> ledger_step l l'"
| reconcile: "reconcile_provider_effect lib txt_of observe now eid l1 l = Ok (rec, l') \<Longrightarrow> ledger_step l l'"
| require: "finish_reconciliation_required lib txt_of now eid obs l = Ok (rec, l') \<Longrightarrow> ledger_step l l'"

text \<open>What a transaction does to the effects: rows move, and new rows start reserved or dispatched.\<close>

definition effects_evolve :: "ledger \<Rightarrow> ledger \<Rightarrow> bool" where
  "effects_evolve l l' =
     (\<exists>g news. effects l' = map g (effects l) @ news \<and> (\<forall>r\<in>set (effects l). g r = r \<or> effect_move r (g r))
        \<and> (\<forall>r\<in>set news. er_state r \<in> {Eff_reserved, Eff_dispatched})
        \<and> (effects_violation (effects l) = None \<longrightarrow> effects_violation (effects l') = None))"

lemma evolve_same: "effects l' = effects l \<Longrightarrow> effects_evolve l l'"
  unfolding effects_evolve_def by (intro exI[of _ "\<lambda>r. r"] exI[of _ "[]"]) simp

lemma put_effects_OkD: "put_effects es l = Ok l' \<Longrightarrow> l' = l\<lparr>effects := es\<rparr> \<and> effects_violation es = None"
  by (simp add: put_effects_def split: option.splits)

lemma put_authorities_OkD: "put_authorities as l = Ok l' \<Longrightarrow> l' = l\<lparr>authorities := as\<rparr> \<and> authorities_violation as = None"
  by (simp add: put_authorities_def split: option.splits)

lemma effect_insert_OkD:
  assumes "effect_insert r l = Ok (r', l')"
  shows "r' = r \<and> l' = l\<lparr>effects := effects l @ [r]\<rparr> \<and> effects_violation (effects l @ [r]) = None"
  using assms by (auto simp: effect_insert_def split: sum.splits dest: put_effects_OkD)

lemma effect_update_OkD:
  assumes "effect_update eid sts f l = Ok (res, l')"
  defines "p \<equiv> \<lambda>r. er_effect_id r = eid \<and> er_state r \<in> set sts"
  shows "res = map_option f (find p (effects l))"
    and "l' = l\<lparr>effects := map (\<lambda>r. if p r then f r else r) (effects l)\<rparr>" and "effects_violation (effects l') = None"
proof -
  obtain l1 where "put_effects (map (\<lambda>r. if p r then f r else r) (effects l)) l = Ok l1"
    and eq: "res = map_option f (find p (effects l))" "l' = l1"
    using assms(1) by (auto simp: effect_update_def Let_def p_def split: sum.splits)
  then show "res = map_option f (find p (effects l))"
    and "l' = l\<lparr>effects := map (\<lambda>r. if p r then f r else r) (effects l)\<rparr>" and "effects_violation (effects l') = None"
    using put_effects_OkD by fastforce+
qed

lemma evolve_insert:
  assumes "effect_insert r l = Ok (r', l')" and "er_state r \<in> {Eff_reserved, Eff_dispatched}"
  shows "effects_evolve l l'"
  unfolding effects_evolve_def using effect_insert_OkD[OF assms(1)] assms(2)
  by (intro exI[of _ "\<lambda>r. r"] exI[of _ "[r]"]) simp

lemma evolve_update:
  assumes "effect_update eid sts f l = Ok (res, l')" and "\<And>r. er_state r \<in> set sts \<Longrightarrow> effect_move r (f r)"
  shows "effects_evolve l l'"
  unfolding effects_evolve_def using effect_update_OkD(2,3)[OF assms(1)] assms(2)
  by (intro exI[of _ "\<lambda>r. if er_effect_id r = eid \<and> er_state r \<in> set sts then f r else r"] exI[of _ "[]"]) auto

lemma effect_advance_OkD:
  assumes "effect_advance eid sts f msg l = Ok (rec, l')"
  obtains r where "effect_update eid sts f l = Ok (Some r, l')" "rec = effect_record r"
  using assms by (auto simp: effect_advance_def split: sum.splits option.splits)

lemma evolve_advance:
  assumes "effect_advance eid sts f msg l = Ok (rec, l')" and "\<And>r. er_state r \<in> set sts \<Longrightarrow> effect_move r (f r)"
  shows "effects_evolve l l'"
  using effect_advance_OkD[OF assms(1)] evolve_update[OF _ assms(2)] by metis

lemma move_dispatch [simp]: "er_state r = Eff_reserved \<Longrightarrow> effect_move r (dispatch_row now r)"
  by (rule begin_dispatch) (simp_all add: same_effect_def dispatch_row_def)

lemma move_finish: "er_state r \<in> set in_flight_states \<Longrightarrow> st \<noteq> Eff_reserved \<Longrightarrow> effect_move r (finish_row now st res err r)"
  by (rule settle) (simp_all add: same_effect_def finish_row_def)

lemma mark_superseded_effects [simp]: "effects (snd (mark_superseded now by_id aid l)) = effects l"
  by (simp add: mark_superseded_def Let_def)

lemma supersede_all_effects: "supersede_all now aid cs l = Ok l' \<Longrightarrow> effects l' = effects l"
  by (induction cs arbitrary: l) (auto split: if_splits)

section \<open>Every transaction evolves the ledger\<close>

text \<open>The branches of a successful reservation.\<close>

lemma reserve_and_begin_cases:
  assumes "reserve_and_begin_authorized_effect lib isofmt now aid scope ab b l = Ok (rec, l')"
  obtains (reserved) row r authority a where "get_authority aid l = Ok authority" "unresolved_effect b l = Some row"
      "er_state row = Eff_reserved" "historical_effect_matches lib (effect_record row) aid scope ab (binding_json b) = Ok True"
      "locked_authority authority aid scope ab = Ok a"
      "effect_update (er_effect_id row) [Eff_reserved] (dispatch_row now) l = Ok (Some r, l')" "rec = effect_record r"
  | (replayed) row where "unresolved_effect b l = None" "generation_effect b l = Some row"
      "historical_effect_matches lib (effect_record row) aid scope ab (binding_json b) = Ok True"
      "er_state row \<in> {Eff_succeeded, Eff_rejected}" "rec = effect_record row" "l' = l"
  | (inserted) r authority a where "get_authority aid l = Ok authority" "unresolved_effect b l = None" "generation_effect b l = None"
      "locked_authority authority aid scope ab = Ok a"
      "effect_insert (new_effect now (effect_identity lib (binding_json b) (authority_json isofmt a)) b
         (authority_json isofmt a) Eff_dispatched (Some now)) l = Ok (r, l')" "rec = effect_record r"
proof (cases "get_authority aid l")
  case (Inr authority)
  note au = Inr
  show ?thesis
  proof (cases "unresolved_effect b l")
    case (Some row)
    with au assms that(1) show ?thesis
      by (auto simp: reserve_and_begin_authorized_effect_def split: sum.splits bool.splits if_splits option.splits)
  next
    case none: None
    show ?thesis
    proof (cases "generation_effect b l")
      case (Some row)
      with au none assms that(2) show ?thesis
        by (auto simp: reserve_and_begin_authorized_effect_def split: sum.splits bool.splits if_splits)
    next
      case None
      with au none assms that(3) show ?thesis
        by (auto simp: reserve_and_begin_authorized_effect_def split: sum.splits)
    qed
  qed
qed (use assms in \<open>simp add: reserve_and_begin_authorized_effect_def\<close>)

lemma new_effect_simps [simp]:
  "er_state (new_effect now eid b auth st sent) = st" "er_effect_id (new_effect now eid b auth st sent) = eid"
  "er_binding (new_effect now eid b auth st sent) = b" "er_authority_json (new_effect now eid b auth st sent) = auth"
  "er_result_json (new_effect now eid b auth st sent) = None" "er_error_detail (new_effect now eid b auth st sent) = None"
  by (simp_all add: new_effect_def)

lemma evolve_authorized: "reserve_and_begin_authorized_effect lib isofmt now aid scope ab b l = Ok (rec, l') \<Longrightarrow> effects_evolve l l'"
  by (erule reserve_and_begin_cases) (auto elim!: evolve_update evolve_insert intro: evolve_same)

lemma evolve_reserve: "reserve_provider_effect lib now b authority l = Ok (rec, l') \<Longrightarrow> effects_evolve l l'"
  by (auto simp: reserve_provider_effect_def Let_def intro: evolve_same elim: evolve_insert
      split: option.splits if_splits sum.splits)

lemma evolve_begin:
  assumes "begin_provider_dispatch now eid l = Ok (rec, l')"
  shows "effects_evolve l l'"
proof -
  obtain res where "effect_update eid [Eff_reserved] (dispatch_row now) l = Ok (res, l')"
    using assms by (auto simp: begin_provider_dispatch_def split: sum.splits option.splits if_splits)
  then show ?thesis by (rule evolve_update) simp
qed

lemma evolve_finish:
  assumes "finish_provider_effect now eid st res err l = Ok (rec, l')"
  shows "effects_evolve l l'"
proof -
  obtain s where s: "outcome_state st = Some s"
    and a: "effect_advance eid [Eff_dispatched] (finish_row now s res (py_take 2000 err)) (''effect '' @ eid @ '' is not in dispatched state'') l = Ok (rec, l')"
    using assms by (auto simp: finish_provider_effect_def split: option.splits)
  from s have "s \<noteq> Eff_reserved" by (auto split: if_splits)
  with a show ?thesis by (auto elim!: evolve_advance intro!: move_finish simp: in_flight_states_def)
qed

lemma evolve_require:
  "finish_reconciliation_required lib txt_of now eid obs l = Ok (rec, l') \<Longrightarrow> effects_evolve l l'"
  unfolding finish_reconciliation_required_def
  by (erule evolve_advance) (auto intro!: settle simp: same_effect_def)

lemma evolve_reconcile:
  assumes "reconcile_provider_effect lib txt_of observe now eid l1 l = Ok (rec, l')"
  shows "effects_evolve l l'"
  using assms unfolding reconcile_provider_effect_def
  by (auto split: option.splits sum.splits if_splits elim!: evolve_advance intro!: move_finish
      intro: evolve_same evolve_require)

lemma issue_or_reuse_cases:
  assumes "issue_or_reuse_authority now aid q l = Ok ((i, fresh), l')"
  obtains (reused) a where "find (exact_match now q) (authorities l) = Some a" "i = authority_id a" "\<not> fresh" "l' = l"
  | (issued) w l1 where "find (exact_match now q) (authorities l) = None" "aware_window q = Ok w"
      "supersede_all now aid (map authority_id (filter (\<lambda>a. same_intent q a \<and> superseded_at a = None) (authorities l))) l = Ok l1"
      "put_authorities (authorities l1 @ [authority_of aid q w]) l1 = Ok l'" "i = aid" "fresh"
proof (cases "find (exact_match now q) (authorities l)")
  case (Some a)
  with assms that(1) show ?thesis
    by (simp add: issue_or_reuse_authority_def split: if_splits sum.splits)
next
  case None
  let ?cs = "map authority_id (filter (\<lambda>a. same_intent q a \<and> superseded_at a = None) (authorities l))"
  obtain w where w: "aware_window q = Ok w"
    using assms by (cases "aware_window q") (simp_all add: issue_or_reuse_authority_def split: if_splits)
  obtain l1 where l1: "supersede_all now aid ?cs l = Ok l1"
    using assms None w by (cases "supersede_all now aid ?cs l") (simp_all add: issue_or_reuse_authority_def split: if_splits)
  have "put_authorities (authorities l1 @ [authority_of aid q w]) l1 = Ok l'" "i = aid" "fresh"
    using assms None w l1 by (simp_all add: issue_or_reuse_authority_def split: if_splits sum.splits)
  with None w l1 show ?thesis by (rule that(2))
qed

lemma effects_issue: "issue_authority aid q l = Ok (i, l') \<Longrightarrow> effects l' = effects l"
  by (auto simp: issue_authority_def split: if_splits sum.splits dest!: put_authorities_OkD)

lemma effects_issue_or_reuse: "issue_or_reuse_authority now aid q l = Ok (i, l') \<Longrightarrow> effects l' = effects l"
  by (cases i) (auto elim!: issue_or_reuse_cases dest!: put_authorities_OkD supersede_all_effects)

lemma supersede_authority_cases:
  assumes "supersede_authority now aid by_id l = Ok (b, l')"
  obtains (kept) "l' = l" "\<not> b"
  | (marked) a where "pg_uuid aid = Some a" "\<not> has_in_flight_effect aid l" "l' = snd (mark_superseded now by_id a l)"
proof (cases "pg_uuid aid")
  case (Some a)
  show ?thesis
  proof (cases "authority_row a l")
    case None
    with Some assms that(1) show ?thesis by (simp add: supersede_authority_def split: if_splits)
  next
    case (Some row)
    with \<open>pg_uuid aid = Some a\<close> assms that show ?thesis
      by (cases "mark_superseded now by_id a l") (auto simp: supersede_authority_def split: if_splits)
  qed
qed (use assms in \<open>simp add: supersede_authority_def split: if_splits\<close>)

lemma effects_supersede: "supersede_authority now aid by_id l = Ok (b, l') \<Longrightarrow> effects l' = effects l"
  by (erule supersede_authority_cases) simp_all

lemma ledger_step_evolves: "ledger_step l l' \<Longrightarrow> effects_evolve l l'"
  by (cases rule: ledger_step.cases)
    (auto intro: evolve_same effects_issue effects_issue_or_reuse effects_supersede evolve_authorized evolve_reserve evolve_begin
      evolve_finish evolve_reconcile evolve_require)

section \<open>The ledger is a table of one-way rows\<close>

lemma find_map_keep:
  "(\<And>r. r \<in> set xs \<Longrightarrow> P (g r) = P r) \<Longrightarrow> find P (map g xs @ ys) = (case find P xs of None \<Rightarrow> find P ys | Some r \<Rightarrow> Some (g r))"
  by (induction xs) auto

lemma effect_move_same: "effect_move r r' \<Longrightarrow> same_effect r r'"
  by (auto elim: effect_move.cases)

lemma evolve_row:
  assumes "effects_evolve l l'" and "effect_by_id i l = Some r"
  shows "\<exists>r'. effect_by_id i l' = Some r' \<and> (r' = r \<or> effect_move r r')"
proof -
  obtain g news where e: "effects l' = map g (effects l) @ news"
    and g: "\<forall>r\<in>set (effects l). g r = r \<or> effect_move r (g r)"
    using assms(1) by (auto simp: effects_evolve_def)
  have "er_effect_id (g r) = er_effect_id r" if "r \<in> set (effects l)" for r
    using g that effect_move_same by (fastforce simp: same_effect_def)
  then have "effect_by_id i l' = Some (g r)"
    using assms(2) unfolding effect_by_id_def e by (subst find_map_keep) simp_all
  moreover have "r \<in> set (effects l)" using assms(2) by (auto simp: effect_by_id_def find_Some_iff)
  ultimately show ?thesis using g by auto
qed

lemma authorities_violation_superseded:
  "authorities_violation (map (\<lambda>a. if p a then a\<lparr>superseded_at := t, superseded_by := u\<rparr> else a) as) = authorities_violation as"
proof -
  let ?as = "map (\<lambda>a. if p a then a\<lparr>superseded_at := t, superseded_by := u\<rparr> else a) as"
  have "map authority_id ?as = map authority_id as" by simp
  moreover have "list_all (\<lambda>a. expires_at a > issued_at a \<and> scopes a \<noteq> []) ?as
      = list_all (\<lambda>a. expires_at a > issued_at a \<and> scopes a \<noteq> []) as"
    by (induction as) auto
  ultimately show ?thesis unfolding authorities_violation_def by presburger
qed

lemma mark_superseded_ok: "authorities_violation (authorities (snd (mark_superseded now by_id aid l))) = authorities_violation (authorities l)"
  by (simp add: mark_superseded_def Let_def authorities_violation_superseded)

lemma effect_update_authorities: "effect_update eid sts f l = Ok (res, l') \<Longrightarrow> authorities l' = authorities l"
  by (drule effect_update_OkD(2)) simp

lemma authorities_authorized: "reserve_and_begin_authorized_effect lib isofmt now aid scope ab b l = Ok (rec, l') \<Longrightarrow> authorities l' = authorities l"
  by (erule reserve_and_begin_cases) (auto dest: effect_update_authorities effect_insert_OkD)

lemma authorities_advance: "effect_advance eid sts f msg l = Ok (rec, l') \<Longrightarrow> authorities l' = authorities l"
  by (erule effect_advance_OkD) (auto dest: effect_update_authorities)

lemma authorities_reserve: "reserve_provider_effect lib now b authority l = Ok (rec, l') \<Longrightarrow> authorities l' = authorities l"
  by (auto simp: reserve_provider_effect_def Let_def dest: effect_insert_OkD split: option.splits if_splits sum.splits)

lemma authorities_begin: "begin_provider_dispatch now eid l = Ok (rec, l') \<Longrightarrow> authorities l' = authorities l"
  by (auto simp: begin_provider_dispatch_def dest: effect_update_authorities split: option.splits if_splits sum.splits)

lemma authorities_finish: "finish_provider_effect now eid st res err l = Ok (rec, l') \<Longrightarrow> authorities l' = authorities l"
  by (auto simp: finish_provider_effect_def dest: authorities_advance split: option.splits)

lemma authorities_require: "finish_reconciliation_required lib txt_of now eid obs l = Ok (rec, l') \<Longrightarrow> authorities l' = authorities l"
  by (auto simp: finish_reconciliation_required_def dest: authorities_advance)

lemma authorities_reconcile: "reconcile_provider_effect lib txt_of observe now eid l1 l = Ok (rec, l') \<Longrightarrow> authorities l' = authorities l"
  by (auto simp: reconcile_provider_effect_def dest: authorities_advance authorities_require
      split: option.splits if_splits sum.splits)

lemmas authorities_kept = authorities_authorized authorities_reserve authorities_begin authorities_finish
  authorities_require authorities_reconcile

lemma supersede_all_ok: "supersede_all now aid cs l = Ok l' \<Longrightarrow> authorities_violation (authorities l') = authorities_violation (authorities l)"
  by (induction cs arbitrary: l) (auto simp: mark_superseded_ok split: if_splits)

lemma ledger_step_authorities:
  assumes "ledger_step l l'" and "authorities_violation (authorities l) = None"
  shows "authorities_violation (authorities l') = None"
  using assms(1)
proof cases
  case (issue aid q i)
  then show ?thesis by (auto simp: issue_authority_def split: if_splits sum.splits dest!: put_authorities_OkD)
next
  case (issue_or_reuse now aid q i)
  then show ?thesis using assms(2) by (cases i) (auto elim!: issue_or_reuse_cases dest!: put_authorities_OkD)
next
  case (supersede aid now by_id b)
  from supersede(2) show ?thesis using assms(2) by (cases rule: supersede_authority_cases) (simp_all add: mark_superseded_ok)
qed (use assms(2) authorities_kept in \<open>simp_all\<close>)

lemma ledger_step_ok: "ledger_ok l \<Longrightarrow> ledger_step l l' \<Longrightarrow> ledger_ok l'"
  using ledger_step_evolves ledger_step_authorities by (auto simp: ledger_ok_def effects_evolve_def)

interpretation effects: one_way_table ledger_ok ledger_step "\<lambda>l i. effect_by_id i l" effect_move
  by unfold_locales (auto intro: ledger_step_ok evolve_row ledger_step_evolves)

lemma empty_ledger_ok [simp]: "ledger_ok empty_ledger"
  by (simp add: ledger_ok_def empty_ledger_def effects_violation_def authorities_violation_def)

section \<open>A settled effect is final\<close>

lemma settled_no_move: "er_state r \<in> {Eff_succeeded, Eff_rejected} \<Longrightarrow> \<not> effect_move r r'"
  by (auto elim: effect_move.cases simp: in_flight_states_def)

text \<open>C15: an effect that has succeeded or was rejected stays in the ledger exactly as it is, whatever
  transactions follow: no later reservation, reconciliation or change of authority touches its result.\<close>

theorem settled_effects_immutable:
  assumes "ledger_ok l" and "ledger_step\<^sup>*\<^sup>* l l'" and "effect_by_id i l = Some r"
    and "er_state r = Eff_succeeded \<or> er_state r = Eff_rejected"
  shows "effect_by_id i l' = Some r"
  by (rule effects.settled_steps[OF assms(2,1,3)]) (use assms(4) settled_no_move in auto)

section \<open>An effect is dispatched once\<close>

lemma effect_move_dispatched: "effect_move r r' \<Longrightarrow> er_state r' \<noteq> Eff_reserved"
  by (auto elim: effect_move.cases)

lemma effect_moves_forward:
  "effect_move\<^sup>*\<^sup>* r r' \<Longrightarrow> same_effect r r' \<and> (er_state r \<noteq> Eff_reserved \<longrightarrow> er_state r' \<noteq> Eff_reserved)"
proof (induction rule: rtranclp_induct)
  case base
  then show ?case by (simp add: same_effect_def)
next
  case (step y z)
  then show ?case using effect_move_same[of y z] effect_move_dispatched[of y z] by (auto simp: same_effect_def)
qed

lemma find_unique:
  assumes "x \<in> set xs" and "P x" and only: "\<And>y. y \<in> set xs \<Longrightarrow> P y \<Longrightarrow> y = x"
  shows "find P xs = Some x"
proof (cases "find P xs")
  case None
  with assms(1,2) show ?thesis by (simp add: find_None_iff)
next
  case (Some y)
  then have "y = x" using find_SomeD only by metis
  with Some show ?thesis by simp
qed

lemma effect_by_id_SomeD: "effect_by_id i l = Some r \<Longrightarrow> r \<in> set (effects l) \<and> er_effect_id r = i"
  by (auto simp: effect_by_id_def find_Some_iff)

lemma effect_by_id_mem:
  assumes "ledger_ok l" and "r \<in> set (effects l)"
  shows "effect_by_id (er_effect_id r) l = Some r"
  unfolding effect_by_id_def
proof (rule find_unique)
  fix y assume "y \<in> set (effects l)" "er_effect_id y = er_effect_id r"
  with assms show "y = r" by (auto simp: ledger_ok_def effects_violation_def distinct_map inj_on_def split: if_splits)
qed (use assms in auto)

lemma unresolved_unique:
  assumes "ledger_ok l" and "r \<in> set (effects l)" and "unresolved_in (effect_scope b) r"
  shows "unresolved_effect b l = Some r"
  unfolding unresolved_effect_def
proof (rule find_unique)
  fix y assume "y \<in> set (effects l)" "unresolved_in (effect_scope b) y"
  with assms show "y = r"
    by (auto simp: ledger_ok_def effects_violation_def distinct_map inj_on_def unresolved_in_def split: if_splits)
qed (use assms in auto)

lemma unresolved_effect_SomeD: "unresolved_effect b l = Some r \<Longrightarrow> r \<in> set (effects l) \<and> unresolved_in (effect_scope b) r"
  unfolding unresolved_effect_def find_Some_iff by force

lemma ledger_step_authorized_ok:
  "ledger_ok l \<Longrightarrow> reserve_and_begin_authorized_effect lib isofmt now aid scope ab b l = Ok (rec, l') \<Longrightarrow> ledger_ok l'"
  by (rule ledger_step_ok) (auto intro: ledger_step.authorized)

lemma effect_record_simps [simp]:
  "pe_effect_id (effect_record r) = er_effect_id r" "pe_state (effect_record r) = er_state r"
  "pe_binding (effect_record r) = er_binding r" "pe_authority (effect_record r) = er_authority_json r"
  by (simp_all add: effect_record_def)

lemma effect_update_row:
  assumes "effect_update eid sts f l = Ok (Some r, l')"
  shows "\<exists>r0\<in>set (effects l). r = f r0 \<and> er_effect_id r0 = eid \<and> er_state r0 \<in> set sts \<and> r \<in> set (effects l')"
proof -
  from effect_update_OkD(1)[OF assms] obtain r0 where
    r0: "find (\<lambda>r. er_effect_id r = eid \<and> er_state r \<in> set sts) (effects l) = Some r0" "r = f r0"
    by (metis (no_types, lifting) map_option_eq_Some)
  then have "r0 \<in> set (effects l) \<and> er_effect_id r0 = eid \<and> er_state r0 \<in> set sts" by (auto simp: find_Some_iff)
  moreover from this r0(2) have "r \<in> set (effects l')" using effect_update_OkD(2)[OF assms] by (auto intro: rev_image_eqI)
  ultimately show ?thesis using r0(2) by blast
qed

lemma dispatched_row:
  assumes "ledger_ok l" and "reserve_and_begin_authorized_effect lib isofmt now aid scope ab b l = Ok (rec, l')"
    and "pe_state rec = Eff_dispatched"
  shows "\<exists>r. effect_by_id (pe_effect_id rec) l' = Some r \<and> rec = effect_record r \<and> effect_scope (er_binding r) = effect_scope b"
proof -
  have ok: "ledger_ok l'" using assms(1,2) by (rule ledger_step_authorized_ok)
  have *: ?thesis if "r \<in> set (effects l')" "rec = effect_record r" "effect_scope (er_binding r) = effect_scope b" for r
    using that effect_by_id_mem[OF ok that(1)] by auto
  from assms(2) show ?thesis
  proof (cases rule: reserve_and_begin_cases)
    case (reserved row r authority a)
    from effect_update_row[OF reserved(6)] obtain r0 where r0: "r0 \<in> set (effects l)" "r = dispatch_row now r0"
      "er_effect_id r0 = er_effect_id row" "r \<in> set (effects l')" by blast
    have row: "row \<in> set (effects l)" "effect_scope (er_binding row) = effect_scope b"
      using unresolved_effect_SomeD[OF reserved(2)] by (simp_all add: unresolved_in_def)
    have "r0 = row" using effect_by_id_mem[OF assms(1) r0(1)] effect_by_id_mem[OF assms(1) row(1)] r0(3) by (metis option.inject)
    then show ?thesis using *[OF r0(4)] reserved(7) r0(2) row(2) by (simp add: dispatch_row_def)
  next
    case (replayed row)
    then show ?thesis using assms(3) by auto
  next
    case (inserted r authority a)
    then show ?thesis using effect_insert_OkD[OF inserted(5)] by (intro *[of r]) simp_all
  qed
qed

text \<open>C1: once the ledger has let a request go out, no caller gets permission to send for the same
  operation on the same entity again until that effect is settled: for every other authority, binding,
  generation and time, and after any other transactions, the reservation is refused, and so is
  beginning the same effect again.\<close>

theorem dispatched_effect_not_reissued:
  assumes "ledger_ok l" and "reserve_and_begin_authorized_effect lib isofmt now aid scope ab b l = Ok (rec, l1)"
    and "pe_state rec = Eff_dispatched" and "ledger_step\<^sup>*\<^sup>* l1 l2"
    and "effect_by_id (pe_effect_id rec) l2 = Some r2" and "er_state r2 \<in> set unresolved_states"
    and "effect_scope b' = effect_scope b"
  shows "\<not> is_ok (reserve_and_begin_authorized_effect lib' isofmt' now' aid' scope' ab' b' l2)
    \<and> \<not> is_ok (begin_provider_dispatch now' (pe_effect_id rec) l2)"
proof
  obtain r1 where r1: "effect_by_id (pe_effect_id rec) l1 = Some r1" "rec = effect_record r1"
    "effect_scope (er_binding r1) = effect_scope b" using dispatched_row[OF assms(1-3)] by blast
  have ok1: "ledger_ok l1" using assms(1,2) by (rule ledger_step_authorized_ok)
  have ok2: "ledger_ok l2" using effects.sound_steps[OF assms(4) ok1] .
  have "effect_move\<^sup>*\<^sup>* r1 r2" using effects.row_steps[OF assms(4) ok1 r1(1)] assms(5) by auto
  then have r2: "er_state r2 \<noteq> Eff_reserved" "effect_scope (er_binding r2) = effect_scope b'"
    using effect_moves_forward[of r1 r2] assms(3,7) r1(2,3) by (auto simp: same_effect_def)
  have "unresolved_effect b' l2 = Some r2"
    using effect_by_id_SomeD[OF assms(5)] r2(2) assms(6) by (intro unresolved_unique[OF ok2]) (auto simp: unresolved_in_def)
  then show "\<not> is_ok (reserve_and_begin_authorized_effect lib' isofmt' now' aid' scope' ab' b' l2)"
    using r2(1) by (auto simp: is_ok_def reserve_and_begin_authorized_effect_def split: sum.splits bool.splits)
  have "\<not> is_ok (begin_provider_dispatch now' (pe_effect_id rec) l2)" if "effect_update (pe_effect_id rec) [Eff_reserved] (dispatch_row now') l2 = Ok (res, l3)" for res l3
  proof -
    have none: "\<not> (er_effect_id r = pe_effect_id rec \<and> er_state r \<in> set [Eff_reserved])" if "r \<in> set (effects l2)" for r
      using effect_by_id_mem[OF ok2 that] assms(5) r2(1) by auto
    then have "map (\<lambda>r. if er_effect_id r = pe_effect_id rec \<and> er_state r \<in> set [Eff_reserved] then dispatch_row now' r else r) (effects l2)
        = effects l2" by (intro map_idI) metis
    then have "effects l3 = effects l2"
      using effect_update_OkD(2)[OF that] by simp
    moreover have "res = None" using none effect_update_OkD(1)[OF that] by (simp add: find_None_iff)
    ultimately show ?thesis using that assms(5,6)
      by (auto simp: begin_provider_dispatch_def effect_by_id_def is_ok_def unresolved_states_def)
  qed
  then show "\<not> is_ok (begin_provider_dispatch now' (pe_effect_id rec) l2)"
    by (cases "effect_update (pe_effect_id rec) [Eff_reserved] (dispatch_row now') l2") (auto simp: begin_provider_dispatch_def)
qed

section \<open>An effect in flight fences its authority\<close>

lemma find_append_Some: "find P xs = Some x \<Longrightarrow> find P (xs @ ys) = Some x"
  by (induction xs) (auto split: if_splits)

lemma mark_superseded_row: "c \<noteq> a \<Longrightarrow> authority_row a (snd (mark_superseded now by_id c l)) = authority_row a l"
proof -
  assume "c \<noteq> a"
  then have "find (\<lambda>x. authority_id x = a)
      (map (\<lambda>x. if authority_id x = c \<and> superseded_at x = None then x\<lparr>superseded_at := t, superseded_by := u\<rparr> else x) xs)
    = find (\<lambda>x. authority_id x = a) xs" for t u xs
    by (induction xs) auto
  then show ?thesis by (simp add: authority_row_def mark_superseded_def Let_def)
qed

lemma has_in_flight_mark [simp]: "has_in_flight_effect a (snd (mark_superseded now by_id c l)) = has_in_flight_effect a l"
  by (simp add: has_in_flight_effect_def)

lemma supersede_all_row:
  "supersede_all now aid cs l = Ok l' \<Longrightarrow> has_in_flight_effect a l \<Longrightarrow> authority_row a l' = authority_row a l"
proof (induction cs arbitrary: l)
  case (Cons c cs)
  then have "c \<noteq> a" by (auto split: if_splits)
  moreover have "authority_row a l' = authority_row a (snd (mark_superseded now aid c l))"
    using Cons.IH Cons.prems by (simp split: if_splits)
  ultimately show ?case by (simp add: mark_superseded_row)
qed simp

lemma authorities_issue: "issue_authority aid q l = Ok (i, l') \<Longrightarrow> \<exists>x. authorities l' = authorities l @ [x]"
  by (auto simp: issue_authority_def split: if_splits sum.splits dest!: put_authorities_OkD)

lemma fenced_step:
  assumes "ledger_step l l'" and "has_in_flight_effect a l" and "authority_row a l = Some au"
  shows "authority_row a l' = Some au"
  using assms(1)
proof cases
  case (issue aid q i)
  then obtain x where "authorities l' = authorities l @ [x]" using authorities_issue by blast
  then show ?thesis using assms(3) by (simp add: authority_row_def find_append_Some)
next
  case (issue_or_reuse now aid q i)
  obtain i1 i2 where "i = (i1, i2)" by (cases i)
  with issue_or_reuse have "issue_or_reuse_authority now aid q l = Ok ((i1, i2), l')" by simp
  then show ?thesis
  proof (cases rule: issue_or_reuse_cases)
    case (issued w l1)
    from issued(3) have "authority_row a l1 = Some au" using assms(2,3) by (simp add: supersede_all_row)
    then show ?thesis using put_authorities_OkD[OF issued(4)] by (simp add: authority_row_def find_append_Some)
  qed (use assms(3) in simp)
next
  case (supersede aid now by_id b)
  from supersede(2) show ?thesis
  proof (cases rule: supersede_authority_cases)
    case (marked c)
    then have "c = aid" using supersede(1) by (simp add: canonical_uuid_def)
    then have "c \<noteq> a" using marked(2) assms(2) by blast
    then show ?thesis using marked(3) assms(3) by (simp add: mark_superseded_row)
  qed (use assms(3) in simp)
qed (use assms(3) authorities_kept in \<open>simp_all add: authority_row_def\<close>)

lemma in_flight_back:
  assumes "ledger_ok l" and "ledger_step l l1" and "ledger_step\<^sup>*\<^sup>* l1 l2" and "effect_by_id i l = Some r"
    and "er_state r \<in> set in_flight_states" and "effect_by_id i l2 = Some r2" and "er_state r2 \<in> set in_flight_states"
  shows "\<exists>r1. effect_by_id i l1 = Some r1 \<and> er_state r1 \<in> set in_flight_states \<and> er_authority_json r1 = er_authority_json r"
proof -
  obtain r1 where r1: "effect_by_id i l1 = Some r1" "r1 = r \<or> effect_move r r1"
    using effects.row_step[OF assms(1,2,4)] by blast
  have "er_state r1 \<in> set in_flight_states"
  proof (rule ccontr)
    assume "er_state r1 \<notin> set in_flight_states"
    moreover have "er_state r1 \<noteq> Eff_reserved" using r1(2) assms(5) effect_move_dispatched by (auto simp: in_flight_states_def)
    ultimately have "er_state r1 = Eff_succeeded \<or> er_state r1 = Eff_rejected"
      by (cases "er_state r1") (auto simp: in_flight_states_def)
    with effects.settled_steps[OF assms(3) ledger_step_ok[OF assms(1,2)] r1(1)] settled_no_move
    have "effect_by_id i l2 = Some r1" by blast
    with assms(6,7) \<open>er_state r1 \<notin> _\<close> show False by simp
  qed
  then show ?thesis using r1 effect_move_same[of r r1] by (auto simp: same_effect_def)
qed


section \<open>Every dispatch is authorised\<close>

lemma locked_authority_OkD:
  "locked_authority authority aid scope ab = Ok a \<Longrightarrow>
   authority = Some a \<and> aid \<noteq> [] \<and> superseded_at a = None \<and> binding_of a = ab \<and> scope \<in> set (scopes a)"
  by (auto simp: locked_authority_def validate_authority_def split: option.splits if_splits)

lemma get_authority_SomeD: "get_authority aid l = Ok (Some a) \<Longrightarrow> pg_uuid aid = Some (authority_id a) \<and> a \<in> set (authorities l)"
  by (auto simp: get_authority_def authority_row_def dest!: find_SomeD split: if_splits option.splits)

lemma historical_matchesD:
  "historical_effect_matches lib rec aid scope ab binding = Ok True \<Longrightarrow>
   jget (pe_authority rec) ''authority_id'' = JStr aid \<and> pe_effect_id rec = effect_identity lib binding (pe_authority rec)
   \<and> (\<forall>(k, v)\<in>set (binding_items ab). jget (pe_authority rec) k = JStr v)"
  unfolding historical_effect_matches_def Let_def list_ex_iff
  by (auto split: if_splits sum.splits bool.splits)

lemma stored_binding: "\<forall>(k, v)\<in>set (binding_items (binding_of a)). jget (authority_json isofmt a) k = JStr v"
  by (simp add: binding_items_def binding_of_def authority_json_def jget_def)

text \<open>C7: a caller is told to send only with the operator's permission: when a reservation returns a
  dispatched effect, the authority it names exists, is not superseded, covers the scope and has exactly
  the binding the caller proved; the effect's identity is the hash of what is sent and of the
  authority as it was stored.\<close>

theorem dispatch_needs_exact_authority:
  assumes "ledger_ok l" and "reserve_and_begin_authorized_effect lib isofmt now aid scope ab b l = Ok (rec, l')"
    and "pe_state rec = Eff_dispatched"
  shows "\<exists>a\<in>set (authorities l). pg_uuid aid = Some (authority_id a) \<and> superseded_at a = None \<and> binding_of a = ab
    \<and> scope \<in> set (scopes a) \<and> pe_effect_id rec = effect_identity lib (binding_json b) (pe_authority rec)
    \<and> (\<forall>(k, v)\<in>set (binding_items ab). jget (pe_authority rec) k = JStr v)"
  using assms(2)
proof (cases rule: reserve_and_begin_cases)
  case (reserved row r authority a)
  note au = locked_authority_OkD[OF reserved(5)]
  from effect_update_row[OF reserved(6)] obtain r0 where r0: "r0 \<in> set (effects l)" "r = dispatch_row now r0"
    "er_effect_id r0 = er_effect_id row" by blast
  have "row \<in> set (effects l)" using unresolved_effect_SomeD[OF reserved(2)] by simp
  then have "r0 = row" using effect_by_id_mem[OF assms(1)] r0(1,3) by (metis option.inject)
  then have "pe_effect_id rec = pe_effect_id (effect_record row)" "pe_authority rec = pe_authority (effect_record row)"
    using reserved(7) r0(2) by (simp_all add: dispatch_row_def)
  then show ?thesis
    using au get_authority_SomeD[of aid l a] reserved(1) historical_matchesD[OF reserved(4)] by (intro bexI[of _ a]) simp_all
next
  case (replayed row)
  then show ?thesis using assms(3) by auto
next
  case (inserted r authority a)
  note au = locked_authority_OkD[OF inserted(4)]
  have "jget (authority_json isofmt a) k = JStr v" if "(k, v) \<in> set (binding_items ab)" for k v
    using that au stored_binding[of a isofmt] by blast
  moreover have "rec = effect_record (new_effect now (effect_identity lib (binding_json b) (authority_json isofmt a)) b
      (authority_json isofmt a) Eff_dispatched (Some now))"
    using effect_insert_OkD[OF inserted(5)] inserted(6) by simp
  ultimately show ?thesis using au get_authority_SomeD[of aid l a] inserted(1) by (intro bexI[of _ a]) auto
qed

section \<open>Issuing again reuses the authority\<close>

lemma supersede_all_authorities:
  "supersede_all now aid cs l = Ok l' \<Longrightarrow>
   authorities l' = map (\<lambda>a. if authority_id a \<in> set cs \<and> superseded_at a = None
     then a\<lparr>superseded_at := Some now, superseded_by := Some aid\<rparr> else a) (authorities l)"
proof (induction cs arbitrary: l)
  case (Cons c cs)
  then have "supersede_all now aid cs (snd (mark_superseded now aid c l)) = Ok l'" by (simp split: if_splits)
  note ih = Cons.IH[OF this]
  define F where "F cs a = (if authority_id a \<in> set cs \<and> superseded_at a = None
     then a\<lparr>superseded_at := Some now, superseded_by := Some aid\<rparr> else a)" for cs and a :: operator_authority
  have "F cs (F [c] a) = F (c # cs) a" for a by (cases "superseded_at a") (auto simp: F_def)
  then have "map (F cs) (map (F [c]) as) = map (F (c # cs)) as" for as by simp
  moreover have "authorities (snd (mark_superseded now aid c l)) = map (F [c]) (authorities l)"
    by (simp add: mark_superseded_def Let_def F_def)
  ultimately show ?case using ih unfolding F_def by presburger
qed simp

lemma superseded_none_live:
  assumes "supersede_all now aid (map authority_id (filter (\<lambda>a. same_intent q a \<and> superseded_at a = None) (authorities l))) l = Ok l'"
    and "a \<in> set (authorities l')" and "same_intent q a"
  shows "superseded_at a \<noteq> None"
  using assms(2,3) unfolding supersede_all_authorities[OF assms(1)] by (auto split: if_splits)

lemma find_weaken: "find P xs = Some x \<Longrightarrow> Q x \<Longrightarrow> (\<And>y. y \<in> set xs \<Longrightarrow> Q y \<Longrightarrow> P y) \<Longrightarrow> find Q xs = Some x"
  by (induction xs) (auto split: if_splits)

lemma find_last: "(\<And>y. y \<in> set xs \<Longrightarrow> \<not> P y) \<Longrightarrow> P x \<Longrightarrow> find P (xs @ [x]) = Some x"
  by (induction xs) auto

lemma authority_row_mem:
  assumes "ledger_ok l" and "a \<in> set (authorities l)"
  shows "authority_row (authority_id a) l = Some a"
  unfolding authority_row_def
  by (rule find_unique) (use assms in \<open>auto simp: ledger_ok_def authorities_violation_def distinct_map inj_on_def split: if_splits\<close>)

lemma exact_match_intent: "exact_match now q a \<Longrightarrow> same_intent q a \<and> superseded_at a = None"
proof -
  assume m: "exact_match now q a"
  then have "rq_binding q = binding_of a" by (simp add: exact_match_def)
  then show ?thesis using m unfolding exact_match_def same_intent_def by (simp add: binding_of_def)
qed

lemma exact_match_later: "exact_match now' q a \<Longrightarrow> now \<le> now' \<Longrightarrow> exact_match now q a"
  by (auto simp: exact_match_def)

lemma authority_of_simps [simp]:
  "authority_id (authority_of aid q w) = aid" "expires_at (authority_of aid q w) = snd w"
  "superseded_at (authority_of aid q w) = None" "scopes (authority_of aid q w) = sorted_set (rq_scopes q)"
  "binding_of (authority_of aid q w) = rq_binding q" "same_intent q (authority_of aid q w)"
  "exact_match now q (authority_of aid q w) \<longleftrightarrow> now < snd w"
  by (simp_all add: authority_of_def binding_of_def same_intent_def exact_match_def)

lemma issue_reuse:
  assumes "issue_or_reuse_authority now aid q l = Ok (x, l')" and "find (exact_match now' q) (authorities l') = Some a"
  shows "issue_or_reuse_authority now' aid' q l' = Ok ((authority_id a, False), l')"
  using assms by (simp add: issue_or_reuse_authority_def split: if_splits sum.splits)

text \<open>Issuing an authority can be repeated: as long as the authority has not expired, the same request
  returns the same authority, issues nothing and changes nothing. A freshly issued authority
  is the only live one of the operator for that item, goal and provider.\<close>

lemma issue_or_reuse_repeatable:
  assumes "ledger_ok l" and "issue_or_reuse_authority now aid q l = Ok ((i, fresh), l')"
    and "authority_row i l' = Some a" and "now \<le> now'" and "now' < expires_at a"
  shows "issue_or_reuse_authority now' aid' q l' = Ok ((i, False), l')
    \<and> (fresh \<longrightarrow> filter (\<lambda>a. same_intent q a \<and> superseded_at a = None) (authorities l') = [a])"
  using assms(2)
proof (cases rule: issue_or_reuse_cases)
  case (reused a0)
  then have "a0 \<in> set (authorities l)" "exact_match now q a0" using find_SomeD by metis+
  then have "a0 = a" using reused assms(3) authority_row_mem[OF assms(1)] by simp
  then have "find (exact_match now' q) (authorities l) = Some a"
    using reused(1) \<open>exact_match now q a0\<close> assms(4,5) by (auto simp: exact_match_def intro: find_weaken exact_match_later)
  then show ?thesis using issue_reuse[OF assms(2)] reused \<open>a0 = a\<close> by simp
next
  case (issued w l1)
  have l': "authorities l' = authorities l1 @ [authority_of aid q w]" using put_authorities_OkD[OF issued(4)] by simp
  have "ledger_ok l'" using assms(1,2) ledger_step_ok ledger_step.issue_or_reuse by blast
  then have a: "a = authority_of aid q w" using authority_row_mem[of l' "authority_of aid q w"] assms(3) issued(5) l' by simp
  have dead: "\<not> exact_match now' q y" "\<not> (same_intent q y \<and> superseded_at y = None)" if "y \<in> set (authorities l1)" for y
    using superseded_none_live[OF issued(3) that] exact_match_intent[of now' q y] by auto
  then have "find (exact_match now' q) (authorities l') = Some a"
    unfolding l' a using assms(5) by (intro find_last) (simp_all add: a)
  moreover have "filter (\<lambda>a. same_intent q a \<and> superseded_at a = None) (authorities l') = [a]"
    unfolding l' a using dead(2) by (simp add: filter_empty_conv)
  ultimately show ?thesis using issue_reuse[OF assms(2)] issued(5) a by simp
qed

section \<open>The receipt of a finished effect validates forever\<close>

definition same_authority :: "operator_authority \<Rightarrow> operator_authority \<Rightarrow> bool" where
  "same_authority a a' = (authority_id a' = authority_id a \<and> binding_of a' = binding_of a \<and> scopes a' = scopes a)"

lemma mark_superseded_same:
  assumes "authority_row a l = Some au"
  shows "\<exists>au'. authority_row a (snd (mark_superseded now by_id c l)) = Some au' \<and> same_authority au au'"
proof -
  let ?g = "\<lambda>x. if authority_id x = c \<and> superseded_at x = None then x\<lparr>superseded_at := Some now, superseded_by := Some by_id\<rparr> else x"
  have "find (\<lambda>x. authority_id x = a) (map ?g (authorities l) @ []) = Some (?g au)"
    using assms by (subst find_map_keep) (auto simp: authority_row_def)
  then show ?thesis
    by (intro exI[of _ "?g au"]) (simp add: authority_row_def mark_superseded_def Let_def same_authority_def binding_of_def)
qed

lemma supersede_all_same:
  "supersede_all now aid cs l = Ok l' \<Longrightarrow> authority_row a l = Some au \<Longrightarrow> \<exists>au'. authority_row a l' = Some au' \<and> same_authority au au'"
proof (induction cs arbitrary: l au)
  case Nil
  then show ?case by (simp add: same_authority_def)
next
  case (Cons c cs)
  obtain au1 where "authority_row a (snd (mark_superseded now aid c l)) = Some au1" "same_authority au au1"
    using mark_superseded_same[OF Cons.prems(2)] by blast
  moreover from this(1) obtain au' where "authority_row a l' = Some au'" "same_authority au1 au'"
    using Cons by (auto split: if_splits)
  ultimately show ?case by (auto simp: same_authority_def)
qed

lemma ledger_step_authority:
  assumes "ledger_step l l'" and "authority_row a l = Some au"
  shows "\<exists>au'. authority_row a l' = Some au' \<and> (au' = au \<or> same_authority au au')"
  using assms(1)
proof cases
  case (issue aid q i)
  then obtain x where "authorities l' = authorities l @ [x]" using authorities_issue by blast
  then show ?thesis using assms(2) by (simp add: authority_row_def find_append_Some)
next
  case (issue_or_reuse now aid q i)
  obtain i1 i2 where "i = (i1, i2)" by (cases i)
  with issue_or_reuse have "issue_or_reuse_authority now aid q l = Ok ((i1, i2), l')" by simp
  then show ?thesis
  proof (cases rule: issue_or_reuse_cases)
    case (issued w l1)
    from supersede_all_same[OF issued(3) assms(2)] obtain au' where "authority_row a l1 = Some au'" "same_authority au au'" by blast
    then show ?thesis using put_authorities_OkD[OF issued(4)] by (simp add: authority_row_def find_append_Some)
  qed (use assms(2) in simp)
next
  case (supersede aid now by_id b)
  from supersede(2) show ?thesis
    by (cases rule: supersede_authority_cases) (use assms(2) mark_superseded_same[OF assms(2)] in \<open>blast+\<close>)
qed (use assms(2) authorities_kept in \<open>simp_all add: authority_row_def\<close>)

interpretation authority_table: one_way_table ledger_ok ledger_step "\<lambda>l a. authority_row a l" same_authority
  by unfold_locales (auto intro: ledger_step_ok ledger_step_authority)

lemma same_authority_steps: "same_authority\<^sup>*\<^sup>* a a' \<Longrightarrow> same_authority a a'"
  by (induction rule: rtranclp_induct) (auto simp: same_authority_def)

lemma historical_cong:
  "pe_authority r' = pe_authority r \<Longrightarrow> pe_effect_id r' = pe_effect_id r \<Longrightarrow>
   historical_effect_matches lib r' aid scope ab binding = historical_effect_matches lib r aid scope ab binding"
  by (simp only: historical_effect_matches_def)

lemma authority_json_simps [simp]:
  "jget (authority_json isofmt a) ''authority_id'' = JStr (authority_id a)" "has_key (authority_json isofmt a) ''scopes''"
  "jget (authority_json isofmt a) ''scopes'' = JList (map JStr (scopes a))"
  by (simp_all add: authority_json_def jget_def has_key_def)

lemma dispatched_matches:
  assumes "ledger_ok l" and "reserve_and_begin_authorized_effect lib isofmt now aid scope ab b l = Ok (rec, l')"
    and "pe_state rec = Eff_dispatched" and "canonical_uuid aid"
  shows "historical_effect_matches lib rec aid scope ab (binding_json b) = Ok True"
  using assms(2)
proof (cases rule: reserve_and_begin_cases)
  case (reserved row r authority a)
  from effect_update_row[OF reserved(6)] obtain r0 where r0: "r0 \<in> set (effects l)" "r = dispatch_row now r0"
    "er_effect_id r0 = er_effect_id row" by blast
  have "row \<in> set (effects l)" using unresolved_effect_SomeD[OF reserved(2)] by simp
  then have "r0 = row" using effect_by_id_mem[OF assms(1)] r0(1,3) by (metis option.inject)
  then show ?thesis using reserved(4,7) r0(2) historical_cong[of rec "effect_record row"] by (simp add: dispatch_row_def)
next
  case (replayed row)
  then show ?thesis using assms(3) by auto
next
  case (inserted r authority a)
  note au = locked_authority_OkD[OF inserted(4)]
  have "authority_id a = aid" using au get_authority_SomeD[of aid l a] inserted(1) assms(4) by (simp add: canonical_uuid_def)
  moreover have "\<not> list_ex (\<lambda>(k, v). jget (authority_json isofmt a) k \<noteq> JStr v) (binding_items ab)"
    using stored_binding[of a isofmt] au by (auto simp: list_ex_iff)
  moreover have "rec = effect_record (new_effect now (effect_identity lib (binding_json b) (authority_json isofmt a)) b
      (authority_json isofmt a) Eff_dispatched (Some now))"
    using effect_insert_OkD[OF inserted(5)] inserted(6) by simp
  moreover have "JStr scope \<in> set (map JStr (scopes a))" using au by simp
  ultimately show ?thesis by (simp add: historical_effect_matches_def)
qed

lemma dispatch_uuid_ok:
  assumes "reserve_and_begin_authorized_effect lib isofmt now aid scope ab b l = Ok (rec, l')" and "pe_state rec = Eff_dispatched"
  shows "uuid_ok aid"
proof -
  have "uuid_ok aid" if "get_authority aid l = Ok authority" "locked_authority authority aid scope ab = Ok a" for authority a
    using that locked_authority_OkD[OF that(2)] by (auto simp: get_authority_def split: if_splits)
  with assms show ?thesis by (auto elim!: reserve_and_begin_cases)
qed

lemma authority_attribute_same: "binding_of a = ab \<Longrightarrow> authority_attribute a ab = Ok ()"
  by (simp add: authority_attribute_def binding_items_def)


section \<open>A sample run\<close>

definition sample_hash :: pylib where
  "sample_hash = \<lparr>sha256_hex = (\<lambda>_. replicate 64 (CHR ''a'')), float_repr = (\<lambda>_. [])\<rparr>"

definition sample_authority_id :: string where
  "sample_authority_id = ''00000000-0000-4000-8000-000000000001''"

definition sample_request :: authority_request where
  "sample_request =
     \<lparr>rq_operator = ''op'', rq_surface = ''ui'',
      rq_binding = \<lparr>ab_entity_id = ''A1'', ab_goal_profile_id = ''goal'', ab_goal_profile_version = ''v1'', ab_object_generation = ''g1'',
        ab_pre_authority_condition_hash = ''h0'', ab_content_identity = ''c1'', ab_provider_identity = ''p1''\<rparr>,
      rq_scopes = [''stage''], rq_issued_at = Aware 0, rq_expires_at = Aware 100\<rparr>"

definition sample_effect :: effect_binding where
  "sample_effect =
     \<lparr>eb_provider = ''ebay'', eb_operation = ''stage-draft'', eb_entity_type = ''item'', eb_entity_id = ''A1'',
      eb_object_generation = ''g1'', eb_graph_id = ''gr'', eb_treatment_id = ''ebay-stage'', eb_treatment_version = ''v1'',
      eb_condition_hash = ''h1'', eb_request = []\<rparr>"

definition ledger_after :: "('a \<times> ledger) result \<Rightarrow> ledger" where
  "ledger_after r = (case r of Inl _ \<Rightarrow> empty_ledger | Inr (_, l) \<Rightarrow> l)"

definition sample_issued :: ledger where
  "sample_issued = ledger_after (issue_or_reuse_authority 0 sample_authority_id sample_request empty_ledger)"

definition sample_reserve :: "effect_binding \<Rightarrow> ledger \<Rightarrow> (provider_effect \<times> ledger) result" where
  "sample_reserve b l =
     reserve_and_begin_authorized_effect sample_hash (\<lambda>_. ''t'') 1 sample_authority_id ''stage'' (rq_binding sample_request) b l"

definition sample_sent :: ledger where
  "sample_sent = ledger_after (sample_reserve sample_effect sample_issued)"

definition sample_finish :: "ledger \<Rightarrow> (provider_effect \<times> ledger) result" where
  "sample_finish l =
     finish_provider_effect 2 (replicate 64 (CHR ''a'')) ''succeeded'' (Some [(''offer_id'', JStr ''o1'')]) [] l"

definition sample_finished :: ledger where
  "sample_finished = ledger_after (sample_finish sample_sent)"

definition sample_retired :: ledger where
  "sample_retired = ledger_after (supersede_authority 3 sample_authority_id ''next'' sample_finished)"

lemma sample_issued_run:
  "\<exists>i fresh a. issue_or_reuse_authority 0 sample_authority_id sample_request empty_ledger = Ok ((i, fresh), sample_issued)
     \<and> fresh \<and> authority_row i sample_issued = Some a \<and> expires_at a = 100 \<and> i = sample_authority_id"
proof -
  have "case issue_or_reuse_authority 0 sample_authority_id sample_request empty_ledger of Inl _ \<Rightarrow> False
      | Inr ((i, fresh), l) \<Rightarrow> fresh \<and> i = sample_authority_id
          \<and> (case authority_row i l of None \<Rightarrow> False | Some a \<Rightarrow> expires_at a = 100)"
    by code_simp
  then show ?thesis by (auto simp: sample_issued_def ledger_after_def split: sum.splits option.splits)
qed

lemma sample_sent_run:
  "\<exists>rec r. sample_reserve sample_effect sample_issued = Ok (rec, sample_sent) \<and> pe_state rec = Eff_dispatched
     \<and> pe_effect_id rec = replicate 64 (CHR ''a'') \<and> effect_by_id (pe_effect_id rec) sample_sent = Some r
     \<and> er_state r = Eff_dispatched \<and> jget (er_authority_json r) ''authority_id'' = JStr sample_authority_id"
proof -
  have "case sample_reserve sample_effect sample_issued of Inl _ \<Rightarrow> False
      | Inr (rec, l) \<Rightarrow> pe_state rec = Eff_dispatched \<and> pe_effect_id rec = replicate 64 (CHR ''a'')
          \<and> (case effect_by_id (pe_effect_id rec) l of None \<Rightarrow> False | Some r \<Rightarrow>
              er_state r = Eff_dispatched \<and> jget (er_authority_json r) ''authority_id'' = JStr sample_authority_id)"
    by code_simp
  then show ?thesis by (auto simp: sample_sent_def ledger_after_def split: sum.splits option.splits)
qed

lemma sample_finished_run:
  "\<exists>rec r. sample_finish sample_sent = Ok (rec, sample_finished)
     \<and> effect_by_id (replicate 64 (CHR ''a'')) sample_finished = Some r \<and> er_state r = Eff_succeeded"
proof -
  have "case sample_finish sample_sent of Inl _ \<Rightarrow> False
      | Inr (rec, l) \<Rightarrow> (case effect_by_id (replicate 64 (CHR ''a'')) l of None \<Rightarrow> False | Some r \<Rightarrow> er_state r = Eff_succeeded)"
    by code_simp
  then show ?thesis by (auto simp: sample_finished_def ledger_after_def split: sum.splits option.splits)
qed

lemma sample_retired_run: "supersede_authority 3 sample_authority_id ''next'' sample_finished = Ok (True, sample_retired)"
proof -
  have "case supersede_authority 3 sample_authority_id ''next'' sample_finished of Inl _ \<Rightarrow> False | Inr (b, l) \<Rightarrow> b"
    by code_simp
  then show ?thesis by (auto simp: sample_retired_def ledger_after_def split: sum.splits)
qed

lemma sample_canonical: "canonical_uuid sample_authority_id"
  by code_simp

lemma sample_steps:
  "ledger_step empty_ledger sample_issued" "ledger_step sample_issued sample_sent"
  "ledger_step sample_sent sample_finished" "ledger_step sample_finished sample_retired"
proof -
  show "ledger_step empty_ledger sample_issued" using sample_issued_run by (blast intro: ledger_step.issue_or_reuse)
  show "ledger_step sample_issued sample_sent" using sample_sent_run by (auto simp: sample_reserve_def intro: ledger_step.authorized)
  show "ledger_step sample_sent sample_finished" using sample_finished_run by (auto simp: sample_finish_def intro: ledger_step.finish)
  show "ledger_step sample_finished sample_retired" using sample_canonical sample_retired_run by (rule ledger_step.supersede)
qed

lemma sample_ledgers_ok: "ledger_ok sample_issued" "ledger_ok sample_sent" "ledger_ok sample_finished"
  using sample_steps empty_ledger_ok ledger_step_ok by blast+

theorem settled_effects_immutable_witness:
  "\<exists>r. effect_by_id (replicate 64 (CHR ''a'')) sample_finished = Some r \<and> er_state r = Eff_succeeded
     \<and> effect_by_id (replicate 64 (CHR ''a'')) sample_retired = Some r"
proof -
  obtain r where r: "effect_by_id (replicate 64 (CHR ''a'')) sample_finished = Some r" "er_state r = Eff_succeeded"
    using sample_finished_run by blast
  have "ledger_step\<^sup>*\<^sup>* sample_finished sample_retired" using sample_steps(4) by blast
  from settled_effects_immutable[OF sample_ledgers_ok(3) this r(1)] r show ?thesis by blast
qed

theorem dispatched_effect_not_reissued_witness:
  "\<not> is_ok (sample_reserve (sample_effect\<lparr>eb_object_generation := ''g2''\<rparr>) sample_sent)"
proof -
  obtain rec r where s: "reserve_and_begin_authorized_effect sample_hash (\<lambda>_. ''t'') 1 sample_authority_id ''stage''
      (rq_binding sample_request) sample_effect sample_issued = Ok (rec, sample_sent)"
    "pe_state rec = Eff_dispatched" "effect_by_id (pe_effect_id rec) sample_sent = Some r" "er_state r = Eff_dispatched"
    using sample_sent_run unfolding sample_reserve_def by blast
  from dispatched_effect_not_reissued[OF sample_ledgers_ok(1) s(1,2) rtranclp.rtrancl_refl s(3),
      of "sample_effect\<lparr>eb_object_generation := ''g2''\<rparr>"] s(4)
  show ?thesis unfolding sample_reserve_def by (simp add: unresolved_states_def effect_scope_def)
qed


theorem dispatch_needs_exact_authority_witness:
  "\<exists>a\<in>set (authorities sample_issued). binding_of a = rq_binding sample_request \<and> ''stage'' \<in> set (scopes a)"
proof -
  obtain rec where s: "reserve_and_begin_authorized_effect sample_hash (\<lambda>_. ''t'') 1 sample_authority_id ''stage''
      (rq_binding sample_request) sample_effect sample_issued = Ok (rec, sample_sent)" "pe_state rec = Eff_dispatched"
    using sample_sent_run unfolding sample_reserve_def by blast
  from dispatch_needs_exact_authority[OF sample_ledgers_ok(1) s] show ?thesis by blast
qed


text \<open>The canonical form matters: given the id without hyphens, \<^verbatim>\<open>supersede_authority\<close> finds the authority but
  not the effect that is in flight under it, and supersedes it.\<close>

lemma bare_id_escapes_fence:
  "\<exists>l. supersede_authority 3 (filter (\<lambda>c. c \<noteq> CHR ''-'') sample_authority_id) ''next'' sample_sent = Ok (True, l)"
proof -
  have "case supersede_authority 3 (filter (\<lambda>c. c \<noteq> CHR ''-'') sample_authority_id) ''next'' sample_sent of
      Inl _ \<Rightarrow> False | Inr (b, l) \<Rightarrow> b"
    by code_simp
  then show ?thesis by (auto split: sum.splits)
qed

end
