(* ===== verification/Provider_Observations.thy ===== *)
theory Provider_Observations
  imports Ledger_Steps
begin

text \<open>
  \<^verbatim>\<open>provider_observations.py\<close> with the table \<^verbatim>\<open>provider_observations\<close>: immutable evidence about
  the provider's state, identified by the hash of its content. The theorems show that the JSON
  check here agrees with the one of the queue, and that a recorded observation is returned
  unchanged by every later lookup and every replay of the same recording.
\<close>

section \<open>Observations\<close>

definition OBSERVATION_SCHEMA :: string where
  "OBSERVATION_SCHEMA = ''provider-observation/v1''"

definition LEGACY_STAGE_RECEIPT_SCHEMA :: string where
  "LEGACY_STAGE_RECEIPT_SCHEMA = ''legacy-stage-corroboration/v1''"

definition LEGACY_STAGE_OBSERVATION :: string where
  "LEGACY_STAGE_OBSERVATION = ''legacy-stage-corroboration''"

definition OUTCOMES :: "string list" where
  "OUTCOMES = [''corroborated'', ''contradicted'', ''indeterminate'']"

text \<open>The text fields that identify what was observed, in the order of the dataclass.\<close>

record observed_subject =
  os_observation_type :: string
  os_provider :: string
  os_provider_identity :: string
  os_sku :: string
  os_offer_id :: string
  os_object_generation :: string
  os_graph_id :: string
  os_condition_hash :: string
  os_content_identity :: string

record provider_observation =
  po_observation_id :: string
  po_schema_id :: string
  po_subject :: observed_subject
  po_outcome :: string
  po_evidence :: jobj
  po_observed_at :: string

record legacy_stage_receipt =
  lr_receipt_schema_id :: string
  lr_observation_id :: string
  lr_subject :: observed_subject
  lr_outcome :: string
  lr_evidence :: jobj
  lr_observed_at :: string

section \<open>Validation and identity\<close>

fun json_native :: "pyval \<Rightarrow> string \<Rightarrow> unit result"
and native_items :: "pyval list \<Rightarrow> nat \<Rightarrow> string \<Rightarrow> unit result"
and native_entries :: "(pyval \<times> pyval) list \<Rightarrow> string \<Rightarrow> unit result" where
  "json_native PyNone path = Ok ()"
| "json_native (PyBool b) path = Ok ()"
| "json_native (PyStr s) path = Ok ()"
| "json_native (PyInt i) path = Ok ()"
| "json_native (PyFloat r) path =
     (if r = None then Err (ValueError (path @ '' contains a non-finite float'')) else Ok ())"
| "json_native (PyList xs) path = native_items xs 0 path"
| "json_native (PyDict d) path = native_entries d path"
| "json_native (PyOther ty) path = Err (TypeError (path @ '' contains non-JSON value '' @ ty))"
| "native_items [] i path = Ok ()"
| "native_items (x # xs) i path =
     (case json_native x (path @ ''['' @ show_nat i @ '']'') of Inl e \<Rightarrow> Err e | Inr _ \<Rightarrow> native_items xs (Suc i) path)"
| "native_entries [] path = Ok ()"
| "native_entries ((k, v) # d) path =
     (case k of
        PyStr key \<Rightarrow> (case json_native v (path @ ''.'' @ key) of Inl e \<Rightarrow> Err e | Inr _ \<Rightarrow> native_entries d path)
      | _ \<Rightarrow> Err (TypeError (path @ '' contains a non-string key'')))"

definition require_text :: "string \<Rightarrow> string \<Rightarrow> string result" where
  "require_text name v = (if non_blank v then Ok v else Err (ValueError (name @ '' must be a non-empty string'')))"

datatype observed = Observed_text string | Observed_time py_datetime

definition replace_Z :: "string \<Rightarrow> string" where
  "replace_Z s = concat (map (\<lambda>c. if c = CHR ''Z'' then ''+00:00'' else [c]) s)"

definition aware_utc :: "isolib \<Rightarrow> py_datetime \<Rightarrow> string result" where
  "aware_utc il d = (case d of Naive _ \<Rightarrow> Err (ValueError ''observed_at must be timezone-aware'') | Aware t \<Rightarrow> Ok (iso_utc il t))"

definition canonical_observed_at :: "isolib \<Rightarrow> observed \<Rightarrow> string result" where
  "canonical_observed_at il v =
     (case v of
        Observed_time d \<Rightarrow> aware_utc il d
      | Observed_text s \<Rightarrow>
          (case require_text ''observed_at'' s of
             Inl e \<Rightarrow> Err e
           | Inr s \<Rightarrow>
               (case iso_parse il (replace_Z s) of
                  None \<Rightarrow> Err (ValueError ''observed_at must be an ISO-8601 timestamp'')
                | Some d \<Rightarrow> aware_utc il d)))"

definition subject_values :: "observed_subject \<Rightarrow> (string \<times> string) list" where
  "subject_values b =
     [(''provider'', os_provider b), (''provider_identity'', os_provider_identity b), (''sku'', os_sku b),
      (''offer_id'', os_offer_id b), (''object_generation'', os_object_generation b), (''graph_id'', os_graph_id b),
      (''condition_hash'', os_condition_hash b), (''content_identity'', os_content_identity b),
      (''observation_type'', os_observation_type b)]"

fun require_texts :: "(string \<times> string) list \<Rightarrow> unit result" where
  "require_texts [] = Ok ()"
| "require_texts ((name, v) # vs) = (case require_text name v of Inl e \<Rightarrow> Err e | Inr _ \<Rightarrow> require_texts vs)"

definition observation_binding :: "observed_subject \<Rightarrow> string \<Rightarrow> string \<Rightarrow> jobj \<Rightarrow> jobj" where
  "observation_binding b stamp out ev =
     (''schema_id'', JStr OBSERVATION_SCHEMA) # map (map_prod id JStr) (subject_values b)
     @ [(''observed_at'', JStr stamp), (''outcome'', JStr out), (''evidence'', JObj ev)]"

definition observation_identity :: "pylib \<Rightarrow> jobj \<Rightarrow> string" where
  "observation_identity lib binding = hash_json lib (JObj binding)"

definition build_provider_observation ::
  "pylib \<Rightarrow> isolib \<Rightarrow> observed_subject \<Rightarrow> string \<Rightarrow> (pyval \<times> pyval) list \<Rightarrow> observed \<Rightarrow> provider_observation result" where
  "build_provider_observation lib il b out evidence observed_at =
     (case require_texts (subject_values b) of
        Inl e \<Rightarrow> Err e
      | Inr _ \<Rightarrow>
          (case canonical_observed_at il observed_at of
             Inl e \<Rightarrow> Err e
           | Inr stamp \<Rightarrow>
               (if out \<notin> set OUTCOMES then Err (ValueError ''unsupported provider observation outcome'')
                else (case json_native (PyDict evidence) ''value.evidence'' of
                        Inl e \<Rightarrow> Err e
                      | Inr _ \<Rightarrow>
                          (case jobj_entries_of evidence of
                             None \<Rightarrow> Err (TypeError ''evidence'')
                           | Some ev \<Rightarrow>
                               Ok \<lparr>po_observation_id = observation_identity lib (observation_binding b stamp out ev),
                                   po_schema_id = OBSERVATION_SCHEMA, po_subject = b, po_outcome = out,
                                   po_evidence = ev, po_observed_at = stamp\<rparr>)))))"

text \<open>The observation built again from its own fields.\<close>

definition rebuild :: "pylib \<Rightarrow> isolib \<Rightarrow> provider_observation \<Rightarrow> provider_observation result" where
  "rebuild lib il o1 =
     build_provider_observation lib il (po_subject o1) (po_outcome o1) (map (map_prod PyStr pyval_of) (po_evidence o1))
       (Observed_text (po_observed_at o1))"

section \<open>The table\<close>

record observation_row =
  or_observation_id :: string
  or_schema_id :: string
  or_subject :: observed_subject
  or_outcome :: string
  or_evidence_json :: jobj
  or_observed_at :: time
  or_created_at :: time

type_synonym observations = "observation_row list"

definition observation_checks :: "observation_row \<Rightarrow> bool" where
  "observation_checks r = (hex64 (or_observation_id r) \<and> or_schema_id r = OBSERVATION_SCHEMA \<and> or_outcome r \<in> set OUTCOMES)"

definition observation_row_at :: "observations \<Rightarrow> string \<Rightarrow> observation_row option" where
  "observation_row_at t i = find (\<lambda>r. or_observation_id r = i) t"

definition observation_record :: "isolib \<Rightarrow> observation_row \<Rightarrow> provider_observation result" where
  "observation_record il r =
     (case canonical_observed_at il (Observed_time (Aware (or_observed_at r))) of
        Inl e \<Rightarrow> Err e
      | Inr stamp \<Rightarrow>
          Ok \<lparr>po_observation_id = or_observation_id r, po_schema_id = or_schema_id r, po_subject = or_subject r,
              po_outcome = or_outcome r, po_evidence = or_evidence_json r, po_observed_at = stamp\<rparr>)"

definition observation_json :: "provider_observation \<Rightarrow> jobj" where
  "observation_json o1 =
     [(''observation_id'', JStr (po_observation_id o1)), (''schema_id'', JStr (po_schema_id o1))]
     @ map (map_prod id JStr) (subject_values (po_subject o1))
     @ [(''outcome'', JStr (po_outcome o1)), (''evidence'', JObj (po_evidence o1)), (''observed_at'', JStr (po_observed_at o1))]"

definition observation_eq :: "provider_observation \<Rightarrow> provider_observation \<Rightarrow> bool" where
  "observation_eq a b =
     (po_observation_id a = po_observation_id b \<and> po_schema_id a = po_schema_id b \<and> po_subject a = po_subject b
      \<and> po_outcome a = po_outcome b \<and> py_eq (JObj (po_evidence a)) (JObj (po_evidence b)) \<and> po_observed_at a = po_observed_at b)"

text \<open>\<^verbatim>\<open>INSERT ... ON CONFLICT (observation_id) DO NOTHING\<close>. The database reads the canonical time text
  as the instant that Python reads.\<close>

definition observation_insert :: "isolib \<Rightarrow> time \<Rightarrow> provider_observation \<Rightarrow> observations \<Rightarrow> observations result" where
  "observation_insert il now o1 t =
     (case iso_parse il (replace_Z (po_observed_at o1)) of
        Some (Aware stamp) \<Rightarrow>
          (let r = \<lparr>or_observation_id = po_observation_id o1, or_schema_id = po_schema_id o1, or_subject = po_subject o1,
                    or_outcome = po_outcome o1, or_evidence_json = po_evidence o1, or_observed_at = stamp, or_created_at = now\<rparr>
           in if \<not> observation_checks r then Err (CheckViolation ''provider_observations'')
              else Ok (if observation_row_at t (po_observation_id o1) = None then t @ [r] else t))
      | _ \<Rightarrow> Err (DatabaseError ''invalid input syntax for type timestamp with time zone''))"

definition record_provider_observation ::
  "pylib \<Rightarrow> isolib \<Rightarrow> time \<Rightarrow> provider_observation \<Rightarrow> observations \<Rightarrow> (provider_observation \<times> observations) result" where
  "record_provider_observation lib il now o1 t =
     (case rebuild lib il o1 of
        Inl e \<Rightarrow> Err e
      | Inr o2 \<Rightarrow>
          (if \<not> observation_eq o1 o2 then Err (ProviderObservationConflict ''observation identity does not match binding'')
           else (case observation_insert il now o1 t of
                   Inl e \<Rightarrow> Err e
                 | Inr t' \<Rightarrow>
                     (case observation_row_at t' (po_observation_id o1) of
                        None \<Rightarrow> Err (RuntimeError ''provider observation insert was not durable'')
                      | Some row \<Rightarrow>
                          (case observation_record il row of
                             Inl e \<Rightarrow> Err e
                           | Inr durable \<Rightarrow>
                               (if canonical lib (JObj (observation_json durable)) \<noteq> canonical lib (JObj (observation_json o1))
                                then Err (ProviderObservationConflict ''durable provider observation binding mismatch'')
                                else Ok (durable, t')))))))"

section \<open>Lookups\<close>

definition lookup_provider_observation ::
  "pylib \<Rightarrow> isolib \<Rightarrow> string \<Rightarrow> observations \<Rightarrow> provider_observation option result" where
  "lookup_provider_observation lib il i t =
     (if \<not> hex64 i then Err (ProviderObservationConflict ''invalid provider observation identity'')
      else (case observation_row_at t i of
              None \<Rightarrow> Ok None
            | Some row \<Rightarrow>
                (case observation_record il row of
                   Inl e \<Rightarrow> Err e
                 | Inr o1 \<Rightarrow>
                     (case rebuild lib il o1 of
                        Inl e \<Rightarrow> Err e
                      | Inr rebuilt \<Rightarrow>
                          (if po_observation_id rebuilt \<noteq> i
                           then Err (ProviderObservationConflict ''durable provider observation identity mismatch'')
                           else Ok (Some o1))))))"

definition lookup_authoritative_legacy_stage_receipt ::
  "pylib \<Rightarrow> isolib \<Rightarrow> string \<Rightarrow> string \<Rightarrow> string \<Rightarrow> string \<Rightarrow> string \<Rightarrow> observations \<Rightarrow> (string \<times> string) list result" where
  "lookup_authoritative_legacy_stage_receipt lib il i sku offer_id provider_id content t =
     (case lookup_provider_observation lib il i t of
        Inl e \<Rightarrow> Err e
      | Inr None \<Rightarrow> Err (ProviderObservationConflict ''legacy stage observation is absent'')
      | Inr (Some o1) \<Rightarrow>
          (let b = po_subject o1 in
           if os_provider b \<noteq> ''ebay'' \<or> os_provider_identity b \<noteq> provider_id \<or> os_sku b \<noteq> sku \<or> os_offer_id b \<noteq> offer_id
             \<or> os_content_identity b \<noteq> content \<or> os_observation_type b \<noteq> LEGACY_STAGE_OBSERVATION \<or> po_outcome o1 \<noteq> ''corroborated''
           then Err (ProviderObservationConflict ''legacy stage observation binding mismatch'')
           else Ok [(''receipt_schema_id'', LEGACY_STAGE_RECEIPT_SCHEMA), (''receipt_id'', po_observation_id o1),
                    (''observation_id'', po_observation_id o1), (''content_identity'', os_content_identity b),
                    (''offer_id'', os_offer_id b), (''provider_identity'', os_provider_identity b)]))"

text \<open>\<open>b\<close> carries the expected sku, offer, provider, generation, graph, condition and content; the
  observation type is fixed by the function.\<close>

definition resolve_legacy_stage_corroboration ::
  "pylib \<Rightarrow> isolib \<Rightarrow> provider_observation \<Rightarrow> observed_subject \<Rightarrow> legacy_stage_receipt result" where
  "resolve_legacy_stage_corroboration lib il o1 b =
     (if os_provider b \<noteq> ''ebay'' \<or> os_provider (po_subject o1) \<noteq> ''ebay''
      then Err (ProviderObservationConflict ''legacy stage provider must be ebay'')
      else if po_outcome o1 \<noteq> ''corroborated'' then Err (ProviderObservationConflict ''legacy stage observation is not corroborated'')
      else if po_schema_id o1 \<noteq> OBSERVATION_SCHEMA then Err (ProviderObservationConflict ''provider observation schema mismatch'')
      else if os_observation_type (po_subject o1) \<noteq> LEGACY_STAGE_OBSERVATION
      then Err (ProviderObservationConflict ''provider observation type mismatch'')
      else if po_subject o1 \<noteq> b\<lparr>os_observation_type := LEGACY_STAGE_OBSERVATION\<rparr>
      then Err (ProviderObservationConflict ''legacy stage corroboration binding mismatch'')
      else (case rebuild lib il o1 of
              Inl e \<Rightarrow> Err e
            | Inr rebuilt \<Rightarrow>
                (if po_observation_id rebuilt \<noteq> po_observation_id o1
                 then Err (ProviderObservationConflict ''provider observation identity mismatch'')
                 else Ok \<lparr>lr_receipt_schema_id = LEGACY_STAGE_RECEIPT_SCHEMA, lr_observation_id = po_observation_id o1,
                          lr_subject = b, lr_outcome = po_outcome o1, lr_evidence = po_evidence o1,
                          lr_observed_at = po_observed_at o1\<rparr>)))"

section \<open>The two JSON checks agree\<close>

lemma native_iff_json_of:
  "is_ok (json_native v p) \<longleftrightarrow> json_of v \<noteq> None"
  "is_ok (native_items xs i p) \<longleftrightarrow> jsons_of xs \<noteq> None"
  "is_ok (native_entries d p) \<longleftrightarrow> jobj_entries_of d \<noteq> None"
  by (induction v p and xs i p and d p rule: json_native_native_items_native_entries.induct)
    (auto split: sum.splits option.splits pyval.splits)

text \<open>The evidence check of observations accepts exactly what the checkpoint check of the queue
  accepts.\<close>

lemma json_native_agrees: "is_ok (json_native v p) \<longleftrightarrow> is_ok (validate_json_value v q)"
  by (simp add: native_iff_json_of validate_iff_json_of)

section \<open>A recorded observation is durable\<close>

lemma rebuild_OkD:
  assumes "rebuild lib il o1 = Ok o2"
  shows "po_schema_id o2 = OBSERVATION_SCHEMA" "po_subject o2 = po_subject o1" "po_outcome o2 = po_outcome o1"
    "po_evidence o2 = po_evidence o1" "canonical_observed_at il (Observed_text (po_observed_at o1)) = Ok (po_observed_at o2)"
  using assms jobj_entries_of_map[of "po_evidence o1"] json_of_pyval_of
  by (auto simp: rebuild_def build_provider_observation_def split: sum.splits if_splits option.splits)

lemma rebuild_fixed:
  assumes "rebuild lib il o1 = Ok o2" and "observation_eq o1 o2"
  shows "o2 = o1"
  using rebuild_OkD[OF assms(1)] assms(2) by (simp add: observation_eq_def)

definition row_valid :: "pylib \<Rightarrow> isolib \<Rightarrow> observation_row \<Rightarrow> bool" where
  "row_valid lib il r =
     (observation_checks r \<and> (\<exists>o1. observation_record il r = Ok o1 \<and> rebuild lib il o1 = Ok o1))"

definition observations_ok :: "pylib \<Rightarrow> isolib \<Rightarrow> observations \<Rightarrow> bool" where
  "observations_ok lib il t = (\<forall>r\<in>set t. row_valid lib il r)"

inductive observation_step :: "pylib \<Rightarrow> isolib \<Rightarrow> observations \<Rightarrow> observations \<Rightarrow> bool" for lib il where
  recorded: "record_provider_observation lib il now o1 t = Ok (d, t') \<Longrightarrow> observation_step lib il t t'"

inductive_cases observation_stepE: "observation_step lib il t t'"

lemma record_OkD:
  assumes "record_provider_observation lib il now o1 t = Ok (d, t')"
  shows "rebuild lib il o1 = Ok o1" and "observation_insert il now o1 t = Ok t'"
    and "\<exists>r. observation_row_at t' (po_observation_id o1) = Some r \<and> observation_record il r = Ok d"
proof -
  obtain o2 where o2: "rebuild lib il o1 = Ok o2" using assms by (cases "rebuild lib il o1") (simp_all add: record_provider_observation_def)
  then have eq: "observation_eq o1 o2" using assms by (auto simp: record_provider_observation_def split: if_splits)
  then show "rebuild lib il o1 = Ok o1" using rebuild_fixed[OF o2] o2 by simp
  show "observation_insert il now o1 t = Ok t'"
    and "\<exists>r. observation_row_at t' (po_observation_id o1) = Some r \<and> observation_record il r = Ok d"
    using assms o2 eq by (auto simp: record_provider_observation_def split: sum.splits option.splits if_splits)
qed

lemma insert_OkD:
  assumes "observation_insert il now o1 t = Ok t'" and "rebuild lib il o1 = Ok o1"
  shows "if observation_row_at t (po_observation_id o1) = None
    then \<exists>r. t' = t @ [r] \<and> or_observation_id r = po_observation_id o1 \<and> row_valid lib il r else t' = t"
proof -
  obtain u where u: "iso_parse il (replace_Z (po_observed_at o1)) = Some (Aware u)"
    using assms(1) by (auto simp: observation_insert_def split: option.splits py_datetime.splits)
  let ?r = "\<lparr>or_observation_id = po_observation_id o1, or_schema_id = po_schema_id o1, or_subject = po_subject o1,
      or_outcome = po_outcome o1, or_evidence_json = po_evidence o1, or_observed_at = u, or_created_at = now\<rparr>"
  have c: "observation_checks ?r" and t': "t' = (if observation_row_at t (po_observation_id o1) = None then t @ [?r] else t)"
    using assms(1) u by (simp_all add: observation_insert_def Let_def split: if_splits)
  have "po_observed_at o1 = iso_utc il u"
    using rebuild_OkD(5)[OF assms(2)] u by (simp add: canonical_observed_at_def aware_utc_def require_text_def split: if_splits)
  then have "observation_record il ?r = Ok o1"
    by (simp add: observation_record_def canonical_observed_at_def aware_utc_def)
  then have "row_valid lib il ?r" using c assms(2) by (auto simp: row_valid_def)
  then show ?thesis using t' by auto
qed

lemma observation_step_cases:
  assumes "observation_step lib il t t'"
  obtains "t' = t" | r where "t' = t @ [r]" "row_valid lib il r" "observation_row_at t (or_observation_id r) = None"
  using assms
proof cases
  case (recorded now o1 d)
  from insert_OkD[OF record_OkD(2,1)[OF recorded]] that show ?thesis by (auto split: if_splits)
qed

lemma observation_step_ok: "observations_ok lib il t \<Longrightarrow> observation_step lib il t t' \<Longrightarrow> observations_ok lib il t'"
  by (erule observation_step_cases) (auto simp: observations_ok_def)

lemma observation_step_row: "observation_step lib il t t' \<Longrightarrow> observation_row_at t i = Some r \<Longrightarrow> observation_row_at t' i = Some r"
  by (erule observation_step_cases) (auto simp: observation_row_at_def find_append_Some)

interpretation observations: one_way_table "observations_ok lib il" "observation_step lib il" observation_row_at "\<lambda>_ _. False"
  for lib il
  by unfold_locales (auto intro: observation_step_ok observation_step_row)

text \<open>A recorded observation is durable and immutable: whatever is recorded afterwards, looking its
  identity up returns exactly the recorded observation, with the identity check passing, and recording
  the same observation again returns it and changes nothing.\<close>

lemma recorded_observation_durable:
  assumes "observations_ok lib il t" and "record_provider_observation lib il now o1 t = Ok (d, t')"
    and "(observation_step lib il)\<^sup>*\<^sup>* t' t''"
  shows "lookup_provider_observation lib il (po_observation_id o1) t'' = Ok (Some d)
    \<and> record_provider_observation lib il now' o1 t'' = Ok (d, t'')"
proof
  note rb = record_OkD(1)[OF assms(2)] and ins = record_OkD(2)[OF assms(2)]
  obtain r where r: "observation_row_at t' (po_observation_id o1) = Some r" "observation_record il r = Ok d"
    using record_OkD(3)[OF assms(2)] by blast
  have ok: "observations_ok lib il t'" using assms(1,2) observation_step.recorded observation_step_ok by blast
  have r'': "observation_row_at t'' (po_observation_id o1) = Some r"
    by (rule observations.settled_steps[OF assms(3) ok r(1)]) simp
  have mem: "r \<in> set t'" "or_observation_id r = po_observation_id o1"
    using find_SomeD[OF r(1)[unfolded observation_row_at_def]] by simp_all
  then have "row_valid lib il r" using ok by (simp add: observations_ok_def)
  then have v: "hex64 (po_observation_id o1)" "rebuild lib il d = Ok d"
    using r(2) mem(2) by (auto simp: row_valid_def observation_checks_def)
  have "po_observation_id d = po_observation_id o1"
    using r(2) mem(2) by (auto simp: observation_record_def split: sum.splits)
  then show "lookup_provider_observation lib il (po_observation_id o1) t'' = Ok (Some d)"
    using v r'' r(2) by (simp add: lookup_provider_observation_def)
  have c: "canonical lib (JObj (observation_json d)) = canonical lib (JObj (observation_json o1))"
    using assms(2) rb ins r by (simp add: record_provider_observation_def observation_eq_def split: if_splits)
  have "observation_eq o1 o1" by (simp add: observation_eq_def)
  moreover obtain u where "iso_parse il (replace_Z (po_observed_at o1)) = Some (Aware u)"
    using ins by (auto simp: observation_insert_def split: option.splits py_datetime.splits)
  then have "observation_insert il now' o1 t'' = Ok t''"
    using ins r'' by (simp add: observation_insert_def observation_checks_def Let_def split: if_splits)
  ultimately show "record_provider_observation lib il now' o1 t'' = Ok (d, t'')"
    using rb r'' r(2) c by (simp add: record_provider_observation_def)
qed

end
