(* ===== verification/Py_Convert.thy ===== *)
theory Py_Convert
  imports Json_Value
begin

text \<open>
  What the modelled code takes of Python's conversions and of \<^verbatim>\<open>pathlib\<close>: iteration, \<^verbatim>\<open>str\<close>, \<^verbatim>\<open>int\<close>,
  \<^verbatim>\<open>float\<close>, \<^verbatim>\<open>dict\<close>, \<^verbatim>\<open>str.split\<close> and POSIX paths, with the exceptions they raise. The text that
  \<^verbatim>\<open>str\<close> gives for a list or a dictionary is the argument \<open>cs\<close>; digits and white space are ASCII. The lemmas
  show when a comprehension over a fallible function returns and that a path is read back from its text.
\<close>

section \<open>Iteration, text and integers\<close>

text \<open>Iterating a string gives its characters, one UTF-8 sequence each.\<close>

definition cont_byte :: "char \<Rightarrow> bool" where
  "cont_byte c = (128 \<le> (of_char c :: nat) \<and> (of_char c :: nat) < 192)"

function py_chars :: "string \<Rightarrow> string list" where
  "py_chars [] = []"
| "py_chars (c # s) = (c # takeWhile cont_byte s) # py_chars (dropWhile cont_byte s)"
  by pat_completeness auto
termination by (relation "measure length") (auto simp: le_imp_less_Suc length_dropWhile_le)

fun py_iter :: "json \<Rightarrow> json list result" where
  "py_iter (JList xs) = Ok xs"
| "py_iter (JStr s) = Ok (map JStr (py_chars s))"
| "py_iter (JObj d) = Ok (map (JStr \<circ> fst) d)"
| "py_iter _ = Err (TypeError ''object is not iterable'')"

fun py_str :: "pylib \<Rightarrow> (json \<Rightarrow> string) \<Rightarrow> json \<Rightarrow> string" where
  "py_str lib cs JNull = ''None''"
| "py_str lib cs (JBool b) = (if b then ''True'' else ''False'')"
| "py_str lib cs (JInt i) = show_int i"
| "py_str lib cs (JFloat r) = float_repr lib r"
| "py_str lib cs (JStr s) = s"
| "py_str lib cs v = cs v"

text \<open>\<^verbatim>\<open>int(s)\<close>: an optional sign and at most 4300 digits, with single underscores between digits.\<close>

fun digits_value :: "int \<Rightarrow> bool \<Rightarrow> string \<Rightarrow> int option" where
  "digits_value acc after_digit [] = (if after_digit then Some acc else None)"
| "digits_value acc after_digit (c # s) =
     (if 48 \<le> (of_char c :: nat) \<and> (of_char c :: nat) \<le> 57
      then digits_value (acc * 10 + int (of_char c - 48)) True s
      else if c = CHR ''_'' \<and> after_digit then digits_value acc False s
      else None)"

definition is_digit :: "char \<Rightarrow> bool" where
  "is_digit c = (48 \<le> (of_char c :: nat) \<and> (of_char c :: nat) \<le> 57)"

definition int_text :: "string \<Rightarrow> int option" where
  "int_text s =
     (case py_strip s of
        [] \<Rightarrow> None
      | c # t \<Rightarrow>
          (if 4300 < length (filter is_digit (c # t)) then None
           else if c = CHR ''-'' then map_option uminus (digits_value 0 False t)
           else if c = CHR ''+'' then digits_value 0 False t
           else digits_value 0 False (c # t)))"

fun py_int :: "json \<Rightarrow> int result" where
  "py_int (JInt i) = Ok i"
| "py_int (JBool b) = Ok (if b then 1 else 0)"
| "py_int (JFloat r) = Ok (if r < 0 then \<lceil>r\<rceil> else \<lfloor>r\<rfloor>)"
| "py_int (JStr s) =
     (case int_text s of None \<Rightarrow> Err (ValueError ''invalid literal for int() with base 10'') | Some i \<Rightarrow> Ok i)"
| "py_int _ = Err (TypeError ''int() argument must be a string or a real number'')"

definition unhashable :: "json \<Rightarrow> bool" where
  "unhashable v = (case v of JList _ \<Rightarrow> True | JObj _ \<Rightarrow> True | _ \<Rightarrow> False)"

text \<open>\<^verbatim>\<open>dict(item)\<close>, for a mapping or a sequence of pairs; keys that are not strings are never looked up and are
  left out.\<close>

fun dict_pairs :: "json list \<Rightarrow> jobj \<Rightarrow> jobj result" where
  "dict_pairs [] d = Ok d"
| "dict_pairs (x # xs) d =
     (case py_iter x of
        Inl _ \<Rightarrow> Err (TypeError ''cannot convert dictionary update sequence element to a sequence'')
      | Inr [k, v] \<Rightarrow>
          (if unhashable k then Err (TypeError ''unhashable type'')
           else dict_pairs xs (case k of JStr s \<Rightarrow> AList.update s v d | _ \<Rightarrow> d))
      | Inr _ \<Rightarrow> Err (ValueError ''dictionary update sequence element has the wrong length''))"

definition py_dict :: "json \<Rightarrow> jobj result" where
  "py_dict v = (case v of JObj d \<Rightarrow> Ok d | _ \<Rightarrow> (case py_iter v of Inl e \<Rightarrow> Err e | Inr xs \<Rightarrow> dict_pairs xs []))"

text \<open>\<^verbatim>\<open>d.get(key, default)\<close> and \<^verbatim>\<open>d[key]\<close>\<close>

definition jget_or :: "jobj \<Rightarrow> string \<Rightarrow> json \<Rightarrow> json" where
  "jget_or d k v = (case map_of d k of None \<Rightarrow> v | Some w \<Rightarrow> w)"

definition jitem :: "json \<Rightarrow> string \<Rightarrow> json result" where
  "jitem v k =
     (case v of
        JObj d \<Rightarrow> (case map_of d k of None \<Rightarrow> Err (KeyError k) | Some w \<Rightarrow> Ok w)
      | _ \<Rightarrow> Err (TypeError ''indices must be integers''))"

text \<open>A comprehension stops at the first exception.\<close>

fun map_result :: "('a \<Rightarrow> 'b result) \<Rightarrow> 'a list \<Rightarrow> 'b list result" where
  "map_result f [] = Ok []"
| "map_result f (x # xs) =
     (case f x of
        Inl e \<Rightarrow> Err e
      | Inr y \<Rightarrow> (case map_result f xs of Inl e \<Rightarrow> Err e | Inr ys \<Rightarrow> Ok (y # ys)))"

definition bind_result :: "'a result \<Rightarrow> ('a \<Rightarrow> 'b result) \<Rightarrow> 'b result" where
  "bind_result r f = (case r of Inl e \<Rightarrow> Err e | Inr x \<Rightarrow> f x)"

definition str_items :: "pylib \<Rightarrow> (json \<Rightarrow> string) \<Rightarrow> json \<Rightarrow> string list result" where
  "str_items lib cs v = bind_result (py_iter v) (\<lambda>xs. Ok (map (py_str lib cs) xs))"

section \<open>Fallible comprehensions\<close>

lemma bind_result_Ok [simp]: "bind_result r f = Inr y \<longleftrightarrow> (\<exists>x. r = Inr x \<and> f x = Inr y)"
  by (cases r) (auto simp: bind_result_def)

lemma bind_result_simps [simp]: "bind_result (Inr x) f = f x" "bind_result (Inl e) f = Inl e"
  by (simp_all add: bind_result_def)

lemma map_result_Ok_iff:
  "map_result f xs = Ok ys \<longleftrightarrow> (\<forall>x\<in>set xs. \<exists>y. f x = Inr y) \<and> ys = map (\<lambda>x. projr (f x)) xs"
proof (induction xs arbitrary: ys)
  case (Cons x xs)
  show ?case using Cons by (cases "f x"; cases "map_result f xs") auto
qed auto

lemma map_result_map: "(\<And>x. f (h x) = Ok (k x)) \<Longrightarrow> map_result f (map h xs) = Ok (map k xs)"
  by (induction xs) auto

lemma map_result_defined: "(\<And>x. x \<in> set xs \<Longrightarrow> \<exists>y. f x = Inr y) \<Longrightarrow> \<exists>ys. map_result f xs = Ok ys \<and> length ys = length xs"
  by (auto simp: map_result_Ok_iff)


section \<open>Floating point numbers\<close>

text \<open>\<^verbatim>\<open>float(s)\<close>: the exact decimal value before rounding, infinities and NaN apart. An underscore stands
  only between two digits.\<close>

datatype float_literal = Decimal rat | Infinite | NotANumber

fun underscores_ok :: "bool \<Rightarrow> string \<Rightarrow> bool" where
  "underscores_ok after_digit [] = True"
| "underscores_ok after_digit (c # s) =
     (if c = CHR ''_'' then after_digit \<and> s \<noteq> [] \<and> is_digit (hd s) \<and> underscores_ok False s
      else underscores_ok (is_digit c) s)"

definition decimal_nat :: "string \<Rightarrow> nat" where
  "decimal_nat s = foldl (\<lambda>n c. 10 * n + (of_char c - 48)) 0 s"

definition exponent_text :: "string \<Rightarrow> int option" where
  "exponent_text s =
     (let (neg, t) = (case s of [] \<Rightarrow> (False, []) | c # r \<Rightarrow> (if c = CHR ''-'' then (True, r) else if c = CHR ''+'' then (False, r) else (False, s)))
      in if t = [] \<or> \<not> list_all is_digit t then None
         else Some (if neg then - int (decimal_nat t) else int (decimal_nat t)))"

definition decimal_text :: "string \<Rightarrow> rat option" where
  "decimal_text s =
     (let ip = takeWhile is_digit s; r = dropWhile is_digit s;
          (fp, r2) = (case r of [] \<Rightarrow> ([], [])
                      | c # t \<Rightarrow> (if c = CHR ''.'' then (takeWhile is_digit t, dropWhile is_digit t) else ([], r)));
          m = of_nat (decimal_nat (ip @ fp)) / 10 ^ length fp
      in if ip = [] \<and> fp = [] then None
         else (case r2 of
                 [] \<Rightarrow> Some m
               | c # t \<Rightarrow>
                   (if c = CHR ''e'' \<or> c = CHR ''E''
                    then map_option (\<lambda>e. if e < 0 then m / 10 ^ nat (- e) else m * 10 ^ nat e) (exponent_text t)
                    else None)))"

definition float_text :: "string \<Rightarrow> (bool \<times> float_literal) option" where
  "float_text s =
     (let t = py_strip s;
          (neg, u) = (case t of [] \<Rightarrow> (False, []) | c # r \<Rightarrow> (if c = CHR ''-'' then (True, r) else if c = CHR ''+'' then (False, r) else (False, t)));
          w = py_lower u
      in if w = ''inf'' \<or> w = ''infinity'' then Some (neg, Infinite)
         else if w = ''nan'' then Some (neg, NotANumber)
         else if underscores_ok False u
         then map_option (\<lambda>r. (neg, Decimal r)) (decimal_text (filter (\<lambda>c. c \<noteq> CHR ''_'') u))
         else None)"

text \<open>\<^verbatim>\<open>float(v) > 0\<close> in double precision: an integer from \<open>2 ^ 1024 - 2 ^ 970\<close> on does not convert, and a decimal
  value of at most \<open>2 ^ -1075\<close>, half the least positive double, is rounded to zero.\<close>

definition float_range :: int where
  "float_range = 2 ^ 1024 - 2 ^ 970"

fun float_positive :: "json \<Rightarrow> bool result" where
  "float_positive (JBool b) = Ok b"
| "float_positive (JInt i) =
     (if float_range \<le> \<bar>i\<bar> then Err (OverflowError ''int too large to convert to float'') else Ok (0 < i))"
| "float_positive (JFloat r) = Ok (0 < r)"
| "float_positive (JStr s) =
     (case float_text s of
        None \<Rightarrow> Err (ValueError ''could not convert string to float'')
      | Some (neg, Decimal r) \<Rightarrow> Ok (\<not> neg \<and> 1 / 2 ^ 1075 < r)
      | Some (neg, Infinite) \<Rightarrow> Ok (\<not> neg)
      | Some (neg, NotANumber) \<Rightarrow> Ok False)"
| "float_positive _ = Err (TypeError ''float() argument must be a string or a real number'')"

section \<open>Text of values and words\<close>

text \<open>\<^verbatim>\<open>str(value or "")\<close>\<close>

definition str_or_empty :: "pylib \<Rightarrow> (json \<Rightarrow> string) \<Rightarrow> json \<Rightarrow> string" where
  "str_or_empty lib cs v = (if truthy v then py_str lib cs v else [])"

text \<open>\<^verbatim>\<open>value or {}\<close> followed by \<^verbatim>\<open>.get(key)\<close>: a truthy value that is no dictionary has no such method.\<close>

definition type_name :: "json \<Rightarrow> string" where
  "type_name v =
     (case v of JNull \<Rightarrow> ''NoneType'' | JBool _ \<Rightarrow> ''bool'' | JInt _ \<Rightarrow> ''int'' | JFloat _ \<Rightarrow> ''float'' | JStr _ \<Rightarrow> ''str''
      | JList _ \<Rightarrow> ''list'' | JObj _ \<Rightarrow> ''dict'')"

definition no_attribute :: "json \<Rightarrow> string \<Rightarrow> py_error" where
  "no_attribute v a = AttributeError ([CHR 0x27] @ type_name v @ [CHR 0x27] @ '' object has no attribute '' @ [CHR 0x27] @ a @ [CHR 0x27])"

definition or_dict :: "json \<Rightarrow> jobj result" where
  "or_dict v = (if \<not> truthy v then Ok [] else (case v of JObj d \<Rightarrow> Ok d | _ \<Rightarrow> Err (no_attribute v ''get'')))"

text \<open>\<^verbatim>\<open>value if isinstance(value, dict) else {}\<close>, and the same for lists.\<close>

definition dict_or_empty :: "json \<Rightarrow> jobj" where
  "dict_or_empty v = (case v of JObj d \<Rightarrow> d | _ \<Rightarrow> [])"

definition list_or_empty :: "json \<Rightarrow> json list" where
  "list_or_empty v = (case v of JList xs \<Rightarrow> xs | _ \<Rightarrow> [])"

text \<open>\<^verbatim>\<open>s.split()\<close> at white space, and \<^verbatim>\<open>s.split(sep)\<close> at one character.\<close>

function py_words :: "string \<Rightarrow> string list" where
  "py_words s =
     (let t = dropWhile is_space s
      in if t = [] then [] else takeWhile (\<lambda>c. \<not> is_space c) t # py_words (dropWhile (\<lambda>c. \<not> is_space c) t))"
  by pat_completeness auto
termination
proof (relation "measure length")
  fix s t :: string
  assume t: "t = dropWhile is_space s" and ne: "t \<noteq> []"
  have "\<not> is_space (hd t)" using t ne hd_dropWhile by blast
  then have "length (dropWhile (\<lambda>c. \<not> is_space c) t) < length t"
    using ne by (cases t) (simp_all add: le_imp_less_Suc length_dropWhile_le)
  also have "length t \<le> length s" by (simp add: t length_dropWhile_le)
  finally show "(dropWhile (\<lambda>c. \<not> is_space c) t, s) \<in> measure length" by simp
qed simp

declare py_words.simps [simp del]

fun split_at :: "char \<Rightarrow> string \<Rightarrow> string list" where
  "split_at sep [] = [[]]"
| "split_at sep (c # s) =
     (if c = sep then [] # split_at sep s
      else (case split_at sep s of [] \<Rightarrow> [[c]] | w # ws \<Rightarrow> (c # w) # ws))"

text \<open>\<^verbatim>\<open>s.replace(old, new)\<close> for a single character.\<close>

definition replace_char :: "char \<Rightarrow> char \<Rightarrow> string \<Rightarrow> string" where
  "replace_char old new s = map (\<lambda>c. if c = old then new else c) s"

section \<open>Paths\<close>

text \<open>A POSIX path: its root (empty, one slash or exactly two) and its parts.\<close>

type_synonym path = "string \<times> string list"

definition path_root :: "string \<Rightarrow> string" where
  "path_root s =
     (if starts_with s ''//'' \<and> \<not> starts_with s ''///'' then ''//'' else if starts_with s ''/'' then ''/'' else [])"

definition path_part :: "string \<Rightarrow> bool" where
  "path_part w = (w \<noteq> [] \<and> w \<noteq> ''.'')"

definition py_path :: "string \<Rightarrow> path" where
  "py_path s = (path_root s, filter path_part (split_at (CHR ''/'') s))"

definition path_str :: "path \<Rightarrow> string" where
  "path_str p = (let s = fst p @ py_join ''/'' (snd p) in if s = [] then ''.'' else s)"

definition path_join :: "path \<Rightarrow> path \<Rightarrow> path" where
  "path_join p q = (if fst q \<noteq> [] then q else (fst p, snd p @ snd q))"

definition path_absolute :: "path \<Rightarrow> bool" where
  "path_absolute p = (fst p \<noteq> [])"

definition path_name :: "path \<Rightarrow> string" where
  "path_name p = (if snd p = [] then [] else last (snd p))"

definition path_parent :: "path \<Rightarrow> path" where
  "path_parent p = (if snd p = [] then p else (fst p, butlast (snd p)))"

text \<open>\<^verbatim>\<open>name.suffix\<close>, and the key by which \<^verbatim>\<open>sorted\<close> orders paths.\<close>

definition path_suffix :: "string \<Rightarrow> string" where
  "path_suffix name =
     (let ext = takeWhile (\<lambda>c. c \<noteq> CHR ''.'') (rev name); i = length name - length ext
      in if length ext < length name \<and> 1 < i \<and> ext \<noteq> [] then CHR ''.'' # rev ext else [])"

definition path_key :: "path \<Rightarrow> string list" where
  "path_key p = split_at (CHR ''/'') (path_str p)"

definition path_wf :: "path \<Rightarrow> bool" where
  "path_wf p = (fst p \<in> {[], ''/'', ''//''} \<and> list_all (\<lambda>w. path_part w \<and> CHR ''/'' \<notin> set w) (snd p))"

lemma split_at_nonempty [simp]: "split_at sep s \<noteq> []"
  by (induction s) (auto split: list.splits)

lemma split_at_no_sep: "w \<in> set (split_at sep s) \<Longrightarrow> sep \<notin> set w"
  by (induction s arbitrary: w) (auto split: list.splits if_splits)

lemma split_at_word: "sep \<notin> set w \<Longrightarrow> split_at sep w = [w]"
  by (induction w) auto

lemma split_at_append: "sep \<notin> set w \<Longrightarrow> split_at sep (w @ sep # s) = w # split_at sep s"
  by (induction w) auto

lemma split_at_join:
  assumes "ws \<noteq> []" and "\<forall>w\<in>set ws. CHR ''/'' \<notin> set w"
  shows "split_at (CHR ''/'') (py_join ''/'' ws) = ws"
  using assms by (induction "''/''" ws rule: py_join.induct) (simp_all add: split_at_word split_at_append)

lemma py_path_wf: "path_wf (py_path s)"
  using split_at_no_sep[of _ "CHR ''/''" s] by (auto simp: path_wf_def py_path_def path_root_def list_all_iff)

lemma path_join_wf: "path_wf p \<Longrightarrow> path_wf q \<Longrightarrow> path_wf (path_join p q)"
  by (auto simp: path_wf_def path_join_def)

text \<open>A path is read back from its text, so that two paths with the same text are the same path.\<close>

lemma py_path_str:
  assumes "path_wf p"
  shows "py_path (path_str p) = p"
proof -
  obtain r ws where p: "p = (r, ws)" by (cases p)
  have r: "r \<in> {[], ''/'', ''//''}" and ws: "\<forall>w\<in>set ws. path_part w \<and> CHR ''/'' \<notin> set w"
    using assms by (auto simp: p path_wf_def list_all_iff)
  have parts: "filter path_part (split_at (CHR ''/'') (py_join ''/'' ws)) = ws"
  proof (cases "ws = []")
    case False
    then show ?thesis using ws split_at_join[of ws] by (auto simp: filter_id_conv)
  qed (simp add: path_part_def)
  have start: "\<not> starts_with (py_join ''/'' ws) ''/''"
  proof (cases ws)
    case (Cons w vs)
    with ws obtain c t where w: "w = c # t" by (cases w) (auto simp: path_part_def)
    then show ?thesis using ws Cons by (cases vs) (auto simp: starts_with_def)
  qed (simp add: starts_with_def)
  have dot: "path_root ''.'' = []" "filter path_part (split_at (CHR ''/'') ''.'') = []"
    by (simp_all add: path_root_def starts_with_def path_part_def)
  have no_root: "path_root (py_join ''/'' ws) = []"
    using start by (cases "py_join ''/'' ws") (auto simp: path_root_def starts_with_def)
  have rooted: "path_root (r @ py_join ''/'' ws) = r" if "r \<noteq> []"
    using that r start by (cases "py_join ''/'' ws") (auto simp: path_root_def starts_with_def)
  show ?thesis
  proof (cases "r = []")
    case True
    then show ?thesis
      using parts no_root dot by (auto simp: p py_path_def path_str_def Let_def path_part_def)
  next
    case False
    then show ?thesis
      using parts rooted r by (auto simp: p py_path_def path_str_def Let_def path_part_def)
  qed
qed

end
