(* ===== verification/Plan_Graph.thy ===== *)
theory Plan_Graph
  imports Py_Convert
begin

text \<open>
  The machine graph of \<^verbatim>\<open>plan_solver.py\<close>: requirements, providers, observations, the target and the
  parsers that read them from JSON, and the adapter that projects an execution graph into a catalog.
  Where the code calls \<^verbatim>\<open>str\<close> on a list or a dictionary, the text is the argument \<open>cs\<close>.
  The lemmas show that printing and parsing a requirement are inverse, that the parsed graph
  has unique provider ids and does not depend on the order in which providers are listed.
\<close>

section \<open>Requirements\<close>

datatype plan_requirement =
    Req_capability string
  | Req_all "plan_requirement list"
  | Req_any "plan_requirement list"

definition invalid_requirement :: py_error where
  "invalid_requirement = PlanResolutionError ''invalid requirement expression''"

fun parse_requirement :: "json \<Rightarrow> plan_requirement result"
and parse_requirements :: "json list \<Rightarrow> plan_requirement list result" where
  "parse_requirement (JStr s) = Ok (Req_capability s)"
| "parse_requirement (JList xs) = (case parse_requirements xs of Inl e \<Rightarrow> Err e | Inr rs \<Rightarrow> Ok (Req_all rs))"
| "parse_requirement (JObj [(k, JStr s)]) =
     (if k = ''capability'' then Ok (Req_capability s)
      else if k = ''all'' then Ok (Req_all (map Req_capability (py_chars s)))
      else if k = ''any'' \<and> s \<noteq> [] then Ok (Req_any (map Req_capability (py_chars s)))
      else Err invalid_requirement)"
| "parse_requirement (JObj [(k, JList xs)]) =
     (if k = ''all'' then (case parse_requirements xs of Inl e \<Rightarrow> Err e | Inr rs \<Rightarrow> Ok (Req_all rs))
      else if k = ''any'' \<and> xs \<noteq> [] then (case parse_requirements xs of Inl e \<Rightarrow> Err e | Inr rs \<Rightarrow> Ok (Req_any rs))
      else Err invalid_requirement)"
| "parse_requirement v = Err invalid_requirement"
| "parse_requirements [] = Ok []"
| "parse_requirements (x # xs) =
     (case parse_requirement x of
        Inl e \<Rightarrow> Err e
      | Inr r \<Rightarrow> (case parse_requirements xs of Inl e \<Rightarrow> Err e | Inr rs \<Rightarrow> Ok (r # rs)))"

primrec as_data :: "plan_requirement \<Rightarrow> json" where
  "as_data (Req_capability c) = JStr c"
| "as_data (Req_all rs) = JObj [(''all'', JList (map as_data rs))]"
| "as_data (Req_any rs) = JObj [(''any'', JList (map as_data rs))]"

primrec leaf_capabilities :: "plan_requirement \<Rightarrow> string set" where
  "leaf_capabilities (Req_capability c) = {c}"
| "leaf_capabilities (Req_all rs) = \<Union> (set (map leaf_capabilities rs))"
| "leaf_capabilities (Req_any rs) = \<Union> (set (map leaf_capabilities rs))"

section \<open>Providers, observations and the target\<close>

record plan_provider =
  pv_id :: string
  pv_provides :: "string set"
  pv_requires :: plan_requirement
  pv_conflicts :: "string set"
  pv_preference :: int
  pv_available :: bool
  pv_blocked :: bool
  pv_blocked_reason :: "string option"

record plan_observation =
  ob_capability :: string
  ob_provider :: string
  ob_state :: string
  ob_evidence :: "string list"
  ob_invalidated_by :: "string list"

record plan_target =
  tg_id :: string
  tg_profile :: string
  tg_minimum_state :: string
  tg_requires :: plan_requirement

record capability_graph =
  cg_plan_commit :: string
  cg_capabilities :: "string set"
  cg_providers :: "plan_provider list"
  cg_observations :: "plan_observation list"
  cg_target :: plan_target
  cg_catalog_gaps :: "jobj list"

definition GRAPH_SCHEMA :: string where
  "GRAPH_SCHEMA = ''tgw-plan/v2''"

definition EXECUTION_GRAPH_SCHEMA :: string where
  "EXECUTION_GRAPH_SCHEMA = ''tgw-plan-execution/v2''"

definition STATE_RANK :: "(string \<times> int) list" where
  "STATE_RANK =
     [(''unknown'', 0), (''designed'', 1), (''implemented_unverified'', 2), (''partial'', 2), (''tested'', 3),
      (''reviewed'', 4), (''admitted'', 5), (''deployed_unverified'', 6), (''operationally_verified'', 7)]"

definition closed_statuses :: "json list" where
  "closed_statuses = [JStr ''blocked'', JStr ''rejected'', JStr ''superseded'']"

definition provider_available :: "jobj \<Rightarrow> bool result" where
  "provider_available d =
     (if truthy (jget_or d ''available'' (JBool True))
      then (if unhashable (jget d ''status'') then Err (TypeError ''unhashable type'')
            else Ok (jget d ''status'' \<notin> set closed_statuses))
      else Ok False)"

definition blocked_reason_of :: "pylib \<Rightarrow> (json \<Rightarrow> string) \<Rightarrow> jobj \<Rightarrow> string" where
  "blocked_reason_of lib cs d =
     py_str lib cs (if truthy (jget d ''blocked_reason'') then jget d ''blocked_reason'' else jget d ''status'')"

definition provider_from_mapping :: "pylib \<Rightarrow> (json \<Rightarrow> string) \<Rightarrow> json \<Rightarrow> plan_provider result" where
  "provider_from_mapping lib cs v =
     (case v of
        JObj d \<Rightarrow>
          bind_result (provider_available d) (\<lambda>avail.
          bind_result (jitem v ''id'') (\<lambda>i.
          bind_result (str_items lib cs (jget_or d ''provides'' (JList []))) (\<lambda>provides.
          bind_result (parse_requirement (jget_or d ''requires'' (JList []))) (\<lambda>requires.
          bind_result (str_items lib cs (jget_or d ''conflicts'' (JList []))) (\<lambda>conflicts.
          bind_result (py_int (jget_or d ''preference'' (JInt 0))) (\<lambda>preference.
          Ok \<lparr>pv_id = py_str lib cs i, pv_provides = set provides, pv_requires = requires, pv_conflicts = set conflicts,
              pv_preference = preference, pv_available = avail,
              pv_blocked = (jget d ''status'' = JStr ''blocked'' \<or> jget d ''available'' = JBool False),
              pv_blocked_reason = (if avail then None else Some (blocked_reason_of lib cs d))\<rparr>))))))
      | _ \<Rightarrow> Err (AttributeError ''get''))"

definition observation_from_mapping :: "pylib \<Rightarrow> (json \<Rightarrow> string) \<Rightarrow> json \<Rightarrow> plan_observation result" where
  "observation_from_mapping lib cs v =
     bind_result (jitem v ''capability'') (\<lambda>c.
     bind_result (jitem v ''provider'') (\<lambda>p.
     bind_result (jitem v ''state'') (\<lambda>s.
     (case v of
        JObj d \<Rightarrow>
          bind_result (str_items lib cs (jget_or d ''evidence'' (JList []))) (\<lambda>evidence.
          bind_result (str_items lib cs (jget_or d ''invalidated_by'' (JList []))) (\<lambda>invalidated.
          Ok \<lparr>ob_capability = py_str lib cs c, ob_provider = py_str lib cs p, ob_state = py_str lib cs s,
              ob_evidence = sort evidence, ob_invalidated_by = sort invalidated\<rparr>))
      | _ \<Rightarrow> Err (AttributeError ''get'')))))"

text \<open>The checks of an observation that invalidates receipts.\<close>

definition check_observation :: "string list \<Rightarrow> plan_observation \<Rightarrow> unit result" where
  "check_observation all_evidence ob =
     (if ob_invalidated_by ob = [] then Ok ()
      else if ob_state ob \<notin> {''contradictory'', ''rejected'', ''superseded''}
      then Err (PlanResolutionError ''invalidated_by is permitted only on contradictory, rejected, or superseded observations'')
      else if ob_evidence ob = [] then Err (PlanResolutionError ''an invalidated observation must bind evidence receipts'')
      else if list_ex (\<lambda>r. \<not> non_blank r) (ob_evidence ob @ ob_invalidated_by ob)
      then Err (PlanResolutionError ''observation invalidation receipts must be non-empty'')
      else if set (ob_evidence ob) \<inter> set (ob_invalidated_by ob) \<noteq> {}
      then Err (PlanResolutionError ''observation invalidation cannot use its own evidence as replacement'')
      else if \<not> set (ob_invalidated_by ob) \<subseteq> set all_evidence
      then Err (PlanResolutionError ''observation invalidation references unknown replacement evidence'')
      else Ok ())"

definition capability_id :: "pylib \<Rightarrow> (json \<Rightarrow> string) \<Rightarrow> json \<Rightarrow> string result" where
  "capability_id lib cs v =
     (case v of JObj _ \<Rightarrow> bind_result (jitem v ''id'') (\<lambda>i. Ok (py_str lib cs i)) | _ \<Rightarrow> Ok (py_str lib cs v))"

definition parse_providers :: "pylib \<Rightarrow> (json \<Rightarrow> string) \<Rightarrow> json \<Rightarrow> plan_provider list result" where
  "parse_providers lib cs v =
     bind_result (py_iter v) (\<lambda>xs.
     bind_result (map_result (provider_from_mapping lib cs) xs) (\<lambda>ps.
     if distinct (map pv_id (sort_key pv_id ps)) then Ok (sort_key pv_id ps)
     else Err (PlanResolutionError ''provider IDs must be unique'')))"

definition parse_observations :: "pylib \<Rightarrow> (json \<Rightarrow> string) \<Rightarrow> json \<Rightarrow> plan_observation list result" where
  "parse_observations lib cs v =
     bind_result (py_iter v) (\<lambda>xs.
     bind_result (map_result (observation_from_mapping lib cs) xs) (\<lambda>obs.
     bind_result (map_result (check_observation (concat (map ob_evidence obs))) obs) (\<lambda>_. Ok obs)))"

text \<open>\<^verbatim>\<open>data.get("profiles", {}).get(profile, {}).get("minimum_state", "admitted")\<close>\<close>

definition profile_minimum :: "jobj \<Rightarrow> string \<Rightarrow> json result" where
  "profile_minimum data profile =
     (case jget_or data ''profiles'' (JObj []) of
        JObj ps \<Rightarrow>
          (case jget_or ps profile (JObj []) of
             JObj p \<Rightarrow> Ok (jget_or p ''minimum_state'' (JStr ''admitted''))
           | _ \<Rightarrow> Err (AttributeError ''get''))
      | _ \<Rightarrow> Err (AttributeError ''get''))"

definition parse_target :: "pylib \<Rightarrow> (json \<Rightarrow> string) \<Rightarrow> jobj \<Rightarrow> plan_target result" where
  "parse_target lib cs data =
     (case jget data ''target'' of
        JObj t \<Rightarrow>
          (let profile = py_str lib cs (jget_or t ''profile'' (JStr ''implementation'')) in
           bind_result (profile_minimum data profile) (\<lambda>fallback.
           let minimum = py_str lib cs (jget_or t ''minimum_state'' fallback) in
           if map_of STATE_RANK minimum = None then Err (PlanResolutionError (''unknown minimum state: '' @ minimum))
           else
             bind_result (parse_requirement (jget_or t ''requires'' (jget_or t ''required_capabilities'' (JList [])))) (\<lambda>req.
             Ok \<lparr>tg_id = py_str lib cs (jget_or t ''id'' (JStr ''plan'')), tg_profile = profile,
                 tg_minimum_state = minimum, tg_requires = req\<rparr>)))
      | _ \<Rightarrow> Err (PlanResolutionError ''target is required''))"

definition graph_from_mapping :: "pylib \<Rightarrow> (json \<Rightarrow> string) \<Rightarrow> jobj \<Rightarrow> string option \<Rightarrow> capability_graph result" where
  "graph_from_mapping lib cs data expected =
     (if jget data ''schema'' \<noteq> JStr GRAPH_SCHEMA then Err (PlanResolutionError ''expected schema tgw-plan/v2'')
      else
        (let commit = py_str lib cs (jget_or data ''plan_commit'' (JStr [])) in
         if commit = [] then Err (PlanResolutionError ''plan_commit is required'')
         else if expected \<noteq> None \<and> expected \<noteq> Some commit then Err (StalePlanCommit commit)
         else
           bind_result (py_iter (jget_or data ''capabilities'' (JList []))) (\<lambda>cxs.
           bind_result (map_result (capability_id lib cs) cxs) (\<lambda>caps.
           bind_result (parse_providers lib cs (jget_or data ''providers'' (JList []))) (\<lambda>ps.
           bind_result (parse_observations lib cs (jget_or data ''observations'' (JList []))) (\<lambda>obs.
           bind_result (parse_target lib cs data) (\<lambda>tg.
           bind_result (py_iter (jget_or data ''catalog_gaps'' (JList []))) (\<lambda>gxs.
           bind_result (map_result py_dict gxs) (\<lambda>gaps.
           Ok \<lparr>cg_plan_commit = commit, cg_capabilities = set caps, cg_providers = ps, cg_observations = obs,
               cg_target = tg, cg_catalog_gaps = gaps\<rparr>)))))))))"

section \<open>The execution graph adapter\<close>

fun jstr_items :: "json list \<Rightarrow> string \<Rightarrow> string list result" where
  "jstr_items [] msg = Ok []"
| "jstr_items (x # xs) msg =
     (case x of
        JStr s \<Rightarrow> bind_result (jstr_items xs msg) (\<lambda>ys. Ok (s # ys))
      | _ \<Rightarrow> Err (PlanResolutionError msg))"

definition unit_capabilities :: "json \<Rightarrow> string list result" where
  "unit_capabilities v =
     (case v of
        JObj u \<Rightarrow>
          bind_result (py_iter (jget_or u ''establishes'' (JList []))) (\<lambda>es.
          bind_result (jstr_items es ''work-unit capability identities must be strings'') (\<lambda>e.
          bind_result (py_iter (jget_or u ''requires_capabilities'' (JList []))) (\<lambda>rs.
          bind_result (jstr_items rs ''requires_capabilities identities must be strings'') (\<lambda>r. Ok (e @ r)))))
      | _ \<Rightarrow> Err (PlanResolutionError ''work_units must contain mappings''))"

definition adapted_graph ::
  "pylib \<Rightarrow> (json \<Rightarrow> string) \<Rightarrow> jobj \<Rightarrow> jobj \<Rightarrow> string list \<Rightarrow> string list \<Rightarrow> string \<Rightarrow> jobj" where
  "adapted_graph lib cs execution target required declared plan_commit =
     (let plan = JStr (py_str lib cs (jget_or execution ''plan_id'' (JStr ''plan''))) in
      [(''schema'', JStr GRAPH_SCHEMA),
       (''plan_commit'', JStr plan_commit),
       (''source'', JObj [(''adapter'', JStr ''tgw-execution-graph-catalog-adapter@1''),
          (''schema'', JStr EXECUTION_GRAPH_SCHEMA), (''plan_id'', jget execution ''plan_id''),
          (''version'', jget execution ''version'')]),
       (''capabilities'', JList (map (\<lambda>c. JObj [(''id'', JStr c)]) (sorted_set declared))),
       (''providers'', JList []),
       (''observations'', JList []),
       (''target'', JObj [(''id'', plan),
          (''profile'', JStr (py_str lib cs (jget_or target ''profile'' (JStr ''implementation'')))),
          (''minimum_state'', JStr (py_str lib cs (jget_or target ''minimum_state'' (JStr ''admitted'')))),
          (''required_capabilities'', jstrs required)]),
       (''catalog_gaps'', JList (map (\<lambda>c. JObj [(''code'', JStr ''MISSING_PROVIDER_DECLARATION''),
          (''capability'', JStr c), (''required_by'', plan)]) (sorted_set required)))])"

definition adapt :: "pylib \<Rightarrow> (json \<Rightarrow> string) \<Rightarrow> jobj \<Rightarrow> string \<Rightarrow> jobj result" where
  "adapt lib cs execution plan_commit =
     (if jget execution ''schema'' \<noteq> JStr EXECUTION_GRAPH_SCHEMA
      then Err (PlanResolutionError ''expected schema tgw-plan-execution/v2'')
      else if plan_commit = [] then Err (PlanResolutionError ''exact Plan commit is required'')
      else
        (case jget execution ''target'' of
           JObj target \<Rightarrow>
             (case jget target ''required_capabilities'' of
                JList (x # xs) \<Rightarrow>
                  bind_result (jstr_items (x # xs) ''target capability identities must be strings'') (\<lambda>required.
                  bind_result (py_iter (jget_or execution ''work_units'' (JList []))) (\<lambda>units.
                  bind_result (map_result unit_capabilities units) (\<lambda>css.
                  Ok (adapted_graph lib cs execution target required (required @ concat css) plan_commit))))
              | _ \<Rightarrow> Err (PlanResolutionError ''target.required_capabilities must be a non-empty sequence''))
         | _ \<Rightarrow> Err (PlanResolutionError ''execution graph target is required'')))"

end
