(* ===== verification/Plan_Solver.thy ===== *)
theory Plan_Solver
  imports Plan_Graph
begin

text \<open>
  The exact capability solver of \<^verbatim>\<open>plan_solver.py\<close>. The search \<open>expand\<close> returns the complete candidates and
  the failures in the order in which the code appends them. The code passes candidates by reference but
  copies them before every branch, so that a value semantics agrees with it. Fuel stands for the depth of
  the Python stack; a search that runs out of it is a \<^verbatim>\<open>RecursionError\<close>. \<open>Plan_Search\<close> shows that this
  cannot happen to a parsed graph.
\<close>

section \<open>Conformance\<close>

record conformance =
  cf_provider_id :: string
  cf_available :: bool
  cf_closure_hash :: "string option"

datatype conformance_arg = Conf_value json | Conf_result conformance

definition conformance_parse :: "pylib \<Rightarrow> (json \<Rightarrow> string) \<Rightarrow> conformance_arg \<Rightarrow> conformance result" where
  "conformance_parse lib cs a =
     (case a of
        Conf_result c \<Rightarrow> Ok c
      | Conf_value JNull \<Rightarrow> Ok \<lparr>cf_provider_id = ''luet-adapter@1'', cf_available = False, cf_closure_hash = None\<rparr>
      | Conf_value (JObj d) \<Rightarrow>
          (let c = \<lparr>cf_provider_id = py_str lib cs (jget_or d ''provider_id'' (JStr ''luet-adapter@1'')),
                    cf_available = truthy (jget_or d ''available'' (JBool False)),
                    cf_closure_hash = (if jget d ''closure_hash'' = JNull then None
                                       else Some (py_str lib cs (jget d ''closure_hash'')))\<rparr>
           in if cf_available c \<and> (cf_closure_hash c = None \<or> cf_closure_hash c = Some [])
              then Err (PlanResolutionError ''available conformance provider must return closure_hash'')
              else Ok c)
      | Conf_value _ \<Rightarrow> Err (PlanResolutionError ''conformance_result must be a mapping''))"

section \<open>Search\<close>

text \<open>A dictionary of selected providers and the list of choices made at alternatives.\<close>

record candidate =
  cd_selected :: "(string \<times> plan_provider) list"
  cd_choices :: "json list"

definition provided :: "candidate \<Rightarrow> string set" where
  "provided c = \<Union> (pv_provides ` snd ` set (cd_selected c))"

definition select :: "plan_provider \<Rightarrow> candidate \<Rightarrow> candidate" where
  "select p c = c\<lparr>cd_selected := AList.update (pv_id p) p (cd_selected c)\<rparr>"

definition record_choice :: "plan_requirement \<Rightarrow> plan_requirement \<Rightarrow> candidate \<Rightarrow> candidate" where
  "record_choice req opt c =
     c\<lparr>cd_choices := cd_choices c @ [JObj [(''requirement'', as_data req), (''selected'', as_data opt)]]\<rparr>"

definition first_of :: "string set \<Rightarrow> string" where
  "first_of A = hd (sorted_list_of_set A)"

fun selected_conflict :: "plan_provider \<Rightarrow> plan_provider list \<Rightarrow> string option" where
  "selected_conflict p [] = None"
| "selected_conflict p (s # ss) =
     (let hit = pv_conflicts s \<inter> insert (pv_id p) (pv_provides p) in
      if hit \<noteq> {} then Some (pv_id s @ '' conflicts with '' @ first_of hit) else selected_conflict p ss)"

definition conflict :: "plan_provider \<Rightarrow> candidate \<Rightarrow> string option" where
  "conflict p c =
     (let hit = pv_conflicts p \<inter> (fst ` set (cd_selected c) \<union> provided c) in
      if hit \<noteq> {} then Some (''conflicts with '' @ first_of hit) else selected_conflict p (map snd (cd_selected c)))"

definition failure :: "string \<Rightarrow> string \<Rightarrow> string list \<Rightarrow> jobj \<Rightarrow> json" where
  "failure code capability path extra =
     JObj ([(''code'', JStr code), (''capability'', JStr capability), (''path'', jstrs (path @ [capability]))] @ extra)"

type_synonym found = "(candidate list \<times> json list) option"

text \<open>A loop that appends to both lists.\<close>

fun collect :: "('a \<Rightarrow> found) \<Rightarrow> 'a list \<Rightarrow> found" where
  "collect f [] = Some ([], [])"
| "collect f (x # xs) =
     (case f x of
        None \<Rightarrow> None
      | Some (ss, fs) \<Rightarrow> (case collect f xs of None \<Rightarrow> None | Some (ss', fs') \<Rightarrow> Some (ss @ ss', fs @ fs')))"

definition optional_str :: "string option \<Rightarrow> json" where
  "optional_str s = (case s of None \<Rightarrow> JNull | Some t \<Rightarrow> JStr t)"

definition candidates_for :: "capability_graph \<Rightarrow> string \<Rightarrow> plan_provider list" where
  "candidates_for g c =
     filter (\<lambda>p. c \<in> pv_provides p \<and> pv_blocked_reason p \<notin> {Some ''rejected'', Some ''superseded''}) (cg_providers g)"

text \<open>The reasons for which a capability has no usable provider at all.\<close>

definition dead_end :: "capability_graph \<Rightarrow> string \<Rightarrow> string list \<Rightarrow> json option" where
  "dead_end g c path =
     (let ps = candidates_for g c in
      if ps = [] then Some (failure (if c \<in> cg_capabilities g then ''UNSATISFIED'' else ''UNKNOWN_CAPABILITY'') c path [])
      else if \<not> list_ex pv_available ps \<and> list_ex pv_blocked ps
      then Some (failure ''BLOCKED'' c path [(''providers'', JList (map (\<lambda>p.
             JObj [(''id'', JStr (pv_id p)), (''reason'', optional_str (pv_blocked_reason p))]) ps))])
      else if \<not> list_ex pv_available ps then Some (failure ''UNSATISFIED'' c path [])
      else None)"

fun expand :: "nat \<Rightarrow> capability_graph \<Rightarrow> plan_requirement \<Rightarrow> candidate \<Rightarrow> string list \<Rightarrow> found"
and expand_all :: "nat \<Rightarrow> capability_graph \<Rightarrow> plan_requirement list \<Rightarrow> candidate \<Rightarrow> string list \<Rightarrow> found" where
  "expand 0 g req cand path = None"
| "expand (Suc n) g (Req_all rs) cand path = expand_all n g rs cand path"
| "expand (Suc n) g (Req_any rs) cand path =
     collect (\<lambda>r. map_option (\<lambda>(ss, fs). (map (record_choice (Req_any rs) r) ss, fs)) (expand n g r cand path)) rs"
| "expand (Suc n) g (Req_capability c) cand path =
     (if c \<in> provided cand then Some ([cand], [])
      else
        (case dead_end g c path of
           Some f \<Rightarrow> Some ([], [f])
         | None \<Rightarrow>
             collect (\<lambda>p.
               (case conflict p cand of
                  Some reason \<Rightarrow>
                    Some ([], [failure ''UNSATISFIED'' c path [(''provider'', JStr (pv_id p)), (''reason'', JStr reason)]])
                | None \<Rightarrow> expand n g (pv_requires p) (select p cand) (path @ [c])))
             (sort_key pv_id (filter pv_available (candidates_for g c)))))"
| "expand_all 0 g rs cand path = None"
| "expand_all (Suc n) g [] cand path = Some ([cand], [])"
| "expand_all (Suc n) g (r # rs) cand path =
     (case expand n g r cand path of
        None \<Rightarrow> None
      | Some (heads, fs) \<Rightarrow>
          map_option (\<lambda>(ss, fs'). (ss, fs @ fs')) (collect (\<lambda>h. expand_all n g rs h path) heads))"

text \<open>Each provider is selected at most once on a branch, and between two selections the search
  descends through one requirement, which bounds the depth.\<close>

primrec depth :: "plan_requirement \<Rightarrow> nat" where
  "depth (Req_capability c) = 1"
| "depth (Req_all rs) = Suc (sum_list (map (Suc \<circ> depth) rs) + 1)"
| "depth (Req_any rs) = Suc (sum_list (map depth rs))"

definition search_fuel :: "capability_graph \<Rightarrow> nat" where
  "search_fuel g = depth (tg_requires (cg_target g)) + sum_list (map (depth \<circ> pv_requires) (cg_providers g))"

section \<open>Phases\<close>

definition owner_of :: "plan_provider list \<Rightarrow> string \<Rightarrow> string option" where
  "owner_of ps c = map_option pv_id (find (\<lambda>p. c \<in> pv_provides p) (rev ps))"

definition dependencies :: "plan_provider list \<Rightarrow> plan_provider \<Rightarrow> string set" where
  "dependencies ps p = Option.these (owner_of ps ` leaf_capabilities (pv_requires p)) - {pv_id p}"

text \<open>What is ready, or everything that is left when providers need each other.\<close>

definition next_phase :: "(string \<times> string set) list \<Rightarrow> string set \<Rightarrow> string list" where
  "next_phase deps emitted =
     (let ready = sort (map fst (filter (\<lambda>(i, needs). i \<notin> emitted \<and> needs \<subseteq> emitted) deps))
      in if ready = [] then sort (filter (\<lambda>i. i \<notin> emitted) (map fst deps)) else ready)"

text \<open>Fuel bounds the number of iterations; \<^verbatim>\<open>emitted\<close> starts empty.\<close>

fun phase_loop :: "nat \<Rightarrow> (string \<times> string set) list \<Rightarrow> nat \<Rightarrow> string set \<Rightarrow> string list list option" where
  "phase_loop fuel deps count_all emitted =
     (if count_all \<le> card emitted then Some []
      else
        (case fuel of
           0 \<Rightarrow> None
         | Suc n \<Rightarrow>
             (let phase = next_phase deps emitted
              in map_option ((#) phase) (phase_loop n deps count_all (emitted \<union> set phase)))))"

declare phase_loop.simps [simp del]

definition phase_order :: "plan_provider list \<Rightarrow> string list list option" where
  "phase_order ps = phase_loop (length ps) (map (\<lambda>p. (pv_id p, dependencies ps p)) ps) (length ps) {}"

section \<open>The artifact\<close>

definition SOLUTION_SCHEMA :: string where
  "SOLUTION_SCHEMA = ''tgw-plan-solution/v1''"

definition plan_hash :: "pylib \<Rightarrow> json \<Rightarrow> string" where
  "plan_hash lib v = ''sha256:'' @ hash_json lib v"

definition invalidated_receipts :: "capability_graph \<Rightarrow> string set" where
  "invalidated_receipts g =
     \<Union> ((set \<circ> ob_evidence) ` {ob \<in> set (cg_observations g). ob_invalidated_by ob \<noteq> []})"

definition observation_of :: "capability_graph \<Rightarrow> string \<Rightarrow> string \<Rightarrow> plan_observation option" where
  "observation_of g c p = map_of (rev (map (\<lambda>ob. ((ob_capability ob, ob_provider ob), ob)) (cg_observations g))) (c, p)"

definition state_rank :: "string \<Rightarrow> int" where
  "state_rank s = (case map_of STATE_RANK s of None \<Rightarrow> - 1 | Some n \<Rightarrow> n)"

definition is_satisfied :: "capability_graph \<Rightarrow> int \<Rightarrow> string \<Rightarrow> string \<Rightarrow> bool" where
  "is_satisfied g minimum c p = (case observation_of g c p of None \<Rightarrow> False | Some ob \<Rightarrow> minimum \<le> state_rank (ob_state ob))"

text \<open>The pairs of a selected provider and a capability, in the order of the two loops.\<close>

definition selected_pairs :: "plan_provider list \<Rightarrow> (plan_provider \<times> string) list" where
  "selected_pairs ps = concat (map (\<lambda>p. map (Pair p) (sorted_list_of_set (pv_provides p))) ps)"

definition satisfied_entry :: "capability_graph \<Rightarrow> plan_provider \<times> string \<Rightarrow> json" where
  "satisfied_entry g pc =
     (case observation_of g (snd pc) (pv_id (fst pc)) of
        None \<Rightarrow> JNull
      | Some ob \<Rightarrow> JObj [(''capability'', JStr (snd pc)), (''provider'', JStr (pv_id (fst pc))),
          (''state'', JStr (ob_state ob)), (''evidence'', jstrs (ob_evidence ob))])"

definition work_unit :: "capability_graph \<Rightarrow> plan_provider \<times> string \<Rightarrow> json" where
  "work_unit g pc =
     JObj [(''id'', JStr (''establish:'' @ snd pc)), (''capability'', JStr (snd pc)),
       (''establishes'', jstrs [snd pc @ ''@'' @ tg_minimum_state (cg_target g)]),
       (''selected_provider'', JStr (pv_id (fst pc))),
       (''requires_capabilities'', jstrs (sorted_list_of_set (leaf_capabilities (pv_requires (fst pc))))),
       (''resume_from'', jstrs (case observation_of g (snd pc) (pv_id (fst pc)) of
          None \<Rightarrow> [] | Some ob \<Rightarrow> sorted_list_of_set (set (ob_evidence ob) - invalidated_receipts g)))]"

definition gap_entry :: "pylib \<Rightarrow> (json \<Rightarrow> string) \<Rightarrow> jobj \<Rightarrow> json result" where
  "gap_entry lib cs gap =
     bind_result (jitem (JObj gap) ''capability'') (\<lambda>c.
     bind_result (jitem (JObj gap) ''code'') (\<lambda>code.
     bind_result (jitem (JObj gap) ''required_by'') (\<lambda>who.
     Ok (JObj [(''code'', JStr ''UNSATISFIED''), (''capability'', JStr (py_str lib cs c)),
         (''reason'', JStr (py_str lib cs code)), (''required_by'', JStr (py_str lib cs who))]))))"

text \<open>Failures are unified by their JSON text; equal texts are equal failures.\<close>

definition unresolved_of :: "pylib \<Rightarrow> (json \<Rightarrow> string) \<Rightarrow> capability_graph \<Rightarrow> candidate option \<Rightarrow> json list \<Rightarrow> json list result" where
  "unresolved_of lib cs g winner failures =
     (if winner \<noteq> None then Ok []
      else if cg_catalog_gaps g \<noteq> [] then
        bind_result (map_result (gap_entry lib cs) (cg_catalog_gaps g)) (\<lambda>es. Ok (sort_key (canonical lib) es))
      else Ok (sort_key (canonical lib) (remdups failures)))"

definition rejected_of :: "capability_graph \<Rightarrow> candidate option \<Rightarrow> json list" where
  "rejected_of g winner =
     (case winner of
        None \<Rightarrow> []
      | Some w \<Rightarrow>
          map (\<lambda>p. JObj [(''provider'', JStr (pv_id p)),
                 (''reason'', JStr (case pv_blocked_reason p of
                    Some (c # s) \<Rightarrow> c # s | _ \<Rightarrow> ''lower-ranked-or-incompatible-complete-alternative''))])
            (filter (\<lambda>p. pv_id p \<notin> fst ` set (cd_selected w) \<and> pv_provides p \<inter> provided w \<noteq> {}) (cg_providers g)))"

definition selected_of :: "candidate option \<Rightarrow> plan_provider list" where
  "selected_of winner = (case winner of None \<Rightarrow> [] | Some w \<Rightarrow> sort_key pv_id (map snd (cd_selected w)))"

definition satisfied_pairs :: "capability_graph \<Rightarrow> int \<Rightarrow> candidate option \<Rightarrow> (plan_provider \<times> string) list" where
  "satisfied_pairs g minimum winner =
     filter (\<lambda>(p, c). is_satisfied g minimum c (pv_id p)) (selected_pairs (selected_of winner))"

definition closure_of :: "pylib \<Rightarrow> capability_graph \<Rightarrow> candidate option \<Rightarrow> int \<Rightarrow> string list list \<Rightarrow> jobj" where
  "closure_of lib g winner minimum phases =
     (let tg = cg_target g; selected = selected_of winner;
          units = map (\<lambda>pc. (snd pc, work_unit g pc))
            (filter (\<lambda>(p, c). \<not> is_satisfied g minimum c (pv_id p)) (selected_pairs selected))
      in [(''plan_commit'', JStr (cg_plan_commit g)),
          (''root'', JObj [(''id'', JStr (tg_id tg)), (''profile'', JStr (tg_profile tg)),
             (''minimum_state'', JStr (tg_minimum_state tg))]),
          (''complete'', JBool (winner \<noteq> None)),
          (''selected_providers'', jstrs (map pv_id selected)),
          (''selected_capabilities'', jstrs (case winner of None \<Rightarrow> [] | Some w \<Rightarrow> sorted_list_of_set (provided w))),
          (''selected_alternatives'', JList (case winner of None \<Rightarrow> [] | Some w \<Rightarrow> sort_key (canonical lib) (cd_choices w))),
          (''satisfied_installed'', JList (map (satisfied_entry g) (satisfied_pairs g minimum winner))),
          (''work_units'', JList (map snd (sort_key (\<lambda>(c, u). ''establish:'' @ c) units))),
          (''phase_order'', JList (map jstrs phases))])"

definition reusable_receipts :: "capability_graph \<Rightarrow> (plan_provider \<times> string) list \<Rightarrow> string list" where
  "reusable_receipts g pairs =
     sorted_list_of_set (\<Union> ((\<lambda>(p, c). case observation_of g c (pv_id p) of None \<Rightarrow> {} | Some ob \<Rightarrow> set (ob_evidence ob)) ` set pairs)
       - invalidated_receipts g)"

definition contradiction :: "conformance \<Rightarrow> string \<Rightarrow> json" where
  "contradiction conf h =
     JObj [(''code'', JStr ''CONTRADICTORY_RESOLUTION''), (''native_closure_hash'', JStr h),
       (''provider'', JStr (cf_provider_id conf)), (''provider_closure_hash'', optional_str (cf_closure_hash conf))]"

definition unsigned_artifact ::
  "capability_graph \<Rightarrow> candidate option \<Rightarrow> conformance \<Rightarrow> int \<Rightarrow> jobj \<Rightarrow> string \<Rightarrow> json list \<Rightarrow> jobj" where
  "unsigned_artifact g winner conf minimum closure h unresolved0 =
     (let verified = (winner \<noteq> None \<and> cf_available conf \<and> cf_closure_hash conf = Some h);
          unresolved = (if winner \<noteq> None \<and> cf_available conf \<and> \<not> verified then unresolved0 @ [contradiction conf h] else unresolved0)
      in [(''schema'', JStr SOLUTION_SCHEMA),
          (''resolver'', JStr ''tgw-native-exact@1''),
          (''conformance_providers'', JList
             [JObj [(''id'', JStr ''tgw-native-exact@1''), (''available'', JBool True), (''result'', JStr ''selected'')],
              JObj [(''id'', JStr (cf_provider_id conf)), (''available'', JBool (cf_available conf)),
                (''result'', JStr (if verified then ''agreement'' else if cf_available conf then ''disagreement'' else ''UNAVAILABLE'')),
                (''agreement'', JStr (if verified then ''verified'' else ''not-claimed'')),
                (''closure_hash'', optional_str (cf_closure_hash conf))]])]
         @ closure
         @ [(''closure_hash'', JStr h),
            (''conformance_verified'', JBool verified),
            (''dispatchable'', JBool (verified \<and> unresolved = [])),
            (''rejected_alternatives'', JList (rejected_of g winner)),
            (''unresolved'', JList unresolved),
            (''reusable_receipts'', jstrs (reusable_receipts g (satisfied_pairs g minimum winner))),
            (''invalidated_receipts'', jstrs (sorted_list_of_set (invalidated_receipts g)))])"

definition artifact ::
  "pylib \<Rightarrow> (json \<Rightarrow> string) \<Rightarrow> capability_graph \<Rightarrow> candidate option \<Rightarrow> json list \<Rightarrow> conformance \<Rightarrow> jobj result" where
  "artifact lib cs g winner failures conf =
     (case map_of STATE_RANK (tg_minimum_state (cg_target g)) of
        None \<Rightarrow> Err (KeyError (tg_minimum_state (cg_target g)))
      | Some minimum \<Rightarrow>
          bind_result (unresolved_of lib cs g winner failures) (\<lambda>unresolved.
          (case phase_order (selected_of winner) of
             None \<Rightarrow> Err (RuntimeError ''phase order does not end'')
           | Some phases \<Rightarrow>
               (let closure = closure_of lib g winner minimum phases;
                    unsigned = unsigned_artifact g winner conf minimum closure (plan_hash lib (JObj closure)) unresolved
                in Ok (unsigned @ [(''solution_hash'', JStr (plan_hash lib (JObj unsigned)))])))))"

section \<open>Solving and validating\<close>

definition total_preference :: "candidate \<Rightarrow> int" where
  "total_preference c = sum_list (map (pv_preference \<circ> snd) (cd_selected c))"

definition best_of :: "candidate list \<Rightarrow> candidate option" where
  "best_of cs =
     (case sort_key (\<lambda>c. (- total_preference c, sort (map fst (cd_selected c)))) cs of [] \<Rightarrow> None | c # _ \<Rightarrow> Some c)"

definition empty_candidate :: candidate where
  "empty_candidate = \<lparr>cd_selected = [], cd_choices = []\<rparr>"

definition search :: "capability_graph \<Rightarrow> found" where
  "search g = expand (search_fuel g) g (tg_requires (cg_target g)) empty_candidate []"

definition solve_graph :: "pylib \<Rightarrow> (json \<Rightarrow> string) \<Rightarrow> capability_graph \<Rightarrow> conformance_arg \<Rightarrow> jobj result" where
  "solve_graph lib cs g a =
     bind_result (conformance_parse lib cs a) (\<lambda>conf.
     (case search g of
        None \<Rightarrow> Err (RuntimeError ''maximum recursion depth exceeded'')
      | Some (solutions, failures) \<Rightarrow> artifact lib cs g (best_of solutions) failures conf))"

definition solve :: "pylib \<Rightarrow> (json \<Rightarrow> string) \<Rightarrow> jobj \<Rightarrow> string option \<Rightarrow> conformance_arg \<Rightarrow> jobj result" where
  "solve lib cs graph expected a =
     bind_result (graph_from_mapping lib cs graph expected) (\<lambda>g. solve_graph lib cs g a)"

definition validate_solution_integrity :: "pylib \<Rightarrow> jobj \<Rightarrow> string \<Rightarrow> unit result" where
  "validate_solution_integrity lib solution current =
     (if jget solution ''schema'' \<noteq> JStr SOLUTION_SCHEMA then Err (PlanResolutionError ''not a tgw-plan-solution/v1 artifact'')
      else if jget solution ''plan_commit'' \<noteq> JStr current then Err (StalePlanCommit current)
      else if jget solution ''solution_hash'' \<noteq> JStr (plan_hash lib (JObj (AList.delete ''solution_hash'' solution)))
      then Err (PlanResolutionError ''solution hash mismatch'')
      else Ok ())"

definition validate_for_dispatch :: "pylib \<Rightarrow> jobj \<Rightarrow> string \<Rightarrow> unit result" where
  "validate_for_dispatch lib solution current =
     bind_result (validate_solution_integrity lib solution current) (\<lambda>_.
     if \<not> truthy (jget solution ''complete'') \<or> \<not> truthy (jget solution ''conformance_verified'')
        \<or> \<not> truthy (jget solution ''dispatchable'') \<or> truthy (jget solution ''unresolved'')
     then Err (PlanResolutionError ''solution is incomplete and cannot dispatch'')
     else Ok ())"

end
