(* ===== verification/Plan_Search.thy ===== *)
theory Plan_Search
  imports Plan_Solver
begin

text \<open>
  Correctness of the capability search. A declarative resolution relation says how a candidate grows; the
  search returns exactly its results. The search ends on every graph with unique provider ids, its
  results are closed and free of conflicts, and it finds a result whenever a closed and conflict-free
  set of usable providers exists. The phases list every selected provider once, after what it depends on.
\<close>

section \<open>Loops of the search\<close>

lemma collect_SomeD:
  "collect f xs = Some (ss, fs) \<Longrightarrow> s \<in> set ss \<longleftrightarrow> (\<exists>x\<in>set xs. \<exists>ss' fs'. f x = Some (ss', fs') \<and> s \<in> set ss')"
  by (induction xs arbitrary: ss fs) (fastforce split: option.splits)+

lemma collect_defined:
  "(\<And>x. x \<in> set xs \<Longrightarrow> \<exists>y. f x = Some y) \<Longrightarrow> \<exists>y. collect f xs = Some y"
  by (induction xs) (fastforce split: option.splits)+

lemma collect_defined_iff: "(\<exists>y. collect f xs = Some y) \<longleftrightarrow> (\<forall>x\<in>set xs. \<exists>y. f x = Some y)"
  by (induction xs) (auto split: option.splits)

lemma collect_member:
  assumes "collect f xs = Some (ss, fs)" and "x \<in> set xs"
  obtains ss' fs' where "f x = Some (ss', fs')" "set ss' \<subseteq> set ss"
proof -
  from assms(1,2) collect_defined_iff[of f xs] obtain ss' fs' where "f x = Some (ss', fs')" by force
  moreover from this have "set ss' \<subseteq> set ss" using collect_SomeD[OF assms(1)] assms(2) by blast
  ultimately show ?thesis by (rule that)
qed

lemma collect_iff:
  assumes "collect f xs = Some (ss, fs)"
    and "\<And>x ss' fs'. x \<in> set xs \<Longrightarrow> f x = Some (ss', fs') \<Longrightarrow> s \<in> set ss' \<longleftrightarrow> Q x"
  shows "s \<in> set ss \<longleftrightarrow> (\<exists>x\<in>set xs. Q x)"
  unfolding collect_SomeD[OF assms(1)]
proof (rule bex_cong[OF refl])
  fix x assume "x \<in> set xs"
  moreover from this obtain ss' fs' where "f x = Some (ss', fs')" using collect_member[OF assms(1)] by blast
  ultimately show "(\<exists>ss' fs'. f x = Some (ss', fs') \<and> s \<in> set ss') \<longleftrightarrow> Q x" using assms(2) by simp
qed

section \<open>The resolution relation\<close>

definition usable :: "plan_provider \<Rightarrow> bool" where
  "usable p = (pv_available p \<and> pv_blocked_reason p \<notin> {Some ''rejected'', Some ''superseded''})"

inductive resolves :: "capability_graph \<Rightarrow> plan_requirement \<Rightarrow> candidate \<Rightarrow> candidate \<Rightarrow> bool"
and resolves_all :: "capability_graph \<Rightarrow> plan_requirement list \<Rightarrow> candidate \<Rightarrow> candidate \<Rightarrow> bool" for g where
  present: "c \<in> provided cand \<Longrightarrow> resolves g (Req_capability c) cand cand"
| pick: "c \<notin> provided cand \<Longrightarrow> p \<in> set (cg_providers g) \<Longrightarrow> c \<in> pv_provides p \<Longrightarrow> usable p \<Longrightarrow> conflict p cand = None
    \<Longrightarrow> resolves g (pv_requires p) (select p cand) s \<Longrightarrow> resolves g (Req_capability c) cand s"
| all: "resolves_all g rs cand s \<Longrightarrow> resolves g (Req_all rs) cand s"
| any: "r \<in> set rs \<Longrightarrow> resolves g r cand s \<Longrightarrow> resolves g (Req_any rs) cand (record_choice (Req_any rs) r s)"
| nil: "resolves_all g [] cand cand"
| cons: "resolves g r cand h \<Longrightarrow> resolves_all g rs h s \<Longrightarrow> resolves_all g (r # rs) cand s"

inductive_cases resolves_capE: "resolves g (Req_capability c) cand s"
inductive_cases resolves_allE: "resolves g (Req_all rs) cand s"
inductive_cases resolves_anyE: "resolves g (Req_any rs) cand s"
inductive_cases resolves_all_nilE: "resolves_all g [] cand s"
inductive_cases resolves_all_consE: "resolves_all g (r # rs) cand s"

lemma dead_end_None: "dead_end g c path = None \<longleftrightarrow> (\<exists>p\<in>set (cg_providers g). c \<in> pv_provides p \<and> usable p)"
  by (auto simp: dead_end_def Let_def candidates_for_def usable_def list_ex_iff filter_empty_conv)

lemma usable_candidates:
  "set (sort_key pv_id (filter pv_available (candidates_for g c))) = {p \<in> set (cg_providers g). c \<in> pv_provides p \<and> usable p}"
  by (auto simp: candidates_for_def usable_def)

text \<open>One provider of a capability.\<close>

definition try_provider :: "nat \<Rightarrow> capability_graph \<Rightarrow> string \<Rightarrow> candidate \<Rightarrow> string list \<Rightarrow> plan_provider \<Rightarrow> found" where
  "try_provider n g c cand path p =
     (case conflict p cand of
        Some reason \<Rightarrow>
          Some ([], [failure ''UNSATISFIED'' c path [(''provider'', JStr (pv_id p)), (''reason'', JStr reason)]])
      | None \<Rightarrow> expand n g (pv_requires p) (select p cand) (path @ [c]))"

definition try_option :: "nat \<Rightarrow> capability_graph \<Rightarrow> plan_requirement list \<Rightarrow> candidate \<Rightarrow> string list \<Rightarrow> plan_requirement \<Rightarrow> found" where
  "try_option n g rs cand path r =
     map_option (\<lambda>(ss, fs). (map (record_choice (Req_any rs) r) ss, fs)) (expand n g r cand path)"

lemma expand_capability:
  "expand (Suc n) g (Req_capability c) cand path =
     (if c \<in> provided cand then Some ([cand], [])
      else (case dead_end g c path of
              Some f \<Rightarrow> Some ([], [f])
            | None \<Rightarrow> collect (try_provider n g c cand path) (sort_key pv_id (filter pv_available (candidates_for g c)))))"
  unfolding expand.simps try_provider_def[abs_def] ..

lemma expand_any: "expand (Suc n) g (Req_any rs) cand path = collect (try_option n g rs cand path) rs"
  unfolding expand.simps try_option_def[abs_def] ..

declare expand.simps(3,4) [simp del]

lemma resolves_capability_iff:
  "c \<in> provided cand \<Longrightarrow> resolves g (Req_capability c) cand s \<longleftrightarrow> s = cand"
  "c \<notin> provided cand \<Longrightarrow> resolves g (Req_capability c) cand s \<longleftrightarrow>
     (\<exists>p\<in>{p \<in> set (cg_providers g). c \<in> pv_provides p \<and> usable p}. conflict p cand = None
        \<and> resolves g (pv_requires p) (select p cand) s)"
  by (auto intro: resolves_resolves_all.present resolves_resolves_all.pick elim: resolves_capE)

lemma resolves_any_iff:
  "resolves g (Req_any rs) cand s \<longleftrightarrow> (\<exists>r\<in>set rs. \<exists>s'. s = record_choice (Req_any rs) r s' \<and> resolves g r cand s')"
  by (blast intro: resolves_resolves_all.any elim: resolves_anyE)

lemma resolves_all_iff:
  "resolves g (Req_all rs) cand s \<longleftrightarrow> resolves_all g rs cand s"
  "resolves_all g [] cand s \<longleftrightarrow> s = cand"
  "resolves_all g (r # rs) cand s \<longleftrightarrow> (\<exists>h. resolves g r cand h \<and> resolves_all g rs h s)"
  by (auto intro: resolves_resolves_all.intros elim: resolves_allE resolves_all_nilE resolves_all_consE)

text \<open>The search returns exactly what the relation allows.\<close>

lemma expand_capability_resolves:
  assumes "expand (Suc n) g (Req_capability c) cand path = Some (ss, fs)"
    and IH: "\<And>r cand path ss fs s. expand n g r cand path = Some (ss, fs) \<Longrightarrow> s \<in> set ss \<longleftrightarrow> resolves g r cand s"
  shows "s \<in> set ss \<longleftrightarrow> resolves g (Req_capability c) cand s"
proof (cases "c \<in> provided cand")
  case True
  with assms(1) show ?thesis by (auto simp: expand_capability resolves_capability_iff)
next
  case False
  show ?thesis
  proof (cases "dead_end g c path")
    case None
    with assms(1) False have
      "collect (try_provider n g c cand path) (sort_key pv_id (filter pv_available (candidates_for g c))) = Some (ss, fs)"
      by (simp add: expand_capability)
    then have "s \<in> set ss \<longleftrightarrow> (\<exists>p\<in>set (sort_key pv_id (filter pv_available (candidates_for g c))).
        conflict p cand = None \<and> resolves g (pv_requires p) (select p cand) s)"
      by (rule collect_iff) (auto simp: try_provider_def IH split: option.splits)
    with False show ?thesis unfolding usable_candidates by (simp add: resolves_capability_iff)
  next
    case (Some f)
    with assms(1) False have "ss = []" by (simp add: expand_capability)
    with Some False dead_end_None[of g c path] show ?thesis by (auto simp: resolves_capability_iff)
  qed
qed

lemma expand_any_resolves:
  assumes "expand (Suc n) g (Req_any rs) cand path = Some (ss, fs)"
    and IH: "\<And>r cand path ss fs s. expand n g r cand path = Some (ss, fs) \<Longrightarrow> s \<in> set ss \<longleftrightarrow> resolves g r cand s"
  shows "s \<in> set ss \<longleftrightarrow> resolves g (Req_any rs) cand s"
  unfolding resolves_any_iff using assms(1)[unfolded expand_any]
  by (rule collect_iff) (fastforce simp: try_option_def IH)

lemma expand_resolves:
  "expand n g r cand path = Some (ss, fs) \<Longrightarrow> s \<in> set ss \<longleftrightarrow> resolves g r cand s"
  "expand_all n g rs cand path = Some (ss, fs) \<Longrightarrow> s \<in> set ss \<longleftrightarrow> resolves_all g rs cand s"
proof (induction n arbitrary: r rs cand path ss fs s)
  case (Suc n)
  {
    case 1
    then show ?case
    proof (cases r)
      case (Req_all rs)
      with 1 Suc.IH(2) show ?thesis by (simp add: resolves_all_iff)
    qed (use 1 expand_capability_resolves expand_any_resolves Suc.IH(1) in blast)+
  next
    case 2
    show ?case
    proof (cases rs)
      case Nil
      with 2 show ?thesis by (auto simp: resolves_all_iff)
    next
      case (Cons r rs')
      with 2 obtain hs fs1 fs2 where h: "expand n g r cand path = Some (hs, fs1)"
        and col: "collect (\<lambda>h. expand_all n g rs' h path) hs = Some (ss, fs2)"
        by (auto split: option.splits)
      from col have "s \<in> set ss \<longleftrightarrow> (\<exists>x\<in>set hs. resolves_all g rs' x s)"
        by (rule collect_iff) (rule Suc.IH(2))
      with Suc.IH(1)[OF h] Cons show ?thesis by (auto simp: resolves_all_iff)
    qed
  }
qed simp_all

section \<open>Candidates that grow\<close>

definition chosen :: "candidate \<Rightarrow> plan_provider set" where
  "chosen c = snd ` set (cd_selected c)"

lemma provided_chosen: "provided c = \<Union> (pv_provides ` chosen c)"
  by (simp add: provided_def chosen_def image_image)

lemma chosen_record_choice [simp]:
  "chosen (record_choice q r c) = chosen c" "provided (record_choice q r c) = provided c"
  "cd_selected (record_choice q r c) = cd_selected c"
  by (simp_all add: chosen_def provided_def record_choice_def)

definition compatible :: "plan_provider \<Rightarrow> plan_provider \<Rightarrow> bool" where
  "compatible p q = (pv_conflicts p \<inter> insert (pv_id q) (pv_provides q) = {})"

definition cand_ok :: "capability_graph \<Rightarrow> candidate \<Rightarrow> bool" where
  "cand_ok g c =
     (distinct (map fst (cd_selected c)) \<and> (\<forall>(i, p)\<in>set (cd_selected c). i = pv_id p \<and> p \<in> set (cg_providers g) \<and> usable p)
      \<and> (\<forall>p\<in>chosen c. \<forall>q\<in>chosen c. p \<noteq> q \<longrightarrow> compatible p q))"

lemma cand_ok_empty [simp]: "cand_ok g empty_candidate"
  by (simp add: cand_ok_def empty_candidate_def chosen_def)

lemma selected_conflict_None:
  "selected_conflict p ss = None \<longleftrightarrow> (\<forall>q\<in>set ss. compatible q p)"
  by (induction ss) (auto simp: compatible_def Let_def)

lemma conflict_None:
  assumes "cand_ok g c"
  shows "conflict p c = None \<longleftrightarrow> (\<forall>q\<in>chosen c. compatible p q \<and> compatible q p)"
proof -
  have "fst ` set (cd_selected c) = pv_id ` chosen c"
    using assms by (force simp: cand_ok_def chosen_def)
  then show ?thesis
    by (auto simp: conflict_def Let_def selected_conflict_None provided_chosen compatible_def chosen_def)
qed

lemma update_fresh: "k \<notin> fst ` set al \<Longrightarrow> AList.update k v al = al @ [(k, v)]"
  by (induction al) auto

text \<open>A provider of a missing capability is new.\<close>

lemma id_new:
  assumes "distinct (map pv_id (cg_providers g))" and "cand_ok g c" and "p \<in> set (cg_providers g)"
    and "x \<in> pv_provides p" and "x \<notin> provided c"
  shows "pv_id p \<notin> fst ` set (cd_selected c)"
proof
  assume "pv_id p \<in> fst ` set (cd_selected c)"
  then obtain q where q: "(pv_id p, q) \<in> set (cd_selected c)" by force
  with assms(2) have "pv_id q = pv_id p" "q \<in> set (cg_providers g)" by (auto simp: cand_ok_def)
  with assms(1,3) have "q = p" by (auto simp: distinct_map inj_on_def)
  with q assms(4,5) show False by (force simp: provided_def)
qed

lemma select_new: "pv_id p \<notin> fst ` set (cd_selected c) \<Longrightarrow> cd_selected (select p c) = cd_selected c @ [(pv_id p, p)]"
  by (simp add: select_def update_fresh)

lemma select_ok:
  assumes "distinct (map pv_id (cg_providers g))" and "cand_ok g c" and "p \<in> set (cg_providers g)"
    and "x \<in> pv_provides p" and "x \<notin> provided c" and "usable p" and "conflict p c = None"
  shows "cand_ok g (select p c)" "chosen (select p c) = insert p (chosen c)"
proof -
  note new = id_new[OF assms(1-5)]
  note sel = select_new[OF new]
  then show ch: "chosen (select p c) = insert p (chosen c)" by (simp add: chosen_def)
  have "\<forall>q\<in>chosen c. compatible p q \<and> compatible q p" using conflict_None[OF assms(2)] assms(7) by simp
  with assms(2,3,6) new ch show "cand_ok g (select p c)" by (auto simp: cand_ok_def sel)
qed

section \<open>Soundness\<close>

primrec satisfies :: "string set \<Rightarrow> plan_requirement \<Rightarrow> bool" where
  "satisfies A (Req_capability c) = (c \<in> A)"
| "satisfies A (Req_all rs) = list_all id (map (satisfies A) rs)"
| "satisfies A (Req_any rs) = list_ex id (map (satisfies A) rs)"

lemma satisfies_all_any [simp]:
  "satisfies A (Req_all rs) \<longleftrightarrow> (\<forall>r\<in>set rs. satisfies A r)"
  "satisfies A (Req_any rs) \<longleftrightarrow> (\<exists>r\<in>set rs. satisfies A r)"
  by (auto simp: list_all_iff list_ex_iff)

declare satisfies.simps(2,3) [simp del]

lemma satisfies_mono: "satisfies A r \<Longrightarrow> A \<subseteq> B \<Longrightarrow> satisfies B r"
  by (induction r) (simp; blast)+

text \<open>What a step of the search adds to a candidate: providers whose requirements are met.\<close>

definition grows :: "candidate \<Rightarrow> candidate \<Rightarrow> bool" where
  "grows c s = (chosen c \<subseteq> chosen s \<and> (\<forall>p\<in>chosen s - chosen c. satisfies (provided s) (pv_requires p)))"

lemma grows_provided: "grows c s \<Longrightarrow> provided c \<subseteq> provided s"
  by (auto simp: grows_def provided_chosen)

lemma grows_refl [simp]: "grows c c"
  by (simp add: grows_def)

lemma grows_trans:
  assumes "grows c h" and "grows h s"
  shows "grows c s"
proof -
  have "satisfies (provided s) (pv_requires p)" if "p \<in> chosen s" "p \<notin> chosen c" for p
    using assms that satisfies_mono[OF _ grows_provided[OF assms(2)]] by (cases "p \<in> chosen h") (auto simp: grows_def)
  with assms show ?thesis by (auto simp: grows_def)
qed

lemma resolves_sound:
  assumes "distinct (map pv_id (cg_providers g))"
  shows "resolves g r c s \<Longrightarrow> cand_ok g c \<Longrightarrow> cand_ok g s \<and> grows c s \<and> satisfies (provided s) r"
    and "resolves_all g rs c s \<Longrightarrow> cand_ok g c \<Longrightarrow> cand_ok g s \<and> grows c s \<and> (\<forall>r\<in>set rs. satisfies (provided s) r)"
proof (induction rule: resolves_resolves_all.inducts)
  case (pick x c p s)
  note sel = select_ok[OF assms pick.prems pick(5,2,1,3,4)]
  have s: "cand_ok g s" "grows (select p c) s" "satisfies (provided s) (pv_requires p)"
    using pick.IH sel(1) by blast+
  then have "grows c s" using sel(2) by (auto simp: grows_def)
  moreover have "x \<in> provided s"
    using grows_provided[OF s(2)] sel(2) pick(2) by (auto simp: provided_chosen)
  ultimately show ?case using s(1) by simp
next
  case (any r rs c s)
  have "cand_ok g (record_choice (Req_any rs) r s) = cand_ok g s" by (simp add: cand_ok_def)
  with any show ?case by (auto simp: grows_def)
next
  case (cons r c h rs s)
  then show ?case using grows_trans grows_provided satisfies_mono by fastforce
qed simp_all

section \<open>Termination\<close>

text \<open>The depth that the providers not yet selected can add.\<close>

definition open_depth :: "capability_graph \<Rightarrow> candidate \<Rightarrow> nat" where
  "open_depth g c = sum_list (map (depth \<circ> pv_requires) (filter (\<lambda>p. p \<notin> chosen c) (cg_providers g)))"

lemma sum_filter_mono:
  "(\<And>x. Q x \<Longrightarrow> P x) \<Longrightarrow> sum_list (map f (filter Q xs)) \<le> (sum_list (map f (filter P xs)) :: nat)"
  by (induction xs) (auto intro: add_mono trans_le_add2)

lemma open_depth_mono: "chosen c \<subseteq> chosen s \<Longrightarrow> open_depth g s \<le> open_depth g c"
  unfolding open_depth_def by (rule sum_filter_mono) auto

lemma sum_filter_remove:
  "x \<in> set xs \<Longrightarrow> P x \<Longrightarrow> f x + sum_list (map f (filter (\<lambda>y. P y \<and> y \<noteq> x) xs)) \<le> (sum_list (map f (filter P xs)) :: nat)"
proof (induction xs)
  case (Cons y ys)
  have "sum_list (map f (filter (\<lambda>y. P y \<and> y \<noteq> x) ys)) \<le> sum_list (map f (filter P ys))" by (rule sum_filter_mono) simp
  with Cons show ?case by auto
qed simp

lemma open_depth_select:
  assumes "p \<in> set (cg_providers g)" and "p \<notin> chosen c" and "chosen s = insert p (chosen c)"
  shows "depth (pv_requires p) + open_depth g s \<le> open_depth g c"
  using sum_filter_remove[of p "cg_providers g" "\<lambda>p. p \<notin> chosen c" "depth \<circ> pv_requires"] assms
  by (simp add: open_depth_def conj_commute)

definition all_depth :: "plan_requirement list \<Rightarrow> nat" where
  "all_depth rs = Suc (sum_list (map (Suc \<circ> depth) rs))"

lemma depth_simps:
  "depth (Req_all rs) = Suc (all_depth rs)" "all_depth [] = 1" "all_depth (r # rs) = Suc (depth r) + all_depth rs"
  by (simp_all add: all_depth_def)

lemma depth_member: "r \<in> set rs \<Longrightarrow> depth r < depth (Req_any rs)"
  by (induction rs) (auto simp: less_Suc_eq_le)

lemma depth_pos: "0 < depth r" "0 < all_depth rs"
  by (cases r; simp) (simp add: all_depth_def)

lemma provider_depth:
  assumes "distinct (map pv_id (cg_providers g))" and "cand_ok g c"
    and IH: "\<And>r c path. cand_ok g c \<Longrightarrow> depth r + open_depth g c \<le> n \<Longrightarrow> \<exists>y. expand n g r c path = Some y"
    and "depth (Req_capability x) + open_depth g c \<le> Suc n"
  shows "\<exists>y. expand (Suc n) g (Req_capability x) c path = Some y"
proof (cases "x \<in> provided c \<or> dead_end g x path \<noteq> None")
  case True
  then show ?thesis by (auto simp: expand_capability)
next
  case False
  have "\<exists>y. try_provider n g x c path p = Some y" if p: "p \<in> {p \<in> set (cg_providers g). x \<in> pv_provides p \<and> usable p}" for p
  proof (cases "conflict p c")
    case None
    note sel = select_ok[OF assms(1,2) _ _ _ _ None, of x]
    have "p \<notin> chosen c" using p False by (auto simp: provided_chosen)
    then have "depth (pv_requires p) + open_depth g (select p c) \<le> n"
      using open_depth_select[of p g c "select p c"] sel(2) p False assms(4) by auto
    with IH sel(1) p False None show ?thesis by (auto simp: try_provider_def)
  qed (simp add: try_provider_def)
  then have "\<exists>y. collect (try_provider n g x c path) (sort_key pv_id (filter pv_available (candidates_for g x))) = Some y"
    using usable_candidates[of g x] by (intro collect_defined) blast
  with False show ?thesis by (simp add: expand_capability)
qed

lemma expand_total:
  assumes "distinct (map pv_id (cg_providers g))"
  shows "cand_ok g c \<Longrightarrow> depth r + open_depth g c \<le> n \<Longrightarrow> \<exists>y. expand n g r c path = Some y"
    and "cand_ok g c \<Longrightarrow> all_depth rs + open_depth g c \<le> n \<Longrightarrow> \<exists>y. expand_all n g rs c path = Some y"
proof (induction n arbitrary: r rs c path)
  case 0
  {
    case 1
    then show ?case using depth_pos(1)[of r] by simp
  next
    case 2
    then show ?case using depth_pos(2)[of rs] by simp
  }
next
  case (Suc n)
  {
    case 1
    show ?case
    proof (cases r)
      case (Req_capability x)
      with 1 provider_depth[OF assms, of c n x path] Suc.IH(1) show ?thesis by blast
    next
      case (Req_all rs)
      with 1 Suc.IH(2)[of c rs path] show ?thesis by (simp add: all_depth_def)
    next
      case (Req_any rs)
      have "\<exists>y. try_option n g rs c path r' = Some y" if "r' \<in> set rs" for r'
        using Suc.IH(1)[of c r' path] depth_member[OF that] 1 Req_any by (auto simp: try_option_def)
      then show ?thesis unfolding Req_any expand_any by (rule collect_defined)
    qed
  next
    case 2
    show ?case
    proof (cases rs)
      case (Cons r rs')
      with 2 obtain hs fs where h: "expand n g r c path = Some (hs, fs)"
        using Suc.IH(1)[of c r path] by (auto simp: depth_simps)
      have "\<exists>y. expand_all n g rs' x path = Some y" if "x \<in> set hs" for x
      proof -
        have x: "cand_ok g x" "grows c x"
          using resolves_sound(1)[OF assms, of r c x] expand_resolves(1)[OF h] that 2 by auto
        with 2 Cons open_depth_mono[of c x g] show ?thesis
          by (intro Suc.IH(2)) (auto simp: depth_simps grows_def)
      qed
      then have "\<exists>y. collect (\<lambda>h. expand_all n g rs' h path) hs = Some y" by (rule collect_defined)
      with h Cons show ?thesis by auto
    qed simp
  }
qed

lemma search_total: "distinct (map pv_id (cg_providers g)) \<Longrightarrow> \<exists>y. search g = Some y"
  unfolding search_def
  by (rule expand_total(1)[OF _ cand_ok_empty])
    (simp_all add: search_fuel_def open_depth_def chosen_def empty_candidate_def)

section \<open>Completeness\<close>

text \<open>A closed set of usable providers without conflicts.\<close>

definition closed_set :: "capability_graph \<Rightarrow> plan_provider set \<Rightarrow> bool" where
  "closed_set g S =
     (S \<subseteq> set (cg_providers g) \<and>
      (\<forall>p\<in>S. usable p \<and> satisfies (\<Union> (pv_provides ` S)) (pv_requires p) \<and> (\<forall>q\<in>S. p \<noteq> q \<longrightarrow> compatible p q)))"

definition is_closure :: "capability_graph \<Rightarrow> plan_provider set \<Rightarrow> bool" where
  "is_closure g S = (closed_set g S \<and> satisfies (\<Union> (pv_provides ` S)) (tg_requires (cg_target g)))"

lemma resolves_closure:
  assumes "distinct (map pv_id (cg_providers g))" and "resolves g (tg_requires (cg_target g)) empty_candidate s"
  shows "is_closure g (chosen s)"
proof -
  have s: "cand_ok g s" "grows empty_candidate s" "satisfies (provided s) (tg_requires (cg_target g))"
    using resolves_sound(1)[OF assms] by simp_all
  have "chosen empty_candidate = {}" by (simp add: chosen_def empty_candidate_def)
  with s(2) have "\<forall>p\<in>chosen s. satisfies (provided s) (pv_requires p)" by (simp add: grows_def)
  moreover have "\<forall>p\<in>chosen s. p \<in> set (cg_providers g) \<and> usable p" using s(1) by (force simp: cand_ok_def chosen_def)
  moreover have "\<forall>p\<in>chosen s. \<forall>q\<in>chosen s. p \<noteq> q \<longrightarrow> compatible p q" using s(1) by (simp add: cand_ok_def)
  ultimately show ?thesis
    using s(3) unfolding is_closure_def closed_set_def provided_chosen[symmetric] by blast
qed

lemma pick_complete:
  assumes "distinct (map pv_id (cg_providers g))" and "closed_set g S" and "cand_ok g c" and "chosen c \<subseteq> S"
    and "x \<in> \<Union> (pv_provides ` S)" and "x \<notin> provided c"
  obtains p where "p \<in> S" "p \<in> set (cg_providers g)" "x \<in> pv_provides p" "usable p" "conflict p c = None"
    "cand_ok g (select p c)" "chosen (select p c) = insert p (chosen c)" "p \<notin> chosen c"
proof -
  from assms(5) obtain p where p: "p \<in> S" "x \<in> pv_provides p" by auto
  with assms(2) have u: "p \<in> set (cg_providers g)" "usable p" by (auto simp: closed_set_def)
  have new: "p \<notin> chosen c" using p(2) assms(6) by (auto simp: provided_chosen)
  have "compatible p q \<and> compatible q p" if "q \<in> chosen c" for q
  proof -
    have "q \<in> S" "q \<noteq> p" using that assms(4) new by auto
    with assms(2) p(1) show ?thesis by (simp add: closed_set_def)
  qed
  then have "conflict p c = None" by (simp add: conflict_None[OF assms(3)])
  with select_ok[OF assms(1,3) u(1) p(2) assms(6) u(2)] p u new show ?thesis by (intro that)
qed

lemma resolves_complete:
  assumes "distinct (map pv_id (cg_providers g))" and "closed_set g S"
  shows "cand_ok g c \<Longrightarrow> chosen c \<subseteq> S \<Longrightarrow> satisfies (\<Union> (pv_provides ` S)) r \<Longrightarrow> depth r + open_depth g c \<le> n
      \<Longrightarrow> \<exists>s. resolves g r c s \<and> chosen s \<subseteq> S"
    and "cand_ok g c \<Longrightarrow> chosen c \<subseteq> S \<Longrightarrow> \<forall>r\<in>set rs. satisfies (\<Union> (pv_provides ` S)) r \<Longrightarrow> all_depth rs + open_depth g c \<le> n
      \<Longrightarrow> \<exists>s. resolves_all g rs c s \<and> chosen s \<subseteq> S"
proof (induction n arbitrary: r rs c)
  case 0
  {
    case 1
    then show ?case using depth_pos(1)[of r] by simp
  next
    case 2
    then show ?case using depth_pos(2)[of rs] by simp
  }
next
  case (Suc n)
  {
    case 1
    show ?case
    proof (cases r)
      case (Req_capability x)
      show ?thesis
      proof (cases "x \<in> provided c")
        case False
        have "x \<in> \<Union> (pv_provides ` S)" using 1(3) Req_capability by simp
        then obtain p where p: "p \<in> S" "p \<in> set (cg_providers g)" "x \<in> pv_provides p" "usable p" "conflict p c = None"
          "cand_ok g (select p c)" "chosen (select p c) = insert p (chosen c)" "p \<notin> chosen c"
          using pick_complete[OF assms 1(1,2) _ False] by blast
        have "satisfies (\<Union> (pv_provides ` S)) (pv_requires p)" using assms(2) p(1) by (auto simp: closed_set_def)
        moreover have "depth (pv_requires p) + open_depth g (select p c) \<le> n"
          using open_depth_select[OF p(2,8,7)] 1(4) Req_capability by simp
        ultimately obtain s where "resolves g (pv_requires p) (select p c) s" "chosen s \<subseteq> S"
          using Suc.IH(1)[OF p(6), of "pv_requires p"] p(1,7) 1(2) by auto
        with resolves_resolves_all.pick[OF False p(2-5)] Req_capability show ?thesis by blast
      qed (use 1 Req_capability resolves_resolves_all.present in blast)
    next
      case (Req_all rs)
      with 1 Suc.IH(2)[of c rs] show ?thesis by (auto simp: resolves_all_iff all_depth_def)
    next
      case (Req_any rs)
      with 1(3) obtain r' where r': "r' \<in> set rs" "satisfies (\<Union> (pv_provides ` S)) r'" by auto
      with 1 Req_any depth_member[OF r'(1)] obtain s where "resolves g r' c s" "chosen s \<subseteq> S"
        using Suc.IH(1)[of c r'] by auto
      with r' Req_any resolves_resolves_all.any[OF r'(1)] show ?thesis by (metis chosen_record_choice(1))
    qed
  next
    case 2
    show ?case
    proof (cases rs)
      case Nil
      with 2 show ?thesis by (auto simp: resolves_all_iff)
    next
      case (Cons r rs')
      with 2 obtain h where h: "resolves g r c h" "chosen h \<subseteq> S"
        using Suc.IH(1)[of c r] by (auto simp: depth_simps)
      then have "cand_ok g h" "grows c h" using resolves_sound(1)[OF assms(1)] 2(1) by blast+
      with 2 Cons h open_depth_mono[of c h g] obtain s where "resolves_all g rs' h s" "chosen s \<subseteq> S"
        using Suc.IH(2)[of h rs'] by (auto simp: depth_simps grows_def)
      with h Cons show ?thesis by (auto simp: resolves_all_iff)
    qed
  }
qed

lemma search_exact:
  assumes "distinct (map pv_id (cg_providers g))"
  obtains ss fs where "search g = Some (ss, fs)" "\<forall>s\<in>set ss. cand_ok g s \<and> is_closure g (chosen s)"
    "ss = [] \<longleftrightarrow> (\<nexists>S. is_closure g S)"
proof -
  obtain ss fs where f: "search g = Some (ss, fs)" using search_total[OF assms] by auto
  have m: "s \<in> set ss \<longleftrightarrow> resolves g (tg_requires (cg_target g)) empty_candidate s" for s
    using expand_resolves(1)[OF f[unfolded search_def]] .
  have c: "\<forall>s\<in>set ss. cand_ok g s \<and> is_closure g (chosen s)"
    using resolves_closure[OF assms] resolves_sound(1)[OF assms _ cand_ok_empty] m by blast
  have "ss \<noteq> []" if "is_closure g S" for S
  proof -
    have "\<exists>s. resolves g (tg_requires (cg_target g)) empty_candidate s \<and> chosen s \<subseteq> S"
      using that by (intro resolves_complete(1)[OF assms _ cand_ok_empty _ _ order.refl])
        (simp_all add: is_closure_def chosen_def empty_candidate_def)
    with m show ?thesis by auto
  qed
  with c f show ?thesis by (intro that) (auto simp: neq_Nil_conv)
qed

section \<open>Phases\<close>

text \<open>Every provider comes after what it needs; only in the last phase may providers need each other.\<close>

fun phases_respect :: "(string \<times> string set) list \<Rightarrow> string set \<Rightarrow> string list list \<Rightarrow> bool" where
  "phases_respect deps E [] = True"
| "phases_respect deps E (ph # phs) =
     ((\<forall>(i, needs)\<in>set deps. i \<in> set ph \<longrightarrow> needs \<subseteq> E \<or> phs = [] \<and> needs \<subseteq> E \<union> set ph)
      \<and> ph \<noteq> [] \<and> phases_respect deps (E \<union> set ph) phs)"

lemma next_phase_facts:
  assumes "distinct (map fst deps)" and "\<not> fst ` set deps \<subseteq> E"
  shows "next_phase deps E \<noteq> []" "set (next_phase deps E) \<subseteq> fst ` set deps - E" "distinct (next_phase deps E)"
    and "(i, needs) \<in> set deps \<Longrightarrow> i \<in> set (next_phase deps E) \<Longrightarrow> needs \<subseteq> E \<or> set (next_phase deps E) = fst ` set deps - E"
proof -
  let ?ready = "sort (map fst (filter (\<lambda>(i, needs). i \<notin> E \<and> needs \<subseteq> E) deps))"
  let ?rest = "sort (filter (\<lambda>i. i \<notin> E) (map fst deps))"
  have ph: "next_phase deps E = (if ?ready = [] then ?rest else ?ready)" by (simp add: next_phase_def Let_def)
  from assms(2) obtain j where "j \<in> set ?rest" by auto
  then have "?rest \<noteq> []" by (metis empty_iff empty_set)
  then show "next_phase deps E \<noteq> []" by (simp add: ph)
  show "set (next_phase deps E) \<subseteq> fst ` set deps - E" by (auto simp: ph intro: rev_image_eqI)
  show "distinct (next_phase deps E)" using assms(1) by (auto simp: ph distinct_map_filter)
  assume i: "(i, needs) \<in> set deps" "i \<in> set (next_phase deps E)"
  show "needs \<subseteq> E \<or> set (next_phase deps E) = fst ` set deps - E"
  proof (cases "?ready = []")
    case False
    with i(2) obtain needs' where "(i, needs') \<in> set deps" "needs' \<subseteq> E" by (auto simp: ph)
    with i(1) assms(1) show ?thesis by (metis map_of_eq_Some_iff option.inject)
  qed (auto simp: ph)
qed

lemma phase_loop_total:
  assumes d: "distinct (map fst deps)" and needs: "\<forall>(i, needs)\<in>set deps. needs \<subseteq> fst ` set deps"
    and "E \<subseteq> fst ` set deps" and "length deps - card E \<le> n"
  shows "\<exists>phs. phase_loop n deps (length deps) E = Some phs \<and> distinct (concat phs)
    \<and> set (concat phs) = fst ` set deps - E \<and> phases_respect deps E phs"
  using assms(3,4)
proof (induction n arbitrary: E)
  case 0
  have "card (fst ` set deps) = length deps" using d by (metis distinct_card length_map list.set_map)
  with 0 have "E = fst ` set deps" by (intro card_seteq) auto
  with 0 show ?case by (simp add: phase_loop.simps)
next
  case (Suc n)
  have K: "card (fst ` set deps) = length deps" using d by (metis distinct_card length_map list.set_map)
  show ?case
  proof (cases "length deps \<le> card E")
    case True
    with Suc.prems K have "E = fst ` set deps" by (intro card_seteq) auto
    with True show ?thesis by (simp add: phase_loop.simps)
  next
    case False
    let ?ph = "next_phase deps E"
    have fin: "finite E" using Suc.prems finite_subset by blast
    then have "\<not> fst ` set deps \<subseteq> E" using False K by (metis card_mono)
    note ph = next_phase_facts[OF d this]
    have "card E < card (E \<union> set ?ph)" using fin ph(1,2) by (intro psubset_card_mono) (auto simp: neq_Nil_conv)
    then have "length deps - card (E \<union> set ?ph) \<le> n" using Suc.prems(2) by simp
    moreover have "E \<union> set ?ph \<subseteq> fst ` set deps" using Suc.prems(1) ph(2) by auto
    ultimately obtain phs where phs: "phase_loop n deps (length deps) (E \<union> set ?ph) = Some phs" "distinct (concat phs)"
      "set (concat phs) = fst ` set deps - (E \<union> set ?ph)" "phases_respect deps (E \<union> set ?ph) phs"
      using Suc.IH[of "E \<union> set ?ph"] by blast
    have last: "phs = []" if "set ?ph = fst ` set deps - E"
      using that phs(3,4) by (cases phs) (auto simp: neq_Nil_conv)
    have "ns \<subseteq> E \<or> phs = [] \<and> ns \<subseteq> E \<union> set ?ph" if i: "(i, ns) \<in> set deps" "i \<in> set ?ph" for i ns
    proof (cases "ns \<subseteq> E")
      case False
      with ph(4)[OF i] have e: "set ?ph = fst ` set deps - E" by blast
      moreover have "ns \<subseteq> fst ` set deps" using needs i(1) by auto
      ultimately show ?thesis using last[OF e] by auto
    qed simp
    then have "\<forall>(i, ns)\<in>set deps. i \<in> set ?ph \<longrightarrow> ns \<subseteq> E \<or> phs = [] \<and> ns \<subseteq> E \<union> set ?ph" by blast
    then have "phases_respect deps E (?ph # phs)" using ph(1) phs(4) by simp
    moreover have "phase_loop (Suc n) deps (length deps) E = Some (?ph # phs)"
      using False phs(1) by (simp add: phase_loop.simps[of "Suc n"] Let_def)
    moreover have "distinct (concat (?ph # phs)) \<and> set (concat (?ph # phs)) = fst ` set deps - E"
      using ph(2,3) phs(2,3) by auto
    ultimately show ?thesis by blast
  qed
qed

lemma owner_of_SomeD: "owner_of ps c = Some i \<Longrightarrow> \<exists>p\<in>set ps. pv_id p = i \<and> c \<in> pv_provides p"
  by (auto simp: owner_of_def dest!: find_SomeD)

lemma dependencies_subset: "dependencies ps p \<subseteq> pv_id ` set ps"
  by (auto simp: dependencies_def Option.these_unfold dest!: owner_of_SomeD[OF sym])

lemma phase_order_total:
  assumes "distinct (map pv_id ps)"
  shows "\<exists>phs. phase_order ps = Some phs \<and> distinct (concat phs) \<and> set (concat phs) = pv_id ` set ps
    \<and> phases_respect (map (\<lambda>p. (pv_id p, dependencies ps p)) ps) {} phs"
proof -
  let ?deps = "map (\<lambda>p. (pv_id p, dependencies ps p)) ps"
  have "fst ` set ?deps = pv_id ` set ps" by (simp add: image_image)
  with phase_loop_total[of ?deps "{}" "length ps"] assms dependencies_subset[of ps] show ?thesis
    by (simp add: phase_order_def comp_def)
qed

end
