(* ===== verification/Plan_Dispatch.thy ===== *)
theory Plan_Dispatch
  imports Plan_Search
begin

text \<open>
  The promises of the plan solver as its callers see them: it ends, it reports a complete closure exactly
  when one exists, its phases respect the dependencies, its artifact dispatches only when an
  independent resolver found the same closure for the current commit, its answer does not depend on the
  order in which providers are listed, and an execution graph by itself never dispatches.
\<close>

section \<open>Parsed graphs\<close>

lemma parse_providers_OkD:
  assumes "parse_providers lib cs v = Ok ps"
  shows "distinct (map pv_id ps)"
  using assms by (auto simp: parse_providers_def split: if_splits)

lemma parse_target_OkD: "parse_target lib cs data = Ok tg \<Longrightarrow> map_of STATE_RANK (tg_minimum_state tg) \<noteq> None"
  by (auto simp: parse_target_def Let_def split: json.splits if_splits)

lemma graph_from_mapping_OkD:
  assumes "graph_from_mapping lib cs data expected = Ok g"
  shows "distinct (map pv_id (cg_providers g))" "map_of STATE_RANK (tg_minimum_state (cg_target g)) \<noteq> None"
  using assms by (auto simp: graph_from_mapping_def Let_def split: if_splits dest: parse_providers_OkD parse_target_OkD)

section \<open>The winner\<close>

lemma best_of_None [simp]: "best_of ss = None \<longleftrightarrow> ss = []"
proof -
  have "sort_key f ss = [] \<longleftrightarrow> ss = []" for f :: "candidate \<Rightarrow> int \<times> string list"
    by (metis length_0_conv length_sort)
  then show ?thesis by (auto simp: best_of_def split: list.splits)
qed

lemma best_of_SomeD:
  assumes "best_of ss = Some w"
  shows "w \<in> set ss"
proof -
  obtain ws where "sort_key (\<lambda>c. (- total_preference c, sort (map fst (cd_selected c)))) ss = w # ws"
    using assms by (auto simp: best_of_def split: list.splits)
  then have "w \<in> set (sort_key (\<lambda>c. (- total_preference c, sort (map fst (cd_selected c)))) ss)" by simp
  then show ?thesis by simp
qed

lemma cand_ok_ids: "cand_ok g w \<Longrightarrow> map fst (cd_selected w) = map (pv_id \<circ> snd) (cd_selected w)"
  by (auto simp: cand_ok_def)

lemma selected_of_ok:
  assumes "cand_ok g w"
  shows "distinct (map pv_id (selected_of (Some w)))" "set (selected_of (Some w)) = chosen w"
    "map pv_id (selected_of (Some w)) = sorted_list_of_set (pv_id ` chosen w)"
proof -
  show s: "set (selected_of (Some w)) = chosen w" by (simp add: selected_of_def chosen_def)
  have "mset (map pv_id (selected_of (Some w))) = mset (map fst (cd_selected w))"
    by (simp add: selected_of_def cand_ok_ids[OF assms] multiset.map_comp comp_def)
  then show d: "distinct (map pv_id (selected_of (Some w)))"
    using assms by (metis cand_ok_def mset_eq_imp_distinct_iff)
  have "sorted (map pv_id (selected_of (Some w)))" by (simp add: selected_of_def)
  with d show "map pv_id (selected_of (Some w)) = sorted_list_of_set (pv_id ` chosen w)"
    by (metis s list.set_map sorted_list_of_set.idem_if_sorted_distinct)
qed

section \<open>A sample graph\<close>

definition sample_host :: pylib where
  "sample_host = \<lparr>sha256_hex = (\<lambda>_. ''h''), float_repr = (\<lambda>_. [])\<rparr>"

definition sample_repr :: "json \<Rightarrow> string" where
  "sample_repr v = ''?''"

definition sample_providers :: "json list" where
  "sample_providers =
     [JObj [(''id'', JStr ''store''), (''provides'', JList [JStr ''storage'']), (''requires'', JList [])],
      JObj [(''id'', JStr ''api''), (''provides'', JList [JStr ''service'']), (''requires'', JList [JStr ''storage''])]]"

definition sample_plan :: jobj where
  "sample_plan =
     [(''schema'', JStr ''tgw-plan/v2''), (''plan_commit'', JStr ''c1''), (''providers'', JList sample_providers),
      (''target'', JObj [(''required_capabilities'', JList [JStr ''service''])])]"

definition sample_graph :: capability_graph where
  "sample_graph = projr (graph_from_mapping sample_host sample_repr sample_plan None)"

lemma sample_graph_parsed: "graph_from_mapping sample_host sample_repr sample_plan None = Ok sample_graph"
proof -
  have "is_ok (graph_from_mapping sample_host sample_repr sample_plan None)" by code_simp
  then show ?thesis by (cases "graph_from_mapping sample_host sample_repr sample_plan None") (simp_all add: sample_graph_def)
qed

text \<open>A conformance provider that reports the hash the sample host computes.\<close>

definition sample_conf :: conformance where
  "sample_conf = \<lparr>cf_provider_id = ''luet-adapter@1'', cf_available = True, cf_closure_hash = Some ''sha256:h''\<rparr>"

definition sample_art :: jobj where
  "sample_art = projr (solve_graph sample_host sample_repr sample_graph (Conf_result sample_conf))"

lemma sample_art_facts:
  "solve_graph sample_host sample_repr sample_graph (Conf_result sample_conf) = Ok sample_art"
  "jget sample_art ''complete'' = JBool True" "jget sample_art ''selected_providers'' = jstrs [''api'', ''store'']"
  "jget sample_art ''closure_hash'' = JStr ''sha256:h''"
proof -
  have "case solve_graph sample_host sample_repr sample_graph (Conf_result sample_conf) of
      Inl _ \<Rightarrow> False
    | Inr art \<Rightarrow> jget art ''complete'' = JBool True \<and> jget art ''selected_providers'' = jstrs [''api'', ''store'']
        \<and> jget art ''closure_hash'' = JStr ''sha256:h''"
    by code_simp
  then show "solve_graph sample_host sample_repr sample_graph (Conf_result sample_conf) = Ok sample_art"
    "jget sample_art ''complete'' = JBool True" "jget sample_art ''selected_providers'' = jstrs [''api'', ''store'']"
    "jget sample_art ''closure_hash'' = JStr ''sha256:h''"
    by (auto simp: sample_art_def split: sum.splits)
qed

section \<open>Termination\<close>

text \<open>More fuel does not change a result.\<close>

lemma collect_mono:
  "collect f xs = Some y \<Longrightarrow> (\<And>x z. x \<in> set xs \<Longrightarrow> f x = Some z \<Longrightarrow> h x = Some z) \<Longrightarrow> collect h xs = Some y"
proof (induction xs arbitrary: y)
  case (Cons x xs)
  then obtain ss fs ss' fs' where "f x = Some (ss, fs)" "collect f xs = Some (ss', fs')" "y = (ss @ ss', fs @ fs')"
    by (auto split: option.splits)
  with Cons show ?case by simp
qed simp

lemma expand_Suc:
  "expand n g r c path = Some y \<Longrightarrow> expand (Suc n) g r c path = Some y"
  "expand_all n g rs c path = Some y \<Longrightarrow> expand_all (Suc n) g rs c path = Some y"
proof (induction n arbitrary: r rs c path y)
  case (Suc n)
  {
    case 1
    show ?case
    proof (cases r)
      case (Req_capability x)
      have "try_provider (Suc n) g x c path p = Some z" if "try_provider n g x c path p = Some z" for p z
        using that Suc.IH(1) by (auto simp: try_provider_def split: option.splits)
      with 1 Req_capability show ?thesis
        by (auto simp: expand_capability split: option.splits if_splits intro: collect_mono)
    next
      case (Req_all rs)
      with 1 Suc.IH(2) show ?thesis by simp
    next
      case (Req_any rs)
      have "try_option (Suc n) g rs c path r' = Some z" if "try_option n g rs c path r' = Some z" for r' z
        using that Suc.IH(1) by (auto simp: try_option_def)
      with 1 Req_any show ?thesis unfolding Req_any expand_any by (auto simp: expand_any intro: collect_mono)
    qed
  next
    case 2
    show ?case
    proof (cases rs)
      case (Cons r rs')
      with 2 obtain hs fs ss fs' where h: "expand n g r c path = Some (hs, fs)"
        "collect (\<lambda>h. expand_all n g rs' h path) hs = Some (ss, fs')" "y = (ss, fs @ fs')"
        by (auto split: option.splits)
      have "collect (\<lambda>h. expand_all (Suc n) g rs' h path) hs = Some (ss, fs')"
        using h(2) by (rule collect_mono) (rule Suc.IH(2))
      with h Suc.IH(1)[OF h(1)] Cons show ?thesis by simp
    qed (use 2 in simp)
  }
qed simp_all

lemma expand_more: "expand n g r c path = Some y \<Longrightarrow> n \<le> m \<Longrightarrow> expand m g r c path = Some y"
  by (induction m) (auto simp: le_Suc_eq expand_Suc(1))

text \<open>C34: the solver ends on every graph that it can parse, however its providers depend on each
  other. The recursion of \<^verbatim>\<open>_expand\<close> needs no more than \<open>search_fuel\<close> nested calls, whatever stack is given beyond
  that makes no difference, and the loop of \<^verbatim>\<open>_phase_order\<close> ends for every closure that it finds.\<close>

theorem plan_search_terminates:
  assumes "graph_from_mapping lib cs data expected = Ok g"
  shows "\<exists>ss fs. (\<forall>n\<ge>search_fuel g. expand n g (tg_requires (cg_target g)) empty_candidate [] = Some (ss, fs))
    \<and> (\<forall>w\<in>set ss. phase_order (selected_of (Some w)) \<noteq> None)"
proof -
  note d = graph_from_mapping_OkD(1)[OF assms]
  obtain ss fs where s: "search g = Some (ss, fs)" "\<forall>w\<in>set ss. cand_ok g w \<and> is_closure g (chosen w)"
    "ss = [] \<longleftrightarrow> (\<nexists>S. is_closure g S)"
    by (rule search_exact[OF d])
  have "phase_order (selected_of (Some w)) \<noteq> None" if "w \<in> set ss" for w
    using phase_order_total[OF selected_of_ok(1)] s(2) that by blast
  with s(1) expand_more[of "search_fuel g"] show ?thesis unfolding search_def by blast
qed

theorem plan_search_terminates_witness:
  "\<exists>ss fs. expand 100 sample_graph (tg_requires (cg_target sample_graph)) empty_candidate [] = Some (ss, fs)"
proof -
  have "search_fuel sample_graph \<le> 100" by code_simp
  with plan_search_terminates[OF sample_graph_parsed] show ?thesis by blast
qed

section \<open>The artifact\<close>

lemma solve_graph_OkD:
  assumes "solve_graph lib cs g a = Ok art"
  obtains conf ss fs where "conformance_parse lib cs a = Ok conf" "search g = Some (ss, fs)"
    "artifact lib cs g (best_of ss) fs conf = Ok art"
  using assms by (auto simp: solve_graph_def split: option.splits)

lemma artifact_OkD:
  assumes "artifact lib cs g w fs conf = Ok art"
  obtains minimum unresolved phases closure unsigned where
    "map_of STATE_RANK (tg_minimum_state (cg_target g)) = Some minimum"
    "unresolved_of lib cs g w fs = Ok unresolved" "phase_order (selected_of w) = Some phases"
    "closure = closure_of lib g w minimum phases"
    "unsigned = unsigned_artifact g w conf minimum closure (plan_hash lib (JObj closure)) unresolved"
    "art = unsigned @ [(''solution_hash'', JStr (plan_hash lib (JObj unsigned)))]"
  using assms by (auto simp: artifact_def Let_def split: option.splits)

text \<open>The shape of the artifact, with the fields that no later proof looks at as variables.\<close>

lemma closure_shape:
  obtains root caps alts sat units where
    "closure_of lib g w m phs =
       [(''plan_commit'', JStr (cg_plan_commit g)), (''root'', root), (''complete'', JBool (w \<noteq> None)),
        (''selected_providers'', jstrs (map pv_id (selected_of w))), (''selected_capabilities'', caps),
        (''selected_alternatives'', alts), (''satisfied_installed'', sat), (''work_units'', units),
        (''phase_order'', JList (map jstrs phs))]"
  by (rule that) (unfold closure_of_def Let_def, rule refl)

definition verified_by :: "candidate option \<Rightarrow> conformance \<Rightarrow> string \<Rightarrow> bool" where
  "verified_by w conf h = (w \<noteq> None \<and> cf_available conf \<and> cf_closure_hash conf = Some h)"

lemma unsigned_shape:
  obtains resolver provs unres rej reuse inval where
    "unsigned_artifact g w conf m closure h u =
       [(''schema'', JStr SOLUTION_SCHEMA), (''resolver'', resolver), (''conformance_providers'', provs)] @ closure @
       [(''closure_hash'', JStr h), (''conformance_verified'', JBool (verified_by w conf h)),
        (''dispatchable'', JBool (verified_by w conf h \<and> unres = [])), (''rejected_alternatives'', rej),
        (''unresolved'', JList unres), (''reusable_receipts'', reuse), (''invalidated_receipts'', inval)]"
    "w = None \<or> verified_by w conf h \<longrightarrow> unres = u"
  by (rule that) (unfold unsigned_artifact_def Let_def verified_by_def, rule refl, auto)

lemma artifact_shape:
  assumes "artifact lib cs g w fs conf = Ok art"
  obtains h phs u unres resolver provs root caps alts sat units rej reuse inval unsigned where
    "art = unsigned @ [(''solution_hash'', JStr (plan_hash lib (JObj unsigned)))]"
    "unsigned =
       [(''schema'', JStr SOLUTION_SCHEMA), (''resolver'', resolver), (''conformance_providers'', provs),
        (''plan_commit'', JStr (cg_plan_commit g)), (''root'', root), (''complete'', JBool (w \<noteq> None)),
        (''selected_providers'', jstrs (map pv_id (selected_of w))), (''selected_capabilities'', caps),
        (''selected_alternatives'', alts), (''satisfied_installed'', sat), (''work_units'', units),
        (''phase_order'', JList (map jstrs phs)),
        (''closure_hash'', JStr h), (''conformance_verified'', JBool (verified_by w conf h)),
        (''dispatchable'', JBool (verified_by w conf h \<and> unres = [])), (''rejected_alternatives'', rej),
        (''unresolved'', JList unres), (''reusable_receipts'', reuse), (''invalidated_receipts'', inval)]"
    "phase_order (selected_of w) = Some phs" "unresolved_of lib cs g w fs = Ok u"
    "w = None \<or> verified_by w conf h \<longrightarrow> unres = u"
  using assms
proof (rule artifact_OkD)
  fix m u phs closure unsigned
  assume a: "unresolved_of lib cs g w fs = Ok u" "phase_order (selected_of w) = Some phs"
    "closure = closure_of lib g w m phs" "unsigned = unsigned_artifact g w conf m closure (plan_hash lib (JObj closure)) u"
    "art = unsigned @ [(''solution_hash'', JStr (plan_hash lib (JObj unsigned)))]"
  obtain root caps alts sat units where c: "closure =
       [(''plan_commit'', JStr (cg_plan_commit g)), (''root'', root), (''complete'', JBool (w \<noteq> None)),
        (''selected_providers'', jstrs (map pv_id (selected_of w))), (''selected_capabilities'', caps),
        (''selected_alternatives'', alts), (''satisfied_installed'', sat), (''work_units'', units),
        (''phase_order'', JList (map jstrs phs))]"
    unfolding a(3) by (rule closure_shape)
  define h where "h = plan_hash lib (JObj closure)"
  obtain resolver provs unres rej reuse inval where un: "unsigned =
       [(''schema'', JStr SOLUTION_SCHEMA), (''resolver'', resolver), (''conformance_providers'', provs)] @ closure @
       [(''closure_hash'', JStr h), (''conformance_verified'', JBool (verified_by w conf h)),
        (''dispatchable'', JBool (verified_by w conf h \<and> unres = [])), (''rejected_alternatives'', rej),
        (''unresolved'', JList unres), (''reusable_receipts'', reuse), (''invalidated_receipts'', inval)]"
    "w = None \<or> verified_by w conf h \<longrightarrow> unres = u"
    unfolding a(4) h_def[symmetric] by (rule unsigned_shape[of g w conf m closure h u])
  show ?thesis
    by (rule that[OF a(5) _ a(2,1) un(2)]) (simp only: un(1) c append_Cons append_Nil)
qed

lemma artifact_closure_fields:
  assumes "artifact lib cs g w fs conf = Ok art"
  shows "jget art ''complete'' = JBool (w \<noteq> None)"
    and "jget art ''selected_providers'' = jstrs (map pv_id (selected_of w))"
    and "\<exists>phases. phase_order (selected_of w) = Some phases \<and> jget art ''phase_order'' = JList (map jstrs phases)"
  using assms by (rule artifact_shape, simp add: jget_def)+

lemma solve_graph_closure:
  assumes "distinct (map pv_id (cg_providers g))" and "solve_graph lib cs g a = Ok art"
  shows "jget art ''complete'' = JBool (\<exists>S. is_closure g S)"
    and "is_closure g S \<Longrightarrow> \<exists>S. is_closure g S \<and> jget art ''selected_providers'' = jstrs (sorted_list_of_set (pv_id ` S))"
proof -
  obtain conf ss fs where s: "search g = Some (ss, fs)" "artifact lib cs g (best_of ss) fs conf = Ok art"
    using assms(2) by (rule solve_graph_OkD)
  have x: "\<forall>w\<in>set ss. cand_ok g w \<and> is_closure g (chosen w)" "ss = [] \<longleftrightarrow> (\<nexists>S. is_closure g S)"
    using search_exact[OF assms(1)] s(1) by auto
  note f = artifact_closure_fields[OF s(2)]
  show "jget art ''complete'' = JBool (\<exists>S. is_closure g S)" using f(1) x(2) by simp
  assume "is_closure g S"
  with x(2) obtain w where w: "best_of ss = Some w" using best_of_None by blast
  with best_of_SomeD x(1) have "cand_ok g w" "is_closure g (chosen w)" by blast+
  with f(2) w selected_of_ok(3) show "\<exists>S. is_closure g S \<and> jget art ''selected_providers'' = jstrs (sorted_list_of_set (pv_id ` S))"
    by auto
qed

text \<open>C32: the solver is sound and complete. It marks its artifact as complete exactly when some
  set of usable providers meets the target, meets all requirements of its own members and has no conflict, and
  the providers that it then lists are such a set. Otherwise no such set exists.\<close>

theorem plan_solver_exact:
  assumes "graph_from_mapping lib cs data expected = Ok g" and "solve_graph lib cs g a = Ok art"
  shows "if jget art ''complete'' = JBool True
    then \<exists>S. is_closure g S \<and> jget art ''selected_providers'' = jstrs (sorted_list_of_set (pv_id ` S))
    else jget art ''complete'' = JBool False \<and> \<not> (\<exists>S. is_closure g S)"
  using solve_graph_closure[OF graph_from_mapping_OkD(1)[OF assms(1)] assms(2)] by auto

theorem plan_solver_exact_witness:
  "\<exists>S. is_closure sample_graph S \<and> jstrs [''api'', ''store''] = jstrs (sorted_list_of_set (pv_id ` S))"
  using plan_solver_exact[OF sample_graph_parsed sample_art_facts(1)] sample_art_facts(2,3) by simp

text \<open>The phases of a solution name every selected provider exactly once, and a provider comes
  in a phase after all providers it depends on, or in the last phase together with the
  providers that depend on it in turn.\<close>

lemma plan_phases_respect_dependencies:
  assumes "graph_from_mapping lib cs data expected = Ok g" and "solve_graph lib cs g a = Ok art"
  shows "\<exists>ps phs. set ps \<subseteq> set (cg_providers g) \<and> jget art ''selected_providers'' = jstrs (map pv_id ps)
    \<and> jget art ''phase_order'' = JList (map jstrs phs) \<and> distinct (concat phs) \<and> set (concat phs) = pv_id ` set ps
    \<and> phases_respect (map (\<lambda>p. (pv_id p, dependencies ps p)) ps) {} phs"
proof -
  obtain conf ss fs where s: "search g = Some (ss, fs)" "artifact lib cs g (best_of ss) fs conf = Ok art"
    using assms(2) by (rule solve_graph_OkD)
  have x: "\<forall>w\<in>set ss. cand_ok g w \<and> is_closure g (chosen w)"
    using search_exact[OF graph_from_mapping_OkD(1)[OF assms(1)]] s(1) by auto
  let ?ps = "selected_of (best_of ss)"
  have "set ?ps \<subseteq> set (cg_providers g) \<and> distinct (map pv_id ?ps)"
  proof (cases "best_of ss")
    case None
    then show ?thesis by (simp add: selected_of_def del: best_of_None)
  next
    case (Some w)
    then have "cand_ok g w" "is_closure g (chosen w)" using best_of_SomeD x by blast+
    with Some selected_of_ok[of g w] show ?thesis by (simp add: is_closure_def closed_set_def)
  qed
  note ps = conjunct1[OF this] conjunct2[OF this]
  obtain phs where phs: "phase_order ?ps = Some phs" "distinct (concat phs)" "set (concat phs) = pv_id ` set ?ps"
    "phases_respect (map (\<lambda>p. (pv_id p, dependencies ?ps p)) ?ps) {} phs"
    using phase_order_total[OF ps(2)] by blast
  have "jget art ''phase_order'' = JList (map jstrs phs)" using artifact_closure_fields(3)[OF s(2)] phs(1) by simp
  with ps(1) phs artifact_closure_fields(2)[OF s(2)] show ?thesis by blast
qed

section \<open>Dispatch\<close>

lemma artifact_status_fields:
  assumes "artifact lib cs g w fs conf = Ok art"
  obtains h where "jget art ''schema'' = JStr SOLUTION_SCHEMA" "jget art ''plan_commit'' = JStr (cg_plan_commit g)"
    "jget art ''solution_hash'' = JStr (plan_hash lib (JObj (AList.delete ''solution_hash'' art)))"
    "jget art ''complete'' = JBool (w \<noteq> None)" "jget art ''closure_hash'' = JStr h"
    "jget art ''conformance_verified'' = JBool (verified_by w conf h)"
    "verified_by w conf h \<Longrightarrow> jget art ''dispatchable'' = JBool True \<and> jget art ''unresolved'' = JList []"
  using assms
proof (rule artifact_shape)
  fix h phs u unres resolver provs root caps alts sat units rej reuse inval unsigned
  assume art: "art = unsigned @ [(''solution_hash'', JStr (plan_hash lib (JObj unsigned)))]"
    and un: "unsigned =
       [(''schema'', JStr SOLUTION_SCHEMA), (''resolver'', resolver), (''conformance_providers'', provs),
        (''plan_commit'', JStr (cg_plan_commit g)), (''root'', root), (''complete'', JBool (w \<noteq> None)),
        (''selected_providers'', jstrs (map pv_id (selected_of w))), (''selected_capabilities'', caps),
        (''selected_alternatives'', alts), (''satisfied_installed'', sat), (''work_units'', units),
        (''phase_order'', JList (map jstrs phs)),
        (''closure_hash'', JStr h), (''conformance_verified'', JBool (verified_by w conf h)),
        (''dispatchable'', JBool (verified_by w conf h \<and> unres = [])), (''rejected_alternatives'', rej),
        (''unresolved'', JList unres), (''reusable_receipts'', reuse), (''invalidated_receipts'', inval)]"
    and u: "unresolved_of lib cs g w fs = Ok u" "w = None \<or> verified_by w conf h \<longrightarrow> unres = u"
  have "AList.delete ''solution_hash'' art = unsigned" by (simp add: art un AList.delete_eq)
  moreover have "map_of unsigned ''solution_hash'' = None" by (simp add: un)
  ultimately have sh: "jget art ''solution_hash'' = JStr (plan_hash lib (JObj (AList.delete ''solution_hash'' art)))"
    by (simp add: jget_def art map_add_def)
  have ver: "jget art ''dispatchable'' = JBool True \<and> jget art ''unresolved'' = JList []" if "verified_by w conf h"
  proof -
    have "u = []" using u(1) that by (simp add: unresolved_of_def verified_by_def)
    then show ?thesis using u(2) that by (simp add: jget_def art un)
  qed
  show ?thesis by (rule that[OF _ _ sh _ _ _ ver]) (simp_all add: jget_def art un)
qed

text \<open>C33: what the solver returns is accepted as an intact solution for exactly the commit of its graph, and
  it is accepted for dispatch exactly when moreover the closure is complete and the independent
  resolver is available and reported the hash of the very same closure.\<close>

theorem plan_dispatch_exact:
  assumes "conformance_parse lib cs a = Ok conf" and "solve_graph lib cs g a = Ok art"
  shows "(validate_solution_integrity lib art commit = Ok () \<longleftrightarrow> commit = cg_plan_commit g)
    \<and> (validate_for_dispatch lib art commit = Ok () \<longleftrightarrow>
         commit = cg_plan_commit g \<and> jget art ''complete'' = JBool True \<and> cf_available conf
         \<and> jget art ''closure_hash'' = optional_str (cf_closure_hash conf))"
proof -
  obtain ss fs where "artifact lib cs g (best_of ss) fs conf = Ok art"
    using assms by (auto elim: solve_graph_OkD)
  then show ?thesis
  proof (rule artifact_status_fields)
    fix h
    assume f: "jget art ''schema'' = JStr SOLUTION_SCHEMA" "jget art ''plan_commit'' = JStr (cg_plan_commit g)"
      "jget art ''solution_hash'' = JStr (plan_hash lib (JObj (AList.delete ''solution_hash'' art)))"
      "jget art ''complete'' = JBool (best_of ss \<noteq> None)" "jget art ''closure_hash'' = JStr h"
      "jget art ''conformance_verified'' = JBool (verified_by (best_of ss) conf h)"
      "verified_by (best_of ss) conf h \<Longrightarrow> jget art ''dispatchable'' = JBool True \<and> jget art ''unresolved'' = JList []"
    have i: "validate_solution_integrity lib art commit = Ok () \<longleftrightarrow> commit = cg_plan_commit g"
      by (auto simp: validate_solution_integrity_def f(1-3))
    have h: "jget art ''closure_hash'' = optional_str (cf_closure_hash conf) \<longleftrightarrow> cf_closure_hash conf = Some h"
      by (auto simp: f(5) optional_str_def split: option.splits)
    show ?thesis
      using f(7) by (auto simp: i h f(4,6) validate_for_dispatch_def verified_by_def simp del: best_of_None)
  qed
qed

theorem plan_dispatch_exact_witness:
  "validate_for_dispatch sample_host sample_art ''c1'' = Ok () \<and> validate_for_dispatch sample_host sample_art ''c2'' \<noteq> Ok ()"
proof -
  have "conformance_parse sample_host sample_repr (Conf_result sample_conf) = Ok sample_conf" by (simp add: conformance_parse_def)
  note d = plan_dispatch_exact[OF this sample_art_facts(1)]
  have "cg_plan_commit sample_graph = ''c1''" by code_simp
  moreover have "cf_available sample_conf" "optional_str (cf_closure_hash sample_conf) = JStr ''sha256:h''"
    by (simp_all add: sample_conf_def optional_str_def)
  ultimately show ?thesis using sample_art_facts(2,4) d[of "''c1''"] d[of "''c2''"] by simp
qed

section \<open>The order of the providers\<close>

lemma parse_providers_perm:
  assumes "parse_providers lib cs (JList xs) = Ok ps" and "mset ys = mset xs"
  shows "parse_providers lib cs (JList ys) = Ok ps"
proof -
  let ?f = "\<lambda>x. projr (provider_from_mapping lib cs x)"
  have ok: "\<forall>x\<in>set xs. \<exists>p. provider_from_mapping lib cs x = Inr p" and ps: "ps = sort_key pv_id (map ?f xs)"
    and d: "distinct (map pv_id ps)"
    using assms(1) by (auto simp: parse_providers_def map_result_Ok_iff split: if_splits)
  have "inj_on pv_id (set (map ?f xs))" using d by (simp add: ps distinct_map)
  moreover have m: "mset (map ?f ys) = mset (map ?f xs)" using assms(2) by (metis mset_map)
  ultimately have "sort_key pv_id (map ?f ys) = ps"
    unfolding ps by (metis sort_key_mset_cong mset_eq_setD)
  moreover have "map_result (provider_from_mapping lib cs) ys = Ok (map ?f ys)"
    using ok mset_eq_setD[OF assms(2)] by (simp add: map_result_Ok_iff)
  ultimately show ?thesis using d by (simp add: parse_providers_def)
qed

lemma jget_providers_other:
  "k \<noteq> ''providers'' \<Longrightarrow> jget (AList.update ''providers'' v d) k = jget d k"
  "k \<noteq> ''providers'' \<Longrightarrow> jget_or (AList.update ''providers'' v d) k w = jget_or d k w"
  "jget_or (AList.update ''providers'' v d) ''providers'' w = v"
  by (simp_all add: jget_def jget_or_def)

text \<open>The answer of the solver does not depend on the order in which the providers are listed in
  the graph.\<close>

lemma plan_solution_order_independent:
  assumes "solve lib cs data expected a = Ok art" and "map_of data ''providers'' = Some (JList xs)" and "mset ys = mset xs"
  shows "solve lib cs (AList.update ''providers'' (JList ys) data) expected a = Ok art"
proof -
  from assms(1) obtain g where g: "graph_from_mapping lib cs data expected = Ok g" "solve_graph lib cs g a = Ok art"
    by (auto simp: solve_def)
  let ?d = "AList.update ''providers'' (JList ys) data"
  have "profile_minimum ?d = profile_minimum data" "jget ?d ''target'' = jget data ''target''"
    by (simp_all add: fun_eq_iff profile_minimum_def jget_providers_other)
  then have t: "parse_target lib cs ?d = parse_target lib cs data"
    unfolding parse_target_def by metis
  have "jget_or data ''providers'' (JList []) = JList xs" using assms(2) by (simp add: jget_or_def)
  with g(1) have "graph_from_mapping lib cs ?d expected = Ok g"
    by (auto simp: graph_from_mapping_def Let_def jget_providers_other t split: if_splits
        dest: parse_providers_perm[OF _ assms(3)])
  with g(2) show ?thesis by (simp add: solve_def)
qed

section \<open>Execution graphs\<close>

lemma jstr_items_Ok: "jstr_items xs msg = Ok rs \<longleftrightarrow> xs = map JStr rs"
  by (induction xs arbitrary: rs) (auto split: json.splits)

lemma adapt_OkD:
  assumes "adapt lib cs execution commit = Ok data"
  obtains target required declared where "jget execution ''target'' = JObj target" "required \<noteq> []" "commit \<noteq> []"
    "jget target ''required_capabilities'' = jstrs required"
    "data = adapted_graph lib cs execution target required declared commit"
proof -
  from assms obtain target x xs required css where
    "jget execution ''target'' = JObj target" "jget target ''required_capabilities'' = JList (x # xs)"
    "jstr_items (x # xs) ''target capability identities must be strings'' = Ok required" "commit \<noteq> []"
    "data = adapted_graph lib cs execution target required (required @ concat css) commit"
    by (auto simp: adapt_def simp del: jstr_items.simps split: if_splits json.splits list.splits)
  then show ?thesis
    by (intro that[of target required "required @ concat css"]) (auto simp: jstr_items_Ok jstrs_def simp del: jstr_items.simps)
qed

lemma parse_requirements_strs: "parse_requirements (map JStr rs) = Ok (map Req_capability rs)"
  by (induction rs) auto

definition adapted_gap :: "pylib \<Rightarrow> (json \<Rightarrow> string) \<Rightarrow> jobj \<Rightarrow> string \<Rightarrow> jobj" where
  "adapted_gap lib cs execution c =
     [(''code'', JStr ''MISSING_PROVIDER_DECLARATION''), (''capability'', JStr c),
      (''required_by'', JStr (py_str lib cs (jget_or execution ''plan_id'' (JStr ''plan''))))]"

lemma adapted_target:
  assumes "map_of STATE_RANK (py_str lib cs (jget_or target ''minimum_state'' (JStr ''admitted''))) \<noteq> None"
  shows "\<exists>tg. parse_target lib cs (adapted_graph lib cs execution target required declared commit) = Ok tg
    \<and> tg_requires tg = Req_all (map Req_capability required)"
proof -
  let ?d = "adapted_graph lib cs execution target required declared commit"
  have "jget ?d ''target'' = JObj [(''id'', JStr (py_str lib cs (jget_or execution ''plan_id'' (JStr ''plan'')))),
      (''profile'', JStr (py_str lib cs (jget_or target ''profile'' (JStr ''implementation'')))),
      (''minimum_state'', JStr (py_str lib cs (jget_or target ''minimum_state'' (JStr ''admitted'')))),
      (''required_capabilities'', jstrs required)]"
    by (simp add: adapted_graph_def Let_def jget_def)
  moreover have "profile_minimum ?d p = Ok (JStr ''admitted'')" for p
    by (simp add: profile_minimum_def jget_or_def adapted_graph_def Let_def)
  ultimately show ?thesis
    using assms by (auto simp: parse_target_def Let_def jget_or_def jstrs_def parse_requirements_strs)
qed

lemma adapted_graph_parses:
  assumes "map_of STATE_RANK (py_str lib cs (jget_or target ''minimum_state'' (JStr ''admitted''))) \<noteq> None" and "commit \<noteq> []"
  shows "\<exists>g. graph_from_mapping lib cs (adapted_graph lib cs execution target required declared commit) (Some commit) = Ok g
    \<and> cg_providers g = [] \<and> tg_requires (cg_target g) = Req_all (map Req_capability required) \<and> cg_plan_commit g = commit
    \<and> cg_catalog_gaps g = map (adapted_gap lib cs execution) (sorted_set required)"
proof -
  let ?d = "adapted_graph lib cs execution target required declared commit"
  obtain tg where tg: "parse_target lib cs ?d = Ok tg" "tg_requires tg = Req_all (map Req_capability required)"
    using adapted_target[OF assms(1)] by blast
  have f: "jget ?d ''schema'' = JStr GRAPH_SCHEMA" "jget_or ?d ''plan_commit'' (JStr []) = JStr commit"
    "jget_or ?d ''capabilities'' (JList []) = JList (map (\<lambda>c. JObj [(''id'', JStr c)]) (sorted_set declared))"
    "jget_or ?d ''providers'' (JList []) = JList []" "jget_or ?d ''observations'' (JList []) = JList []"
    "jget_or ?d ''catalog_gaps'' (JList []) = JList (map (JObj \<circ> adapted_gap lib cs execution) (sorted_set required))"
    by (simp_all add: adapted_graph_def Let_def jget_def jget_or_def adapted_gap_def)
  have c: "map_result (capability_id lib cs) (map (\<lambda>c. JObj [(''id'', JStr c)]) xs) = Ok (map id xs)" for xs
    by (rule map_result_map) (simp add: capability_id_def jitem_def)
  have p: "map_result py_dict (map (JObj \<circ> adapted_gap lib cs execution) xs) = Ok (map (adapted_gap lib cs execution) xs)" for xs
    by (rule map_result_map) (simp add: py_dict_def)
  show ?thesis
    using assms(2) tg by (simp add: graph_from_mapping_def Let_def f c p parse_providers_def parse_observations_def)
qed

lemma solve_without_providers:
  assumes "cg_providers g = []" and "tg_requires (cg_target g) = Req_all (map Req_capability required)" and "required \<noteq> []"
    and "map_of STATE_RANK (tg_minimum_state (cg_target g)) \<noteq> None" and "conformance_parse lib cs a = Ok conf"
    and "cg_catalog_gaps g = map (adapted_gap lib cs execution) gaps" and "gaps \<noteq> []"
  shows "\<exists>art us. solve_graph lib cs g a = Ok art \<and> jget art ''complete'' = JBool False \<and> jget art ''unresolved'' = JList us
    \<and> length us = length gaps"
proof -
  have "\<not> is_closure g S" for S
    using assms(1-3) by (auto simp: is_closure_def closed_set_def neq_Nil_conv)
  then obtain fs where s: "search g = Some ([], fs)" using search_exact[of g] assms(1) by auto
  have "\<exists>y. gap_entry lib cs (adapted_gap lib cs execution c) = Inr y" for c
    by (simp add: gap_entry_def jitem_def adapted_gap_def)
  then obtain es where es: "map_result (gap_entry lib cs) (cg_catalog_gaps g) = Ok es" "length es = length gaps"
    using map_result_defined[of "cg_catalog_gaps g" "gap_entry lib cs"] assms(6) by auto
  then have u: "unresolved_of lib cs g None fs = Ok (sort_key (canonical lib) es)"
    using assms(6,7) by (simp add: unresolved_of_def)
  have "phase_order (selected_of None) = Some []" by (simp add: phase_order_def selected_of_def phase_loop.simps)
  then obtain art where art: "artifact lib cs g None fs conf = Ok art"
    using assms(4) u by (auto simp: artifact_def Let_def)
  moreover have "jget art ''unresolved'' = JList (sort_key (canonical lib) es)"
    using art by (rule artifact_shape) (use u in \<open>simp add: jget_def\<close>)
  moreover have "solve_graph lib cs g a = Ok art"
    using assms(5) s art by (simp add: solve_graph_def best_of_def)
  ultimately show ?thesis using artifact_closure_fields(1)[OF art] es(2) by auto
qed

text \<open>An execution graph is intent, not evidence. The catalog that the adapter makes of it parses and
  is solved, the solution is incomplete with one unresolved entry for every required capability, and it
  is not accepted for dispatch at any commit, whatever the independent resolver says.\<close>

lemma execution_graph_never_dispatches:
  assumes "adapt lib cs execution commit = Ok data" and "jget execution ''target'' = JObj target"
    and "map_of STATE_RANK (py_str lib cs (jget_or target ''minimum_state'' (JStr ''admitted''))) \<noteq> None"
    and "conformance_parse lib cs a = Ok conf"
  shows "\<exists>art us required. solve lib cs data (Some commit) a = Ok art \<and> jget art ''complete'' = JBool False
    \<and> jget target ''required_capabilities'' = jstrs required \<and> jget art ''unresolved'' = JList us \<and> length us = card (set required)
    \<and> (\<forall>current. validate_for_dispatch lib art current \<noteq> Ok ())"
proof -
  obtain required declared where r: "required \<noteq> []" "commit \<noteq> []" "jget target ''required_capabilities'' = jstrs required"
    "data = adapted_graph lib cs execution target required declared commit"
    using assms(1,2) by (auto elim: adapt_OkD)
  obtain g where g: "graph_from_mapping lib cs data (Some commit) = Ok g" "cg_providers g = []"
    "tg_requires (cg_target g) = Req_all (map Req_capability required)"
    "cg_catalog_gaps g = map (adapted_gap lib cs execution) (sorted_set required)"
    using adapted_graph_parses[OF assms(3) r(2)] unfolding r(4) by blast
  have "sorted_set required \<noteq> []" using r(1) by simp
  then obtain art us where art: "solve_graph lib cs g a = Ok art" "jget art ''complete'' = JBool False"
    "jget art ''unresolved'' = JList us" "length us = length (sorted_set required)"
    using solve_without_providers[OF g(2,3) r(1) graph_from_mapping_OkD(2)[OF g(1)] assms(4) g(4)] by blast
  have "length us = card (set required)" using art(4) by (metis distinct_card distinct_sorted_set set_sorted_set)
  moreover have "validate_for_dispatch lib art current \<noteq> Ok ()" for current
    using art(2) by (simp add: validate_for_dispatch_def)
  moreover have "solve lib cs data (Some commit) a = Ok art" using g(1) art(1) by (simp add: solve_def)
  ultimately show ?thesis using art(2,3) r(3) by blast
qed

definition sample_execution :: jobj where
  "sample_execution =
     [(''schema'', JStr ''tgw-plan-execution/v2''), (''target'', JObj [(''required_capabilities'', JList [JStr ''service''])])]"

end
