(* ===== verification/Photo_Order.thy ===== *)
theory Photo_Order
  imports Py_Convert
begin

text \<open>
  Photo ordering, \<^verbatim>\<open>assets.py\<close>: the photos of an item's directory in natural order, merged with the
  order the operator recorded in the item. The directory is the list of its entries in the order the host lists
  them, each with whether it is a file. The lemmas show that the result interleaves the operator's
  order with the remaining photos, loses none, and keeps the operator's primary photo first.
\<close>

section \<open>Natural order\<close>

text \<open>A part of a natural-sort key is a number or a text. In every key texts and numbers alternate, beginning with
  a text, so that Python never compares a number with a text; the order here puts numbers first.\<close>

datatype nat_part = Num nat | Text string

instantiation nat_part :: linorder
begin

fun less_eq_nat_part :: "nat_part \<Rightarrow> nat_part \<Rightarrow> bool" where
  "less_eq_nat_part (Num m) (Num n) = (m \<le> n)"
| "less_eq_nat_part (Num m) (Text t) = True"
| "less_eq_nat_part (Text s) (Num n) = False"
| "less_eq_nat_part (Text s) (Text t) = (s \<le> t)"

definition less_nat_part :: "nat_part \<Rightarrow> nat_part \<Rightarrow> bool" where
  "less_nat_part x y = (x \<le> y \<and> \<not> y \<le> x)"

instance
proof
  fix x y z :: nat_part
  show "x < y \<longleftrightarrow> x \<le> y \<and> \<not> y \<le> x" by (simp add: less_nat_part_def)
  show "x \<le> x" by (cases x) simp_all
  show "x \<le> y \<Longrightarrow> y \<le> z \<Longrightarrow> x \<le> z" by (cases x; cases y; cases z) simp_all
  show "x \<le> y \<Longrightarrow> y \<le> x \<Longrightarrow> x = y" by (cases x; cases y) simp_all
  show "x \<le> y \<or> y \<le> x" by (cases x; cases y) auto
qed

end

type_synonym dir_entries = "(string \<times> bool) list"

definition PHOTO_EXTS :: "string list" where
  "PHOTO_EXTS = [''.jpg'', ''.jpeg'', ''.png'', ''.gif'', ''.webp'', ''.tif'', ''.tiff'']"

text \<open>\<^verbatim>\<open>re.split(r"(\d+)", base)\<close> with the numbers read and the texts in lower case.\<close>

function nat_parts :: "string \<Rightarrow> nat_part list" where
  "nat_parts s =
     (let r = dropWhile (\<lambda>c. \<not> is_digit c) s
      in Text (py_lower (takeWhile (\<lambda>c. \<not> is_digit c) s))
         # (if r = [] then [] else Num (decimal_nat (takeWhile is_digit r)) # nat_parts (dropWhile is_digit r)))"
  by pat_completeness auto
termination
proof (relation "measure length")
  fix s r :: string
  assume r: "r = dropWhile (\<lambda>c. \<not> is_digit c) s" and ne: "r \<noteq> []"
  have "is_digit (hd r)" using r ne hd_dropWhile by blast
  then have "length (dropWhile is_digit r) < length r"
    using ne by (cases r) (simp_all add: le_imp_less_Suc length_dropWhile_le)
  also have "length r \<le> length s" by (simp add: r length_dropWhile_le)
  finally show "(dropWhile is_digit r, s) \<in> measure length" by simp
qed simp

declare nat_parts.simps [simp del]

text \<open>\<^verbatim>\<open>name.replace(old, new)\<close>, scanning from the left.\<close>

fun replace_sub :: "nat \<Rightarrow> string \<Rightarrow> string \<Rightarrow> string \<Rightarrow> string" where
  "replace_sub k old new [] = []"
| "replace_sub (Suc k) old new (c # s) = replace_sub k old new s"
| "replace_sub 0 old new (c # s) =
     (if starts_with (c # s) old then new @ replace_sub (length old - 1) old new s else c # replace_sub 0 old new s)"

definition nat_key :: "string \<Rightarrow> nat_part list \<times> nat" where
  "nat_key name =
     (let is_alt = contains_sub ''-alt.'' name;
          base = (if is_alt then replace_sub 0 ''-alt.'' ''.'' name else name)
      in (nat_parts base, if is_alt then 1 else 0))"

definition photos_nat :: "dir_entries \<Rightarrow> string list" where
  "photos_nat entries =
     sort_key nat_key (map fst (filter (\<lambda>(n, is_file). is_file \<and> py_lower (path_suffix n) \<in> set PHOTO_EXTS) entries))"

section \<open>The operator's order\<close>

text \<open>\<^verbatim>\<open>[n for n in photo_order if n in img_set]\<close>: a value that cannot be hashed raises, and only a
  string can be the name of a photo.\<close>

definition listed_entry :: "string list \<Rightarrow> json \<Rightarrow> string list result" where
  "listed_entry names n =
     (case n of
        JStr s \<Rightarrow> Ok (if s \<in> set names then [s] else [])
      | JList _ \<Rightarrow> Err (TypeError (''unhashable type: '' @ [CHR 0x27] @ ''list'' @ [CHR 0x27]))
      | JObj _ \<Rightarrow> Err (TypeError (''unhashable type: '' @ [CHR 0x27] @ ''dict'' @ [CHR 0x27]))
      | _ \<Rightarrow> Ok [])"

definition listed :: "string list \<Rightarrow> json \<Rightarrow> string list result" where
  "listed names photo_order =
     bind_result (py_iter photo_order) (\<lambda>xs. bind_result (map_result (listed_entry names) xs) (\<lambda>yss. Ok (concat yss)))"

definition nat_rank :: "string list \<Rightarrow> string \<Rightarrow> nat" where
  "nat_rank names n = (case map_of (rev (zip names [0..<length names])) n of None \<Rightarrow> 0 | Some i \<Rightarrow> i)"

text \<open>The inner loop: the first index from one on whose photo comes later in the natural order.\<close>

definition insert_at :: "string list \<Rightarrow> string list \<Rightarrow> string \<Rightarrow> nat" where
  "insert_at names result extra =
     (case find (\<lambda>j. nat_rank names extra < nat_rank names (result ! j)) [1..<length result] of
        None \<Rightarrow> length result
      | Some j \<Rightarrow> j)"

definition insert_extra :: "string list \<Rightarrow> string list \<Rightarrow> string \<Rightarrow> string list" where
  "insert_extra names result extra =
     take (insert_at names result extra) result @ extra # drop (insert_at names result extra) result"

definition ordered_names :: "string list \<Rightarrow> json \<Rightarrow> string list result" where
  "ordered_names names photo_order =
     (if \<not> truthy photo_order then Ok names
      else bind_result (listed names photo_order) (\<lambda>ordered.
        Ok (foldl (insert_extra names) ordered (filter (\<lambda>n. n \<notin> set ordered) names))))"

definition ordered_photos :: "jobj \<Rightarrow> path \<Rightarrow> dir_entries \<Rightarrow> path list result" where
  "ordered_photos item sku_dir entries =
     bind_result (ordered_names (photos_nat entries) (jget item ''photo_order''))
       (\<lambda>ns. Ok (map (\<lambda>n. path_join sku_dir (py_path n)) ns))"

text \<open>The operator's primary photo is a file of the directory; \<^verbatim>\<open>Path\<close> takes only a text.\<close>

definition primary_photo :: "jobj \<Rightarrow> path \<Rightarrow> dir_entries \<Rightarrow> path option result" where
  "primary_photo item sku_dir entries =
     (let fallback = bind_result (ordered_photos item sku_dir entries)
            (\<lambda>ps. Ok (case ps of [] \<Rightarrow> None | p # _ \<Rightarrow> Some p));
          image = jget item ''image''
      in if \<not> truthy image then fallback
         else (case image of
                 JStr s \<Rightarrow>
                   (let n = path_name (py_path s)
                    in if (n, True) \<in> set entries then Ok (Some (path_join sku_dir (py_path n))) else fallback)
               | _ \<Rightarrow> Err (TypeError ''argument should be a str or an os.PathLike object'')))"

section \<open>Every photo once, the primary first\<close>

lemma set_photos_nat:
  "n \<in> set (photos_nat entries) \<longleftrightarrow> (n, True) \<in> set entries \<and> py_lower (path_suffix n) \<in> set PHOTO_EXTS"
  by (auto simp: photos_nat_def image_iff)

lemma distinct_photos_nat: "distinct (map fst entries) \<Longrightarrow> distinct (photos_nat entries)"
  by (simp add: photos_nat_def distinct_map_filter)

lemma listed_subset: "listed names v = Ok ordered \<Longrightarrow> set ordered \<subseteq> set names"
proof -
  have "set ys \<subseteq> set names" if "listed_entry names x = Ok ys" for x ys
    using that by (cases x) (auto simp: listed_entry_def split: if_splits)
  then show "listed names v = Ok ordered \<Longrightarrow> set ordered \<subseteq> set names"
    by (fastforce simp: listed_def map_result_Ok_iff)
qed

lemma nat_rank_nth:
  assumes "distinct names" and "i < length names"
  shows "nat_rank names (names ! i) = i"
proof -
  have "map_of (rev (zip names [0..<length names])) (names ! i) = Some i"
    using assms by (subst map_of_eq_Some_iff) (auto simp: rev_map[symmetric] in_set_zip intro!: exI[of _ i])
  then show ?thesis by (simp add: nat_rank_def)
qed

lemma insert_at_bound:
  "insert_at names result extra \<le> length result" "result \<noteq> [] \<Longrightarrow> 0 < insert_at names result extra"
  by (auto simp: insert_at_def find_Some_iff split: option.splits dest!: find_SomeD)

lemma set_insert_extra [simp]: "set (insert_extra names result extra) = insert extra (set result)"
proof -
  have "set (take i result) \<union> set (drop i result) = set result" for i
    by (metis append_take_drop_id set_append)
  then show ?thesis by (auto simp: insert_extra_def)
qed

lemma hd_insert_extra: "result \<noteq> [] \<Longrightarrow> hd (insert_extra names result extra) = hd result"
  using insert_at_bound(2)[of result names extra] by (cases result) (auto simp: insert_extra_def take_Cons')

lemma insert_at_skips:
  assumes "j < insert_at names result extra" and "0 < j"
  shows "\<not> nat_rank names extra < nat_rank names (result ! j)"
proof (cases "find (\<lambda>j. nat_rank names extra < nat_rank names (result ! j)) [1..<length result]")
  case None
  then have "insert_at names result extra = length result" by (simp add: insert_at_def)
  then show ?thesis using None assms by (auto simp: find_None_iff)
next
  case (Some k)
  then have k: "k = insert_at names result extra" by (simp add: insert_at_def)
  from Some obtain i where i: "i < length [1..<length result]" "k = [1..<length result] ! i"
    "\<forall>l<i. \<not> nat_rank names extra < nat_rank names (result ! ([1..<length result] ! l))"
    by (auto simp: find_Some_iff)
  have "j - 1 < i" using assms i(1,2) k by auto
  then show ?thesis using i(3) assms i(1) by (auto dest: spec[of _ "j - 1"])
qed

text \<open>The extras that are already merged never come after a photo, the primary apart, that follows them in the
  natural order. So the next extra is inserted behind all of them.\<close>

definition merged :: "string list \<Rightarrow> string list \<Rightarrow> string list \<Rightarrow> string list \<Rightarrow> bool" where
  "merged names ordered extras result \<longleftrightarrow>
     filter (\<lambda>n. n \<in> set ordered) result = ordered \<and> filter (\<lambda>n. n \<notin> set ordered) result = extras
     \<and> (\<forall>k<length result. result ! k \<notin> set ordered \<longrightarrow>
          (\<forall>j<k. 0 < j \<longrightarrow> nat_rank names (result ! j) \<le> nat_rank names (result ! k)))"

lemma insert_at_found:
  assumes "insert_at names result extra < length result"
  shows "nat_rank names extra < nat_rank names (result ! insert_at names result extra)"
  using assms by (auto simp: insert_at_def split: option.splits dest!: find_SomeD)

lemma merged_insert:
  assumes "merged names ordered extras result" and "extra \<notin> set ordered"
    and "\<forall>d\<in>set extras. nat_rank names d < nat_rank names extra"
  shows "merged names ordered (extras @ [extra]) (insert_extra names result extra)"
proof -
  let ?i = "insert_at names result extra"
  have split: "result = take ?i result @ drop ?i result" by simp
  have tail: "drop ?i result ! k \<in> set ordered" if "k < length (drop ?i result)" for k
  proof (rule ccontr)
    let ?d = "result ! (?i + k)"
    assume "drop ?i result ! k \<notin> set ordered"
    then have d: "?d \<notin> set ordered" using that by simp
    moreover have "?d \<in> set result" using that by (intro nth_mem) simp
    moreover have "set extras = {n \<in> set result. n \<notin> set ordered}"
      using assms(1) unfolding merged_def by (metis set_filter)
    ultimately have "?d \<in> set extras" by simp
    then have low: "nat_rank names ?d < nat_rank names extra" using assms(3) by blast
    have found: "nat_rank names extra < nat_rank names (result ! ?i)" using that by (intro insert_at_found) simp
    have "0 < ?i" using that by (intro insert_at_bound) auto
    then have "k \<noteq> 0 \<Longrightarrow> nat_rank names (result ! ?i) \<le> nat_rank names ?d"
      using assms(1) d that unfolding merged_def by simp
    then show False using low found by (cases "k = 0") auto
  qed
  then have none: "\<forall>x\<in>set (drop ?i result). x \<in> set ordered" by (auto simp: in_set_conv_nth)
  have "filter (\<lambda>n. n \<in> set ordered) result = filter (\<lambda>n. n \<in> set ordered) (insert_extra names result extra)"
    by (subst split) (simp only: insert_extra_def filter_append filter.simps assms(2) if_False)
  moreover have "filter (\<lambda>n. n \<notin> set ordered) (insert_extra names result extra) = filter (\<lambda>n. n \<notin> set ordered) result @ [extra]"
    using none assms(2) by (subst split) (simp add: insert_extra_def filter_empty_conv del: append_take_drop_id)
  moreover have "nat_rank names (insert_extra names result extra ! j) \<le> nat_rank names (insert_extra names result extra ! k)"
    if "k < Suc (length result)" "insert_extra names result extra ! k \<notin> set ordered" "j < k" "0 < j" for j k
  proof -
    have le: "?i \<le> length result" by (rule insert_at_bound)
    consider "k < ?i" | "k = ?i" | "?i < k" by linarith
    then show ?thesis
    proof cases
      case 1
      then show ?thesis using assms(1) that le by (simp add: merged_def insert_extra_def nth_append)
    next
      case 2
      then show ?thesis using insert_at_skips[of j names result extra] that le
        by (simp add: insert_extra_def nth_append)
    next
      case 3
      then have "insert_extra names result extra ! k = drop ?i result ! (k - Suc ?i)"
        using le that by (simp add: insert_extra_def nth_append)
      then show ?thesis using tail[of "k - Suc ?i"] that 3 by simp
    qed
  qed
  ultimately show ?thesis using assms(1) by (simp add: merged_def insert_extra_def)
qed

lemma merged_fold:
  assumes "merged names ordered extras result" and "\<forall>e\<in>set rest. e \<notin> set ordered"
    and "sorted_wrt (\<lambda>d e. nat_rank names d < nat_rank names e) (extras @ rest)"
  shows "merged names ordered (extras @ rest) (foldl (insert_extra names) result rest)"
  using assms
proof (induction rest arbitrary: extras result)
  case (Cons e rest)
  have "merged names ordered (extras @ [e]) (insert_extra names result e)"
    using Cons.prems by (intro merged_insert) (auto simp: sorted_wrt_append)
  from Cons.IH[OF this] Cons.prems show ?case by simp
qed simp

lemma ranks_ascend: "distinct names \<Longrightarrow> sorted_wrt (\<lambda>d e. nat_rank names d < nat_rank names e) (filter P names)"
  by (intro sorted_wrt_filter) (simp add: sorted_wrt_iff_nth_less nat_rank_nth)

lemma hd_foldl_insert: "result \<noteq> [] \<Longrightarrow> hd (foldl (insert_extra names) result rest) = hd result"
proof (induction rest arbitrary: result)
  case (Cons e rest)
  have "insert_extra names result e \<noteq> []" by (simp add: insert_extra_def)
  from Cons.IH[OF this] show ?case using Cons.prems by (simp add: hd_insert_extra)
qed simp

lemma ordered_names_merge:
  assumes "distinct names" and "truthy v" and "listed names v = Ok ordered"
  obtains ps where "ordered_names names v = Ok ps" "filter (\<lambda>n. n \<in> set ordered) ps = ordered"
    "filter (\<lambda>n. n \<notin> set ordered) ps = filter (\<lambda>n. n \<notin> set ordered) names" "ordered \<noteq> [] \<Longrightarrow> hd ps = hd ordered"
proof -
  let ?ps = "foldl (insert_extra names) ordered (filter (\<lambda>n. n \<notin> set ordered) names)"
  have "merged names ordered [] ordered" by (simp add: merged_def filter_empty_conv)
  then have "merged names ordered ([] @ filter (\<lambda>n. n \<notin> set ordered) names) ?ps"
    using ranks_ascend[OF assms(1)] by (intro merged_fold) auto
  moreover have "ordered_names names v = Ok ?ps" using assms(2,3) by (simp add: ordered_names_def)
  ultimately show thesis using that[of ?ps] hd_foldl_insert by (simp add: merged_def)
qed

text \<open>The photos of an item are exactly the photo files of its directory: the ones the operator listed
  stand in the operator's order, the first of them first of all, the others keep their natural order among themselves, and no photo is
  lost or, when the operator listed none twice, repeated.\<close>

lemma photos_in_operator_order:
  assumes "distinct (map fst entries)" and "truthy (jget item ''photo_order'')"
    and "listed (photos_nat entries) (jget item ''photo_order'') = Ok ordered"
  shows "\<exists>ns. ordered_photos item sku_dir entries = Ok (map (\<lambda>n. path_join sku_dir (py_path n)) ns)
    \<and> filter (\<lambda>n. n \<in> set ordered) ns = ordered
    \<and> filter (\<lambda>n. n \<notin> set ordered) ns = filter (\<lambda>n. n \<notin> set ordered) (photos_nat entries)
    \<and> (ordered \<noteq> [] \<longrightarrow> hd ns = hd ordered) \<and> set ns = set (photos_nat entries) \<and> (distinct ordered \<longrightarrow> distinct ns)"
proof -
  have d: "distinct (photos_nat entries)" by (rule distinct_photos_nat[OF assms(1)])
  obtain ns where ns: "ordered_names (photos_nat entries) (jget item ''photo_order'') = Ok ns"
    and o: "filter (\<lambda>n. n \<in> set ordered) ns = ordered"
    and x: "filter (\<lambda>n. n \<notin> set ordered) ns = filter (\<lambda>n. n \<notin> set ordered) (photos_nat entries)"
    and h: "ordered \<noteq> [] \<Longrightarrow> hd ns = hd ordered"
    using ordered_names_merge[OF d assms(2,3)] by metis
  have parts: "mset ns = mset ordered + mset (filter (\<lambda>n. n \<notin> set ordered) (photos_nat entries))"
    using o x multiset_partition[of "mset ns" "\<lambda>n. n \<in> set ordered"] by (metis mset_filter)
  then have "set ns = set (photos_nat entries)"
    using listed_subset[OF assms(3)] by (auto dest!: arg_cong[where f = set_mset])
  moreover have "distinct ns" if "distinct ordered"
  proof -
    have "mset ns = mset (ordered @ filter (\<lambda>n. n \<notin> set ordered) (photos_nat entries))" using parts by simp
    moreover have "distinct (ordered @ filter (\<lambda>n. n \<notin> set ordered) (photos_nat entries))" using that d by auto
    ultimately show ?thesis by (metis mset_eq_imp_distinct_iff)
  qed
  ultimately show ?thesis using ns o x h by (intro exI[of _ ns]) (simp add: ordered_photos_def)
qed

definition sample_entries :: dir_entries where
  "sample_entries = [(''b10.jpg'', True), (''item.json'', True), (''a1.JPG'', True), (''b9.png'', True), (''thumbs'', False)]"

lemma sample_photos: "photos_nat sample_entries = [''a1.JPG'', ''b9.png'', ''b10.jpg'']"
  by code_simp

end
