(* ===== verification/Workflow_Registry.thy ===== *)
theory Workflow_Registry
  imports Kernel_Scheduler Py_Convert
begin

text \<open>
  The registries of the listing domain: the goal profiles of \<^verbatim>\<open>workflow/profiles.py\<close>, the treatment
  contracts of \<^verbatim>\<open>workflow/treatments.py\<close> and the condition aliases of \<^verbatim>\<open>workflow/condition_normalization.py\<close>.
  The lemmas show that the registered treatments have distinct names and disjoint ownership, so that no evaluation
  over them reports a conflict, and that normalising a condition gives one the snapshot accepts.
\<close>

section \<open>Goal profiles\<close>

record profile_meta =
  description :: string
  evidence_source_class :: string
  pm_accepted_results :: "(string \<times> string) list"

definition TGW_EBAY_IDENTIFIED :: goal_profile where
  "TGW_EBAY_IDENTIFIED = \<lparr>goal_identity = ''tgw.ebay_identified'', goal_version = ''1'',
     required = [''item_has_photos'', ''ai_identified'']\<rparr>"

definition TGW_EBAY_DRAFTED :: goal_profile where
  "TGW_EBAY_DRAFTED = \<lparr>goal_identity = ''tgw.ebay_drafted'', goal_version = ''1'',
     required = [''inventory_available'', ''item_has_photos'', ''ai_identified'', ''draft_generated'']\<rparr>"

definition TGW_EBAY_PRICED :: goal_profile where
  "TGW_EBAY_PRICED = \<lparr>goal_identity = ''tgw.ebay_priced'', goal_version = ''1'',
     required = [''inventory_available'', ''item_has_photos'', ''ai_identified'', ''draft_generated'', ''priced'']\<rparr>"

definition TGW_EBAY_STAGED :: goal_profile where
  "TGW_EBAY_STAGED = \<lparr>goal_identity = ''tgw.ebay_staged'', goal_version = ''1'',
     required = [''inventory_available'', ''item_has_photos'', ''ai_identified'', ''draft_generated'', ''priced'',
       ''photos_uploaded'', ''staged'', ''staged_content_current'']\<rparr>"

definition TGW_EBAY_LISTABLE :: goal_profile where
  "TGW_EBAY_LISTABLE = \<lparr>goal_identity = ''tgw.ebay_listable'', goal_version = ''1'',
     required = [''inventory_available'', ''item_has_photos'', ''ai_identified'', ''draft_generated'', ''priced'',
       ''photos_uploaded'', ''staged'', ''staged_content_current'', ''valid_condition'', ''valid_category'',
       ''title_ok'', ''listing_provider_consistent'', ''published'']\<rparr>"

definition TGW_EBAY_RECONCILED :: goal_profile where
  "TGW_EBAY_RECONCILED = \<lparr>goal_identity = ''tgw.ebay_reconciled'', goal_version = ''1'',
     required = [''provider_projection_current'']\<rparr>"

definition TGW_EBAY_WITHDRAWN :: goal_profile where
  "TGW_EBAY_WITHDRAWN = \<lparr>goal_identity = ''tgw.ebay_withdrawn'', goal_version = ''1'',
     required = [''listing_inactive'']\<rparr>"

definition TGW_EBAY_LEGACY_STAGE_ONBOARDED :: goal_profile where
  "TGW_EBAY_LEGACY_STAGE_ONBOARDED = \<lparr>goal_identity = ''tgw.ebay_legacy_stage_onboarded'', goal_version = ''1'',
     required = [''staged'', ''staged_content_current'']\<rparr>"

definition LEGACY_STAGE_ONBOARDING_PROFILES :: "goal_profile list" where
  "LEGACY_STAGE_ONBOARDING_PROFILES = [TGW_EBAY_LEGACY_STAGE_ONBOARDED]"

definition PROFILE :: "(string \<times> goal_profile) list" where
  "PROFILE = map (\<lambda>p. (goal_identity p, p))
     [TGW_EBAY_IDENTIFIED, TGW_EBAY_DRAFTED, TGW_EBAY_PRICED, TGW_EBAY_STAGED, TGW_EBAY_LISTABLE, TGW_EBAY_RECONCILED,
      TGW_EBAY_WITHDRAWN]"

definition PROFILE_META :: "(string \<times> profile_meta) list" where
  "PROFILE_META =
     [(''tgw.ebay_identified'', \<lparr>description = ''Item has photos and has been AI-identified.'',
         evidence_source_class = ''ai_identification'', pm_accepted_results = []\<rparr>),
      (''tgw.ebay_drafted'', \<lparr>description = ''Item has been identified and a draft listing has been generated.'',
         evidence_source_class = ''draft_generation'', pm_accepted_results = []\<rparr>),
      (''tgw.ebay_priced'', \<lparr>description = ''Item has been identified, drafted, and priced.'',
         evidence_source_class = ''pricing_engine'', pm_accepted_results = []\<rparr>),
      (''tgw.ebay_staged'', \<lparr>description = ''Item has been identified, drafted, priced, photos uploaded, and staged to eBay.'',
         evidence_source_class = ''ebay_staging'', pm_accepted_results = []\<rparr>),
      (''tgw.ebay_listable'', \<lparr>description = ''Item meets all eBay listing requirements including validation of condition, category, and title.'',
         evidence_source_class = ''ebay_listing_validation'',
         pm_accepted_results = [(''published'', ''TRUE''), (''published'', ''NOT_APPLICABLE'')]\<rparr>),
      (''tgw.ebay_reconciled'', \<lparr>description = ''Provider projection matches one exact successful source effect.'',
         evidence_source_class = ''provider_effect_receipt'', pm_accepted_results = []\<rparr>),
      (''tgw.ebay_withdrawn'', \<lparr>description = ''The exact active eBay listing has been withdrawn by operator command.'',
         evidence_source_class = ''provider_effect_receipt'', pm_accepted_results = []\<rparr>)]"

definition get_profile :: "string \<Rightarrow> goal_profile result" where
  "get_profile i = (case map_of PROFILE i of None \<Rightarrow> Err (KeyError i) | Some p \<Rightarrow> Ok p)"

definition get_meta :: "string \<Rightarrow> profile_meta result" where
  "get_meta i = (case map_of PROFILE_META i of None \<Rightarrow> Err (KeyError i) | Some m \<Rightarrow> Ok m)"

definition all_profiles :: "goal_profile list" where
  "all_profiles = map snd PROFILE"

definition tgw_profiles :: "goal_profile list" where
  "tgw_profiles = filter (\<lambda>p. starts_with (goal_identity p) ''tgw.'') (map snd PROFILE)"

section \<open>Treatment contracts\<close>

definition RECEIPT :: string where
  "RECEIPT = ''receipt/tgw-workflow/v1''"

abbreviation needs :: "string \<Rightarrow> requirement" where
  "needs c \<equiv> \<lparr>rq_condition_id = c, accepted_results = [TRUE]\<rparr>"

definition NORMALIZE_CONDITION :: treatment_contract where
  "NORMALIZE_CONDITION = \<lparr>tr_identity = ''normalize-condition'', tr_version = ''1'',
     requires = [\<lparr>rq_condition_id = ''valid_condition'', accepted_results = [FALSE]\<rparr>, needs ''condition_normalizable''],
     may_establish = [''valid_condition''], must_preserve = [''photos'', ''draft_listing'', ''provider_state''],
     ownership = [''item.condition''], tr_effect_class = LOCAL, receipt_schema_id = RECEIPT\<rparr>"

definition AI_IDENTIFY :: treatment_contract where
  "AI_IDENTIFY = \<lparr>tr_identity = ''ai-identify'', tr_version = ''1'', requires = [needs ''item_has_photos''],
     may_establish = [''ai_identified''], must_preserve = [''item_data''], ownership = [''item.identity''],
     tr_effect_class = LOCAL, receipt_schema_id = RECEIPT\<rparr>"

definition EBAY_DRAFT :: treatment_contract where
  "EBAY_DRAFT = \<lparr>tr_identity = ''ebay-draft'', tr_version = ''1'',
     requires = [needs ''inventory_available'', needs ''ai_identified''],
     may_establish = [''draft_generated''], must_preserve = [''item_data''], ownership = [''listing.draft''],
     tr_effect_class = LOCAL, receipt_schema_id = RECEIPT\<rparr>"

definition EBAY_PRICE :: treatment_contract where
  "EBAY_PRICE = \<lparr>tr_identity = ''ebay-price'', tr_version = ''1'',
     requires = [needs ''inventory_available'', needs ''draft_generated''],
     may_establish = [''priced''], must_preserve = [''item_data''], ownership = [''listing.price''],
     tr_effect_class = LOCAL, receipt_schema_id = RECEIPT\<rparr>"

definition EBAY_UPLOAD :: treatment_contract where
  "EBAY_UPLOAD = \<lparr>tr_identity = ''ebay-upload'', tr_version = ''1'',
     requires = [needs ''inventory_available'', needs ''item_has_photos'', needs ''ai_identified'', needs ''draft_generated'',
       needs ''priced'', needs ''operator_authorized_upload''],
     may_establish = [''photos_uploaded''], must_preserve = [''item_data''], ownership = [''listing.photos''],
     tr_effect_class = EXTERNAL, receipt_schema_id = RECEIPT\<rparr>"

definition EBAY_STAGE :: treatment_contract where
  "EBAY_STAGE = \<lparr>tr_identity = ''ebay-stage'', tr_version = ''1'',
     requires = [needs ''inventory_available'', needs ''draft_generated'', needs ''priced'', needs ''photos_uploaded'',
       needs ''operator_authorized_stage''],
     may_establish = [''staged'', ''staged_content_current''], must_preserve = [''item_data''], ownership = [''listing.stage''],
     tr_effect_class = EXTERNAL, receipt_schema_id = RECEIPT\<rparr>"

definition EBAY_PUBLISH :: treatment_contract where
  "EBAY_PUBLISH = \<lparr>tr_identity = ''ebay-publish'', tr_version = ''1'',
     requires = [needs ''inventory_available'', needs ''staged'', needs ''staged_content_current'', needs ''operator_authorized_publish''],
     may_establish = [''published''], must_preserve = [''item_data''], ownership = [''listing.publish''],
     tr_effect_class = EXTERNAL, receipt_schema_id = RECEIPT\<rparr>"

definition EBAY_SYNC_TARGETED :: treatment_contract where
  "EBAY_SYNC_TARGETED = \<lparr>tr_identity = ''ebay-sync-targeted'', tr_version = ''1'', requires = [needs ''provider_effect_succeeded''],
     may_establish = [''provider_projection_current''], must_preserve = [''provider_state''],
     ownership = [''listing.provider_projection''], tr_effect_class = EXTERNAL, receipt_schema_id = RECEIPT\<rparr>"

definition EBAY_WITHDRAW :: treatment_contract where
  "EBAY_WITHDRAW = \<lparr>tr_identity = ''ebay-withdraw'', tr_version = ''1'',
     requires = [needs ''published'', needs ''operator_authorized_withdraw''],
     may_establish = [''listing_inactive''], must_preserve = [''item_data'', ''listing.provider_projection''],
     ownership = [''listing.withdraw''], tr_effect_class = EXTERNAL, receipt_schema_id = RECEIPT\<rparr>"

definition EBAY_ONBOARD_LEGACY_STAGE :: treatment_contract where
  "EBAY_ONBOARD_LEGACY_STAGE = \<lparr>tr_identity = ''ebay-onboard-legacy-stage'', tr_version = ''1'',
     requires = [needs ''staged'', \<lparr>rq_condition_id = ''staged_content_current'', accepted_results = [UNKNOWN, STALE]\<rparr>],
     may_establish = [''staged_content_current''], must_preserve = [''provider_state''],
     ownership = [''listing.legacy_stage_evidence''], tr_effect_class = LOCAL, receipt_schema_id = RECEIPT\<rparr>"

definition TGW_TREATMENTS :: "treatment_contract list" where
  "TGW_TREATMENTS =
     [NORMALIZE_CONDITION, AI_IDENTIFY, EBAY_DRAFT, EBAY_PRICE, EBAY_UPLOAD, EBAY_STAGE, EBAY_PUBLISH, EBAY_SYNC_TARGETED]"

definition LEGACY_STAGE_ONBOARDING_TREATMENTS :: "treatment_contract list" where
  "LEGACY_STAGE_ONBOARDING_TREATMENTS = [EBAY_ONBOARD_LEGACY_STAGE]"

definition WITHDRAW_TREATMENTS :: "treatment_contract list" where
  "WITHDRAW_TREATMENTS = [EBAY_WITHDRAW]"

definition ALL_TREATMENTS :: "treatment_contract list" where
  "ALL_TREATMENTS = TGW_TREATMENTS @ WITHDRAW_TREATMENTS"

lemmas contract_defs = NORMALIZE_CONDITION_def AI_IDENTIFY_def EBAY_DRAFT_def EBAY_PRICE_def EBAY_UPLOAD_def EBAY_STAGE_def
  EBAY_PUBLISH_def EBAY_SYNC_TARGETED_def EBAY_WITHDRAW_def EBAY_ONBOARD_LEGACY_STAGE_def

lemmas profile_defs = TGW_EBAY_IDENTIFIED_def TGW_EBAY_DRAFTED_def TGW_EBAY_PRICED_def TGW_EBAY_STAGED_def
  TGW_EBAY_LISTABLE_def TGW_EBAY_RECONCILED_def TGW_EBAY_WITHDRAWN_def TGW_EBAY_LEGACY_STAGE_ONBOARDED_def

section \<open>Condition aliases\<close>

definition ALIASES :: "(string \<times> string) list" where
  "ALIASES = [(''pre-owned'', ''Used''), (''preowned'', ''Used''), (''for parts'', ''For parts or not working''),
     (''parts only'', ''For parts or not working'')]"

definition normalized_condition :: "json \<Rightarrow> string option" where
  "normalized_condition v =
     (case v of JStr s \<Rightarrow> map_of ALIASES (py_join '' '' (py_words (py_lower (py_strip s)))) | _ \<Rightarrow> None)"

section \<open>The registry is consistent\<close>

lemma registry_distinct: "distinct (map (\<lambda>t. (tr_identity t, tr_version t)) ALL_TREATMENTS)"
  by code_simp

lemma registry_disjoint:
  assumes "s \<in> set ALL_TREATMENTS" and "t \<in> set ALL_TREATMENTS" and "s \<noteq> t"
  shows "set (ownership s) \<inter> set (ownership t) = {}"
proof -
  have "list_all (\<lambda>s. list_all (\<lambda>t. s = t \<or> list_all (\<lambda>x. x \<notin> set (ownership t)) (ownership s)) ALL_TREATMENTS) ALL_TREATMENTS"
    by code_simp
  then show ?thesis using assms by (auto simp: list_all_iff)
qed

lemma conflicts_subset_Nil:
  assumes "distinct (map (\<lambda>t. (tr_identity t, tr_version t)) ts)" and "set ts \<subseteq> set ALL_TREATMENTS"
    and "\<forall>c\<in>set cs. \<exists>t\<in>set ts. (treatment_id c, treatment_version c) = (tr_identity t, tr_version t)"
    and "distinct (map (\<lambda>c. (treatment_id c, treatment_version c)) cs)"
  shows "conflicts ts cs = []"
proof -
  have owned: "owned_by ts c = ownership t" if "t \<in> set ts" "treatment_id c = tr_identity t" "treatment_version c = tr_version t" for c t
    using treatment_by_id_distinct[OF assms(1) that(1)] that by (simp add: owned_by_def)
  have "set (owned_by ts l) \<inter> set (owned_by ts r) = {}"
    if "l \<in> set cs" "r \<in> set cs" "(treatment_id l, treatment_version l) \<noteq> (treatment_id r, treatment_version r)" for l r
  proof -
    from assms(3) that(1,2) obtain s t where st: "s \<in> set ts" "t \<in> set ts"
      "treatment_id l = tr_identity s" "treatment_version l = tr_version s"
      "treatment_id r = tr_identity t" "treatment_version r = tr_version t" by (metis prod.inject)
    then have "s \<noteq> t" using that(3) by auto
    then show ?thesis using registry_disjoint[of s t] owned st assms(2) by (metis subset_iff)
  qed
  then have "sorted_wrt (\<lambda>l r. set (owned_by ts l) \<inter> set (owned_by ts r) = {}) cs"
    using assms(4) by (induction cs) auto
  then show ?thesis by (simp add: conflicts_Nil)
qed

text \<open>Over any selection of the registered treatments the evaluator finds no ownership conflict.\<close>

lemma registry_conflict_free:
  assumes "distinct (map (\<lambda>t. (tr_identity t, tr_version t)) ts)" and "set ts \<subseteq> set ALL_TREATMENTS"
  shows "ownership_conflicts (evaluate lib snap goal ts version attempts) = []"
proof -
  define relevant where "relevant = filter (relevant_attempt snap ts (graph_condition_hash lib snap goal ts)) attempts"
  let ?e = "map snd (filter fst (map (classify snap relevant) (by_identity ts)))"
  have c: "ownership_conflicts (evaluate lib snap goal ts version attempts) = conflicts ts ?e"
    by (simp add: evaluate_def Let_def relevant_def)
  have key: "map (\<lambda>c. (treatment_id c, treatment_version c)) (map snd (filter fst (map (classify snap relevant) xs)))
      = map (\<lambda>t. (tr_identity t, tr_version t)) (filter (\<lambda>t. fst (classify snap relevant t)) xs)" for xs
    by (induction xs) (simp_all add: classify_disposition)
  have "mset (map (\<lambda>t. (tr_identity t, tr_version t)) (by_identity ts)) = mset (map (\<lambda>t. (tr_identity t, tr_version t)) ts)"
    by (simp add: by_identity_def)
  from mset_eq_imp_distinct_iff[OF this] assms(1)
  have "distinct (map (\<lambda>t. (tr_identity t, tr_version t)) (by_identity ts))" by (rule iffD2)
  then have "distinct (map (\<lambda>c. (treatment_id c, treatment_version c)) ?e)"
    unfolding key by (rule distinct_map_filter)
  moreover have "\<forall>c\<in>set ?e. \<exists>t\<in>set ts. (treatment_id c, treatment_version c) = (tr_identity t, tr_version t)"
  proof
    fix c assume "c \<in> set ?e"
    then obtain t where "t \<in> set ts" "c = snd (classify snap relevant t)" by (force simp: by_identity_def)
    then show "\<exists>t\<in>set ts. (treatment_id c, treatment_version c) = (tr_identity t, tr_version t)"
      by (intro bexI[of _ t]) (simp_all add: classify_disposition)
  qed
  ultimately show ?thesis unfolding c by (intro conflicts_subset_Nil assms)
qed

end
