(* ===== verification/Item_Snapshot.thy ===== *)
theory Item_Snapshot
  imports Photo_Order Workflow_Registry Operator_Authority
begin

text \<open>
  The snapshot builder \<^verbatim>\<open>workflow/item_snapshot.py\<close>: one checker per condition of the listing pipeline, and
  the builder that turns an item document, its photo directory and the receipts it is given into the evidence the
  evaluator reads. A checker returns a \<^typ>\<open>bool result\<close> because a malformed document can make it raise. The
  host's file system is the record \<open>item_files\<close>. The lemmas show what each condition's verdict is,
  when photo synchronisation counts as complete, and which documents may enter the listing pipeline.
\<close>

section \<open>Reading the document\<close>

text \<open>What is read of the host: the parsed JSON of a file (or why it cannot be read), and the entries of a directory.\<close>

record item_files =
  read_json :: "path \<Rightarrow> json result"
  iterdir :: "path \<Rightarrow> dir_entries"

definition KNOWN_CONDITIONS :: "string list" where
  "KNOWN_CONDITIONS =
     [''new'', ''new other'', ''new with defects'', ''new without tags'', ''manufacturer refurbished'', ''seller refurbished'',
      ''used'', ''for parts or not working'', ''good'', ''acceptable'', ''like new'', ''very good'', ''new with box'']"

definition item_ref :: evidence_reference where
  "item_ref = \<lparr>ref_identity = ''item_data'', source_class = ''item_data'', source_generation = ''1'',
     freshness_identity = [], supersession_identity = []\<rparr>"

definition assertion :: "string \<Rightarrow> fingerprint_result \<Rightarrow> string list \<Rightarrow> evidence_assertion" where
  "assertion c r reasons =
     \<lparr>as_condition_id = c, as_result = r, as_reasons = reasons, as_evidence = (if reasons = [] then [] else [item_ref])\<rparr>"

definition load_item :: "item_files \<Rightarrow> path \<Rightarrow> jobj result" where
  "load_item fs p =
     bind_result (read_json fs p) (\<lambda>raw.
       case raw of JObj d \<Rightarrow> Ok d | _ \<Rightarrow> Err (ValueError (path_str p @ '': top-level JSON is not an object'')))"

definition get_str :: "jobj \<Rightarrow> string \<Rightarrow> string" where
  "get_str item key = (case jget item key of JStr s \<Rightarrow> py_strip s | _ \<Rightarrow> [])"

section \<open>Photos\<close>

definition local_photo :: "json \<Rightarrow> bool" where
  "local_photo v = (case v of JObj d \<Rightarrow> nonblank_str (jget d ''local'') | _ \<Rightarrow> False)"

text \<open>The directory is absent or a path with its entries.\<close>

definition has_photos :: "jobj \<Rightarrow> (path \<times> dir_entries) option \<Rightarrow> bool result" where
  "has_photos item sku_dir =
     (if get_str item ''image'' \<noteq> [] then Ok True
      else if list_ex nonblank_str (list_or_empty (jget item ''_images'')) then Ok True
      else if list_ex local_photo (list_or_empty (jget item ''ebay_photos'')) then Ok True
      else (case sku_dir of
              None \<Rightarrow> Ok False
            | Some (p, entries) \<Rightarrow> bind_result (ordered_photos item p entries) (\<lambda>ps. Ok (ps \<noteq> []))))"

text \<open>The loop over \<^verbatim>\<open>ebay_photos\<close>: \<^verbatim>\<open>by_local\<close> and the number of invalid or repeated mappings.\<close>

definition hosted_key :: "path \<Rightarrow> string \<Rightarrow> string" where
  "hosted_key sku_dir loc =
     path_str (if path_absolute (py_path loc) then py_path loc else path_join sku_dir (py_path loc))"

fun hosted_photos :: "path \<Rightarrow> json list \<Rightarrow> (string \<times> string) list \<Rightarrow> nat \<Rightarrow> (string \<times> string) list \<times> nat" where
  "hosted_photos sku_dir [] by_local bad = (by_local, bad)"
| "hosted_photos sku_dir (JObj d # es) by_local bad =
     (case (jget d ''local'', jget d ''url'') of
        (JStr loc, JStr url) \<Rightarrow>
          (if \<not> non_blank loc \<or> \<not> non_blank url then hosted_photos sku_dir es by_local (bad + 1)
           else if map_of by_local (hosted_key sku_dir loc) \<noteq> None then hosted_photos sku_dir es by_local (bad + 1)
           else hosted_photos sku_dir es (by_local @ [(hosted_key sku_dir loc, py_strip url)]) bad)
      | _ \<Rightarrow> hosted_photos sku_dir es by_local (bad + 1))"
| "hosted_photos sku_dir (e # es) by_local bad = hosted_photos sku_dir es by_local (bad + 1)"

record photo_sync =
  ps_expected_keys :: "string list"
  ps_by_local :: "(string \<times> string) list"
  ps_invalid :: nat
  ps_draft_urls :: "json list"

definition photo_sync_of :: "jobj \<Rightarrow> path \<Rightarrow> dir_entries \<Rightarrow> photo_sync result" where
  "photo_sync_of item sku_dir entries =
     bind_result (ordered_photos item sku_dir entries) (\<lambda>expected.
       let (by_local, bad) = hosted_photos sku_dir (list_or_empty (jget item ''ebay_photos'')) [] 0
       in Ok \<lparr>ps_expected_keys = map path_str expected, ps_by_local = by_local, ps_invalid = bad,
              ps_draft_urls = list_or_empty (jget (dict_or_empty (jget item ''draft_listing'')) ''imageUrls'')\<rparr>)"

definition key_name :: "string \<Rightarrow> string" where
  "key_name key = path_name (py_path key)"

definition ordered_urls :: "photo_sync \<Rightarrow> string list" where
  "ordered_urls s = map (the \<circ> map_of (ps_by_local s)) (filter (\<lambda>k. map_of (ps_by_local s) k \<noteq> None) (ps_expected_keys s))"

definition valid_draft_urls :: "photo_sync \<Rightarrow> string list" where
  "valid_draft_urls s = concat (map (\<lambda>v. case v of JStr u \<Rightarrow> (if u \<noteq> [] then [u] else []) | _ \<Rightarrow> []) (ps_draft_urls s))"

definition missing_photos :: "photo_sync \<Rightarrow> string list" where
  "missing_photos s = map key_name (filter (\<lambda>k. map_of (ps_by_local s) k = None) (ps_expected_keys s))"

definition extra_photos :: "photo_sync \<Rightarrow> string list" where
  "extra_photos s = sort (map key_name (filter (\<lambda>k. k \<notin> set (ps_expected_keys s)) (map fst (ps_by_local s))))"

definition urls_differ :: "photo_sync \<Rightarrow> bool" where
  "urls_differ s = (valid_draft_urls s \<noteq> ordered_urls s \<or> length (valid_draft_urls s) \<noteq> length (ps_draft_urls s))"

definition sync_exact :: "photo_sync \<Rightarrow> bool" where
  "sync_exact s =
     (ps_expected_keys s \<noteq> [] \<and> \<not> (missing_photos s \<noteq> [] \<or> extra_photos s \<noteq> [] \<or> ps_invalid s \<noteq> 0 \<or> urls_differ s))"

definition sync_state_json :: "pylib \<Rightarrow> photo_sync \<Rightarrow> json" where
  "sync_state_json lib s = JObj
     [(''local'', jstrs (map key_name (ps_expected_keys s))),
      (''hosted'', JList (map (\<lambda>k. JObj [(''local'', JStr (key_name k)), (''url_sha256'', JStr (sha256_hex lib (the (map_of (ps_by_local s) k))))])
         (filter (\<lambda>k. map_of (ps_by_local s) k \<noteq> None) (ps_expected_keys s)))),
      (''draft_url_sha256'', jstrs (map (sha256_hex lib) (valid_draft_urls s))),
      (''invalid_or_duplicate'', JInt (int (ps_invalid s))),
      (''extras'', jstrs (extra_photos s))]"

definition sync_detail :: "photo_sync \<Rightarrow> string list" where
  "sync_detail s =
     (if missing_photos s \<noteq> [] then [show_nat (length (missing_photos s)) @ '' missing EPS URL(s)''] else [])
     @ (if extra_photos s \<noteq> [] then [show_nat (length (extra_photos s)) @ '' stale hosted photo(s)''] else [])
     @ (if ps_invalid s \<noteq> 0 then [show_nat (ps_invalid s) @ '' invalid/duplicate mapping(s)''] else [])
     @ (if urls_differ s then [''draft image order is not synchronized''] else [])"

definition sync_reason :: "photo_sync \<Rightarrow> string" where
  "sync_reason s =
     (let n = show_nat (length (ps_expected_keys s))
      in if sync_exact s then ''photo sync complete: '' @ n @ ''/'' @ n @ '' local photos''
         else if ps_expected_keys s = [] then ''photo sync waiting: no local photos''
         else ''photo sync waiting: '' @ show_nat (length (ordered_urls s)) @ ''/'' @ n @ '' local photos; '' @ py_join ''; '' (sync_detail s))"

definition photo_sync_state :: "pylib \<Rightarrow> jobj \<Rightarrow> path \<Rightarrow> dir_entries \<Rightarrow> (bool \<times> string \<times> string) result" where
  "photo_sync_state lib item sku_dir entries =
     bind_result (photo_sync_of item sku_dir entries) (\<lambda>s.
       Ok (sync_exact s, sync_reason s, hash_json lib (sync_state_json lib s)))"

definition photos_uploaded :: "pylib \<Rightarrow> jobj \<Rightarrow> (path \<times> dir_entries) option \<Rightarrow> bool result" where
  "photos_uploaded lib item sku_dir =
     (case sku_dir of
        None \<Rightarrow> Ok False
      | Some (p, entries) \<Rightarrow> bind_result (photo_sync_state lib item p entries) (\<lambda>r. Ok (fst r)))"

section \<open>Checkers\<close>

definition ai_identified :: "jobj \<Rightarrow> bool result" where
  "ai_identified item =
     Ok (jget item ''ai_reidentify'' \<noteq> JBool True
         \<and> (get_str item ''ebay_category_id'' \<noteq> [] \<or> dict_or_empty (jget item ''product_lookup'') \<noteq> []))"

definition draft_generated :: "pylib \<Rightarrow> (json \<Rightarrow> string) \<Rightarrow> jobj \<Rightarrow> bool result" where
  "draft_generated lib cs item =
     Ok (jget item ''ai_redraft_requested'' \<noteq> JBool True
         \<and> (case jget item ''draft_listing'' of
              JObj draft \<Rightarrow> nonblank_str (jget draft ''title'') \<and> py_str lib cs (jget_or draft ''category_id'' (JStr ''99'')) \<noteq> ''99''
            | _ \<Rightarrow> False))"

text \<open>\<^verbatim>\<open>except (TypeError, ValueError): return False\<close>; another exception goes on.\<close>

definition caught :: "bool result \<Rightarrow> bool result" where
  "caught r = (case r of Inl (TypeError _) \<Rightarrow> Ok False | Inl (ValueError _) \<Rightarrow> Ok False | _ \<Rightarrow> r)"

definition priced :: "jobj \<Rightarrow> bool result" where
  "priced item =
     bind_result (or_dict (jget item ''draft_listing'')) (\<lambda>draft.
       if jget draft ''price'' = JNull then Ok False else caught (float_positive (jget draft ''price'')))"

definition staged :: "jobj \<Rightarrow> bool result" where
  "staged item = bind_result (or_dict (jget item ''ebay_offer'')) (\<lambda>offer. Ok (truthy (jget offer ''offer_id'')))"

definition published :: "pylib \<Rightarrow> (json \<Rightarrow> string) \<Rightarrow> jobj \<Rightarrow> bool" where
  "published lib cs item =
     (case jget item ''ebay_listing'' of
        JObj listing \<Rightarrow>
          list_ex (\<lambda>k. py_upper (py_strip (str_or_empty lib cs (jget listing k))) \<in> {''ACTIVE'', ''PUBLISHED''})
            [''status'', ''listing_status'', ''listingStatus'']
      | _ \<Rightarrow> False)"

definition available_quantity :: "json \<Rightarrow> bool result" where
  "available_quantity q =
     (case (if q = JNull then JInt 1 else q) of
        JBool _ \<Rightarrow> Ok False
      | v \<Rightarrow> caught (bind_result (py_int v) (\<lambda>i. Ok (0 < i))))"

definition inventory_available :: "pylib \<Rightarrow> (json \<Rightarrow> string) \<Rightarrow> jobj \<Rightarrow> bool result" where
  "inventory_available lib cs item =
     (let status = py_lower (py_strip (str_or_empty lib cs (jget item ''status'')));
          listing_status = (case jget item ''ebay_listing'' of
            JObj listing \<Rightarrow> py_lower (py_strip (str_or_empty lib cs (jget listing ''status''))) | _ \<Rightarrow> []);
          draft = dict_or_empty (jget item ''draft_listing'')
      in if status \<in> {''sold'', ''disposed'', ''archived'', ''deleted''} then Ok False
         else if listing_status = ''sold'' then Ok False
         else available_quantity (jget_or draft ''quantity'' (jget_or item ''quantity'' (JInt 1))))"

definition listing_provider_consistent :: "pylib \<Rightarrow> (json \<Rightarrow> string) \<Rightarrow> jobj \<Rightarrow> bool result" where
  "listing_provider_consistent lib cs item =
     Ok (\<not> (case jget item ''ebay_listing_conflict'' of
              JObj conflict \<Rightarrow> py_eq (jget conflict ''kind'') (JStr ''active_trading_listing_differs_from_inventory_binding'')
                \<and> non_blank (str_or_empty lib cs (jget conflict ''trading_listing_id''))
            | _ \<Rightarrow> False))"

definition valid_condition :: "jobj \<Rightarrow> bool result" where
  "valid_condition item =
     Ok (get_str item ''condition'' \<noteq> [] \<and> py_lower (get_str item ''condition'') \<in> set KNOWN_CONDITIONS)"

definition condition_normalizable :: "jobj \<Rightarrow> bool result" where
  "condition_normalizable item = Ok (normalized_condition (jget item ''condition'') \<noteq> None)"

definition valid_category :: "jobj \<Rightarrow> bool result" where
  "valid_category item = Ok (get_str item ''ebay_category_id'' \<noteq> [] \<and> get_str item ''ebay_category_id'' \<noteq> ''99'')"

definition title_ok :: "jobj \<Rightarrow> bool result" where
  "title_ok item =
     bind_result (or_dict (jget item ''draft_listing'')) (\<lambda>draft.
       Ok (case jget draft ''title'' of JStr t \<Rightarrow> 1 \<le> length (py_chars t) \<and> length (py_chars t) \<le> 80 | _ \<Rightarrow> False))"

definition check_pipeline_error :: "pylib \<Rightarrow> (json \<Rightarrow> string) \<Rightarrow> jobj \<Rightarrow> evidence_assertion list" where
  "check_pipeline_error lib cs item =
     (if \<not> truthy (jget item ''pipeline_error'') then []
      else [\<lparr>as_condition_id = ''pipeline_error'', as_result = TRUE,
             as_reasons = [''pipeline_error: '' @ py_take 200 (py_str lib cs (jget item ''pipeline_error''))],
             as_evidence = [item_ref]\<rparr>])"

text \<open>The table of checkers, applied to the item and the directory the builder passes.\<close>

definition item_checkers ::
  "pylib \<Rightarrow> (json \<Rightarrow> string) \<Rightarrow> path \<times> dir_entries \<Rightarrow> jobj \<Rightarrow> (string \<times> bool result) list" where
  "item_checkers lib cs dir item =
     [(''inventory_available'', inventory_available lib cs item),
      (''listing_provider_consistent'', listing_provider_consistent lib cs item),
      (''item_has_photos'', has_photos item (Some dir)),
      (''photos_uploaded'', photos_uploaded lib item None),
      (''ai_identified'', ai_identified item),
      (''draft_generated'', draft_generated lib cs item),
      (''priced'', priced item),
      (''staged'', staged item),
      (''published'', Ok (published lib cs item)),
      (''valid_condition'', valid_condition item),
      (''condition_normalizable'', condition_normalizable item),
      (''valid_category'', valid_category item),
      (''title_ok'', title_ok item)]"

definition ITEM_REASONS :: "(string \<times> string \<times> string) list" where
  "ITEM_REASONS =
     [(''inventory_available'', ''inventory status and quantity permit listing'', ''inventory is terminal or has no available quantity''),
      (''listing_provider_consistent'', ''one authoritative listing binding'', ''active listing conflicts with Inventory binding''),
      (''item_has_photos'', ''photos present'', ''no photos''),
      (''photos_uploaded'', ''photos uploaded to eBay/draft'', ''photos not yet uploaded''),
      (''ai_identified'', ''AI category or product lookup present'', ''not yet AI-identified''),
      (''draft_generated'', ''draft with title and category'', ''no valid draft''),
      (''priced'', ''price set'', ''not priced''),
      (''staged'', ''offer created'', ''not staged''),
      (''published'', ''listing active'', ''not published''),
      (''valid_condition'', ''known condition'', ''unknown or missing condition''),
      (''condition_normalizable'', ''condition has deterministic alias'', ''condition has no deterministic alias''),
      (''valid_category'', ''leaf category'', ''invalid category (99 or missing)''),
      (''title_ok'', ''title within 80 chars'', ''title too long or missing'')]"

section \<open>The builder\<close>

text \<open>The receipts a caller supplies, with the fields the builder reads; a field is a string or absent.\<close>

record stage_receipt =
  sr_content_identity :: "string option"
  sr_receipt_id :: "string option"

record projection_receipt =
  pr_provider_effect_id :: "string option"
  pr_outcome :: "string option"
  pr_resulting_generation :: "string option"

text \<open>The keyword arguments of \<^verbatim>\<open>build_item_snapshot\<close> and their defaults.\<close>

record snapshot_inputs =
  si_ambiguities :: "string list"
  authorized_scopes :: "string list"
  authority_identity :: string
  stage_receipt_lookup :: "(string \<Rightarrow> stage_receipt option result) option"
  provider_projection_receipt :: "projection_receipt option"
  require_current_stage :: bool

definition no_inputs :: snapshot_inputs where
  "no_inputs = \<lparr>si_ambiguities = [], authorized_scopes = [], authority_identity = [], stage_receipt_lookup = None,
     provider_projection_receipt = None, require_current_stage = False\<rparr>"

definition str_or :: "string option \<Rightarrow> string \<Rightarrow> string" where
  "str_or v d = (case v of None \<Rightarrow> d | Some s \<Rightarrow> (if s = [] then d else s))"

definition projection_met :: "string \<Rightarrow> string \<Rightarrow> projection_receipt option \<Rightarrow> bool" where
  "projection_met gen c receipt =
     (case receipt of
        None \<Rightarrow> False
      | Some r \<Rightarrow>
          (if c = ''provider_effect_succeeded'' then (case pr_provider_effect_id r of None \<Rightarrow> False | Some e \<Rightarrow> non_blank e)
           else pr_outcome r = Some ''satisfied'' \<and> pr_resulting_generation r = Some gen))"

definition projection_assertion :: "string \<Rightarrow> string \<Rightarrow> projection_receipt option \<Rightarrow> evidence_assertion" where
  "projection_assertion gen c receipt =
     (let met = projection_met gen c receipt
      in \<lparr>as_condition_id = c, as_result = (if met then TRUE else UNKNOWN),
          as_reasons = [if met then ''exact provider reconciliation evidence present''
                        else ''provider reconciliation evidence absent or stale''],
          as_evidence = [\<lparr>ref_identity = str_or (Option.bind receipt pr_provider_effect_id) ''provider-effect:absent'',
            source_class = ''provider_effect_receipt'',
            source_generation = (case Option.bind receipt pr_resulting_generation of None \<Rightarrow> gen | Some g \<Rightarrow> g),
            freshness_identity = [], supersession_identity = []\<rparr>]\<rparr>)"

definition AUTHORIZED_PREFIX :: string where
  "AUTHORIZED_PREFIX = ''operator_authorized_''"

definition condition_scope :: "string \<Rightarrow> string" where
  "condition_scope c = replace_char (CHR ''_'') (CHR ''-'') (drop (length AUTHORIZED_PREFIX) c)"

definition authority_assertion :: "string \<Rightarrow> snapshot_inputs \<Rightarrow> string \<Rightarrow> evidence_assertion" where
  "authority_assertion gen si c =
     (let authorized = condition_scope c \<in> set (authorized_scopes si)
      in \<lparr>as_condition_id = c, as_result = (if authorized then TRUE else FALSE),
          as_reasons = [if authorized then ''exact operator authority present''
                        else ''operator authority for '' @ condition_scope c @ '' absent''],
          as_evidence = [\<lparr>ref_identity = (if authority_identity si = [] then ''operator-authority:absent'' else authority_identity si),
            source_class = ''operator_authority'',
            source_generation = (if authority_identity si = [] then gen else authority_identity si),
            freshness_identity = [], supersession_identity = []\<rparr>]\<rparr>)"

definition stage_verdict :: "bool \<Rightarrow> bool \<Rightarrow> string \<Rightarrow> stage_receipt option \<Rightarrow> fingerprint_result \<times> string" where
  "stage_verdict superseded offer_exists current receipt =
     (if superseded then (NOT_APPLICABLE, ''published listing supersedes staged content freshness'')
      else if \<not> offer_exists then (FALSE, ''item has no staged offer'')
      else (case receipt of
              None \<Rightarrow> (UNKNOWN, ''authoritative staged content receipt absent'')
            | Some r \<Rightarrow>
                (if sr_content_identity r = Some current \<and> (case sr_receipt_id r of None \<Rightarrow> False | Some i \<Rightarrow> non_blank i)
                 then (TRUE, ''authoritative staged content receipt matches current content'')
                 else if (case sr_content_identity r of None \<Rightarrow> False | Some i \<Rightarrow> i \<noteq> [])
                 then (STALE, ''authoritative staged content receipt is stale'')
                 else (UNKNOWN, ''authoritative staged content receipt absent''))))"

definition stage_assertion ::
  "pylib \<Rightarrow> (json \<Rightarrow> string) \<Rightarrow> jobj \<Rightarrow> string \<Rightarrow> string \<Rightarrow> snapshot_inputs \<Rightarrow> string \<Rightarrow> evidence_assertion result" where
  "stage_assertion lib cs item sku gen si c =
     (let current = listing_content_identity lib item
      in bind_result (staged item) (\<lambda>offer_exists.
         bind_result (case stage_receipt_lookup si of None \<Rightarrow> Ok None | Some lookup \<Rightarrow> lookup sku) (\<lambda>receipt.
         let (result, reason) = stage_verdict (published lib cs item \<and> \<not> require_current_stage si) offer_exists current receipt
         in Ok \<lparr>as_condition_id = c, as_result = result, as_reasons = [reason],
                as_evidence = [\<lparr>ref_identity = str_or (Option.bind receipt sr_receipt_id) ''staged-content-receipt:absent'',
                  source_class = ''provider_receipt'', source_generation = gen, freshness_identity = current,
                  supersession_identity = []\<rparr>]\<rparr>)))"

definition photo_assertion :: "pylib \<Rightarrow> jobj \<Rightarrow> path \<times> dir_entries \<Rightarrow> string \<Rightarrow> string \<Rightarrow> evidence_assertion result" where
  "photo_assertion lib item dir gen c =
     bind_result (photo_sync_state lib item (fst dir) (snd dir)) (\<lambda>(met, reason, fp).
       Ok \<lparr>as_condition_id = c, as_result = (if met then TRUE else FALSE), as_reasons = [reason],
           as_evidence = [\<lparr>ref_identity = ''photo-sync:'' @ fp, source_class = ''item_data_and_local_photos'',
             source_generation = gen, freshness_identity = fp, supersession_identity = []\<rparr>]\<rparr>)"

text \<open>One turn of the loop over the conditions.\<close>

definition condition_assertion ::
  "pylib \<Rightarrow> (json \<Rightarrow> string) \<Rightarrow> path \<times> dir_entries \<Rightarrow> jobj \<Rightarrow> string \<Rightarrow> string \<Rightarrow> snapshot_inputs \<Rightarrow> string \<Rightarrow>
   evidence_assertion result" where
  "condition_assertion lib cs dir item sku gen si c =
     (if c \<in> {''provider_effect_succeeded'', ''provider_projection_current''}
      then Ok (projection_assertion gen c (provider_projection_receipt si))
      else if starts_with c AUTHORIZED_PREFIX then Ok (authority_assertion gen si c)
      else if c = ''staged_content_current'' then stage_assertion lib cs item sku gen si c
      else if c = ''photos_uploaded'' then photo_assertion lib item dir gen c
      else (case map_of (item_checkers lib cs dir item) c of
              None \<Rightarrow> Ok (assertion c UNKNOWN [''no checker registered for '' @ c])
            | Some r \<Rightarrow>
                bind_result r (\<lambda>met.
                  let (yes, no) = (case map_of ITEM_REASONS c of None \<Rightarrow> (''checked'', ''not met'') | Some rs \<Rightarrow> rs)
                  in Ok (if met then assertion c TRUE [yes] else assertion c FALSE [no]))))"

definition item_sku :: "jobj \<Rightarrow> path \<Rightarrow> string" where
  "item_sku item p = (if get_str item ''sku'' \<noteq> [] then get_str item ''sku'' else path_name (path_parent p))"

definition build_item_snapshot ::
  "pylib \<Rightarrow> (json \<Rightarrow> string) \<Rightarrow> item_files \<Rightarrow> path \<Rightarrow> goal_profile \<Rightarrow> treatment_contract list \<Rightarrow> snapshot_inputs \<Rightarrow>
   object_snapshot result" where
  "build_item_snapshot lib cs fs p goal ts si =
     bind_result (load_item fs p) (\<lambda>item.
       let gen = hash_json lib (JObj item);
           sku = item_sku item p;
           dir = (path_parent p, iterdir fs (path_parent p))
       in bind_result (map_result (condition_assertion lib cs dir item sku gen si) (condition_ids goal ts)) (\<lambda>as.
          Ok \<lparr>snap_object_id = sku, generation = gen, assertions = as @ check_pipeline_error lib cs item,
              external_effect_ambiguities = sorted_set (filter (\<lambda>v. v \<noteq> []) (map py_strip (si_ambiguities si)))\<rparr>))"

section \<open>One verdict per condition\<close>

lemma condition_assertion_id:
  "condition_assertion lib cs dir item sku gen si c = Ok a \<Longrightarrow> as_condition_id a = c"
  by (auto simp: condition_assertion_def projection_assertion_def authority_assertion_def stage_assertion_def
      photo_assertion_def assertion_def Let_def case_prod_unfold split: if_splits option.splits)

lemma single_verdict:
  assumes "map_result f cs = Ok as" and "\<And>c a. f c = Ok a \<Longrightarrow> as_condition_id a = c" and "distinct cs"
    and "c \<in> set cs" and "\<forall>b\<in>set extra. as_condition_id b \<noteq> c"
  obtains a where "f c = Ok a" "fp_result (derive_fingerprint c (as @ extra)) = as_result a"
proof -
  from assms(1) have all: "\<forall>x\<in>set cs. \<exists>a. f x = Inr a" and as: "as = map (\<lambda>x. projr (f x)) cs"
    by (simp_all add: map_result_Ok_iff)
  obtain a where a: "f c = Ok a" using all assms(4) by blast
  have ids: "as_condition_id (projr (f x)) = x" if "x \<in> set cs" for x using all assms(2) that by force
  have "filter (\<lambda>b. as_condition_id b = c) as = map (\<lambda>x. projr (f x)) (filter (\<lambda>x. x = c) cs)"
    unfolding as filter_map by (intro arg_cong2[where f = map] refl filter_cong) (simp_all add: ids)
  also have "filter (\<lambda>x. x = c) cs = [c]" using assms(3,4) by (induction cs) (auto simp: filter_empty_conv)
  finally have "filter (\<lambda>b. as_condition_id b = c) (as @ extra) = [a]" using assms(5) a by (auto simp: filter_empty_conv)
  then show thesis using that[OF a] by (simp add: derive_fingerprint_def Let_def)
qed

text \<open>What a built snapshot consists of.\<close>

lemma build_OkD:
  assumes "build_item_snapshot lib cs fs p goal ts si = Ok snap"
  obtains item as where "read_json fs p = Ok (JObj item)" "generation snap = hash_json lib (JObj item)"
    "snap_object_id snap = item_sku item p"
    "map_result (condition_assertion lib cs (path_parent p, iterdir fs (path_parent p)) item (item_sku item p) (generation snap) si)
       (condition_ids goal ts) = Ok as"
    "assertions snap = as @ check_pipeline_error lib cs item"
    "external_effect_ambiguities snap = sorted_set (filter (\<lambda>v. v \<noteq> []) (map py_strip (si_ambiguities si)))"
proof -
  from assms obtain item where i: "load_item fs p = Ok item" by (auto simp: build_item_snapshot_def)
  then have "read_json fs p = Ok (JObj item)"
    by (cases "read_json fs p"; cases "projr (read_json fs p)") (auto simp: load_item_def)
  with assms i show thesis by (auto simp: build_item_snapshot_def Let_def intro: that)
qed

lemma verdict_of_condition:
  assumes "build_item_snapshot lib cs fs p goal ts si = Ok snap" and "read_json fs p = Ok (JObj item)"
    and "c \<in> set (condition_ids goal ts)" and "c \<noteq> ''pipeline_error''"
  obtains a where
    "condition_assertion lib cs (path_parent p, iterdir fs (path_parent p)) item (item_sku item p) (generation snap) si c = Ok a"
    "fp_result (by_id snap c) = as_result a"
proof -
  from build_OkD[OF assms(1)] assms(2) obtain as where as:
    "map_result (condition_assertion lib cs (path_parent p, iterdir fs (path_parent p)) item (item_sku item p) (generation snap) si)
       (condition_ids goal ts) = Ok as" "assertions snap = as @ check_pipeline_error lib cs item" by (metis Inr_inject json.inject(6))
  have other: "\<forall>b\<in>set (check_pipeline_error lib cs item). as_condition_id b \<noteq> c"
    using assms(4) by (simp add: check_pipeline_error_def)
  obtain a where "condition_assertion lib cs (path_parent p, iterdir fs (path_parent p)) item (item_sku item p) (generation snap) si c = Ok a"
    "fp_result (derive_fingerprint c (as @ check_pipeline_error lib cs item)) = as_result a"
    by (rule single_verdict[OF as(1) condition_assertion_id _ assms(3) other])
      (simp_all add: condition_ids_def)
  then show thesis using that as(2) by (simp add: by_id_def)
qed

lemma verdict_checker:
  assumes "build_item_snapshot lib cs fs p goal ts si = Ok snap" and "read_json fs p = Ok (JObj item)"
    and "c \<in> set (condition_ids goal ts)"
    and "map_of (item_checkers lib cs (path_parent p, iterdir fs (path_parent p)) item) c = Some r" and "c \<noteq> ''photos_uploaded''"
  shows "\<exists>met. r = Ok met \<and> fp_result (by_id snap c) = (if met then TRUE else FALSE)"
proof -
  have "c \<in> fst ` set (item_checkers lib cs (path_parent p, iterdir fs (path_parent p)) item)"
    using assms(4) by (metis map_of_eq_None_iff option.distinct(1))
  then have special: "c \<noteq> ''pipeline_error''" "c \<notin> {''provider_effect_succeeded'', ''provider_projection_current'', ''staged_content_current''}"
    "\<not> starts_with c AUTHORIZED_PREFIX"
    by (auto simp: item_checkers_def AUTHORIZED_PREFIX_def starts_with_def)
  obtain a where a: "condition_assertion lib cs (path_parent p, iterdir fs (path_parent p)) item (item_sku item p) (generation snap) si c = Ok a"
    "fp_result (by_id snap c) = as_result a"
    by (rule verdict_of_condition[OF assms(1-3) special(1)])
  show ?thesis using a special(2,3) assms(4,5)
    by (cases r) (auto simp: condition_assertion_def assertion_def Let_def case_prod_unfold)
qed

lemma verdict_authority:
  assumes "build_item_snapshot lib cs fs p goal ts si = Ok snap" and "c \<in> set (condition_ids goal ts)"
    and "starts_with c AUTHORIZED_PREFIX"
  shows "fp_result (by_id snap c) = (if condition_scope c \<in> set (authorized_scopes si) then TRUE else FALSE)"
proof -
  obtain item where item: "read_json fs p = Ok (JObj item)" by (rule build_OkD[OF assms(1)])
  have special: "c \<noteq> ''pipeline_error''" "c \<notin> {''provider_effect_succeeded'', ''provider_projection_current''}"
    using assms(3) by (auto simp: AUTHORIZED_PREFIX_def starts_with_def)
  obtain a where a: "condition_assertion lib cs (path_parent p, iterdir fs (path_parent p)) item (item_sku item p) (generation snap) si c = Ok a"
    "fp_result (by_id snap c) = as_result a"
    by (rule verdict_of_condition[OF assms(1) item assms(2) special(1)])
  show ?thesis using a special(2) assms(3) by (auto simp: condition_assertion_def authority_assertion_def Let_def)
qed

lemma verdict_projection:
  assumes "build_item_snapshot lib cs fs p goal ts si = Ok snap" and "c \<in> set (condition_ids goal ts)"
    and "c \<in> {''provider_effect_succeeded'', ''provider_projection_current''}"
  shows "fp_result (by_id snap c) = (if projection_met (generation snap) c (provider_projection_receipt si) then TRUE else UNKNOWN)"
proof -
  obtain item where item: "read_json fs p = Ok (JObj item)" by (rule build_OkD[OF assms(1)])
  obtain a where a: "condition_assertion lib cs (path_parent p, iterdir fs (path_parent p)) item (item_sku item p) (generation snap) si c = Ok a"
    "fp_result (by_id snap c) = as_result a"
    by (rule verdict_of_condition[OF assms(1) item assms(2)]) (use assms(3) in auto)
  show ?thesis using a assms(3) by (auto simp: condition_assertion_def projection_assertion_def Let_def)
qed

lemma verdict_stage:
  assumes "build_item_snapshot lib cs fs p goal ts si = Ok snap" and "read_json fs p = Ok (JObj item)"
    and "''staged_content_current'' \<in> set (condition_ids goal ts)"
  obtains offer_exists receipt where "staged item = Ok offer_exists"
    "(case stage_receipt_lookup si of None \<Rightarrow> Ok None | Some lookup \<Rightarrow> lookup (snap_object_id snap)) = Ok receipt"
    "fp_result (by_id snap ''staged_content_current'') =
       fst (stage_verdict (published lib cs item \<and> \<not> require_current_stage si) offer_exists (listing_content_identity lib item) receipt)"
proof -
  have sku: "snap_object_id snap = item_sku item p" by (rule build_OkD[OF assms(1)]) (use assms(2) in simp)
  obtain a where a: "condition_assertion lib cs (path_parent p, iterdir fs (path_parent p)) item (item_sku item p) (generation snap) si ''staged_content_current'' = Ok a"
    "fp_result (by_id snap ''staged_content_current'') = as_result a"
    by (rule verdict_of_condition[OF assms]) simp
  show thesis
    using a unfolding sku[symmetric]
    by (auto simp: condition_assertion_def stage_assertion_def Let_def case_prod_unfold AUTHORIZED_PREFIX_def starts_with_def
        intro!: that)
qed

lemma verdict_photos:
  assumes "build_item_snapshot lib cs fs p goal ts si = Ok snap" and "read_json fs p = Ok (JObj item)"
    and "''photos_uploaded'' \<in> set (condition_ids goal ts)"
  obtains met where "photos_uploaded lib item (Some (path_parent p, iterdir fs (path_parent p))) = Ok met"
    "fp_result (by_id snap ''photos_uploaded'') = (if met then TRUE else FALSE)"
proof -
  obtain a where a: "condition_assertion lib cs (path_parent p, iterdir fs (path_parent p)) item (item_sku item p) (generation snap) si ''photos_uploaded'' = Ok a"
    "fp_result (by_id snap ''photos_uploaded'') = as_result a"
    by (rule verdict_of_condition[OF assms]) simp
  show thesis
    using a by (auto simp: condition_assertion_def photo_assertion_def photos_uploaded_def AUTHORIZED_PREFIX_def starts_with_def intro!: that)
qed

text \<open>A snapshot is built whenever the parts of the document that are read as objects are objects or empty, the
  price converts to a float, and the lookup of the staged receipt returns.\<close>

lemma caught_total: "(\<forall>e. r = Err e \<longrightarrow> (\<exists>m. e = TypeError m \<or> e = ValueError m)) \<Longrightarrow> \<exists>b. caught r = Ok b"
  by (cases r) (auto simp: caught_def)

lemma py_int_errors: "py_int v = Err e \<Longrightarrow> \<exists>m. e = TypeError m \<or> e = ValueError m"
  by (cases v) (auto split: option.splits)

lemma inventory_total: "\<exists>b. inventory_available lib cs item = Ok b"
proof -
  have "\<exists>b. caught (bind_result (py_int v) (\<lambda>i. Ok (0 < i))) = Ok b" for v
    using py_int_errors[of v] by (intro caught_total) (cases "py_int v"; auto)
  then have "\<exists>b. (case v of JBool _ \<Rightarrow> Ok False | w \<Rightarrow> caught (bind_result (py_int w) (\<lambda>i. Ok (0 < i)))) = Ok b" for v
    by (cases v) (auto simp del: py_int.simps)
  then have "\<exists>b. available_quantity q = Ok b" for q
    unfolding available_quantity_def .
  then show ?thesis by (auto simp: inventory_available_def Let_def)
qed

lemma build_total:
  assumes "read_json fs p = Ok (JObj item)" and "staged item = Ok b1" and "priced item = Ok b2" and "title_ok item = Ok b3"
    and "ordered_photos item (path_parent p) (iterdir fs (path_parent p)) = Ok ps"
    and "(case stage_receipt_lookup si of None \<Rightarrow> Ok None | Some lookup \<Rightarrow> lookup (item_sku item p)) = Ok r"
  obtains snap where "build_item_snapshot lib cs fs p goal ts si = Ok snap"
proof -
  let ?dir = "(path_parent p, iterdir fs (path_parent p))"
  have photos: "\<exists>r. photo_sync_state lib item (path_parent p) (iterdir fs (path_parent p)) = Ok r" "\<exists>b. has_photos item (Some ?dir) = Ok b"
    by (auto simp add: photo_sync_state_def photo_sync_of_def has_photos_def assms(5) Let_def case_prod_unfold)
  obtain b4 b5 where ok: "inventory_available lib cs item = Ok b4" "has_photos item (Some ?dir) = Ok b5"
    using inventory_total[of lib cs item] photos(2) by blast
  have "\<exists>b. v = Ok b" if "map_of (item_checkers lib cs ?dir item) c = Some v" for c v
    using that
    by (auto simp: item_checkers_def ok assms(2-4) listing_provider_consistent_def photos_uploaded_def ai_identified_def draft_generated_def
        valid_condition_def condition_normalizable_def valid_category_def split: if_splits)
  then have "\<exists>a. condition_assertion lib cs ?dir item (item_sku item p) gen si c = Ok a" for gen c
    using photos(1) assms(2,6)
    by (force simp: condition_assertion_def stage_assertion_def photo_assertion_def Let_def case_prod_unfold split: option.splits)
  then have "\<exists>as. map_result (condition_assertion lib cs ?dir item (item_sku item p) gen si) cs' = Ok as" for gen cs'
    by (simp add: map_result_Ok_iff)
  then obtain as where "map_result (condition_assertion lib cs ?dir item (item_sku item p) (hash_json lib (JObj item)) si) (condition_ids goal ts) = Ok as"
    by blast
  then show thesis using that by (simp add: build_item_snapshot_def load_item_def assms(1) Let_def)
qed

section \<open>Complete photo synchronisation\<close>

text \<open>What one hosted photo says: the key of the local photo and its URL.\<close>

definition hosted_entry :: "path \<Rightarrow> json \<Rightarrow> (string \<times> string) option" where
  "hosted_entry sku_dir e =
     (case e of
        JObj d \<Rightarrow>
          (case (jget d ''local'', jget d ''url'') of
             (JStr loc, JStr url) \<Rightarrow> (if non_blank loc \<and> non_blank url then Some (hosted_key sku_dir loc, py_strip url) else None)
           | _ \<Rightarrow> None)
      | _ \<Rightarrow> None)"

lemma hosted_photos_entry:
  "hosted_photos sku_dir (e # es) by_local bad =
     (case hosted_entry sku_dir e of
        None \<Rightarrow> hosted_photos sku_dir es by_local (bad + 1)
      | Some (k, u) \<Rightarrow>
          (if map_of by_local k \<noteq> None then hosted_photos sku_dir es by_local (bad + 1)
           else hosted_photos sku_dir es (by_local @ [(k, u)]) bad))"
  by (cases e) (auto simp: hosted_entry_def split: json.splits)

lemma hosted_photos_mono: "hosted_photos sku_dir es by_local bad = (h, n) \<Longrightarrow> bad \<le> n"
  by (induction es arbitrary: by_local bad) (auto simp: hosted_photos_entry split: option.splits prod.splits if_splits dest: Suc_leD simp del: hosted_photos.simps(2,3))

lemma hosted_photos_exact:
  assumes "distinct (map fst by_local)"
  shows "hosted_photos sku_dir es by_local bad = (h, bad) \<longleftrightarrow>
    (\<exists>new. map (hosted_entry sku_dir) es = map Some new \<and> h = by_local @ new \<and> distinct (map fst h))"
  using assms
proof (induction es arbitrary: by_local)
  case (Cons e es)
  show ?case
  proof (cases "hosted_entry sku_dir e")
    case None
    then show ?thesis using hosted_photos_mono[of sku_dir es by_local "bad + 1" h bad]
      by (auto simp: hosted_photos_entry Cons_eq_map_conv simp del: hosted_photos.simps(2,3))
  next
    case (Some ku)
    then obtain k u where ku: "hosted_entry sku_dir e = Some (k, u)" by (cases ku) auto
    show ?thesis
    proof (cases "map_of by_local k = None")
      case False
      then have "k \<in> fst ` set by_local" by (simp add: map_of_eq_None_iff)
      then have "\<not> distinct (map fst (by_local @ new))" if "map (hosted_entry sku_dir) (e # es) = map Some new" for new
        using that ku by (cases new) auto
      moreover have "hosted_photos sku_dir (e # es) by_local bad \<noteq> (h, bad)"
        using hosted_photos_mono[of sku_dir es by_local "bad + 1" h bad] ku False
        by (auto simp: hosted_photos_entry simp del: hosted_photos.simps(2,3))
      ultimately show ?thesis by blast
    next
      case True
      then have d: "distinct (map fst (by_local @ [(k, u)]))" using Cons.prems by (simp add: map_of_eq_None_iff)
      have "hosted_photos sku_dir (e # es) by_local bad = hosted_photos sku_dir es (by_local @ [(k, u)]) bad"
        using ku True by (simp add: hosted_photos_entry del: hosted_photos.simps(2,3))
      moreover have "(\<exists>new. map (hosted_entry sku_dir) es = map Some new \<and> h = (by_local @ [(k, u)]) @ new \<and> distinct (map fst h))
          \<longleftrightarrow> (\<exists>new. map (hosted_entry sku_dir) (e # es) = map Some new \<and> h = by_local @ new \<and> distinct (map fst h))"
        using ku by (auto simp: Cons_eq_map_conv)
      ultimately show ?thesis using Cons.IH[OF d] by simp
    qed
  qed
qed auto

lemma valid_urls_all:
  "length (valid_draft_urls s) = length (ps_draft_urls s) \<longleftrightarrow> ps_draft_urls s = map JStr (valid_draft_urls s) \<and> [] \<notin> set (valid_draft_urls s)"
proof -
  let ?f = "\<lambda>v. case v of JStr u \<Rightarrow> (if u \<noteq> [] then [u] else []) | _ \<Rightarrow> []"
  have le: "length (concat (map ?f vs)) \<le> length vs" for vs
  proof (induction vs)
    case (Cons v vs)
    then show ?case by (cases v) auto
  qed simp
  have "length (concat (map ?f vs)) = length vs \<longleftrightarrow> vs = map JStr (concat (map ?f vs)) \<and> [] \<notin> set (concat (map ?f vs))" for vs
  proof (induction vs)
    case (Cons v vs)
    show ?case using Cons le[of vs] by (cases v) (auto dest: arg_cong[where f = length])
  qed simp
  then show ?thesis by (simp add: valid_draft_urls_def)
qed

lemma valid_urls_strs:
  assumes "ps_draft_urls s = map JStr us" and "[] \<notin> set us"
  shows "valid_draft_urls s = us"
proof -
  have "concat (map (\<lambda>v. case v of JStr u \<Rightarrow> (if u \<noteq> [] then [u] else []) | _ \<Rightarrow> []) (map JStr us)) = us"
    using assms(2) by (induction us) auto
  then show ?thesis by (simp only: valid_draft_urls_def assms(1))
qed

lemma hosted_url_nonempty:
  assumes "map (hosted_entry sku_dir) es = map Some h" and "(k, u) \<in> set h"
  shows "u \<noteq> []"
proof -
  from assms obtain e where "hosted_entry sku_dir e = Some (k, u)" by (metis (no_types, lifting) imageE image_eqI list.set_map)
  then show ?thesis by (auto simp: hosted_entry_def non_blank_def split: json.splits if_splits)
qed

text \<open>Photo synchronisation counts as complete exactly when the item has local photos, every hosted
  entry is well formed and names a different photo, the hosted photos are exactly the local ones, and the draft carries exactly their URLs
  in the order of the local photos. Nothing less unlocks staging.\<close>

lemma photo_sync_complete_iff:
  assumes "ordered_photos item sku_dir entries = Ok photos"
  shows "photos_uploaded lib item (Some (sku_dir, entries)) = Ok True \<longleftrightarrow>
    photos \<noteq> [] \<and> (\<exists>h. map (hosted_entry sku_dir) (list_or_empty (jget item ''ebay_photos'')) = map Some h
      \<and> distinct (map fst h) \<and> fst ` set h = path_str ` set photos
      \<and> list_or_empty (jget (dict_or_empty (jget item ''draft_listing'')) ''imageUrls'')
          = map (\<lambda>p. JStr (the (map_of h (path_str p)))) photos)"
proof -
  let ?es = "list_or_empty (jget item ''ebay_photos'')"
    and ?urls = "list_or_empty (jget (dict_or_empty (jget item ''draft_listing'')) ''imageUrls'')"
  obtain h n where hn: "hosted_photos sku_dir ?es [] 0 = (h, n)" by (cases "hosted_photos sku_dir ?es [] 0")
  define s where "s = \<lparr>ps_expected_keys = map path_str photos, ps_by_local = h, ps_invalid = n, ps_draft_urls = ?urls\<rparr>"
  have ok: "photos_uploaded lib item (Some (sku_dir, entries)) = Ok (sync_exact s)"
    using assms hn by (simp add: photos_uploaded_def photo_sync_state_def photo_sync_of_def s_def)
  have missing: "missing_photos s = [] \<longleftrightarrow> path_str ` set photos \<subseteq> fst ` set h"
    by (auto simp: missing_photos_def s_def filter_empty_conv map_of_eq_None_iff)
  have "extra_photos s = [] \<longleftrightarrow> map key_name (filter (\<lambda>k. k \<notin> set (ps_expected_keys s)) (map fst (ps_by_local s))) = []"
    unfolding extra_photos_def by (metis mset_sort mset_zero_iff)
  then have extra: "extra_photos s = [] \<longleftrightarrow> fst ` set h \<subseteq> path_str ` set photos"
    by (auto simp: s_def filter_empty_conv)
  have urls: "ordered_urls s = map (\<lambda>p. the (map_of h (path_str p))) photos" if "path_str ` set photos \<subseteq> fst ` set h"
    using that by (auto simp: ordered_urls_def s_def filter_map comp_def map_of_eq_None_iff intro!: arg_cong2[where f = map] filter_True)
  have zero: "n = 0 \<longleftrightarrow> map (hosted_entry sku_dir) ?es = map Some h \<and> distinct (map fst h)"
    using hosted_photos_exact[of "[]" sku_dir ?es 0 h] hn by auto
  have full: "[] \<notin> set (map (\<lambda>p. the (map_of h (path_str p))) photos)" if "n = 0" "path_str ` set photos \<subseteq> fst ` set h"
  proof -
    have "the (map_of h k) \<noteq> []" if "k \<in> fst ` set h" for k
    proof -
      from that obtain u where "map_of h k = Some u" by (metis map_of_eq_None_iff not_None_eq)
      then show ?thesis using hosted_url_nonempty[of sku_dir ?es h k u] zero \<open>n = 0\<close> by (auto dest: map_of_SomeD)
    qed
    then have "\<forall>p\<in>set photos. the (map_of h (path_str p)) \<noteq> []" using that(2) by blast
    then show ?thesis by force
  qed
  have differ: "\<not> urls_differ s \<longleftrightarrow> ?urls = map (\<lambda>p. JStr (the (map_of h (path_str p)))) photos"
    if "n = 0" "path_str ` set photos \<subseteq> fst ` set h"
  proof -
    have "ps_draft_urls s = ?urls" by (simp add: s_def)
    moreover have "map JStr (ordered_urls s) = map (\<lambda>p. JStr (the (map_of h (path_str p)))) photos" using urls[OF that(2)] by simp
    ultimately show ?thesis using valid_urls_all[of s] full[OF that] urls[OF that(2)] valid_urls_strs[of s "ordered_urls s"]
      by (auto simp: urls_differ_def comp_def)
  qed
  have "sync_exact s \<longleftrightarrow> photos \<noteq> [] \<and> n = 0 \<and> fst ` set h = path_str ` set photos
      \<and> ?urls = map (\<lambda>p. JStr (the (map_of h (path_str p)))) photos"
    using missing extra differ by (auto simp: sync_exact_def s_def)
  also have "\<dots> \<longleftrightarrow> photos \<noteq> [] \<and> (\<exists>h. map (hosted_entry sku_dir) ?es = map Some h \<and> distinct (map fst h)
      \<and> fst ` set h = path_str ` set photos \<and> ?urls = map (\<lambda>p. JStr (the (map_of h (path_str p)))) photos)"
  proof -
    have "h' = h" if "map (hosted_entry sku_dir) ?es = map Some h'" "distinct (map fst h')" for h'
      using hosted_photos_exact[of "[]" sku_dir ?es 0 h'] hn that by auto
    then show ?thesis using zero by blast
  qed
  finally show ?thesis using ok by simp
qed

definition sample_synced :: jobj where
  "sample_synced =
     [(''ebay_photos'', JList [JObj [(''local'', JStr ''b9.png''), (''url'', JStr ''https://eps/9 '')],
                              JObj [(''local'', JStr ''/items/A1/a1.JPG''), (''url'', JStr ''https://eps/1'')],
                              JObj [(''local'', JStr ''./b10.jpg''), (''url'', JStr ''https://eps/10'')]]),
      (''draft_listing'', JObj [(''imageUrls'', jstrs [''https://eps/1'', ''https://eps/9'', ''https://eps/10''])])]"

definition sample_dir :: path where
  "sample_dir = py_path ''/items/A1''"

lemma sample_ordered:
  "ordered_photos sample_synced sample_dir sample_entries
     = Ok (map (\<lambda>n. (''/'', [''items'', ''A1'', n])) [''a1.JPG'', ''b9.png'', ''b10.jpg''])"
  by code_simp

lemma sample_hosted:
  "map (hosted_entry sample_dir) (list_or_empty (jget sample_synced ''ebay_photos''))
     = map Some [(''/items/A1/b9.png'', ''https://eps/9''), (''/items/A1/a1.JPG'', ''https://eps/1''), (''/items/A1/b10.jpg'', ''https://eps/10'')]"
  by code_simp

section \<open>Normalising a condition\<close>

text \<open>What the treatment that normalises a condition writes is a condition the snapshot knows, and no alias
  any more: the treatment establishes what its contract says and is then not needed again.\<close>

lemma normalized_condition_valid:
  assumes "normalized_condition v = Some c"
  shows "valid_condition (AList.update ''condition'' (JStr c) item) = Ok True"
    and "condition_normalizable (AList.update ''condition'' (JStr c) item) = Ok False"
proof -
  have "(k, c) \<in> set ALIASES \<Longrightarrow> c \<in> {''Used'', ''For parts or not working''}" for k
    by (auto simp: ALIASES_def)
  then have c: "c \<in> {''Used'', ''For parts or not working''}"
    using assms by (auto simp: normalized_condition_def split: json.splits dest!: map_of_SomeD)
  have known: "list_all (\<lambda>c. py_strip c \<noteq> [] \<and> py_lower (py_strip c) \<in> set KNOWN_CONDITIONS \<and> normalized_condition (JStr c) = None)
      [''Used'', ''For parts or not working'']" by code_simp
  have get: "jget (AList.update ''condition'' (JStr c) item) ''condition'' = JStr c" by (simp add: jget_def)
  show "valid_condition (AList.update ''condition'' (JStr c) item) = Ok True"
    using c known by (auto simp: valid_condition_def get_str_def get)
  show "condition_normalizable (AList.update ''condition'' (JStr c) item) = Ok False"
    using c known by (auto simp: condition_normalizable_def get)
qed

end
