(* ===== verification/Item_Pipeline.thy ===== *)
theory Item_Pipeline
  imports Item_Snapshot
begin

text \<open>
  The item pipeline \<^verbatim>\<open>workflow/item_pipeline.py\<close>: snapshot, evaluation and dispatch of one item, and the
  scan over all item documents. The theorems say which treatment an item gets next, that the pipeline never starts
  external work, what external work needs, and that publishing needs a staged offer of the current content.
\<close>

section \<open>Results\<close>

definition PIPELINE_EVALUATOR_VERSION :: string where
  "PIPELINE_EVALUATOR_VERSION = ''item-pipeline/v1''"

record item_result =
  ir_sku :: string
  ir_generation :: string
  ir_dispatched :: "dispatch_result list"
  skipped_waiting :: "string list"
  skipped_conflict :: "string list"
  skipped_satisfied :: bool
  ir_error :: string

definition dispatched_count :: "item_result \<Rightarrow> nat" where
  "dispatched_count r = length (filter enqueued (ir_dispatched r))"

definition skipped_count :: "item_result \<Rightarrow> nat" where
  "skipped_count r = length (skipped_waiting r) + length (skipped_conflict r) + (if skipped_satisfied r then 1 else 0)"

record pipeline_summary =
  sm_total :: nat
  sm_dispatched :: nat
  sm_skipped_waiting :: nat
  sm_skipped_conflict :: nat
  sm_skipped_satisfied :: nat
  sm_errors :: nat
  sm_results :: "item_result list"

definition empty_summary :: pipeline_summary where
  "empty_summary = \<lparr>sm_total = 0, sm_dispatched = 0, sm_skipped_waiting = 0, sm_skipped_conflict = 0,
     sm_skipped_satisfied = 0, sm_errors = 0, sm_results = []\<rparr>"

text \<open>\<^verbatim>\<open>str(exc)\<close>\<close>

fun error_text :: "py_error \<Rightarrow> string" where
  "error_text (ValueError m) = m"
| "error_text (TypeError m) = m"
| "error_text (RuntimeError m) = m"
| "error_text (KeyError k) = [CHR 0x27] @ k @ [CHR 0x27]"
| "error_text (AttributeError m) = m"
| "error_text (MissingManifestFieldError m) = m"
| "error_text (EbayQueueEnvironmentError m) = m"
| "error_text (UniqueViolation m) = m"
| "error_text (CheckViolation m) = m"
| "error_text (DatabaseError m) = m"
| "error_text (ProviderEffectConflict m) = m"
| "error_text (ProviderEffectReconciliationRequired m) = m"
| "error_text (ProviderObservationConflict m) = m"
| "error_text (GenerationConflict m) = m"
| "error_text (OverflowError m) = m"
| "error_text (PlanResolutionError m) = m"
| "error_text (StalePlanCommit m) = m"
| "error_text (OSError m) = m"
| "error_text (FileNotFoundError m) = m"

section \<open>One item\<close>

definition all_requirements_satisfied :: "runtime_work_graph \<Rightarrow> bool" where
  "all_requirements_satisfied g =
     (\<not> (unmet_requirements g \<noteq> [] \<or> filter (\<lambda>(r, f). f \<notin> {TRUE, NOT_APPLICABLE}) (explicit_requirements g) \<noteq> []))"

definition waiting_line :: "treatment_disposition \<Rightarrow> string" where
  "waiting_line w = treatment_id w @ '': '' @ py_join ''; '' (disp_reasons w)"

text \<open>\<open>enq\<close> is the enqueue function and \<open>db\<close> the state of the queue; \<open>extra\<close> is \<^verbatim>\<open>payload_extra\<close>, empty when none is given.\<close>

definition process_item ::
  "(manifest \<Rightarrow> 's \<Rightarrow> (string \<times> 's) result) \<Rightarrow> pylib \<Rightarrow> (json \<Rightarrow> string) \<Rightarrow> item_files \<Rightarrow> path \<Rightarrow> goal_profile \<Rightarrow>
   treatment_contract list \<Rightarrow> jobj \<Rightarrow> 's \<Rightarrow> item_result \<times> 's" where
  "process_item enq lib cs fs p goal ts extra db =
     (let result = \<lparr>ir_sku = path_name (path_parent p), ir_generation = [], ir_dispatched = [], skipped_waiting = [],
            skipped_conflict = [], skipped_satisfied = False, ir_error = []\<rparr>
      in case build_item_snapshot lib cs fs p goal ts no_inputs of
           Inl e \<Rightarrow> (result\<lparr>ir_error := error_text e\<rparr>, db)
         | Inr snap \<Rightarrow>
             (let result = result\<lparr>ir_generation := generation snap\<rparr>;
                  graph = evaluate lib snap goal ts PIPELINE_EVALUATOR_VERSION []
              in if all_requirements_satisfied graph \<and> unmet_requirements graph = []
                 then (result\<lparr>skipped_satisfied := True\<rparr>, db)
                 else (case eligible_treatments graph of
                         disp # _ \<Rightarrow>
                           (case dispatch_treatment_v4 enq disp (snap_object_id snap) (Some graph) extra ''item'' db of
                              Inl e \<Rightarrow> (result\<lparr>ir_error := error_text e\<rparr>, db)
                            | Inr (dr, db') \<Rightarrow> (result\<lparr>ir_dispatched := [dr]\<rparr>, db'))
                       | [] \<Rightarrow>
                           (result\<lparr>skipped_waiting := map waiting_line (waiting_treatments graph),
                                   skipped_satisfied := (waiting_treatments graph = [])\<rparr>, db))))"

section \<open>All items\<close>

definition add_result :: "pipeline_summary \<Rightarrow> item_result \<Rightarrow> pipeline_summary" where
  "add_result s r =
     \<lparr>sm_total = sm_total s + 1, sm_dispatched = sm_dispatched s + dispatched_count r,
      sm_skipped_waiting = sm_skipped_waiting s + length (skipped_waiting r),
      sm_skipped_conflict = sm_skipped_conflict s + length (skipped_conflict r),
      sm_skipped_satisfied = sm_skipped_satisfied s + (if skipped_satisfied r then 1 else 0),
      sm_errors = sm_errors s + (if ir_error r \<noteq> [] then 1 else 0), sm_results = sm_results s @ [r]\<rparr>"

fun process_loop ::
  "(path \<Rightarrow> 's \<Rightarrow> item_result \<times> 's) \<Rightarrow> int option \<Rightarrow> int \<Rightarrow> path list \<Rightarrow> pipeline_summary \<Rightarrow> 's \<Rightarrow> pipeline_summary \<times> 's" where
  "process_loop step limit processed [] summary db = (summary, db)"
| "process_loop step limit processed (p # ps) summary db =
     (if (case limit of None \<Rightarrow> False | Some l \<Rightarrow> processed \<ge> l) then (summary, db)
      else (let (r, db') = step p db in process_loop step limit (processed + 1) ps (add_result summary r) db'))"

text \<open>\<open>found\<close> is what \<^verbatim>\<open>root.rglob("item.json")\<close> yields.\<close>

definition process_items ::
  "(manifest \<Rightarrow> 's \<Rightarrow> (string \<times> 's) result) \<Rightarrow> pylib \<Rightarrow> (json \<Rightarrow> string) \<Rightarrow> item_files \<Rightarrow> path list \<Rightarrow> goal_profile \<Rightarrow>
   treatment_contract list \<Rightarrow> int option \<Rightarrow> jobj \<Rightarrow> 's \<Rightarrow> pipeline_summary \<times> 's" where
  "process_items enq lib cs fs found goal ts limit extra db =
     process_loop (\<lambda>p. process_item enq lib cs fs p goal ts extra) limit 0 (sort_key path_key found) empty_summary db"

definition evaluate_and_dispatch ::
  "(manifest \<Rightarrow> 's \<Rightarrow> (string \<times> 's) result) \<Rightarrow> pylib \<Rightarrow> object_snapshot \<Rightarrow> goal_profile \<Rightarrow> treatment_contract list \<Rightarrow>
   string \<Rightarrow> jobj \<Rightarrow> 's \<Rightarrow> ((dispatch_result option \<times> string list \<times> string list \<times> bool) \<times> 's) result" where
  "evaluate_and_dispatch enq lib snap goal ts eid extra db =
     (let graph = evaluate lib snap goal ts PIPELINE_EVALUATOR_VERSION []
      in if all_requirements_satisfied graph then Ok ((None, [], [], True), db)
         else (case eligible_treatments graph of
                 disp # _ \<Rightarrow>
                   bind_result (dispatch_treatment_v4 enq disp eid (Some graph) extra ''item'' db)
                     (\<lambda>(dr, db'). Ok ((Some dr, [], [], False), db'))
               | [] \<Rightarrow>
                   (let waiting = map waiting_line (waiting_treatments graph) in Ok ((None, waiting, [], waiting = []), db))))"

section \<open>What a treatment of the registry needs\<close>

lemma requirement_in_ids: "t \<in> set ts \<Longrightarrow> r \<in> set (requires t) \<Longrightarrow> rq_condition_id r \<in> set (condition_ids goal ts)"
  by (rule condition_ids_cover)

lemma eligible_requirement:
  assumes "t \<in> set ts" and "r \<in> set (requires t)"
    and "fst (classify snap relevant t)"
  shows "fp_result (by_id snap (rq_condition_id r)) \<in> set (accepted_results r)"
  using assms by (auto simp: classify_eligible unmet_of_def filter_empty_conv)

lemma eligible_contract:
  assumes "d \<in> set (eligible_treatments (evaluate lib snap goal ts version attempts))"
  obtains t relevant where "t \<in> set ts" "fst (classify snap relevant t)" "treatment_id d = tr_identity t" "treatment_version d = tr_version t"
proof -
  define relevant where "relevant = filter (relevant_attempt snap ts (graph_condition_hash lib snap goal ts)) attempts"
  have "eligible_treatments (evaluate lib snap goal ts version attempts) = map snd (filter fst (map (classify snap relevant) (by_identity ts)))"
    by (simp add: evaluate_def Let_def relevant_def)
  with assms obtain t where "t \<in> set ts" "fst (classify snap relevant t)" "d = snd (classify snap relevant t)"
    by (force simp: by_identity_def)
  then show thesis by (intro that) (simp_all add: classify_disposition)
qed

lemma registry_identity:
  assumes "t \<in> set ALL_TREATMENTS" and "u \<in> set ALL_TREATMENTS" and "tr_identity t = tr_identity u"
  shows "t = u"
proof -
  have "distinct (map tr_identity ALL_TREATMENTS)" by code_simp
  then show ?thesis using assms by (auto simp: distinct_map inj_on_def)
qed

lemma needed_condition:
  assumes "build_item_snapshot lib cs fs p goal ts si = Ok snap" and "set ts \<subseteq> set ALL_TREATMENTS"
    and "d \<in> set (eligible_treatments (evaluate lib snap goal ts version attempts))"
    and "treatment_id d = tr_identity t" and "t \<in> set ALL_TREATMENTS" and "r \<in> set (requires t)"
  shows "rq_condition_id r \<in> set (condition_ids goal ts) \<and> fp_result (by_id snap (rq_condition_id r)) \<in> set (accepted_results r)"
proof -
  obtain u relevant where u: "u \<in> set ts" "fst (classify snap relevant u)" "treatment_id d = tr_identity u"
    by (rule eligible_contract[OF assms(3)])
  then have "u = t" using assms(2,4,5) registry_identity[of u t] by auto
  then show ?thesis using u assms(6) requirement_in_ids eligible_requirement by metis
qed

lemma needs_checker:
  assumes "build_item_snapshot lib cs fs p goal ts si = Ok snap" and "read_json fs p = Ok (JObj item)"
    and "set ts \<subseteq> set ALL_TREATMENTS" and "d \<in> set (eligible_treatments (evaluate lib snap goal ts version attempts))"
    and "treatment_id d = tr_identity t" and "t \<in> set ALL_TREATMENTS" and "needs c \<in> set (requires t)"
    and "map_of (item_checkers lib cs (path_parent p, iterdir fs (path_parent p)) item) c = Some r" and "c \<noteq> ''photos_uploaded''"
  shows "r = Ok True"
proof -
  have n: "c \<in> set (condition_ids goal ts)" "fp_result (by_id snap c) = TRUE"
    using needed_condition[OF assms(1,3-7)] by simp_all
  obtain met where "r = Ok met" "fp_result (by_id snap c) = (if met then TRUE else FALSE)"
    using verdict_checker[OF assms(1,2) n(1) assms(8,9)] by blast
  then show ?thesis using n(2) by (cases met) simp_all
qed

lemma needs_scope:
  assumes "build_item_snapshot lib cs fs p goal ts si = Ok snap" and "set ts \<subseteq> set ALL_TREATMENTS"
    and "d \<in> set (eligible_treatments (evaluate lib snap goal ts version attempts))"
    and "treatment_id d = tr_identity t" and "t \<in> set ALL_TREATMENTS" and "needs (AUTHORIZED_PREFIX @ s) \<in> set (requires t)"
  shows "replace_char (CHR ''_'') (CHR ''-'') s \<in> set (authorized_scopes si)"
proof -
  have n: "AUTHORIZED_PREFIX @ s \<in> set (condition_ids goal ts)" "fp_result (by_id snap (AUTHORIZED_PREFIX @ s)) = TRUE"
    using needed_condition[OF assms] by simp_all
  show ?thesis using verdict_authority[OF assms(1) n(1)] n(2) by (auto simp: condition_scope_def split: if_splits)
qed

section \<open>External work\<close>

lemma external_registry:
  "list_all (\<lambda>t. tr_effect_class t = LOCAL \<or> t = EBAY_SYNC_TARGETED
      \<or> list_ex (\<lambda>s. tr_identity t = ''ebay-'' @ s \<and> needs (AUTHORIZED_PREFIX @ s) \<in> set (requires t))
          [''upload'', ''stage'', ''publish'', ''withdraw'']) ALL_TREATMENTS"
  by code_simp

text \<open>C27: whatever goal, registry and evidence, an external treatment is eligible only when the
  caller passed the operator's authority for exactly its scope (for upload, stage, publish and withdrawal), or, for the targeted
  reconciliation, a receipt that names a provider effect. Document fields alone never make external work eligible.\<close>

theorem external_work_needs_authority:
  assumes "build_item_snapshot lib cs fs p goal ts si = Ok snap" and "set ts \<subseteq> set ALL_TREATMENTS"
    and "d \<in> set (eligible_treatments (evaluate lib snap goal ts version attempts))"
    and "t \<in> set ALL_TREATMENTS" and "treatment_id d = tr_identity t" and "tr_effect_class t = EXTERNAL"
  shows "(\<exists>scope\<in>set (authorized_scopes si). tr_identity t = ''ebay-'' @ scope)
    \<or> t = EBAY_SYNC_TARGETED \<and> (\<exists>r e. provider_projection_receipt si = Some r \<and> pr_provider_effect_id r = Some e \<and> non_blank e)"
proof -
  note scope = needs_scope[OF assms(1-3,5,4)]
  have "tr_effect_class t = LOCAL \<or> t = EBAY_SYNC_TARGETED
      \<or> list_ex (\<lambda>s. tr_identity t = ''ebay-'' @ s \<and> needs (AUTHORIZED_PREFIX @ s) \<in> set (requires t))
          [''upload'', ''stage'', ''publish'', ''withdraw'']"
    using external_registry assms(4) unfolding list_all_iff by (rule bspec)
  then consider "t = EBAY_SYNC_TARGETED"
    | s where "s \<in> set [''upload'', ''stage'', ''publish'', ''withdraw'']" "tr_identity t = ''ebay-'' @ s"
        "needs (AUTHORIZED_PREFIX @ s) \<in> set (requires t)"
    using assms(6) unfolding list_ex_iff by fastforce
  then show ?thesis
  proof cases
    case 1
    then have r: "needs ''provider_effect_succeeded'' \<in> set (requires t)" by (simp add: EBAY_SYNC_TARGETED_def)
    have n: "''provider_effect_succeeded'' \<in> set (condition_ids goal ts)" "fp_result (by_id snap ''provider_effect_succeeded'') = TRUE"
      using needed_condition[OF assms(1-3,5,4) r] by simp_all
    then have "projection_met (generation snap) ''provider_effect_succeeded'' (provider_projection_receipt si)"
      using verdict_projection[OF assms(1) n(1)] by (auto split: if_splits)
    then show ?thesis using 1 by (auto simp: projection_met_def split: option.splits)
  next
    case 2
    then have "replace_char (CHR ''_'') (CHR ''-'') s = s" by (auto simp: replace_char_def)
    then show ?thesis using scope[OF 2(3)] 2(2) by auto
  qed
qed

text \<open>C26: publishing is eligible only for an item that may be sold, has an offer, and is not listed already, when the operator
  authorised publishing and the authoritative receipt of the staged content, found under the item's SKU, is for exactly the
  content the document has now.\<close>

theorem publish_needs_current_stage:
  assumes "build_item_snapshot lib cs fs p goal ts si = Ok snap" and "read_json fs p = Ok (JObj item)"
    and "set ts \<subseteq> set ALL_TREATMENTS"
    and "d \<in> set (eligible_treatments (evaluate lib snap goal ts version attempts))" and "treatment_id d = ''ebay-publish''"
  shows "''publish'' \<in> set (authorized_scopes si) \<and> inventory_available lib cs item = Ok True \<and> staged item = Ok True
    \<and> \<not> published lib cs item
    \<and> (\<exists>lookup r i. stage_receipt_lookup si = Some lookup \<and> lookup (item_sku item p) = Ok (Some r)
        \<and> sr_content_identity r = Some (listing_content_identity lib item) \<and> sr_receipt_id r = Some i \<and> non_blank i)"
proof -
  have t: "treatment_id d = tr_identity EBAY_PUBLISH" "EBAY_PUBLISH \<in> set ALL_TREATMENTS"
    using assms(5) by (simp_all add: EBAY_PUBLISH_def ALL_TREATMENTS_def TGW_TREATMENTS_def)
  have req: "needs c \<in> set (requires EBAY_PUBLISH)"
    if "c \<in> {''inventory_available'', ''staged'', ''staged_content_current'', AUTHORIZED_PREFIX @ ''publish''}" for c
    using that by (auto simp: EBAY_PUBLISH_def AUTHORIZED_PREFIX_def)
  have "replace_char (CHR ''_'') (CHR ''-'') ''publish'' = ''publish''" by code_simp
  then have auth: "''publish'' \<in> set (authorized_scopes si)"
    using needs_scope[OF assms(1,3,4) t req, of "''publish''"] by simp
  have inv: "inventory_available lib cs item = Ok True"
    by (rule needs_checker[OF assms(1-4) t req[of "''inventory_available''"]]) (simp_all add: item_checkers_def)
  have st: "staged item = Ok True"
    by (rule needs_checker[OF assms(1-4) t req[of "''staged''"]]) (simp_all add: item_checkers_def)
  have n: "''staged_content_current'' \<in> set (condition_ids goal ts)" "fp_result (by_id snap ''staged_content_current'') = TRUE"
    using needed_condition[OF assms(1,3,4) t req[of "''staged_content_current''"]] by simp_all
  have sku: "snap_object_id snap = item_sku item p" by (rule build_OkD[OF assms(1)]) (use assms(2) in simp)
  obtain offer receipt where v: "staged item = Ok offer"
    "(case stage_receipt_lookup si of None \<Rightarrow> Ok None | Some lookup \<Rightarrow> lookup (snap_object_id snap)) = Ok receipt"
    "TRUE = fst (stage_verdict (published lib cs item \<and> \<not> require_current_stage si) offer (listing_content_identity lib item) receipt)"
    by (rule verdict_stage[OF assms(1,2) n(1)]) (use n(2) in simp)
  have r: "\<exists>r i. receipt = Some r \<and> sr_content_identity r = Some (listing_content_identity lib item) \<and> sr_receipt_id r = Some i \<and> non_blank i"
    using v(3) by (auto simp: stage_verdict_def split: if_splits option.splits)
  then have look: "\<exists>lookup. stage_receipt_lookup si = Some lookup \<and> lookup (item_sku item p) = Ok receipt"
    using v(2) sku by (auto split: option.splits)
  obtain u relevant where u: "u \<in> set ts" "fst (classify snap relevant u)" "treatment_id d = tr_identity u"
    by (rule eligible_contract[OF assms(4)])
  then have "u = EBAY_PUBLISH" using assms(3) t registry_identity[of u EBAY_PUBLISH] by auto
  then have pub: "EBAY_PUBLISH \<in> set ts" "\<not> all_established snap EBAY_PUBLISH" using u by (auto simp: classify_eligible)
  then have "fp_result (by_id snap ''published'') \<noteq> TRUE" by (auto simp: all_established_def established_def EBAY_PUBLISH_def)
  moreover have "''published'' \<in> set (condition_ids goal ts)" using condition_ids_cover(3)[OF pub(1)] by (simp add: EBAY_PUBLISH_def)
  then have "fp_result (by_id snap ''published'') = (if published lib cs item then TRUE else FALSE)"
    using verdict_checker[OF assms(1,2), of "''published''"] by (simp add: item_checkers_def)
  ultimately have "\<not> published lib cs item" by auto
  then show ?thesis using auth inv st r look by blast
qed

section \<open>The next local work\<close>

text \<open>What the pipeline can do for an item by itself, in the order in which it is offered: identify it, draft it, price it, normalise its condition.\<close>

definition local_work :: "bool \<Rightarrow> bool \<Rightarrow> bool \<Rightarrow> bool \<Rightarrow> bool \<Rightarrow> bool \<Rightarrow> bool \<Rightarrow> string list" where
  "local_work photos inventory identified drafted has_price condition_ok alias =
     (if photos \<and> \<not> identified then [''ai-identify''] else [])
     @ (if inventory \<and> identified \<and> \<not> drafted then [''ebay-draft''] else [])
     @ (if inventory \<and> drafted \<and> \<not> has_price then [''ebay-price''] else [])
     @ (if \<not> condition_ok \<and> alias then [''normalize-condition''] else [])"

lemma tgw_by_identity:
  "by_identity TGW_TREATMENTS =
     [AI_IDENTIFY, EBAY_DRAFT, EBAY_PRICE, EBAY_PUBLISH, EBAY_STAGE, EBAY_SYNC_TARGETED, EBAY_UPLOAD, NORMALIZE_CONDITION]"
  by code_simp

definition pipeline_facts ::
  "pylib \<Rightarrow> (json \<Rightarrow> string) \<Rightarrow> path \<times> dir_entries \<Rightarrow> jobj \<Rightarrow> bool \<Rightarrow> bool \<Rightarrow> bool \<Rightarrow> bool \<Rightarrow> bool \<Rightarrow> bool \<Rightarrow> bool \<Rightarrow> bool" where
  "pipeline_facts lib cs dir item photos inventory identified drafted has_price condition_ok alias \<longleftrightarrow>
     has_photos item (Some dir) = Ok photos \<and> inventory_available lib cs item = Ok inventory \<and> ai_identified item = Ok identified
     \<and> draft_generated lib cs item = Ok drafted \<and> priced item = Ok has_price \<and> valid_condition item = Ok condition_ok
     \<and> condition_normalizable item = Ok alias"

lemma tgw_conditions:
  "set [''item_has_photos'', ''inventory_available'', ''ai_identified'', ''draft_generated'', ''priced'', ''valid_condition'',
     ''condition_normalizable'', ''operator_authorized_upload'', ''operator_authorized_stage'', ''operator_authorized_publish'',
     ''provider_effect_succeeded''] \<subseteq> set (condition_ids goal TGW_TREATMENTS)"
  by (simp add: condition_ids_def TGW_TREATMENTS_def contract_defs)

text \<open>The verdicts that decide about local work, and the ones that hold external work back.\<close>

lemma pipeline_verdicts:
  assumes "build_item_snapshot lib cs fs p goal TGW_TREATMENTS no_inputs = Ok snap" and "read_json fs p = Ok (JObj item)"
    and "pipeline_facts lib cs (path_parent p, iterdir fs (path_parent p)) item ph av ai dr pr vc al"
  shows "fp_result (by_id snap ''item_has_photos'') = (if ph then TRUE else FALSE)"
    "fp_result (by_id snap ''inventory_available'') = (if av then TRUE else FALSE)"
    "fp_result (by_id snap ''ai_identified'') = (if ai then TRUE else FALSE)"
    "fp_result (by_id snap ''draft_generated'') = (if dr then TRUE else FALSE)"
    "fp_result (by_id snap ''priced'') = (if pr then TRUE else FALSE)"
    "fp_result (by_id snap ''valid_condition'') = (if vc then TRUE else FALSE)"
    "fp_result (by_id snap ''condition_normalizable'') = (if al then TRUE else FALSE)"
    "fp_result (by_id snap ''operator_authorized_upload'') = FALSE"
    "fp_result (by_id snap ''operator_authorized_stage'') = FALSE"
    "fp_result (by_id snap ''operator_authorized_publish'') = FALSE"
    "fp_result (by_id snap ''provider_effect_succeeded'') = UNKNOWN"
proof -
  have ids: "c \<in> set (condition_ids goal TGW_TREATMENTS)"
    if "c \<in> set [''item_has_photos'', ''inventory_available'', ''ai_identified'', ''draft_generated'', ''priced'', ''valid_condition'',
     ''condition_normalizable'', ''operator_authorized_upload'', ''operator_authorized_stage'', ''operator_authorized_publish'',
     ''provider_effect_succeeded'']" for c
    using tgw_conditions that by (rule subsetD)
  have checker: "fp_result (by_id snap c) = (if met then TRUE else FALSE)"
    if "c \<in> set (condition_ids goal TGW_TREATMENTS)" "c \<noteq> ''photos_uploaded''"
      "map_of (item_checkers lib cs (path_parent p, iterdir fs (path_parent p)) item) c = Some (Ok met)" for c met
    using verdict_checker[OF assms(1,2) that(1,3,2)] by auto
  note facts = assms(3)[unfolded pipeline_facts_def]
  show "fp_result (by_id snap ''item_has_photos'') = (if ph then TRUE else FALSE)"
    by (rule checker[OF ids]) (simp_all add: item_checkers_def facts)
  show "fp_result (by_id snap ''inventory_available'') = (if av then TRUE else FALSE)"
    by (rule checker[OF ids]) (simp_all add: item_checkers_def facts)
  show "fp_result (by_id snap ''ai_identified'') = (if ai then TRUE else FALSE)"
    by (rule checker[OF ids]) (simp_all add: item_checkers_def facts)
  show "fp_result (by_id snap ''draft_generated'') = (if dr then TRUE else FALSE)"
    by (rule checker[OF ids]) (simp_all add: item_checkers_def facts)
  show "fp_result (by_id snap ''priced'') = (if pr then TRUE else FALSE)"
    by (rule checker[OF ids]) (simp_all add: item_checkers_def facts)
  show "fp_result (by_id snap ''valid_condition'') = (if vc then TRUE else FALSE)"
    by (rule checker[OF ids]) (simp_all add: item_checkers_def facts)
  show "fp_result (by_id snap ''condition_normalizable'') = (if al then TRUE else FALSE)"
    by (rule checker[OF ids]) (simp_all add: item_checkers_def facts)
  have auth: "fp_result (by_id snap c) = FALSE" if "c \<in> set (condition_ids goal TGW_TREATMENTS)" "starts_with c AUTHORIZED_PREFIX" for c
    using verdict_authority[OF assms(1) that] by (simp add: no_inputs_def)
  show "fp_result (by_id snap ''operator_authorized_upload'') = FALSE" "fp_result (by_id snap ''operator_authorized_stage'') = FALSE"
    "fp_result (by_id snap ''operator_authorized_publish'') = FALSE"
    by (rule auth[OF ids]; simp add: AUTHORIZED_PREFIX_def starts_with_def)+
  show "fp_result (by_id snap ''provider_effect_succeeded'') = UNKNOWN"
    using verdict_projection[OF assms(1) ids, of "''provider_effect_succeeded''"] by (simp add: no_inputs_def projection_met_def)
qed

lemma tgw_eligible:
  assumes "build_item_snapshot lib cs fs p goal TGW_TREATMENTS no_inputs = Ok snap" and "read_json fs p = Ok (JObj item)"
    and "pipeline_facts lib cs (path_parent p, iterdir fs (path_parent p)) item ph av ai dr pr vc al"
  shows "map treatment_id (eligible_treatments (evaluate lib snap goal TGW_TREATMENTS version [])) = local_work ph av ai dr pr vc al"
proof -
  note v = pipeline_verdicts[OF assms]
  have amb: "external_effect_ambiguities snap = []" by (rule build_OkD[OF assms(1)]) (simp add: no_inputs_def sorted_set_def)
  have eligible: "fst (classify snap [] t) \<longleftrightarrow> unmet_of snap t = [] \<and> \<not> all_established snap t" for t
    by (simp add: classify_eligible ambiguity_of_def amb unchanged_attempts_def sorted_set_def)
  have "fst (classify snap [] AI_IDENTIFY) \<longleftrightarrow> ph \<and> \<not> ai" "fst (classify snap [] EBAY_DRAFT) \<longleftrightarrow> av \<and> ai \<and> \<not> dr"
    "fst (classify snap [] EBAY_PRICE) \<longleftrightarrow> av \<and> dr \<and> \<not> pr" "fst (classify snap [] NORMALIZE_CONDITION) \<longleftrightarrow> \<not> vc \<and> al"
    "\<not> fst (classify snap [] EBAY_PUBLISH)" "\<not> fst (classify snap [] EBAY_STAGE)" "\<not> fst (classify snap [] EBAY_SYNC_TARGETED)"
    "\<not> fst (classify snap [] EBAY_UPLOAD)"
    unfolding eligible by (simp_all add: unmet_of_def all_established_def established_def contract_defs v)
  then show ?thesis
    by (simp add: eligible_without_attempts tgw_by_identity local_work_def classify_disposition)
      (simp add: contract_defs)
qed

lemma all_satisfied_iff:
  "all_requirements_satisfied (evaluate lib snap goal ts version attempts) \<longleftrightarrow>
     (\<forall>c\<in>set (required goal). established (fp_result (by_id snap c)))"
proof -
  have ex: "established x \<longleftrightarrow> x \<noteq> FALSE \<and> x \<notin> {UNKNOWN, STALE, CONTRADICTORY}" for x by (cases x) (simp_all add: established_def)
  have "filter (\<lambda>(r, f). f \<notin> {TRUE, NOT_APPLICABLE}) (map (\<lambda>c. (c, h c)) (filter (\<lambda>c. h c \<in> {UNKNOWN, STALE, CONTRADICTORY}) cs)) = []
      \<longleftrightarrow> (\<forall>c\<in>set cs. h c \<notin> {UNKNOWN, STALE, CONTRADICTORY})" for h and cs :: "string list"
    by (induction cs) auto
  then have "all_requirements_satisfied (evaluate lib snap goal ts version attempts) \<longleftrightarrow>
      (\<forall>c\<in>set (required goal). fp_result (by_id snap c) \<noteq> FALSE) \<and>
      (\<forall>c\<in>set (required goal). fp_result (by_id snap c) \<notin> {UNKNOWN, STALE, CONTRADICTORY})"
    by (simp add: all_requirements_satisfied_def evaluate_def Let_def filter_empty_conv)
  then show ?thesis unfolding ex by blast
qed

lemma dispatch_plain:
  obtains ok jid oc db' where "dispatch_treatment_v4 enq d eid (Some g) [] ''item'' db = Ok (dispatched d eid ok jid oc, db')"
proof -
  have "map_of (disposition_payload d eid (Some g)) ''sku'' = None" by (simp add: disposition_payload_def)
  then obtain payload where "dispatch_payload d eid (Some g) [] ''item'' = Ok payload"
    by (simp add: dispatch_payload_def has_key_def jget_def)
  then have "\<exists>ok jid oc db'. dispatch_treatment_v4 enq d eid (Some g) [] ''item'' db = Ok (dispatched d eid ok jid oc, db')"
    by (cases "enq (dispatch_manifest d eid (graph_generation (Some g)) ''item'' payload) db") (auto simp: dispatch_treatment_v4_def)
  then show thesis using that by blast
qed

lemma process_item_first:
  assumes "build_item_snapshot lib cs fs p goal ts no_inputs = Ok snap"
    and "\<not> (\<forall>c\<in>set (required goal). established (fp_result (by_id snap c)))"
    and "eligible_treatments (evaluate lib snap goal ts PIPELINE_EVALUATOR_VERSION []) = d # ds"
  shows "map dr_treatment_id (ir_dispatched (fst (process_item enq lib cs fs p goal ts [] db))) = [treatment_id d]"
    and "ir_error (fst (process_item enq lib cs fs p goal ts [] db)) = []"
proof -
  let ?g = "evaluate lib snap goal ts PIPELINE_EVALUATOR_VERSION []"
  obtain ok jid oc db' where *: "dispatch_treatment_v4 enq d (snap_object_id snap) (Some ?g) [] ''item'' db
      = Ok (dispatched d (snap_object_id snap) ok jid oc, db')"
    by (rule dispatch_plain)
  have "\<not> all_requirements_satisfied ?g" using assms(2) by (simp add: all_satisfied_iff)
  then show "map dr_treatment_id (ir_dispatched (fst (process_item enq lib cs fs p goal ts [] db))) = [treatment_id d]"
    "ir_error (fst (process_item enq lib cs fs p goal ts [] db)) = []"
    using assms(1,3) * by (simp_all add: process_item_def Let_def dispatched_def)
qed

lemma process_item_satisfied:
  assumes "build_item_snapshot lib cs fs p goal ts no_inputs = Ok snap"
    and "\<forall>c\<in>set (required goal). established (fp_result (by_id snap c))"
  shows "process_item enq lib cs fs p goal ts extra db =
    (\<lparr>ir_sku = path_name (path_parent p), ir_generation = generation snap, ir_dispatched = [], skipped_waiting = [],
      skipped_conflict = [], skipped_satisfied = True, ir_error = []\<rparr>, db)"
proof -
  have "all_requirements_satisfied (evaluate lib snap goal ts PIPELINE_EVALUATOR_VERSION [])"
    using assms(2) by (simp add: all_satisfied_iff)
  then show ?thesis using assms(1) by (simp add: process_item_def Let_def all_requirements_satisfied_def)
qed

lemma process_item_idle:
  assumes "build_item_snapshot lib cs fs p goal ts no_inputs = Ok snap"
    and "eligible_treatments (evaluate lib snap goal ts PIPELINE_EVALUATOR_VERSION []) = []"
  shows "ir_dispatched (fst (process_item enq lib cs fs p goal ts extra db)) = []"
    "snd (process_item enq lib cs fs p goal ts extra db) = db" "ir_error (fst (process_item enq lib cs fs p goal ts extra db)) = []"
  using assms by (simp_all add: process_item_def Let_def)

text \<open>C28: for a readable item the pipeline dispatches nothing when the goal is reached, and otherwise exactly the first piece
  of local work the document calls for: identification when there are photos, then the draft and the price while the item may be sold,
  then the normalisation of its condition. Nothing external is ever dispatched, and without a dispatch the queue is untouched.\<close>

theorem process_item_next_work:
  assumes "build_item_snapshot lib cs fs p goal TGW_TREATMENTS no_inputs = Ok snap" and "read_json fs p = Ok (JObj item)"
    and "pipeline_facts lib cs (path_parent p, iterdir fs (path_parent p)) item photos available identified drafted has_price condition_ok alias"
  shows "map dr_treatment_id (ir_dispatched (fst (process_item enq lib cs fs p goal TGW_TREATMENTS [] db)))
      = (if \<forall>c\<in>set (required goal). established (fp_result (by_id snap c)) then []
         else take 1 (local_work photos available identified drafted has_price condition_ok alias))
    \<and> ir_error (fst (process_item enq lib cs fs p goal TGW_TREATMENTS [] db)) = []
    \<and> (ir_dispatched (fst (process_item enq lib cs fs p goal TGW_TREATMENTS [] db)) = [] \<longrightarrow>
         snd (process_item enq lib cs fs p goal TGW_TREATMENTS [] db) = db)"
proof (cases "\<forall>c\<in>set (required goal). established (fp_result (by_id snap c))")
  case True
  then show ?thesis using process_item_satisfied[OF assms(1) True, of enq "[]" db] by simp
next
  case False
  let ?e = "eligible_treatments (evaluate lib snap goal TGW_TREATMENTS PIPELINE_EVALUATOR_VERSION [])"
  note w = tgw_eligible[OF assms, of PIPELINE_EVALUATOR_VERSION]
  show ?thesis
  proof (cases ?e)
    case Nil
    then have "local_work photos available identified drafted has_price condition_ok alias = []" using w by simp
    then show ?thesis using process_item_idle[OF assms(1) Nil, of enq "[]" db] False by simp
  next
    case (Cons d ds)
    note first = process_item_first[OF assms(1) False Cons, of enq db]
    have "take 1 (local_work photos available identified drafted has_price condition_ok alias) = [treatment_id d]"
      using w Cons by (metis One_nat_def list.simps(9) take_0 take_Suc_Cons)
    then show ?thesis using first False by auto
  qed
qed

text \<open>An item with photos and stock never stalls on its way to a price: as long as it is readable, the
  pipeline either reports the goal \<^verbatim>\<open>tgw.ebay_priced\<close> as reached, which is then the case, or dispatches one treatment.\<close>

lemma item_reaches_priced:
  assumes "build_item_snapshot lib cs fs p TGW_EBAY_PRICED TGW_TREATMENTS no_inputs = Ok snap" and "read_json fs p = Ok (JObj item)"
    and "pipeline_facts lib cs (path_parent p, iterdir fs (path_parent p)) item True True identified drafted has_price condition_ok alias"
  shows "(if identified \<and> drafted \<and> has_price
      then skipped_satisfied (fst (process_item enq lib cs fs p TGW_EBAY_PRICED TGW_TREATMENTS [] db))
        \<and> snd (process_item enq lib cs fs p TGW_EBAY_PRICED TGW_TREATMENTS [] db) = db
      else map dr_treatment_id (ir_dispatched (fst (process_item enq lib cs fs p TGW_EBAY_PRICED TGW_TREATMENTS [] db)))
        = [if \<not> identified then ''ai-identify'' else if \<not> drafted then ''ebay-draft'' else ''ebay-price''])"
proof -
  note v = pipeline_verdicts[OF assms]
  have met: "(\<forall>c\<in>set (required TGW_EBAY_PRICED). established (fp_result (by_id snap c))) \<longleftrightarrow> identified \<and> drafted \<and> has_price"
    by (auto simp: TGW_EBAY_PRICED_def v established_def)
  show ?thesis
  proof (cases "identified \<and> drafted \<and> has_price")
    case True
    then show ?thesis using process_item_satisfied[OF assms(1), of enq "[]" db] met by simp
  next
    case False
    then have "local_work True True identified drafted has_price condition_ok alias \<noteq> []"
      and hd: "hd (local_work True True identified drafted has_price condition_ok alias)
        = (if \<not> identified then ''ai-identify'' else if \<not> drafted then ''ebay-draft'' else ''ebay-price'')"
      by (auto simp: local_work_def)
    with tgw_eligible[OF assms, of PIPELINE_EVALUATOR_VERSION] obtain d ds where
      d: "eligible_treatments (evaluate lib snap TGW_EBAY_PRICED TGW_TREATMENTS PIPELINE_EVALUATOR_VERSION []) = d # ds"
      and e: "local_work True True identified drafted has_price condition_ok alias = treatment_id d # map treatment_id ds"
      by (metis list.exhaust list.simps(8) list.simps(9))
    show ?thesis using process_item_first(1)[OF assms(1) _ d, of enq db] met False hd e by auto
  qed
qed

section \<open>The scan\<close>

text \<open>Every document counts once, whatever happens to it, and the limit bounds how many are processed.\<close>

lemma process_loop_counts:
  "let s' = fst (process_loop step limit n ps s db);
       k = (case limit of None \<Rightarrow> length ps | Some l \<Rightarrow> min (nat (l - n)) (length ps))
   in sm_total s' = sm_total s + k \<and> length (sm_results s') = length (sm_results s) + k"
  by (induction step limit n ps s db rule: process_loop.induct)
    (auto simp: Let_def add_result_def split: option.splits prod.splits)

definition summary_ok :: "pipeline_summary \<Rightarrow> bool" where
  "summary_ok s \<longleftrightarrow> sm_total s = length (sm_results s)
     \<and> sm_dispatched s = sum_list (map dispatched_count (sm_results s))
     \<and> sm_skipped_waiting s = sum_list (map (length \<circ> skipped_waiting) (sm_results s))
     \<and> sm_skipped_conflict s = sum_list (map (length \<circ> skipped_conflict) (sm_results s))
     \<and> sm_skipped_satisfied s = length (filter skipped_satisfied (sm_results s))
     \<and> sm_errors s = length (filter (\<lambda>r. ir_error r \<noteq> []) (sm_results s))"

lemma add_result_ok: "summary_ok s \<Longrightarrow> summary_ok (add_result s r)"
  by (simp add: summary_ok_def add_result_def)

lemma process_loop_ok: "summary_ok s \<Longrightarrow> summary_ok (fst (process_loop step limit n ps s db))"
proof (induction step limit n ps s db rule: process_loop.induct)
  case (2 step limit processed p ps summary db)
  show ?case
  proof (cases "case limit of None \<Rightarrow> False | Some l \<Rightarrow> processed \<ge> l")
    case False
    obtain r db' where "step p db = (r, db')" by (cases "step p db")
    then show ?thesis using 2 False add_result_ok by simp
  qed (use 2 in simp)
qed simp

lemma process_items_accounts:
  "summary_ok (fst (process_items enq lib cs fs found goal ts limit extra db))"
  "sm_total (fst (process_items enq lib cs fs found goal ts limit extra db))
     = (case limit of None \<Rightarrow> length found | Some l \<Rightarrow> min (nat l) (length found))"
proof -
  show "summary_ok (fst (process_items enq lib cs fs found goal ts limit extra db))"
    unfolding process_items_def by (rule process_loop_ok) (simp add: summary_ok_def empty_summary_def)
  show "sm_total (fst (process_items enq lib cs fs found goal ts limit extra db))
     = (case limit of None \<Rightarrow> length found | Some l \<Rightarrow> min (nat l) (length found))"
    using process_loop_counts[of "\<lambda>p. process_item enq lib cs fs p goal ts extra" limit 0 "sort_key path_key found" empty_summary db]
    by (auto simp: process_items_def Let_def empty_summary_def split: option.splits)
qed

text \<open>Although a result has a list of conflicts, the pipeline never reports one.\<close>

lemma process_item_no_conflict: "skipped_conflict (fst (process_item enq lib cs fs p goal ts extra db)) = []"
  by (auto simp: process_item_def Let_def split: sum.splits list.splits prod.splits)

section \<open>When publishing is offered\<close>

text \<open>The converse for a first attempt: these conditions are also enough.\<close>

lemma publish_eligible_if:
  assumes "build_item_snapshot lib cs fs p goal ts si = Ok snap" and "read_json fs p = Ok (JObj item)"
    and "EBAY_PUBLISH \<in> set ts" and "si_ambiguities si = []"
    and "''publish'' \<in> set (authorized_scopes si)" and "inventory_available lib cs item = Ok True" and "staged item = Ok True"
    and "\<not> published lib cs item" and "stage_receipt_lookup si = Some lookup" and "lookup (item_sku item p) = Ok (Some r)"
    and "sr_content_identity r = Some (listing_content_identity lib item)" and "sr_receipt_id r = Some i" and "non_blank i"
  shows "snd (classify snap [] EBAY_PUBLISH) \<in> set (eligible_treatments (evaluate lib snap goal ts version []))"
proof -
  have ids: "c \<in> set (condition_ids goal ts)" if "needs c \<in> set (requires EBAY_PUBLISH)" for c
    using condition_ids_cover(2)[OF assms(3) that] by simp
  have checker: "fp_result (by_id snap c) = (if met then TRUE else FALSE)"
    if "c \<in> set (condition_ids goal ts)" "c \<noteq> ''photos_uploaded''"
      "map_of (item_checkers lib cs (path_parent p, iterdir fs (path_parent p)) item) c = Some (Ok met)" for c met
    using verdict_checker[OF assms(1,2) that(1,3,2)] by auto
  have "fp_result (by_id snap ''inventory_available'') = (if True then TRUE else FALSE)"
    by (rule checker[OF ids]) (simp_all add: EBAY_PUBLISH_def item_checkers_def assms(6))
  moreover have "fp_result (by_id snap ''staged'') = (if True then TRUE else FALSE)"
    by (rule checker[OF ids]) (simp_all add: EBAY_PUBLISH_def item_checkers_def assms(7))
  moreover have "fp_result (by_id snap ''published'') = (if False then TRUE else FALSE)"
    by (rule checker[OF condition_ids_cover(3)[OF assms(3)]]) (simp_all add: EBAY_PUBLISH_def item_checkers_def assms(8))
  moreover have "fp_result (by_id snap ''operator_authorized_publish'') = TRUE"
  proof -
    have s: "condition_scope ''operator_authorized_publish'' = ''publish''" by code_simp
    have "''operator_authorized_publish'' \<in> set (condition_ids goal ts)" by (rule ids) (simp add: EBAY_PUBLISH_def)
    from verdict_authority[OF assms(1) this] s assms(5) show ?thesis by (simp add: AUTHORIZED_PREFIX_def starts_with_def)
  qed
  moreover have "fp_result (by_id snap ''staged_content_current'') = TRUE"
  proof -
    have sku: "snap_object_id snap = item_sku item p" by (rule build_OkD[OF assms(1)]) (use assms(2) in simp)
    have "''staged_content_current'' \<in> set (condition_ids goal ts)" by (rule ids) (simp add: EBAY_PUBLISH_def)
    then show ?thesis
      by (rule verdict_stage[OF assms(1,2)]) (use assms(7-13) in \<open>auto simp: sku stage_verdict_def\<close>)
  qed
  moreover have "external_effect_ambiguities snap = []"
    by (rule build_OkD[OF assms(1)]) (simp add: assms(4) sorted_set_def)
  ultimately have "fst (classify snap [] EBAY_PUBLISH)"
    by (simp add: classify_eligible ambiguity_of_def unchanged_attempts_def unmet_of_def all_established_def established_def EBAY_PUBLISH_def
        sorted_set_def)
  then show ?thesis using assms(3) by (force simp: eligible_without_attempts by_identity_def)
qed

section \<open>Sample items\<close>

definition item_lib :: pylib where
  "item_lib = \<lparr>sha256_hex = id, float_repr = (\<lambda>_. [])\<rparr>"

definition sample_files :: "jobj \<Rightarrow> item_files" where
  "sample_files item = \<lparr>read_json = (\<lambda>_. Ok (JObj item)), iterdir = (\<lambda>_. [(''a1.jpg'', True)])\<rparr>"

definition sample_path :: path where
  "sample_path = py_path ''/items/A1/item.json''"

definition sample_new_item :: jobj where
  "sample_new_item = [(''sku'', JStr ''A1''), (''condition'', JStr ''pre-owned'')]"

definition sample_offer_item :: jobj where
  "sample_offer_item = [(''sku'', JStr ''A1''), (''condition'', JStr ''Used''), (''ebay_category_id'', JStr ''171''),
     (''draft_listing'', JObj [(''title'', JStr ''Lamp''), (''category_id'', JStr ''171''), (''price'', JFloat (999 / 100))]),
     (''ebay_offer'', JObj [(''offer_id'', JStr ''o1'')])]"

definition sample_enqueue :: "manifest \<Rightarrow> manifest list \<Rightarrow> (string \<times> manifest list) result" where
  "sample_enqueue m db = Ok (''job'', m # db)"

definition sample_publish_inputs :: snapshot_inputs where
  "sample_publish_inputs = no_inputs\<lparr>authorized_scopes := [''publish''],
     stage_receipt_lookup := Some (\<lambda>_. Ok (Some \<lparr>sr_content_identity = Some (listing_content_identity item_lib sample_offer_item),
       sr_receipt_id = Some ''r1''\<rparr>))\<rparr>"

lemma sample_ordered_photos:
  "ordered_photos sample_new_item (path_parent sample_path) (iterdir (sample_files sample_new_item) (path_parent sample_path))
     = Ok [(''/'', [''items'', ''A1'', ''a1.jpg''])]"
  "ordered_photos sample_offer_item (path_parent sample_path) (iterdir (sample_files sample_offer_item) (path_parent sample_path))
     = Ok [(''/'', [''items'', ''A1'', ''a1.jpg''])]"
  by code_simp+

lemma sample_checked:
  "staged sample_new_item = Ok False" "priced sample_new_item = Ok False" "title_ok sample_new_item = Ok False"
  "staged sample_offer_item = Ok True" "priced sample_offer_item = Ok True" "title_ok sample_offer_item = Ok True"
  by code_simp+

lemma sample_read: "read_json (sample_files item) p = Ok (JObj item)"
  by (simp add: sample_files_def)

lemma sample_new_built:
  obtains snap where "build_item_snapshot item_lib (\<lambda>_. []) (sample_files sample_new_item) sample_path goal TGW_TREATMENTS no_inputs = Ok snap"
proof -
  have found: "(case stage_receipt_lookup no_inputs of None \<Rightarrow> Ok None | Some lookup \<Rightarrow> lookup (item_sku sample_new_item sample_path)) = Ok None"
    by (simp add: no_inputs_def)
  show thesis by (rule build_total[OF sample_read sample_checked(1-3) sample_ordered_photos(1) found that])
qed

lemma sample_new_facts:
  "pipeline_facts item_lib (\<lambda>_. []) (path_parent sample_path, iterdir (sample_files sample_new_item) (path_parent sample_path)) sample_new_item
     True True False False False False True"
  unfolding pipeline_facts_def by (intro conjI) code_simp+

theorem process_item_next_work_witness:
  "map dr_treatment_id (ir_dispatched (fst (process_item sample_enqueue item_lib (\<lambda>_. []) (sample_files sample_new_item) sample_path
      TGW_EBAY_LISTABLE TGW_TREATMENTS [] []))) = [''ai-identify'']"
proof -
  obtain snap where snap: "build_item_snapshot item_lib (\<lambda>_. []) (sample_files sample_new_item) sample_path TGW_EBAY_LISTABLE TGW_TREATMENTS no_inputs = Ok snap"
    by (rule sample_new_built)
  have "\<not> (\<forall>c\<in>set (required TGW_EBAY_LISTABLE). established (fp_result (by_id snap c)))"
    using pipeline_verdicts(3)[OF snap sample_read sample_new_facts] by (simp add: TGW_EBAY_LISTABLE_def established_def)
  then show ?thesis
    using process_item_next_work[OF snap sample_read sample_new_facts, of sample_enqueue "[]"] by (simp add: local_work_def)
qed

lemma sample_publish_built:
  obtains snap where "build_item_snapshot item_lib (\<lambda>_. []) (sample_files sample_offer_item) sample_path TGW_EBAY_LISTABLE TGW_TREATMENTS
      sample_publish_inputs = Ok snap"
    "snd (classify snap [] EBAY_PUBLISH) \<in> set (eligible_treatments (evaluate item_lib snap TGW_EBAY_LISTABLE TGW_TREATMENTS ''v'' []))"
proof -
  let ?r = "\<lparr>sr_content_identity = Some (listing_content_identity item_lib sample_offer_item), sr_receipt_id = Some ''r1''\<rparr>"
  have found: "(case stage_receipt_lookup sample_publish_inputs of None \<Rightarrow> Ok None | Some lookup \<Rightarrow> lookup (item_sku sample_offer_item sample_path)) = Ok (Some ?r)"
    by (simp add: sample_publish_inputs_def)
  obtain snap where snap: "build_item_snapshot item_lib (\<lambda>_. []) (sample_files sample_offer_item) sample_path TGW_EBAY_LISTABLE TGW_TREATMENTS
      sample_publish_inputs = Ok snap"
    by (rule build_total[OF sample_read sample_checked(4-6) sample_ordered_photos(2) found])
  have "snd (classify snap [] EBAY_PUBLISH) \<in> set (eligible_treatments (evaluate item_lib snap TGW_EBAY_LISTABLE TGW_TREATMENTS ''v'' []))"
  proof (rule publish_eligible_if[OF snap sample_read])
    show "stage_receipt_lookup sample_publish_inputs = Some (\<lambda>_. Ok (Some ?r))" by (simp add: sample_publish_inputs_def)
    show "Ok (Some ?r) = Ok (Some ?r)" ..
    show "sr_content_identity ?r = Some (listing_content_identity item_lib sample_offer_item)" by simp
    show "sr_receipt_id ?r = Some ''r1''" by simp
    show "non_blank ''r1''" by code_simp
    show "inventory_available item_lib (\<lambda>_. []) sample_offer_item = Ok True" "\<not> published item_lib (\<lambda>_. []) sample_offer_item" by code_simp+
    show "staged sample_offer_item = Ok True" by (rule sample_checked(4))
    show "EBAY_PUBLISH \<in> set TGW_TREATMENTS" by (simp add: TGW_TREATMENTS_def)
    show "si_ambiguities sample_publish_inputs = []" "''publish'' \<in> set (authorized_scopes sample_publish_inputs)"
      by (simp_all add: sample_publish_inputs_def no_inputs_def)
  qed
  with snap show thesis by (rule that)
qed

lemma tgw_registered: "set TGW_TREATMENTS \<subseteq> set ALL_TREATMENTS"
  by (simp add: ALL_TREATMENTS_def)

lemma publish_registered:
  "EBAY_PUBLISH \<in> set ALL_TREATMENTS" "treatment_id (snd (classify snap [] EBAY_PUBLISH)) = tr_identity EBAY_PUBLISH"
  "tr_effect_class EBAY_PUBLISH = EXTERNAL" "tr_identity EBAY_PUBLISH = ''ebay-publish''"
  by (simp_all add: ALL_TREATMENTS_def TGW_TREATMENTS_def classify_disposition EBAY_PUBLISH_def)

theorem external_work_needs_authority_witness:
  "\<exists>scope\<in>set (authorized_scopes sample_publish_inputs). tr_identity EBAY_PUBLISH = ''ebay-'' @ scope"
proof -
  obtain snap where snap: "build_item_snapshot item_lib (\<lambda>_. []) (sample_files sample_offer_item) sample_path TGW_EBAY_LISTABLE TGW_TREATMENTS
      sample_publish_inputs = Ok snap"
    and d: "snd (classify snap [] EBAY_PUBLISH) \<in> set (eligible_treatments (evaluate item_lib snap TGW_EBAY_LISTABLE TGW_TREATMENTS ''v'' []))"
    by (rule sample_publish_built)
  show ?thesis
    using external_work_needs_authority[OF snap tgw_registered d publish_registered(1-3)]
    by (simp add: sample_publish_inputs_def no_inputs_def EBAY_PUBLISH_def)
qed

theorem publish_needs_current_stage_witness:
  "\<exists>snap. build_item_snapshot item_lib (\<lambda>_. []) (sample_files sample_offer_item) sample_path TGW_EBAY_LISTABLE TGW_TREATMENTS
      sample_publish_inputs = Ok snap \<and> ''publish'' \<in> set (authorized_scopes sample_publish_inputs)
    \<and> (\<exists>lookup r. stage_receipt_lookup sample_publish_inputs = Some lookup \<and> lookup (item_sku sample_offer_item sample_path) = Ok (Some r)
        \<and> sr_content_identity r = Some (listing_content_identity item_lib sample_offer_item))"
proof -
  obtain snap where snap: "build_item_snapshot item_lib (\<lambda>_. []) (sample_files sample_offer_item) sample_path TGW_EBAY_LISTABLE TGW_TREATMENTS
      sample_publish_inputs = Ok snap"
    and d: "snd (classify snap [] EBAY_PUBLISH) \<in> set (eligible_treatments (evaluate item_lib snap TGW_EBAY_LISTABLE TGW_TREATMENTS ''v'' []))"
    by (rule sample_publish_built)
  show ?thesis
    using publish_needs_current_stage[OF snap sample_read tgw_registered d publish_registered(2)[unfolded publish_registered(4)]] snap
    by blast
qed

end
