(* ===== verification/Workflow_Foundation.thy ===== *)
theory Workflow_Foundation
  imports Item_Pipeline
begin

text \<open>
  The receipts that cross the boundary between the queue and the workflow: \<^verbatim>\<open>TreatmentReceipt\<close> of
  \<^verbatim>\<open>workflow_kernel/contracts.py\<close>, built from what a worker returns, and the bindings of
  \<^verbatim>\<open>workflow/foundation.py\<close>, which tie a dispatched payload and a receipt to one graph. The theorems show that
  a dispatched payload is bound by the graph it was dispatched for and by no other.
\<close>

section \<open>Treatment receipts\<close>

record treatment_receipt =
  rc_treatment_id :: string
  rc_treatment_version :: string
  rc_graph_id :: json
  rc_outcome :: string
  rc_established :: "json list"
  rc_artifacts :: "json list"
  rc_error_detail :: string
  rc_evidence :: json
  rc_schema_id :: string

text \<open>\<^verbatim>\<open>json.dumps(value, sort_keys=True)\<close> with the default separators.\<close>

primrec dumps_spaced :: "pylib \<Rightarrow> json \<Rightarrow> string" where
  "dumps_spaced lib JNull = ''null''"
| "dumps_spaced lib (JBool b) = (if b then ''true'' else ''false'')"
| "dumps_spaced lib (JInt i) = show_int i"
| "dumps_spaced lib (JFloat r) = float_repr lib r"
| "dumps_spaced lib (JStr s) = dump_ascii s"
| "dumps_spaced lib (JList xs) = ''['' @ py_join '', '' (map (dumps_spaced lib) xs) @ '']''"
| "dumps_spaced lib (JObj d) =
     ''{'' @ py_join '', ''
       (map (\<lambda>(k, t). dump_ascii k @ '': '' @ t) (sort_key fst (map (map_prod id (dumps_spaced lib)) d))) @ ''}''"

text \<open>\<^verbatim>\<open>sorted(values)\<close> for texts or for numbers; values that have no order between them raise. A list of lists is not
  something a receipt carries and counts as such.\<close>

fun json_number :: "json \<Rightarrow> rat option" where
  "json_number (JInt i) = Some (of_int i)"
| "json_number (JFloat r) = Some r"
| "json_number (JBool b) = Some (if b then 1 else 0)"
| "json_number _ = None"

definition sorted_values :: "json list \<Rightarrow> json list result" where
  "sorted_values xs =
     (if length xs \<le> 1 then Ok xs
      else if list_all is_jstr xs then Ok (map JStr (sort (map (the \<circ> jstr) xs)))
      else if list_all (\<lambda>x. json_number x \<noteq> None) xs then Ok (sort_key (the \<circ> json_number) xs)
      else Err (TypeError ''values have no common order''))"

definition receipt_fingerprint :: "pylib \<Rightarrow> treatment_receipt \<Rightarrow> string result" where
  "receipt_fingerprint lib r =
     bind_result (sorted_values (rc_established r)) (\<lambda>established.
     bind_result (sorted_values (rc_artifacts r)) (\<lambda>artifacts.
     Ok (sha256_hex lib (dumps_spaced lib (JObj
       [(''treatment_id'', JStr (rc_treatment_id r)), (''treatment_version'', JStr (rc_treatment_version r)),
        (''graph_id'', rc_graph_id r), (''outcome'', JStr (rc_outcome r)), (''established_conditions'', JList established),
        (''artifacts'', JList artifacts), (''receipt_schema_id'', JStr (rc_schema_id r))])))))"

definition receipt_dict :: "pylib \<Rightarrow> treatment_receipt \<Rightarrow> jobj result" where
  "receipt_dict lib r =
     bind_result (receipt_fingerprint lib r) (\<lambda>fp. Ok
       [(''treatment_id'', JStr (rc_treatment_id r)), (''treatment_version'', JStr (rc_treatment_version r)),
        (''graph_id'', rc_graph_id r), (''outcome'', JStr (rc_outcome r)), (''established_conditions'', JList (rc_established r)),
        (''artifacts'', JList (rc_artifacts r)), (''error_detail'', JStr (rc_error_detail r)), (''evidence'', rc_evidence r),
        (''receipt_schema_id'', JStr (rc_schema_id r)), (''fingerprint'', JStr fp)])"

definition from_worker_return :: "pylib \<Rightarrow> (json \<Rightarrow> string) \<Rightarrow> jobj \<Rightarrow> treatment_receipt result" where
  "from_worker_return lib cs data =
     bind_result (py_iter (jget_or data ''established_conditions'' (JList []))) (\<lambda>established.
     bind_result (py_iter (jget_or data ''artifacts'' (JList []))) (\<lambda>artifacts.
     Ok \<lparr>rc_treatment_id = py_str lib cs (jget_or data ''treatment_id'' (JStr [])),
         rc_treatment_version = py_str lib cs (jget_or data ''treatment_version'' (JStr ''1'')),
         rc_graph_id = jget data ''graph_id'', rc_outcome = py_str lib cs (jget_or data ''outcome'' (JStr ''satisfied'')),
         rc_established = established, rc_artifacts = artifacts,
         rc_error_detail = py_str lib cs (jget_or data ''error_detail'' (JStr [])),
         rc_evidence = jget_or data ''evidence'' (JObj []),
         rc_schema_id = py_str lib cs (jget_or data ''receipt_schema_id'' (JStr ''treatment-receipt/v1''))\<rparr>))"

definition build_receipt_from_worker_return ::
  "pylib \<Rightarrow> (json \<Rightarrow> string) \<Rightarrow> jobj \<Rightarrow> string option \<Rightarrow> treatment_receipt result" where
  "build_receipt_from_worker_return lib cs worker_return gid = from_worker_return lib cs worker_return"

section \<open>Bindings\<close>

datatype receipt_disposition = ACCEPTED | RETRY | AMBIGUOUS | TERMINAL_FAILURE | CONFLICT | STALE_GENERATION

record dispatch_binding =
  db_graph_id :: string
  db_object_id :: string
  db_object_generation :: string
  db_treatment_id :: string
  db_treatment_version :: string

definition binding_keys :: "string list" where
  "binding_keys = [''graph_id'', ''object_id'', ''object_generation'', ''treatment_id'', ''treatment_version'']"

definition text_of :: "jobj \<Rightarrow> string \<Rightarrow> string" where
  "text_of d k = (case jget d k of JStr s \<Rightarrow> s | _ \<Rightarrow> [])"

definition from_payload :: "jobj \<Rightarrow> runtime_work_graph \<Rightarrow> dispatch_binding result" where
  "from_payload payload g =
     (if list_ex (\<lambda>k. \<not> nonempty_str (jget payload k)) binding_keys
      then Err (ValueError ''dispatch payload lacks an immutable runtime binding'')
      else if text_of payload ''graph_id'' \<noteq> graph_id g \<or> text_of payload ''object_id'' \<noteq> object_id g
      then Err (GenerationConflict ''dispatch graph/object identity does not match current runtime graph'')
      else if text_of payload ''object_generation'' \<noteq> object_generation g
      then Err (GenerationConflict ''dispatch object generation is stale'')
      else Ok \<lparr>db_graph_id = text_of payload ''graph_id'', db_object_id = text_of payload ''object_id'',
               db_object_generation = text_of payload ''object_generation'', db_treatment_id = text_of payload ''treatment_id'',
               db_treatment_version = text_of payload ''treatment_version''\<rparr>)"

definition binding_dedupe_key :: "dispatch_binding \<Rightarrow> string" where
  "binding_dedupe_key b = db_graph_id b"

definition run_identity :: "pylib \<Rightarrow> dispatch_binding \<Rightarrow> string" where
  "run_identity lib b = ''sha256:'' @ sha256_hex lib (dumps dump_ascii lib (JObj
     [(''graph_id'', JStr (db_graph_id b)), (''object_id'', JStr (db_object_id b)),
      (''object_generation'', JStr (db_object_generation b)), (''treatment_id'', JStr (db_treatment_id b)),
      (''treatment_version'', JStr (db_treatment_version b))]))"

definition outcome_dispositions :: "(string \<times> receipt_disposition) list" where
  "outcome_dispositions =
     [(''satisfied'', ACCEPTED), (''partial'', RETRY), (''retry'', RETRY), (''ambiguous'', AMBIGUOUS),
      (''failed'', TERMINAL_FAILURE), (''conflict'', CONFLICT)]"

definition classify_receipt :: "treatment_receipt \<Rightarrow> dispatch_binding \<Rightarrow> receipt_disposition" where
  "classify_receipt r b =
     (if rc_graph_id r \<noteq> JStr (db_graph_id b) \<or> rc_treatment_id r \<noteq> db_treatment_id b
         \<or> rc_treatment_version r \<noteq> db_treatment_version b
      then STALE_GENERATION
      else (case map_of outcome_dispositions (rc_outcome r) of None \<Rightarrow> CONFLICT | Some d \<Rightarrow> d))"

record integration_record =
  in_schema :: string
  in_graph_id :: string
  in_object_generation :: string
  in_run_identity :: string
  in_dedupe_key :: string
  in_receipt_fingerprint :: string
  in_disposition :: receipt_disposition

definition integration_receipt :: "pylib \<Rightarrow> runtime_work_graph \<Rightarrow> jobj \<Rightarrow> treatment_receipt \<Rightarrow> integration_record result" where
  "integration_receipt lib g payload r =
     bind_result (from_payload payload g) (\<lambda>b.
     bind_result (receipt_fingerprint lib r) (\<lambda>fp.
     Ok \<lparr>in_schema = ''tgw-foundation-integration-receipt/v1'', in_graph_id = graph_id g,
         in_object_generation = object_generation g, in_run_identity = run_identity lib b, in_dedupe_key = binding_dedupe_key b,
         in_receipt_fingerprint = fp, in_disposition = classify_receipt r b\<rparr>))"

section \<open>A payload is bound by its graph\<close>

lemma classify_accepted_iff:
  "classify_receipt r b = ACCEPTED \<longleftrightarrow> rc_graph_id r = JStr (db_graph_id b) \<and> rc_treatment_id r = db_treatment_id b
     \<and> rc_treatment_version r = db_treatment_version b \<and> rc_outcome r = ''satisfied''"
  by (auto simp: classify_receipt_def outcome_dispositions_def)

lemma dispatched_payload_keys:
  assumes "dispatch_payload d eid (Some g) extra etype = Ok payload" and "\<forall>k\<in>set binding_keys. \<not> has_key extra k"
  shows "jget payload ''graph_id'' = JStr (graph_id g)" "jget payload ''object_id'' = JStr (object_id g)"
    "jget payload ''object_generation'' = JStr (object_generation g)" "jget payload ''treatment_id'' = JStr (treatment_id d)"
    "jget payload ''treatment_version'' = JStr (treatment_version d)"
proof -
  let ?p = "dict_merge (disposition_payload d eid (Some g)) extra"
  have extra: "map_of extra k = None" if "k \<in> set binding_keys" for k using assms(2) that by (simp add: has_key_def)
  have cases: "payload = ?p \<or> payload = AList.update ''sku'' (JStr eid) ?p"
    using assms(1) by (auto simp: dispatch_payload_def Let_def split: if_splits)
  then have same: "map_of payload k = map_of (disposition_payload d eid (Some g)) k" if "k \<in> set binding_keys" for k
    using extra[OF that] that by (auto simp: binding_keys_def map_add_def)
  show "jget payload ''graph_id'' = JStr (graph_id g)" "jget payload ''object_id'' = JStr (object_id g)"
    "jget payload ''object_generation'' = JStr (object_generation g)" "jget payload ''treatment_id'' = JStr (treatment_id d)"
    "jget payload ''treatment_version'' = JStr (treatment_version d)"
    by (simp_all add: jget_def same binding_keys_def) (simp_all add: disposition_payload_def)
qed

text \<open>The payload with which a treatment is dispatched is bound by the graph it was dispatched for and by no graph
  of another identity, object or generation: reading the binding back gives the graph's and the treatment's own identities, and
  the receipt of that very treatment in that very graph is the only one that is accepted.\<close>

lemma dispatched_payload_binds:
  assumes "dispatch_payload d eid (Some g) extra etype = Ok payload" and "\<forall>k\<in>set binding_keys. \<not> has_key extra k"
    and "graph_id g \<noteq> []" and "object_id g \<noteq> []" and "object_generation g \<noteq> []" and "treatment_id d \<noteq> []" and "treatment_version d \<noteq> []"
  shows "(from_payload payload g' = Ok b \<longleftrightarrow>
      graph_id g' = graph_id g \<and> object_id g' = object_id g \<and> object_generation g' = object_generation g
      \<and> b = \<lparr>db_graph_id = graph_id g, db_object_id = object_id g, db_object_generation = object_generation g,
              db_treatment_id = treatment_id d, db_treatment_version = treatment_version d\<rparr>)
    \<and> (from_payload payload g' = Ok b \<longrightarrow> classify_receipt r b = ACCEPTED \<longrightarrow>
         rc_graph_id r = JStr (graph_id g) \<and> rc_treatment_id r = treatment_id d \<and> rc_treatment_version r = treatment_version d
         \<and> rc_outcome r = ''satisfied'')"
proof -
  note keys = dispatched_payload_keys[OF assms(1,2)]
  have "from_payload payload g' = Ok b \<longleftrightarrow>
      graph_id g' = graph_id g \<and> object_id g' = object_id g \<and> object_generation g' = object_generation g
      \<and> b = \<lparr>db_graph_id = graph_id g, db_object_id = object_id g, db_object_generation = object_generation g,
              db_treatment_id = treatment_id d, db_treatment_version = treatment_version d\<rparr>"
    using assms(3-7) by (auto simp: from_payload_def binding_keys_def text_of_def keys)
  then show ?thesis by (auto simp: classify_accepted_iff)
qed

definition sample_bound_disposition :: treatment_disposition where
  "sample_bound_disposition = \<lparr>treatment_id = ''ai-identify'', treatment_version = ''1'', disp_reasons = []\<rparr>"

definition sample_bound_graph :: "string \<Rightarrow> runtime_work_graph" where
  "sample_bound_graph gen = \<lparr>schema_version = ''runtime-work-graph/v1'', graph_id = ''g1'', object_id = ''A1'', object_generation = gen,
     goal_profile_id = ''tgw.ebay_priced'', goal_profile_version = ''1'', evaluator_version = ''v'', evidence_set_hash = ''e'',
     condition_hash = ''c'', treatment_registry_hash = ''t'', fingerprints = [], satisfied_requirements = [], unmet_requirements = [],
     explicit_requirements = [], eligible_treatments = [sample_bound_disposition], waiting_treatments = [], ownership_conflicts = [],
     reconciliation_gates = [], next_event_classes = [], retry_requested = False\<rparr>"

end
