(* ===== verification/Ebay_Environment.thy ===== *)
theory Ebay_Environment
  imports Queue_Names Py_Convert
begin

text \<open>
  The closed eBay environments of \<^verbatim>\<open>config.py\<close>: the endpoint settings, the selector of a configuration, and the
  binding of a provider account to one environment, which is what keeps an authority of the sandbox from being used in
  production. The theorems show that binding is repeatable, that it is injective and that the two environments'
  identities are disjoint for accounts that carry no marker of their own, and that a doubly marked account breaks this.
\<close>

section \<open>Settings\<close>

definition ebay_environments :: "(string \<times> (string \<times> string) list) list" where
  "ebay_environments =
     [(''production'', [(''rest_api_root'', ''https://api.ebay.com''), (''auth_root'', ''https://auth.ebay.com''),
         (''trading_api_endpoint'', ''https://api.ebay.com/ws/api.dll''), (''token_filename'', ''ebay-token.json'')]),
      (''sandbox'', [(''rest_api_root'', ''https://api.sandbox.ebay.com''), (''auth_root'', ''https://auth.sandbox.ebay.com''),
         (''trading_api_endpoint'', ''https://api.sandbox.ebay.com/ws/api.dll''), (''token_filename'', ''ebay-sandbox-token.json'')])]"

definition ebay_environment_settings :: "json \<Rightarrow> (string \<times> string) list result" where
  "ebay_environment_settings environment =
     bind_result (normalize_ebay_environment environment) (\<lambda>e. Ok (the (map_of ebay_environments e)))"

definition configured_ebay_environment :: "jobj \<Rightarrow> string result" where
  "configured_ebay_environment cfg =
     (let value = jget cfg ''ebay_environment'';
          value = (if value = JNull then (case jget cfg ''raw'' of JObj raw \<Rightarrow> jget raw ''ebay_environment'' | _ \<Rightarrow> value) else value)
      in normalize_ebay_environment value)"

section \<open>Provider identities\<close>

definition ENVIRONMENT_MARKER :: string where
  "ENVIRONMENT_MARKER = ''|ebay-environment=''"

text \<open>\<^verbatim>\<open>s.rsplit(sep, 1)\<close>: the parts before and after the last occurrence, \<^const>\<open>None\<close> when there is none.\<close>

fun rsplit1 :: "string \<Rightarrow> string \<Rightarrow> (string \<times> string) option" where
  "rsplit1 sep [] = None"
| "rsplit1 sep (c # s) =
     (case rsplit1 sep s of
        Some (b, r) \<Rightarrow> Some (c # b, r)
      | None \<Rightarrow> (if starts_with (c # s) sep then Some ([], drop (length sep) (c # s)) else None))"

definition bind_ebay_provider_identity :: "json \<Rightarrow> json \<Rightarrow> string result" where
  "bind_ebay_provider_identity identity environment =
     (if \<not> nonblank_str identity then Ok []
      else bind_result (normalize_ebay_environment environment) (\<lambda>selected.
        let value = py_strip (the (jstr identity))
        in case rsplit1 ENVIRONMENT_MARKER value of
             Some (base, bound) \<Rightarrow>
               (if base = [] \<or> bound \<noteq> selected then Err (ValueError ''eBay provider identity environment binding is invalid'')
                else Ok (if selected = ''production'' then base else value))
           | None \<Rightarrow> Ok (if selected = ''production'' then value else value @ ENVIRONMENT_MARKER @ selected)))"

definition unmarked :: "string \<Rightarrow> bool" where
  "unmarked s = (rsplit1 ENVIRONMENT_MARKER s = None)"

lemma rsplit1_append:
  "sep \<noteq> [] \<Longrightarrow> rsplit1 sep r = None \<Longrightarrow> (\<forall>k<length sep. 0 < k \<longrightarrow> \<not> starts_with (drop k (sep @ r)) sep) \<Longrightarrow> rsplit1 sep (b @ sep @ r) = Some (b, r)"
proof (induction b)
  case Nil
  have none: "rsplit1 sep (drop k (sep @ r)) = None" if "0 < k" "k \<le> length sep" for k
    using that
  proof (induction "length sep - k" arbitrary: k)
    case 0
    then show ?case using Nil.prems(2) by simp
  next
    case (Suc n)
    then have k: "k < length sep" by simp
    have n: "rsplit1 sep (drop (Suc k) (sep @ r)) = None" using Suc.hyps(1)[of "Suc k"] Suc.hyps(2) Suc.prems k by simp
    have e: "drop k (sep @ r) = (sep @ r) ! k # drop (Suc k) (sep @ r)" by (rule Cons_nth_drop_Suc[symmetric]) (simp add: k trans_less_add1)
    have ns: "\<not> starts_with ((sep @ r) ! k # drop (Suc k) (sep @ r)) sep"
      using Nil.prems(3) Suc.prems(1) k unfolding e[symmetric] by blast
    show ?case unfolding e by (simp only: rsplit1.simps n ns option.case if_False)
  qed
  obtain c s where s: "sep @ r = c # s" using Nil.prems(1) by (cases sep) auto
  then have "s = drop 1 (sep @ r)" by simp
  then have "rsplit1 sep s = None" using none[of 1] Nil.prems(1) by (cases sep) auto
  then show ?case unfolding append_Nil s using s by (simp add: starts_with_def) (metis append_eq_conv_conj starts_with_append starts_with_def)
next
  case (Cons c b)
  then show ?case by simp
qed

lemma marker_overlap: "k < length ENVIRONMENT_MARKER \<Longrightarrow> 0 < k \<Longrightarrow> \<not> starts_with (drop k (ENVIRONMENT_MARKER @ r)) ENVIRONMENT_MARKER"
proof -
  have first: "\<forall>j<length ENVIRONMENT_MARKER. 0 < j \<longrightarrow> ENVIRONMENT_MARKER ! j \<noteq> CHR ''|''"
    by (simp add: ENVIRONMENT_MARKER_def nth_Cons' All_less_Suc numeral_eq_Suc)
  assume k: "k < length ENVIRONMENT_MARKER" "0 < k"
  then have "drop k (ENVIRONMENT_MARKER @ r) ! 0 = ENVIRONMENT_MARKER ! k" by (simp add: nth_append)
  moreover have "starts_with s ENVIRONMENT_MARKER \<Longrightarrow> s ! 0 = CHR ''|''" for s
    by (auto simp: starts_with_iff ENVIRONMENT_MARKER_def)
  ultimately show ?thesis using first k by force
qed

lemma rsplit1_marked: "rsplit1 ENVIRONMENT_MARKER r = None \<Longrightarrow> rsplit1 ENVIRONMENT_MARKER (b @ ENVIRONMENT_MARKER @ r) = Some (b, r)"
  using marker_overlap by (intro rsplit1_append) (simp add: ENVIRONMENT_MARKER_def, assumption, blast)

lemma environment_unmarked: "valid_env e \<Longrightarrow> rsplit1 ENVIRONMENT_MARKER e = None"
  by (auto simp: valid_env_iff ENVIRONMENT_MARKER_def starts_with_def)

lemma strip_marked:
  assumes "py_strip s = s" and "s \<noteq> []" and "valid_env e"
  shows "py_strip (s @ ENVIRONMENT_MARKER @ e) = s @ ENVIRONMENT_MARKER @ e"
proof -
  have rev: "dropWhile is_space (rev (ENVIRONMENT_MARKER @ e)) = rev (ENVIRONMENT_MARKER @ e)"
    using assms(3) by (auto simp: valid_env_iff ENVIRONMENT_MARKER_def is_space_def)
  have "\<not> is_space (hd s)"
  proof
    assume sp: "is_space (hd s)"
    have "length (py_strip s) \<le> length (dropWhile is_space s)" by (simp add: py_strip_def) (metis length_dropWhile_le length_rev)
    also have "\<dots> < length s" using sp assms(2) by (cases s) (simp_all add: le_imp_less_Suc length_dropWhile_le)
    finally show False using assms(1) by simp
  qed
  then have "dropWhile is_space (s @ ENVIRONMENT_MARKER @ e) = s @ ENVIRONMENT_MARKER @ e" using assms(2) by (cases s) simp_all
  moreover have "dropWhile is_space (rev (s @ ENVIRONMENT_MARKER @ e)) = rev (s @ ENVIRONMENT_MARKER @ e)"
    using rev by (simp add: dropWhile_append ENVIRONMENT_MARKER_def split: if_splits) (auto simp: dropWhile_append)
  ultimately show ?thesis by (simp add: py_strip_def)
qed

text \<open>For an account without a marker, binding to an environment is repeatable, different accounts stay different, and no
  account of production is bound to the same identity as one of the sandbox; so an authority issued in one environment never
  matches in the other.\<close>

lemma provider_identities_disjoint:
  assumes "py_strip s = s" and "s \<noteq> []" and "unmarked s" and "py_strip t = t" and "t \<noteq> []" and "unmarked t"
    and "valid_env e" and "valid_env f"
  shows "\<exists>a b. bind_ebay_provider_identity (JStr s) (JStr e) = Ok a \<and> bind_ebay_provider_identity (JStr t) (JStr f) = Ok b
    \<and> bind_ebay_provider_identity (JStr a) (JStr e) = Ok a \<and> (a = b \<longleftrightarrow> s = t \<and> e = f)"
proof -
  have blank: "nonblank_str (JStr u)" if "py_strip u = u" "u \<noteq> []" for u using that by (simp add: non_blank_def)
  have bound: "bind_ebay_provider_identity (JStr u) (JStr g) = Ok (if g = ''production'' then u else u @ ENVIRONMENT_MARKER @ g)"
    if "py_strip u = u" "u \<noteq> []" "unmarked u" "valid_env g" for u g
    using that blank[OF that(1,2)] by (simp add: bind_ebay_provider_identity_def unmarked_def)
  have again: "bind_ebay_provider_identity (JStr (s @ ENVIRONMENT_MARKER @ e)) (JStr e) = Ok (s @ ENVIRONMENT_MARKER @ e)" if "e \<noteq> ''production''"
    using that assms strip_marked[OF assms(1,2,7)] rsplit1_marked[OF environment_unmarked[OF assms(7)], of s]
      blank[of "s @ ENVIRONMENT_MARKER @ e"]
    by (simp add: bind_ebay_provider_identity_def)
  have mark: "s \<noteq> t @ ENVIRONMENT_MARKER @ f" "t \<noteq> s @ ENVIRONMENT_MARKER @ e"
    using rsplit1_marked[OF environment_unmarked[OF assms(8)], of t] rsplit1_marked[OF environment_unmarked[OF assms(7)], of s] assms(3,6)
    by (auto simp: unmarked_def)
  have inj: "s @ ENVIRONMENT_MARKER @ e = t @ ENVIRONMENT_MARKER @ f \<longleftrightarrow> s = t \<and> e = f"
    using rsplit1_marked[OF environment_unmarked[OF assms(8)], of t] rsplit1_marked[OF environment_unmarked[OF assms(7)], of s] by auto
  show ?thesis
    using bound[OF assms(1-3,7)] bound[OF assms(4-6,8)] again mark inj by auto
qed

text \<open>An account that carries two markers escapes: bound to production it becomes the identity of the sandbox.\<close>

lemma doubly_marked_escapes:
  "bind_ebay_provider_identity (JStr ''acct|ebay-environment=sandbox|ebay-environment=production'') (JStr ''production'')
     = bind_ebay_provider_identity (JStr ''acct'') (JStr ''sandbox'')"
  by code_simp

end
