(* ===== verification/Goal_Requests.thy ===== *)
theory Goal_Requests
  imports Workflow_Foundation Provider_Observations Provider_Effects Ebay_Environment
begin

text \<open>
  The operator's goal requests of \<^verbatim>\<open>workflow/listing_migration.py\<close>: freezing one generation of an item document,
  issuing an authority for it, evaluating under that authority, dispatching at most one local treatment, and, for the listing
  commands, dispatching at most one external treatment. Each look at the file system is a separate argument (\<open>fs n\<close> is
  the \<open>n\<close>-th look), and \<open>other\<close> is what other transactions do to the ledger after the authority was issued, so
  that the theorems hold however the document and the ledger change in between.
\<close>

section \<open>Freezing a document\<close>

text \<open>\<^verbatim>\<open>json.loads(json.dumps(document, sort_keys=True))\<close>\<close>

primrec json_sorted :: "json \<Rightarrow> json" where
  "json_sorted JNull = JNull"
| "json_sorted (JBool b) = JBool b"
| "json_sorted (JInt i) = JInt i"
| "json_sorted (JFloat r) = JFloat r"
| "json_sorted (JStr s) = JStr s"
| "json_sorted (JList xs) = JList (map json_sorted xs)"
| "json_sorted (JObj d) = JObj (sort_key fst (map (map_prod id json_sorted) d))"

definition item_generation :: "pylib \<Rightarrow> jobj \<Rightarrow> string" where
  "item_generation lib item = hash_json lib (JObj item)"

definition bound_item_document :: "pylib \<Rightarrow> item_files \<Rightarrow> path \<Rightarrow> json option \<Rightarrow> string option \<Rightarrow> jobj result" where
  "bound_item_document lib fs p document expected =
     bind_result (case document of None \<Rightarrow> read_json fs p | Some d \<Rightarrow> Ok (json_sorted d)) (\<lambda>raw.
       case raw of
         JObj item \<Rightarrow>
           (case expected of
              None \<Rightarrow> Ok item
            | Some gen \<Rightarrow>
                (if item_generation lib item \<noteq> gen
                 then Err (ValueError (''item generation conflict: expected '' @ gen @ '', observed '' @ item_generation lib item))
                 else Ok item))
       | _ \<Rightarrow> Err (ValueError ''item document must be a JSON object''))"

definition require_current_generation :: "pylib \<Rightarrow> item_files \<Rightarrow> path \<Rightarrow> string \<Rightarrow> jobj result" where
  "require_current_generation lib fs p gen = bound_item_document lib fs p None (Some gen)"

definition environment_bound_identity :: "string \<Rightarrow> string \<Rightarrow> string result" where
  "environment_bound_identity provider environment =
     (if environment = [] then Ok provider else bind_ebay_provider_identity (JStr provider) (JStr environment))"

section \<open>Scopes\<close>

definition GOAL_SCOPE_CEILINGS :: "(string \<times> string list) list" where
  "GOAL_SCOPE_CEILINGS =
     [(''tgw.ebay_identified'', []), (''tgw.ebay_staged'', [''upload'', ''stage'', ''force-restage'']),
      (''tgw.ebay_listable'', [''upload'', ''stage'', ''publish'', ''force-restage'']), (''tgw.ebay_withdrawn'', [''withdraw''])]"

definition GOAL_SCOPE_DEFAULTS :: "(string \<times> string list) list" where
  "GOAL_SCOPE_DEFAULTS =
     [(''tgw.ebay_identified'', []), (''tgw.ebay_staged'', [''upload'', ''stage'']),
      (''tgw.ebay_listable'', [''upload'', ''stage'', ''publish'']), (''tgw.ebay_withdrawn'', [''withdraw''])]"

definition scopes_of :: "(string \<times> string list) list \<Rightarrow> goal_profile \<Rightarrow> string list" where
  "scopes_of table goal = (case map_of table (goal_identity goal) of None \<Rightarrow> [] | Some s \<Rightarrow> s)"

definition approved_authority_scopes :: "goal_profile \<Rightarrow> string list \<Rightarrow> string list result" where
  "approved_authority_scopes goal requested =
     (let chosen = (if requested \<noteq> [] then sorted_set requested else scopes_of GOAL_SCOPE_DEFAULTS goal)
      in if \<not> set chosen \<subseteq> set (scopes_of GOAL_SCOPE_CEILINGS goal)
         then Err (ValueError (''authority scopes exceed goal ceiling for '' @ goal_identity goal))
         else Ok chosen)"

definition evaluator_authorized_scopes :: "string list \<Rightarrow> string list" where
  "evaluator_authorized_scopes ss = sorted_set (if ''force-restage'' \<in> set ss then ss @ [''stage''] else ss)"

section \<open>The receipt of the staged content\<close>

definition receipt_record :: "(string \<times> string) list \<Rightarrow> stage_receipt" where
  "receipt_record r = \<lparr>sr_content_identity = map_of r ''content_identity'', sr_receipt_id = map_of r ''receipt_id''\<rparr>"

fun stage_conflict :: "py_error \<Rightarrow> bool" where
  "stage_conflict (ProviderEffectConflict _) = True"
| "stage_conflict _ = False"

fun observation_conflict :: "py_error \<Rightarrow> bool" where
  "observation_conflict (ProviderObservationConflict _) = True"
| "observation_conflict _ = False"

definition unless_conflict :: "(py_error \<Rightarrow> bool) \<Rightarrow> (string \<times> string) list result \<Rightarrow> stage_receipt option result" where
  "unless_conflict conflict r =
     (case r of Inr x \<Rightarrow> Ok (Some (receipt_record x)) | Inl e \<Rightarrow> (if conflict e then Ok None else Err e))"

definition authoritative_stage_lookup ::
  "pylib \<Rightarrow> isolib \<Rightarrow> ledger \<Rightarrow> observations \<Rightarrow> jobj \<Rightarrow> string \<Rightarrow> (string \<Rightarrow> stage_receipt option result) option" where
  "authoritative_stage_lookup lib il l ob item provider =
     (if provider = [] then None
      else
        (let offer = dict_or_empty (jget item ''ebay_offer'');
             effect = jget offer ''provider_effect_id''; observation = jget offer ''legacy_stage_observation_id'';
             content = jget offer ''stage_content_identity''; offer_id = jget offer ''offer_id''
         in Some (\<lambda>sku.
              if truthy effect \<and> truthy observation then Ok None
              else if \<not> (nonblank_str content \<and> nonblank_str offer_id) then Ok None
              else if nonblank_str effect
              then unless_conflict stage_conflict (lookup_authoritative_stage_receipt lib sku (the (jstr effect)) (the (jstr content))
                     (the (jstr offer_id)) provider l)
              else if nonblank_str observation
              then unless_conflict observation_conflict (lookup_authoritative_legacy_stage_receipt lib il (the (jstr observation)) sku
                     (the (jstr offer_id)) provider (the (jstr content)) ob)
              else Ok None)))"

section \<open>Requesting a goal\<close>

definition BUNDLE_EVALUATOR_VERSION :: string where
  "BUNDLE_EVALUATOR_VERSION = ''pp-workflow-phase3-bundle/v1''"

record bundle_decision =
  bd_graph :: runtime_work_graph
  bd_disposition :: "treatment_disposition option"

definition derive_bundle_downstream :: "pylib \<Rightarrow> (json \<Rightarrow> string) \<Rightarrow> item_files \<Rightarrow> path \<Rightarrow> bundle_decision result" where
  "derive_bundle_downstream lib cs fs p =
     bind_result (build_item_snapshot lib cs fs p TGW_EBAY_IDENTIFIED [AI_IDENTIFY] no_inputs) (\<lambda>snap.
       let graph = evaluate lib snap TGW_EBAY_IDENTIFIED [AI_IDENTIFY] BUNDLE_EVALUATOR_VERSION []
       in Ok \<lparr>bd_graph = graph,
              bd_disposition = find (\<lambda>d. treatment_id d = tr_identity AI_IDENTIFY \<and> treatment_version d = tr_version AI_IDENTIFY)
                (eligible_treatments graph)\<rparr>)"

definition GOAL_EVALUATOR_VERSION :: string where
  "GOAL_EVALUATOR_VERSION = ''pp-workflow-operator-goal/v1''"

record goal_result =
  gl_graph :: runtime_work_graph
  gl_dispatched :: "dispatch_result option"
  held_external :: "string list"
  operator_gates :: "string list"

text \<open>The keyword arguments of \<^verbatim>\<open>request_item_goal\<close>.\<close>

record goal_request =
  gr_origin :: string
  gr_authority_id :: "string option"
  gr_provider_identity :: string
  gr_stage_lookup :: "(string \<Rightarrow> stage_receipt option result) option"
  gr_operator_identity :: string
  gr_surface :: string
  gr_require_current_stage :: bool
  gr_document :: "json option"
  gr_expected_generation :: "string option"
  gr_environment :: string
  gr_rest_endpoint :: string

definition goal_inputs :: "goal_request \<Rightarrow> (string \<Rightarrow> stage_receipt option result) option \<Rightarrow> snapshot_inputs" where
  "goal_inputs q stage = no_inputs\<lparr>stage_receipt_lookup := stage, require_current_stage := gr_require_current_stage q\<rparr>"

definition authority_binding_for :: "pylib \<Rightarrow> object_snapshot \<Rightarrow> goal_profile \<Rightarrow> runtime_work_graph \<Rightarrow> jobj \<Rightarrow> string \<Rightarrow> authority_binding" where
  "authority_binding_for lib snap goal g item provider =
     \<lparr>ab_entity_id = snap_object_id snap, ab_goal_profile_id = goal_identity goal, ab_goal_profile_version = goal_version goal,
      ab_object_generation = generation snap, ab_pre_authority_condition_hash = condition_hash g,
      ab_content_identity = listing_content_identity lib item, ab_provider_identity = provider\<rparr>"

text \<open>The loop over the five scopes.\<close>

fun valid_scopes :: "string option \<Rightarrow> authority_binding \<Rightarrow> (string \<Rightarrow> operator_authority option result) \<Rightarrow> string list \<Rightarrow> string list result" where
  "valid_scopes aid b lookup [] = Ok []"
| "valid_scopes aid b lookup (s # ss) =
     bind_result (validate_authority aid b s lookup) (\<lambda>(a, _).
     bind_result (valid_scopes aid b lookup ss) (\<lambda>rest. Ok (if a \<noteq> None then s # rest else rest)))"

definition effect_class_of :: "treatment_contract list \<Rightarrow> treatment_disposition \<Rightarrow> effect_class option" where
  "effect_class_of ts d = map_option tr_effect_class (treatment_by_id ts (treatment_id d, treatment_version d))"

definition held_contract :: "object_snapshot \<Rightarrow> goal_profile \<Rightarrow> treatment_contract \<Rightarrow> bool" where
  "held_contract snap goal t =
     (tr_effect_class t = EXTERNAL \<and> list_ex (\<lambda>c. c \<in> set (required goal)) (may_establish t)
      \<and> \<not> list_all (\<lambda>c. fp_result (by_id snap c) \<in> {TRUE, NOT_APPLICABLE}) (may_establish t)
      \<and> list_all (\<lambda>r. starts_with (rq_condition_id r) AUTHORIZED_PREFIX \<or> rq_condition_id r = ''staged_content_current''
           \<or> fp_result (by_id snap (rq_condition_id r)) \<in> set (accepted_results r)) (requires t))"

definition opt_entry :: "string \<Rightarrow> string \<Rightarrow> jobj" where
  "opt_entry k v = (if v = [] then [] else [(k, JStr v)])"

definition goal_extra :: "goal_request \<Rightarrow> runtime_work_graph \<Rightarrow> jobj" where
  "goal_extra q base_graph =
     [(''origin'', JStr (gr_origin q)), (''pre_authority_condition_hash'', JStr (condition_hash base_graph))]
     @ opt_entry ''operator_identity'' (gr_operator_identity q) @ opt_entry ''operator_surface'' (gr_surface q)
     @ opt_entry ''operator_authority_id'' (case gr_authority_id q of None \<Rightarrow> [] | Some a \<Rightarrow> a)
     @ opt_entry ''ebay_environment'' (gr_environment q) @ opt_entry ''ebay_endpoint'' (gr_rest_endpoint q)"

text \<open>A dispatch that neither enqueued a job nor found one already there raises.\<close>

definition governed_dispatch ::
  "(manifest \<Rightarrow> 's \<Rightarrow> (string \<times> 's) result) \<Rightarrow> pylib \<Rightarrow> item_files \<Rightarrow> path \<Rightarrow> string \<Rightarrow> treatment_disposition \<Rightarrow> string \<Rightarrow>
   runtime_work_graph \<Rightarrow> jobj \<Rightarrow> string \<Rightarrow> 's \<Rightarrow> (dispatch_result \<times> 's) result" where
  "governed_dispatch enq lib fs p gen d eid g extra failure db =
     bind_result (require_current_generation lib fs p gen) (\<lambda>_.
     bind_result (dispatch_treatment_v4 enq d eid (Some g) extra ''item'' db) (\<lambda>(dr, db').
       if \<not> enqueued dr \<and> outcome dr \<noteq> ''already_dispatched'' then Err (RuntimeError failure) else Ok (dr, db')))"

definition request_item_goal ::
  "(manifest \<Rightarrow> 's \<Rightarrow> (string \<times> 's) result) \<Rightarrow> pylib \<Rightarrow> (json \<Rightarrow> string) \<Rightarrow> isolib \<Rightarrow> (nat \<Rightarrow> item_files) \<Rightarrow> path \<Rightarrow>
   goal_profile \<Rightarrow> treatment_contract list \<Rightarrow> goal_request \<Rightarrow> ledger \<Rightarrow> observations \<Rightarrow> 's \<Rightarrow> (goal_result \<times> 's) result" where
  "request_item_goal enq lib cs il fs p goal ts q l ob db =
     bind_result (environment_bound_identity (gr_provider_identity q) (gr_environment q)) (\<lambda>provider.
     bind_result (bound_item_document lib (fs 0) p (gr_document q) (gr_expected_generation q)) (\<lambda>item.
     let stage = (case gr_stage_lookup q of
                    Some f \<Rightarrow> Some f
                  | None \<Rightarrow> (if provider \<noteq> [] then authoritative_stage_lookup lib il l ob item provider else None))
     in bind_result (build_item_snapshot lib cs (fs 1) p goal ts (goal_inputs q stage)) (\<lambda>base.
        let base_graph = evaluate lib base goal ts GOAL_EVALUATOR_VERSION []
        in bind_result (valid_scopes (gr_authority_id q) (authority_binding_for lib base goal base_graph item provider)
             (\<lambda>i. get_authority i l) SCOPES) (\<lambda>scopes.
        bind_result (build_item_snapshot lib cs (fs 2) p goal ts
             ((goal_inputs q stage)\<lparr>authorized_scopes := evaluator_authorized_scopes scopes,
                authority_identity := (case gr_authority_id q of None \<Rightarrow> [] | Some a \<Rightarrow> a)\<rparr>)) (\<lambda>snap.
        let graph = evaluate lib snap goal ts GOAL_EVALUATOR_VERSION [];
            local = filter (\<lambda>d. effect_class_of ts d = Some LOCAL) (eligible_treatments graph);
            external = map tr_identity (filter (held_contract snap goal) ts);
            gates = sorted_set (map (\<lambda>i. ''provider_contract_required:'' @ i) external
              @ map (\<lambda>i. ''reconciliation_required:'' @ i) (reconciliation_gates graph));
            result = (\<lambda>dr. \<lparr>gl_graph = graph, gl_dispatched = dr, held_external = external, operator_gates = gates\<rparr>)
        in if local \<noteq> [] \<and> ownership_conflicts graph = [] \<and> reconciliation_gates graph = []
           then bind_result (governed_dispatch enq lib (fs 3) p (generation snap) (hd local) (snap_object_id snap) graph
                  (goal_extra q base_graph) (''failed to dispatch workflow treatment '' @ treatment_id (hd local)) db)
                  (\<lambda>(dr, db'). Ok (result (Some dr), db'))
           else Ok (result None, db))))))"

section \<open>Operator commands\<close>

text \<open>What an operator command carries: who asks, through which surface, for which provider account, for how long, with
  which frozen document and generation, and in which eBay environment.\<close>

record operator_command =
  oc_operator_identity :: string
  oc_surface :: string
  oc_provider_identity :: string
  oc_ttl_seconds :: int
  oc_document :: "json option"
  oc_expected_generation :: "string option"
  oc_environment :: string
  oc_rest_endpoint :: string
  oc_trading_endpoint :: string

text \<open>The clocks and the generated id of one command: the database clock, the clock of the process and the new authority's id.\<close>

record command_clock =
  cc_db_now :: time
  cc_now :: time
  cc_authority_id :: uuid

definition command_request :: "operator_command \<Rightarrow> goal_request" where
  "command_request c =
     \<lparr>gr_origin = ''operator'', gr_authority_id = None, gr_provider_identity = [], gr_stage_lookup = None,
      gr_operator_identity = oc_operator_identity c, gr_surface = oc_surface c, gr_require_current_stage = False,
      gr_document = oc_document c, gr_expected_generation = oc_expected_generation c, gr_environment = oc_environment c,
      gr_rest_endpoint = oc_rest_endpoint c\<rparr>"

text \<open>The steps before the authority: the first three looks at the file system.\<close>

definition prepare_authority ::
  "pylib \<Rightarrow> (json \<Rightarrow> string) \<Rightarrow> isolib \<Rightarrow> (nat \<Rightarrow> item_files) \<Rightarrow> path \<Rightarrow> goal_profile \<Rightarrow> operator_command \<Rightarrow> string \<Rightarrow>
   string list \<Rightarrow> bool \<Rightarrow> time \<Rightarrow> ledger \<Rightarrow> observations \<Rightarrow>
   (jobj \<times> (string \<Rightarrow> stage_receipt option result) option \<times> object_snapshot \<times> authority_request) result" where
  "prepare_authority lib cs il fs p goal c provider granted current now l ob =
     bind_result (bound_item_document lib (fs 0) p (oc_document c) (oc_expected_generation c)) (\<lambda>item.
     let stage = authoritative_stage_lookup lib il l ob item provider
     in bind_result (build_item_snapshot lib cs (fs 1) p goal TGW_TREATMENTS
          (no_inputs\<lparr>stage_receipt_lookup := stage, require_current_stage := current\<rparr>)) (\<lambda>snap.
        let g = evaluate lib snap goal TGW_TREATMENTS GOAL_EVALUATOR_VERSION []
        in bind_result (case oc_expected_generation c of None \<Rightarrow> Ok [] | Some gen \<Rightarrow> require_current_generation lib (fs 2) p gen) (\<lambda>_.
           Ok (item, stage, snap,
             \<lparr>rq_operator = oc_operator_identity c, rq_surface = oc_surface c,
              rq_binding = authority_binding_for lib snap goal g item provider, rq_scopes = granted,
              rq_issued_at = Aware now, rq_expires_at = Aware (now + of_int (oc_ttl_seconds c))\<rparr>))))"

text \<open>The authority is committed before the goal is requested, so that an error afterwards leaves it in the ledger.\<close>

definition authorize_and_request_item_goal ::
  "(manifest \<Rightarrow> 's \<Rightarrow> (string \<times> 's) result) \<Rightarrow> pylib \<Rightarrow> (json \<Rightarrow> string) \<Rightarrow> isolib \<Rightarrow> (nat \<Rightarrow> item_files) \<Rightarrow> path \<Rightarrow>
   goal_profile \<Rightarrow> operator_command \<Rightarrow> string list \<Rightarrow> bool \<Rightarrow> command_clock \<Rightarrow> (nat \<Rightarrow> ledger \<Rightarrow> ledger) \<Rightarrow> observations \<Rightarrow> ledger \<Rightarrow> 's \<Rightarrow>
   (goal_result \<times> string \<times> bool) result \<times> ledger \<times> 's" where
  "authorize_and_request_item_goal enq lib cs il fs p goal c requested current clock other ob l db =
     (if \<not> non_blank (oc_provider_identity c) then (Err (ValueError ''provider identity is required''), l, db)
      else (case environment_bound_identity (oc_provider_identity c) (oc_environment c) of
        Inl e \<Rightarrow> (Err e, l, db)
      | Inr provider \<Rightarrow>
          (if \<not> (30 \<le> oc_ttl_seconds c \<and> oc_ttl_seconds c \<le> 900)
           then (Err (ValueError ''authority TTL must be between 30 and 900 seconds''), l, db)
           else (case approved_authority_scopes goal requested of
             Inl e \<Rightarrow> (Err e, l, db)
           | Inr [] \<Rightarrow>
               (case request_item_goal enq lib cs il fs p goal TGW_TREATMENTS (command_request c) l ob db of
                  Inl e \<Rightarrow> (Err e, l, db)
                | Inr (r, db') \<Rightarrow> (Ok (r, [], False), l, db'))
           | Inr granted \<Rightarrow>
               (case prepare_authority lib cs il fs p goal c provider granted current (cc_now clock) l ob of
                  Inl e \<Rightarrow> (Err e, l, db)
                | Inr (item, stage, snap, rq) \<Rightarrow>
                    (case issue_or_reuse_authority (cc_db_now clock) (cc_authority_id clock) rq l of
                       Inl e \<Rightarrow> (Err e, l, db)
                     | Inr ((aid, created), l1) \<Rightarrow>
                         (case request_item_goal enq lib cs il (\<lambda>n. fs (n + 2)) p goal TGW_TREATMENTS
                            ((command_request c)\<lparr>gr_authority_id := Some aid, gr_provider_identity := provider, gr_stage_lookup := stage,
                               gr_require_current_stage := current, gr_document := Some (JObj item),
                               gr_expected_generation := Some (generation snap)\<rparr>) (other 0 l1) ob db of
                            Inl e \<Rightarrow> (Err e, other 0 l1, db)
                          | Inr (r, db') \<Rightarrow> (Ok (r, aid, created), other 0 l1, db'))))))))"

definition command_extra :: "operator_command \<Rightarrow> bool \<Rightarrow> string \<Rightarrow> operator_authority \<Rightarrow> string \<Rightarrow> jobj" where
  "command_extra c force aid a endpoint =
     [(''origin'', JStr ''operator'')] @ (if force then [(''force'', JBool True)] else [])
     @ [(''operator_identity'', JStr (oc_operator_identity c)), (''operator_surface'', JStr (oc_surface c)),
        (''operator_authority_id'', JStr aid), (''pre_authority_condition_hash'', JStr (pre_authority_condition_hash a))]
     @ opt_entry ''ebay_environment'' (oc_environment c) @ opt_entry ''ebay_endpoint'' endpoint"

definition authority_fits :: "string \<Rightarrow> runtime_work_graph \<Rightarrow> operator_authority option \<Rightarrow> bool" where
  "authority_fits scope g a =
     (case a of None \<Rightarrow> False
      | Some x \<Rightarrow> scope \<in> set (scopes x) \<and> oa_entity_id x = object_id g \<and> oa_object_generation x = object_generation g)"

definition offers_force :: "treatment_disposition \<Rightarrow> jobj \<Rightarrow> bool result" where
  "offers_force d item =
     (if treatment_id d = tr_identity EBAY_STAGE
      then bind_result (or_dict (jget item ''ebay_offer'')) (\<lambda>offer. Ok (truthy (jget offer ''offer_id''))) else Ok False)"

text \<open>The common end of the two listing commands: at most one external treatment, under the authority as the ledger has it now.\<close>

definition dispatch_admitted ::
  "(manifest \<Rightarrow> 's \<Rightarrow> (string \<times> 's) result) \<Rightarrow> pylib \<Rightarrow> item_files \<Rightarrow> path \<Rightarrow> operator_command \<Rightarrow>
   ((string \<times> string) \<times> string) list \<Rightarrow> bool \<Rightarrow> string \<Rightarrow> jobj \<Rightarrow> runtime_work_graph \<Rightarrow> string \<Rightarrow> ledger \<Rightarrow> 's \<Rightarrow>
   (dispatch_result option \<times> 's) result" where
  "dispatch_admitted enq lib fs p c allowed no_publish label item g aid l db =
     (if ownership_conflicts g \<noteq> [] \<or> reconciliation_gates g \<noteq> []
      then Err (RuntimeError (label @ '' admission is blocked by reconciliation''))
      else
        (case filter (\<lambda>d. map_of allowed (treatment_id d, treatment_version d) \<noteq> None) (eligible_treatments g) of
           [] \<Rightarrow> Ok (None, db)
         | [d] \<Rightarrow>
             (let scope = the (map_of allowed (treatment_id d, treatment_version d));
                  endpoint = (if treatment_id d = tr_identity EBAY_UPLOAD then oc_trading_endpoint c else oc_rest_endpoint c)
              in bind_result (get_authority aid l) (\<lambda>a.
                 if \<not> authority_fits scope g a \<or> no_publish \<and> ''publish'' \<in> set (scopes (the a))
                 then Err (RuntimeError (label @ '' authority binding changed before dispatch''))
                 else bind_result (offers_force d item) (\<lambda>force.
                      bind_result (governed_dispatch enq lib fs p (object_generation g) d (object_id g) g
                        (command_extra c force aid (the a) endpoint)
                        (''failed to dispatch governed '' @ label @ '' treatment '' @ treatment_id d) db)
                        (\<lambda>(dr, db'). Ok (Some dr, db')))))
         | ds \<Rightarrow> Err (RuntimeError (label @ '' admission selected multiple external treatments: '' @ py_join '', '' (map treatment_id ds)))))"

definition listing_treatments :: "((string \<times> string) \<times> string) list" where
  "listing_treatments =
     [((tr_identity EBAY_UPLOAD, tr_version EBAY_UPLOAD), ''upload''), ((tr_identity EBAY_STAGE, tr_version EBAY_STAGE), ''stage''),
      ((tr_identity EBAY_PUBLISH, tr_version EBAY_PUBLISH), ''publish'')]"

definition update_treatments :: "((string \<times> string) \<times> string) list" where
  "update_treatments =
     [((tr_identity EBAY_UPLOAD, tr_version EBAY_UPLOAD), ''upload''), ((tr_identity EBAY_STAGE, tr_version EBAY_STAGE), ''stage'')]"

type_synonym 's command_outcome = "(goal_result \<times> dispatch_result option \<times> string \<times> bool) result \<times> ledger \<times> 's"

definition authorize_and_dispatch_next_listing_effect ::
  "(manifest \<Rightarrow> 's \<Rightarrow> (string \<times> 's) result) \<Rightarrow> pylib \<Rightarrow> (json \<Rightarrow> string) \<Rightarrow> isolib \<Rightarrow> (nat \<Rightarrow> item_files) \<Rightarrow> path \<Rightarrow>
   operator_command \<Rightarrow> command_clock \<Rightarrow> (nat \<Rightarrow> ledger \<Rightarrow> ledger) \<Rightarrow> observations \<Rightarrow> ledger \<Rightarrow> 's \<Rightarrow> 's command_outcome" where
  "authorize_and_dispatch_next_listing_effect enq lib cs il fs p c clock other ob l db =
     (case (if oc_document c = None \<and> oc_expected_generation c = None then Ok None
            else map_sum id Some (bound_item_document lib (fs 0) p (oc_document c) (oc_expected_generation c))) of
        Inl e \<Rightarrow> (Err e, l, db)
      | Inr frozen \<Rightarrow>
          (case authorize_and_request_item_goal enq lib cs il (\<lambda>n. fs (n + 1)) p TGW_EBAY_LISTABLE
             (c\<lparr>oc_document := map_option JObj frozen\<rparr>) [''upload'', ''stage'', ''publish'', ''force-restage''] False clock other ob l db of
             (Inl e, l1, db1) \<Rightarrow> (Err e, l1, db1)
           | (Inr (r, aid, created), l1, db1) \<Rightarrow>
               (case gl_dispatched r of
                  Some dr \<Rightarrow> (Ok (r, Some dr, aid, created), l1, db1)
                | None \<Rightarrow>
                    (case (case frozen of Some item \<Rightarrow> Ok item | None \<Rightarrow> bound_item_document lib (fs 7) p None None) of
                       Inl e \<Rightarrow> (Err e, l1, db1)
                     | Inr item \<Rightarrow>
                         (case dispatch_admitted enq lib (fs 8) p c listing_treatments False ''listing'' item (gl_graph r) aid (other 1 l1) db1 of
                            Inl e \<Rightarrow> (Err e, other 1 l1, db1)
                          | Inr (dr, db2) \<Rightarrow> (Ok (r, dr, aid, created), other 1 l1, db2))))))"

definition authorize_and_dispatch_update_item ::
  "(manifest \<Rightarrow> 's \<Rightarrow> (string \<times> 's) result) \<Rightarrow> pylib \<Rightarrow> (json \<Rightarrow> string) \<Rightarrow> isolib \<Rightarrow> (nat \<Rightarrow> item_files) \<Rightarrow> path \<Rightarrow>
   operator_command \<Rightarrow> command_clock \<Rightarrow> (nat \<Rightarrow> ledger \<Rightarrow> ledger) \<Rightarrow> observations \<Rightarrow> ledger \<Rightarrow> 's \<Rightarrow> 's command_outcome" where
  "authorize_and_dispatch_update_item enq lib cs il fs p c clock other ob l db =
     (case bound_item_document lib (fs 0) p (oc_document c) (oc_expected_generation c) of
        Inl e \<Rightarrow> (Err e, l, db)
      | Inr item \<Rightarrow>
          (case authorize_and_request_item_goal enq lib cs il (\<lambda>n. fs (n + 1)) p TGW_EBAY_STAGED
             (c\<lparr>oc_document := Some (JObj item)\<rparr>) [''upload'', ''stage'', ''force-restage''] True clock other ob l db of
             (Inl e, l1, db1) \<Rightarrow> (Err e, l1, db1)
           | (Inr (r, aid, created), l1, db1) \<Rightarrow>
               (case gl_dispatched r of
                  Some dr \<Rightarrow> (Ok (r, Some dr, aid, created), l1, db1)
                | None \<Rightarrow>
                    (case dispatch_admitted enq lib (fs 7) p c update_treatments True ''update'' item (gl_graph r) aid (other 1 l1) db1 of
                       Inl e \<Rightarrow> (Err e, other 1 l1, db1)
                     | Inr (dr, db2) \<Rightarrow> (Ok (r, dr, aid, created), other 1 l1, db2)))))"

definition force_restage_tail ::
  "(manifest \<Rightarrow> 's \<Rightarrow> (string \<times> 's) result) \<Rightarrow> pylib \<Rightarrow> item_files \<Rightarrow> path \<Rightarrow> operator_command \<Rightarrow> goal_result \<Rightarrow> string \<Rightarrow> ledger \<Rightarrow> 's \<Rightarrow>
   (dispatch_result \<times> 's) result" where
  "force_restage_tail enq lib fs p c r aid l db =
     (let g = gl_graph r in
      if gl_dispatched r \<noteq> None then Err (RuntimeError ''force-restage admission selected an unexpected local treatment'')
      else if ownership_conflicts g \<noteq> [] \<or> reconciliation_gates g \<noteq> []
      then Err (RuntimeError ''force-restage admission is blocked by reconciliation'')
      else
        (case filter (\<lambda>d. treatment_id d = tr_identity EBAY_STAGE \<and> treatment_version d = tr_version EBAY_STAGE) (eligible_treatments g) of
           [d] \<Rightarrow>
             bind_result (get_authority aid l) (\<lambda>a.
               if \<not> authority_fits ''force-restage'' g a
               then Err (RuntimeError ''force-restage authority binding changed before dispatch'')
               else governed_dispatch enq lib fs p (object_generation g) d (object_id g) g
                      (command_extra c True aid (the a) (oc_rest_endpoint c)) ''failed to dispatch governed force-restage'' db)
         | _ \<Rightarrow> Err (ValueError ''force-restage is not the one eligible stage disposition'')))"

definition authorize_and_dispatch_force_restage ::
  "(manifest \<Rightarrow> 's \<Rightarrow> (string \<times> 's) result) \<Rightarrow> pylib \<Rightarrow> (json \<Rightarrow> string) \<Rightarrow> isolib \<Rightarrow> (nat \<Rightarrow> item_files) \<Rightarrow> path \<Rightarrow>
   operator_command \<Rightarrow> command_clock \<Rightarrow> (nat \<Rightarrow> ledger \<Rightarrow> ledger) \<Rightarrow> observations \<Rightarrow> ledger \<Rightarrow> 's \<Rightarrow> 's command_outcome" where
  "authorize_and_dispatch_force_restage enq lib cs il fs p c clock other ob l db =
     (case authorize_and_request_item_goal enq lib cs il fs p TGW_EBAY_LISTABLE c [''force-restage''] False clock other ob l db of
        (Inl e, l1, db1) \<Rightarrow> (Err e, l1, db1)
      | (Inr (r, aid, created), l1, db1) \<Rightarrow>
          (case force_restage_tail enq lib (fs 6) p c r aid (other 1 l1) db1 of
             Inl e \<Rightarrow> (Err e, other 1 l1, db1)
           | Inr (dr, db2) \<Rightarrow> (Ok (r, Some dr, aid, created), other 1 l1, db2)))"

end
