(* ===== verification/Listing_Commands.thy ===== *)
theory Listing_Commands
  imports Goal_Requests
begin

text \<open>
  What the goal requests and the listing commands of \<^verbatim>\<open>workflow/listing_migration.py\<close> dispatch. The lemmas follow one command
  from the issue of its authority to the job in the queue; the theorems show that every external treatment is covered by the
  authority at the moment of its dispatch, whatever happened to the document and to the ledger in between, and that the
  update command never publishes. The sample command at the end runs from an empty ledger to a dispatched upload.
\<close>

section \<open>One dispatch\<close>

lemma require_current_OkD:
  "require_current_generation lib fs p gen = Ok item \<Longrightarrow> read_json fs p = Ok (JObj item) \<and> item_generation lib item = gen"
  by (cases "read_json fs p"; cases "projr (read_json fs p)")
    (auto simp: require_current_generation_def bound_item_document_def split: if_splits)

text \<open>A governed dispatch happens for the generation that the file has at that moment, and enqueues at most one job.\<close>

lemma governed_dispatch_OkD:
  assumes "governed_dispatch enq lib fs p gen d eid g extra failure db = Ok (dr, db')"
  obtains item payload where "read_json fs p = Ok (JObj item)" "item_generation lib item = gen"
    "dispatch_payload d eid (Some g) extra ''item'' = Ok payload" "dr_treatment_id dr = treatment_id d"
    "if enqueued dr then enq (dispatch_manifest d eid (object_generation g) ''item'' payload) db = Ok (dr_job_id dr, db') else db' = db"
proof -
  from assms obtain item where i: "require_current_generation lib fs p gen = Ok item"
    and v: "dispatch_treatment_v4 enq d eid (Some g) extra ''item'' db = Ok (dr, db')"
    by (auto simp: governed_dispatch_def split: if_splits)
  then obtain payload where pl: "dispatch_payload d eid (Some g) extra ''item'' = Ok payload"
    by (auto simp: dispatch_treatment_v4_def split: sum.splits)
  show thesis
    using require_current_OkD[OF i] v pl
    by (intro that[OF _ _ pl]; cases "enq (dispatch_manifest d eid (object_generation g) ''item'' payload) db")
      (auto simp: dispatch_treatment_v4_def dispatched_def graph_generation_def split: if_splits)
qed

lemma request_OkD:
  assumes "request_item_goal enq lib cs il fs p goal ts q l ob db = Ok (r, db')"
  obtains provider item stage base granted snap where
    "environment_bound_identity (gr_provider_identity q) (gr_environment q) = Ok provider"
    "bound_item_document lib (fs 0) p (gr_document q) (gr_expected_generation q) = Ok item"
    "build_item_snapshot lib cs (fs 1) p goal ts (goal_inputs q stage) = Ok base"
    "valid_scopes (gr_authority_id q)
       (authority_binding_for lib base goal (evaluate lib base goal ts GOAL_EVALUATOR_VERSION []) item provider)
       (\<lambda>i. get_authority i l) SCOPES = Ok granted"
    "build_item_snapshot lib cs (fs 2) p goal ts ((goal_inputs q stage)\<lparr>authorized_scopes := evaluator_authorized_scopes granted,
       authority_identity := (case gr_authority_id q of None \<Rightarrow> [] | Some a \<Rightarrow> a)\<rparr>) = Ok snap"
    "gl_graph r = evaluate lib snap goal ts GOAL_EVALUATOR_VERSION []"
    "gl_dispatched r = None \<and> db' = db \<or>
       (\<exists>d dr failure. d \<in> set (eligible_treatments (gl_graph r)) \<and> effect_class_of ts d = Some LOCAL \<and> gl_dispatched r = Some dr
          \<and> governed_dispatch enq lib (fs 3) p (generation snap) d (snap_object_id snap) (gl_graph r)
              (goal_extra q (evaluate lib base goal ts GOAL_EVALUATOR_VERSION [])) failure db = Ok (dr, db'))"
proof -
  from assms obtain provider item where a: "environment_bound_identity (gr_provider_identity q) (gr_environment q) = Ok provider"
    "bound_item_document lib (fs 0) p (gr_document q) (gr_expected_generation q) = Ok item"
    by (auto simp: request_item_goal_def)
  define stage where "stage = (case gr_stage_lookup q of Some f \<Rightarrow> Some f
    | None \<Rightarrow> (if provider \<noteq> [] then authoritative_stage_lookup lib il l ob item provider else None))"
  note step = assms[unfolded request_item_goal_def a bind_result_simps Let_def stage_def[symmetric]]
  from step obtain base where b: "build_item_snapshot lib cs (fs 1) p goal ts (goal_inputs q stage) = Ok base" by auto
  note step2 = step[unfolded b bind_result_simps]
  from step2 obtain granted where g: "valid_scopes (gr_authority_id q)
       (authority_binding_for lib base goal (evaluate lib base goal ts GOAL_EVALUATOR_VERSION []) item provider)
       (\<lambda>i. get_authority i l) SCOPES = Ok granted" by auto
  note step3 = step2[unfolded g bind_result_simps]
  from step3 obtain snap where s: "build_item_snapshot lib cs (fs 2) p goal ts ((goal_inputs q stage)\<lparr>authorized_scopes := evaluator_authorized_scopes granted,
       authority_identity := (case gr_authority_id q of None \<Rightarrow> [] | Some a \<Rightarrow> a)\<rparr>) = Ok snap" by auto
  note step4 = step3[unfolded s bind_result_simps]
  let ?g = "evaluate lib snap goal ts GOAL_EVALUATOR_VERSION []"
  let ?local = "filter (\<lambda>d. effect_class_of ts d = Some LOCAL) (eligible_treatments ?g)"
  show thesis
  proof (cases "?local \<noteq> [] \<and> ownership_conflicts ?g = [] \<and> reconciliation_gates ?g = []")
    case True
    have "hd ?local \<in> set ?local" by (rule hd_in_set) (use True in blast)
    then have h: "hd ?local \<in> set (eligible_treatments ?g)" "effect_class_of ts (hd ?local) = Some LOCAL" by simp_all
    from step4[unfolded if_P[OF True]] obtain dr where
      "governed_dispatch enq lib (fs 3) p (generation snap) (hd ?local) (snap_object_id snap) ?g
         (goal_extra q (evaluate lib base goal ts GOAL_EVALUATOR_VERSION []))
         (''failed to dispatch workflow treatment '' @ treatment_id (hd ?local)) db = Ok (dr, db')"
      and r: "gl_graph r = ?g" "gl_dispatched r = Some dr" by auto
    with h show thesis
      by (intro that[OF a b g s r(1)] disjI2 exI[of _ "hd ?local"] exI[of _ dr] exI[of _ "''failed to dispatch workflow treatment '' @ treatment_id (hd ?local)"])
        (simp add: r)
  next
    case False
    then show thesis using step4 by (intro that[OF a b g s]) auto
  qed
qed


section \<open>What the scopes of a request rest on\<close>

lemma validate_OkD:
  assumes "validate_authority aid b s lookup = Ok (Some a, m)"
  shows "\<exists>i. aid = Some i \<and> lookup i = Ok (Some a)" and "superseded_at a = None" and "binding_of a = b" and "s \<in> set (scopes a)"
  using assms by (auto simp: validate_authority_def split: option.splits if_splits sum.splits)

lemma valid_scopes_OkD:
  "valid_scopes aid b lookup ss = Ok granted \<Longrightarrow> s \<in> set granted
    \<Longrightarrow> \<exists>i a. aid = Some i \<and> lookup i = Ok (Some a) \<and> superseded_at a = None \<and> binding_of a = b \<and> s \<in> set (scopes a)"
proof (induction ss arbitrary: granted)
  case (Cons x ss)
  from Cons.prems(1) obtain a m rest where v: "validate_authority aid b x lookup = Ok (a, m)"
    and rest: "valid_scopes aid b lookup ss = Ok rest" and granted: "granted = (if a \<noteq> None then x # rest else rest)"
    by (cases "validate_authority aid b x lookup"; cases "valid_scopes aid b lookup ss") (auto simp: split_beta)
  show ?case
  proof (cases "s \<in> set rest")
    case True
    then show ?thesis by (rule Cons.IH[OF rest])
  next
    case False
    then obtain a' where "s = x" "a = Some a'" using Cons.prems(2) granted by (auto split: if_splits)
    then show ?thesis using validate_OkD[of aid b x lookup a' m] v by auto
  qed
qed simp

text \<open>An external treatment that the evaluation of a request finds eligible is covered by the authority the request names: the
  authority is not superseded, it carries the treatment's scope (or, for staging, the stronger one), and its binding is the
  evaluated generation, conditions, content and provider account.\<close>

definition scope_cover :: "string \<Rightarrow> string list" where
  "scope_cover scope = (if scope = ''stage'' then [''stage'', ''force-restage''] else [scope])"

lemma evaluator_scopes_cover: "scope \<in> set (evaluator_authorized_scopes granted) \<Longrightarrow> \<exists>s\<in>set (scope_cover scope). s \<in> set granted"
  by (auto simp: evaluator_authorized_scopes_def scope_cover_def split: if_splits)

definition listing_scope :: "treatment_contract \<Rightarrow> string \<Rightarrow> bool" where
  "listing_scope t scope = ((t, scope) \<in> {(EBAY_UPLOAD, ''upload''), (EBAY_STAGE, ''stage''), (EBAY_PUBLISH, ''publish'')})"

lemma listing_scope_registered:
  assumes "listing_scope t scope"
  shows "t \<in> set ALL_TREATMENTS" and "needs (AUTHORIZED_PREFIX @ scope) \<in> set (requires t)" and "replace_char (CHR ''_'') (CHR ''-'') scope = scope"
    and "tr_identity t = ''ebay-'' @ scope"
  using assms
  by (auto simp: listing_scope_def ALL_TREATMENTS_def TGW_TREATMENTS_def EBAY_UPLOAD_def EBAY_STAGE_def EBAY_PUBLISH_def AUTHORIZED_PREFIX_def
      replace_char_def)

lemma scoped_work_authorized:
  assumes "build_item_snapshot lib cs fs p goal ts si = Ok snap" and "set ts \<subseteq> set ALL_TREATMENTS"
    and "authorized_scopes si = evaluator_authorized_scopes granted"
    and "valid_scopes aid b lookup ss = Ok granted"
    and "d \<in> set (eligible_treatments (evaluate lib snap goal ts version attempts))"
    and "treatment_id d = tr_identity t" and "listing_scope t scope"
  shows "\<exists>i a. aid = Some i \<and> lookup i = Ok (Some a) \<and> superseded_at a = None \<and> binding_of a = b
    \<and> (\<exists>s\<in>set (scope_cover scope). s \<in> set (scopes a))"
proof -
  have "scope \<in> set (authorized_scopes si)"
    using needs_scope[OF assms(1,2,5,6)] listing_scope_registered[OF assms(7)] by metis
  then obtain s where s: "s \<in> set (scope_cover scope)" "s \<in> set granted"
    using evaluator_scopes_cover unfolding assms(3) by blast
  then show ?thesis using valid_scopes_OkD[OF assms(4) s(2)] by blast
qed


section \<open>The commands\<close>

lemma authorize_OkD:
  assumes "authorize_and_request_item_goal enq lib cs il fs p goal c requested current clock other ob l db = (Ok (r, aid, created), l', db')"
    and "approved_authority_scopes goal requested = Ok granted" and "granted \<noteq> []"
  obtains provider item stage snap rq l1 where
    "environment_bound_identity (oc_provider_identity c) (oc_environment c) = Ok provider"
    "prepare_authority lib cs il fs p goal c provider granted current (cc_now clock) l ob = Ok (item, stage, snap, rq)"
    "issue_or_reuse_authority (cc_db_now clock) (cc_authority_id clock) rq l = Ok ((aid, created), l1)"
    "l' = other 0 l1"
    "request_item_goal enq lib cs il (\<lambda>n. fs (n + 2)) p goal TGW_TREATMENTS
       ((command_request c)\<lparr>gr_authority_id := Some aid, gr_provider_identity := provider, gr_stage_lookup := stage,
          gr_require_current_stage := current, gr_document := Some (JObj item), gr_expected_generation := Some (generation snap)\<rparr>)
       l' ob db = Ok (r, db')"
proof -
  obtain s ss where g: "granted = s # ss" using assms(3) by (cases granted) auto
  from assms(1) obtain provider where a: "environment_bound_identity (oc_provider_identity c) (oc_environment c) = Ok provider"
    unfolding authorize_and_request_item_goal_def by (auto split: if_splits sum.splits)
  note step = assms(1)[unfolded authorize_and_request_item_goal_def assms(2) a g sum.case list.case]
  from step obtain item stage snap rq where b:
    "prepare_authority lib cs il fs p goal c provider (s # ss) current (cc_now clock) l ob = Ok (item, stage, snap, rq)"
    by (auto split: if_splits sum.splits)
  note step2 = step[unfolded b sum.case prod.case]
  from step2 obtain aid' created' l1 where i: "issue_or_reuse_authority (cc_db_now clock) (cc_authority_id clock) rq l = Ok ((aid', created'), l1)"
    by (auto split: if_splits sum.splits)
  note step3 = step2[unfolded i sum.case prod.case]
  let ?q = "(command_request c)\<lparr>gr_authority_id := Some aid', gr_provider_identity := provider, gr_stage_lookup := stage,
          gr_require_current_stage := current, gr_document := Some (JObj item), gr_expected_generation := Some (generation snap)\<rparr>"
  from step3 obtain r0 db0 where
    r: "request_item_goal enq lib cs il (\<lambda>n. fs (n + 2)) p goal TGW_TREATMENTS ?q (other 0 l1) ob db = Ok (r0, db0)"
    by (auto split: if_splits sum.splits)
  from step3[unfolded r sum.case prod.case] have e: "r0 = r" "aid' = aid" "created' = created" "l' = other 0 l1" "db0 = db'"
    by (auto split: if_splits)
  show thesis by (rule that[OF a b[folded g] i[unfolded e] e(4) r[unfolded e(1,2,5) e(4)[symmetric]]])
qed

lemma dispatch_admitted_OkD:
  assumes "dispatch_admitted enq lib fs p c allowed no_publish label item g aid l db = Ok (Some dr, db')"
  obtains d scope a doc payload where "d \<in> set (eligible_treatments g)" "map_of allowed (treatment_id d, treatment_version d) = Some scope"
    "dr_treatment_id dr = treatment_id d" "get_authority aid l = Ok (Some a)" "authority_fits scope g (Some a)"
    "no_publish \<longrightarrow> ''publish'' \<notin> set (scopes a)"
    "read_json fs p = Ok (JObj doc)" "item_generation lib doc = object_generation g"
    "\<exists>force endpoint. dispatch_payload d (object_id g) (Some g) (command_extra c force aid a endpoint) ''item'' = Ok payload"
    "if enqueued dr then enq (dispatch_manifest d (object_id g) (object_generation g) ''item'' payload) db = Ok (dr_job_id dr, db') else db' = db"
proof -
  from assms obtain d where d: "filter (\<lambda>d. map_of allowed (treatment_id d, treatment_version d) \<noteq> None) (eligible_treatments g) = [d]"
    by (auto simp: dispatch_admitted_def split: if_splits list.splits)
  then have e: "d \<in> set (eligible_treatments g)" "map_of allowed (treatment_id d, treatment_version d) \<noteq> None"
    by (auto dest: filter_eq_ConsD)
  then obtain scope where s: "map_of allowed (treatment_id d, treatment_version d) = Some scope" by blast
  note step = assms[unfolded dispatch_admitted_def d s list.case Let_def option.sel]
  from step obtain a0 where a: "get_authority aid l = Ok a0" by (auto split: if_splits)
  note step2 = step[unfolded a bind_result_simps]
  from step2 obtain a1 where a1: "a0 = Some a1" "authority_fits scope g (Some a1)" "no_publish \<longrightarrow> ''publish'' \<notin> set (scopes a1)"
    by (cases a0) (auto simp: authority_fits_def split: if_splits)
  from step2[unfolded a1(1) option.sel] obtain force failure where
    gd: "governed_dispatch enq lib fs p (object_generation g) d (object_id g) g (command_extra c force aid a1
       (if treatment_id d = tr_identity EBAY_UPLOAD then oc_trading_endpoint c else oc_rest_endpoint c)) failure db = Ok (dr, db')"
    by (auto split: if_splits)
  show thesis
    by (rule governed_dispatch_OkD[OF gd]) (rule that[OF e(1) s _ _ a1(2,3)], use a a1(1) in auto)
qed


section \<open>The authority of a command\<close>

lemma issued_row:
  assumes "ledger_ok l" and "issue_or_reuse_authority now aid0 rq l = Ok ((aid, created), l1)"
    and "canonical_uuid aid0" and "\<forall>a\<in>set (authorities l). canonical_uuid (authority_id a)"
  shows "\<exists>a. authority_row aid l1 = Some a \<and> binding_of a = rq_binding rq" and "pg_uuid aid = Some aid" and "ledger_ok l1"
proof -
  show ok: "ledger_ok l1" using assms(1,2) ledger_step_ok ledger_step.issue_or_reuse by blast
  have "(\<exists>a. authority_row aid l1 = Some a \<and> binding_of a = rq_binding rq) \<and> canonical_uuid aid"
    using assms(2)
  proof (cases rule: issue_or_reuse_cases)
    case (reused a)
    then have "a \<in> set (authorities l1)" "binding_of a = rq_binding rq" using find_SomeD[OF reused(1)] by (auto simp: exact_match_def)
    then show ?thesis using authority_row_mem[OF ok] reused assms(4) by auto
  next
    case (issued w l2)
    then have "authority_of aid rq w \<in> set (authorities l1)" using put_authorities_OkD[OF issued(4)] by simp
    then show ?thesis using authority_row_mem[OF ok] assms(3) issued(5) by force
  qed
  then show "\<exists>a. authority_row aid l1 = Some a \<and> binding_of a = rq_binding rq" "pg_uuid aid = Some aid"
    by (simp_all add: canonical_uuid_def)
qed

lemma get_authority_row: "get_authority aid l = Ok (Some a) \<Longrightarrow> pg_uuid aid = Some aid \<Longrightarrow> authority_row aid l = Some a"
  by (simp add: get_authority_def split: if_splits)

text \<open>The authority that the ledger has after the command's own transactions and any others is the one it issued or reused.\<close>

lemma command_authority:
  assumes "ledger_ok l" and "issue_or_reuse_authority now aid0 rq l = Ok ((aid, created), l1)"
    and "canonical_uuid aid0" and "\<forall>a\<in>set (authorities l). canonical_uuid (authority_id a)"
    and "ledger_step\<^sup>*\<^sup>* l1 l2" and "get_authority aid l2 = Ok (Some a)"
  shows "binding_of a = rq_binding rq"
proof -
  note row = issued_row[OF assms(1-4)]
  from row(1) obtain a1 where a1: "authority_row aid l1 = Some a1" "binding_of a1 = rq_binding rq" by blast
  obtain a2 where "authority_row aid l2 = Some a2" "same_authority\<^sup>*\<^sup>* a1 a2"
    using authority_table.row_steps[OF assms(5) row(3) a1(1)] by blast
  then show ?thesis using get_authority_row[OF assms(6) row(2)] a1(2) same_authority_steps by (auto simp: same_authority_def)
qed

lemma prepare_OkD:
  assumes "prepare_authority lib cs il fs p goal c provider granted current now l ob = Ok (item, stage, snap, rq)"
  shows "\<exists>h. rq_binding rq = \<lparr>ab_entity_id = snap_object_id snap, ab_goal_profile_id = goal_identity goal,
      ab_goal_profile_version = goal_version goal, ab_object_generation = generation snap, ab_pre_authority_condition_hash = h,
      ab_content_identity = listing_content_identity lib item, ab_provider_identity = provider\<rparr>"
  using assms by (auto simp: prepare_authority_def Let_def authority_binding_for_def split: option.splits sum.splits)

text \<open>Whenever a request of the command evaluates, the frozen document has the generation that the authority is for.\<close>

lemma request_document:
  assumes "bound_item_document lib fs p (Some (JObj item)) (Some gen) = Ok doc"
  shows "item_generation lib doc = gen"
  using assms by (auto simp: bound_item_document_def split: if_splits json.splits)


lemma request_scope:
  assumes "request_item_goal enq lib cs il fs p goal ts q l ob db = Ok (r, db')" and "set ts \<subseteq> set ALL_TREATMENTS"
    and "gr_authority_id q = Some aid" and "gr_document q = Some (JObj frozen)" and "gr_expected_generation q = Some gen"
    and "d \<in> set (eligible_treatments (gl_graph r))" and "treatment_id d = tr_identity t" and "listing_scope t scope"
  shows "\<exists>a doc. get_authority aid l = Ok (Some a) \<and> superseded_at a = None \<and> (\<exists>s\<in>set (scope_cover scope). s \<in> set (scopes a))
    \<and> item_generation lib doc = gen \<and> content_identity a = listing_content_identity lib doc"
proof -
  from assms(1) obtain provider doc stage base granted snap where
    doc: "bound_item_document lib (fs 0) p (gr_document q) (gr_expected_generation q) = Ok doc"
    and granted: "valid_scopes (gr_authority_id q)
       (authority_binding_for lib base goal (evaluate lib base goal ts GOAL_EVALUATOR_VERSION []) doc provider) (\<lambda>i. get_authority i l) SCOPES = Ok granted"
    and snap: "build_item_snapshot lib cs (fs 2) p goal ts ((goal_inputs q stage)\<lparr>authorized_scopes := evaluator_authorized_scopes granted,
       authority_identity := (case gr_authority_id q of None \<Rightarrow> [] | Some a \<Rightarrow> a)\<rparr>) = Ok snap"
    and graph: "gl_graph r = evaluate lib snap goal ts GOAL_EVALUATOR_VERSION []"
    by (rule request_OkD) blast
  have "\<exists>i a. gr_authority_id q = Some i \<and> get_authority i l = Ok (Some a) \<and> superseded_at a = None
      \<and> binding_of a = authority_binding_for lib base goal (evaluate lib base goal ts GOAL_EVALUATOR_VERSION []) doc provider
      \<and> (\<exists>s\<in>set (scope_cover scope). s \<in> set (scopes a))"
    by (rule scoped_work_authorized[OF snap assms(2) _ granted assms(6)[unfolded graph] assms(7,8)]) simp
  moreover have "item_generation lib doc = gen" using doc unfolding assms(4,5) by (rule request_document)
  ultimately show ?thesis using assms(3) by (auto simp: binding_of_def authority_binding_for_def)
qed

lemma request_without_local:
  "request_item_goal enq lib cs il fs p goal ts q l ob db = Ok (r, db') \<Longrightarrow> gl_dispatched r = None \<Longrightarrow> db' = db"
  by (erule request_OkD) auto

section \<open>What the commands dispatch\<close>

text \<open>The effect of scope \<open>scope\<close> that was dispatched for the graph \<open>g\<close> is covered: at the moment of the dispatch the ledger has the
  named authority with that scope, for the graph's entity and generation, for the provider account in the selected environment
  and for the content of a document of that generation, and the file has that generation.\<close>

definition effect_authorized ::
  "pylib \<Rightarrow> item_files \<Rightarrow> path \<Rightarrow> operator_command \<Rightarrow> goal_profile \<Rightarrow> runtime_work_graph \<Rightarrow> dispatch_result \<Rightarrow> string \<Rightarrow> ledger \<Rightarrow> string \<Rightarrow> bool" where
  "effect_authorized lib fs p c goal g dr aid l scope =
     (dr_treatment_id dr = ''ebay-'' @ scope \<and>
      (\<exists>a file doc. get_authority aid l = Ok (Some a) \<and> scope \<in> set (scopes a)
         \<and> oa_entity_id a = object_id g \<and> oa_goal_profile_id a = goal_identity goal \<and> oa_object_generation a = object_generation g
         \<and> environment_bound_identity (oc_provider_identity c) (oc_environment c) = Ok (provider_identity a)
         \<and> read_json fs p = Ok (JObj file) \<and> item_generation lib file = oa_object_generation a
         \<and> item_generation lib doc = oa_object_generation a \<and> content_identity a = listing_content_identity lib doc))"

text \<open>The queue got at most one job; it is the treatment's, and its payload names the authority.\<close>

definition job_names_authority ::
  "(manifest \<Rightarrow> 's \<Rightarrow> (string \<times> 's) result) \<Rightarrow> dispatch_result \<Rightarrow> string \<Rightarrow> 's \<Rightarrow> 's \<Rightarrow> bool" where
  "job_names_authority enq dr aid db db' =
     (if enqueued dr
      then \<exists>m payload. enq m db = Ok (dr_job_id dr, db') \<and> m_handler_family m = treatment_to_queue (dr_treatment_id dr)
             \<and> m_payload m = JObj payload \<and> jget payload ''operator_authority_id'' = JStr aid
      else db' = db)"

lemma payload_authority:
  assumes "dispatch_payload d eid (Some g) (command_extra c force aid a endpoint) ''item'' = Ok payload"
  shows "jget payload ''operator_authority_id'' = JStr aid"
proof -
  let ?p = "dict_merge (disposition_payload d eid (Some g)) (command_extra c force aid a endpoint)"
  have "payload = AList.update ''sku'' (JStr eid) ?p" using assms by (auto simp: dispatch_payload_def Let_def split: if_splits)
  moreover have "map_of (command_extra c force aid a endpoint) ''operator_authority_id'' = Some (JStr aid)"
    by (simp add: command_extra_def)
  ultimately show ?thesis by (simp add: jget_def map_add_def)
qed

lemma command_effect:
  assumes "authorize_and_request_item_goal enq lib cs il fs p goal c0 requested current clock other ob l db = (Ok (r, aid, created), l1, db1)"
    and "approved_authority_scopes goal requested = Ok granted" and "granted \<noteq> []" and "gl_dispatched r = None"
    and "dispatch_admitted enq lib fs' p c allowed np label item (gl_graph r) aid (other 1 l1) db1 = Ok (Some dr, db2)"
    and "\<forall>(k, scope)\<in>set allowed. \<exists>t. listing_scope t scope \<and> fst k = tr_identity t"
    and "ledger_ok l" and "canonical_uuid (cc_authority_id clock)" and "\<forall>a\<in>set (authorities l). canonical_uuid (authority_id a)"
    and "\<forall>n m. ledger_step\<^sup>*\<^sup>* m (other n m)"
    and c0: "oc_provider_identity c0 = oc_provider_identity c" "oc_environment c0 = oc_environment c"
  shows "\<exists>scope\<in>snd ` set allowed. effect_authorized lib fs' p c goal (gl_graph r) dr aid (other 1 l1) scope"
    and "job_names_authority enq dr aid db db2"
    and "np \<longrightarrow> (\<exists>a. get_authority aid (other 1 l1) = Ok (Some a) \<and> ''publish'' \<notin> set (scopes a))"
proof -
  from assms(1-3) obtain provider frozen stage snap rq l2 where
    provider: "environment_bound_identity (oc_provider_identity c) (oc_environment c) = Ok provider"
    and prepared: "prepare_authority lib cs il fs p goal c0 provider granted current (cc_now clock) l ob = Ok (frozen, stage, snap, rq)"
    and issued: "issue_or_reuse_authority (cc_db_now clock) (cc_authority_id clock) rq l = Ok ((aid, created), l2)" and l1: "l1 = other 0 l2"
    and requested: "request_item_goal enq lib cs il (\<lambda>n. fs (n + 2)) p goal TGW_TREATMENTS
       ((command_request c0)\<lparr>gr_authority_id := Some aid, gr_provider_identity := provider, gr_stage_lookup := stage,
          gr_require_current_stage := current, gr_document := Some (JObj frozen), gr_expected_generation := Some (generation snap)\<rparr>)
       l1 ob db = Ok (r, db1)"
    unfolding c0[symmetric] by (rule authorize_OkD)
  obtain h where rq: "rq_binding rq = \<lparr>ab_entity_id = snap_object_id snap, ab_goal_profile_id = goal_identity goal,
      ab_goal_profile_version = goal_version goal, ab_object_generation = generation snap, ab_pre_authority_condition_hash = h,
      ab_content_identity = listing_content_identity lib frozen, ab_provider_identity = provider\<rparr>"
    using prepare_OkD[OF prepared] by blast
  have steps: "ledger_step\<^sup>*\<^sup>* l2 l1" "ledger_step\<^sup>*\<^sup>* l2 (other 1 l1)"
    using assms(10) unfolding l1 by (blast intro: rtranclp_trans)+
  note bound = command_authority[OF assms(7) issued assms(8,9), unfolded rq]
  from dispatch_admitted_OkD[OF assms(5)] obtain d scope a disk_doc payload where
    d: "d \<in> set (eligible_treatments (gl_graph r))" "map_of allowed (treatment_id d, treatment_version d) = Some scope"
      "dr_treatment_id dr = treatment_id d"
    and a: "get_authority aid (other 1 l1) = Ok (Some a)" "authority_fits scope (gl_graph r) (Some a)" "np \<longrightarrow> ''publish'' \<notin> set (scopes a)"
    and disk: "read_json fs' p = Ok (JObj disk_doc)" "item_generation lib disk_doc = object_generation (gl_graph r)"
    and payload: "\<exists>force endpoint. dispatch_payload d (object_id (gl_graph r)) (Some (gl_graph r)) (command_extra c force aid a endpoint) ''item'' = Ok payload"
    and db: "if enqueued dr then enq (dispatch_manifest d (object_id (gl_graph r)) (object_generation (gl_graph r)) ''item'' payload) db1 = Ok (dr_job_id dr, db2) else db2 = db1"
    by blast
  have allowed: "((treatment_id d, treatment_version d), scope) \<in> set allowed" using d(2) by (rule map_of_SomeD)
  then obtain t where t: "listing_scope t scope" "treatment_id d = tr_identity t" using assms(6) by fastforce
  note binding = bound[OF steps(2) a(1)]
  have same: "db1 = db" using request_without_local[OF requested assms(4)] .
  from request_scope[OF requested tgw_registered _ _ _ d(1) t(2,1), of aid frozen "generation snap"] obtain a0 doc where
    doc: "get_authority aid l1 = Ok (Some a0)" "item_generation lib doc = generation snap" "content_identity a0 = listing_content_identity lib doc"
    by auto
  have content: "content_identity a = listing_content_identity lib doc"
    using bound[OF steps(1) doc(1)] binding doc(3) by (simp add: binding_of_def)
  have "effect_authorized lib fs' p c goal (gl_graph r) dr aid (other 1 l1) scope"
    unfolding effect_authorized_def
    using a disk provider d(3) t listing_scope_registered(4)[OF t(1)] content doc(2) binding
    by (auto simp: authority_fits_def binding_of_def)
  with allowed show "\<exists>scope\<in>snd ` set allowed. effect_authorized lib fs' p c goal (gl_graph r) dr aid (other 1 l1) scope" by force
  show "np \<longrightarrow> (\<exists>a. get_authority aid (other 1 l1) = Ok (Some a) \<and> ''publish'' \<notin> set (scopes a))" using a by blast
  have "jget payload ''operator_authority_id'' = JStr aid" using payload payload_authority by blast
  then show "job_names_authority enq dr aid db db2"
    using db d(3) unfolding job_names_authority_def same by (auto simp: dispatch_manifest_def manifest_defaults_def split: if_splits)
qed

lemma scopes_approved:
  "approved_authority_scopes TGW_EBAY_LISTABLE [''upload'', ''stage'', ''publish'', ''force-restage'']
     = Ok [''force-restage'', ''publish'', ''stage'', ''upload'']"
  "approved_authority_scopes TGW_EBAY_STAGED [''upload'', ''stage'', ''force-restage''] = Ok [''force-restage'', ''stage'', ''upload'']"
  by code_simp+

lemma treatments_scoped:
  "\<forall>(k, scope)\<in>set listing_treatments. \<exists>t. listing_scope t scope \<and> fst k = tr_identity t"
  "\<forall>(k, scope)\<in>set update_treatments. \<exists>t. listing_scope t scope \<and> fst k = tr_identity t"
  by (auto simp: listing_treatments_def update_treatments_def listing_scope_def)

lemma treatments_scopes:
  "snd ` set listing_treatments = {''upload'', ''stage'', ''publish''}" "snd ` set update_treatments = {''upload'', ''stage''}"
  by (auto simp: listing_treatments_def update_treatments_def)

lemma request_local:
  assumes "request_item_goal enq lib cs il fs p goal TGW_TREATMENTS q l ob db = Ok (r, db')" and "gl_dispatched r = Some dr"
  shows "\<exists>t\<in>set TGW_TREATMENTS. tr_effect_class t = LOCAL \<and> dr_treatment_id dr = tr_identity t"
  using assms(1)
proof (rule request_OkD)
  fix provider item stage base granted snap
  assume "gl_dispatched r = None \<and> db' = db \<or>
       (\<exists>d dr failure. d \<in> set (eligible_treatments (gl_graph r)) \<and> effect_class_of TGW_TREATMENTS d = Some LOCAL \<and> gl_dispatched r = Some dr
          \<and> governed_dispatch enq lib (fs 3) p (generation snap) d (snap_object_id snap) (gl_graph r)
              (goal_extra q (evaluate lib base goal TGW_TREATMENTS GOAL_EVALUATOR_VERSION [])) failure db = Ok (dr, db'))"
  then obtain d failure where d: "effect_class_of TGW_TREATMENTS d = Some LOCAL"
    and g: "governed_dispatch enq lib (fs 3) p (generation snap) d (snap_object_id snap) (gl_graph r)
              (goal_extra q (evaluate lib base goal TGW_TREATMENTS GOAL_EVALUATOR_VERSION [])) failure db = Ok (dr, db')"
    using assms(2) by auto
  obtain t where t: "treatment_by_id TGW_TREATMENTS (treatment_id d, treatment_version d) = Some t" "tr_effect_class t = LOCAL"
    using d by (auto simp: effect_class_of_def)
  have "t \<in> set TGW_TREATMENTS \<and> treatment_id d = tr_identity t"
    using map_of_SomeD[OF t(1)[unfolded treatment_by_id_def]] by auto
  moreover have "dr_treatment_id dr = treatment_id d" by (rule governed_dispatch_OkD[OF g])
  ultimately show ?thesis using t(2) by auto
qed

lemma next_listing_cases:
  assumes "authorize_and_dispatch_next_listing_effect enq lib cs il fs p c clock other ob l db = (Ok (r, Some dr, aid, created), l', db')"
  obtains frozen l1 db1 where
    "authorize_and_request_item_goal enq lib cs il (\<lambda>n. fs (n + 1)) p TGW_EBAY_LISTABLE (c\<lparr>oc_document := map_option JObj frozen\<rparr>)
       [''upload'', ''stage'', ''publish'', ''force-restage''] False clock other ob l db = (Ok (r, aid, created), l1, db1)"
    "gl_dispatched r = Some dr \<or> gl_dispatched r = None \<and> l' = other 1 l1
       \<and> (\<exists>item. dispatch_admitted enq lib (fs 8) p c listing_treatments False ''listing'' item (gl_graph r) aid (other 1 l1) db1 = Ok (Some dr, db'))"
proof -
  note def = authorize_and_dispatch_next_listing_effect_def
  obtain frozen where f: "(if oc_document c = None \<and> oc_expected_generation c = None then Ok None
            else map_sum id Some (bound_item_document lib (fs 0) p (oc_document c) (oc_expected_generation c))) = Ok frozen"
    using assms unfolding def by (cases "if oc_document c = None \<and> oc_expected_generation c = None then Ok None
            else map_sum id Some (bound_item_document lib (fs 0) p (oc_document c) (oc_expected_generation c))") simp_all
  note s = assms[unfolded def f sum.case]
  let ?a = "authorize_and_request_item_goal enq lib cs il (\<lambda>n. fs (n + 1)) p TGW_EBAY_LISTABLE (c\<lparr>oc_document := map_option JObj frozen\<rparr>)
       [''upload'', ''stage'', ''publish'', ''force-restage''] False clock other ob l db"
  obtain x l1 db1 where a: "?a = (x, l1, db1)" by (cases ?a)
  note s1 = s[unfolded a prod.case]
  obtain r0 aid0 created0 where x: "x = Ok (r0, aid0, created0)" using s1 by (cases x) auto
  note s2 = s1[unfolded x sum.case prod.case]
  show thesis
  proof (cases "gl_dispatched r0")
    case None
    obtain item where i: "(case frozen of Some item \<Rightarrow> Ok item | None \<Rightarrow> bound_item_document lib (fs 7) p None None) = Ok item"
      using s2 None by (cases "case frozen of Some item \<Rightarrow> Ok item | None \<Rightarrow> bound_item_document lib (fs 7) p None None") auto
    note s3 = s2[unfolded None option.case i sum.case]
    obtain d0 db0 where "dispatch_admitted enq lib (fs 8) p c listing_treatments False ''listing'' item (gl_graph r0) aid0 (other 1 l1) db1 = Ok (d0, db0)"
      using s3 by (cases "dispatch_admitted enq lib (fs 8) p c listing_treatments False ''listing'' item (gl_graph r0) aid0 (other 1 l1) db1") auto
    with s3 a None show thesis unfolding x by (intro that[of frozen l1 db1]) auto
  next
    case (Some dr0)
    with s2 a show thesis unfolding x by (intro that[of frozen l1 db1]) auto
  qed
qed

lemma update_item_cases:
  assumes "authorize_and_dispatch_update_item enq lib cs il fs p c clock other ob l db = (Ok (r, Some dr, aid, created), l', db')"
  obtains item l1 db1 where
    "authorize_and_request_item_goal enq lib cs il (\<lambda>n. fs (n + 1)) p TGW_EBAY_STAGED (c\<lparr>oc_document := Some (JObj item)\<rparr>)
       [''upload'', ''stage'', ''force-restage''] True clock other ob l db = (Ok (r, aid, created), l1, db1)"
    "gl_dispatched r = Some dr \<or> gl_dispatched r = None \<and> l' = other 1 l1
       \<and> dispatch_admitted enq lib (fs 7) p c update_treatments True ''update'' item (gl_graph r) aid (other 1 l1) db1 = Ok (Some dr, db')"
proof -
  note def = authorize_and_dispatch_update_item_def
  obtain item where f: "bound_item_document lib (fs 0) p (oc_document c) (oc_expected_generation c) = Ok item"
    using assms unfolding def by (cases "bound_item_document lib (fs 0) p (oc_document c) (oc_expected_generation c)") simp_all
  note s = assms[unfolded def f sum.case]
  let ?a = "authorize_and_request_item_goal enq lib cs il (\<lambda>n. fs (n + 1)) p TGW_EBAY_STAGED (c\<lparr>oc_document := Some (JObj item)\<rparr>)
       [''upload'', ''stage'', ''force-restage''] True clock other ob l db"
  obtain x l1 db1 where a: "?a = (x, l1, db1)" by (cases ?a)
  note s1 = s[unfolded a prod.case]
  obtain r0 aid0 created0 where x: "x = Ok (r0, aid0, created0)" using s1 by (cases x) auto
  note s2 = s1[unfolded x sum.case prod.case]
  show thesis
  proof (cases "gl_dispatched r0")
    case None
    note s3 = s2[unfolded None option.case]
    obtain d0 db0 where "dispatch_admitted enq lib (fs 7) p c update_treatments True ''update'' item (gl_graph r0) aid0 (other 1 l1) db1 = Ok (d0, db0)"
      using s3 by (cases "dispatch_admitted enq lib (fs 7) p c update_treatments True ''update'' item (gl_graph r0) aid0 (other 1 l1) db1") auto
    with s3 a None show thesis unfolding x by (intro that[of item l1 db1]) auto
  next
    case (Some dr0)
    with s2 a show thesis unfolding x by (intro that[of item l1 db1]) auto
  qed
qed

lemma command_local:
  assumes "authorize_and_request_item_goal enq lib cs il fs p goal c requested current clock other ob l db = (Ok (r, aid, created), l', db')"
    and "approved_authority_scopes goal requested = Ok granted" and "granted \<noteq> []" and "gl_dispatched r = Some dr"
  shows "\<exists>t\<in>set TGW_TREATMENTS. tr_effect_class t = LOCAL \<and> dr_treatment_id dr = tr_identity t"
  by (rule authorize_OkD[OF assms(1-3)]) (rule request_local[OF _ assms(4)])

lemma listing_effect_covered:
  assumes "authorize_and_dispatch_next_listing_effect enq lib cs il fs p c clock other ob l db = (Ok (r, Some dr, aid, created), l', db')"
    and "ledger_ok l" and "canonical_uuid (cc_authority_id clock)" and "\<forall>a\<in>set (authorities l). canonical_uuid (authority_id a)"
    and "\<forall>n m. ledger_step\<^sup>*\<^sup>* m (other n m)"
  shows "(\<exists>t\<in>set TGW_TREATMENTS. tr_effect_class t = LOCAL \<and> dr_treatment_id dr = tr_identity t)
    \<or> (\<exists>scope\<in>{''upload'', ''stage'', ''publish''}. effect_authorized lib (fs 8) p c TGW_EBAY_LISTABLE (gl_graph r) dr aid l' scope)
       \<and> job_names_authority enq dr aid db db'"
proof (rule next_listing_cases[OF assms(1)])
  fix frozen l1 db1
  assume a: "authorize_and_request_item_goal enq lib cs il (\<lambda>n. fs (n + 1)) p TGW_EBAY_LISTABLE (c\<lparr>oc_document := map_option JObj frozen\<rparr>)
       [''upload'', ''stage'', ''publish'', ''force-restage''] False clock other ob l db = (Ok (r, aid, created), l1, db1)"
    and rest: "gl_dispatched r = Some dr \<or> gl_dispatched r = None \<and> l' = other 1 l1
       \<and> (\<exists>item. dispatch_admitted enq lib (fs 8) p c listing_treatments False ''listing'' item (gl_graph r) aid (other 1 l1) db1 = Ok (Some dr, db'))"
  from rest show ?thesis
  proof (elim disjE conjE exE)
    assume "gl_dispatched r = Some dr"
    then show ?thesis using command_local[OF a scopes_approved(1)] by blast
  next
    fix item
    assume none: "gl_dispatched r = None" and l': "l' = other 1 l1"
      and adm: "dispatch_admitted enq lib (fs 8) p c listing_treatments False ''listing'' item (gl_graph r) aid (other 1 l1) db1 = Ok (Some dr, db')"
    from command_effect(1,2)[OF a scopes_approved(1) _ none adm treatments_scoped(1) assms(2-5)] show ?thesis
      by (simp add: l' treatments_scopes)
  qed
qed

text \<open>C18: whatever happens to the file and to the ledger while the command runs, what the listing command dispatches is
  local work, or exactly one upload, staging or publication that is covered when it is dispatched by the authority the command issued:
  with that scope, for the item and the generation that the file has then, for the content of that generation and for the
  provider account in the selected environment; the job's payload names that authority, and no second job is enqueued.\<close>

theorem listing_effect_is_authorized:
  assumes "authorize_and_dispatch_next_listing_effect enq lib cs il fs p c clock other ob l db = (Ok (r, Some dr, aid, created), l', db')"
    and "ledger_ok l" and "canonical_uuid (cc_authority_id clock)" and "\<forall>a\<in>set (authorities l). canonical_uuid (authority_id a)"
    and "\<forall>n m. ledger_step\<^sup>*\<^sup>* m (other n m)"
  shows "(\<exists>t\<in>set TGW_TREATMENTS. tr_effect_class t = LOCAL \<and> dr_treatment_id dr = tr_identity t)
    \<or> (\<exists>scope\<in>{''upload'', ''stage'', ''publish''}. effect_authorized lib (fs 8) p c TGW_EBAY_LISTABLE (gl_graph r) dr aid l' scope)
       \<and> job_names_authority enq dr aid db db'"
  using assms by (rule listing_effect_covered)

text \<open>The update command never publishes: what it dispatches is local work, or one upload or staging, covered as in the
  listing command by an authority that does not carry the scope of publication.\<close>

lemma update_item_never_publishes:
  assumes "authorize_and_dispatch_update_item enq lib cs il fs p c clock other ob l db = (Ok (r, Some dr, aid, created), l', db')"
    and "ledger_ok l" and "canonical_uuid (cc_authority_id clock)" and "\<forall>a\<in>set (authorities l). canonical_uuid (authority_id a)"
    and "\<forall>n m. ledger_step\<^sup>*\<^sup>* m (other n m)"
  shows "(\<exists>t\<in>set TGW_TREATMENTS. tr_effect_class t = LOCAL \<and> dr_treatment_id dr = tr_identity t)
    \<or> (\<exists>scope\<in>{''upload'', ''stage''}. effect_authorized lib (fs 7) p c TGW_EBAY_STAGED (gl_graph r) dr aid l' scope)
       \<and> job_names_authority enq dr aid db db' \<and> (\<exists>a. get_authority aid l' = Ok (Some a) \<and> ''publish'' \<notin> set (scopes a))"
proof (rule update_item_cases[OF assms(1)])
  fix item l1 db1
  assume a: "authorize_and_request_item_goal enq lib cs il (\<lambda>n. fs (n + 1)) p TGW_EBAY_STAGED (c\<lparr>oc_document := Some (JObj item)\<rparr>)
       [''upload'', ''stage'', ''force-restage''] True clock other ob l db = (Ok (r, aid, created), l1, db1)"
    and rest: "gl_dispatched r = Some dr \<or> gl_dispatched r = None \<and> l' = other 1 l1
       \<and> dispatch_admitted enq lib (fs 7) p c update_treatments True ''update'' item (gl_graph r) aid (other 1 l1) db1 = Ok (Some dr, db')"
  from rest show ?thesis
  proof (elim disjE conjE)
    assume "gl_dispatched r = Some dr"
    then show ?thesis using command_local[OF a scopes_approved(2)] by blast
  next
    assume none: "gl_dispatched r = None" and l': "l' = other 1 l1"
      and adm: "dispatch_admitted enq lib (fs 7) p c update_treatments True ''update'' item (gl_graph r) aid (other 1 l1) db1 = Ok (Some dr, db')"
    from command_effect[OF a scopes_approved(2) _ none adm treatments_scoped(2) assms(2-5)] show ?thesis
      by (simp add: l' treatments_scopes)
  qed
qed

section \<open>A sample command\<close>

definition ready_item :: jobj where
  "ready_item = [(''condition'', JStr ''Used''),
     (''draft_listing'', JObj [(''category_id'', JStr ''171''), (''price'', JFloat (999 / 100)), (''title'', JStr ''Lamp'')]),
     (''ebay_category_id'', JStr ''171''), (''sku'', JStr ''A1'')]"

definition sample_command :: operator_command where
  "sample_command = \<lparr>oc_operator_identity = ''op'', oc_surface = ''web'', oc_provider_identity = ''acct'', oc_ttl_seconds = 300,
     oc_document = None, oc_expected_generation = None, oc_environment = ''sandbox'', oc_rest_endpoint = [], oc_trading_endpoint = []\<rparr>"

definition sample_clock :: command_clock where
  "sample_clock = \<lparr>cc_db_now = 0, cc_now = 0, cc_authority_id = sample_authority_id\<rparr>"

definition bound_account :: string where
  "bound_account = ''acct|ebay-environment=sandbox''"

lemma ready_checked: "staged ready_item = Ok False" "priced ready_item = Ok True" "title_ok ready_item = Ok True"
  "ordered_photos ready_item (path_parent sample_path) (iterdir (sample_files ready_item) (path_parent sample_path))
     = Ok [(''/'', [''items'', ''A1'', ''a1.jpg''])]"
  by code_simp+

lemma ready_facts:
  "pipeline_facts item_lib (\<lambda>_. []) (path_parent sample_path, iterdir (sample_files ready_item) (path_parent sample_path)) ready_item
     True True True True True True False"
  unfolding pipeline_facts_def by (intro conjI) code_simp+

lemma ready_not_uploaded: "photos_uploaded item_lib ready_item (Some (path_parent sample_path, iterdir (sample_files ready_item) (path_parent sample_path))) = Ok False"
proof -
  have "case photo_sync_of ready_item (path_parent sample_path) (iterdir (sample_files ready_item) (path_parent sample_path)) of
      Inl _ \<Rightarrow> False | Inr s \<Rightarrow> \<not> sync_exact s" by code_simp
  then show ?thesis by (auto simp: photos_uploaded_def photo_sync_state_def Let_def split: sum.splits)
qed

lemma ready_sorted: "json_sorted (JObj ready_item) = JObj ready_item"
  by code_simp

lemma sample_account: "environment_bound_identity ''acct'' ''sandbox'' = Ok bound_account"
  "environment_bound_identity bound_account ''sandbox'' = Ok bound_account"
  by code_simp+

lemma sample_id: "uuid_ok sample_authority_id" "pg_uuid sample_authority_id = Some sample_authority_id"
  by code_simp+

lemma ready_stage: "provider \<noteq> [] \<Longrightarrow> authoritative_stage_lookup lib il l ob ready_item provider = Some (\<lambda>_. Ok None)"
  by (simp add: authoritative_stage_lookup_def ready_item_def jget_def dict_or_empty_def Let_def)


text \<open>A treatment is offered when its scope is granted and everything else it needs is there.\<close>

lemma ready_eligible:
  assumes "build_item_snapshot item_lib (\<lambda>_. []) (sample_files ready_item) sample_path goal TGW_TREATMENTS si = Ok snap"
    and "si_ambiguities si = []" and "provider_projection_receipt si = None" and "''upload'' \<in> set (authorized_scopes si)"
  shows "map (\<lambda>d. (treatment_id d, treatment_version d)) (eligible_treatments (evaluate item_lib snap goal TGW_TREATMENTS version []))
     = [(''ebay-upload'', ''1'')]"
proof -
  let ?dir = "(path_parent sample_path, iterdir (sample_files ready_item) (path_parent sample_path))"
  have ids: "c \<in> set (condition_ids goal TGW_TREATMENTS)"
    if "c \<in> set [''item_has_photos'', ''inventory_available'', ''ai_identified'', ''draft_generated'', ''priced'', ''valid_condition'',
     ''condition_normalizable'', ''operator_authorized_upload'', ''provider_effect_succeeded'', ''photos_uploaded'', ''staged'']" for c
    using that by (auto simp: condition_ids_def TGW_TREATMENTS_def contract_defs)
  have checker: "fp_result (by_id snap c) = (if met then TRUE else FALSE)"
    if "c \<in> set (condition_ids goal TGW_TREATMENTS)" "c \<noteq> ''photos_uploaded''"
      "map_of (item_checkers item_lib (\<lambda>_. []) ?dir ready_item) c = Some (Ok met)" for c met
    using verdict_checker[OF assms(1) sample_read that(1,3,2)] by auto
  note facts = ready_facts[unfolded pipeline_facts_def]
  have v: "fp_result (by_id snap ''item_has_photos'') = TRUE" "fp_result (by_id snap ''inventory_available'') = TRUE"
    "fp_result (by_id snap ''ai_identified'') = TRUE" "fp_result (by_id snap ''draft_generated'') = TRUE"
    "fp_result (by_id snap ''priced'') = TRUE" "fp_result (by_id snap ''valid_condition'') = TRUE"
    "fp_result (by_id snap ''staged'') = FALSE"
    using checker[OF ids, of "''item_has_photos''" True] checker[OF ids, of "''inventory_available''" True]
      checker[OF ids, of "''ai_identified''" True] checker[OF ids, of "''draft_generated''" True] checker[OF ids, of "''priced''" True]
      checker[OF ids, of "''valid_condition''" True] checker[OF ids, of "''staged''" False]
    by (simp_all add: item_checkers_def facts ready_checked(1))
  have p: "fp_result (by_id snap ''photos_uploaded'') = FALSE"
    by (rule verdict_photos[OF assms(1) sample_read ids]) (use ready_not_uploaded in simp_all)
  have r: "fp_result (by_id snap ''provider_effect_succeeded'') = UNKNOWN"
    using verdict_projection[OF assms(1) ids, of "''provider_effect_succeeded''"] by (simp add: assms(3) projection_met_def)
  have "condition_scope ''operator_authorized_upload'' = ''upload''" by code_simp
  then have u: "fp_result (by_id snap ''operator_authorized_upload'') = TRUE"
    using verdict_authority[OF assms(1) ids, of "''operator_authorized_upload''"] assms(4) by (simp add: AUTHORIZED_PREFIX_def starts_with_def)
  have amb: "external_effect_ambiguities snap = []" by (rule build_OkD[OF assms(1)]) (simp add: assms(2) sorted_set_def)
  have eligible: "fst (classify snap [] t) \<longleftrightarrow> unmet_of snap t = [] \<and> \<not> all_established snap t" for t
    by (simp add: classify_eligible ambiguity_of_def amb unchanged_attempts_def sorted_set_def)
  have "\<not> fst (classify snap [] AI_IDENTIFY)" "\<not> fst (classify snap [] EBAY_DRAFT)"
    "\<not> fst (classify snap [] EBAY_PRICE)" "\<not> fst (classify snap [] NORMALIZE_CONDITION)"
    "\<not> fst (classify snap [] EBAY_PUBLISH)" "\<not> fst (classify snap [] EBAY_STAGE)" "\<not> fst (classify snap [] EBAY_SYNC_TARGETED)"
    "fst (classify snap [] EBAY_UPLOAD)"
    unfolding eligible by (simp_all add: unmet_of_def all_established_def established_def contract_defs v p r u)
  then show ?thesis
    by (simp add: eligible_without_attempts tgw_by_identity classify_disposition) (simp add: contract_defs)
qed


definition sample_rq :: "goal_profile \<Rightarrow> string list \<Rightarrow> object_snapshot \<Rightarrow> authority_request" where
  "sample_rq goal granted snap =
     \<lparr>rq_operator = ''op'', rq_surface = ''web'',
      rq_binding = authority_binding_for item_lib snap goal (evaluate item_lib snap goal TGW_TREATMENTS GOAL_EVALUATOR_VERSION []) ready_item bound_account,
      rq_scopes = granted, rq_issued_at = Aware 0, rq_expires_at = Aware (0 + of_int 300)\<rparr>"

definition sample_ledger :: "goal_profile \<Rightarrow> string list \<Rightarrow> object_snapshot \<Rightarrow> ledger" where
  "sample_ledger goal granted snap =
     empty_ledger\<lparr>authorities := [authority_of sample_authority_id (sample_rq goal granted snap) (0, 300)]\<rparr>"

lemma ready_bound: "d \<in> {None, Some (JObj ready_item)} \<Longrightarrow> bound_item_document item_lib (sample_files ready_item) sample_path d None = Ok ready_item"
  by (auto simp: bound_item_document_def sample_read ready_sorted simp del: json_sorted.simps)

lemma ready_issued:
  assumes "granted \<noteq> []" and "set granted \<subseteq> set SCOPES"
  shows "issue_or_reuse_authority 0 sample_authority_id (sample_rq goal granted snap) empty_ledger
    = Ok ((sample_authority_id, True), sample_ledger goal granted snap)"
proof -
  have "scopes (authority_of sample_authority_id (sample_rq goal granted snap) (0, 300)) \<noteq> []"
    using assms(1) by (simp add: sample_rq_def sorted_set_def) (metis remdups_eq_nil_iff set_empty set_sort)
  then show ?thesis
    using assms by (simp add: issue_or_reuse_authority_def sample_rq_def aware_window_def empty_ledger_def put_authorities_def
        authorities_violation_def sample_ledger_def authority_of_def)
qed

lemma ready_scopes:
  assumes "s \<in> set granted"
  shows "validate_authority (Some sample_authority_id) (rq_binding (sample_rq goal granted snap)) s (\<lambda>i. get_authority i (sample_ledger goal granted snap))
    = Ok (Some (authority_of sample_authority_id (sample_rq goal granted snap) (0, 300)), ''operator authority exact durable binding valid'')"
proof -
  have "sample_authority_id \<noteq> []" by (simp add: sample_authority_id_def)
  moreover have "rq_scopes (sample_rq goal granted snap) = granted" by (simp add: sample_rq_def)
  ultimately show ?thesis
    using assms by (simp add: validate_authority_def get_authority_def sample_id authority_row_def sample_ledger_def empty_ledger_def)
qed

lemma ready_valid:
  assumes "set ss \<subseteq> set SCOPES"
  shows "valid_scopes (Some sample_authority_id) (rq_binding (sample_rq goal granted snap)) (\<lambda>i. get_authority i (sample_ledger goal granted snap)) ss
    = Ok (filter (\<lambda>s. s \<in> set granted) ss)"
proof (induction ss)
  case (Cons s ss)
  show ?case
  proof (cases "s \<in> set granted")
    case False
    have "sample_authority_id \<noteq> []" by (simp add: sample_authority_id_def)
    moreover have "rq_scopes (sample_rq goal granted snap) = granted" by (simp add: sample_rq_def)
    ultimately have "\<exists>m. validate_authority (Some sample_authority_id) (rq_binding (sample_rq goal granted snap)) s
        (\<lambda>i. get_authority i (sample_ledger goal granted snap)) = Ok (None, m)"
      using False by (simp add: validate_authority_def get_authority_def sample_id authority_row_def sample_ledger_def empty_ledger_def)
    then show ?thesis using Cons.IH False by auto
  qed (simp add: ready_scopes Cons.IH)
qed simp


text \<open>The command issues the authority, evaluates under it and finds the upload, and no local work.\<close>

lemma ready_command:
  fixes db :: "'s" and enq :: "manifest \<Rightarrow> 's \<Rightarrow> (string \<times> 's) result"
  assumes approved: "approved_authority_scopes goal requested = Ok granted" and g: "granted \<noteq> []" "set granted \<subseteq> set SCOPES" "''upload'' \<in> set granted"
    and d: "d \<in> {None, Some (JObj ready_item)}"
  shows "\<exists>r snap. authorize_and_request_item_goal enq item_lib (\<lambda>_. []) il (\<lambda>_. sample_files ready_item) sample_path goal
        (sample_command\<lparr>oc_document := d\<rparr>) requested current sample_clock (\<lambda>_ l. l) ob empty_ledger db
      = (Ok (r, sample_authority_id, True), sample_ledger goal granted snap, db)
    \<and> gl_dispatched r = None \<and> ownership_conflicts (gl_graph r) = [] \<and> reconciliation_gates (gl_graph r) = []
    \<and> map (\<lambda>d. (treatment_id d, treatment_version d)) (eligible_treatments (gl_graph r)) = [(''ebay-upload'', ''1'')]
    \<and> object_generation (gl_graph r) = item_generation item_lib ready_item
    \<and> authority_fits ''upload'' (gl_graph r) (Some (authority_of sample_authority_id (sample_rq goal granted snap) (0, 300)))"
proof -
  let ?fs = "sample_files ready_item"
  let ?stage = "Some (\<lambda>_ :: string. Ok None :: stage_receipt option result)"
  let ?si0 = "no_inputs\<lparr>stage_receipt_lookup := ?stage, require_current_stage := current\<rparr>"
  let ?valid = "filter (\<lambda>s. s \<in> set granted) SCOPES"
  let ?si1 = "?si0\<lparr>authorized_scopes := evaluator_authorized_scopes ?valid, authority_identity := sample_authority_id\<rparr>"
  have look: "(case stage_receipt_lookup si of None \<Rightarrow> Ok None | Some lookup \<Rightarrow> lookup (item_sku ready_item sample_path)) = Ok None"
    if "si = ?si0 \<or> si = ?si1" for si using that by auto
  obtain snap0 where s0: "build_item_snapshot item_lib (\<lambda>_. []) ?fs sample_path goal TGW_TREATMENTS ?si0 = Ok snap0"
    by (rule build_total[OF sample_read ready_checked look[OF disjI1[OF refl]]])
  obtain snap1 where s1: "build_item_snapshot item_lib (\<lambda>_. []) ?fs sample_path goal TGW_TREATMENTS ?si1 = Ok snap1"
    by (rule build_total[OF sample_read ready_checked look[OF disjI2[OF refl]]])
  have gen: "generation snap = item_generation item_lib ready_item \<and> snap_object_id snap = item_sku ready_item sample_path
      \<and> external_effect_ambiguities snap = []"
    if "build_item_snapshot item_lib (\<lambda>_. []) ?fs sample_path goal TGW_TREATMENTS si = Ok snap" "si_ambiguities si = []" for si snap
    by (rule build_OkD[OF that(1)]) (use that(2) in \<open>simp add: sample_read item_generation_def sorted_set_def\<close>)
  let ?g0 = "evaluate item_lib snap0 goal TGW_TREATMENTS GOAL_EVALUATOR_VERSION []"
  let ?g1 = "evaluate item_lib snap1 goal TGW_TREATMENTS GOAL_EVALUATOR_VERSION []"
  have elig: "map (\<lambda>d. (treatment_id d, treatment_version d)) (eligible_treatments ?g1) = [(''ebay-upload'', ''1'')]"
    by (rule ready_eligible[OF s1]) (use g(3) in \<open>simp_all add: no_inputs_def evaluator_authorized_scopes_def SCOPES_def sorted_set_def\<close>)
  have graph: "object_id (evaluate item_lib snap goal TGW_TREATMENTS GOAL_EVALUATOR_VERSION []) = snap_object_id snap"
    "object_generation (evaluate item_lib snap goal TGW_TREATMENTS GOAL_EVALUATOR_VERSION []) = generation snap"
    "ownership_conflicts (evaluate item_lib snap goal TGW_TREATMENTS GOAL_EVALUATOR_VERSION [])
       = conflicts TGW_TREATMENTS (eligible_treatments (evaluate item_lib snap goal TGW_TREATMENTS GOAL_EVALUATOR_VERSION []))"
    "reconciliation_gates (evaluate item_lib snap goal TGW_TREATMENTS GOAL_EVALUATOR_VERSION []) = sorted_set (external_effect_ambiguities snap)"
    for snap by (simp_all add: evaluate_def Let_def)
  obtain u where u: "eligible_treatments ?g1 = [u]" "treatment_id u = ''ebay-upload''" "treatment_version u = ''1''"
    using elig by auto
  have external: "effect_class_of TGW_TREATMENTS u = Some EXTERNAL"
  proof -
    have "map_option tr_effect_class (treatment_by_id TGW_TREATMENTS (''ebay-upload'', ''1'')) = Some EXTERNAL" by code_simp
    then show ?thesis by (simp add: effect_class_of_def u)
  qed
  have none: "si_ambiguities ?si0 = []" "si_ambiguities ?si1 = []" by (simp_all add: no_inputs_def)
  have clean: "ownership_conflicts ?g1 = []" "reconciliation_gates ?g1 = []"
    using gen[OF s1 none(2)] by (simp_all add: graph u(1) sorted_set_def)
  let ?c = "sample_command\<lparr>oc_document := d\<rparr>"
  let ?rq = "sample_rq goal granted snap0"
  let ?l = "sample_ledger goal granted snap0"
  have ne: "bound_account \<noteq> []" by (simp add: bound_account_def)
  have prepared: "prepare_authority item_lib (\<lambda>_. []) il (\<lambda>_. ?fs) sample_path goal ?c bound_account granted current (cc_now sample_clock) empty_ledger ob
      = Ok (ready_item, ?stage, snap0, ?rq)"
    by (simp add: prepare_authority_def sample_command_def ready_bound[OF d] ready_stage[OF ne] s0 sample_rq_def sample_clock_def Let_def)
  have doc: "bound_item_document item_lib ?fs sample_path (Some (JObj ready_item)) (Some (generation snap0)) = Ok ready_item"
    using gen[OF s0 none(1)] by (simp add: bound_item_document_def ready_sorted del: json_sorted.simps)
  have granted: "valid_scopes (Some sample_authority_id) (authority_binding_for item_lib snap0 goal ?g0 ready_item bound_account)
      (\<lambda>i. get_authority i ?l) SCOPES = Ok ?valid"
    using ready_valid[of SCOPES goal granted snap0] by (simp add: sample_rq_def)
  let ?q = "(command_request ?c)\<lparr>gr_authority_id := Some sample_authority_id, gr_provider_identity := bound_account, gr_stage_lookup := ?stage,
     gr_require_current_stage := current, gr_document := Some (JObj ready_item), gr_expected_generation := Some (generation snap0)\<rparr>"
  have q: "gr_provider_identity ?q = bound_account" "gr_environment ?q = ''sandbox''" "gr_document ?q = Some (JObj ready_item)"
    "gr_expected_generation ?q = Some (generation snap0)" "gr_stage_lookup ?q = ?stage" "gr_authority_id ?q = Some sample_authority_id"
    "goal_inputs ?q ?stage = ?si0"
    by (simp_all add: command_request_def sample_command_def goal_inputs_def)
  have "\<exists>r. request_item_goal enq item_lib (\<lambda>_. []) il (\<lambda>_. ?fs) sample_path goal TGW_TREATMENTS ?q ?l ob db = Ok (r, db)
      \<and> gl_graph r = ?g1 \<and> gl_dispatched r = None"
    unfolding request_item_goal_def q sample_account(2) bind_result_simps doc Let_def option.case s0 granted s1
    by (simp add: u(1) external clean)
  then obtain r where request: "request_item_goal enq item_lib (\<lambda>_. []) il (\<lambda>_. ?fs) sample_path goal TGW_TREATMENTS ?q ?l ob db = Ok (r, db)"
    and r: "gl_graph r = ?g1" "gl_dispatched r = None" by blast
  have "authority_fits ''upload'' ?g1 (Some (authority_of sample_authority_id ?rq (0, 300)))"
    using g(3) gen[OF s0 none(1)] gen[OF s1 none(2)]
    by (simp add: authority_fits_def graph authority_of_def sample_rq_def authority_binding_for_def sorted_set_def)
  moreover have "authorize_and_request_item_goal enq item_lib (\<lambda>_. []) il (\<lambda>_. ?fs) sample_path goal ?c requested current sample_clock (\<lambda>_ l. l) ob empty_ledger db
      = (Ok (r, sample_authority_id, True), ?l, db)"
  proof -
    obtain s ss where gs: "granted = s # ss" using g(1) by (cases granted) auto
    have c: "oc_provider_identity ?c = ''acct''" "oc_environment ?c = ''sandbox''" "oc_ttl_seconds ?c = 300"
      "cc_db_now sample_clock = 0" "cc_authority_id sample_clock = sample_authority_id"
      by (simp_all add: sample_command_def sample_clock_def)
    have nb: "non_blank ''acct''" by code_simp
    note ready_issued[OF g(1,2), of goal snap0] prepared request
    then show ?thesis
      unfolding authorize_and_request_item_goal_def c sample_account(1) sum.case approved gs list.case
      by (simp add: nb)
  qed
  ultimately show ?thesis
    using elig clean gen[OF s1 none(2)] by (intro exI[of _ r] exI[of _ snap0]) (simp add: graph r)
qed


lemma ready_governed:
  assumes "gen = item_generation item_lib ready_item"
  shows "\<exists>dr db'. governed_dispatch sample_enqueue item_lib (sample_files ready_item) sample_path gen u eid g (command_extra c force aid a endpoint) failure db
      = Ok (dr, db') \<and> dr_treatment_id dr = treatment_id u"
proof -
  let ?p = "dict_merge (disposition_payload u eid (Some g)) (command_extra c force aid a endpoint)"
  have "has_key (command_extra c force aid a endpoint) ''observation_checkpoint'' = False" "map_of (command_extra c force aid a endpoint) ''sku'' = None"
    by (simp_all add: command_extra_def opt_entry_def has_key_def)
  moreover from this(2) have "jget ?p ''sku'' = JNull" by (simp add: jget_def map_add_def disposition_payload_def)
  ultimately obtain payload where "dispatch_payload u eid (Some g) (command_extra c force aid a endpoint) ''item'' = Ok payload"
    by (simp add: dispatch_payload_def)
  moreover have "require_current_generation item_lib (sample_files ready_item) sample_path gen = Ok ready_item"
    by (simp add: require_current_generation_def bound_item_document_def sample_read assms)
  ultimately show ?thesis
    by (intro exI[of _ "dispatched u eid True ''job'' ''dispatched''"] exI[of _ "dispatch_manifest u eid (graph_generation (Some g)) ''item'' payload # db"])
      (simp add: governed_dispatch_def dispatch_treatment_v4_def sample_enqueue_def dispatched_def)
qed

lemma ready_admitted:
  assumes "ownership_conflicts g = []" and "reconciliation_gates g = []"
    and "map (\<lambda>d. (treatment_id d, treatment_version d)) (eligible_treatments g) = [(''ebay-upload'', ''1'')]"
    and "object_generation g = item_generation item_lib ready_item"
    and "authority_fits ''upload'' g (Some (authority_of sample_authority_id (sample_rq goal granted snap) (0, 300)))"
    and "map_of allowed (''ebay-upload'', ''1'') = Some ''upload''" and "np \<longrightarrow> ''publish'' \<notin> set granted"
  shows "\<exists>dr db'. dispatch_admitted sample_enqueue item_lib (sample_files ready_item) sample_path c allowed np label item g sample_authority_id
      (sample_ledger goal granted snap) db = Ok (Some dr, db') \<and> dr_treatment_id dr = ''ebay-upload''"
proof -
  obtain u where u: "eligible_treatments g = [u]" "treatment_id u = ''ebay-upload''" "treatment_version u = ''1''"
    using assms(3) by auto
  let ?a = "authority_of sample_authority_id (sample_rq goal granted snap) (0, 300)"
  have a: "get_authority sample_authority_id (sample_ledger goal granted snap) = Ok (Some ?a)"
    by (simp add: get_authority_def sample_id authority_row_def sample_ledger_def empty_ledger_def)
  have p: "np \<longrightarrow> ''publish'' \<notin> set (scopes ?a)" using assms(7) by (simp add: sample_rq_def sorted_set_def)
  have f: "offers_force u item = Ok False" by (simp add: offers_force_def u EBAY_STAGE_def)
  obtain dr db' where "governed_dispatch sample_enqueue item_lib (sample_files ready_item) sample_path (object_generation g) u (object_id g) g
      (command_extra c False sample_authority_id ?a (oc_trading_endpoint c)) (''failed to dispatch governed '' @ label @ '' treatment '' @ treatment_id u) db
      = Ok (dr, db')" "dr_treatment_id dr = treatment_id u"
    using ready_governed[OF assms(4)] by blast
  then show ?thesis
    using assms(1,2,5,6) p by (simp add: dispatch_admitted_def u a f EBAY_UPLOAD_def)
qed

lemma upload_listed: "map_of listing_treatments (''ebay-upload'', ''1'') = Some ''upload''" "map_of update_treatments (''ebay-upload'', ''1'') = Some ''upload''"
  by code_simp+

lemma upload_external: "dr_treatment_id dr = ''ebay-upload'' \<Longrightarrow> \<not> (\<exists>t\<in>set TGW_TREATMENTS. tr_effect_class t = LOCAL \<and> dr_treatment_id dr = tr_identity t)"
  by (simp add: TGW_TREATMENTS_def contract_defs)

lemma sample_clock_id: "canonical_uuid (cc_authority_id sample_clock)" "\<forall>a\<in>set (authorities empty_ledger). canonical_uuid (authority_id a)"
  "\<forall>n m. ledger_step\<^sup>*\<^sup>* m ((\<lambda>_ l. l) n m)"
  by (simp_all add: sample_clock_def canonical_uuid_def sample_id empty_ledger_def)

theorem listing_effect_is_authorized_witness:
  "\<forall>il ob. \<exists>r dr l' db'. authorize_and_dispatch_next_listing_effect sample_enqueue item_lib (\<lambda>_. []) il (\<lambda>_. sample_files ready_item) sample_path
      sample_command sample_clock (\<lambda>_ l. l) ob empty_ledger [] = (Ok (r, Some dr, sample_authority_id, True), l', db')
    \<and> dr_treatment_id dr = ''ebay-upload'' \<and> job_names_authority sample_enqueue dr sample_authority_id [] db'"
proof (intro allI)
  fix il ob
  obtain r snap where c: "authorize_and_request_item_goal sample_enqueue item_lib (\<lambda>_. []) il (\<lambda>_. sample_files ready_item) sample_path TGW_EBAY_LISTABLE
        (sample_command\<lparr>oc_document := None\<rparr>) [''upload'', ''stage'', ''publish'', ''force-restage''] False sample_clock (\<lambda>_ l. l) ob empty_ledger []
      = (Ok (r, sample_authority_id, True), sample_ledger TGW_EBAY_LISTABLE [''force-restage'', ''publish'', ''stage'', ''upload''] snap, [])"
    and r: "gl_dispatched r = None" "ownership_conflicts (gl_graph r) = []" "reconciliation_gates (gl_graph r) = []"
     "map (\<lambda>d. (treatment_id d, treatment_version d)) (eligible_treatments (gl_graph r)) = [(''ebay-upload'', ''1'')]"
     "object_generation (gl_graph r) = item_generation item_lib ready_item"
     "authority_fits ''upload'' (gl_graph r) (Some (authority_of sample_authority_id
        (sample_rq TGW_EBAY_LISTABLE [''force-restage'', ''publish'', ''stage'', ''upload''] snap) (0, 300)))"
    using ready_command[OF scopes_approved(1) _ _ _ insertI1[of None], of sample_enqueue il False ob "[]"] by (auto simp: SCOPES_def)
  have none: "oc_document sample_command = None" "oc_expected_generation sample_command = None"
    "map_option JObj (None :: jobj option) = None" by (simp_all add: sample_command_def)
  obtain dr db' where "dispatch_admitted sample_enqueue item_lib (sample_files ready_item) sample_path sample_command listing_treatments False ''listing''
      ready_item (gl_graph r) sample_authority_id
      (sample_ledger TGW_EBAY_LISTABLE [''force-restage'', ''publish'', ''stage'', ''upload''] snap) [] = Ok (Some dr, db')"
    and id: "dr_treatment_id dr = ''ebay-upload''"
    using ready_admitted[OF r(2-6) upload_listed(1), of False sample_command "''listing''" ready_item "[]"] by blast
  then have run: "authorize_and_dispatch_next_listing_effect sample_enqueue item_lib (\<lambda>_. []) il (\<lambda>_. sample_files ready_item) sample_path
      sample_command sample_clock (\<lambda>_ l. l) ob empty_ledger []
      = (Ok (r, Some dr, sample_authority_id, True), sample_ledger TGW_EBAY_LISTABLE [''force-restage'', ''publish'', ''stage'', ''upload''] snap, db')"
    by (simp add: authorize_and_dispatch_next_listing_effect_def none c r(1) ready_bound[OF insertI1])
  show "\<exists>r dr l' db'. authorize_and_dispatch_next_listing_effect sample_enqueue item_lib (\<lambda>_. []) il (\<lambda>_. sample_files ready_item) sample_path
      sample_command sample_clock (\<lambda>_ l. l) ob empty_ledger [] = (Ok (r, Some dr, sample_authority_id, True), l', db')
    \<and> dr_treatment_id dr = ''ebay-upload'' \<and> job_names_authority sample_enqueue dr sample_authority_id [] db'"
    using listing_effect_is_authorized[OF run empty_ledger_ok sample_clock_id] upload_external[OF id] run id by blast
qed


end
