(* ===== verification/Workflow_Evaluate.thy ===== *)
theory Workflow_Evaluate
  imports Listing_Commands Queue_Worker
begin

text \<open>
  The evaluation worker \<^verbatim>\<open>workers/workflow_evaluate.py\<close>: a treatment that completed queues an event, and the worker evaluates
  the item again and dispatches what is next. Local work is dispatched as it is; the next listing effect only when the
  operator's grant is found behind the event, by way of the job that completed and of the chain of authorities that
  superseded the one it ran under. Looks at the files and at the ledger are counted, as in \<open>Goal_Requests\<close>.
\<close>

section \<open>Constants and receipts\<close>

definition EVENT_EVALUATOR_VERSION :: string where
  "EVENT_EVALUATOR_VERSION = ''workflow-evaluate-worker/v1''"

definition LISTING_CONTINUATION_QUEUES :: "(string \<times> string) list" where
  "LISTING_CONTINUATION_QUEUES =
     [(''normalize-condition'', ''normalize_condition''), (''ai-identify'', ''ai_identify''), (''ebay-draft'', ''ebay_draft''),
      (''ebay-price'', ''ebay_price''), (''ebay-upload'', ''ebay_upload''), (''ebay-stage'', ''ebay_stage'')]"

definition LISTING_CONTINUATION_SCOPES :: "string list" where
  "LISTING_CONTINUATION_SCOPES = [''upload'', ''stage'', ''publish'']"

definition evaluation_receipt :: "string \<Rightarrow> jobj \<Rightarrow> jobj" where
  "evaluation_receipt out evidence =
     [(''event_id'', JStr ''workflow-evaluate''), (''event_version'', JStr ''1''), (''outcome'', JStr out), (''evidence'', JObj evidence),
      (''receipt_schema_id'', JStr ''workflow-evaluation-receipt/v1'')]"

text \<open>A \<^verbatim>\<open>TreatmentFailure\<close> carries its message and the failed receipt; any other exception is a Python error.\<close>

datatype event_error = Treatment_failure string jobj | Event_error py_error

definition event_fail :: "string \<Rightarrow> jobj \<Rightarrow> event_error" where
  "event_fail why evidence =
     Treatment_failure (''workflow evaluation failed: '' @ why) (evaluation_receipt ''failed'' (evidence @ [(''reason_code'', JStr why)]))"

definition bind_event :: "event_error + 'a \<Rightarrow> ('a \<Rightarrow> event_error + 'b) \<Rightarrow> event_error + 'b" where
  "bind_event m k = (case m of Inl e \<Rightarrow> Inl e | Inr x \<Rightarrow> k x)"

definition raising :: "'a result \<Rightarrow> event_error + 'a" where
  "raising r = map_sum Event_error id r"

section \<open>Configuration\<close>

definition configured_provider_identity :: "jobj \<Rightarrow> event_error + string" where
  "configured_provider_identity cfg =
     (let top = jget cfg ''workflow_migration'';
          migration = dict_or_empty (if top = JNull then jget (dict_or_empty (jget cfg ''raw'')) ''workflow_migration'' else top)
      in case jget migration ''ebay_provider_identity'' of
           JStr value \<Rightarrow>
             (if \<not> non_blank value \<or> value \<noteq> py_strip value then Inl (event_fail ''INVALID_PROVIDER_IDENTITY'' [])
              else bind_event (raising (configured_ebay_environment cfg)) (\<lambda>env. raising (bind_ebay_provider_identity (JStr value) (JStr env))))
         | _ \<Rightarrow> Inl (event_fail ''INVALID_PROVIDER_IDENTITY'' []))"

definition provider_environment :: "jobj \<Rightarrow> event_error + string \<times> string \<times> string" where
  "provider_environment cfg =
     bind_event (raising (configured_ebay_environment cfg)) (\<lambda>env.
     bind_event (raising (ebay_environment_settings (JStr env))) (\<lambda>settings.
       Inr (env, the (map_of settings ''rest_api_root''), the (map_of settings ''trading_api_endpoint''))))"

section \<open>Events\<close>

text \<open>What the worker reads: the configuration, where an item's document lies, the files at each look, the durable job behind an event,
  the ledger at each look, the stored observations, the clocks of the command, and what others do to the ledger during it.\<close>

record evaluation_world =
  ew_config :: jobj
  ew_item_path :: "string \<Rightarrow> path result"
  ew_files :: "nat \<Rightarrow> item_files"
  ew_origin :: "string \<Rightarrow> job option result"
  ew_ledger :: "nat \<Rightarrow> ledger"
  ew_observations :: observations
  ew_clock :: command_clock
  ew_other :: "nat \<Rightarrow> ledger \<Rightarrow> ledger"

text \<open>The default of \<^verbatim>\<open>origin_lookup\<close>: the row of the queue, whose id column is a uuid.\<close>

definition origin_in_queue :: "queue_db \<Rightarrow> string \<Rightarrow> job option result" where
  "origin_in_queue db i =
     (case pg_uuid i of None \<Rightarrow> Err (DatabaseError ''invalid input syntax for type uuid'') | Some u \<Rightarrow> Ok (get_job u db))"

record evaluation_event =
  ev_payload :: jobj
  ev_origin :: jobj
  ev_entity_id :: string
  ev_profile_id :: string
  ev_profile_version :: string
  ev_origin_job_id :: string

definition origin_evidence :: "evaluation_event \<Rightarrow> jobj" where
  "origin_evidence ev = [(''origin_job_id'', JStr (ev_origin_job_id ev))]"

definition isolated_profile :: "evaluation_event \<Rightarrow> bool" where
  "isolated_profile ev \<longleftrightarrow> ev_profile_id ev = goal_identity TGW_EBAY_LEGACY_STAGE_ONBOARDED"

definition parse_event :: "job \<Rightarrow> event_error + evaluation_event" where
  "parse_event j =
     (let payload = payload_json j;
          text = (\<lambda>k. case jget payload k of JStr s \<Rightarrow> s | _ \<Rightarrow> []);
          ev = \<lparr>ev_payload = payload, ev_origin = dict_or_empty (jget payload ''origin_receipt''), ev_entity_id = text ''entity_id'',
                ev_profile_id = text ''goal_profile_id'', ev_profile_version = text ''goal_profile_version'',
                ev_origin_job_id = text ''origin_job_id''\<rparr>
      in if \<not> list_all (\<lambda>k. text k \<noteq> []) [''entity_id'', ''goal_profile_id'', ''goal_profile_version'', ''origin_job_id'']
         then Inl (event_fail ''INVALID_IDENTITY'' [])
         else if entity_type j \<noteq> ''item'' \<or> entity_id j \<noteq> ev_entity_id ev
         then Inl (event_fail ''ENTITY_MISMATCH'' [(''entity_id'', JStr (ev_entity_id ev))])
         else if jget (ev_origin ev) ''outcome'' \<noteq> JStr ''satisfied'' then Inl (event_fail ''INVALID_ORIGIN_RECEIPT'' (origin_evidence ev))
         else if \<not> py_eq (jget (ev_origin ev) ''graph_id'') (jget payload ''prior_graph_id'')
         then Inl (event_fail ''ORIGIN_GRAPH_MISMATCH'' (origin_evidence ev))
         else if isolated_profile ev \<noteq> (jget (ev_origin ev) ''treatment_id'' = JStr ''ebay-onboard-legacy-stage''
                \<and> jget (ev_origin ev) ''treatment_version'' = JStr ''1'')
         then Inl (event_fail ''ISOLATED_ORIGIN_MISMATCH'' (origin_evidence ev))
         else Inr ev)"

text \<open>The completed job, as it is stored, for the treatment, with exactly the receipt the event brings.\<close>

definition origin_row :: "string \<Rightarrow> job option \<Rightarrow> bool" where
  "origin_row i durable = (case durable of None \<Rightarrow> False | Some d \<Rightarrow> job_id d = i \<and> state d = Succeeded)"

definition origin_bound :: "evaluation_event \<Rightarrow> string \<Rightarrow> string \<Rightarrow> jobj \<Rightarrow> job option \<Rightarrow> bool" where
  "origin_bound ev env queue bindings durable =
     (case durable of
        None \<Rightarrow> False
      | Some d \<Rightarrow>
          queue_name_matches_environment (JStr (queue_name d)) (JStr queue) (JStr env)
          \<and> entity_type d = ''item'' \<and> entity_id d = ev_entity_id ev
          \<and> list_all (\<lambda>(k, v). py_eq (jget (payload_json d) k) v) bindings
          \<and> py_eq (jget (payload_json d) ''result'') (JObj (ev_origin ev)))"

section \<open>The isolated profile\<close>

definition isolated_origin :: "evaluation_event \<Rightarrow> jobj" where
  "isolated_origin ev =
     [(''receipt_schema_id'', JStr ''treatment-receipt/v1''), (''treatment_id'', JStr ''ebay-onboard-legacy-stage''),
      (''treatment_version'', JStr ''1''), (''goal_profile_id'', JStr (ev_profile_id ev)),
      (''goal_profile_version'', JStr (ev_profile_version ev)), (''entity_id'', JStr (ev_entity_id ev)),
      (''graph_id'', jget (ev_payload ev) ''prior_graph_id''), (''object_generation'', jget (ev_payload ev) ''prior_object_generation'')]"

definition isolated_bindings :: "evaluation_event \<Rightarrow> jobj" where
  "isolated_bindings ev =
     [(''payload_schema_id'', JStr ''ebay-onboard-legacy-stage/v1''), (''treatment_id'', JStr ''ebay-onboard-legacy-stage''),
      (''treatment_version'', JStr ''1''), (''goal_profile_id'', JStr (ev_profile_id ev)),
      (''goal_profile_version'', JStr (ev_profile_version ev)), (''entity_id'', JStr (ev_entity_id ev)), (''sku'', JStr (ev_entity_id ev)),
      (''graph_id'', jget (ev_payload ev) ''prior_graph_id''), (''object_generation'', jget (ev_payload ev) ''prior_object_generation''),
      (''condition_hash'', jget (ev_origin ev) ''condition_hash'')]"

definition nonempty_str :: "json \<Rightarrow> bool" where
  "nonempty_str v = (case v of JStr s \<Rightarrow> s \<noteq> [] | _ \<Rightarrow> False)"

definition validate_isolated :: "evaluation_world \<Rightarrow> evaluation_event \<Rightarrow> event_error + unit" where
  "validate_isolated w ev =
     (if \<not> list_all (\<lambda>(k, v). py_eq (jget (ev_origin ev) k) v) (isolated_origin ev) \<or> \<not> nonempty_str (jget (ev_origin ev) ''condition_hash'')
      then Inl (event_fail ''ISOLATED_ORIGIN_BINDING_MISMATCH'' (origin_evidence ev))
      else bind_event (raising (ew_origin w (ev_origin_job_id ev))) (\<lambda>durable.
           let untrusted = Inl (event_fail ''UNTRUSTED_ISOLATED_ORIGIN'' (origin_evidence ev))
           in if \<not> origin_row (ev_origin_job_id ev) durable then untrusted
              else bind_event (raising (configured_ebay_environment (ew_config w))) (\<lambda>env.
                   if origin_bound ev env ''ebay_onboard_legacy_stage'' (isolated_bindings ev) durable then Inr () else untrusted)))"

text \<open>The profile of the event and its treatments.\<close>

definition event_profile :: "evaluation_world \<Rightarrow> evaluation_event \<Rightarrow> event_error + goal_profile \<times> treatment_contract list" where
  "event_profile w ev =
     bind_event
       (if isolated_profile ev
        then bind_event (validate_isolated w ev) (\<lambda>_. Inr (TGW_EBAY_LEGACY_STAGE_ONBOARDED, LEGACY_STAGE_ONBOARDING_TREATMENTS))
        else (case get_profile (ev_profile_id ev) of
                Inl _ \<Rightarrow> Inl (event_fail ''UNKNOWN_PROFILE'' [(''profile_id'', JStr (ev_profile_id ev))])
              | Inr profile \<Rightarrow> Inr (profile, TGW_TREATMENTS)))
       (\<lambda>(profile, treatments).
          if \<not> starts_with (ev_profile_id ev) ''tgw.'' \<or> goal_version profile \<noteq> ev_profile_version ev
          then Inl (event_fail ''PROFILE_MISMATCH'' [(''profile_id'', JStr (ev_profile_id ev))])
          else Inr (profile, treatments))"

section \<open>Continuing an operator's listing\<close>

text \<open>\<^verbatim>\<open>_listing_continuation_requested\<close>: a list or an object cannot be looked up in a dictionary.\<close>

definition listing_continuation_requested :: "json \<Rightarrow> operator_authority option \<Rightarrow> bool result" where
  "listing_continuation_requested tid a =
     (case tid of
        JStr t \<Rightarrow> Ok (map_of LISTING_CONTINUATION_QUEUES t \<noteq> None \<and> (case a of None \<Rightarrow> False | Some x \<Rightarrow> ''publish'' \<in> set (scopes x)))
      | JList _ \<Rightarrow> Err (TypeError (''unhashable type: '' @ [CHR 0x27] @ ''list'' @ [CHR 0x27]))
      | JObj _ \<Rightarrow> Err (TypeError (''unhashable type: '' @ [CHR 0x27] @ ''dict'' @ [CHR 0x27]))
      | _ \<Rightarrow> Ok False)"

definition listing_origin_bindings :: "evaluation_event \<Rightarrow> string \<Rightarrow> jobj" where
  "listing_origin_bindings ev aid =
     [(''operator_authority_id'', JStr aid), (''operator_identity'', jget (ev_payload ev) ''operator_identity''),
      (''operator_surface'', jget (ev_payload ev) ''operator_surface''),
      (''pre_authority_condition_hash'', jget (ev_payload ev) ''pre_authority_condition_hash''),
      (''goal_profile_id'', JStr (ev_profile_id ev)), (''goal_profile_version'', JStr (ev_profile_version ev)),
      (''graph_id'', jget (ev_payload ev) ''prior_graph_id''), (''object_generation'', jget (ev_payload ev) ''prior_object_generation''),
      (''treatment_id'', jget (ev_origin ev) ''treatment_id''), (''treatment_version'', JStr ''1''), (''sku'', JStr (ev_entity_id ev))]"

definition original_fits :: "evaluation_event \<Rightarrow> string \<Rightarrow> operator_authority \<Rightarrow> bool" where
  "original_fits ev provider a \<longleftrightarrow>
     jget (ev_payload ev) ''operator_identity'' = JStr (operator_identity a) \<and> jget (ev_payload ev) ''operator_surface'' = JStr (surface a)
     \<and> oa_entity_id a = ev_entity_id ev \<and> oa_goal_profile_id a = ev_profile_id ev \<and> oa_goal_profile_version a = ev_profile_version ev
     \<and> jget (ev_payload ev) ''prior_object_generation'' = JStr (oa_object_generation a)
     \<and> jget (ev_payload ev) ''pre_authority_condition_hash'' = JStr (pre_authority_condition_hash a)
     \<and> provider_identity a = provider \<and> set LISTING_CONTINUATION_SCOPES \<subseteq> set (scopes a)"

text \<open>The chain of superseding authorities: at most eight, none twice, up to the first that stands. The \<open>n\<close>-th look at the
  ledger comes next; \<^const>\<open>None\<close> is an invalid chain.\<close>

fun successor_leaf :: "(nat \<Rightarrow> ledger) \<Rightarrow> nat \<Rightarrow> nat \<Rightarrow> string list \<Rightarrow> operator_authority \<Rightarrow> operator_authority option result" where
  "successor_leaf led 0 n seen cur = Ok None"
| "successor_leaf led (Suc k) n seen cur =
     (case superseded_by cur of
        None \<Rightarrow> Ok None
      | Some s \<Rightarrow>
          (if s = [] \<or> s \<in> set seen then Ok None
           else bind_result (get_authority s (led n)) (\<lambda>found.
                case found of
                  None \<Rightarrow> Ok None
                | Some a \<Rightarrow> (if superseded_at a = None then Ok (Some a) else successor_leaf led k (Suc n) (s # seen) a))))"

definition leaf_fits :: "pylib \<Rightarrow> evaluation_event \<Rightarrow> runtime_work_graph \<Rightarrow> jobj \<Rightarrow> string \<Rightarrow> operator_authority \<Rightarrow> operator_authority \<Rightarrow> bool" where
  "leaf_fits lib ev g item provider original a \<longleftrightarrow>
     operator_identity a = operator_identity original \<and> surface a = surface original \<and> oa_entity_id a = ev_entity_id ev
     \<and> oa_goal_profile_id a = ev_profile_id ev \<and> oa_goal_profile_version a = ev_profile_version ev
     \<and> oa_object_generation a = object_generation g \<and> pre_authority_condition_hash a = condition_hash g
     \<and> content_identity a = listing_content_identity lib item \<and> provider_identity a = provider
     \<and> set LISTING_CONTINUATION_SCOPES \<subseteq> set (scopes a)"

definition resulting_generation :: "evaluation_event \<Rightarrow> json" where
  "resulting_generation ev = jget (dict_or_empty (jget (ev_origin ev) ''evidence'')) ''resulting_generation''"

definition validate_listing_continuation ::
  "pylib \<Rightarrow> evaluation_world \<Rightarrow> evaluation_event \<Rightarrow> runtime_work_graph \<Rightarrow> jobj \<Rightarrow> string \<Rightarrow> string \<Rightarrow> event_error + operator_authority" where
  "validate_listing_continuation lib w ev g item provider env =
     (let invalid = (\<lambda>why. Inl (event_fail why (origin_evidence ev)))
      in case (jget (ev_origin ev) ''treatment_id'', jget (ev_payload ev) ''operator_authority_id'') of
           (JStr tid, JStr aid) \<Rightarrow>
             (case map_of LISTING_CONTINUATION_QUEUES tid of
                None \<Rightarrow> invalid ''INVALID_OPERATOR_CONTINUATION''
              | Some queue \<Rightarrow>
                  if aid = [] then invalid ''INVALID_OPERATOR_CONTINUATION'' else
                  bind_event (raising (ew_origin w (ev_origin_job_id ev))) (\<lambda>durable.
                    if \<not> origin_row (ev_origin_job_id ev) durable
                       \<or> \<not> origin_bound ev env queue (listing_origin_bindings ev aid) durable
                       \<or> \<not> nonempty_str (resulting_generation ev) \<or> resulting_generation ev \<noteq> JStr (object_generation g)
                    then invalid ''UNTRUSTED_OPERATOR_CONTINUATION''
                    else bind_event (raising (get_authority aid (ew_ledger w 2))) (\<lambda>found.
                      case found of
                        None \<Rightarrow> invalid ''INVALID_OPERATOR_CONTINUATION''
                      | Some original \<Rightarrow>
                          if \<not> original_fits ev provider original then invalid ''INVALID_OPERATOR_CONTINUATION''
                          else if superseded_at original = None then Inr original
                          else bind_event (raising (successor_leaf (ew_ledger w) 8 3 [authority_id original] original)) (\<lambda>leaf.
                            case leaf of
                              None \<Rightarrow> invalid ''INVALID_SUCCESSOR_CONTINUATION''
                            | Some current \<Rightarrow>
                                (if leaf_fits lib ev g item provider original current then Inr current
                                 else invalid ''INVALID_SUCCESSOR_CONTINUATION'')))))
         | _ \<Rightarrow> invalid ''INVALID_OPERATOR_CONTINUATION'')"

section \<open>Evaluating an event\<close>

text \<open>The snapshot of the item and its graph; the isolated profile pins the document while it is read.\<close>

definition event_graph ::
  "pylib \<Rightarrow> (json \<Rightarrow> string) \<Rightarrow> isolib \<Rightarrow> evaluation_world \<Rightarrow> evaluation_event \<Rightarrow> path \<Rightarrow> goal_profile \<Rightarrow> treatment_contract list \<Rightarrow>
   event_error + object_snapshot \<times> runtime_work_graph" where
  "event_graph lib cs il w ev p profile ts =
     bind_event
       (if isolated_profile ev
        then bind_event (raising (read_json (ew_files w 0) p)) (\<lambda>v.
               case v of
                 JObj item \<Rightarrow>
                   bind_event (configured_provider_identity (ew_config w)) (\<lambda>provider.
                     Inr (authoritative_stage_lookup lib il (ew_ledger w 0) (ew_observations w) item provider, Some (item_generation lib item)))
               | _ \<Rightarrow> Inl (Event_error (TypeError ''item document'')))
        else Inr (None, None))
       (\<lambda>(stage, marker).
          bind_event (raising (build_item_snapshot lib cs (ew_files w 1) p profile ts (no_inputs\<lparr>stage_receipt_lookup := stage\<rparr>))) (\<lambda>snap.
            if marker \<noteq> None \<and> marker \<noteq> Some (generation snap)
            then Inl (event_fail ''CANONICAL_CHANGED_DURING_EVALUATION''
                   [(''marker_generation'', JStr (the marker)), (''object_generation'', JStr (generation snap))])
            else if jget (ev_payload ev) ''prior_object_generation'' = JStr (generation snap)
            then Inl (event_fail ''EVIDENCE_NOT_CHANGED'' [(''object_generation'', JStr (generation snap))])
            else Inr (snap, evaluate lib snap profile ts EVENT_EVALUATOR_VERSION [])))"

type_synonym 's event_outcome = "(event_error + jobj) \<times> ledger \<times> 's"

definition dispatch_text :: "dispatch_result \<Rightarrow> string" where
  "dispatch_text dr = (if enqueued dr then ''enqueued'' else outcome dr)"

text \<open>The listing command in the name of the authority's operator.\<close>

definition continuation_command :: "operator_authority \<Rightarrow> jobj \<Rightarrow> string \<Rightarrow> string \<times> string \<times> string \<Rightarrow> operator_command" where
  "continuation_command a item gen env =
     \<lparr>oc_operator_identity = operator_identity a, oc_surface = surface a, oc_provider_identity = provider_identity a, oc_ttl_seconds = 300,
      oc_document = Some (JObj item), oc_expected_generation = Some gen, oc_environment = fst env, oc_rest_endpoint = fst (snd env),
      oc_trading_endpoint = snd (snd env)\<rparr>"

text \<open>What stands before the command: the document is still the evaluated one, and the grant behind the event is found.\<close>

definition admit_continuation ::
  "pylib \<Rightarrow> evaluation_world \<Rightarrow> evaluation_event \<Rightarrow> path \<Rightarrow> runtime_work_graph \<Rightarrow> event_error + operator_authority \<times> operator_command" where
  "admit_continuation lib w ev p g =
     bind_event (raising (read_json (ew_files w 2) p)) (\<lambda>v.
       case v of
         JObj item \<Rightarrow>
           (let gen = item_generation lib item
            in if gen \<noteq> object_generation g
               then Inl (event_fail ''CANONICAL_CHANGED_BEFORE_OPERATOR_CONTINUATION''
                      [(''evaluated_generation'', JStr (object_generation g)), (''current_generation'', JStr gen),
                       (''origin_job_id'', JStr (ev_origin_job_id ev))])
               else bind_event (configured_provider_identity (ew_config w)) (\<lambda>provider.
                    bind_event (provider_environment (ew_config w)) (\<lambda>env.
                    bind_event (validate_listing_continuation lib w ev g item provider (fst env)) (\<lambda>a.
                      Inr (a, continuation_command a item gen env)))))
       | _ \<Rightarrow> Inl (Event_error (TypeError ''item document'')))"

definition continuation_receipt :: "evaluation_event \<Rightarrow> runtime_work_graph \<Rightarrow> dispatch_result option \<Rightarrow> string \<Rightarrow> jobj" where
  "continuation_receipt ev g dr aid =
     evaluation_receipt ''satisfied''
       ([(''origin_job_id'', JStr (ev_origin_job_id ev)), (''object_generation'', JStr (object_generation g)), (''graph_id'', JStr (graph_id g)),
         (''continued_from'', jget (ev_origin ev) ''treatment_id'')]
        @ (case dr of
             None \<Rightarrow> [(''dispatch'', JStr ''none''), (''next_treatment'', JNull), (''next_job_id'', JNull)]
           | Some d \<Rightarrow> [(''dispatch'', JStr (dispatch_text d)), (''next_treatment'', JStr (dr_treatment_id d)), (''next_job_id'', JStr (dr_job_id d))])
        @ [(''successor_authority_id'', JStr aid)])"

definition continue_listing ::
  "(manifest \<Rightarrow> 's \<Rightarrow> (string \<times> 's) result) \<Rightarrow> pylib \<Rightarrow> (json \<Rightarrow> string) \<Rightarrow> isolib \<Rightarrow> evaluation_world \<Rightarrow> evaluation_event \<Rightarrow> path \<Rightarrow>
   operator_command \<Rightarrow> 's \<Rightarrow> 's event_outcome" where
  "continue_listing enq lib cs il w ev p c db =
     (case authorize_and_dispatch_next_listing_effect enq lib cs il (\<lambda>n. ew_files w (n + 3)) p c (ew_clock w) (ew_other w)
             (ew_observations w) (ew_ledger w 11) db of
        (Inl e, l', db') \<Rightarrow> (Inl (Event_error e), l', db')
      | (Inr (r, dr, aid, _), l', db') \<Rightarrow> (Inr (continuation_receipt ev (gl_graph r) dr aid), l', db'))"

text \<open>Without a continuation: the first local treatment, if nothing holds it back.\<close>

definition dispatch_local ::
  "(manifest \<Rightarrow> 's \<Rightarrow> (string \<times> 's) result) \<Rightarrow> evaluation_event \<Rightarrow> treatment_contract list \<Rightarrow> object_snapshot \<Rightarrow> runtime_work_graph \<Rightarrow> 's \<Rightarrow>
   (event_error + jobj) \<times> 's" where
  "dispatch_local enq ev ts snap g db =
     (let evidence = [(''origin_job_id'', JStr (ev_origin_job_id ev)), (''object_generation'', JStr (generation snap)),
            (''graph_id'', JStr (graph_id g)), (''eligible'', jstrs (map treatment_id (eligible_treatments g)))];
          receipt = (\<lambda>more. Inr (evaluation_receipt ''satisfied'' (evidence @ more)))
      in if reconciliation_gates g \<noteq> [] \<or> ownership_conflicts g \<noteq> [] then (receipt [(''dispatch'', JStr ''held_reconciliation'')], db)
         else if eligible_treatments g = [] then (receipt [(''dispatch'', JStr ''none'')], db)
         else (case filter (\<lambda>d. effect_class_of ts d = Some LOCAL) (eligible_treatments g) of
                 [] \<Rightarrow> (receipt [(''dispatch'', JStr ''held_external''),
                         (''external_candidates'', jstrs (map treatment_id (eligible_treatments g)))], db)
               | d # _ \<Rightarrow>
                   (case dispatch_treatment_v4 enq d (ev_entity_id ev) (Some g) [] ''item'' db of
                      Inl e \<Rightarrow> (Inl (Event_error e), db)
                    | Inr (dr, db') \<Rightarrow>
                        (receipt [(''dispatch'', JStr (dispatch_text dr)), (''next_treatment'', JStr (treatment_id d)),
                           (''next_job_id'', JStr (dr_job_id dr))], db'))))"

text \<open>Whether the event continues a listing: the authority it names is read once before.\<close>

definition continuation_wanted :: "evaluation_world \<Rightarrow> evaluation_event \<Rightarrow> event_error + bool" where
  "continuation_wanted w ev =
     (if isolated_profile ev then Inr False
      else bind_event
             (case jget (ev_payload ev) ''operator_authority_id'' of
                JStr aid \<Rightarrow> (if aid = [] then Inr None else raising (get_authority aid (ew_ledger w 1)))
              | _ \<Rightarrow> Inr None)
             (\<lambda>a. raising (listing_continuation_requested (jget (ev_origin ev) ''treatment_id'') a)))"

text \<open>The choice after the evaluation: \<open>Some\<close> command continues a listing.\<close>

definition plan_event ::
  "pylib \<Rightarrow> (json \<Rightarrow> string) \<Rightarrow> isolib \<Rightarrow> evaluation_world \<Rightarrow> job \<Rightarrow>
   event_error + evaluation_event \<times> path \<times> treatment_contract list \<times> object_snapshot \<times> runtime_work_graph
     \<times> (operator_authority \<times> operator_command) option" where
  "plan_event lib cs il w j =
     bind_event (parse_event j) (\<lambda>ev.
     bind_event (event_profile w ev) (\<lambda>(profile, ts).
     bind_event (raising (ew_item_path w (ev_entity_id ev))) (\<lambda>p.
     bind_event (event_graph lib cs il w ev p profile ts) (\<lambda>(snap, g).
     bind_event (continuation_wanted w ev) (\<lambda>wanted.
       if wanted then bind_event (admit_continuation lib w ev p g) (\<lambda>ac. Inr (ev, p, ts, snap, g, Some ac))
       else Inr (ev, p, ts, snap, g, None))))))"

definition evaluate_event ::
  "(manifest \<Rightarrow> 's \<Rightarrow> (string \<times> 's) result) \<Rightarrow> pylib \<Rightarrow> (json \<Rightarrow> string) \<Rightarrow> isolib \<Rightarrow> evaluation_world \<Rightarrow> job \<Rightarrow> 's \<Rightarrow> 's event_outcome" where
  "evaluate_event enq lib cs il w j db =
     (case plan_event lib cs il w j of
        Inl e \<Rightarrow> (Inl e, ew_ledger w 11, db)
      | Inr (ev, p, ts, snap, g, Some (a, c)) \<Rightarrow> continue_listing enq lib cs il w ev p c db
      | Inr (ev, p, ts, snap, g, None) \<Rightarrow>
          (case dispatch_local enq ev ts snap g db of (r, db') \<Rightarrow> (r, ew_ledger w 11, db')))"

text \<open>The worker's handler; \<open>repr_of\<close> is the text of an exception.\<close>

definition handle_event ::
  "(manifest \<Rightarrow> 's \<Rightarrow> (string \<times> 's) result) \<Rightarrow> pylib \<Rightarrow> (json \<Rightarrow> string) \<Rightarrow> isolib \<Rightarrow> (py_error \<Rightarrow> string) \<Rightarrow> evaluation_world \<Rightarrow> job \<Rightarrow> 's \<Rightarrow>
   handler_outcome \<times> ledger \<times> 's" where
  "handle_event enq lib cs il repr_of w j db =
     (if entity_type j \<noteq> ''item'' \<or> \<not> non_blank (entity_id j)
      then (Treatment_failed ''listing workflow rejects non-item work''
              (JObj (evaluation_receipt ''failed'' [(''reason_code'', JStr ''NON_ITEM_JOB''), (''entity_type'', JStr (entity_type j)),
                 (''entity_id'', JStr (entity_id j))])), ew_ledger w 11, db)
      else (case evaluate_event enq lib cs il w j db of
              (Inr receipt, l', db') \<Rightarrow> (Handled (Some receipt), l', db')
            | (Inl (Treatment_failure why receipt), l', db') \<Rightarrow> (Treatment_failed why (JObj receipt), l', db')
            | (Inl (Event_error e), l', db') \<Rightarrow> (Handler_error (repr_of e), l', db')))"

end
