(* ===== verification/Evaluation_Safety.thy ===== *)
theory Evaluation_Safety
  imports Workflow_Evaluate
begin

text \<open>
  What an evaluation event can set off: local work, or the next listing effect when the operator's grant is proved to stand
  behind the event, by the completed job, the authority it ran under and the chain of its successors.
\<close>

section \<open>Reading off a successful evaluation\<close>

lemma bind_event_Inr [simp]: "bind_event m k = Inr y \<longleftrightarrow> (\<exists>x. m = Inr x \<and> k x = Inr y)"
  by (cases m) (simp_all add: bind_event_def)

lemma raising_Inr [simp]: "raising r = Inr x \<longleftrightarrow> r = Ok x"
  by (cases r) (simp_all add: raising_def)

text \<open>The chain of successors as the ledger shows it, look by look.\<close>

fun succession :: "(nat \<Rightarrow> ledger) \<Rightarrow> nat \<Rightarrow> operator_authority \<Rightarrow> operator_authority list \<Rightarrow> bool" where
  "succession led n cur [] \<longleftrightarrow> True"
| "succession led n cur (a # as) \<longleftrightarrow>
     (\<exists>s. superseded_by cur = Some s \<and> get_authority s (led n) = Ok (Some a)) \<and> succession led (Suc n) a as"

lemma successor_leaf_chain:
  "successor_leaf led k n seen cur = Ok (Some a) \<Longrightarrow>
    \<exists>as. as \<noteq> [] \<and> length as \<le> k \<and> succession led n cur as \<and> last as = a \<and> superseded_at a = None
      \<and> (\<forall>x\<in>set (butlast as). superseded_at x \<noteq> None)"
proof (induction led k n seen cur rule: successor_leaf.induct)
  case (2 led k n seen cur)
  from "2.prems" obtain s b where s: "superseded_by cur = Some s" "get_authority s (led n) = Ok (Some b)" "\<not> (s = [] \<or> s \<in> set seen)"
    and b: "(if superseded_at b = None then Ok (Some b) else successor_leaf led k (Suc n) (s # seen) b) = Ok (Some a)"
    by (auto simp: bind_result_def split: option.splits if_splits sum.splits)
  show ?case
  proof (cases "superseded_at b = None")
    case True
    then show ?thesis using s b by (intro exI[of _ "[b]"]) auto
  next
    case False
    with b have "successor_leaf led k (Suc n) (s # seen) b = Ok (Some a)" by simp
    from "2.IH"[OF s(1) s(3) False this] obtain as where
      "as \<noteq> []" "length as \<le> k" "succession led (Suc n) b as" "last as = a" "superseded_at a = None" "\<forall>x\<in>set (butlast as). superseded_at x \<noteq> None"
      by blast
    then show ?thesis using s False by (intro exI[of _ "b # as"]) auto
  qed
qed simp

text \<open>The trust a continuation rests on.\<close>

definition origin_trusted :: "evaluation_world \<Rightarrow> evaluation_event \<Rightarrow> runtime_work_graph \<Rightarrow> string \<Rightarrow> bool" where
  "origin_trusted w ev g aid \<longleftrightarrow>
     (\<exists>d. ew_origin w (ev_origin_job_id ev) = Ok (Some d) \<and> job_id d = ev_origin_job_id ev \<and> state d = Succeeded \<and> entity_id d = ev_entity_id ev
        \<and> jget (payload_json d) ''operator_authority_id'' = JStr aid
        \<and> py_eq (jget (payload_json d) ''result'') (JObj (ev_origin ev)) \<and> resulting_generation ev = JStr (object_generation g))"

definition grant_stands :: "pylib \<Rightarrow> evaluation_world \<Rightarrow> evaluation_event \<Rightarrow> runtime_work_graph \<Rightarrow> jobj \<Rightarrow> string \<Rightarrow> string \<Rightarrow> operator_authority \<Rightarrow> bool" where
  "grant_stands lib w ev g item provider aid a \<longleftrightarrow>
     (\<exists>original. get_authority aid (ew_ledger w 2) = Ok (Some original) \<and> original_fits ev provider original
        \<and> (a = original \<and> superseded_at a = None
           \<or> leaf_fits lib ev g item provider original a \<and> superseded_at a = None
             \<and> (\<exists>as. as \<noteq> [] \<and> length as \<le> 8 \<and> succession (ew_ledger w) 3 original as \<and> last as = a)))"

lemma continuation_trust:
  assumes "validate_listing_continuation lib w ev g item provider env = Inr a"
  shows "\<exists>aid. jget (ev_payload ev) ''operator_authority_id'' = JStr aid \<and> origin_trusted w ev g aid
    \<and> grant_stands lib w ev g item provider aid a
    \<and> jget (ev_payload ev) ''operator_identity'' = JStr (operator_identity a) \<and> oa_entity_id a = ev_entity_id ev
    \<and> provider_identity a = provider \<and> {''upload'', ''stage'', ''publish''} \<subseteq> set (scopes a)"
proof -
  obtain tid aid where t: "jget (ev_origin ev) ''treatment_id'' = JStr tid" "jget (ev_payload ev) ''operator_authority_id'' = JStr aid"
    using assms unfolding validate_listing_continuation_def Let_def
    by (cases "jget (ev_origin ev) ''treatment_id''"; cases "jget (ev_payload ev) ''operator_authority_id''") auto
  note v = assms[unfolded validate_listing_continuation_def Let_def t prod.case json.case]
  from v obtain queue where q: "map_of LISTING_CONTINUATION_QUEUES tid = Some queue" by (cases "map_of LISTING_CONTINUATION_QUEUES tid") auto
  from v[unfolded q option.case] obtain durable found where d: "ew_origin w (ev_origin_job_id ev) = Ok durable"
      "origin_row (ev_origin_job_id ev) durable" "origin_bound ev env queue (listing_origin_bindings ev aid) durable"
      "resulting_generation ev = JStr (object_generation g)" and f: "get_authority aid (ew_ledger w 2) = Ok found"
    and rest: "(case found of
                        None \<Rightarrow> Inl (event_fail ''INVALID_OPERATOR_CONTINUATION'' (origin_evidence ev))
                      | Some original \<Rightarrow>
                          if \<not> original_fits ev provider original then Inl (event_fail ''INVALID_OPERATOR_CONTINUATION'' (origin_evidence ev))
                          else if superseded_at original = None then Inr original
                          else bind_event (raising (successor_leaf (ew_ledger w) 8 3 [authority_id original] original)) (\<lambda>leaf.
                            case leaf of
                              None \<Rightarrow> Inl (event_fail ''INVALID_SUCCESSOR_CONTINUATION'' (origin_evidence ev))
                            | Some current \<Rightarrow>
                                (if leaf_fits lib ev g item provider original current then Inr current
                                 else Inl (event_fail ''INVALID_SUCCESSOR_CONTINUATION'' (origin_evidence ev))))) = Inr a"
    by (auto split: if_splits)
  obtain original where o: "found = Some original" "original_fits ev provider original" using rest by (auto split: option.splits if_splits)
  have trusted: "origin_trusted w ev g aid"
    using d unfolding origin_trusted_def origin_row_def origin_bound_def by (auto simp: listing_origin_bindings_def split: option.splits)
  show ?thesis
  proof (cases "superseded_at original = None")
    case True
    then have "a = original" using rest o by simp
    then show ?thesis using t trusted f o True by (auto simp: grant_stands_def original_fits_def LISTING_CONTINUATION_SCOPES_def)
  next
    case False
    then have leaf: "successor_leaf (ew_ledger w) 8 3 [authority_id original] original = Ok (Some a)" "leaf_fits lib ev g item provider original a"
      using rest o by (auto split: option.splits if_splits)
    from successor_leaf_chain[OF leaf(1)] leaf(2) have "grant_stands lib w ev g item provider aid a"
      using f o unfolding grant_stands_def by blast
    then show ?thesis using t trusted leaf(2) o(2) by (auto simp: leaf_fits_def original_fits_def LISTING_CONTINUATION_SCOPES_def)
  qed
qed


section \<open>What an event dispatches\<close>

text \<open>The treatment a receipt reports as dispatched.\<close>

definition reported :: "jobj \<Rightarrow> json" where
  "reported receipt = jget (dict_or_empty (jget receipt ''evidence'')) ''next_treatment''"

lemma reported_receipt [simp]: "reported (evaluation_receipt out ev) = jget ev ''next_treatment''"
  by (simp add: reported_def evaluation_receipt_def jget_def dict_or_empty_def)

lemma local_treatment:
  assumes "effect_class_of ts d = Some LOCAL"
  shows "\<exists>t\<in>set ts. tr_effect_class t = LOCAL \<and> treatment_id d = tr_identity t"
proof -
  from assms obtain t where t: "treatment_by_id ts (treatment_id d, treatment_version d) = Some t" "tr_effect_class t = LOCAL"
    by (auto simp: effect_class_of_def)
  then show ?thesis using map_of_SomeD[OF t(1)[unfolded treatment_by_id_def]] by auto
qed

lemma dispatch_local_reported:
  assumes "dispatch_local enq ev ts snap g db = (Inr receipt, db')"
  shows "reported receipt = JNull \<and> db' = db \<or>
    (\<exists>d dr. d \<in> set (eligible_treatments g) \<and> effect_class_of ts d = Some LOCAL \<and> reported receipt = JStr (treatment_id d)
       \<and> dispatch_treatment_v4 enq d (ev_entity_id ev) (Some g) [] ''item'' db = Ok (dr, db'))"
proof (cases "filter (\<lambda>d. effect_class_of ts d = Some LOCAL) (eligible_treatments g)")
  case Nil
  then show ?thesis using assms by (auto simp: dispatch_local_def Let_def jget_def split: if_splits)
next
  case (Cons d ds)
  have "d \<in> set (filter (\<lambda>d. effect_class_of ts d = Some LOCAL) (eligible_treatments g))" unfolding Cons by simp
  then have d: "d \<in> set (eligible_treatments g)" "effect_class_of ts d = Some LOCAL" by simp_all
  then show ?thesis
    using assms Cons
    by (auto simp: dispatch_local_def Let_def jget_def split: if_splits sum.splits)
qed

lemma plan_event_cases:
  assumes "plan_event lib cs il w j = Inr (ev, p, ts, snap, g, ac)"
  shows "(ts = TGW_TREATMENTS \<or> ts = LEGACY_STAGE_ONBOARDING_TREATMENTS)
    \<and> (case ac of None \<Rightarrow> True
        | Some (a, c) \<Rightarrow> continuation_wanted w ev = Inr True \<and> admit_continuation lib w ev p g = Inr (a, c))"
  using assms by (auto simp: plan_event_def event_profile_def split: prod.splits if_splits sum.splits)

text \<open>The first look at the authority already finds the scope of publication.\<close>

lemma wanted_publish:
  assumes "continuation_wanted w ev = Inr True"
  shows "\<exists>aid a. jget (ev_payload ev) ''operator_authority_id'' = JStr aid \<and> get_authority aid (ew_ledger w 1) = Ok (Some a) \<and> ''publish'' \<in> set (scopes a)"
proof -
  from assms obtain a where a: "(case jget (ev_payload ev) ''operator_authority_id'' of
        JStr aid \<Rightarrow> (if aid = [] then Inr None else raising (get_authority aid (ew_ledger w 1))) | _ \<Rightarrow> Inr None) = Inr a"
    and r: "listing_continuation_requested (jget (ev_origin ev) ''treatment_id'') a = Ok True"
    by (auto simp: continuation_wanted_def split: if_splits)
  from r obtain x where "a = Some x" "''publish'' \<in> set (scopes x)"
    by (cases "jget (ev_origin ev) ''treatment_id''") (auto simp: listing_continuation_requested_def split: option.splits)
  with a show ?thesis by (cases "jget (ev_payload ev) ''operator_authority_id''") (auto split: if_splits)
qed

lemma admit_OkD:
  assumes "admit_continuation lib w ev p g = Inr (a, c)"
  shows "\<exists>item provider env. read_json (ew_files w 2) p = Ok (JObj item) \<and> item_generation lib item = object_generation g
    \<and> configured_provider_identity (ew_config w) = Inr provider \<and> provider_environment (ew_config w) = Inr env
    \<and> validate_listing_continuation lib w ev g item provider (fst env) = Inr a
    \<and> c = continuation_command a item (object_generation g) env"
proof -
  from assms obtain v where v: "read_json (ew_files w 2) p = Ok v" by (auto simp: admit_continuation_def)
  from assms[unfolded admit_continuation_def v] show ?thesis
    by (cases v) (auto simp: Let_def v split: if_splits)
qed

lemma continue_reported:
  assumes "continue_listing enq lib cs il w ev p c db = (Inr receipt, l', db')" and "reported receipt = JStr t"
  shows "\<exists>r dr aid created. authorize_and_dispatch_next_listing_effect enq lib cs il (\<lambda>n. ew_files w (n + 3)) p c (ew_clock w) (ew_other w)
      (ew_observations w) (ew_ledger w 11) db = (Ok (r, Some dr, aid, created), l', db') \<and> dr_treatment_id dr = t"
proof -
  obtain x l1 db1 where x: "authorize_and_dispatch_next_listing_effect enq lib cs il (\<lambda>n. ew_files w (n + 3)) p c (ew_clock w) (ew_other w)
      (ew_observations w) (ew_ledger w 11) db = (x, l1, db1)" by (metis prod_cases3)
  note c = assms(1)[unfolded continue_listing_def x prod.case]
  obtain r dro aid created where y: "x = Ok (r, dro, aid, created)" using c by (cases x) auto
  with c have r: "receipt = continuation_receipt ev (gl_graph r) dro aid" "l1 = l'" "db1 = db'" by simp_all
  obtain dr where "dro = Some dr" "dr_treatment_id dr = t"
    using assms(2) unfolding r(1) by (cases dro) (simp_all add: continuation_receipt_def jget_def)
  then show ?thesis using x y r by blast
qed


section \<open>A grant with one successor\<close>

text \<open>The upload ran under the first authority; a crashed evaluation already issued the second for the new generation.\<close>

definition sample_origin_receipt :: jobj where
  "sample_origin_receipt = [(''outcome'', JStr ''satisfied''), (''graph_id'', JStr ''g0''), (''treatment_id'', JStr ''ebay-upload''),
     (''treatment_version'', JStr ''1''), (''evidence'', JObj [(''resulting_generation'', JStr ''gen2'')])]"

definition sample_intent :: jobj where
  "sample_intent = [(''operator_authority_id'', JStr ''00000000-0000-4000-8000-000000000001''), (''operator_identity'', JStr ''op''),
     (''operator_surface'', JStr ''web''), (''pre_authority_condition_hash'', JStr ''c0''), (''goal_profile_id'', JStr ''tgw.ebay_listable''),
     (''goal_profile_version'', JStr ''1'')]"

definition sample_continuation :: evaluation_event where
  "sample_continuation = \<lparr>ev_payload = sample_intent @ [(''prior_graph_id'', JStr ''g0''), (''prior_object_generation'', JStr ''gen1'')],
     ev_origin = sample_origin_receipt, ev_entity_id = ''A1'', ev_profile_id = ''tgw.ebay_listable'', ev_profile_version = ''1'',
     ev_origin_job_id = ''j1''\<rparr>"

definition sample_origin_job :: job where
  "sample_origin_job = (new_job 0 ''j1'' ''ebay_upload'' ''item'' ''A1'' ''run'' ''ebay_upload'' 100
     (sample_intent @ [(''graph_id'', JStr ''g0''), (''object_generation'', JStr ''gen1''), (''treatment_id'', JStr ''ebay-upload''),
        (''treatment_version'', JStr ''1''), (''sku'', JStr ''A1''), (''result'', JObj sample_origin_receipt)]) None None 5)\<lparr>state := Succeeded\<rparr>"

definition sample_grant :: "string \<Rightarrow> string \<Rightarrow> string \<Rightarrow> operator_authority" where
  "sample_grant i gen h =
     \<lparr>authority_id = i, operator_identity = ''op'', surface = ''web'', oa_entity_id = ''A1'', oa_goal_profile_id = ''tgw.ebay_listable'',
      oa_goal_profile_version = ''1'', oa_object_generation = gen, pre_authority_condition_hash = h,
      content_identity = listing_content_identity sample_hash [], provider_identity = ''acct'', scopes = [''publish'', ''stage'', ''upload''],
      issued_at = 0, expires_at = 300, superseded_at = None, superseded_by = None\<rparr>"

definition sample_successor :: operator_authority where
  "sample_successor = sample_grant ''00000000-0000-4000-8000-000000000002'' ''gen2'' ''c''"

definition sample_grants :: ledger where
  "sample_grants = empty_ledger\<lparr>authorities :=
     [(sample_grant ''00000000-0000-4000-8000-000000000001'' ''gen1'' ''c0'')\<lparr>superseded_at := Some 5,
        superseded_by := Some ''00000000-0000-4000-8000-000000000002''\<rparr>, sample_successor]\<rparr>"

definition sample_world :: "item_files \<Rightarrow> observations \<Rightarrow> evaluation_world" where
  "sample_world fs ob = \<lparr>ew_config = [], ew_item_path = (\<lambda>_. Ok sample_path), ew_files = (\<lambda>_. fs), ew_origin = (\<lambda>_. Ok (Some sample_origin_job)),
     ew_ledger = (\<lambda>_. sample_grants), ew_observations = ob, ew_clock = sample_clock, ew_other = (\<lambda>_ l. l)\<rparr>"

lemma sample_validated:
  "validate_listing_continuation sample_hash (sample_world fs ob) sample_continuation (sample_bound_graph ''gen2'') [] ''acct'' ''production''
    = Inr sample_successor"
  by code_simp

lemma sample_names_authority:
  "jget (ev_payload sample_continuation) ''operator_authority_id'' = JStr ''00000000-0000-4000-8000-000000000001''"
  by code_simp


section \<open>An event that sets off local work\<close>

definition sample_plain_origin :: jobj where
  "sample_plain_origin = [(''outcome'', JStr ''satisfied''), (''graph_id'', JStr ''g0''), (''treatment_id'', JStr ''normalize-condition''),
     (''treatment_version'', JStr ''1'')]"

definition sample_plain_event :: evaluation_event where
  "sample_plain_event = \<lparr>ev_payload = [(''entity_id'', JStr ''A1''), (''goal_profile_id'', JStr ''tgw.ebay_listable''), (''goal_profile_version'', JStr ''1''),
       (''origin_job_id'', JStr ''j1''), (''prior_graph_id'', JStr ''g0''), (''origin_receipt'', JObj sample_plain_origin)],
     ev_origin = sample_plain_origin, ev_entity_id = ''A1'', ev_profile_id = ''tgw.ebay_listable'', ev_profile_version = ''1'',
     ev_origin_job_id = ''j1''\<rparr>"

definition sample_plain_job :: job where
  "sample_plain_job = new_job 9 ''j2'' ''workflow_evaluate'' ''item'' ''A1'' ''run'' ''workflow_evaluate'' 100 (ev_payload sample_plain_event) None None 5"

lemma sample_plain_parsed: "parse_event sample_plain_job = Inr sample_plain_event"
  by code_simp

lemma sample_plain_profile: "event_profile (sample_world fs ob) sample_plain_event = Inr (TGW_EBAY_LISTABLE, TGW_TREATMENTS)"
  by code_simp

lemma sample_plain_wanted: "continuation_wanted (sample_world fs ob) sample_plain_event = Inr False"
  by code_simp

lemma sample_plain_facts: "isolated_profile sample_plain_event = False" "jget (ev_payload sample_plain_event) ''prior_object_generation'' = JNull"
  by code_simp+

lemma tgw_distinct: "distinct (map (\<lambda>t. (tr_identity t, tr_version t)) TGW_TREATMENTS)"
  by code_simp

lemma tgw_graph_clean:
  assumes "build_item_snapshot lib cs fs p goal TGW_TREATMENTS no_inputs = Ok snap"
  shows "ownership_conflicts (evaluate lib snap goal TGW_TREATMENTS v []) = []" "reconciliation_gates (evaluate lib snap goal TGW_TREATMENTS v []) = []"
proof -
  show "ownership_conflicts (evaluate lib snap goal TGW_TREATMENTS v []) = []"
    by (rule registry_conflict_free[OF tgw_distinct tgw_registered])
  have "external_effect_ambiguities snap = []" by (rule build_OkD[OF assms]) (simp add: no_inputs_def sorted_set_def)
  then show "reconciliation_gates (evaluate lib snap goal TGW_TREATMENTS v []) = []" by (simp add: evaluate_def Let_def sorted_set_def)
qed

lemma identify_dispatched:
  "\<exists>dr db'. dispatch_treatment_v4 sample_enqueue d eid (Some g) [] ''item'' db = Ok (dr, db')"
proof -
  have "jget (dict_merge (disposition_payload d eid (Some g)) []) ''sku'' = JNull" by (simp add: jget_def disposition_payload_def)
  then obtain payload where "dispatch_payload d eid (Some g) [] ''item'' = Ok payload" by (simp add: dispatch_payload_def has_key_def)
  then show ?thesis by (simp add: dispatch_treatment_v4_def sample_enqueue_def)
qed

lemma sample_plain_dispatched:
  "\<exists>receipt db'. evaluate_event sample_enqueue item_lib (\<lambda>_. []) il (sample_world (sample_files sample_new_item) ob) sample_plain_job []
      = (Inr receipt, sample_grants, db') \<and> reported receipt = JStr ''ai-identify''"
proof -
  let ?w = "sample_world (sample_files sample_new_item) ob"
  obtain snap where snap: "build_item_snapshot item_lib (\<lambda>_. []) (sample_files sample_new_item) sample_path TGW_EBAY_LISTABLE TGW_TREATMENTS no_inputs = Ok snap"
    by (rule sample_new_built)
  let ?g = "evaluate item_lib snap TGW_EBAY_LISTABLE TGW_TREATMENTS EVENT_EVALUATOR_VERSION []"
  have w: "ew_item_path ?w = (\<lambda>_. Ok sample_path)" "ew_files ?w = (\<lambda>_. sample_files sample_new_item)" "ew_ledger ?w = (\<lambda>_. sample_grants)"
    by (simp_all add: sample_world_def)
  have inputs: "no_inputs\<lparr>stage_receipt_lookup := None\<rparr> = no_inputs" by (simp add: no_inputs_def)
  have plan: "plan_event item_lib (\<lambda>_. []) il ?w sample_plain_job = Inr (sample_plain_event, sample_path, TGW_TREATMENTS, snap, ?g, None)"
    by (simp add: plan_event_def sample_plain_parsed bind_event_def sample_plain_profile w raising_def event_graph_def sample_plain_facts inputs snap
        sample_plain_wanted)
  obtain d ds where d: "eligible_treatments ?g = d # ds" "treatment_id d = ''ai-identify''"
    using tgw_eligible[OF snap sample_read sample_new_facts, of EVENT_EVALUATOR_VERSION] by (auto simp: local_work_def)
  have "d \<in> set (map snd (filter fst (map (classify snap []) (by_identity TGW_TREATMENTS))))"
    using d(1) unfolding eligible_without_attempts(1) by simp
  then obtain t where t: "t \<in> set TGW_TREATMENTS" "d = snd (classify snap [] t)" by (auto simp: by_identity_def)
  then have "treatment_by_id TGW_TREATMENTS (treatment_id d, treatment_version d) = Some t"
    unfolding t(2) classify_disposition by (intro treatment_by_id_distinct tgw_distinct)
  moreover have "tr_effect_class t = LOCAL"
    using t d(2) by (auto simp: classify_disposition TGW_TREATMENTS_def contract_defs)
  ultimately have l: "effect_class_of TGW_TREATMENTS d = Some LOCAL" by (auto simp: effect_class_of_def)
  obtain dr db' where dr: "dispatch_treatment_v4 sample_enqueue d (ev_entity_id sample_plain_event) (Some ?g) [] ''item'' [] = Ok (dr, db')"
    using identify_dispatched by blast
  have "\<exists>receipt. dispatch_local sample_enqueue sample_plain_event TGW_TREATMENTS snap ?g [] = (Inr receipt, db') \<and> reported receipt = JStr (treatment_id d)"
    by (simp add: dispatch_local_def Let_def tgw_graph_clean[OF snap] d(1) l dr jget_def)
  then show ?thesis by (auto simp: evaluate_event_def plan w d(2))
qed

lemma sample_grants_ok: "ledger_ok sample_grants" "\<forall>a\<in>set (authorities sample_grants). canonical_uuid (authority_id a)"
proof -
  show "ledger_ok sample_grants"
    by (simp add: ledger_ok_def sample_grants_def empty_ledger_def effects_violation_def authorities_violation_def sample_grant_def sample_successor_def)
  have "list_all (\<lambda>a. canonical_uuid (authority_id a)) (authorities sample_grants)" by code_simp
  then show "\<forall>a\<in>set (authorities sample_grants). canonical_uuid (authority_id a)" by (simp add: list_all_iff)
qed


end
