(* ===== verification/Item_Mutation.thy ===== *)
theory Item_Mutation
  imports Ledger_Table Item_Pipeline
begin

text \<open>
  The durable transaction for one item document, \<^verbatim>\<open>item_mutation.py\<close>: a journal directory per operation (intent, archive
  marker, publication marker, receipt, reconciliation attempts), the archive, the canonical file and the projection into the
  catalog. Every write is a separate durable effect that can fail, fail after it took effect, or be the last thing the
  process did; a list of faults says which. The catalog and the projection are arguments. The per-item lock is
  modelled by running one call after the other.
\<close>

section \<open>Durable state\<close>

text \<open>\<^verbatim>\<open>MutationReceipt\<close>\<close>

record mutation_receipt =
  mr_operation_id :: string
  mr_sku :: string
  mr_kind :: string
  mr_expected_generation :: string
  mr_status :: string
  mr_observed_generation :: "string option"
  mr_resulting_generation :: "string option"
  mr_detail :: "string option"
  mr_recorded_at :: string
  mr_changed :: bool

text \<open>The binding of a request, and the intent file with the plan that makes it replayable.\<close>

record mutation_binding =
  mb_expected_generation :: string
  mb_kind :: string
  mb_operation_id :: string
  mb_payload :: json
  mb_sku :: string

record mutation_intent =
  mi_binding :: mutation_binding
  mi_recorded_at :: string
  mi_planned :: "(string \<times> jobj) option"

record op_dir =
  od_intent :: "mutation_intent option"
  od_archive_marker :: "(string \<times> string) option"
  od_publication :: "(string \<times> string) option"
  od_receipt :: "mutation_receipt option"
  od_attempts :: "mutation_receipt list"

definition empty_op :: op_dir where
  "empty_op = \<lparr>od_intent = None, od_archive_marker = None, od_publication = None, od_receipt = None, od_attempts = []\<rparr>"

text \<open>One journal root with the files it guards; a file read gives the parsed document or the error of reading it. The
  archive has one member per operation, under the path of the zip file and the member's name.\<close>

record 'c item_store =
  st_files :: "path \<Rightarrow> json result"
  st_archives :: "path \<times> string \<Rightarrow> json option"
  st_ops :: "(string \<times> op_dir) list"
  st_conflicts :: "(string \<times> mutation_receipt) list"
  st_catalog :: 'c

definition op_of :: "'c item_store \<Rightarrow> string \<Rightarrow> op_dir" where
  "op_of s i = (case map_of (st_ops s) i of None \<Rightarrow> empty_op | Some d \<Rightarrow> d)"

definition set_op :: "string \<Rightarrow> (op_dir \<Rightarrow> op_dir) \<Rightarrow> 'c item_store \<Rightarrow> 'c item_store" where
  "set_op i f s = s\<lparr>st_ops := AList.update i (f (op_of s i)) (st_ops s)\<rparr>"

definition set_file :: "path \<Rightarrow> json \<Rightarrow> 'c item_store \<Rightarrow> 'c item_store" where
  "set_file p v s = s\<lparr>st_files := (st_files s)(p := Ok v)\<rparr>"

section \<open>Effects that can fail\<close>

text \<open>What can happen at a durable write: it raises without or after taking effect, or the process dies before or after it.\<close>

datatype fault = Fails py_error | Fails_late py_error | Dies | Dies_late

type_synonym faults = "fault option list"

datatype 'a run = Done 'a | Raised py_error | Died

type_synonym ('a, 'c) disk = "'c item_store \<Rightarrow> faults \<Rightarrow> 'a run \<times> 'c item_store \<times> faults"

definition return_it :: "'a \<Rightarrow> ('a, 'c) disk" where
  "return_it x s fl = (Done x, s, fl)"

definition raise_it :: "py_error \<Rightarrow> ('a, 'c) disk" where
  "raise_it e s fl = (Raised e, s, fl)"

definition reading :: "('c item_store \<Rightarrow> ('a, 'c) disk) \<Rightarrow> ('a, 'c) disk" where
  "reading f s fl = f s s fl"

definition and_then :: "('a, 'c) disk \<Rightarrow> ('a \<Rightarrow> ('b, 'c) disk) \<Rightarrow> ('b, 'c) disk" where
  "and_then m k s fl =
     (case m s fl of (Done x, s', fl') \<Rightarrow> k x s' fl' | (Raised e, s', fl') \<Rightarrow> (Raised e, s', fl') | (Died, s', fl') \<Rightarrow> (Died, s', fl'))"

text \<open>\<^verbatim>\<open>except Exception\<close>: the death of the process is not caught.\<close>

definition catching :: "('a, 'c) disk \<Rightarrow> (py_error \<Rightarrow> ('a, 'c) disk) \<Rightarrow> ('a, 'c) disk" where
  "catching m h s fl = (case m s fl of (Raised e, s', fl') \<Rightarrow> h e s' fl' | (r, s', fl') \<Rightarrow> (r, s', fl'))"

definition durable :: "('c item_store \<Rightarrow> 'c item_store) \<Rightarrow> (unit, 'c) disk" where
  "durable f s fl =
     (case fl of
        [] \<Rightarrow> (Done (), f s, [])
      | x # rest \<Rightarrow>
          (case x of
             None \<Rightarrow> (Done (), f s, rest)
           | Some (Fails e) \<Rightarrow> (Raised e, s, rest)
           | Some (Fails_late e) \<Rightarrow> (Raised e, f s, rest)
           | Some Dies \<Rightarrow> (Died, s, rest)
           | Some Dies_late \<Rightarrow> (Died, f s, rest)))"

text \<open>\<^verbatim>\<open>f"{type(exc).__name__}: {exc}"\<close>\<close>

fun error_class :: "py_error \<Rightarrow> string" where
  "error_class (ValueError _) = ''ValueError''"
| "error_class (TypeError _) = ''TypeError''"
| "error_class (RuntimeError _) = ''RuntimeError''"
| "error_class (KeyError _) = ''KeyError''"
| "error_class (AttributeError _) = ''AttributeError''"
| "error_class (MissingManifestFieldError _) = ''MissingManifestFieldError''"
| "error_class (EbayQueueEnvironmentError _) = ''EbayQueueEnvironmentError''"
| "error_class (UniqueViolation _) = ''UniqueViolation''"
| "error_class (CheckViolation _) = ''CheckViolation''"
| "error_class (DatabaseError _) = ''DatabaseError''"
| "error_class (ProviderEffectConflict _) = ''ProviderEffectConflict''"
| "error_class (ProviderEffectReconciliationRequired _) = ''ProviderEffectReconciliationRequired''"
| "error_class (ProviderObservationConflict _) = ''ProviderObservationConflict''"
| "error_class (GenerationConflict _) = ''GenerationConflict''"
| "error_class (OverflowError _) = ''OverflowError''"
| "error_class (PlanResolutionError _) = ''PlanResolutionError''"
| "error_class (StalePlanCommit _) = ''StalePlanCommit''"
| "error_class (OSError _) = ''OSError''"
| "error_class (FileNotFoundError _) = ''FileNotFoundError''"

definition exc_line :: "py_error \<Rightarrow> string" where
  "exc_line e = error_class e @ '': '' @ error_text e"

section \<open>Identities\<close>

definition doc_generation :: "pylib \<Rightarrow> jobj \<Rightarrow> string" where
  "doc_generation lib d = hash_json lib (JObj d)"

definition operation_identity :: "pylib \<Rightarrow> string \<Rightarrow> string \<Rightarrow> string \<Rightarrow> json \<Rightarrow> string" where
  "operation_identity lib sku kind expected payload = hash_json lib (JObj
     [(''expected_generation'', JStr expected), (''kind'', JStr kind), (''payload'', payload), (''sku'', JStr sku)])"

definition mutation_binding_json :: "mutation_binding \<Rightarrow> json" where
  "mutation_binding_json b = JObj
     [(''expected_generation'', JStr (mb_expected_generation b)), (''kind'', JStr (mb_kind b)),
      (''operation_id'', JStr (mb_operation_id b)), (''payload'', mb_payload b), (''sku'', JStr (mb_sku b))]"

text \<open>\<^verbatim>\<open>resolve_item_mutation_journal_root\<close>: a configured path is a string here.\<close>

definition config_value :: "jobj \<Rightarrow> jobj \<Rightarrow> string \<Rightarrow> json" where
  "config_value cfg raw k = (if jget cfg k \<noteq> JNull then jget cfg k else jget raw k)"

definition journal_root_of :: "jobj \<Rightarrow> path option" where
  "journal_root_of cfg =
     (let raw = dict_or_empty (jget cfg ''raw'');
          parent_of = (\<lambda>v. map_option (\<lambda>t. path_parent (py_path t)) (jstr v));
          data_root = (case config_value cfg raw ''data_root'' of
             JNull \<Rightarrow> parent_of (if jget cfg ''itemdata_root'' \<noteq> JNull then jget cfg ''itemdata_root'' else jget_or raw ''itemdata_root'' (JStr ''/opt/TGW/data/ItemData''))
           | v \<Rightarrow> map_option py_path (jstr v))
      in case config_value cfg raw ''item_mutation_journal_root'' of
           JNull \<Rightarrow> map_option (\<lambda>d. path_join (path_parent d) (py_path ''var/item-mutations'')) data_root
         | v \<Rightarrow> map_option py_path (jstr v))"

text \<open>\<^verbatim>\<open>_operation_dir\<close>: only a digest names an operation directory.\<close>

definition check_operation :: "string \<Rightarrow> (unit, 'c) disk" where
  "check_operation i =
     (if hex64 i then return_it () else raise_it (ValueError ''operation_id must be exactly 64 lowercase hexadecimal characters''))"

section \<open>Writes\<close>

definition write_receipt :: "string \<Rightarrow> mutation_receipt \<Rightarrow> (mutation_receipt, 'c) disk" where
  "write_receipt i r = and_then (durable (set_op i (\<lambda>d. d\<lparr>od_receipt := Some r\<rparr>))) (\<lambda>_. return_it r)"

definition write_attempt :: "string \<Rightarrow> mutation_receipt \<Rightarrow> (mutation_receipt, 'c) disk" where
  "write_attempt i r = and_then (durable (set_op i (\<lambda>d. d\<lparr>od_attempts := od_attempts d @ [r]\<rparr>))) (\<lambda>_. return_it r)"

definition write_conflict :: "string \<Rightarrow> mutation_receipt \<Rightarrow> (mutation_receipt, 'c) disk" where
  "write_conflict k r = and_then (durable (\<lambda>s. s\<lparr>st_conflicts := AList.update k r (st_conflicts s)\<rparr>)) (\<lambda>_. return_it r)"

text \<open>\<^verbatim>\<open>path.stem\<close> of a path with this name\<close>

definition path_stem :: "string \<Rightarrow> string" where
  "path_stem name = chop_end name (path_suffix name)"

definition archive_member :: "path \<Rightarrow> path \<Rightarrow> string \<Rightarrow> path \<times> string" where
  "archive_member arch p i =
     (path_join arch ([], [path_stem (path_name p) @ ''.zip'']), path_name p @ ''.operation-'' @ i)"

definition archive_once :: "path \<Rightarrow> path \<Rightarrow> string \<Rightarrow> (unit, 'c) disk" where
  "archive_once arch p i = reading (\<lambda>s.
     if st_archives s (archive_member arch p i) \<noteq> None then return_it ()
     else (case st_files s p of
             Inl e \<Rightarrow> raise_it e
           | Inr v \<Rightarrow> durable (\<lambda>s. s\<lparr>st_archives := (st_archives s)(archive_member arch p i := Some v)\<rparr>)))"

definition mark_archived :: "string \<Rightarrow> string \<Rightarrow> (unit, 'c) disk" where
  "mark_archived i gen = durable (set_op i (\<lambda>d. d\<lparr>od_archive_marker := Some (i, gen)\<rparr>))"

definition mark_published :: "string \<Rightarrow> string \<Rightarrow> (unit, 'c) disk" where
  "mark_published i gen = durable (set_op i (\<lambda>d. d\<lparr>od_publication := Some (i, gen)\<rparr>))"

definition load_document :: "path \<Rightarrow> 'c item_store \<Rightarrow> jobj result" where
  "load_document p s =
     (case st_files s p of
        Inl e \<Rightarrow> Err e
      | Inr (JObj d) \<Rightarrow> Ok d
      | Inr _ \<Rightarrow> Err (ValueError ''item document must be a JSON object''))"

section \<open>The projection\<close>

text \<open>The projection writer gets the document and the catalog; it returns a value, raises or is interrupted.\<close>

type_synonym 'c projection = "string \<Rightarrow> jobj \<Rightarrow> 'c \<Rightarrow> json run \<times> 'c"

definition projection_ok :: "json \<Rightarrow> bool" where
  "projection_ok v = (case v of JObj d \<Rightarrow> jget d ''ok'' = JBool True | _ \<Rightarrow> v \<noteq> JBool False)"

definition projecting :: "'c projection \<Rightarrow> string \<Rightarrow> jobj \<Rightarrow> (unit, 'c) disk" where
  "projecting pr sku d s fl =
     (case pr sku d (st_catalog s) of
        (Done v, c) \<Rightarrow>
          (if projection_ok v then Done () else Raised (RuntimeError ''projection did not explicitly report success''), s\<lparr>st_catalog := c\<rparr>, fl)
      | (Raised e, c) \<Rightarrow> (Raised e, s\<lparr>st_catalog := c\<rparr>, fl)
      | (Died, c) \<Rightarrow> (Died, s\<lparr>st_catalog := c\<rparr>, fl))"

text \<open>\<^verbatim>\<open>try: project ... except Exception: return _record(REPAIR_REQUIRED) ... return _record(COMMITTED)\<close>\<close>

definition project_and_record ::
  "'c projection \<Rightarrow> string \<Rightarrow> jobj \<Rightarrow> (py_error \<Rightarrow> (mutation_receipt, 'c) disk) \<Rightarrow> (mutation_receipt, 'c) disk \<Rightarrow> (mutation_receipt, 'c) disk" where
  "project_and_record pr sku d failed committed =
     and_then (catching (and_then (projecting pr sku d) (\<lambda>_. return_it None)) (\<lambda>e. return_it (Some e)))
       (\<lambda>r. case r of None \<Rightarrow> committed | Some e \<Rightarrow> failed e)"

section \<open>One mutation\<close>

text \<open>The arguments of \<^verbatim>\<open>mutate_item\<close> other than the two callbacks.\<close>

record mutation_request =
  mq_item_path :: path
  mq_archive_root :: path
  mq_sku :: string
  mq_kind :: string
  mq_expected :: string
  mq_payload :: json
  mq_operation_id :: "string option"
  mq_project_noop :: bool

definition request_identity :: "pylib \<Rightarrow> mutation_request \<Rightarrow> string" where
  "request_identity lib q = operation_identity lib (mq_sku q) (mq_kind q) (mq_expected q) (mq_payload q)"

definition request_binding :: "string \<Rightarrow> mutation_request \<Rightarrow> mutation_binding" where
  "request_binding i q =
     \<lparr>mb_expected_generation = mq_expected q, mb_kind = mq_kind q, mb_operation_id = i, mb_payload = mq_payload q, mb_sku = mq_sku q\<rparr>"

definition request_receipt ::
  "string \<Rightarrow> string \<Rightarrow> mutation_request \<Rightarrow> string \<Rightarrow> string option \<Rightarrow> string option \<Rightarrow> string option \<Rightarrow> bool \<Rightarrow> mutation_receipt" where
  "request_receipt now i q status observed resulting detail changed =
     \<lparr>mr_operation_id = i, mr_sku = mq_sku q, mr_kind = mq_kind q, mr_expected_generation = mq_expected q, mr_status = status,
      mr_observed_generation = observed, mr_resulting_generation = resulting, mr_detail = detail, mr_recorded_at = now,
      mr_changed = changed\<rparr>"

text \<open>The handler of \<^verbatim>\<open>except Exception\<close> around the publication: what the file holds now decides. \<open>resulting\<close> is the local
  variable, absent when the mutation itself raised.\<close>

definition publication_failed ::
  "pylib \<Rightarrow> string \<Rightarrow> string \<Rightarrow> mutation_request \<Rightarrow> string \<Rightarrow> string option \<Rightarrow> py_error \<Rightarrow> (mutation_receipt, 'c) disk" where
  "publication_failed lib now i q observed resulting e = reading (\<lambda>s.
     let persisted = (case load_document (mq_item_path q) s of Inl _ \<Rightarrow> None | Inr d \<Rightarrow> Some (doc_generation lib d))
     in if persisted = resulting \<and> persisted \<noteq> Some observed
        then write_receipt i (request_receipt now i q ''REPAIR_REQUIRED'' (Some observed) persisted
               (Some (''canonical published; terminal publication incomplete: '' @ exc_line e)) True)
        else write_receipt i (request_receipt now i q ''FAILED'' (Some observed) None
               (Some (''canonical mutation failed: '' @ exc_line e)) True))"

text \<open>Intent, archive, archive marker, canonical file, publication marker.\<close>

definition publish_plan ::
  "pylib \<Rightarrow> string \<Rightarrow> mutation_request \<Rightarrow> mutation_intent \<Rightarrow> string \<Rightarrow> jobj \<Rightarrow> (unit, 'c) disk" where
  "publish_plan lib i q intent observed updated =
     and_then (durable (set_op i (\<lambda>d. d\<lparr>od_intent := Some (intent\<lparr>mi_planned := Some (doc_generation lib updated, updated)\<rparr>)\<rparr>))) (\<lambda>_.
     and_then (reading (\<lambda>s. if od_archive_marker (op_of s i) = None
                 then and_then (archive_once (mq_archive_root q) (mq_item_path q) i) (\<lambda>_. mark_archived i observed)
                 else return_it ())) (\<lambda>_.
     and_then (durable (set_file (mq_item_path q) (JObj updated))) (\<lambda>_. mark_published i (doc_generation lib updated))))"

definition apply_noop ::
  "'c projection \<Rightarrow> string \<Rightarrow> string \<Rightarrow> mutation_request \<Rightarrow> string \<Rightarrow> jobj \<Rightarrow> (mutation_receipt, 'c) disk" where
  "apply_noop pr now i q observed updated =
     (let done_it = write_receipt i (request_receipt now i q ''COMMITTED'' (Some observed) (Some observed)
            (Some (if mq_project_noop q then ''no canonical change; projection verified'' else ''no canonical change'')) False)
      in if mq_project_noop q
         then project_and_record pr (mq_sku q) updated
                (\<lambda>e. write_receipt i (request_receipt now i q ''REPAIR_REQUIRED'' (Some observed) (Some observed)
                   (Some (''no canonical change; projection verification failed: '' @ exc_line e)) False)) done_it
         else done_it)"

definition apply_change ::
  "pylib \<Rightarrow> 'c projection \<Rightarrow> string \<Rightarrow> string \<Rightarrow> mutation_request \<Rightarrow> mutation_intent \<Rightarrow> string \<Rightarrow> jobj \<Rightarrow> (mutation_receipt, 'c) disk" where
  "apply_change lib pr now i q intent observed updated =
     (let resulting = doc_generation lib updated
      in and_then (catching (and_then (publish_plan lib i q intent observed updated) (\<lambda>_. return_it None))
           (\<lambda>e. and_then (publication_failed lib now i q observed (Some resulting) e) (\<lambda>r. return_it (Some r))))
           (\<lambda>early. case early of
              Some r \<Rightarrow> return_it r
            | None \<Rightarrow> project_and_record pr (mq_sku q) updated
                (\<lambda>e. write_receipt i (request_receipt now i q ''REPAIR_REQUIRED'' (Some observed) (Some resulting)
                   (Some (''projection failed: '' @ exc_line e)) True))
                (write_receipt i (request_receipt now i q ''COMMITTED'' (Some observed) (Some resulting) None True))))"

text \<open>The document has the expected generation: transform it, validate, publish.\<close>

definition apply_mutation ::
  "pylib \<Rightarrow> (jobj \<Rightarrow> json result) \<Rightarrow> 'c projection \<Rightarrow> string \<Rightarrow> string \<Rightarrow> mutation_request \<Rightarrow> mutation_intent \<Rightarrow> jobj \<Rightarrow>
   (mutation_receipt, 'c) disk" where
  "apply_mutation lib mutate pr now i q intent document =
     (let observed = doc_generation lib document in
      case (case mutate document of
              Inl e \<Rightarrow> Err e | Inr (JObj d) \<Rightarrow> Ok d | Inr _ \<Rightarrow> Err (TypeError ''mutation must return a JSON object'')) of
        Inl e \<Rightarrow> publication_failed lib now i q observed None e
      | Inr updated \<Rightarrow>
          (if doc_generation lib updated = observed
           then catching (apply_noop pr now i q observed updated) (publication_failed lib now i q observed (Some observed))
           else apply_change lib pr now i q intent observed updated))"

text \<open>The document has another generation: either the plan of this operation was published before, or the request is stale.\<close>

definition recover_or_conflict ::
  "pylib \<Rightarrow> 'c projection \<Rightarrow> string \<Rightarrow> string \<Rightarrow> mutation_request \<Rightarrow> mutation_intent \<Rightarrow> jobj \<Rightarrow> (mutation_receipt, 'c) disk" where
  "recover_or_conflict lib pr now i q intent document = reading (\<lambda>s.
     let observed = doc_generation lib document in
     if od_archive_marker (op_of s i) \<noteq> None \<and> map_option fst (mi_planned intent) = Some observed
     then and_then (if od_publication (op_of s i) = None then mark_published i observed else return_it ()) (\<lambda>_.
          project_and_record pr (mq_sku q) document
            (\<lambda>e. write_receipt i (request_receipt now i q ''REPAIR_REQUIRED'' (Some (mq_expected q)) (Some observed)
               (Some (''projection recovery failed: '' @ exc_line e)) True))
            (write_receipt i (request_receipt now i q ''COMMITTED'' (Some (mq_expected q)) (Some observed)
               (Some ''recovered canonical write and completed projection'') True)))
     else write_receipt i (request_receipt now i q ''CONFLICT'' (Some observed) None (Some ''expected generation is stale'') True))"

definition mutate_locked ::
  "pylib \<Rightarrow> (jobj \<Rightarrow> json result) \<Rightarrow> 'c projection \<Rightarrow> string \<Rightarrow> string \<Rightarrow> mutation_request \<Rightarrow> (mutation_receipt, 'c) disk" where
  "mutate_locked lib mutate pr now i q = reading (\<lambda>s.
     case od_receipt (op_of s i) of
       Some r \<Rightarrow> return_it r
     | None \<Rightarrow>
         (let binding = request_binding i q;
              intent = (case od_intent (op_of s i) of Some x \<Rightarrow> x | None \<Rightarrow> \<lparr>mi_binding = binding, mi_recorded_at = now, mi_planned = None\<rparr>)
          in if canonical lib (mutation_binding_json (mi_binding intent)) \<noteq> canonical lib (mutation_binding_json binding)
             then write_receipt i (request_receipt now i q ''CONFLICT'' None None (Some ''durable intent does not match request binding'') True)
             else (case load_document (mq_item_path q) s of
                     Inl e \<Rightarrow> write_receipt i (request_receipt now i q ''FAILED'' None None (Some (''cannot load canonical item: '' @ exc_line e)) True)
                   | Inr document \<Rightarrow>
                       (if doc_generation lib document \<noteq> mq_expected q
                        then recover_or_conflict lib pr now i q intent document
                        else apply_mutation lib mutate pr now i q intent document))))"

definition mutate_item ::
  "pylib \<Rightarrow> (jobj \<Rightarrow> json result) \<Rightarrow> 'c projection \<Rightarrow> string \<Rightarrow> mutation_request \<Rightarrow> (mutation_receipt, 'c) disk" where
  "mutate_item lib mutate pr now q =
     (let derived = request_identity lib q;
          selected = (case mq_operation_id q of None \<Rightarrow> derived | Some i \<Rightarrow> (if i = [] then derived else i))
      in if selected \<noteq> derived
         then (let k = sha256_hex lib (selected @ derived) in reading (\<lambda>s.
                 case map_of (st_conflicts s) k of
                   Some r \<Rightarrow> return_it r
                 | None \<Rightarrow> write_conflict k (request_receipt now selected q ''CONFLICT'' None None
                     (Some ''operation_id does not match the exact request binding'') True)))
         else and_then (check_operation selected) (\<lambda>_. mutate_locked lib mutate pr now selected q))"

section \<open>Reconciliation\<close>

text \<open>A receipt of \<^verbatim>\<open>_reconcile_unfinished\<close>, for the binding of the intent and its plan.\<close>

definition plan_receipt :: "string \<Rightarrow> string \<Rightarrow> mutation_binding \<Rightarrow> string \<Rightarrow> string option \<Rightarrow> string \<Rightarrow> string \<Rightarrow> mutation_receipt" where
  "plan_receipt now i b status observed planned detail =
     \<lparr>mr_operation_id = i, mr_sku = mb_sku b, mr_kind = mb_kind b, mr_expected_generation = mb_expected_generation b, mr_status = status,
      mr_observed_generation = observed, mr_resulting_generation = Some planned, mr_detail = Some detail, mr_recorded_at = now,
      mr_changed = (planned \<noteq> mb_expected_generation b)\<rparr>"

definition finish_plan ::
  "'c projection \<Rightarrow> string \<Rightarrow> string \<Rightarrow> mutation_binding \<Rightarrow> string \<Rightarrow> jobj \<Rightarrow> (mutation_receipt, 'c) disk" where
  "finish_plan pr now i b gen planned =
     project_and_record pr (mb_sku b) planned
       (\<lambda>e. write_receipt i (plan_receipt now i b ''REPAIR_REQUIRED'' (Some (mb_expected_generation b)) gen
          (''unfinished projection failed: '' @ exc_line e)))
       (write_receipt i (plan_receipt now i b ''COMMITTED'' (Some (mb_expected_generation b)) gen ''fresh process completed unfinished operation''))"

definition resume_plan ::
  "pylib \<Rightarrow> 'c projection \<Rightarrow> string \<Rightarrow> path \<Rightarrow> path \<Rightarrow> string \<Rightarrow> mutation_binding \<Rightarrow> string \<Rightarrow> jobj \<Rightarrow> (mutation_receipt, 'c) disk" where
  "resume_plan lib pr now p arch i b gen planned = reading (\<lambda>s.
     case od_receipt (op_of s i) of
       Some r \<Rightarrow> return_it r
     | None \<Rightarrow>
         (case load_document p s of
            Inl e \<Rightarrow> write_receipt i (plan_receipt now i b ''CONFLICT'' None gen (''cannot verify unfinished canonical item: '' @ exc_line e))
          | Inr document \<Rightarrow>
              (let observed = doc_generation lib document in
               if od_publication (op_of s i) = None
               then (if observed = mb_expected_generation b
                     then and_then (if od_archive_marker (op_of s i) = None
                              then and_then (archive_once arch p i) (\<lambda>_. mark_archived i observed) else return_it ()) (\<lambda>_.
                          and_then (durable (set_file p (JObj planned))) (\<lambda>_.
                          and_then (mark_published i gen) (\<lambda>_. finish_plan pr now i b gen planned)))
                     else if observed = gen \<and> od_archive_marker (op_of s i) \<noteq> None
                     then and_then (mark_published i gen) (\<lambda>_. finish_plan pr now i b gen planned)
                     else write_receipt i (plan_receipt now i b ''CONFLICT'' (Some observed) gen
                            ''canonical generation advanced during unfinished reconciliation''))
               else if observed \<noteq> gen
               then write_receipt i (plan_receipt now i b ''CONFLICT'' (Some observed) gen
                      ''published generation no longer canonical during reconciliation'')
               else finish_plan pr now i b gen planned)))"

definition reconcile_unfinished ::
  "pylib \<Rightarrow> 'c projection \<Rightarrow> string \<Rightarrow> path \<Rightarrow> path \<Rightarrow> string \<Rightarrow> (mutation_receipt, 'c) disk" where
  "reconcile_unfinished lib pr now p arch i =
     and_then (check_operation i) (\<lambda>_. reading (\<lambda>s.
       case od_intent (op_of s i) of
         None \<Rightarrow> raise_it (FileNotFoundError ''intent.json'')
       | Some intent \<Rightarrow>
           (let b = mi_binding intent in
            if operation_identity lib (mb_sku b) (mb_kind b) (mb_expected_generation b) (mb_payload b) \<noteq> i
            then raise_it (ValueError ''unfinished intent binding does not match operation_id'')
            else (case mi_planned intent of
                    None \<Rightarrow> raise_it (ValueError ''unfinished intent lacks an exact planned document'')
                  | Some (gen, planned) \<Rightarrow>
                      (if doc_generation lib planned \<noteq> gen then raise_it (ValueError ''unfinished intent lacks an exact planned document'')
                       else resume_plan lib pr now p arch i b gen planned)))))"

definition attempt_receipt :: "string \<Rightarrow> string \<Rightarrow> mutation_receipt \<Rightarrow> string \<Rightarrow> string option \<Rightarrow> string \<Rightarrow> mutation_receipt" where
  "attempt_receipt now i r status observed detail =
     \<lparr>mr_operation_id = i, mr_sku = mr_sku r, mr_kind = mr_kind r, mr_expected_generation = mr_expected_generation r, mr_status = status,
      mr_observed_generation = observed, mr_resulting_generation = mr_resulting_generation r, mr_detail = Some detail,
      mr_recorded_at = now, mr_changed = mr_changed r\<rparr>"

definition reconcile_mutation ::
  "pylib \<Rightarrow> 'c projection \<Rightarrow> string \<Rightarrow> path \<Rightarrow> string \<Rightarrow> (mutation_receipt, 'c) disk" where
  "reconcile_mutation lib pr now p i =
     and_then (check_operation i) (\<lambda>_. reading (\<lambda>s.
       case od_receipt (op_of s i) of
         None \<Rightarrow> raise_it (FileNotFoundError (''no mutation receipt for operation '' @ i))
       | Some r \<Rightarrow>
           (if mr_operation_id r \<noteq> i then raise_it (ValueError ''receipt operation_id does not match its journal location'')
            else if mr_status r \<noteq> ''REPAIR_REQUIRED'' then return_it r
            else if od_attempts (op_of s i) \<noteq> [] \<and> mr_status (last (od_attempts (op_of s i))) = ''COMMITTED''
            then return_it (last (od_attempts (op_of s i)))
            else (case load_document p s of
                    Inl e \<Rightarrow> write_attempt i (attempt_receipt now i r ''CONFLICT'' None (''cannot verify canonical item for reconciliation: '' @ exc_line e))
                  | Inr document \<Rightarrow>
                      (let observed = doc_generation lib document in
                       if Some observed \<noteq> mr_resulting_generation r
                       then write_attempt i (attempt_receipt now i r ''CONFLICT'' (Some observed)
                              ''canonical generation advanced; projection reconciliation refused'')
                       else project_and_record pr (mr_sku r) document
                              (\<lambda>e. write_attempt i (attempt_receipt now i r ''REPAIR_REQUIRED'' (Some observed)
                                 (''projection reconciliation failed: '' @ exc_line e)))
                              (write_attempt i (attempt_receipt now i r ''COMMITTED'' (Some observed)
                                 ''projection reconciled; original receipt preserved'')))))))"

text \<open>\<^verbatim>\<open>discover_repair_operations\<close>: the operations that stopped before their receipt, and the ones that need a repair.\<close>

definition unfinished :: "string \<times> op_dir \<Rightarrow> bool" where
  "unfinished x = (hex64 (fst x) \<and> od_intent (snd x) \<noteq> None \<and> od_receipt (snd x) = None)"

definition needs_repair :: "string \<times> op_dir \<Rightarrow> bool" where
  "needs_repair x =
     (case od_receipt (snd x) of
        None \<Rightarrow> False
      | Some r \<Rightarrow> hex64 (fst x) \<and> mr_operation_id r = fst x \<and> mr_status r = ''REPAIR_REQUIRED''
          \<and> \<not> (od_attempts (snd x) \<noteq> [] \<and> mr_status (last (od_attempts (snd x))) = ''COMMITTED''))"

definition discover_repair_operations :: "'c item_store \<Rightarrow> string list" where
  "discover_repair_operations s = sorted_set (map fst (filter (\<lambda>x. unfinished x \<or> needs_repair x) (st_ops s)))"

text \<open>\<^verbatim>\<open>reconcile_pending_mutations\<close>: where an item lies, its archive and the projection of a kind are callbacks.\<close>

fun reconcile_each ::
  "pylib \<Rightarrow> string \<Rightarrow> (string \<Rightarrow> path) \<Rightarrow> (string \<Rightarrow> path) \<Rightarrow> (string \<Rightarrow> 'c projection) \<Rightarrow> string list \<Rightarrow> (mutation_receipt list, 'c) disk" where
  "reconcile_each lib now item_path_for archive_root_for project_for [] = return_it []"
| "reconcile_each lib now item_path_for archive_root_for project_for (i # is) =
     and_then (reading (\<lambda>s.
       case od_receipt (op_of s i) of
         Some r \<Rightarrow> reconcile_mutation lib (project_for (mr_kind r)) now (item_path_for (mr_sku r)) i
       | None \<Rightarrow>
           (case od_intent (op_of s i) of
              None \<Rightarrow> raise_it (FileNotFoundError ''intent.json'')
            | Some x \<Rightarrow> reconcile_unfinished lib (project_for (mb_kind (mi_binding x))) now (item_path_for (mb_sku (mi_binding x)))
                (archive_root_for (mb_sku (mi_binding x))) i))) (\<lambda>r.
     and_then (reconcile_each lib now item_path_for archive_root_for project_for is) (\<lambda>rs. return_it (r # rs)))"

definition reconcile_pending_mutations ::
  "pylib \<Rightarrow> string \<Rightarrow> (string \<Rightarrow> path) \<Rightarrow> (string \<Rightarrow> path) \<Rightarrow> (string \<Rightarrow> 'c projection) \<Rightarrow> (mutation_receipt list, 'c) disk" where
  "reconcile_pending_mutations lib now item_path_for archive_root_for project_for = reading (\<lambda>s.
     reconcile_each lib now item_path_for archive_root_for project_for (discover_repair_operations s))"

end
