(* ===== verification/Mutation_Safety.thy ===== *)
theory Mutation_Safety
  imports Item_Mutation
begin

text \<open>
  Crash safety of the item mutation. A small Hoare logic with a third postcondition, for the death of the process at a durable
  write, carries the proofs. The theorems: however often a mutation is started, killed, failed and reconciled, the file holds the
  old or the new document, the new one only once the old one is archived, and a later undisturbed attempt settles it; a
  receipt is final; and a receipt that reports a commit is true of the file and of the catalog.
\<close>

section \<open>Reading the store after a write\<close>

lemma op_of_set_op [simp]: "op_of (set_op i f s) j = (if j = i then f (op_of s i) else op_of s j)"
  by (simp add: op_of_def set_op_def)

lemma set_op_simps [simp]:
  "st_files (set_op i f s) = st_files s" "st_archives (set_op i f s) = st_archives s" "st_conflicts (set_op i f s) = st_conflicts s"
  "st_catalog (set_op i f s) = st_catalog s"
  by (simp_all add: set_op_def)

lemma op_of_other [simp]:
  "op_of (s\<lparr>st_archives := x\<rparr>) i = op_of s i" "op_of (s\<lparr>st_catalog := c\<rparr>) i = op_of s i" "op_of (s\<lparr>st_conflicts := y\<rparr>) i = op_of s i"
  "op_of (set_file p v s) i = op_of s i"
  by (simp_all add: op_of_def set_file_def)

lemma set_file_simps [simp]:
  "st_files (set_file p v s) = (st_files s)(p := Ok v)" "st_archives (set_file p v s) = st_archives s"
  "st_catalog (set_file p v s) = st_catalog s"
  by (simp_all add: set_file_def)

section \<open>A logic of runs\<close>

text \<open>From every state in \<open>P\<close> and under every list of faults, the run returns into \<open>Q\<close>, raises into \<open>E\<close>, or dies in \<open>J\<close>.\<close>

definition sat ::
  "('c item_store \<Rightarrow> bool) \<Rightarrow> ('a, 'c) disk \<Rightarrow> ('a \<Rightarrow> 'c item_store \<Rightarrow> bool) \<Rightarrow> (py_error \<Rightarrow> 'c item_store \<Rightarrow> bool) \<Rightarrow> ('c item_store \<Rightarrow> bool) \<Rightarrow> bool" where
  "sat P m Q E J \<longleftrightarrow>
     (\<forall>s fl. P s \<longrightarrow> (case m s fl of (Done x, s', _) \<Rightarrow> Q x s' | (Raised e, s', _) \<Rightarrow> E e s' | (Died, s', _) \<Rightarrow> J s'))"

lemma sat_return: "(\<And>s. P s \<Longrightarrow> Q x s) \<Longrightarrow> sat P (return_it x) Q E J"
  by (simp add: sat_def return_it_def)

lemma sat_raise: "(\<And>s. P s \<Longrightarrow> E e s) \<Longrightarrow> sat P (raise_it e) Q E J"
  by (simp add: sat_def raise_it_def)

lemma sat_reading: "(\<And>s0. P s0 \<Longrightarrow> sat (\<lambda>s. s = s0) (f s0) Q E J) \<Longrightarrow> sat P (reading f) Q E J"
  by (simp add: sat_def reading_def)

lemma sat_then: "sat P m R E J \<Longrightarrow> (\<And>x. sat (R x) (k x) Q E J) \<Longrightarrow> sat P (and_then m k) Q E J"
  unfolding sat_def and_then_def by (fastforce split: prod.splits run.splits)

lemma sat_catching: "sat P m Q R J \<Longrightarrow> (\<And>e. sat (R e) (h e) Q E J) \<Longrightarrow> sat P (catching m h) Q E J"
  unfolding sat_def catching_def by (fastforce split: prod.splits run.splits)

lemma sat_durable:
  "(\<And>s. P s \<Longrightarrow> Q () (f s) \<and> (\<forall>e. E e s \<and> E e (f s)) \<and> J s \<and> J (f s)) \<Longrightarrow> sat P (durable f) Q E J"
  unfolding sat_def durable_def by (fastforce split: list.splits option.splits fault.splits)

lemma sat_pre: "sat P' m Q E J \<Longrightarrow> (\<And>s. P s \<Longrightarrow> P' s) \<Longrightarrow> sat P m Q E J"
  by (simp add: sat_def)

lemma sat_post: "sat P m Q' E' J' \<Longrightarrow> (\<And>x s. Q' x s \<Longrightarrow> Q x s) \<Longrightarrow> (\<And>e s. E' e s \<Longrightarrow> E e s) \<Longrightarrow> (\<And>s. J' s \<Longrightarrow> J s) \<Longrightarrow> sat P m Q E J"
  unfolding sat_def by (fastforce split: prod.splits run.splits)

lemma sat_projecting:
  assumes "\<And>s c. P s \<Longrightarrow> R (s\<lparr>st_catalog := c\<rparr>)"
  shows "sat P (projecting pr sku d) (\<lambda>_. R) (\<lambda>_. R) R"
  unfolding sat_def projecting_def using assms by (auto split: prod.splits run.splits)

text \<open>Reading is evaluated in the state it reads: an assertion about the present state is kept.\<close>

lemma sat_now: "sat (\<lambda>s. s = s0) m Q E J \<Longrightarrow> sat (\<lambda>s. s = s0 \<and> R s) m Q E J"
  by (simp add: sat_def)

lemma sat_project_and_record:
  assumes "\<And>s c. P s \<Longrightarrow> P (s\<lparr>st_catalog := c\<rparr>)" and "\<And>s. P s \<Longrightarrow> J s"
    and "\<And>e. sat P (failed e) Q E J" and "sat P committed Q E J"
  shows "sat P (project_and_record pr sku d failed committed) Q E J"
  unfolding project_and_record_def
proof (rule sat_then[where R = "\<lambda>_. P"])
  have "sat P (projecting pr sku d) (\<lambda>_. P) (\<lambda>_. P) P" using assms(1) by (rule sat_projecting)
  then have "sat P (projecting pr sku d) (\<lambda>_. P) (\<lambda>_. P) J" by (rule sat_post) (use assms(2) in simp_all)
  then show "sat P (catching (and_then (projecting pr sku d) (\<lambda>_. return_it None)) (\<lambda>e. return_it (Some e))) (\<lambda>_. P) E J"
    by (intro sat_catching[where R = "\<lambda>_. P"] sat_then[where R = "\<lambda>_. P"] sat_return)
qed (use assms(3,4) in \<open>simp split: option.split\<close>)

lemma sat_write_receipt:
  assumes "\<And>s. P s \<Longrightarrow> J s" and "\<And>s. P s \<Longrightarrow> J (set_op i (\<lambda>d. d\<lparr>od_receipt := Some r\<rparr>) s)"
  shows "sat P (write_receipt i r) (\<lambda>x s. x = r \<and> J s) (\<lambda>_. J) J"
  unfolding write_receipt_def
  by (rule sat_then[where R = "\<lambda>_. J"]; intro sat_durable sat_return) (use assms in simp_all)

section \<open>The phases of one operation\<close>

text \<open>An operation whose transform is known: the request, its identity, the document it expects and the one it plans.\<close>

record planned_mutation =
  pm_request :: mutation_request
  pm_operation :: string
  pm_document :: jobj
  pm_updated :: jobj

definition plan_ok :: "pylib \<Rightarrow> (jobj \<Rightarrow> json result) \<Rightarrow> planned_mutation \<Rightarrow> bool" where
  "plan_ok lib mutate m \<longleftrightarrow>
     hex64 (pm_operation m) \<and> pm_operation m = request_identity lib (pm_request m) \<and> mq_operation_id (pm_request m) = None
     \<and> mq_expected (pm_request m) = doc_generation lib (pm_document m) \<and> mutate (pm_document m) = Ok (JObj (pm_updated m))
     \<and> doc_generation lib (pm_updated m) \<noteq> doc_generation lib (pm_document m)"

abbreviation pm_path :: "planned_mutation \<Rightarrow> path" where
  "pm_path m \<equiv> mq_item_path (pm_request m)"

abbreviation pm_member :: "planned_mutation \<Rightarrow> path \<times> string" where
  "pm_member m \<equiv> archive_member (mq_archive_root (pm_request m)) (mq_item_path (pm_request m)) (pm_operation m)"

definition planned_intent :: "pylib \<Rightarrow> planned_mutation \<Rightarrow> mutation_intent \<Rightarrow> bool" where
  "planned_intent lib m x \<longleftrightarrow>
     mi_binding x = request_binding (pm_operation m) (pm_request m) \<and> mi_planned x = Some (doc_generation lib (pm_updated m), pm_updated m)"

text \<open>Before the publication the file holds the old document, and what the archive and the journal hold belongs to this plan.\<close>

definition pm_before :: "pylib \<Rightarrow> planned_mutation \<Rightarrow> 'c item_store \<Rightarrow> bool" where
  "pm_before lib m s \<longleftrightarrow>
     st_files s (pm_path m) = Ok (JObj (pm_document m))
     \<and> st_archives s (pm_member m) \<in> {None, Some (JObj (pm_document m))}
     \<and> od_publication (op_of s (pm_operation m)) = None
     \<and> (\<forall>x. od_intent (op_of s (pm_operation m)) = Some x \<longrightarrow> planned_intent lib m x)
     \<and> (od_archive_marker (op_of s (pm_operation m)) \<noteq> None \<longrightarrow>
          od_intent (op_of s (pm_operation m)) \<noteq> None \<and> st_archives s (pm_member m) = Some (JObj (pm_document m)))"

text \<open>Afterwards it holds the new one, the old one is archived, and the intent can be replayed.\<close>

definition pm_after :: "pylib \<Rightarrow> planned_mutation \<Rightarrow> 'c item_store \<Rightarrow> bool" where
  "pm_after lib m s \<longleftrightarrow>
     st_files s (pm_path m) = Ok (JObj (pm_updated m))
     \<and> st_archives s (pm_member m) = Some (JObj (pm_document m))
     \<and> od_archive_marker (op_of s (pm_operation m)) \<noteq> None
     \<and> (\<exists>x. od_intent (op_of s (pm_operation m)) = Some x \<and> planned_intent lib m x)"

definition failed_receipt :: "mutation_receipt \<Rightarrow> bool" where
  "failed_receipt r \<longleftrightarrow> mr_status r = ''FAILED''"

definition published_receipt :: "pylib \<Rightarrow> planned_mutation \<Rightarrow> mutation_receipt \<Rightarrow> bool" where
  "published_receipt lib m r \<longleftrightarrow>
     mr_status r \<in> {''COMMITTED'', ''REPAIR_REQUIRED''} \<and> mr_resulting_generation r = Some (doc_generation lib (pm_updated m))
     \<and> mr_operation_id r = pm_operation m \<and> mr_sku r = mq_sku (pm_request m)"

definition journal_ok :: "pylib \<Rightarrow> planned_mutation \<Rightarrow> 'c item_store \<Rightarrow> bool" where
  "journal_ok lib m s \<longleftrightarrow>
     pm_before lib m s \<and> (\<forall>r. od_receipt (op_of s (pm_operation m)) = Some r \<longrightarrow> failed_receipt r)
     \<or> pm_after lib m s \<and> (\<forall>r. od_receipt (op_of s (pm_operation m)) = Some r \<longrightarrow> published_receipt lib m r)"

definition unsettled :: "planned_mutation \<Rightarrow> 'c item_store \<Rightarrow> bool" where
  "unsettled m s \<longleftrightarrow> od_receipt (op_of s (pm_operation m)) = None"

lemmas phase_defs = pm_before_def pm_after_def journal_ok_def unsettled_def

abbreviation keeps :: "('c item_store \<Rightarrow> bool) \<Rightarrow> ('c item_store \<Rightarrow> bool) \<Rightarrow> ('a, 'c) disk \<Rightarrow> bool" where
  "keeps P J m \<equiv> sat P m (\<lambda>_. J) (\<lambda>_. J) J"

lemma keeps_receipt:
  assumes "\<And>s. P s \<Longrightarrow> J s" and "\<And>s. P s \<Longrightarrow> J (set_op i (\<lambda>d. d\<lparr>od_receipt := Some r\<rparr>) s)"
  shows "keeps P J (write_receipt i r)"
  by (rule sat_post[OF sat_write_receipt[where J = J]]) (use assms in simp_all)

lemma phase_catalog [simp]:
  "pm_before lib m (s\<lparr>st_catalog := c\<rparr>) = pm_before lib m s" "pm_after lib m (s\<lparr>st_catalog := c\<rparr>) = pm_after lib m s"
  "unsettled m (s\<lparr>st_catalog := c\<rparr>) = unsettled m s"
  by (simp_all add: phase_defs)

lemma phase_receipt [simp]:
  "pm_before lib m (set_op i (\<lambda>d. d\<lparr>od_receipt := r\<rparr>) s) = pm_before lib m s"
  "pm_after lib m (set_op i (\<lambda>d. d\<lparr>od_receipt := r\<rparr>) s) = pm_after lib m s"
  by (simp_all add: phase_defs)

text \<open>The receipts the two phases allow.\<close>

lemma keeps_failed:
  assumes "failed_receipt r"
  shows "keeps (\<lambda>s. pm_before lib m s \<and> unsettled m s) (journal_ok lib m) (write_receipt (pm_operation m) r)"
  by (rule keeps_receipt) (use assms in \<open>simp_all add: journal_ok_def unsettled_def\<close>)

lemma keeps_published:
  assumes "published_receipt lib m r"
  shows "keeps (\<lambda>s. pm_after lib m s \<and> unsettled m s) (journal_ok lib m) (write_receipt (pm_operation m) r)"
  by (rule keeps_receipt) (use assms in \<open>simp_all add: journal_ok_def unsettled_def\<close>)

lemma keeps_projected:
  assumes "\<And>e. published_receipt lib m (f e)" and "published_receipt lib m r"
  shows "keeps (\<lambda>s. pm_after lib m s \<and> unsettled m s) (journal_ok lib m)
    (project_and_record pr sku d (\<lambda>e. write_receipt (pm_operation m) (f e)) (write_receipt (pm_operation m) r))"
  by (rule sat_project_and_record) (simp_all add: journal_ok_def unsettled_def keeps_published[unfolded unsettled_def] assms)

text \<open>Archive, marker and publication of the plan, from any point where an earlier attempt stopped. The step into the new
  document is guarded by the archive.\<close>

definition archived :: "pylib \<Rightarrow> planned_mutation \<Rightarrow> 'c item_store \<Rightarrow> bool" where
  "archived lib m s \<longleftrightarrow> pm_before lib m s \<and> od_archive_marker (op_of s (pm_operation m)) \<noteq> None \<and> unsettled m s"

definition intended :: "pylib \<Rightarrow> planned_mutation \<Rightarrow> 'c item_store \<Rightarrow> bool" where
  "intended lib m s \<longleftrightarrow> pm_before lib m s \<and> od_intent (op_of s (pm_operation m)) \<noteq> None \<and> unsettled m s"

text \<open>Where an attempt stands when an exception is caught: nothing published, or all of it.\<close>

definition either_phase :: "pylib \<Rightarrow> planned_mutation \<Rightarrow> 'c item_store \<Rightarrow> bool" where
  "either_phase lib m s \<longleftrightarrow> (pm_before lib m s \<or> pm_after lib m s) \<and> unsettled m s"

lemma either_ok: "either_phase lib m s \<Longrightarrow> journal_ok lib m s"
  by (auto simp: either_phase_def journal_ok_def unsettled_def)

lemma sat_archive:
  "sat (intended lib m)
     (reading (\<lambda>s. if od_archive_marker (op_of s (pm_operation m)) = None
        then and_then (archive_once (mq_archive_root (pm_request m)) (pm_path m) (pm_operation m)) (\<lambda>_. mark_archived (pm_operation m) gen)
        else return_it ()))
     (\<lambda>_. archived lib m) (\<lambda>_. either_phase lib m) (either_phase lib m)"
proof (rule sat_reading)
  fix s0 :: "'c item_store"
  assume s0: "intended lib m s0"
  let ?member = "\<lambda>s :: 'c item_store. intended lib m s \<and> st_archives s (pm_member m) = Some (JObj (pm_document m))"
  have once: "sat (intended lib m) (archive_once (mq_archive_root (pm_request m)) (pm_path m) (pm_operation m))
      (\<lambda>_. ?member) (\<lambda>_. either_phase lib m) (either_phase lib m)"
    unfolding archive_once_def
  proof (rule sat_reading)
    fix s1 :: "'c item_store"
    assume s1: "intended lib m s1"
    then have "st_files s1 (pm_path m) = Ok (JObj (pm_document m))" by (simp add: intended_def pm_before_def)
    then show "sat (\<lambda>s. s = s1)
       (if st_archives s1 (pm_member m) \<noteq> None then return_it ()
        else (case st_files s1 (pm_path m) of Inl e \<Rightarrow> raise_it e
          | Inr v \<Rightarrow> durable (\<lambda>s. s\<lparr>st_archives := (st_archives s)(pm_member m := Some v)\<rparr>)))
       (\<lambda>_. ?member) (\<lambda>_. either_phase lib m) (either_phase lib m)"
      using s1 by (auto simp: intended_def phase_defs either_phase_def intro!: sat_return sat_durable)
  qed
  have mark: "sat ?member (mark_archived (pm_operation m) gen) (\<lambda>_. archived lib m) (\<lambda>_. either_phase lib m) (either_phase lib m)"
    unfolding mark_archived_def
    by (rule sat_durable) (auto simp: intended_def archived_def either_phase_def phase_defs planned_intent_def)
  show "sat (\<lambda>s. s = s0)
     (if od_archive_marker (op_of s0 (pm_operation m)) = None
        then and_then (archive_once (mq_archive_root (pm_request m)) (pm_path m) (pm_operation m)) (\<lambda>_. mark_archived (pm_operation m) gen)
        else return_it ())
     (\<lambda>_. archived lib m) (\<lambda>_. either_phase lib m) (either_phase lib m)"
    using sat_pre[OF sat_then[OF once mark], of "\<lambda>s. s = s0"] s0
    by (auto simp: intended_def archived_def intro!: sat_return)
qed

lemma sat_publish:
  "sat (archived lib m) (durable (set_file (pm_path m) (JObj (pm_updated m))))
     (\<lambda>_ s. pm_after lib m s \<and> unsettled m s) (\<lambda>_. either_phase lib m) (either_phase lib m)"
  by (rule sat_durable) (auto simp: archived_def either_phase_def phase_defs)

lemma sat_mark_published:
  "sat (\<lambda>s. pm_after lib m s \<and> unsettled m s) (mark_published (pm_operation m) gen)
     (\<lambda>_ s. pm_after lib m s \<and> unsettled m s) (\<lambda>_ s. pm_after lib m s \<and> unsettled m s) (\<lambda>s. pm_after lib m s \<and> unsettled m s)"
  unfolding mark_published_def by (rule sat_durable) (auto simp: phase_defs)

section \<open>Every attempt keeps the phases\<close>

lemma plan_okD:
  assumes "plan_ok lib mutate m"
  shows "mq_expected (pm_request m) = doc_generation lib (pm_document m)" "mutate (pm_document m) = Ok (JObj (pm_updated m))"
    "doc_generation lib (pm_updated m) \<noteq> doc_generation lib (pm_document m)" "hex64 (pm_operation m)"
    "request_identity lib (pm_request m) = pm_operation m" "mq_operation_id (pm_request m) = None"
  using assms unfolding plan_ok_def by metis+

lemma phase_load:
  "pm_before lib m s \<Longrightarrow> load_document (pm_path m) s = Ok (pm_document m)"
  "pm_after lib m s \<Longrightarrow> load_document (pm_path m) s = Ok (pm_updated m)"
  by (simp_all add: phase_defs load_document_def)

lemma published_request:
  "st \<in> {''COMMITTED'', ''REPAIR_REQUIRED''} \<Longrightarrow>
    published_receipt lib m (request_receipt now (pm_operation m) (pm_request m) st obs (Some (doc_generation lib (pm_updated m))) det ch)"
  by (auto simp: published_receipt_def request_receipt_def)

lemma keeps_publication_failed:
  assumes "plan_ok lib mutate m"
  shows "keeps (either_phase lib m) (journal_ok lib m :: 'c item_store \<Rightarrow> bool)
    (publication_failed lib now (pm_operation m) (pm_request m) (doc_generation lib (pm_document m)) (Some (doc_generation lib (pm_updated m))) e)"
  unfolding publication_failed_def
proof (rule sat_reading)
  fix s0 :: "'c item_store"
  assume s0: "either_phase lib m s0"
  let ?R = "\<lambda>st obs det. request_receipt now (pm_operation m) (pm_request m) st (Some (doc_generation lib (pm_document m))) obs det True"
  consider "pm_before lib m s0" | "pm_after lib m s0" using s0 by (auto simp: either_phase_def)
  then show "keeps (\<lambda>s. s = s0) (journal_ok lib m)
    (let persisted = (case load_document (pm_path m) s0 of Inl _ \<Rightarrow> None | Inr d \<Rightarrow> Some (doc_generation lib d))
     in if persisted = Some (doc_generation lib (pm_updated m)) \<and> persisted \<noteq> Some (doc_generation lib (pm_document m))
        then write_receipt (pm_operation m) (?R ''REPAIR_REQUIRED'' persisted (Some (''canonical published; terminal publication incomplete: '' @ exc_line e)))
        else write_receipt (pm_operation m) (?R ''FAILED'' None (Some (''canonical mutation failed: '' @ exc_line e))))"
  proof cases
    case 1
    have "failed_receipt (?R ''FAILED'' None det)" for det by (simp add: failed_receipt_def request_receipt_def)
    then show ?thesis
      using 1 s0 plan_okD(3)[OF assms] by (auto simp: phase_load Let_def either_phase_def intro: sat_pre[OF keeps_failed])
  next
    case 2
    then show ?thesis
      using s0 plan_okD(3)[OF assms] by (auto simp: phase_load Let_def either_phase_def intro!: sat_pre[OF keeps_published[OF published_request]])
  qed
qed

lemma sat_publish_plan:
  assumes "planned_intent lib m (intent\<lparr>mi_planned := Some (doc_generation lib (pm_updated m), pm_updated m)\<rparr>)"
  shows "sat (\<lambda>s. pm_before lib m s \<and> unsettled m s)
    (publish_plan lib (pm_operation m) (pm_request m) intent (doc_generation lib (pm_document m)) (pm_updated m))
    (\<lambda>_ s. pm_after lib m s \<and> unsettled m s) (\<lambda>_. either_phase lib m) (either_phase lib m)"
  unfolding publish_plan_def
proof (intro sat_then)
  show "sat (\<lambda>s. pm_before lib m s \<and> unsettled m s)
      (durable (set_op (pm_operation m) (\<lambda>d. d\<lparr>od_intent := Some (intent\<lparr>mi_planned := Some (doc_generation lib (pm_updated m), pm_updated m)\<rparr>)\<rparr>)))
      (\<lambda>_. intended lib m) (\<lambda>_. either_phase lib m) (either_phase lib m)"
    using assms by (intro sat_durable) (auto simp: intended_def either_phase_def phase_defs)
  show "sat (\<lambda>s. pm_after lib m s \<and> unsettled m s) (mark_published (pm_operation m) (doc_generation lib (pm_updated m)))
      (\<lambda>_ s. pm_after lib m s \<and> unsettled m s) (\<lambda>_. either_phase lib m) (either_phase lib m)"
    by (rule sat_post[OF sat_mark_published]) (simp_all add: either_phase_def)
qed (rule sat_archive, rule sat_publish)

lemma keeps_apply_mutation:
  fixes pr :: "'c projection"
  assumes "plan_ok lib mutate m" and "mi_binding intent = request_binding (pm_operation m) (pm_request m)"
  shows "keeps (\<lambda>s. pm_before lib m s \<and> unsettled m s) (journal_ok lib m)
    (apply_mutation lib mutate pr now (pm_operation m) (pm_request m) intent (pm_document m))"
proof -
  note ok = plan_okD[OF assms(1)]
  have planned: "planned_intent lib m (intent\<lparr>mi_planned := Some (doc_generation lib (pm_updated m), pm_updated m)\<rparr>)"
    using assms(2) by (simp add: planned_intent_def)
  let ?Q = "\<lambda>x s. (case x of None \<Rightarrow> pm_after lib m s \<and> unsettled m s | Some (r :: mutation_receipt) \<Rightarrow> journal_ok lib m s)"
  let ?i = "pm_operation m" and ?q = "pm_request m" and ?g = "doc_generation lib (pm_document m)" and ?g' = "doc_generation lib (pm_updated m)"
  have publish: "sat (\<lambda>s. pm_before lib m s \<and> unsettled m s)
     (catching (and_then (publish_plan lib ?i ?q intent ?g (pm_updated m)) (\<lambda>_. return_it None))
       (\<lambda>e. and_then (publication_failed lib now ?i ?q ?g (Some ?g') e) (\<lambda>r. return_it (Some r))))
     ?Q (\<lambda>_. journal_ok lib m) (journal_ok lib m)"
  proof (rule sat_catching)
    have "sat (\<lambda>s. pm_before lib m s \<and> unsettled m s) (publish_plan lib ?i ?q intent ?g (pm_updated m))
      (\<lambda>_ s. pm_after lib m s \<and> unsettled m s) (\<lambda>_. either_phase lib m) (journal_ok lib m)"
      by (rule sat_post[OF sat_publish_plan[OF planned]]) (simp_all add: either_ok)
    then show "sat (\<lambda>s. pm_before lib m s \<and> unsettled m s) (and_then (publish_plan lib ?i ?q intent ?g (pm_updated m)) (\<lambda>_. return_it None))
      ?Q (\<lambda>_. either_phase lib m) (journal_ok lib m)"
      by (rule sat_then) (rule sat_return, simp)
    show "sat (either_phase lib m) (and_then (publication_failed lib now ?i ?q ?g (Some ?g') e) (\<lambda>r. return_it (Some r)))
       ?Q (\<lambda>_. journal_ok lib m) (journal_ok lib m)" for e
      by (rule sat_then[OF keeps_publication_failed[OF assms(1)]]) (rule sat_return, simp)
  qed
  have rest: "sat (?Q x) (case x of Some r \<Rightarrow> return_it r
      | None \<Rightarrow> project_and_record pr (mq_sku ?q) (pm_updated m)
          (\<lambda>e. write_receipt ?i (request_receipt now ?i ?q ''REPAIR_REQUIRED'' (Some ?g) (Some ?g') (Some (''projection failed: '' @ exc_line e)) True))
          (write_receipt ?i (request_receipt now ?i ?q ''COMMITTED'' (Some ?g) (Some ?g') None True)))
      (\<lambda>_. journal_ok lib m) (\<lambda>_. journal_ok lib m) (journal_ok lib m)" for x
    by (cases x) (auto intro!: sat_return keeps_projected published_request)
  show ?thesis
    unfolding apply_mutation_def Let_def ok(2) sum.case json.case if_not_P[OF ok(3)] apply_change_def
    by (rule sat_then[OF publish rest])
qed

lemma keeps_recover:
  fixes pr :: "'c projection"
  assumes "plan_ok lib mutate m" and "planned_intent lib m intent"
  shows "keeps (\<lambda>s. pm_after lib m s \<and> unsettled m s) (journal_ok lib m)
    (recover_or_conflict lib pr now (pm_operation m) (pm_request m) intent (pm_updated m))"
  unfolding recover_or_conflict_def
proof (rule sat_reading)
  fix s0 :: "'c item_store"
  assume s0: "pm_after lib m s0 \<and> unsettled m s0"
  let ?i = "pm_operation m" and ?g' = "doc_generation lib (pm_updated m)" and ?K = "\<lambda>s :: 'c item_store. pm_after lib m s \<and> unsettled m s"
  have plan: "map_option fst (mi_planned intent) = Some ?g'" "od_archive_marker (op_of s0 ?i) \<noteq> None"
    using assms(2) s0 by (simp_all add: planned_intent_def pm_after_def)
  have mark: "sat (\<lambda>s. s = s0) (if od_publication (op_of s0 ?i) = None then mark_published ?i ?g' else return_it ()) (\<lambda>_. ?K)
      (\<lambda>_. journal_ok lib m) (journal_ok lib m)"
    using s0 by (auto intro!: sat_return sat_pre[OF sat_post[OF sat_mark_published]] simp: either_ok either_phase_def)
  show "keeps (\<lambda>s. s = s0) (journal_ok lib m)
    (let observed = ?g' in
     if od_archive_marker (op_of s0 ?i) \<noteq> None \<and> map_option fst (mi_planned intent) = Some observed
     then and_then (if od_publication (op_of s0 ?i) = None then mark_published ?i observed else return_it ()) (\<lambda>_.
          project_and_record pr (mq_sku (pm_request m)) (pm_updated m)
            (\<lambda>e. write_receipt ?i (request_receipt now ?i (pm_request m) ''REPAIR_REQUIRED'' (Some (mq_expected (pm_request m))) (Some observed)
               (Some (''projection recovery failed: '' @ exc_line e)) True))
            (write_receipt ?i (request_receipt now ?i (pm_request m) ''COMMITTED'' (Some (mq_expected (pm_request m))) (Some observed)
               (Some ''recovered canonical write and completed projection'') True)))
     else write_receipt ?i (request_receipt now ?i (pm_request m) ''CONFLICT'' (Some observed) None (Some ''expected generation is stale'') True))"
    unfolding Let_def if_P[OF conjI[OF plan(2,1)]]
    by (rule sat_then[OF mark]) (intro keeps_projected published_request; simp)
qed

lemma keeps_mutate_locked:
  fixes pr :: "'c projection"
  assumes "plan_ok lib mutate m"
  shows "keeps (journal_ok lib m) (journal_ok lib m) (mutate_locked lib mutate pr now (pm_operation m) (pm_request m))"
  unfolding mutate_locked_def
proof (rule sat_reading)
  fix s0 :: "'c item_store"
  assume s0: "journal_ok lib m s0"
  note ok = plan_okD[OF assms]
  let ?i = "pm_operation m" and ?q = "pm_request m"
  let ?intent = "case od_intent (op_of s0 ?i) of Some x \<Rightarrow> x | None \<Rightarrow> \<lparr>mi_binding = request_binding ?i ?q, mi_recorded_at = now, mi_planned = None\<rparr>"
  have binding: "mi_binding ?intent = request_binding ?i ?q"
    using s0 by (auto simp: journal_ok_def pm_before_def pm_after_def planned_intent_def split: option.splits)
  show "keeps (\<lambda>s. s = s0) (journal_ok lib m)
    (case od_receipt (op_of s0 ?i) of Some r \<Rightarrow> return_it r
     | None \<Rightarrow>
         (let binding = request_binding ?i ?q;
              intent = (case od_intent (op_of s0 ?i) of Some x \<Rightarrow> x | None \<Rightarrow> \<lparr>mi_binding = binding, mi_recorded_at = now, mi_planned = None\<rparr>)
          in if canonical lib (mutation_binding_json (mi_binding intent)) \<noteq> canonical lib (mutation_binding_json binding)
             then write_receipt ?i (request_receipt now ?i ?q ''CONFLICT'' None None (Some ''durable intent does not match request binding'') True)
             else (case load_document (pm_path m) s0 of
                     Inl e \<Rightarrow> write_receipt ?i (request_receipt now ?i ?q ''FAILED'' None None (Some (''cannot load canonical item: '' @ exc_line e)) True)
                   | Inr document \<Rightarrow>
                       (if doc_generation lib document \<noteq> mq_expected ?q
                        then recover_or_conflict lib pr now ?i ?q intent document
                        else apply_mutation lib mutate pr now ?i ?q intent document))))"
  proof (cases "od_receipt (op_of s0 ?i)")
    case None
    then have un: "unsettled m s0" by (simp add: unsettled_def)
    consider "pm_before lib m s0" | "pm_after lib m s0" using s0 by (auto simp: journal_ok_def)
    then show ?thesis
    proof cases
      case 1
      have "keeps (\<lambda>s. s = s0) (journal_ok lib m) (apply_mutation lib mutate pr now ?i ?q ?intent (pm_document m))"
        by (rule sat_pre[OF keeps_apply_mutation[OF assms binding]]) (use 1 un in simp)
      then show ?thesis unfolding Let_def binding phase_load(1)[OF 1] None by (simp add: ok(1))
    next
      case 2
      then have planned: "planned_intent lib m ?intent" by (auto simp: pm_after_def)
      have "keeps (\<lambda>s. s = s0) (journal_ok lib m) (recover_or_conflict lib pr now ?i ?q ?intent (pm_updated m))"
        by (rule sat_pre[OF keeps_recover[OF assms planned]]) (use 2 un in simp)
      then show ?thesis unfolding Let_def binding phase_load(2)[OF 2] None using ok(3) by (simp add: ok(1))
    qed
  next
    case (Some r)
    then show ?thesis using s0 by (auto intro: sat_return)
  qed
qed

lemma published_plan:
  "st \<in> {''COMMITTED'', ''REPAIR_REQUIRED''} \<Longrightarrow> b = request_binding (pm_operation m) (pm_request m) \<Longrightarrow>
    published_receipt lib m (plan_receipt now (pm_operation m) b st obs (doc_generation lib (pm_updated m)) det)"
  by (auto simp: published_receipt_def plan_receipt_def request_binding_def)

lemma keeps_finish:
  fixes pr :: "'c projection"
  assumes "b = request_binding (pm_operation m) (pm_request m)"
  shows "keeps (\<lambda>s. pm_after lib m s \<and> unsettled m s) (journal_ok lib m)
    (finish_plan pr now (pm_operation m) b (doc_generation lib (pm_updated m)) (pm_updated m))"
  unfolding finish_plan_def by (intro keeps_projected published_plan assms) simp_all

lemma keeps_mark_finish:
  fixes pr :: "'c projection"
  assumes "b = request_binding (pm_operation m) (pm_request m)"
  shows "keeps (\<lambda>s. pm_after lib m s \<and> unsettled m s) (journal_ok lib m)
    (and_then (mark_published (pm_operation m) (doc_generation lib (pm_updated m)))
       (\<lambda>_. finish_plan pr now (pm_operation m) b (doc_generation lib (pm_updated m)) (pm_updated m)))"
  by (rule sat_then[OF sat_post[OF sat_mark_published] keeps_finish[OF assms]]) (simp_all add: either_ok either_phase_def)

lemma keeps_resume:
  fixes pr :: "'c projection"
  assumes "plan_ok lib mutate m" and "b = request_binding (pm_operation m) (pm_request m)"
  shows "keeps (\<lambda>s. journal_ok lib m s \<and> od_intent (op_of s (pm_operation m)) \<noteq> None) (journal_ok lib m)
    (resume_plan lib pr now (pm_path m) (mq_archive_root (pm_request m)) (pm_operation m) b (doc_generation lib (pm_updated m)) (pm_updated m))"
  unfolding resume_plan_def
proof (rule sat_reading)
  fix s0 :: "'c item_store"
  assume s0: "journal_ok lib m s0 \<and> od_intent (op_of s0 (pm_operation m)) \<noteq> None"
  note ok = plan_okD[OF assms(1)]
  let ?i = "pm_operation m" and ?p = "pm_path m" and ?arch = "mq_archive_root (pm_request m)" and ?gen = "doc_generation lib (pm_updated m)"
    and ?u = "pm_updated m"
  have expected: "mb_expected_generation b = doc_generation lib (pm_document m)" by (simp add: assms(2) request_binding_def ok(1))
  have publish: "keeps (intended lib m) (journal_ok lib m)
      (and_then (reading (\<lambda>s. if od_archive_marker (op_of s ?i) = None
                   then and_then (archive_once ?arch ?p ?i) (\<lambda>_. mark_archived ?i (doc_generation lib (pm_document m))) else return_it ())) (\<lambda>_.
       and_then (durable (set_file ?p (JObj ?u))) (\<lambda>_. and_then (mark_published ?i ?gen) (\<lambda>_. finish_plan pr now ?i b ?gen ?u))))"
    by (rule sat_then[OF sat_post[OF sat_archive] sat_then[OF sat_post[OF sat_publish] keeps_mark_finish[OF assms(2)]]]) (assumption | erule either_ok)+
  show "keeps (\<lambda>s. s = s0) (journal_ok lib m)
     (case od_receipt (op_of s0 ?i) of Some r \<Rightarrow> return_it r
      | None \<Rightarrow>
         (case load_document ?p s0 of
            Inl e \<Rightarrow> write_receipt ?i (plan_receipt now ?i b ''CONFLICT'' None ?gen (''cannot verify unfinished canonical item: '' @ exc_line e))
          | Inr document \<Rightarrow>
              (let observed = doc_generation lib document in
               if od_publication (op_of s0 ?i) = None
               then (if observed = mb_expected_generation b
                     then and_then (if od_archive_marker (op_of s0 ?i) = None
                              then and_then (archive_once ?arch ?p ?i) (\<lambda>_. mark_archived ?i observed) else return_it ()) (\<lambda>_.
                          and_then (durable (set_file ?p (JObj ?u))) (\<lambda>_.
                          and_then (mark_published ?i ?gen) (\<lambda>_. finish_plan pr now ?i b ?gen ?u)))
                     else if observed = ?gen \<and> od_archive_marker (op_of s0 ?i) \<noteq> None
                     then and_then (mark_published ?i ?gen) (\<lambda>_. finish_plan pr now ?i b ?gen ?u)
                     else write_receipt ?i (plan_receipt now ?i b ''CONFLICT'' (Some observed) ?gen
                            ''canonical generation advanced during unfinished reconciliation''))
               else if observed \<noteq> ?gen
               then write_receipt ?i (plan_receipt now ?i b ''CONFLICT'' (Some observed) ?gen
                      ''published generation no longer canonical during reconciliation'')
               else finish_plan pr now ?i b ?gen ?u)))"
  proof (cases "od_receipt (op_of s0 ?i)")
    case None
    then have un: "unsettled m s0" by (simp add: unsettled_def)
    consider "pm_before lib m s0" | "pm_after lib m s0" using s0 by (auto simp: journal_ok_def)
    then show ?thesis
    proof cases
      case 1
      then have "intended lib m s0" "od_publication (op_of s0 ?i) = None" using s0 un by (auto simp: intended_def pm_before_def)
      moreover from this(1) have "keeps (\<lambda>s. s = s0) (journal_ok lib m)
          (and_then (if od_archive_marker (op_of s0 ?i) = None
                     then and_then (archive_once ?arch ?p ?i) (\<lambda>_. mark_archived ?i (doc_generation lib (pm_document m))) else return_it ()) (\<lambda>_.
             and_then (durable (set_file ?p (JObj ?u))) (\<lambda>_. and_then (mark_published ?i ?gen) (\<lambda>_. finish_plan pr now ?i b ?gen ?u))))"
        using sat_pre[OF publish, of "\<lambda>s. s = s0"] by (simp add: sat_def and_then_def reading_def)
      ultimately show ?thesis unfolding None option.case phase_load(1)[OF 1] sum.case Let_def expected by (simp only: if_True refl)
    next
      case 2
      have m2: "keeps (\<lambda>s. s = s0) (journal_ok lib m) (and_then (mark_published ?i ?gen) (\<lambda>_. finish_plan pr now ?i b ?gen ?u))"
        by (rule sat_pre[OF keeps_mark_finish[OF assms(2)]]) (use 2 un in simp)
      have f2: "keeps (\<lambda>s. s = s0) (journal_ok lib m) (finish_plan pr now ?i b ?gen ?u)"
        by (rule sat_pre[OF keeps_finish[OF assms(2)]]) (use 2 un in simp)
      have "od_archive_marker (op_of s0 ?i) \<noteq> None" using 2 by (simp add: pm_after_def)
      then show ?thesis unfolding None option.case phase_load(2)[OF 2] sum.case Let_def expected using ok(3) m2 f2 by simp
    qed
  next
    case (Some r)
    then show ?thesis using s0 by (auto intro: sat_return)
  qed
qed

lemma keeps_check: "keeps P P (check_operation i)"
  by (simp add: check_operation_def sat_return sat_raise)

lemma keeps_reconcile_unfinished:
  fixes pr :: "'c projection"
  assumes "plan_ok lib mutate m"
  shows "keeps (journal_ok lib m) (journal_ok lib m)
    (reconcile_unfinished lib pr now (pm_path m) (mq_archive_root (pm_request m)) (pm_operation m))"
  unfolding reconcile_unfinished_def
proof (rule sat_then[OF keeps_check sat_reading])
  fix s0 :: "'c item_store"
  assume s0: "journal_ok lib m s0"
  let ?i = "pm_operation m"
  show "keeps (\<lambda>s. s = s0) (journal_ok lib m)
     (case od_intent (op_of s0 ?i) of None \<Rightarrow> raise_it (FileNotFoundError ''intent.json'')
      | Some intent \<Rightarrow>
         (let b = mi_binding intent in
          if operation_identity lib (mb_sku b) (mb_kind b) (mb_expected_generation b) (mb_payload b) \<noteq> ?i
          then raise_it (ValueError ''unfinished intent binding does not match operation_id'')
          else (case mi_planned intent of
                  None \<Rightarrow> raise_it (ValueError ''unfinished intent lacks an exact planned document'')
                | Some (gen, planned) \<Rightarrow>
                    (if doc_generation lib planned \<noteq> gen then raise_it (ValueError ''unfinished intent lacks an exact planned document'')
                     else resume_plan lib pr now (pm_path m) (mq_archive_root (pm_request m)) ?i b gen planned))))"
  proof (cases "od_intent (op_of s0 ?i)")
    case None
    then show ?thesis using s0 by (auto intro: sat_raise)
  next
    case (Some x)
    then have x: "mi_binding x = request_binding ?i (pm_request m)" "mi_planned x = Some (doc_generation lib (pm_updated m), pm_updated m)"
      using s0 by (auto simp: journal_ok_def pm_before_def pm_after_def planned_intent_def)
    have "keeps (\<lambda>s. s = s0) (journal_ok lib m)
        (resume_plan lib pr now (pm_path m) (mq_archive_root (pm_request m)) ?i (request_binding ?i (pm_request m)) (doc_generation lib (pm_updated m)) (pm_updated m))"
      by (rule sat_pre[OF keeps_resume[OF assms refl]]) (use s0 Some in simp)
    then show ?thesis using s0 by (auto simp: Some x Let_def intro: sat_raise)
  qed
qed

lemma phase_attempts [simp]:
  "journal_ok lib m (set_op i (\<lambda>d. d\<lparr>od_attempts := f d\<rparr>) s) = journal_ok lib m s"
  by (simp add: phase_defs)

lemma keeps_attempt: "keeps (journal_ok lib m) (journal_ok lib m) (write_attempt i r)"
  unfolding write_attempt_def by (rule sat_then[where R = "\<lambda>_. journal_ok lib m"]; intro sat_durable sat_return) simp_all

lemma keeps_reconcile_mutation:
  fixes pr :: "'c projection"
  shows "keeps (journal_ok lib m) (journal_ok lib m) (reconcile_mutation lib pr now p i)"
proof -
  have project: "keeps (journal_ok lib m) (journal_ok lib m) (project_and_record pr sku d (\<lambda>e. write_attempt i (f e)) (write_attempt i r))" for i sku d f r
    by (rule sat_project_and_record) (simp_all add: keeps_attempt, simp add: journal_ok_def)
  have stay: "keeps (\<lambda>s. s = s0) (journal_ok lib m) x" if "keeps (journal_ok lib m) (journal_ok lib m) x" "journal_ok lib m s0"
    for s0 and x :: "(mutation_receipt, 'c) disk"
    using that by (auto intro: sat_pre)
  show ?thesis
    unfolding reconcile_mutation_def
    by (rule sat_then[OF keeps_check sat_reading])
      (auto simp: Let_def intro!: sat_return sat_raise stay[OF keeps_attempt] stay[OF project] split: option.splits sum.splits)
qed

lemma keeps_mutate_item:
  fixes pr :: "'c projection"
  assumes "plan_ok lib mutate m"
  shows "keeps (journal_ok lib m) (journal_ok lib m) (mutate_item lib mutate pr now (pm_request m))"
  unfolding mutate_item_def Let_def plan_okD(5,6)[OF assms] option.case
  by (simp add: sat_then[OF keeps_check keeps_mutate_locked[OF assms]])

section \<open>Applied once\<close>

text \<open>One attempt at the operation: the call, the reconciliation of a fresh process or the repair of its projection, each with its own
  projection, clock and faults; or anything that leaves the file, the journal of the operation and its archive member alone.\<close>

inductive attempt :: "pylib \<Rightarrow> (jobj \<Rightarrow> json result) \<Rightarrow> planned_mutation \<Rightarrow> 'c item_store \<Rightarrow> 'c item_store \<Rightarrow> bool"
  for lib mutate m where
  call: "mutate_item lib mutate pr now (pm_request m) s fl = (r, s', fl') \<Longrightarrow> attempt lib mutate m s s'"
| resume: "reconcile_unfinished lib pr now (pm_path m) (mq_archive_root (pm_request m)) (pm_operation m) s fl = (r, s', fl')
    \<Longrightarrow> attempt lib mutate m s s'"
| repair: "reconcile_mutation lib pr now p i s fl = (r, s', fl') \<Longrightarrow> attempt lib mutate m s s'"
| elsewhere: "st_files s' (pm_path m) = st_files s (pm_path m) \<Longrightarrow> op_of s' (pm_operation m) = op_of s (pm_operation m)
    \<Longrightarrow> st_archives s' (pm_member m) = st_archives s (pm_member m) \<Longrightarrow> attempt lib mutate m s s'"

lemma keepsD: "keeps P J m \<Longrightarrow> P s \<Longrightarrow> m s fl = (r, s', fl') \<Longrightarrow> J s'"
  unfolding sat_def by (drule spec[of _ s], drule spec[of _ fl]) (cases r; simp)

lemma attempt_keeps:
  assumes "plan_ok lib mutate m" and "attempt lib mutate m s s'" and "journal_ok lib m s"
  shows "journal_ok lib m s'"
  using assms(2)
proof cases
  case (call pr now fl r fl')
  then show ?thesis using keepsD[OF keeps_mutate_item[OF assms(1)] assms(3)] by blast
next
  case (resume pr now fl r fl')
  then show ?thesis using keepsD[OF keeps_reconcile_unfinished[OF assms(1)] assms(3)] by blast
next
  case (repair pr now p i fl r fl')
  then show ?thesis using keepsD[OF keeps_reconcile_mutation assms(3)] by blast
next
  case elsewhere
  then show ?thesis using assms(3) unfolding phase_defs by simp
qed

definition untouched :: "planned_mutation \<Rightarrow> 'c item_store \<Rightarrow> bool" where
  "untouched m s \<longleftrightarrow> st_files s (pm_path m) = Ok (JObj (pm_document m)) \<and> op_of s (pm_operation m) = empty_op \<and> st_archives s (pm_member m) = None"

lemma attempts_keep:
  assumes "plan_ok lib mutate m" and "(attempt lib mutate m)\<^sup>*\<^sup>* s0 s" and "untouched m s0"
  shows "journal_ok lib m s"
  using assms(2)
proof (induction rule: rtranclp_induct)
  case base
  then show ?case using assms(3) by (simp add: untouched_def phase_defs empty_op_def)
next
  case (step s1 s2)
  then show ?case using attempt_keeps[OF assms(1)] by blast
qed

text \<open>C19: however often an operation on an item is started, killed between or after any two writes, failed by an exception and
  reconciled, the file holds the old document or the planned one, never anything else and never a second application; it
  holds the planned one only when the old one is archived under the operation; and a receipt tells which.\<close>

theorem mutation_applied_once:
  assumes "plan_ok lib mutate m" and "untouched m s0" and "(attempt lib mutate m)\<^sup>*\<^sup>* s0 s"
  shows "(st_files s (pm_path m) = Ok (JObj (pm_document m))
      \<or> st_files s (pm_path m) = Ok (JObj (pm_updated m)) \<and> st_archives s (pm_member m) = Some (JObj (pm_document m)))
    \<and> (case od_receipt (op_of s (pm_operation m)) of None \<Rightarrow> True
       | Some r \<Rightarrow> (if mr_status r = ''FAILED'' then st_files s (pm_path m) = Ok (JObj (pm_document m))
           else mr_status r \<in> {''COMMITTED'', ''REPAIR_REQUIRED''} \<and> st_files s (pm_path m) = Ok (JObj (pm_updated m))
             \<and> mr_resulting_generation r = Some (doc_generation lib (pm_updated m))))"
  using attempts_keep[OF assms(1,3,2)]
  by (auto simp: phase_defs failed_receipt_def published_receipt_def split: option.splits)

section \<open>A crash between the file and its marker\<close>

definition sample_digest :: pylib where
  "sample_digest = \<lparr>sha256_hex = (\<lambda>s. replicate 64 (if length s = 2 then CHR ''a'' else CHR ''b'')), float_repr = (\<lambda>_. [])\<rparr>"

definition sample_transform :: "jobj \<Rightarrow> json result" where
  "sample_transform d = Ok (JObj (d @ [(''bin'', JStr ''B7'')]))"

definition sample_mutation :: planned_mutation where
  "sample_mutation =
     \<lparr>pm_request = \<lparr>mq_item_path = py_path ''/data/A1.json'', mq_archive_root = py_path ''/arch'', mq_sku = ''A1'', mq_kind = ''bin'',
        mq_expected = replicate 64 (CHR ''a''), mq_payload = JNull, mq_operation_id = None, mq_project_noop = False\<rparr>,
      pm_operation = replicate 64 (CHR ''b''), pm_document = [], pm_updated = [(''bin'', JStr ''B7'')]\<rparr>"

definition sample_store :: "nat item_store" where
  "sample_store = \<lparr>st_files = (\<lambda>_. Ok (JObj [])), st_archives = (\<lambda>_. None), st_ops = [], st_conflicts = [], st_catalog = 0\<rparr>"

definition sample_projection :: "nat projection" where
  "sample_projection sku d c = (Done JNull, Suc c)"

definition sample_crash :: "mutation_receipt run \<times> nat item_store \<times> faults" where
  "sample_crash = mutate_item sample_digest sample_transform sample_projection ''t'' (pm_request sample_mutation) sample_store
     [None, None, None, None, Some Dies]"

lemma sample_plan_ok: "plan_ok sample_digest sample_transform sample_mutation"
  by code_simp

lemma sample_untouched: "untouched sample_mutation sample_store"
  by (simp add: untouched_def sample_store_def op_of_def empty_op_def sample_mutation_def)

lemma sample_history: "(attempt sample_digest sample_transform sample_mutation)\<^sup>*\<^sup>* sample_store (fst (snd sample_crash))"
  by (rule r_into_rtranclp, rule attempt.call[where fl' = "snd (snd sample_crash)" and r = "fst sample_crash"])
    (simp add: sample_crash_def)

lemma sample_crashed:
  "st_files (fst (snd sample_crash)) (pm_path sample_mutation) = Ok (JObj (pm_updated sample_mutation))"
  "od_receipt (op_of (fst (snd sample_crash)) (pm_operation sample_mutation)) = None"
  by code_simp+

theorem mutation_applied_once_witness:
  "st_archives (fst (snd sample_crash)) (pm_member sample_mutation) = Some (JObj [])"
  using mutation_applied_once[OF sample_plan_ok sample_untouched sample_history] sample_crashed by (simp add: sample_mutation_def)

section \<open>Settled by one undisturbed call\<close>

text \<open>A projection that succeeds.\<close>

definition projects :: "'c projection \<Rightarrow> bool" where
  "projects pr \<longleftrightarrow> (\<forall>sku d c. \<exists>v c'. pr sku d c = (Done v, c') \<and> projection_ok v)"

lemma calm_simps [simp]:
  "durable f s [] = (Done (), f s, [])" "return_it x s fl = (Done x, s, fl)" "reading g s fl = g s s fl" "raise_it e s fl = (Raised e, s, fl)"
  by (simp_all add: durable_def return_it_def reading_def raise_it_def)

lemma calm_then:
  "a s [] = (Done x, s', []) \<Longrightarrow> and_then a k s [] = k x s' []"
  by (simp add: and_then_def)

lemma calm_project:
  assumes "projects pr"
  shows "\<exists>c. project_and_record pr sku d failed (write_receipt i r) s [] = (Done r, set_op i (\<lambda>d. d\<lparr>od_receipt := Some r\<rparr>) (s\<lparr>st_catalog := c\<rparr>), [])"
proof -
  obtain v c where "pr sku d (st_catalog s) = (Done v, c)" "projection_ok v" using assms unfolding projects_def by blast
  then show ?thesis
    by (intro exI[of _ c]) (simp add: project_and_record_def and_then_def catching_def projecting_def write_receipt_def)
qed

lemma calm_publish:
  assumes "pm_before lib m s" and "mi_binding intent = request_binding (pm_operation m) (pm_request m)"
  shows "\<exists>s'. publish_plan lib (pm_operation m) (pm_request m) intent gen (pm_updated m) s [] = (Done (), s', [])
    \<and> st_files s' (pm_path m) = Ok (JObj (pm_updated m))"
  using assms(1) unfolding pm_before_def
  by (auto simp: publish_plan_def and_then_def archive_once_def mark_archived_def mark_published_def split: option.splits)

lemma calm_call:
  assumes "plan_ok lib mutate m" and "journal_ok lib m s" and "unsettled m s" and "projects pr"
  shows "\<exists>r s'. mutate_item lib mutate pr now (pm_request m) s [] = (Done r, s', []) \<and> mr_status r = ''COMMITTED''
    \<and> od_receipt (op_of s' (pm_operation m)) = Some r \<and> st_files s' (pm_path m) = Ok (JObj (pm_updated m))"
proof -
  note ok = plan_okD[OF assms(1)]
  let ?i = "pm_operation m" and ?q = "pm_request m"
  let ?intent = "case od_intent (op_of s ?i) of Some x \<Rightarrow> x | None \<Rightarrow> \<lparr>mi_binding = request_binding ?i ?q, mi_recorded_at = now, mi_planned = None\<rparr>"
  have none: "od_receipt (op_of s ?i) = None" using assms(3) by (simp add: unsettled_def)
  have binding: "mi_binding ?intent = request_binding ?i ?q"
    using assms(2) by (auto simp: journal_ok_def pm_before_def pm_after_def planned_intent_def split: option.splits)
  have start: "mutate_item lib mutate pr now ?q s [] = mutate_locked lib mutate pr now ?i ?q s []"
    unfolding mutate_item_def Let_def ok(5,6) option.case by (simp add: and_then_def check_operation_def ok(4))
  consider "pm_before lib m s" | "pm_after lib m s" using assms(2) by (auto simp: journal_ok_def)
  then show ?thesis
  proof cases
    case 1
    let ?r = "request_receipt now ?i ?q ''COMMITTED'' (Some (doc_generation lib (pm_document m))) (Some (doc_generation lib (pm_updated m))) None True"
    obtain s1 where s1: "publish_plan lib ?i ?q ?intent (doc_generation lib (pm_document m)) (pm_updated m) s [] = (Done (), s1, [])"
      "st_files s1 (pm_path m) = Ok (JObj (pm_updated m))"
      using calm_publish[OF 1 binding] by blast
    have "mutate_locked lib mutate pr now ?i ?q s []
        = apply_change lib pr now ?i ?q ?intent (doc_generation lib (pm_document m)) (pm_updated m) s []"
      unfolding mutate_locked_def calm_simps none option.case Let_def binding phase_load(1)[OF 1] sum.case apply_mutation_def ok(2) json.case
        if_not_P[OF ok(3)] by (simp add: ok(1))
    also have "\<dots> = project_and_record pr (mq_sku ?q) (pm_updated m)
        (\<lambda>e. write_receipt ?i (request_receipt now ?i ?q ''REPAIR_REQUIRED'' (Some (doc_generation lib (pm_document m)))
           (Some (doc_generation lib (pm_updated m))) (Some (''projection failed: '' @ exc_line e)) True)) (write_receipt ?i ?r) s1 []"
      by (simp add: apply_change_def Let_def and_then_def catching_def s1)
    finally have run: "mutate_item lib mutate pr now ?q s [] = \<dots>" using start by simp
    obtain c where "project_and_record pr (mq_sku ?q) (pm_updated m)
        (\<lambda>e. write_receipt ?i (request_receipt now ?i ?q ''REPAIR_REQUIRED'' (Some (doc_generation lib (pm_document m)))
           (Some (doc_generation lib (pm_updated m))) (Some (''projection failed: '' @ exc_line e)) True)) (write_receipt ?i ?r) s1 []
        = (Done ?r, set_op ?i (\<lambda>d. d\<lparr>od_receipt := Some ?r\<rparr>) (s1\<lparr>st_catalog := c\<rparr>), [])"
      using calm_project[OF assms(4)] by blast
    with run s1(2) show ?thesis by (simp add: request_receipt_def)
  next
    case 2
    let ?r = "request_receipt now ?i ?q ''COMMITTED'' (Some (mq_expected ?q)) (Some (doc_generation lib (pm_updated m)))
      (Some ''recovered canonical write and completed projection'') True"
    have plan: "od_archive_marker (op_of s ?i) \<noteq> None" "map_option fst (mi_planned ?intent) = Some (doc_generation lib (pm_updated m))"
      using 2 by (auto simp: pm_after_def planned_intent_def)
    obtain s1 where s1: "(if od_publication (op_of s ?i) = None then mark_published ?i (doc_generation lib (pm_updated m)) else return_it ()) s []
        = (Done (), s1, [])" "st_files s1 (pm_path m) = Ok (JObj (pm_updated m))"
      using 2 by (cases "od_publication (op_of s ?i)") (auto simp: mark_published_def pm_after_def)
    have stale: "doc_generation lib (pm_updated m) \<noteq> mq_expected ?q" using ok(1,3) by simp
    have "mutate_locked lib mutate pr now ?i ?q s [] = recover_or_conflict lib pr now ?i ?q ?intent (pm_updated m) s []"
      unfolding mutate_locked_def calm_simps none option.case Let_def binding phase_load(2)[OF 2] sum.case using stale by simp
    also have "\<dots> = project_and_record pr (mq_sku ?q) (pm_updated m)
            (\<lambda>e. write_receipt ?i (request_receipt now ?i ?q ''REPAIR_REQUIRED'' (Some (mq_expected ?q)) (Some (doc_generation lib (pm_updated m)))
               (Some (''projection recovery failed: '' @ exc_line e)) True)) (write_receipt ?i ?r) s1 []"
      unfolding recover_or_conflict_def calm_simps Let_def if_P[OF conjI[OF plan]] calm_then[of "if od_publication (op_of s ?i) = None
           then mark_published ?i (doc_generation lib (pm_updated m)) else return_it ()" s "()" s1, OF s1(1)] ..
    finally have run: "mutate_item lib mutate pr now ?q s [] = \<dots>" using start by simp
    obtain c where "project_and_record pr (mq_sku ?q) (pm_updated m)
            (\<lambda>e. write_receipt ?i (request_receipt now ?i ?q ''REPAIR_REQUIRED'' (Some (mq_expected ?q)) (Some (doc_generation lib (pm_updated m)))
               (Some (''projection recovery failed: '' @ exc_line e)) True)) (write_receipt ?i ?r) s1 []
        = (Done ?r, set_op ?i (\<lambda>d. d\<lparr>od_receipt := Some ?r\<rparr>) (s1\<lparr>st_catalog := c\<rparr>), [])"
      using calm_project[OF assms(4)] by blast
    with run s1(2) show ?thesis by (simp add: request_receipt_def)
  qed
qed

text \<open>C23: after any history of attempts one undisturbed call settles the operation: it returns the recorded receipt, which
  after a history without a receipt reports the commit, and the file holds what the receipt says.\<close>

theorem mutation_settles:
  assumes "plan_ok lib mutate m" and "untouched m s0" and "(attempt lib mutate m)\<^sup>*\<^sup>* s0 s" and "projects pr"
  shows "\<exists>r s'. mutate_item lib mutate pr now (pm_request m) s [] = (Done r, s', []) \<and> od_receipt (op_of s' (pm_operation m)) = Some r
    \<and> (od_receipt (op_of s (pm_operation m)) = None \<longrightarrow> mr_status r = ''COMMITTED'')
    \<and> st_files s' (pm_path m) = Ok (JObj (if mr_status r = ''FAILED'' then pm_document m else pm_updated m))"
proof (cases "od_receipt (op_of s (pm_operation m))")
  case None
  then have "unsettled m s" by (simp add: unsettled_def)
  then show ?thesis using calm_call[OF assms(1) attempts_keep[OF assms(1,3,2)] _ assms(4)] by fastforce
next
  case (Some r)
  note ok = plan_okD[OF assms(1)]
  have "mutate_item lib mutate pr now (pm_request m) s [] = (Done r, s, [])"
    unfolding mutate_item_def Let_def ok(5,6) option.case by (simp add: and_then_def check_operation_def ok(4) mutate_locked_def Some)
  moreover have "st_files s (pm_path m) = Ok (JObj (if mr_status r = ''FAILED'' then pm_document m else pm_updated m))"
    using attempts_keep[OF assms(1,3,2)] Some by (auto simp: phase_defs failed_receipt_def published_receipt_def)
  ultimately show ?thesis using Some by auto
qed

lemma sample_projects: "projects sample_projection"
  by (simp add: projects_def sample_projection_def projection_ok_def)

theorem mutation_settles_witness:
  "\<exists>r s'. mutate_item sample_digest sample_transform sample_projection ''u'' (pm_request sample_mutation) (fst (snd sample_crash)) [] = (Done r, s', [])
    \<and> mr_status r = ''COMMITTED'' \<and> st_files s' (pm_path sample_mutation) = Ok (JObj [(''bin'', JStr ''B7'')])"
  using mutation_settles[OF sample_plan_ok sample_untouched sample_history sample_projects, of "''u''"] sample_crashed(2)
  by (auto simp: sample_mutation_def)

end
