(* ===== verification/Mutation_Receipts.thy ===== *)
theory Mutation_Receipts
  imports Mutation_Safety
begin

text \<open>
  What the receipts of the item mutation are worth: none is ever replaced, by whatever calls on the journal; one that reports a
  commit is true of the file and of the catalog when it is written; and an operation that died after its intent is found and
  finished by a fresh process without the transform.
\<close>

section \<open>Rules for what every step keeps\<close>

named_theorems kept

lemma kept_return [kept]: "keeps P P (return_it x)"
  by (rule sat_return)

lemma kept_raise [kept]: "keeps P P (raise_it e)"
  by (rule sat_raise)

lemma kept_reading [kept]: "(\<And>s0. P s0 \<Longrightarrow> keeps P P (f s0)) \<Longrightarrow> keeps P P (reading f)"
  by (rule sat_reading) (auto intro: sat_pre)

lemma kept_then [kept]: "keeps P P m \<Longrightarrow> (\<And>x. keeps P P (k x)) \<Longrightarrow> keeps P P (and_then m k)"
  by (rule sat_then)

lemma kept_catching [kept]: "keeps P P m \<Longrightarrow> (\<And>e. keeps P P (h e)) \<Longrightarrow> keeps P P (catching m h)"
  by (rule sat_catching)

lemma kept_durable [kept]: "(\<And>s. P s \<Longrightarrow> P (f s)) \<Longrightarrow> keeps P P (durable f)"
  by (rule sat_durable) simp

lemma kept_project [kept]:
  "(\<And>s c. P s \<Longrightarrow> P (s\<lparr>st_catalog := c\<rparr>)) \<Longrightarrow> (\<And>e. keeps P P (failed e)) \<Longrightarrow> keeps P P committed
    \<Longrightarrow> keeps P P (project_and_record pr sku d failed committed)"
  by (rule sat_project_and_record)

lemmas kept_splits = option.split sum.split prod.split json.split

section \<open>A receipt is final\<close>

definition receipted :: "string \<Rightarrow> mutation_receipt \<Rightarrow> 'c item_store \<Rightarrow> bool" where
  "receipted j r s = (od_receipt (op_of s j) = Some r)"

lemma receipted_simps [simp]:
  "receipted j r (s\<lparr>st_catalog := c\<rparr>) = receipted j r s" "receipted j r (s\<lparr>st_archives := x\<rparr>) = receipted j r s"
  "receipted j r (s\<lparr>st_conflicts := y\<rparr>) = receipted j r s" "receipted j r (set_file p v s) = receipted j r s"
  by (simp_all add: receipted_def)

lemma receipted_op: "i \<noteq> j \<Longrightarrow> receipted j r (set_op i f s) = receipted j r s"
  by (simp add: receipted_def)

lemma receipted_attempts [simp]: "receipted j r (set_op i (\<lambda>d. d\<lparr>od_attempts := g d\<rparr>) s) = receipted j r s"
  by (simp add: receipted_def)

abbreviation stays :: "string \<Rightarrow> mutation_receipt \<Rightarrow> ('a, 'c) disk \<Rightarrow> bool" where
  "stays j r x \<equiv> keeps (receipted j r) (receipted j r) x"

lemma stays_write_attempt [kept]: "stays j r (write_attempt i x)"
  unfolding write_attempt_def by (intro kept) simp

lemma stays_conflict [kept]: "stays j r (write_conflict k x)"
  unfolding write_conflict_def by (intro kept) simp

lemma stays_check [kept]: "stays j r (check_operation i)"
  by (rule keeps_check)

lemma stays_archive_once [kept]: "stays j r (archive_once arch p i)"
  unfolding archive_once_def by (rule kept_reading) (simp add: kept split: sum.split)

lemma stays_writes [kept]:
  assumes "i \<noteq> j"
  shows "stays j r (write_receipt i x)" "stays j r (mark_archived i g)" "stays j r (mark_published i g)"
  unfolding write_receipt_def mark_archived_def mark_published_def using assms by (intro kept; simp add: receipted_op)+

lemma stays_publication_failed [kept]:
  assumes "i \<noteq> j"
  shows "stays j r (publication_failed lib now i q observed resulting e)"
  unfolding publication_failed_def Let_def by (rule kept_reading) (simp add: kept assms)

lemma stays_publish_plan [kept]:
  assumes "i \<noteq> j"
  shows "stays j r (publish_plan lib i q intent observed updated)"
  unfolding publish_plan_def
  by (intro kept_then kept_reading kept_durable) (simp_all add: kept assms receipted_op)

lemma stays_apply [kept]:
  assumes "i \<noteq> j"
  shows "stays j r (apply_mutation lib mutate pr now i q intent document)"
proof -
  have noop: "stays j r (apply_noop pr now i q observed updated)" for observed updated
    unfolding apply_noop_def Let_def by (simp add: kept assms)
  have change: "stays j r (apply_change lib pr now i q intent observed updated)" for observed updated
    unfolding apply_change_def Let_def by (intro kept_then kept_catching) (simp_all add: kept assms split: option.split)
  show ?thesis
    unfolding apply_mutation_def Let_def by (simp add: noop change kept assms split: kept_splits)
qed

lemma stays_recover [kept]:
  assumes "i \<noteq> j"
  shows "stays j r (recover_or_conflict lib pr now i q intent document)"
  unfolding recover_or_conflict_def Let_def by (rule kept_reading) (simp add: kept assms)

lemma stays_mutate_locked [kept]: "stays j r (mutate_locked lib mutate pr now i q)"
  unfolding mutate_locked_def Let_def
proof (rule kept_reading)
  fix s0 :: "'a item_store"
  assume s0: "receipted j r s0"
  show "stays j r (case od_receipt (op_of s0 i) of Some r \<Rightarrow> return_it r | None \<Rightarrow>
      (if canonical lib (mutation_binding_json (mi_binding (case od_intent (op_of s0 i) of Some x \<Rightarrow> x
            | None \<Rightarrow> \<lparr>mi_binding = request_binding i q, mi_recorded_at = now, mi_planned = None\<rparr>)))
          \<noteq> canonical lib (mutation_binding_json (request_binding i q))
       then write_receipt i (request_receipt now i q ''CONFLICT'' None None (Some ''durable intent does not match request binding'') True)
       else (case load_document (mq_item_path q) s0 of
               Inl e \<Rightarrow> write_receipt i (request_receipt now i q ''FAILED'' None None (Some (''cannot load canonical item: '' @ exc_line e)) True)
             | Inr document \<Rightarrow>
                 (if doc_generation lib document \<noteq> mq_expected q
                  then recover_or_conflict lib pr now i q (case od_intent (op_of s0 i) of Some x \<Rightarrow> x
                    | None \<Rightarrow> \<lparr>mi_binding = request_binding i q, mi_recorded_at = now, mi_planned = None\<rparr>) document
                  else apply_mutation lib mutate pr now i q (case od_intent (op_of s0 i) of Some x \<Rightarrow> x
                    | None \<Rightarrow> \<lparr>mi_binding = request_binding i q, mi_recorded_at = now, mi_planned = None\<rparr>) document))))"
  proof (cases "od_receipt (op_of s0 i)")
    case None
    then have "i \<noteq> j" using s0 by (auto simp: receipted_def)
    then show ?thesis by (simp add: None kept split: sum.split)
  next
    case (Some x)
    then show ?thesis by (simp add: kept)
  qed
qed

lemma stays_mutate_item [kept]: "stays j r (mutate_item lib mutate pr now q)"
  unfolding mutate_item_def Let_def
  by (auto intro!: kept_reading kept_then kept_return stays_conflict stays_check stays_mutate_locked split: option.split)

lemma stays_resume [kept]: "stays j r (resume_plan lib pr now p arch i b gen planned)"
  unfolding resume_plan_def
proof (rule kept_reading)
  fix s0 :: "'a item_store"
  assume s0: "receipted j r s0"
  have finish: "i \<noteq> j \<Longrightarrow> stays j r (finish_plan pr now i b gen planned)"
    unfolding finish_plan_def by (simp add: kept)
  show "stays j r (case od_receipt (op_of s0 i) of Some r \<Rightarrow> return_it r
     | None \<Rightarrow>
         (case load_document p s0 of
            Inl e \<Rightarrow> write_receipt i (plan_receipt now i b ''CONFLICT'' None gen (''cannot verify unfinished canonical item: '' @ exc_line e))
          | Inr document \<Rightarrow>
              (let observed = doc_generation lib document in
               if od_publication (op_of s0 i) = None
               then (if observed = mb_expected_generation b
                     then and_then (if od_archive_marker (op_of s0 i) = None
                              then and_then (archive_once arch p i) (\<lambda>_. mark_archived i observed) else return_it ()) (\<lambda>_.
                          and_then (durable (set_file p (JObj planned))) (\<lambda>_.
                          and_then (mark_published i gen) (\<lambda>_. finish_plan pr now i b gen planned)))
                     else if observed = gen \<and> od_archive_marker (op_of s0 i) \<noteq> None
                     then and_then (mark_published i gen) (\<lambda>_. finish_plan pr now i b gen planned)
                     else write_receipt i (plan_receipt now i b ''CONFLICT'' (Some observed) gen
                            ''canonical generation advanced during unfinished reconciliation''))
               else if observed \<noteq> gen
               then write_receipt i (plan_receipt now i b ''CONFLICT'' (Some observed) gen
                      ''published generation no longer canonical during reconciliation'')
               else finish_plan pr now i b gen planned)))"
  proof (cases "od_receipt (op_of s0 i)")
    case None
    then have "i \<noteq> j" using s0 by (auto simp: receipted_def)
    note w = stays_writes[OF this] and f = finish[OF this]
    have "stays j r (and_then (mark_published i gen) (\<lambda>_. finish_plan pr now i b gen planned))" by (intro kept_then w f)
    moreover from this have "stays j r (and_then (if c then and_then (archive_once arch p i) (\<lambda>_. mark_archived i g) else return_it ()) (\<lambda>_.
        and_then (durable (set_file p (JObj planned))) (\<lambda>_. and_then (mark_published i gen) (\<lambda>_. finish_plan pr now i b gen planned))))" for c g
      by (intro kept_then kept_durable) (simp_all add: kept w f)
    ultimately show ?thesis unfolding None option.case Let_def using w(1) f by (simp only: split: sum.split if_split) blast
  next
    case (Some x)
    then show ?thesis by (simp add: kept)
  qed
qed

lemma stays_reconcile_unfinished [kept]: "stays j r (reconcile_unfinished lib pr now p arch i)"
  unfolding reconcile_unfinished_def Let_def
  by (auto intro!: kept_reading kept_then kept_raise stays_check stays_resume split: option.split)

lemma stays_reconcile_mutation [kept]: "stays j r (reconcile_mutation lib pr now p i)"
  unfolding reconcile_mutation_def Let_def
  by (auto intro!: kept_reading kept_then kept_raise kept_return stays_check stays_write_attempt kept_project split: option.split sum.split)

lemma stays_reconcile_each: "stays j r (reconcile_each lib now item_path_for archive_root_for project_for is)"
proof (induction "is")
  case Nil
  show ?case unfolding reconcile_each.simps by (rule kept_return)
next
  case (Cons i "is")
  show ?case
    unfolding reconcile_each.simps
    by (intro kept_then kept_reading Cons kept_return)
      (auto intro: stays_reconcile_mutation stays_reconcile_unfinished kept_raise split: option.split)
qed

lemma staysD: "stays j r m \<Longrightarrow> od_receipt (op_of s j) = Some r \<Longrightarrow> od_receipt (op_of (fst (snd (m s fl))) j) = Some r"
  using keepsD[where P = "receipted j r" and J = "receipted j r" and m = m and s = s and fl = fl and r = "fst (m s fl)"
    and s' = "fst (snd (m s fl))" and fl' = "snd (snd (m s fl))"]
  by (simp add: receipted_def)

text \<open>C22: a terminal receipt is immutable: no call on the journal, for whatever request, transform, projection, clock and faults,
  and no pass of the reconciliation, removes or replaces it.\<close>

theorem receipts_are_final:
  assumes "od_receipt (op_of s j) = Some r"
  shows "od_receipt (op_of (fst (snd (mutate_item lib mutate pr now q s fl))) j) = Some r
    \<and> od_receipt (op_of (fst (snd (reconcile_mutation lib pr now p i s fl))) j) = Some r
    \<and> od_receipt (op_of (fst (snd (reconcile_unfinished lib pr now p arch i s fl))) j) = Some r
    \<and> od_receipt (op_of (fst (snd (reconcile_pending_mutations lib now item_path_for archive_root_for project_for s fl))) j) = Some r"
proof -
  have "stays j r (reconcile_pending_mutations lib now item_path_for archive_root_for project_for)"
    unfolding reconcile_pending_mutations_def by (intro kept_reading stays_reconcile_each)
  then show ?thesis
    using assms by (intro conjI staysD stays_mutate_item stays_reconcile_mutation stays_reconcile_unfinished)
qed

section \<open>A reported commit is true\<close>

text \<open>The projection succeeded with the catalog as it is.\<close>

definition projected :: "'c projection \<Rightarrow> string \<Rightarrow> jobj \<Rightarrow> 'c item_store \<Rightarrow> bool" where
  "projected pr sku d s = (\<exists>v c. pr sku d c = (Done v, st_catalog s) \<and> projection_ok v)"

text \<open>The file holds a document of a generation.\<close>

definition file_is :: "pylib \<Rightarrow> path \<Rightarrow> string \<Rightarrow> 'c item_store \<Rightarrow> bool" where
  "file_is lib p g s = (\<exists>d. st_files s p = Ok (JObj d) \<and> doc_generation lib d = g)"

definition commit_true :: "pylib \<Rightarrow> 'c projection \<Rightarrow> mutation_request \<Rightarrow> mutation_receipt \<Rightarrow> 'c item_store \<Rightarrow> bool" where
  "commit_true lib pr q r s \<longleftrightarrow>
     (mr_status r = ''COMMITTED'' \<longrightarrow>
        (\<exists>d. mr_resulting_generation r = Some (doc_generation lib d) \<and> file_is lib (mq_item_path q) (doc_generation lib d) s
           \<and> (mr_changed r \<or> mq_project_noop q \<longrightarrow> projected pr (mq_sku q) d s)))"

lemma projected_op [simp]: "projected pr sku d (set_op i f s) = projected pr sku d s"
  by (simp add: projected_def)

lemma file_is_simps [simp]:
  "file_is lib p g (set_op i f s) = file_is lib p g s" "file_is lib p g (s\<lparr>st_catalog := c\<rparr>) = file_is lib p g s"
  "file_is lib p g (s\<lparr>st_archives := x\<rparr>) = file_is lib p g s" "file_is lib p g (set_file p (JObj d) s) = (doc_generation lib d = g)"
  by (auto simp: file_is_def)

abbreviation anyway :: "'a \<Rightarrow> 'b \<Rightarrow> bool" where
  "anyway \<equiv> \<lambda>_ _. True"

lemma sat_write_receipt_any:
  assumes "\<And>s. P s \<Longrightarrow> Q r (set_op i (\<lambda>d. d\<lparr>od_receipt := Some r\<rparr>) s)"
  shows "sat P (write_receipt i r) Q anyway (\<lambda>_. True)"
  unfolding write_receipt_def by (rule sat_then[where R = "\<lambda>_. Q r"]; intro sat_durable sat_return) (use assms in simp_all)

lemma true_unless_committed:
  "mr_status r \<noteq> ''COMMITTED'' \<Longrightarrow> sat P (write_receipt i r) (commit_true lib pr q) anyway (\<lambda>_. True)"
  by (rule sat_write_receipt_any) (simp add: commit_true_def)

lemma sat_projected:
  fixes pr :: "'c projection"
  assumes "\<And>e. mr_status (f e) \<noteq> ''COMMITTED''" and "mr_resulting_generation r = Some (doc_generation lib d)"
  shows "sat (file_is lib (mq_item_path q) (doc_generation lib d)) (project_and_record pr (mq_sku q) d (\<lambda>e. write_receipt i (f e)) (write_receipt i r))
    (commit_true lib pr q) anyway (\<lambda>_. True)"
  unfolding project_and_record_def
proof (rule sat_then[where R = "\<lambda>x s. case x of None \<Rightarrow> file_is lib (mq_item_path q) (doc_generation lib d) s \<and> projected pr (mq_sku q) d s | Some e \<Rightarrow> True"])
  have "sat (file_is lib (mq_item_path q) (doc_generation lib d)) (projecting pr (mq_sku q) d)
      (\<lambda>_ s. file_is lib (mq_item_path q) (doc_generation lib d) s \<and> projected pr (mq_sku q) d s) anyway (\<lambda>_. True)"
    unfolding sat_def projecting_def by (auto simp: projected_def split: prod.splits run.splits)
  then show "sat (file_is lib (mq_item_path q) (doc_generation lib d))
      (catching (and_then (projecting pr (mq_sku q) d) (\<lambda>_. return_it None)) (\<lambda>e. return_it (Some e)))
      (\<lambda>x s. case x of None \<Rightarrow> file_is lib (mq_item_path q) (doc_generation lib d) s \<and> projected pr (mq_sku q) d s | Some e \<Rightarrow> True) anyway (\<lambda>_. True)"
    by (intro sat_catching[where R = anyway] sat_then[where R = "\<lambda>_ s. file_is lib (mq_item_path q) (doc_generation lib d) s \<and> projected pr (mq_sku q) d s"] sat_return)
      simp_all
next
  fix x :: "py_error option"
  show "sat (\<lambda>s. case x of None \<Rightarrow> file_is lib (mq_item_path q) (doc_generation lib d) s \<and> projected pr (mq_sku q) d s | Some e \<Rightarrow> True)
      (case x of None \<Rightarrow> write_receipt i r | Some e \<Rightarrow> write_receipt i (f e)) (commit_true lib pr q) anyway (\<lambda>_. True)"
    using assms by (cases x) (auto intro: true_unless_committed intro!: sat_write_receipt_any simp: commit_true_def file_is_def)
qed

lemma request_status [simp]:
  "mr_status (request_receipt now i q st obs res det ch) = st" "mr_resulting_generation (request_receipt now i q st obs res det ch) = res"
  "mr_changed (request_receipt now i q st obs res det ch) = ch"
  by (simp_all add: request_receipt_def)

abbreviation truthful :: "pylib \<Rightarrow> 'c projection \<Rightarrow> mutation_request \<Rightarrow> ('c item_store \<Rightarrow> bool) \<Rightarrow> (mutation_receipt, 'c) disk \<Rightarrow> bool" where
  "truthful lib pr q P x \<equiv> sat P x (commit_true lib pr q) anyway (\<lambda>_. True)"

lemma sat_weak: "sat P m Q E J \<Longrightarrow> sat P m Q anyway (\<lambda>_. True)"
  by (erule sat_post) simp_all

lemma truthful_publication_failed: "truthful lib pr q P (publication_failed lib now i q observed resulting e)"
  unfolding publication_failed_def Let_def by (rule sat_reading) (simp add: true_unless_committed)

lemma truthful_noop:
  assumes "doc_generation lib d = observed"
  shows "truthful lib pr q (file_is lib (mq_item_path q) (doc_generation lib d)) (apply_noop pr now i q observed d)"
proof (cases "mq_project_noop q")
  case True
  then show ?thesis unfolding apply_noop_def Let_def assms[symmetric] by (simp only: if_True) (rule sat_projected; simp)
next
  case False
  then show ?thesis
    unfolding apply_noop_def Let_def assms[symmetric] by (auto simp: commit_true_def intro!: sat_write_receipt_any)
qed

lemma sat_publish_file:
  "sat (\<lambda>_. True) (publish_plan lib i q intent observed d) (\<lambda>_. file_is lib (mq_item_path q) (doc_generation lib d)) anyway (\<lambda>_. True)"
proof -
  have any: "sat (\<lambda>_. True) x anyway anyway (\<lambda>_. True)" for x :: "(unit, 'a) disk"
    by (auto simp: sat_def split: prod.splits run.splits)
  have "sat (file_is lib (mq_item_path q) (doc_generation lib d)) (mark_published i g) (\<lambda>_. file_is lib (mq_item_path q) (doc_generation lib d)) anyway (\<lambda>_. True)" for g
    unfolding mark_published_def by (rule sat_durable) simp
  then show ?thesis
    unfolding publish_plan_def
    by (intro sat_then[where R = anyway, OF any] sat_then[where R = "\<lambda>_. file_is lib (mq_item_path q) (doc_generation lib d)"] sat_durable) simp_all
qed

lemma truthful_change: "truthful lib pr q (\<lambda>_. True) (apply_change lib pr now i q intent observed d)"
proof -
  let ?R = "\<lambda>x s. case x of None \<Rightarrow> file_is lib (mq_item_path q) (doc_generation lib d) s | Some r \<Rightarrow> commit_true lib pr q r s"
  have "sat (\<lambda>_. True) (and_then (publish_plan lib i q intent observed d) (\<lambda>_. return_it None)) ?R anyway (\<lambda>_. True)"
    by (rule sat_then[OF sat_publish_file]) (simp add: sat_return)
  moreover have "sat (\<lambda>_. True) (and_then (publication_failed lib now i q observed (Some (doc_generation lib d)) e) (\<lambda>r. return_it (Some r)))
      ?R anyway (\<lambda>_. True)" for e
    by (rule sat_then[OF truthful_publication_failed[where pr = pr]]) (simp add: sat_return)
  moreover have "sat (?R x) (case x of Some r \<Rightarrow> return_it r
      | None \<Rightarrow> project_and_record pr (mq_sku q) d
          (\<lambda>e. write_receipt i (request_receipt now i q ''REPAIR_REQUIRED'' (Some observed) (Some (doc_generation lib d)) (Some (''projection failed: '' @ exc_line e)) True))
          (write_receipt i (request_receipt now i q ''COMMITTED'' (Some observed) (Some (doc_generation lib d)) None True)))
      (commit_true lib pr q) anyway (\<lambda>_. True)" for x
    by (cases x) (auto intro!: sat_return sat_projected)
  ultimately show ?thesis
    unfolding apply_change_def Let_def by (rule sat_then[OF sat_catching[where R = anyway]])
qed

lemma truthful_apply:
  "truthful lib pr q (file_is lib (mq_item_path q) (doc_generation lib document)) (apply_mutation lib mutate pr now i q intent document)"
proof -
  let ?P = "file_is lib (mq_item_path q) (doc_generation lib document)"
  have noop: "truthful lib pr q ?P (catching (apply_noop pr now i q (doc_generation lib document) u)
      (publication_failed lib now i q (doc_generation lib document) (Some (doc_generation lib document))))"
    if "doc_generation lib u = doc_generation lib document" for u
    by (rule sat_catching[OF truthful_noop[OF that, unfolded that] truthful_publication_failed])
  have change: "truthful lib pr q ?P (apply_change lib pr now i q intent (doc_generation lib document) u)" for u
    by (rule sat_pre[OF truthful_change]) simp
  show ?thesis
    unfolding apply_mutation_def Let_def
    by (simp add: noop change truthful_publication_failed split: kept_splits)
qed

lemma truthful_recover:
  "truthful lib pr q (file_is lib (mq_item_path q) (doc_generation lib d)) (recover_or_conflict lib pr now i q intent d)"
proof -
  let ?P = "file_is lib (mq_item_path q) (doc_generation lib d)"
  have mark: "sat ?P (if c then mark_published i g else return_it ()) (\<lambda>_. ?P) anyway (\<lambda>_. True)" for c g
    by (auto simp: mark_published_def intro!: sat_durable sat_return)
  have run: "truthful lib pr q ?P (and_then (if c then mark_published i g else return_it ()) (\<lambda>_.
      project_and_record pr (mq_sku q) d (\<lambda>e. write_receipt i (f e)) (write_receipt i r)))"
    if "\<And>e. mr_status (f e) \<noteq> ''COMMITTED''" "mr_resulting_generation r = Some (doc_generation lib d)" for c g f r
    by (rule sat_then[OF mark sat_projected[OF that]])
  show ?thesis
    unfolding recover_or_conflict_def Let_def
    by (rule sat_reading, split if_split, intro conjI impI, rule sat_pre[OF run]) (simp_all add: true_unless_committed)
qed

lemma satD: "sat P m Q E J \<Longrightarrow> P s \<Longrightarrow> m s fl = (Done r, s', fl') \<Longrightarrow> Q r s'"
  unfolding sat_def by (drule spec[of _ s], drule spec[of _ fl]) simp

lemma truthful_mutate_locked:
  "truthful lib pr q (\<lambda>s. od_receipt (op_of s i) = None) (mutate_locked lib mutate pr now i q)"
  unfolding mutate_locked_def Let_def
proof (rule sat_reading)
  fix s0 :: "'a item_store"
  assume none: "od_receipt (op_of s0 i) = None"
  have run: "truthful lib pr q (\<lambda>s. s = s0)
      (if doc_generation lib d \<noteq> mq_expected q then recover_or_conflict lib pr now i q x d else apply_mutation lib mutate pr now i q x d)"
    if "load_document (mq_item_path q) s0 = Ok d" for x d
  proof -
    from that have "file_is lib (mq_item_path q) (doc_generation lib d) s0"
      by (auto simp: load_document_def file_is_def split: sum.splits json.splits)
    then show ?thesis by (auto intro: sat_pre[OF truthful_recover] sat_pre[OF truthful_apply])
  qed
  show "truthful lib pr q (\<lambda>s. s = s0) (case od_receipt (op_of s0 i) of Some r \<Rightarrow> return_it r | None \<Rightarrow>
      (if canonical lib (mutation_binding_json (mi_binding (case od_intent (op_of s0 i) of Some x \<Rightarrow> x
            | None \<Rightarrow> \<lparr>mi_binding = request_binding i q, mi_recorded_at = now, mi_planned = None\<rparr>)))
          \<noteq> canonical lib (mutation_binding_json (request_binding i q))
       then write_receipt i (request_receipt now i q ''CONFLICT'' None None (Some ''durable intent does not match request binding'') True)
       else (case load_document (mq_item_path q) s0 of
               Inl e \<Rightarrow> write_receipt i (request_receipt now i q ''FAILED'' None None (Some (''cannot load canonical item: '' @ exc_line e)) True)
             | Inr document \<Rightarrow>
                 (if doc_generation lib document \<noteq> mq_expected q
                  then recover_or_conflict lib pr now i q (case od_intent (op_of s0 i) of Some x \<Rightarrow> x
                    | None \<Rightarrow> \<lparr>mi_binding = request_binding i q, mi_recorded_at = now, mi_planned = None\<rparr>) document
                  else apply_mutation lib mutate pr now i q (case od_intent (op_of s0 i) of Some x \<Rightarrow> x
                    | None \<Rightarrow> \<lparr>mi_binding = request_binding i q, mi_recorded_at = now, mi_planned = None\<rparr>) document))))"
    unfolding none option.case
    using run by (auto intro!: true_unless_committed simp del: not_None_eq split: sum.split)
qed

text \<open>C20: a receipt that reports a commit is true when it is written: the canonical file then holds a document of the resulting
  generation, and unless the document did not change and no verification was asked for, the projection of that document into
  the catalog has succeeded and is the catalog's state. This is for any transform, projection, faults and earlier history of
  a request that has no receipt yet.\<close>

theorem committed_receipt_is_true:
  assumes "mq_operation_id q \<in> {None, Some (request_identity lib q)}" and "od_receipt (op_of s (request_identity lib q)) = None"
    and "mutate_item lib mutate pr now q s fl = (Done r, s', fl')" and "mr_status r = ''COMMITTED''"
  shows "\<exists>d u. st_files s' (mq_item_path q) = Ok (JObj d) \<and> doc_generation lib d = doc_generation lib u
    \<and> mr_resulting_generation r = Some (doc_generation lib u)
    \<and> (mr_changed r \<or> mq_project_noop q \<longrightarrow> (\<exists>v c. pr (mq_sku q) u c = (Done v, st_catalog s') \<and> projection_ok v))"
proof -
  have "truthful lib pr q (\<lambda>s. od_receipt (op_of s (request_identity lib q)) = None) (mutate_item lib mutate pr now q)"
    using assms(1) sat_then[OF sat_weak[OF keeps_check] truthful_mutate_locked]
    by (cases "mq_operation_id q") (auto simp: mutate_item_def Let_def)
  from satD[OF this assms(2,3)] have "commit_true lib pr q r s'" .
  then show ?thesis using assms(4) by (auto simp: commit_true_def file_is_def projected_def)
qed

section \<open>A fresh process\<close>

text \<open>The receipt of a completed reconciliation, and its store.\<close>

definition recovered :: "planned_mutation \<Rightarrow> mutation_receipt run \<times> 'c item_store \<times> faults \<Rightarrow> bool" where
  "recovered m x \<longleftrightarrow>
     (\<exists>r s'. x = (Done r, s', []) \<and> mr_status r = ''COMMITTED'' \<and> od_receipt (op_of s' (pm_operation m)) = Some r
        \<and> st_files s' (pm_path m) = Ok (JObj (pm_updated m)))"

lemma calm_finish:
  assumes "projects pr" and "st_files s (pm_path m) = Ok (JObj (pm_updated m))"
  shows "recovered m (finish_plan pr now (pm_operation m) b gen d s [])"
proof -
  let ?r = "plan_receipt now (pm_operation m) b ''COMMITTED'' (Some (mb_expected_generation b)) gen ''fresh process completed unfinished operation''"
  obtain c where "finish_plan pr now (pm_operation m) b gen d s []
      = (Done ?r, set_op (pm_operation m) (\<lambda>d. d\<lparr>od_receipt := Some ?r\<rparr>) (s\<lparr>st_catalog := c\<rparr>), [])"
    unfolding finish_plan_def using calm_project[OF assms(1)] by blast
  then show ?thesis using assms(2) unfolding recovered_def by (simp add: plan_receipt_def)
qed

lemma calm_mark_finish:
  assumes "projects pr" and "st_files s (pm_path m) = Ok (JObj (pm_updated m))"
  shows "recovered m (and_then (mark_published i g) (\<lambda>_. finish_plan pr now (pm_operation m) b gen d) s [])"
  by (simp add: and_then_def mark_published_def calm_finish assms)

lemma calm_archive:
  assumes "pm_before lib m s"
  shows "\<exists>s1. (if od_archive_marker (op_of s (pm_operation m)) = None
     then and_then (archive_once (mq_archive_root (pm_request m)) (pm_path m) (pm_operation m)) (\<lambda>_. mark_archived (pm_operation m) g)
     else return_it ()) s [] = (Done (), s1, [])"
  using assms by (auto simp: pm_before_def archive_once_def and_then_def mark_archived_def)

lemma calm_resume:
  assumes "plan_ok lib mutate m" and "journal_ok lib m s" and "unsettled m s" and "projects pr"
  shows "recovered m (resume_plan lib pr now (pm_path m) (mq_archive_root (pm_request m)) (pm_operation m)
    (request_binding (pm_operation m) (pm_request m)) (doc_generation lib (pm_updated m)) (pm_updated m) s [])"
proof -
  note ok = plan_okD[OF assms(1)]
  let ?i = "pm_operation m" and ?b = "request_binding (pm_operation m) (pm_request m)" and ?gen = "doc_generation lib (pm_updated m)"
  have none: "od_receipt (op_of s ?i) = None" using assms(3) by (simp add: unsettled_def)
  have expected: "mb_expected_generation ?b = doc_generation lib (pm_document m)" by (simp add: request_binding_def ok(1))
  consider "pm_before lib m s" | "pm_after lib m s" using assms(2) by (auto simp: journal_ok_def)
  then show ?thesis
  proof cases
    case 1
    let ?a = "if od_archive_marker (op_of s ?i) = None
      then and_then (archive_once (mq_archive_root (pm_request m)) (pm_path m) ?i) (\<lambda>_. mark_archived ?i (doc_generation lib (pm_document m)))
      else return_it ()"
    obtain s1 where s1: "?a s [] = (Done (), s1, [])" using calm_archive[OF 1] by blast
    have "od_publication (op_of s ?i) = None" using 1 by (simp add: pm_before_def)
    then have "resume_plan lib pr now (pm_path m) (mq_archive_root (pm_request m)) ?i ?b ?gen (pm_updated m) s []
        = and_then ?a (\<lambda>_. and_then (durable (set_file (pm_path m) (JObj (pm_updated m)))) (\<lambda>_. and_then (mark_published ?i ?gen)
            (\<lambda>_. finish_plan pr now ?i ?b ?gen (pm_updated m)))) s []"
      unfolding resume_plan_def calm_simps none option.case phase_load(1)[OF 1] sum.case Let_def expected by simp
    also have "\<dots> = and_then (mark_published ?i ?gen) (\<lambda>_. finish_plan pr now ?i ?b ?gen (pm_updated m)) (set_file (pm_path m) (JObj (pm_updated m)) s1) []"
      unfolding calm_then[of ?a s "()" s1, OF s1] by (simp add: calm_then[of "durable f" for f])
    finally show ?thesis using calm_mark_finish[OF assms(4)] by simp
  next
    case 2
    then have s2: "od_archive_marker (op_of s ?i) \<noteq> None" "st_files s (pm_path m) = Ok (JObj (pm_updated m))" by (simp_all add: pm_after_def)
    have "resume_plan lib pr now (pm_path m) (mq_archive_root (pm_request m)) ?i ?b ?gen (pm_updated m) s []
        = (if od_publication (op_of s ?i) = None then and_then (mark_published ?i ?gen) (\<lambda>_. finish_plan pr now ?i ?b ?gen (pm_updated m))
           else finish_plan pr now ?i ?b ?gen (pm_updated m)) s []"
      unfolding resume_plan_def calm_simps none option.case phase_load(2)[OF 2] sum.case Let_def expected using ok(3) s2(1) by simp
    then show ?thesis using calm_mark_finish[OF assms(4) s2(2)] calm_finish[OF assms(4) s2(2)] by simp
  qed
qed

lemma discover_unfinished:
  assumes "hex64 i" and "od_intent (op_of s i) \<noteq> None" and "od_receipt (op_of s i) = None"
  shows "i \<in> set (discover_repair_operations s)"
proof -
  from assms(2) obtain d where d: "map_of (st_ops s) i = Some d" "op_of s i = d"
    by (cases "map_of (st_ops s) i") (auto simp: op_of_def empty_op_def)
  then have "(i, d) \<in> set (st_ops s)" by (simp add: map_of_SomeD)
  then have "(i, d) \<in> set (filter (\<lambda>x. unfinished x \<or> needs_repair x) (st_ops s))" using assms d(2) by (simp add: unfinished_def)
  then show ?thesis by (force simp: discover_repair_operations_def)
qed

text \<open>C21: an operation that died after its intent and has no receipt is discovered, and a fresh process with a projection that
  succeeds finishes it from the journal alone: without the transform it brings the file to the planned document and records
  the commit, wherever between two writes the earlier processes died.\<close>

theorem fresh_process_recovers:
  assumes "plan_ok lib mutate m" and "untouched m s0" and "(attempt lib mutate m)\<^sup>*\<^sup>* s0 s"
    and "od_intent (op_of s (pm_operation m)) \<noteq> None" and "od_receipt (op_of s (pm_operation m)) = None" and "projects pr"
  shows "pm_operation m \<in> set (discover_repair_operations s)
    \<and> (\<exists>r s'. reconcile_unfinished lib pr now (pm_path m) (mq_archive_root (pm_request m)) (pm_operation m) s [] = (Done r, s', [])
        \<and> mr_status r = ''COMMITTED'' \<and> od_receipt (op_of s' (pm_operation m)) = Some r
        \<and> st_files s' (pm_path m) = Ok (JObj (pm_updated m)))"
proof (intro conjI)
  note ok = plan_okD[OF assms(1)]
  show "pm_operation m \<in> set (discover_repair_operations s)" using discover_unfinished[OF ok(4) assms(4,5)] .
  have journal: "journal_ok lib m s" by (rule attempts_keep[OF assms(1,3,2)])
  then obtain x where x: "od_intent (op_of s (pm_operation m)) = Some x" "mi_binding x = request_binding (pm_operation m) (pm_request m)"
    "mi_planned x = Some (doc_generation lib (pm_updated m), pm_updated m)"
    using assms(4) by (auto simp: journal_ok_def pm_before_def pm_after_def planned_intent_def)
  have identity: "operation_identity lib (mb_sku (request_binding (pm_operation m) (pm_request m))) (mb_kind (request_binding (pm_operation m) (pm_request m)))
      (mb_expected_generation (request_binding (pm_operation m) (pm_request m))) (mb_payload (request_binding (pm_operation m) (pm_request m))) = pm_operation m"
    using ok(5) by (simp add: request_binding_def request_identity_def)
  have "reconcile_unfinished lib pr now (pm_path m) (mq_archive_root (pm_request m)) (pm_operation m) s []
      = resume_plan lib pr now (pm_path m) (mq_archive_root (pm_request m)) (pm_operation m) (request_binding (pm_operation m) (pm_request m))
          (doc_generation lib (pm_updated m)) (pm_updated m) s []"
    by (simp add: reconcile_unfinished_def and_then_def check_operation_def ok(4) x Let_def identity)
  then show "\<exists>r s'. reconcile_unfinished lib pr now (pm_path m) (mq_archive_root (pm_request m)) (pm_operation m) s [] = (Done r, s', [])
        \<and> mr_status r = ''COMMITTED'' \<and> od_receipt (op_of s' (pm_operation m)) = Some r
        \<and> st_files s' (pm_path m) = Ok (JObj (pm_updated m))"
    using calm_resume[OF assms(1) journal _ assms(6), of now] assms(5) by (simp add: recovered_def unsettled_def)
qed

text \<open>A transform that fails while the file cannot be read again is recorded as published: the generation read and the one
  that was never computed are both absent.\<close>

lemma unreadable_failure_reported_published:
  assumes "load_document (mq_item_path q) s = Err x"
  shows "\<exists>r s'. publication_failed lib now i q observed None e s [] = (Done r, s', []) \<and> mr_status r = ''REPAIR_REQUIRED''
    \<and> mr_resulting_generation r = None"
  using assms by (simp add: publication_failed_def write_receipt_def and_then_def)

section \<open>Instances\<close>

text \<open>The sample mutation run without a fault.\<close>

definition sample_receipt :: mutation_receipt where
  "sample_receipt = request_receipt ''t'' (pm_operation sample_mutation) (pm_request sample_mutation) ''COMMITTED''
     (Some (replicate 64 (CHR ''a''))) (Some (replicate 64 (CHR ''b''))) None True"

definition sample_settled :: "nat item_store" where
  "sample_settled = fst (snd (mutate_item sample_digest sample_transform sample_projection ''t'' (pm_request sample_mutation) sample_store []))"

lemma sample_run:
  "mutate_item sample_digest sample_transform sample_projection ''t'' (pm_request sample_mutation) sample_store [] = (Done sample_receipt, sample_settled, [])"
proof -
  let ?x = "mutate_item sample_digest sample_transform sample_projection ''t'' (pm_request sample_mutation) sample_store []"
  have "fst ?x = Done sample_receipt" "snd (snd ?x) = []" by code_simp+
  then show ?thesis by (simp add: sample_settled_def prod_eq_iff)
qed

lemma sample_settled_receipt: "od_receipt (op_of sample_settled (pm_operation sample_mutation)) = Some sample_receipt"
  by code_simp

theorem receipts_are_final_witness:
  "od_receipt (op_of (fst (snd (mutate_item sample_digest (\<lambda>_. Err (ValueError [])) sample_projection ''v'' (pm_request sample_mutation)
     sample_settled [Some Dies]))) (pm_operation sample_mutation)) = Some sample_receipt"
  using receipts_are_final[OF sample_settled_receipt] by blast

theorem committed_receipt_is_true_witness:
  "\<exists>d u. st_files sample_settled (py_path ''/data/A1.json'') = Ok (JObj d) \<and> doc_generation sample_digest d = doc_generation sample_digest u
    \<and> (\<exists>v c. sample_projection ''A1'' u c = (Done v, st_catalog sample_settled) \<and> projection_ok v)"
proof -
  have "mq_operation_id (pm_request sample_mutation) = None" "mq_item_path (pm_request sample_mutation) = py_path ''/data/A1.json''"
    "mq_sku (pm_request sample_mutation) = ''A1''" "mr_status sample_receipt = ''COMMITTED''" "mr_changed sample_receipt"
    by (simp_all add: sample_mutation_def sample_receipt_def)
  then show ?thesis
    using committed_receipt_is_true[OF _ _ sample_run] by (auto simp: op_of_def sample_store_def empty_op_def)
qed

lemma sample_crashed_intent: "od_intent (op_of (fst (snd sample_crash)) (pm_operation sample_mutation)) \<noteq> None"
  by code_simp

theorem fresh_process_recovers_witness:
  "replicate 64 (CHR ''b'') \<in> set (discover_repair_operations (fst (snd sample_crash)))"
  using fresh_process_recovers[OF sample_plan_ok sample_untouched sample_history sample_crashed_intent sample_crashed(2) sample_projects]
  by (simp add: sample_mutation_def)

end
