(* ===== verification/Withdrawal.thy ===== *)
theory Withdrawal
  imports Goal_Requests Item_Mutation
begin

text \<open>
  The synchronous withdrawal of \<^verbatim>\<open>workflow/listing_migration.py\<close>: the item is evaluated, an authority issued, the effect admitted to
  the ledger, the provider called, the effect finished, and the document marked as ended in a journalled mutation. The answer of
  the provider is an argument, and so is what other transactions do to the ledger between the steps; every call that
  reaches the provider is logged. The item lock is held from the admission on, so nothing else writes the document.
\<close>

section \<open>The request\<close>

definition WITHDRAWAL_EVALUATOR_VERSION :: string where
  "WITHDRAWAL_EVALUATOR_VERSION = ''operator-listing-withdrawal/v1''"

text \<open>\<^verbatim>\<open>str(value or "").strip()\<close>\<close>

definition stripped_text :: "pylib \<Rightarrow> (json \<Rightarrow> string) \<Rightarrow> json \<Rightarrow> string" where
  "stripped_text lib cs v = py_strip (if truthy v then py_str lib cs v else [])"

text \<open>The messages of \<^verbatim>\<open>_require_provider_target_environment\<close> leave out the two quoted values.\<close>

definition require_target_environment :: "jobj \<Rightarrow> string \<Rightarrow> string \<Rightarrow> unit result" where
  "require_target_environment block environment name =
     (if jget block ''ebay_environment'' = JNull
      then (if environment = ''production'' then Ok () else Err (ValueError (''untagged legacy '' @ name @ '' target is production-only'')))
      else if jget block ''ebay_environment'' \<noteq> JStr environment
      then Err (ValueError (name @ '' target environment does not match selected eBay environment'')) else Ok ())"

definition offer_target :: "pylib \<Rightarrow> (json \<Rightarrow> string) \<Rightarrow> jobj \<Rightarrow> string" where
  "offer_target lib cs item = stripped_text lib cs (jget (dict_or_empty (jget item ''ebay_offer'')) ''offer_id'')"

definition listing_target :: "pylib \<Rightarrow> (json \<Rightarrow> string) \<Rightarrow> jobj \<Rightarrow> string" where
  "listing_target lib cs item = stripped_text lib cs (jget (dict_or_empty (jget item ''ebay_listing'')) ''listing_id'')"

text \<open>What is fixed before the item lock is taken.\<close>

record withdrawal_plan =
  wp_offer_id :: string
  wp_listing_id :: string
  wp_marketplace :: string
  wp_environment :: string
  wp_endpoint :: string
  wp_binding :: authority_binding
  wp_graph :: runtime_work_graph
  wp_authority_id :: string
  wp_created :: bool

definition wp_operation :: "withdrawal_plan \<Rightarrow> string" where
  "wp_operation w = (if wp_offer_id w \<noteq> [] then ''withdraw-offer'' else ''end-fixed-price-item'')"

definition wp_request :: "withdrawal_plan \<Rightarrow> jobj" where
  "wp_request w =
     [(''offer_id'', JStr (wp_offer_id w)), (''listing_id'', JStr (wp_listing_id w)), (''marketplace_id'', JStr (wp_marketplace w)),
      (''ebay_environment'', JStr (wp_environment w)), (''endpoint'', JStr (wp_endpoint w))]"

definition withdrawal_effect :: "withdrawal_plan \<Rightarrow> effect_binding" where
  "withdrawal_effect w =
     \<lparr>eb_provider = ''ebay'', eb_operation = wp_operation w, eb_entity_type = ''item'', eb_entity_id = ab_entity_id (wp_binding w),
      eb_object_generation = ab_object_generation (wp_binding w), eb_graph_id = graph_id (wp_graph w),
      eb_treatment_id = tr_identity EBAY_WITHDRAW, eb_treatment_version = tr_version EBAY_WITHDRAW,
      eb_condition_hash = condition_hash (wp_graph w), eb_request = wp_request w\<rparr>"

text \<open>The configured environment, the endpoints and the account bound to it.\<close>

definition withdrawal_account :: "jobj \<Rightarrow> operator_command \<Rightarrow> (string \<times> (string \<times> string) list \<times> string) result" where
  "withdrawal_account cfg c =
     (if \<not> non_blank (oc_provider_identity c) then Err (ValueError ''provider identity is required'')
      else bind_result (configured_ebay_environment cfg) (\<lambda>env.
           bind_result (ebay_environment_settings (JStr env)) (\<lambda>settings.
           bind_result (bind_ebay_provider_identity (JStr (oc_provider_identity c)) (JStr env)) (\<lambda>provider.
             if \<not> (30 \<le> oc_ttl_seconds c \<and> oc_ttl_seconds c \<le> 900)
             then Err (ValueError ''authority TTL must be between 30 and 900 seconds'') else Ok (env, settings, provider)))))"

definition check_targets :: "pylib \<Rightarrow> (json \<Rightarrow> string) \<Rightarrow> string \<Rightarrow> jobj \<Rightarrow> unit result" where
  "check_targets lib cs env item =
     (let offer = dict_or_empty (jget item ''ebay_offer''); listing = dict_or_empty (jget item ''ebay_listing'')
      in if offer_target lib cs item = [] \<and> listing_target lib cs item = []
         then Err (ValueError ''no provider offer or listing is bound to this item'')
         else bind_result (if offer_target lib cs item \<noteq> [] then require_target_environment offer env ''ebay_offer'' else Ok ()) (\<lambda>_.
              if listing_target lib cs item \<noteq> [] then require_target_environment listing env ''ebay_listing'' else Ok ()))"

text \<open>Up to the authority request: the document, its targets, and a graph that waits for a withdrawal.\<close>

definition withdrawal_request ::
  "pylib \<Rightarrow> (json \<Rightarrow> string) \<Rightarrow> (nat \<Rightarrow> item_files) \<Rightarrow> path \<Rightarrow> operator_command \<Rightarrow> time \<Rightarrow> string \<Rightarrow> string \<Rightarrow> (jobj \<times> authority_request) result" where
  "withdrawal_request lib cs fs p c now env provider =
     bind_result (bound_item_document lib (fs 0) p (oc_document c) (oc_expected_generation c)) (\<lambda>item.
     bind_result (check_targets lib cs env item) (\<lambda>_.
     bind_result (build_item_snapshot lib cs (fs 1) p TGW_EBAY_WITHDRAWN WITHDRAW_TREATMENTS no_inputs) (\<lambda>base.
       let g = evaluate lib base TGW_EBAY_WITHDRAWN WITHDRAW_TREATMENTS WITHDRAWAL_EVALUATOR_VERSION []
       in if \<not> list_ex (\<lambda>d. treatment_id d = tr_identity EBAY_WITHDRAW) (waiting_treatments g)
          then Err (ValueError ''the evaluator does not observe an active listing to end'')
          else bind_result (require_current_generation lib (fs 2) p (generation base)) (\<lambda>_.
            Ok (item,
              \<lparr>rq_operator = oc_operator_identity c, rq_surface = oc_surface c,
               rq_binding = authority_binding_for lib base TGW_EBAY_WITHDRAWN g item provider, rq_scopes = [''withdraw''],
               rq_issued_at = Aware now, rq_expires_at = Aware (now + of_int (oc_ttl_seconds c))\<rparr>)))))"

text \<open>The graph under the authority offers exactly the withdrawal.\<close>

definition withdrawal_graph :: "pylib \<Rightarrow> (json \<Rightarrow> string) \<Rightarrow> item_files \<Rightarrow> path \<Rightarrow> string \<Rightarrow> runtime_work_graph result" where
  "withdrawal_graph lib cs fs p aid =
     bind_result (build_item_snapshot lib cs fs p TGW_EBAY_WITHDRAWN WITHDRAW_TREATMENTS
         (no_inputs\<lparr>authorized_scopes := [''withdraw''], authority_identity := aid\<rparr>)) (\<lambda>snap.
       let g = evaluate lib snap TGW_EBAY_WITHDRAWN WITHDRAW_TREATMENTS WITHDRAWAL_EVALUATOR_VERSION []
       in if length (filter (\<lambda>d. treatment_id d = tr_identity EBAY_WITHDRAW \<and> treatment_version d = tr_version EBAY_WITHDRAW)
                (eligible_treatments g)) \<noteq> 1 \<or> ownership_conflicts g \<noteq> [] \<or> reconciliation_gates g \<noteq> []
          then Err (RuntimeError ''withdrawal is not the one exact legal provider treatment'') else Ok g)"

definition plan_withdrawal ::
  "pylib \<Rightarrow> (json \<Rightarrow> string) \<Rightarrow> (nat \<Rightarrow> item_files) \<Rightarrow> path \<Rightarrow> jobj \<Rightarrow> operator_command \<Rightarrow> command_clock \<Rightarrow> (nat \<Rightarrow> ledger \<Rightarrow> ledger) \<Rightarrow> ledger \<Rightarrow>
   withdrawal_plan result \<times> ledger" where
  "plan_withdrawal lib cs fs p cfg c clock other l =
     (case withdrawal_account cfg c of
        Inl e \<Rightarrow> (Err e, l)
      | Inr (env, settings, provider) \<Rightarrow>
          (case withdrawal_request lib cs fs p c (cc_now clock) env provider of
             Inl e \<Rightarrow> (Err e, l)
           | Inr (item, rq) \<Rightarrow>
               (case issue_or_reuse_authority (cc_db_now clock) (cc_authority_id clock) rq l of
                  Inl e \<Rightarrow> (Err e, l)
                | Inr ((aid, created), l1) \<Rightarrow>
                    (case validate_authority (Some aid) (rq_binding rq) ''withdraw'' (\<lambda>i. get_authority i (other 0 l1)) of
                       Inl e \<Rightarrow> (Err e, other 0 l1)
                     | Inr (None, detail) \<Rightarrow> (Err (RuntimeError (''withdrawal authority is invalid: '' @ detail)), other 0 l1)
                     | Inr (Some _, _) \<Rightarrow>
                         (map_sum id (\<lambda>g.
                            \<lparr>wp_offer_id = offer_target lib cs item, wp_listing_id = listing_target lib cs item,
                             wp_marketplace = (if truthy (jget item ''marketplace_id'') then py_str lib cs (jget item ''marketplace_id'') else []),
                             wp_environment = env,
                             wp_endpoint = the (map_of settings (if offer_target lib cs item \<noteq> [] then ''rest_api_root'' else ''trading_api_endpoint'')),
                             wp_binding = rq_binding rq, wp_graph = g, wp_authority_id = aid, wp_created = created\<rparr>)
                            (withdrawal_graph lib cs (fs 3) p aid), other 0 l1)))))"

section \<open>Admission\<close>

datatype withdrawal_admission =
    Admission_failed py_error
  | Already_withdrawn provider_effect string
  | Call_provider provider_effect

text \<open>The document must still be the evaluated one, with the same targets, when the effect is admitted.\<close>

definition recheck_document :: "pylib \<Rightarrow> (json \<Rightarrow> string) \<Rightarrow> (path \<Rightarrow> json result) \<Rightarrow> path \<Rightarrow> withdrawal_plan \<Rightarrow> unit result" where
  "recheck_document lib cs files p w =
     bind_result (require_current_generation lib \<lparr>read_json = files, iterdir = (\<lambda>_. [])\<rparr> p (ab_object_generation (wp_binding w))) (\<lambda>item.
       if offer_target lib cs item \<noteq> wp_offer_id w \<or> listing_target lib cs item \<noteq> wp_listing_id w
       then Err (ValueError ''withdrawal provider target changed before effect admission'') else Ok ())"

fun admission_error :: "py_error \<Rightarrow> py_error" where
  "admission_error (ProviderEffectConflict m) = RuntimeError (''withdrawal provider effect admission failed: '' @ m)"
| "admission_error (ProviderEffectReconciliationRequired m) = RuntimeError (''withdrawal '' @ m)"
| "admission_error e = e"

definition evidence_matches :: "withdrawal_plan \<Rightarrow> jobj \<Rightarrow> bool" where
  "evidence_matches w res \<longleftrightarrow>
     jget res ''offer_id'' = JStr (wp_offer_id w) \<and> jget res ''listing_id'' = JStr (wp_listing_id w)
     \<and> jget res ''ebay_environment'' = JStr (wp_environment w) \<and> jget res ''endpoint'' = JStr (wp_endpoint w)"

definition classify_admission :: "pylib \<Rightarrow> (json \<Rightarrow> string) \<Rightarrow> withdrawal_plan \<Rightarrow> provider_effect \<Rightarrow> withdrawal_admission" where
  "classify_admission lib cs w rec =
     (case (pe_state rec, pe_result rec) of
        (Eff_succeeded, Some res) \<Rightarrow>
          (if \<not> evidence_matches w res then Admission_failed (RuntimeError ''succeeded withdrawal effect provider evidence mismatch'')
           else if stripped_text lib cs (jget res ''ended_at'') = []
           then Admission_failed (RuntimeError ''succeeded withdrawal effect lacks projection timestamp'')
           else Already_withdrawn rec (stripped_text lib cs (jget res ''ended_at'')))
      | (Eff_rejected, _) \<Rightarrow> Admission_failed (RuntimeError ''the provider previously rejected this exact withdrawal'')
      | _ \<Rightarrow> Call_provider rec)"

definition admit_withdrawal ::
  "pylib \<Rightarrow> (json \<Rightarrow> string) \<Rightarrow> (time \<Rightarrow> string) \<Rightarrow> time \<Rightarrow> (path \<Rightarrow> json result) \<Rightarrow> path \<Rightarrow> withdrawal_plan \<Rightarrow> ledger \<Rightarrow> withdrawal_admission \<times> ledger" where
  "admit_withdrawal lib cs isofmt now files p w l =
     (case recheck_document lib cs files p w of
        Inl e \<Rightarrow> (Admission_failed e, l)
      | Inr _ \<Rightarrow>
          (case reserve_and_begin_authorized_effect lib isofmt now (wp_authority_id w) ''withdraw'' (wp_binding w) (withdrawal_effect w) l of
             Inl e \<Rightarrow> (Admission_failed (admission_error e), l)
           | Inr (rec, l') \<Rightarrow> (classify_admission lib cs w rec, l')))"

section \<open>The call\<close>

datatype provider_call = Withdraw_offer string | End_item string string

text \<open>What became of the call: an answer, an HTTP error with its status and text, another exception, or the death of the process.\<close>

datatype provider_outcome = Answered json | Http_error int string | Call_raised py_error | Call_died

definition withdrawal_call :: "withdrawal_plan \<Rightarrow> provider_call" where
  "withdrawal_call w = (if wp_offer_id w \<noteq> [] then Withdraw_offer (wp_offer_id w) else End_item (wp_listing_id w) (wp_marketplace w))"

definition withdrawal_result :: "withdrawal_plan \<Rightarrow> string \<Rightarrow> json \<Rightarrow> jobj" where
  "withdrawal_result w ended v =
     [(''offer_id'', JStr (wp_offer_id w)), (''listing_id'', JStr (wp_listing_id w)), (''ended_at'', JStr ended),
      (''ebay_environment'', JStr (wp_environment w)), (''endpoint'', JStr (wp_endpoint w)), (''provider_response'', JObj (dict_or_empty v))]"

datatype 'a withdrawal_end =
    Withdrawn 'a
  | Withdrawal_failed py_error
  | Projection_held string mutation_receipt
  | Withdrawal_died

definition retained :: "string \<Rightarrow> provider_effect result \<Rightarrow> provider_effect withdrawal_end" where
  "retained what r =
     (case r of
        Inl e \<Rightarrow> Withdrawal_failed e
      | Inr rec \<Rightarrow> Withdrawal_failed (RuntimeError (what @ ''; effect '' @ pe_effect_id rec @ '' retained'')))"

definition finish_call ::
  "time \<Rightarrow> string \<Rightarrow> withdrawal_plan \<Rightarrow> provider_outcome \<Rightarrow> provider_effect \<Rightarrow> ledger \<Rightarrow> provider_effect withdrawal_end \<times> ledger" where
  "finish_call now ended w oc rec l =
     (let finish = (\<lambda>st res err. case finish_provider_effect now (pe_effect_id rec) st res err l of
                      Inl e \<Rightarrow> (Err e, l) | Inr (rec', l') \<Rightarrow> (Ok rec', l'))
      in case oc of
           Answered v \<Rightarrow>
             (case finish ''succeeded'' (Some (withdrawal_result w ended v)) [] of
                (Inl e, l') \<Rightarrow> (Withdrawal_failed e, l')
              | (Inr rec', l') \<Rightarrow> (Withdrawn rec', l'))
         | Http_error status text \<Rightarrow>
             (let terminal = (status \<in> {400, 404, 409, 422})
              in map_prod (retained (''provider withdrawal '' @ (if terminal then ''rejected'' else ''is ambiguous''))) id
                   (finish (if terminal then ''rejected'' else ''ambiguous'') None (''HTTP '' @ show_int status @ '': '' @ text)))
         | Call_raised e \<Rightarrow> map_prod (retained ''provider withdrawal outcome is ambiguous'') id (finish ''ambiguous'' None (exc_line e))
         | Call_died \<Rightarrow> (Withdrawal_died, l))"

section \<open>Projection\<close>

text \<open>A block that is neither an object nor false raises; Python's \<^verbatim>\<open>dict\<close> raises another class, and would take a list of pairs.\<close>

definition record_withdrawal ::
  "pylib \<Rightarrow> (json \<Rightarrow> string) \<Rightarrow> path \<Rightarrow> string \<Rightarrow> string \<Rightarrow> string \<Rightarrow> jobj \<Rightarrow> json result" where
  "record_withdrawal lib cs p sku eid ended document =
     (let name = (if truthy (jget document ''sku'') then py_str lib cs (jget document ''sku'') else path_stem (path_name p))
      in if name \<noteq> sku then Err (ValueError ''authoritative document SKU mismatch'')
         else bind_result (or_dict (jget document ''ebay_listing'')) (\<lambda>listing.
              bind_result (or_dict (jget document ''ebay_offer'')) (\<lambda>offer.
                let listing' = AList.update ''provider_effect_id'' (JStr eid) (AList.update ''ended_at'' (JStr ended)
                      (AList.update ''listing_status'' (JStr ''ENDED'') (AList.update ''status'' (JStr ''Ended'') listing)));
                    offer' = AList.update ''status'' (JStr ''UNPUBLISHED'') offer
                in Ok (JObj (AList.delete ''catalog_verified''
                     (AList.update ''ebay_offer'' (JObj offer') (AList.update ''ebay_listing'' (JObj listing') document)))))))"

text \<open>The archive root of a configuration with paths as strings.\<close>

definition archive_root_of :: "jobj \<Rightarrow> path \<Rightarrow> path" where
  "archive_root_of cfg p =
     (let configured = (\<lambda>k d. case jget cfg k of JStr s \<Rightarrow> py_path s | _ \<Rightarrow> d);
          itemdata = configured ''itemdata_root'' (path_parent (path_parent p));
          data = configured ''data_root'' (path_parent itemdata)
      in configured ''archive_root'' (path_join data (py_path ''ItemArchive'')))"

definition projection_request :: "jobj \<Rightarrow> path \<Rightarrow> withdrawal_plan \<Rightarrow> string \<Rightarrow> string \<Rightarrow> mutation_request" where
  "projection_request cfg p w eid ended =
     \<lparr>mq_item_path = p, mq_archive_root = archive_root_of cfg p, mq_sku = ab_entity_id (wp_binding w),
      mq_kind = ''operator-command:end-listing-projection'', mq_expected = ab_object_generation (wp_binding w),
      mq_payload = JObj [(''provider_effect_id'', JStr eid), (''ended_at'', JStr ended), (''offer_id'', JStr (wp_offer_id w)),
        (''listing_id'', JStr (wp_listing_id w))],
      mq_operation_id = None, mq_project_noop = False\<rparr>"

definition project_withdrawal ::
  "pylib \<Rightarrow> (json \<Rightarrow> string) \<Rightarrow> 'c projection \<Rightarrow> string \<Rightarrow> jobj \<Rightarrow> path \<Rightarrow> withdrawal_plan \<Rightarrow> provider_effect \<Rightarrow> string \<Rightarrow>
   'c item_store \<Rightarrow> faults \<Rightarrow> mutation_receipt withdrawal_end \<times> 'c item_store \<times> faults" where
  "project_withdrawal lib cs pr now cfg p w rec ended s fl =
     (case mutate_item lib (record_withdrawal lib cs p (ab_entity_id (wp_binding w)) (pe_effect_id rec) ended) pr now
             (projection_request cfg p w (pe_effect_id rec) ended) s fl of
        (Done r, s', fl') \<Rightarrow> (if mr_status r \<noteq> ''COMMITTED'' then Projection_held (pe_effect_id rec) r else Withdrawn r, s', fl')
      | (Raised e, s', fl') \<Rightarrow> (Withdrawal_failed e, s', fl')
      | (Died, s', fl') \<Rightarrow> (Withdrawal_died, s', fl'))"

section \<open>The command\<close>

text \<open>The clocks inside the lock and the answer of the provider.\<close>

record withdrawal_moment =
  wm_reserve :: time
  wm_finish :: time
  wm_ended :: string
  wm_recorded :: string
  wm_outcome :: provider_outcome

definition withdrawal_locked ::
  "pylib \<Rightarrow> (json \<Rightarrow> string) \<Rightarrow> (time \<Rightarrow> string) \<Rightarrow> 'c projection \<Rightarrow> jobj \<Rightarrow> path \<Rightarrow> withdrawal_moment \<Rightarrow> (nat \<Rightarrow> ledger \<Rightarrow> ledger) \<Rightarrow> withdrawal_plan \<Rightarrow>
   ledger \<Rightarrow> 'c item_store \<Rightarrow> faults \<Rightarrow>
   (provider_effect \<times> mutation_receipt) withdrawal_end \<times> provider_call list \<times> ledger \<times> 'c item_store \<times> faults" where
  "withdrawal_locked lib cs isofmt pr cfg p m other w l s fl =
     (let project = (\<lambda>rec ended calls l'. case project_withdrawal lib cs pr (wm_recorded m) cfg p w rec ended s fl of
            (Withdrawn r, s', fl') \<Rightarrow> (Withdrawn (rec, r), calls, l', s', fl')
          | (Withdrawal_failed e, s', fl') \<Rightarrow> (Withdrawal_failed e, calls, l', s', fl')
          | (Projection_held i r, s', fl') \<Rightarrow> (Projection_held i r, calls, l', s', fl')
          | (Withdrawal_died, s', fl') \<Rightarrow> (Withdrawal_died, calls, l', s', fl'))
      in case admit_withdrawal lib cs isofmt (wm_reserve m) (st_files s) p w l of
           (Admission_failed e, l') \<Rightarrow> (Withdrawal_failed e, [], l', s, fl)
         | (Already_withdrawn rec ended, l') \<Rightarrow> project rec ended [] l'
         | (Call_provider rec, l') \<Rightarrow>
             (case finish_call (wm_finish m) (wm_ended m) w (wm_outcome m) rec (other 2 l') of
                (Withdrawn rec', l'') \<Rightarrow> project rec' (wm_ended m) [withdrawal_call w] l''
              | (Withdrawal_failed e, l'') \<Rightarrow> (Withdrawal_failed e, [withdrawal_call w], l'', s, fl)
              | (Projection_held i r, l'') \<Rightarrow> (Projection_held i r, [withdrawal_call w], l'', s, fl)
              | (Withdrawal_died, l'') \<Rightarrow> (Withdrawal_died, [withdrawal_call w], l'', s, fl)))"

definition authorize_and_execute_end_listing ::
  "pylib \<Rightarrow> (json \<Rightarrow> string) \<Rightarrow> (time \<Rightarrow> string) \<Rightarrow> 'c projection \<Rightarrow> (nat \<Rightarrow> item_files) \<Rightarrow> jobj \<Rightarrow> path \<Rightarrow> operator_command \<Rightarrow> command_clock \<Rightarrow>
   withdrawal_moment \<Rightarrow> (nat \<Rightarrow> ledger \<Rightarrow> ledger) \<Rightarrow> ledger \<Rightarrow> 'c item_store \<Rightarrow> faults \<Rightarrow>
   (runtime_work_graph \<times> provider_effect \<times> string \<times> bool \<times> mutation_receipt) withdrawal_end
     \<times> provider_call list \<times> ledger \<times> 'c item_store \<times> faults" where
  "authorize_and_execute_end_listing lib cs isofmt pr fs cfg p c clock m other l s fl =
     (case plan_withdrawal lib cs fs p cfg c clock other l of
        (Inl e, l') \<Rightarrow> (Withdrawal_failed e, [], l', s, fl)
      | (Inr w, l') \<Rightarrow>
          (case withdrawal_locked lib cs isofmt pr cfg p m other w (other 1 l') s fl of
             (Withdrawn (rec, r), calls, rest) \<Rightarrow> (Withdrawn (wp_graph w, rec, wp_authority_id w, wp_created w, r), calls, rest)
           | (Withdrawal_failed e, calls, rest) \<Rightarrow> (Withdrawal_failed e, calls, rest)
           | (Projection_held i r, calls, rest) \<Rightarrow> (Projection_held i r, calls, rest)
           | (Withdrawal_died, calls, rest) \<Rightarrow> (Withdrawal_died, calls, rest)))"

end
