(* ===== verification/Withdrawal_Safety.thy ===== *)
theory Withdrawal_Safety
  imports Withdrawal Ledger_Steps
begin

text \<open>
  What the withdrawal does to the provider and to the document: a call is admitted under the operator's authority for the
  document as it is in that moment; for one generation of the document the provider is asked at most once, whatever it answers
  and wherever the process dies; and the document is marked as ended only by an effect that succeeded.
\<close>

section \<open>The admission\<close>

lemma reserve_states:
  assumes "reserve_and_begin_authorized_effect lib isofmt now aid scope ab b l = Ok (rec, l')"
  shows "pe_state rec = Eff_dispatched
    \<or> (\<exists>row\<in>set (effects l). generation_effect b l = Some row \<and> unresolved_effect b l = None \<and> l' = l \<and> rec = effect_record row
        \<and> er_state row \<in> {Eff_succeeded, Eff_rejected} \<and> effect_scope (er_binding row) = effect_scope b
        \<and> eb_object_generation (er_binding row) = eb_object_generation b)"
  using assms
proof (cases rule: reserve_and_begin_cases)
  case (reserved row r authority a)
  then show ?thesis using effect_update_row[OF reserved(6)] by (auto simp: dispatch_row_def)
next
  case (replayed row)
  then have "row \<in> set (effects l) \<and> effect_scope (er_binding row) = effect_scope b
      \<and> eb_object_generation (er_binding row) = eb_object_generation b"
    unfolding generation_effect_def find_Some_iff by force
  then show ?thesis using replayed by blast
next
  case (inserted r authority a)
  then show ?thesis using effect_insert_OkD[OF inserted(5)] by simp
qed

lemma recheck_OkD:
  assumes "recheck_document lib cs files p w = Ok ()"
  shows "\<exists>item. files p = Ok (JObj item) \<and> item_generation lib item = ab_object_generation (wp_binding w)
    \<and> offer_target lib cs item = wp_offer_id w \<and> listing_target lib cs item = wp_listing_id w"
proof -
  from assms obtain item where item: "require_current_generation lib \<lparr>read_json = files, iterdir = (\<lambda>_. [])\<rparr> p (ab_object_generation (wp_binding w)) = Ok item"
    and t: "offer_target lib cs item = wp_offer_id w" "listing_target lib cs item = wp_listing_id w"
    by (auto simp: recheck_document_def split: if_splits)
  from item have "files p = Ok (JObj item) \<and> item_generation lib item = ab_object_generation (wp_binding w)"
    by (cases "files p"; cases "projr (files p)") (auto simp: require_current_generation_def bound_item_document_def split: if_splits)
  then show ?thesis using t by blast
qed

lemma admit_callD:
  assumes "admit_withdrawal lib cs isofmt now files p w l = (Call_provider rec, l')"
  shows "recheck_document lib cs files p w = Ok ()"
    and "reserve_and_begin_authorized_effect lib isofmt now (wp_authority_id w) ''withdraw'' (wp_binding w) (withdrawal_effect w) l = Ok (rec, l')"
    and "pe_state rec = Eff_dispatched \<or> pe_state rec = Eff_succeeded \<and> pe_result rec = None"
proof -
  show r: "recheck_document lib cs files p w = Ok ()"
    and s: "reserve_and_begin_authorized_effect lib isofmt now (wp_authority_id w) ''withdraw'' (wp_binding w) (withdrawal_effect w) l = Ok (rec, l')"
    using assms by (auto simp: admit_withdrawal_def classify_admission_def split: sum.splits effect_state.splits option.splits if_splits)
  have "classify_admission lib cs w rec = Call_provider rec" using assms by (simp add: admit_withdrawal_def r s)
  then show "pe_state rec = Eff_dispatched \<or> pe_state rec = Eff_succeeded \<and> pe_result rec = None"
    using reserve_states[OF s]
    by (cases "pe_result rec") (auto simp: classify_admission_def split: if_splits)
qed

lemma locked_callD:
  assumes "withdrawal_locked lib cs isofmt pr cfg p m other w l s fl = (end', calls, l', s', fl')" and "calls \<noteq> []"
  shows "\<exists>rec l1. admit_withdrawal lib cs isofmt (wm_reserve m) (st_files s) p w l = (Call_provider rec, l1)
    \<and> l' = snd (finish_call (wm_finish m) (wm_ended m) w (wm_outcome m) rec (other 2 l1)) \<and> calls = [withdrawal_call w]"
  using assms unfolding withdrawal_locked_def Let_def
  by (auto split: prod.splits withdrawal_admission.splits withdrawal_end.splits)

lemma reserve_authority:
  assumes "reserve_and_begin_authorized_effect lib isofmt now aid scope ab b l = Ok (rec, l')" and "pe_state rec = Eff_dispatched"
  shows "\<exists>a. get_authority aid l = Ok (Some a) \<and> superseded_at a = None \<and> binding_of a = ab \<and> scope \<in> set (scopes a)"
  using assms(1)
proof (cases rule: reserve_and_begin_cases)
  case (reserved row r authority a)
  then show ?thesis using locked_authority_OkD[OF reserved(5)] by auto
next
  case (replayed row)
  then show ?thesis using assms(2) by auto
next
  case (inserted r authority a)
  then show ?thesis using locked_authority_OkD[OF inserted(4)] by auto
qed

lemma plan_OkD:
  assumes "plan_withdrawal lib cs fs p cfg c clock other l = (Ok w, l0)"
  shows "\<exists>settings. configured_ebay_environment cfg = Ok (wp_environment w) \<and> ebay_environment_settings (JStr (wp_environment w)) = Ok settings
    \<and> bind_ebay_provider_identity (JStr (oc_provider_identity c)) (JStr (wp_environment w)) = Ok (ab_provider_identity (wp_binding w))
    \<and> wp_endpoint w = the (map_of settings (if wp_offer_id w \<noteq> [] then ''rest_api_root'' else ''trading_api_endpoint''))
    \<and> ab_goal_profile_id (wp_binding w) = ''tgw.ebay_withdrawn'' \<and> (\<exists>l1. l0 = other 0 l1 \<and> ledger_step l l1)"
proof -
  obtain env settings provider where acc: "withdrawal_account cfg c = Ok (env, settings, provider)"
    using assms unfolding plan_withdrawal_def by (cases "withdrawal_account cfg c") auto
  note s1 = assms[unfolded plan_withdrawal_def acc sum.case prod.case]
  obtain item rq where rq: "withdrawal_request lib cs fs p c (cc_now clock) env provider = Ok (item, rq)"
    using s1 by (cases "withdrawal_request lib cs fs p c (cc_now clock) env provider") auto
  note s2 = s1[unfolded rq sum.case prod.case]
  obtain aid created l1 where issued: "issue_or_reuse_authority (cc_db_now clock) (cc_authority_id clock) rq l = Ok ((aid, created), l1)"
    using s2 by (cases "issue_or_reuse_authority (cc_db_now clock) (cc_authority_id clock) rq l") auto
  note s3 = s2[unfolded issued sum.case prod.case]
  obtain a detail where v: "validate_authority (Some aid) (rq_binding rq) ''withdraw'' (\<lambda>i. get_authority i (other 0 l1)) = Ok (Some a, detail)"
    using s3 by (auto split: sum.splits option.splits)
  obtain g where g: "withdrawal_graph lib cs (fs 3) p aid = Ok g"
    using s3[unfolded v sum.case prod.case option.case] by (cases "withdrawal_graph lib cs (fs 3) p aid") auto
  note w = s3[unfolded v sum.case prod.case option.case g]
  have env: "configured_ebay_environment cfg = Ok env" "ebay_environment_settings (JStr env) = Ok settings"
    "bind_ebay_provider_identity (JStr (oc_provider_identity c)) (JStr env) = Ok provider"
    using acc by (auto simp: withdrawal_account_def split: if_splits)
  have binding: "ab_provider_identity (rq_binding rq) = provider" "ab_goal_profile_id (rq_binding rq) = ''tgw.ebay_withdrawn''"
    using rq by (auto simp: withdrawal_request_def Let_def authority_binding_for_def TGW_EBAY_WITHDRAWN_def split: if_splits)
  have "ledger_step l l1" using issued by (rule ledger_step.issue_or_reuse)
  then show ?thesis using w env binding by auto
qed

text \<open>C30: the withdrawal lets at most one request out, and only for the document as it is at that moment: the file has the
  generation the authority was issued for and the same targets, the request goes to the endpoint of the configured environment
  for the account bound to it, and the ledger has the standing authority with that exact binding and the scope of withdrawal, and the
  effect as dispatched. The one exception is an effect that the ledger has as succeeded with an empty result.\<close>

theorem withdrawal_call_is_admitted:
  assumes "authorize_and_execute_end_listing lib cs isofmt pr fs cfg p c clock m other l s fl = (e, calls, l', s', fl')" and "calls \<noteq> []"
    and "ledger_ok l" and "\<forall>n m. ledger_step\<^sup>*\<^sup>* m (other n m)"
  shows "\<exists>w item rec l1 settings. calls = [withdrawal_call w]
    \<and> st_files s p = Ok (JObj item) \<and> item_generation lib item = ab_object_generation (wp_binding w)
    \<and> offer_target lib cs item = wp_offer_id w \<and> listing_target lib cs item = wp_listing_id w
    \<and> configured_ebay_environment cfg = Ok (wp_environment w) \<and> ebay_environment_settings (JStr (wp_environment w)) = Ok settings
    \<and> wp_endpoint w = the (map_of settings (if wp_offer_id w \<noteq> [] then ''rest_api_root'' else ''trading_api_endpoint''))
    \<and> bind_ebay_provider_identity (JStr (oc_provider_identity c)) (JStr (wp_environment w)) = Ok (ab_provider_identity (wp_binding w))
    \<and> (pe_state rec = Eff_dispatched
         \<and> (\<exists>row. effect_by_id (pe_effect_id rec) l1 = Some row \<and> rec = effect_record row
              \<and> effect_scope (er_binding row) = effect_scope (withdrawal_effect w))
         \<and> (\<exists>a. get_authority (wp_authority_id w) l1 = Ok (Some a) \<and> superseded_at a = None \<and> binding_of a = wp_binding w
              \<and> ''withdraw'' \<in> set (scopes a))
       \<or> pe_state rec = Eff_succeeded \<and> pe_result rec = None)"
proof -
  obtain w l0 where plan: "plan_withdrawal lib cs fs p cfg c clock other l = (Ok w, l0)"
  proof -
    obtain x y where xy: "plan_withdrawal lib cs fs p cfg c clock other l = (x, y)" by (cases "plan_withdrawal lib cs fs p cfg c clock other l")
    show thesis using assms(1,2) that xy by (cases x) (auto simp: authorize_and_execute_end_listing_def)
  qed
  obtain e1 calls1 l1' s1 fl1 where locked: "withdrawal_locked lib cs isofmt pr cfg p m other w (other 1 l0) s fl = (e1, calls1, l1', s1, fl1)"
    by (metis prod_cases5)
  have "calls1 = calls"
    using assms(1) unfolding authorize_and_execute_end_listing_def plan by (auto simp: locked[unfolded One_nat_def] split: withdrawal_end.splits)
  then obtain rec l1 where admit: "admit_withdrawal lib cs isofmt (wm_reserve m) (st_files s) p w (other 1 l0) = (Call_provider rec, l1)"
    and c: "calls = [withdrawal_call w]" using locked_callD[OF locked] assms(2) by blast
  note a = admit_callD[OF admit]
  note plan' = plan_OkD[OF plan]
  obtain l2 where l2: "l0 = other 0 l2" "ledger_step l l2" using plan' by blast
  have ok: "ledger_ok (other 1 l0)"
  proof (rule effects.sound_steps[OF _ assms(3)])
    have "ledger_step\<^sup>*\<^sup>* l l0" using l2 assms(4) by (metis converse_rtranclp_into_rtranclp)
    then show "ledger_step\<^sup>*\<^sup>* l (other 1 l0)" using assms(4) by (metis rtranclp_trans)
  qed
  have "authorities l1 = authorities (other 1 l0)" using authorities_authorized[OF a(2)] .
  then have same: "get_authority i l1 = get_authority i (other 1 l0)" for i by (simp only: get_authority_def authority_row_def)
  have state: "pe_state rec = Eff_dispatched
         \<and> (\<exists>row. effect_by_id (pe_effect_id rec) l1 = Some row \<and> rec = effect_record row
              \<and> effect_scope (er_binding row) = effect_scope (withdrawal_effect w))
         \<and> (\<exists>a. get_authority (wp_authority_id w) l1 = Ok (Some a) \<and> superseded_at a = None \<and> binding_of a = wp_binding w
              \<and> ''withdraw'' \<in> set (scopes a))
       \<or> pe_state rec = Eff_succeeded \<and> pe_result rec = None"
    using a(3) dispatched_row[OF ok a(2)] reserve_authority[OF a(2)] unfolding same by blast
  show ?thesis using plan' recheck_OkD[OF a(1)] c state by blast
qed

section \<open>Asked once\<close>

text \<open>No effect for the operation on the item is merely reserved, which withdrawals never leave, and none succeeded without a result.\<close>

definition scope_clean :: "effect_binding \<Rightarrow> ledger \<Rightarrow> bool" where
  "scope_clean b l =
     list_all (\<lambda>r. effect_scope (er_binding r) = effect_scope b \<longrightarrow>
       er_state r \<noteq> Eff_reserved \<and> (er_state r = Eff_succeeded \<longrightarrow> pe_result (effect_record r) \<noteq> None)) (effects l)"

lemma clean_reserve:
  assumes "scope_clean b l" and "reserve_and_begin_authorized_effect lib isofmt now aid scope ab b l = Ok (rec, l')"
    and "pe_state rec = Eff_dispatched \<or> pe_state rec = Eff_succeeded \<and> pe_result rec = None"
  shows "generation_effect b l = None \<and> (\<exists>r\<in>set (effects l'). rec = effect_record r \<and> er_binding r = b \<and> er_state r = Eff_dispatched)"
  using assms(2)
proof (cases rule: reserve_and_begin_cases)
  case (reserved row r authority a)
  then show ?thesis
    using assms(1) unresolved_effect_SomeD[OF reserved(2)] by (auto simp: scope_clean_def list_all_iff unresolved_in_def)
next
  case (replayed row)
  then have "row \<in> set (effects l)" "effect_scope (er_binding row) = effect_scope b"
    unfolding generation_effect_def find_Some_iff by force+
  then show ?thesis using assms(1,3) replayed by (auto simp: scope_clean_def list_all_iff)
next
  case (inserted r authority a)
  then show ?thesis using effect_insert_OkD[OF inserted(5)] by auto
qed

lemma finish_call_steps: "ledger_step\<^sup>*\<^sup>* l (snd (finish_call now ended w oc rec l))"
proof -
  have "finish_provider_effect now i st res err l = Ok (rec', l') \<Longrightarrow> ledger_step\<^sup>*\<^sup>* l l'" for i st res err rec' l'
    by (rule r_into_rtranclp[of ledger_step]) (rule ledger_step.finish)
  then show ?thesis
    by (cases oc) (auto simp: finish_call_def Let_def split: prod.splits sum.splits)
qed

text \<open>What \<open>scope_clean\<close> leaves out: an effect that was finished as succeeded with an empty result reads as one without a result, and
  the provider is asked again although the ledger has the success. The withdrawal itself always stores a result.\<close>

lemma empty_success_asks_again:
  assumes "er_state row = Eff_succeeded" and "er_result_json row = Some []"
  shows "classify_admission lib cs w (effect_record row) = Call_provider (effect_record row)"
  using assms by (simp add: classify_admission_def effect_record_def)


section \<open>Ended only by an effect that succeeded\<close>

lemma reserve_row:
  assumes "ledger_ok l" and "reserve_and_begin_authorized_effect lib isofmt now aid scope ab b l = Ok (rec, l')"
  shows "\<exists>row. effect_by_id (pe_effect_id rec) l' = Some row \<and> rec = effect_record row \<and> effect_scope (er_binding row) = effect_scope b"
  using reserve_states[OF assms(2)] dispatched_row[OF assms] effect_by_id_mem[OF assms(1)] by force

lemma finish_row_of:
  assumes "ledger_ok l" and "finish_provider_effect now i ''succeeded'' res err l = Ok (rec, l')" and "effect_by_id i l = Some row"
  shows "\<exists>r\<in>set (effects l'). rec = effect_record r \<and> er_state r = Eff_succeeded \<and> er_result_json r = res \<and> er_binding r = er_binding row"
proof -
  have "effect_advance i [Eff_dispatched] (finish_row now Eff_succeeded res (py_take 2000 err)) (''effect '' @ i @ '' is not in dispatched state'') l = Ok (rec, l')"
    using assms(2) by (simp add: finish_provider_effect_def)
  from effect_advance_OkD[OF this] obtain r where
    u: "effect_update i [Eff_dispatched] (finish_row now Eff_succeeded res (py_take 2000 err)) l = Ok (Some r, l')" and rec: "rec = effect_record r" by blast
  from effect_update_row[OF u] obtain r0 where r0: "r0 \<in> set (effects l)" "r = finish_row now Eff_succeeded res (py_take 2000 err) r0"
    "er_effect_id r0 = i" "r \<in> set (effects l')" by blast
  have "r0 = row" using effect_by_id_mem[OF assms(1) r0(1)] r0(3) assms(3) by simp
  then show ?thesis using r0 rec by (intro bexI[of _ r]) (simp_all add: finish_row_def)
qed

lemma classify_withdrawn:
  assumes "classify_admission lib cs w rec = Already_withdrawn rec' ended"
  shows "rec' = rec \<and> pe_state rec = Eff_succeeded \<and> (\<exists>res. pe_result rec = Some res \<and> evidence_matches w res)"
  using assms by (auto simp: classify_admission_def split: effect_state.splits option.splits if_splits)

lemma finish_withdrawn:
  assumes "finish_call now ended w oc rec l = (Withdrawn rec', l')"
  shows "\<exists>v. finish_provider_effect now (pe_effect_id rec) ''succeeded'' (Some (withdrawal_result w ended v)) [] l = Ok (rec', l')"
  using assms by (cases oc) (auto simp: finish_call_def Let_def retained_def split: sum.splits prod.splits)

text \<open>C31: the store is touched only when the ledger has an effect for this operation on this item that succeeded, with the targets, the
  environment and the endpoint of the withdrawal in its result: a rejected, ambiguous or interrupted call never marks a
  document as ended.\<close>

theorem ended_only_after_success:
  assumes "withdrawal_locked lib cs isofmt pr cfg p m other w l s fl = (e, calls, l', s', fl')" and "s' \<noteq> s"
    and "ledger_ok l" and "\<forall>n m. ledger_step\<^sup>*\<^sup>* m (other n m)"
  shows "\<exists>r\<in>set (effects l'). er_state r = Eff_succeeded \<and> effect_scope (er_binding r) = effect_scope (withdrawal_effect w)
    \<and> (\<exists>res. er_result_json r = Some res \<and> evidence_matches w res)"
proof -
  obtain ad la where ad: "admit_withdrawal lib cs isofmt (wm_reserve m) (st_files s) p w l = (ad, la)"
    by (cases "admit_withdrawal lib cs isofmt (wm_reserve m) (st_files s) p w l")
  note run = assms(1)[unfolded withdrawal_locked_def Let_def ad prod.case]
  show ?thesis
  proof (cases ad)
    case (Admission_failed x)
    then show ?thesis using run assms(2) by simp
  next
    case (Already_withdrawn rec ended)
    then obtain rec0 where reserve: "reserve_and_begin_authorized_effect lib isofmt (wm_reserve m) (wp_authority_id w) ''withdraw'' (wp_binding w)
        (withdrawal_effect w) l = Ok (rec0, la)" and "classify_admission lib cs w rec0 = Already_withdrawn rec ended"
      using ad by (auto simp: admit_withdrawal_def split: sum.splits)
    note c = classify_withdrawn[OF this(2)]
    obtain row where row: "row \<in> set (effects l)" "la = l" "rec0 = effect_record row" "effect_scope (er_binding row) = effect_scope (withdrawal_effect w)"
      using reserve_states[OF reserve] c by auto
    have "l' = la" using run Already_withdrawn by (auto split: withdrawal_end.splits prod.splits)
    moreover obtain res where "er_result_json row = Some res" "evidence_matches w res"
      using c row(3) by (auto simp: effect_record_def split: option.splits list.splits)
    ultimately show ?thesis using row c by (intro bexI[of _ row]) auto
  next
    case (Call_provider rec)
    obtain fe lb where f: "finish_call (wm_finish m) (wm_ended m) w (wm_outcome m) rec (other 2 la) = (fe, lb)"
      by (cases "finish_call (wm_finish m) (wm_ended m) w (wm_outcome m) rec (other 2 la)")
    note run2 = run[unfolded Call_provider withdrawal_admission.case f prod.case]
    obtain rec' where fe: "fe = Withdrawn rec'" using run2 assms(2) by (cases fe) auto
    have "l' = lb" using run2 fe by (auto split: withdrawal_end.splits prod.splits)
    from finish_withdrawn[OF f[unfolded fe]] obtain v where
      fin: "finish_provider_effect (wm_finish m) (pe_effect_id rec) ''succeeded'' (Some (withdrawal_result w (wm_ended m) v)) [] (other 2 la) = Ok (rec', lb)" by blast
    note reserve = admit_callD(2)[OF ad[unfolded Call_provider]]
    have ok: "ledger_ok la" using assms(3) reserve by (rule ledger_step_authorized_ok)
    from reserve_row[OF assms(3) reserve] obtain row where row: "effect_by_id (pe_effect_id rec) la = Some row"
      "effect_scope (er_binding row) = effect_scope (withdrawal_effect w)" by blast
    have others: "ledger_step\<^sup>*\<^sup>* la (other 2 la)" using assms(4) by simp
    from effects.row_steps[OF others ok row(1)] obtain row' where
      row': "effect_by_id (pe_effect_id rec) (other 2 la) = Some row'" "effect_move\<^sup>*\<^sup>* row row'" by blast
    have scope: "er_binding row' = er_binding row" using effect_moves_forward[OF row'(2)] by (simp add: same_effect_def)
    have "ledger_ok (other 2 la)" using effects.sound_steps[OF others ok] .
    from finish_row_of[OF this fin row'(1)] show ?thesis
      using row(2) scope by (auto simp: \<open>l' = lb\<close> evidence_matches_def withdrawal_result_def jget_def)
  qed
qed

section \<open>A withdrawal\<close>

definition listed_item :: jobj where
  "listed_item = [(''ebay_listing'', JObj [(''listing_id'', JStr ''L1''), (''status'', JStr ''Active'')]),
     (''ebay_offer'', JObj [(''offer_id'', JStr ''O1'')]), (''sku'', JStr ''A1'')]"

definition listed_lib :: pylib where
  "listed_lib = \<lparr>sha256_hex = (\<lambda>s. replicate 64 (if 150 < length s then CHR ''b'' else CHR ''a'')), float_repr = (\<lambda>_. [])\<rparr>"

definition listed_files :: item_files where
  "listed_files = \<lparr>read_json = (\<lambda>_. Ok (JObj listed_item)), iterdir = (\<lambda>_. [])\<rparr>"

definition listed_command :: operator_command where
  "listed_command = \<lparr>oc_operator_identity = ''op'', oc_surface = ''web'', oc_provider_identity = ''acct'', oc_ttl_seconds = 300,
     oc_document = None, oc_expected_generation = None, oc_environment = ''production'', oc_rest_endpoint = [], oc_trading_endpoint = []\<rparr>"

definition listed_clock :: command_clock where
  "listed_clock = \<lparr>cc_db_now = 0, cc_now = 0, cc_authority_id = sample_authority_id\<rparr>"

definition listed_path :: path where
  "listed_path = py_path ''/items/A1.json''"

definition listed_store :: "nat item_store" where
  "listed_store = \<lparr>st_files = (\<lambda>_. Ok (JObj listed_item)), st_archives = (\<lambda>_. None), st_ops = [], st_conflicts = [], st_catalog = 0\<rparr>"

definition listed_moment :: "provider_outcome \<Rightarrow> withdrawal_moment" where
  "listed_moment oc = \<lparr>wm_reserve = 1, wm_finish = 2, wm_ended = ''t2'', wm_recorded = ''t3'', wm_outcome = oc\<rparr>"

definition listed_rq :: "authority_binding \<Rightarrow> authority_request" where
  "listed_rq b = \<lparr>rq_operator = ''op'', rq_surface = ''web'', rq_binding = b, rq_scopes = [''withdraw''],
     rq_issued_at = Aware 0, rq_expires_at = Aware (0 + of_int 300)\<rparr>"

definition listed_ledger :: "authority_binding \<Rightarrow> ledger" where
  "listed_ledger b = empty_ledger\<lparr>authorities := [authority_of sample_authority_id (listed_rq b) (0, 300)]\<rparr>"

lemma listed_hash: "hex64 (hash_json listed_lib v)"
  by (simp add: hash_json_def listed_lib_def) code_simp

lemma listed_facts: "read_json listed_files p = Ok (JObj listed_item)" "published listed_lib (\<lambda>_. []) listed_item"
  "staged listed_item = Ok True" "priced listed_item = Ok False" "title_ok listed_item = Ok False"
  "ordered_photos listed_item (path_parent listed_path) (iterdir listed_files (path_parent listed_path)) = Ok []"
  "item_sku listed_item listed_path = ''A1''"
  "offer_target listed_lib (\<lambda>_. []) listed_item = ''O1''" "listing_target listed_lib (\<lambda>_. []) listed_item = ''L1''"
  "check_targets listed_lib (\<lambda>_. []) ''production'' listed_item = Ok ()"
  "jget listed_item ''marketplace_id'' = JNull"
  by (simp add: listed_files_def) code_simp+

lemma listed_account: "withdrawal_account [] listed_command = Ok (''production'', the (map_of ebay_environments ''production''), ''acct'')"
  by code_simp

lemma listed_verdicts:
  assumes "build_item_snapshot listed_lib (\<lambda>_. []) listed_files listed_path TGW_EBAY_WITHDRAWN WITHDRAW_TREATMENTS si = Ok snap"
    and "si_ambiguities si = []"
  shows "generation snap = item_generation listed_lib listed_item" "snap_object_id snap = ''A1''"
    "external_effect_ambiguities snap = []" "fp_result (by_id snap ''published'') = TRUE"
    "fp_result (by_id snap ''listing_inactive'') = UNKNOWN"
    "fp_result (by_id snap ''operator_authorized_withdraw'') = (if ''withdraw'' \<in> set (authorized_scopes si) then TRUE else FALSE)"
proof -
  note s = assms(1)
  show "generation snap = item_generation listed_lib listed_item" "snap_object_id snap = ''A1''" "external_effect_ambiguities snap = []"
    by (rule build_OkD[OF s], simp add: listed_facts item_generation_def assms(2) sorted_set_def)+
  have ids: "c \<in> set (condition_ids TGW_EBAY_WITHDRAWN WITHDRAW_TREATMENTS)"
    if "c \<in> {''published'', ''listing_inactive'', ''operator_authorized_withdraw''}" for c
    using that by (auto simp: condition_ids_def WITHDRAW_TREATMENTS_def contract_defs)
  show "fp_result (by_id snap ''published'') = TRUE"
    using verdict_checker[OF s listed_facts(1) ids, of "''published''"] listed_facts(2) by (auto simp: item_checkers_def)
  show "fp_result (by_id snap ''listing_inactive'') = UNKNOWN"
    by (rule verdict_of_condition[OF s listed_facts(1) ids, of "''listing_inactive''"])
      (auto simp: condition_assertion_def AUTHORIZED_PREFIX_def starts_with_def item_checkers_def assertion_def)
  have "condition_scope ''operator_authorized_withdraw'' = ''withdraw''" by code_simp
  then show "fp_result (by_id snap ''operator_authorized_withdraw'') = (if ''withdraw'' \<in> set (authorized_scopes si) then TRUE else FALSE)"
    using verdict_authority[OF s ids, of "''operator_authorized_withdraw''"] by (simp add: AUTHORIZED_PREFIX_def starts_with_def)
qed

lemma listed_graph:
  assumes "build_item_snapshot listed_lib (\<lambda>_. []) listed_files listed_path TGW_EBAY_WITHDRAWN WITHDRAW_TREATMENTS si = Ok snap"
    and "si_ambiguities si = []"
  defines "g \<equiv> evaluate listed_lib snap TGW_EBAY_WITHDRAWN WITHDRAW_TREATMENTS WITHDRAWAL_EVALUATOR_VERSION []"
  shows "\<exists>d. treatment_id d = tr_identity EBAY_WITHDRAW \<and> treatment_version d = tr_version EBAY_WITHDRAW
    \<and> (if ''withdraw'' \<in> set (authorized_scopes si) then eligible_treatments g = [d] else waiting_treatments g = [d])"
    "ownership_conflicts g = []" "reconciliation_gates g = []"
proof -
  note v = listed_verdicts[OF assms(1,2)]
  have e: "fst (classify snap [] EBAY_WITHDRAW) \<longleftrightarrow> ''withdraw'' \<in> set (authorized_scopes si)"
    by (simp add: classify_eligible ambiguity_of_def v unchanged_attempts_def sorted_set_def unmet_of_def all_established_def established_def EBAY_WITHDRAW_def)
  then show "\<exists>d. treatment_id d = tr_identity EBAY_WITHDRAW \<and> treatment_version d = tr_version EBAY_WITHDRAW
    \<and> (if ''withdraw'' \<in> set (authorized_scopes si) then eligible_treatments g = [d] else waiting_treatments g = [d])"
    by (intro exI[of _ "snd (classify snap [] EBAY_WITHDRAW)"])
      (simp add: classify_disposition g_def evaluate_def Let_def by_identity_def WITHDRAW_TREATMENTS_def)
  show "ownership_conflicts g = []" "reconciliation_gates g = []"
    using e by (simp_all add: g_def evaluate_def Let_def by_identity_def WITHDRAW_TREATMENTS_def v sorted_set_def)
qed

lemma listed_built:
  assumes "stage_receipt_lookup si = None"
  obtains snap where "build_item_snapshot listed_lib (\<lambda>_. []) listed_files listed_path TGW_EBAY_WITHDRAWN WITHDRAW_TREATMENTS si = Ok snap"
proof -
  have "(case stage_receipt_lookup si of None \<Rightarrow> Ok None | Some lookup \<Rightarrow> lookup (item_sku listed_item listed_path)) = Ok None"
    by (simp add: assms)
  from build_total[OF listed_facts(1) listed_facts(3-6) this] that show thesis by blast
qed

lemma listed_issued:
  "issue_or_reuse_authority 0 sample_authority_id (listed_rq b) empty_ledger = Ok ((sample_authority_id, True), listed_ledger b)"
  by (simp add: issue_or_reuse_authority_def listed_rq_def aware_window_def empty_ledger_def put_authorities_def
      authorities_violation_def listed_ledger_def authority_of_def SCOPES_def sorted_set_def)

lemma listed_id: "uuid_ok sample_authority_id" "pg_uuid sample_authority_id = Some sample_authority_id"
  by code_simp+

lemma listed_authority:
  "get_authority sample_authority_id (listed_ledger b) = Ok (Some (authority_of sample_authority_id (listed_rq b) (0, 300)))"
  by (simp add: get_authority_def listed_id authority_row_def listed_ledger_def empty_ledger_def)

lemma listed_valid:
  "validate_authority (Some sample_authority_id) b ''withdraw'' (\<lambda>_. Ok (Some (authority_of sample_authority_id (listed_rq b) (0, 300))))
    = Ok (Some (authority_of sample_authority_id (listed_rq b) (0, 300)), ''operator authority exact durable binding valid'')"
proof -
  have "sample_authority_id \<noteq> []" by (simp add: sample_authority_id_def)
  then show ?thesis by (simp add: validate_authority_def listed_rq_def)
qed


lemma listed_stands:
  "validate_authority (Some sample_authority_id) b ''withdraw'' (\<lambda>i. get_authority i (listed_ledger b))
    = Ok (Some (authority_of sample_authority_id (listed_rq b) (0, 300)), ''operator authority exact durable binding valid'')"
proof -
  have "sample_authority_id \<noteq> []" by (simp add: sample_authority_id_def)
  then show ?thesis by (simp add: validate_authority_def listed_authority) (simp add: listed_rq_def)
qed

lemma listed_plan:
  "\<exists>w. plan_withdrawal listed_lib (\<lambda>_. []) (\<lambda>_. listed_files) listed_path [] listed_command listed_clock (\<lambda>_ l. l) empty_ledger
      = (Ok w, listed_ledger (wp_binding w)) \<and> wp_offer_id w = ''O1'' \<and> wp_listing_id w = ''L1'' \<and> wp_authority_id w = sample_authority_id
      \<and> ab_object_generation (wp_binding w) = item_generation listed_lib listed_item \<and> ab_entity_id (wp_binding w) = ''A1''"
proof -
  let ?si = "no_inputs\<lparr>authorized_scopes := [''withdraw''], authority_identity := sample_authority_id\<rparr>"
  have none: "stage_receipt_lookup no_inputs = None" "stage_receipt_lookup ?si = None" "si_ambiguities no_inputs = []" "si_ambiguities ?si = []"
    "authorized_scopes no_inputs = []" "authorized_scopes ?si = [''withdraw'']"
    by (simp_all add: no_inputs_def)
  obtain base where base: "build_item_snapshot listed_lib (\<lambda>_. []) listed_files listed_path TGW_EBAY_WITHDRAWN WITHDRAW_TREATMENTS no_inputs = Ok base"
    by (rule listed_built[OF none(1)])
  obtain snap where snap: "build_item_snapshot listed_lib (\<lambda>_. []) listed_files listed_path TGW_EBAY_WITHDRAWN WITHDRAW_TREATMENTS ?si = Ok snap"
    by (rule listed_built[OF none(2)])
  let ?g0 = "evaluate listed_lib base TGW_EBAY_WITHDRAWN WITHDRAW_TREATMENTS WITHDRAWAL_EVALUATOR_VERSION []"
  let ?g1 = "evaluate listed_lib snap TGW_EBAY_WITHDRAWN WITHDRAW_TREATMENTS WITHDRAWAL_EVALUATOR_VERSION []"
  define b where "b = authority_binding_for listed_lib base TGW_EBAY_WITHDRAWN ?g0 listed_item ''acct''"
  have waiting: "list_ex (\<lambda>d. treatment_id d = tr_identity EBAY_WITHDRAW) (waiting_treatments ?g0)"
    using listed_graph(1)[OF base none(3)] by (auto simp: none)
  have eligible: "length (filter (\<lambda>d. treatment_id d = tr_identity EBAY_WITHDRAW \<and> treatment_version d = tr_version EBAY_WITHDRAW)
      (eligible_treatments ?g1)) = 1"
    using listed_graph(1)[OF snap none(4)] by (auto simp: none)
  note v = listed_verdicts[OF base none(3)]
  have c: "oc_document listed_command = None" "oc_expected_generation listed_command = None" "oc_operator_identity listed_command = ''op''"
    "oc_surface listed_command = ''web''" "oc_ttl_seconds listed_command = 300"
    "cc_now listed_clock = 0" "cc_db_now listed_clock = 0" "cc_authority_id listed_clock = sample_authority_id"
    by (simp_all add: listed_command_def listed_clock_def)
  have doc: "bound_item_document listed_lib listed_files listed_path None None = Ok listed_item"
    "require_current_generation listed_lib listed_files listed_path (generation base) = Ok listed_item"
    by (simp_all add: bound_item_document_def require_current_generation_def listed_facts v)
  have request: "withdrawal_request listed_lib (\<lambda>_. []) (\<lambda>_. listed_files) listed_path listed_command 0 ''production'' ''acct'' = Ok (listed_item, listed_rq b)"
    by (simp add: withdrawal_request_def c doc listed_facts base waiting Let_def listed_rq_def b_def)
  have graph: "withdrawal_graph listed_lib (\<lambda>_. []) listed_files listed_path sample_authority_id = Ok ?g1"
    using eligible listed_graph(2,3)[OF snap none(4)] by (simp add: withdrawal_graph_def snap Let_def)
  have b: "rq_binding (listed_rq b) = b" "ab_object_generation b = item_generation listed_lib listed_item" "ab_entity_id b = ''A1''"
    by (simp_all add: listed_rq_def b_def authority_binding_for_def v)
  show ?thesis
    by (simp add: plan_withdrawal_def listed_account c request listed_issued b(1) listed_stands graph listed_facts) (simp add: b)
qed

lemma listed_admitted:
  assumes "wp_offer_id w = ''O1''" "wp_listing_id w = ''L1''" "wp_authority_id w = sample_authority_id"
    "ab_object_generation (wp_binding w) = item_generation listed_lib listed_item"
  shows "\<exists>r. er_binding r = withdrawal_effect w \<and> er_state r = Eff_dispatched \<and> (\<exists>v. er_effect_id r = hash_json listed_lib v)
    \<and> admit_withdrawal listed_lib (\<lambda>_. []) (\<lambda>_. []) 1 (st_files listed_store) listed_path w (listed_ledger (wp_binding w))
      = (Call_provider (effect_record r), (listed_ledger (wp_binding w))\<lparr>effects := [r]\<rparr>)"
proof -
  let ?l = "listed_ledger (wp_binding w)"
  let ?a = "authority_of sample_authority_id (listed_rq (wp_binding w)) (0, 300)"
  let ?r = "new_effect 1 (effect_identity listed_lib (binding_json (withdrawal_effect w)) (authority_json (\<lambda>_. []) ?a)) (withdrawal_effect w)
    (authority_json (\<lambda>_. []) ?a) Eff_dispatched (Some 1)"
  have e: "effects ?l = []" by (simp add: listed_ledger_def empty_ledger_def)
  have h: "hex64 (er_effect_id ?r)" by (simp add: new_effect_def effect_identity_def listed_hash)
  have "recheck_document listed_lib (\<lambda>_. []) (st_files listed_store) listed_path w = Ok ()"
    by (simp add: recheck_document_def require_current_generation_def bound_item_document_def listed_store_def listed_facts assms)
  moreover have "reserve_and_begin_authorized_effect listed_lib (\<lambda>_. []) 1 (wp_authority_id w) ''withdraw'' (wp_binding w) (withdrawal_effect w) ?l
      = Ok (effect_record ?r, ?l\<lparr>effects := [?r]\<rparr>)"
    using h by (simp add: reserve_and_begin_authorized_effect_def assms(3) listed_authority unresolved_effect_def generation_effect_def e
        locked_authority_def listed_valid effect_insert_def put_effects_def effects_violation_def)
  moreover have "classify_admission listed_lib (\<lambda>_. []) w (effect_record ?r) = Call_provider (effect_record ?r)"
    by (simp add: classify_admission_def effect_record_def new_effect_def)
  ultimately have "admit_withdrawal listed_lib (\<lambda>_. []) (\<lambda>_. []) 1 (st_files listed_store) listed_path w ?l = (Call_provider (effect_record ?r), ?l\<lparr>effects := [?r]\<rparr>)"
    by (simp add: admit_withdrawal_def)
  then show ?thesis by (intro exI[of _ ?r]) (auto simp: new_effect_def effect_identity_def)
qed


lemma listed_ledger_ok: "ledger_ok (listed_ledger b)"
  by (simp add: ledger_ok_def listed_ledger_def empty_ledger_def effects_violation_def authorities_violation_def authority_of_def listed_rq_def sorted_set_def)

abbreviation listed_run where
  "listed_run oc w l \<equiv> withdrawal_locked listed_lib (\<lambda>_. []) (\<lambda>_. []) (\<lambda>_ _ c. (Done JNull, Suc c)) [] listed_path (listed_moment oc) (\<lambda>_ l. l) w l listed_store []"

lemma listed_died:
  assumes "admit_withdrawal listed_lib (\<lambda>_. []) (\<lambda>_. []) 1 (st_files listed_store) listed_path w l = (Call_provider rec, l')"
  shows "listed_run Call_died w l = (Withdrawal_died, [withdrawal_call w], l', listed_store, [])"
  by (simp add: withdrawal_locked_def Let_def listed_moment_def assms finish_call_def)

theorem withdrawal_call_is_admitted_witness:
  "\<exists>w l1. snd (authorize_and_execute_end_listing listed_lib (\<lambda>_. []) (\<lambda>_. []) (\<lambda>_ _ c. (Done JNull, Suc c)) (\<lambda>_. listed_files) [] listed_path
      listed_command listed_clock (listed_moment Call_died) (\<lambda>_ l. l) empty_ledger listed_store []) = ([withdrawal_call w], l1, listed_store, [])
    \<and> withdrawal_call w = Withdraw_offer ''O1'' \<and> wp_environment w = ''production'' \<and> ab_provider_identity (wp_binding w) = ''acct''"
proof -
  let ?run = "authorize_and_execute_end_listing listed_lib (\<lambda>_. []) (\<lambda>_. []) (\<lambda>_ _ c. (Done JNull, Suc c)) (\<lambda>_. listed_files) [] listed_path
      listed_command listed_clock (listed_moment Call_died) (\<lambda>_ l. l) empty_ledger listed_store []"
  obtain w where w: "plan_withdrawal listed_lib (\<lambda>_. []) (\<lambda>_. listed_files) listed_path [] listed_command listed_clock (\<lambda>_ l. l) empty_ledger
      = (Ok w, listed_ledger (wp_binding w))" "wp_offer_id w = ''O1''" "wp_listing_id w = ''L1''" "wp_authority_id w = sample_authority_id"
    "ab_object_generation (wp_binding w) = item_generation listed_lib listed_item"
    using listed_plan by blast
  obtain r where "admit_withdrawal listed_lib (\<lambda>_. []) (\<lambda>_. []) 1 (st_files listed_store) listed_path w (listed_ledger (wp_binding w))
      = (Call_provider (effect_record r), (listed_ledger (wp_binding w))\<lparr>effects := [r]\<rparr>)"
    using listed_admitted[OF w(2-5)] by blast
  then have run: "?run = (Withdrawal_died, [withdrawal_call w], (listed_ledger (wp_binding w))\<lparr>effects := [r]\<rparr>, listed_store, [])"
    by (simp add: authorize_and_execute_end_listing_def w(1) listed_died)
  have "configured_ebay_environment [] = Ok ''production''" "bind_ebay_provider_identity (JStr (oc_provider_identity listed_command)) (JStr ''production'') = Ok ''acct''"
    by code_simp+
  moreover from withdrawal_call_is_admitted[OF run _ empty_ledger_ok] obtain v where
    v: "[withdrawal_call w] = [withdrawal_call v]" "configured_ebay_environment [] = Ok (wp_environment v)"
      "bind_ebay_provider_identity (JStr (oc_provider_identity listed_command)) (JStr (wp_environment v)) = Ok (ab_provider_identity (wp_binding v))"
    by auto
  ultimately have "wp_environment v = ''production''" "ab_provider_identity (wp_binding v) = ''acct''" by auto
  moreover have "withdrawal_call w = Withdraw_offer ''O1''" by (simp add: withdrawal_call_def w(2))
  ultimately show ?thesis using v(1) by (intro exI[of _ v]) (simp add: run)
qed


text \<open>The document after the withdrawal.\<close>

definition ended_item :: "string \<Rightarrow> jobj" where
  "ended_item eid = [(''ebay_listing'', JObj [(''listing_id'', JStr ''L1''), (''status'', JStr ''Ended''), (''listing_status'', JStr ''ENDED''),
       (''ended_at'', JStr ''t2''), (''provider_effect_id'', JStr eid)]),
     (''ebay_offer'', JObj [(''offer_id'', JStr ''O1''), (''status'', JStr ''UNPUBLISHED'')]), (''sku'', JStr ''A1'')]"

lemma ended_recorded: "record_withdrawal listed_lib (\<lambda>_. []) listed_path ''A1'' eid ''t2'' listed_item = Ok (JObj (ended_item eid))"
  by (simp add: record_withdrawal_def listed_item_def ended_item_def jget_def or_dict_def Let_def)

lemma listed_generation: "doc_generation listed_lib listed_item = replicate 64 (CHR ''a'')"
  by code_simp



lemma ended_generation: "doc_generation listed_lib (ended_item (hash_json listed_lib v)) = replicate 64 (CHR ''b'')"
proof -
  let ?eid = "hash_json listed_lib v"
  let ?listing = "[(''listing_id'', JStr ''L1''), (''status'', JStr ''Ended''), (''listing_status'', JStr ''ENDED''),
       (''ended_at'', JStr ''t2''), (''provider_effect_id'', JStr ?eid)]"
  have "length ?eid = 64" by (simp add: hash_json_def listed_lib_def)
  then have "150 < length (canonical listed_lib (JObj (ended_item ?eid)))"
    using canonical_obj_length[of listed_lib "ended_item ?eid"] canonical_obj_length[of listed_lib ?listing] canonical_str_length[of ?eid listed_lib]
      canonical_str_length[of "''Ended''" listed_lib] canonical_str_length[of "''ENDED''" listed_lib]
      canonical_obj_length[of listed_lib "[(''offer_id'', JStr ''O1''), (''status'', JStr ''UNPUBLISHED'')]"]
      canonical_str_length[of "''UNPUBLISHED''" listed_lib]
    by (simp add: ended_item_def)
  then show ?thesis by (simp add: doc_generation_def hash_json_def[of _ "JObj (ended_item _)"] listed_lib_def)
qed

lemma listed_projected:
  assumes "wp_offer_id w = ''O1''" "wp_listing_id w = ''L1''" "ab_entity_id (wp_binding w) = ''A1''"
    "ab_object_generation (wp_binding w) = item_generation listed_lib listed_item" "pe_effect_id rec = hash_json listed_lib v"
  shows "\<exists>r s'. project_withdrawal listed_lib (\<lambda>_. []) (\<lambda>_ _ c. (Done JNull, Suc c)) ''t3'' [] listed_path w rec ''t2'' listed_store [] = (Withdrawn r, s', [])
    \<and> st_files s' listed_path = Ok (JObj (ended_item (hash_json listed_lib v)))"
proof -
  have h: "hex64 (operation_identity listed_lib sku kind gen p)" for sku kind gen p
    by (simp add: operation_identity_def listed_hash)
  have g: "item_generation listed_lib listed_item = replicate 64 (CHR ''a'')"
    using listed_generation by (simp add: item_generation_def doc_generation_def)
  show ?thesis
    using assms h
    by (simp add: project_withdrawal_def mutate_item_def projection_request_def Let_def and_then_def check_operation_def return_it_def
        request_identity_def mutate_locked_def reading_def op_of_def listed_store_def empty_op_def load_document_def listed_generation g
        apply_mutation_def ended_recorded ended_generation apply_change_def catching_def publish_plan_def durable_def set_op_def
        archive_once_def mark_archived_def set_file_def mark_published_def project_and_record_def projecting_def projection_ok_def
        write_receipt_def request_receipt_def request_binding_def)
qed


theorem ended_only_after_success_witness:
  "\<exists>w l' s' e v. listed_run (Answered JNull) w (listed_ledger (wp_binding w)) = (e, [Withdraw_offer ''O1''], l', s', [])
    \<and> st_files s' listed_path = Ok (JObj (ended_item (hash_json listed_lib v))) \<and> (\<exists>r\<in>set (effects l'). er_state r = Eff_succeeded)"
proof -
  obtain w :: withdrawal_plan where w: "wp_offer_id w = ''O1''" "wp_listing_id w = ''L1''" "wp_authority_id w = sample_authority_id"
    "ab_object_generation (wp_binding w) = item_generation listed_lib listed_item" "ab_entity_id (wp_binding w) = ''A1''"
    using listed_plan by blast
  obtain r v where r: "er_state r = Eff_dispatched" "er_effect_id r = hash_json listed_lib v"
    and a: "admit_withdrawal listed_lib (\<lambda>_. []) (\<lambda>_. []) 1 (st_files listed_store) listed_path w (listed_ledger (wp_binding w))
      = (Call_provider (effect_record r), (listed_ledger (wp_binding w))\<lparr>effects := [r]\<rparr>)"
    using listed_admitted[OF w(1-4)] by blast
  let ?r = "finish_row 2 Eff_succeeded (Some (withdrawal_result w ''t2'' JNull)) [] r"
  have "hex64 (er_effect_id r)" by (simp add: r(2) listed_hash)
  then have fin: "finish_provider_effect 2 (er_effect_id r) ''succeeded'' (Some (withdrawal_result w ''t2'' JNull)) [] ((listed_ledger (wp_binding w))\<lparr>effects := [r]\<rparr>)
      = Ok (effect_record ?r, (listed_ledger (wp_binding w))\<lparr>effects := [?r]\<rparr>)"
    using r(1) by (simp add: finish_provider_effect_def effect_advance_def effect_update_def put_effects_def effects_violation_def finish_row_def Let_def)
  have i: "pe_effect_id (effect_record r) = er_effect_id r" "pe_effect_id (effect_record ?r) = hash_json listed_lib v"
    by (simp_all add: effect_record_def finish_row_def r(2))
  have call: "finish_call 2 ''t2'' w (Answered JNull) (effect_record r) ((listed_ledger (wp_binding w))\<lparr>effects := [r]\<rparr>)
      = (Withdrawn (effect_record ?r), (listed_ledger (wp_binding w))\<lparr>effects := [?r]\<rparr>)"
    by (simp add: finish_call_def Let_def i(1) fin)
  from listed_projected[OF w(1,2,5,4) i(2)] obtain q s' where
    p: "project_withdrawal listed_lib (\<lambda>_. []) (\<lambda>_ _ c. (Done JNull, Suc c)) ''t3'' [] listed_path w (effect_record ?r) ''t2'' listed_store [] = (Withdrawn q, s', [])"
      "st_files s' listed_path = Ok (JObj (ended_item (hash_json listed_lib v)))" by blast
  have run: "listed_run (Answered JNull) w (listed_ledger (wp_binding w))
      = (Withdrawn (effect_record ?r, q), [withdrawal_call w], (listed_ledger (wp_binding w))\<lparr>effects := [?r]\<rparr>, s', [])"
    by (simp add: withdrawal_locked_def Let_def listed_moment_def a call p(1))
  have "s' \<noteq> listed_store" using p(2) by (auto simp: listed_store_def listed_item_def ended_item_def)
  from ended_only_after_success[OF run this listed_ledger_ok] have "\<exists>r\<in>set (effects ((listed_ledger (wp_binding w))\<lparr>effects := [?r]\<rparr>)). er_state r = Eff_succeeded"
    by auto
  moreover have "withdrawal_call w = Withdraw_offer ''O1''" by (simp add: withdrawal_call_def w(1))
  ultimately show ?thesis using run p(2) by metis
qed

end
