(* ===== verification/Plan_Authority.thy ===== *)
theory Plan_Authority
  imports Plan_Solver Py_Convert Host_Text
begin

text \<open>
  \<^verbatim>\<open>plan_authority.py\<close> with \<^verbatim>\<open>plan_authority.sql\<close>: an effect that a Plan declares is requested, decided on by an operator,
  claimed by an executor as a durable attempt, and completed. Requests, decisions, attempts and events are tables; a
  transaction that raises leaves them as they were. Ids generated by the program and clocks are arguments.
\<close>

section \<open>Identities and principals\<close>

text \<open>\<^verbatim>\<open>_identity\<close>\<close>

definition plan_identity :: "pylib \<Rightarrow> string \<Rightarrow> json \<Rightarrow> string" where
  "plan_identity lib kind v = kind @ '':sha256:'' @ hash_json lib v"

datatype principal_role = Operator | Executor

definition role_value :: "principal_role \<Rightarrow> string" where
  "role_value r = (case r of Operator \<Rightarrow> ''operator'' | Executor \<Rightarrow> ''executor'')"

definition is_alnum :: "char \<Rightarrow> bool" where
  "is_alnum c = (let n = (of_char c :: nat) in (48 \<le> n \<and> n \<le> 57) \<or> (65 \<le> n \<and> n \<le> 90) \<or> (97 \<le> n \<and> n \<le> 122))"

definition is_principal_identity :: "string \<Rightarrow> bool" where
  "is_principal_identity s =
     list_ex (\<lambda>r. starts_with s (role_value r @ '':'') \<and>
       (case drop (length (role_value r) + 1) s of
          [] \<Rightarrow> False
        | c # t \<Rightarrow> is_alnum c \<and> length t \<le> 191 \<and> list_all (\<lambda>d. is_alnum d \<or> d \<in> set ''._@/-'') t)) [Operator, Executor]"

record authority_principal =
  ap_identity :: string
  ap_role :: principal_role
  ap_authentication :: string

definition make_principal :: "string \<Rightarrow> principal_role \<Rightarrow> string \<Rightarrow> authority_principal result" where
  "make_principal i r a =
     (if \<not> is_principal_identity i then Err (ValueError ''authority principal identity is invalid'')
      else if \<not> starts_with i (role_value r @ '':'') then Err (ValueError ''authority principal identity does not match its role'')
      else if a = [] then Err (ValueError ''authority principal authentication binding is required'')
      else Ok \<lparr>ap_identity = i, ap_role = r, ap_authentication = a\<rparr>)"

section \<open>Effects\<close>

datatype effect_kind =
    Development_launch
  | Coding_release
  | Bounded_flake_push
  | Flake_switch_record_only
  | Dependency_resubmit
  | Authority_canary
  | Approval_platform_bootstrap_deployment
  | Nixos_reviewed_evaluation
  | Nixos_observer_render_evaluation
  | Nixos_a3_successor_evaluation

definition effect_kinds :: "(string \<times> effect_kind) list" where
  "effect_kinds =
     [(''development-launch'', Development_launch), (''coding-release'', Coding_release),
      (''bounded-flake-push'', Bounded_flake_push), (''flake-switch-record-only'', Flake_switch_record_only),
      (''dependency-resubmit'', Dependency_resubmit), (''authority-canary'', Authority_canary),
      (''approval-platform-bootstrap-deployment'', Approval_platform_bootstrap_deployment),
      (''nixos-reviewed-evaluation'', Nixos_reviewed_evaluation),
      (''nixos-observer-render-evaluation'', Nixos_observer_render_evaluation),
      (''nixos-a3-successor-evaluation'', Nixos_a3_successor_evaluation)]"

definition kind_value :: "effect_kind \<Rightarrow> string" where
  "kind_value k = fst (the (find (\<lambda>x. snd x = k) effect_kinds))"

record typed_effect =
  te_kind :: effect_kind
  te_generation :: string
  te_parameters :: jobj

text \<open>A value that is not a string reads as the empty string here: both are refused with the same message.\<close>

definition entry_text :: "jobj \<Rightarrow> string \<Rightarrow> string" where
  "entry_text d k = (case jget d k of JStr s \<Rightarrow> s | _ \<Rightarrow> [])"

definition parse_effect :: "json \<Rightarrow> typed_effect result" where
  "parse_effect v =
     (case v of
        JObj d \<Rightarrow>
          (case Option.bind (jstr (jget d ''kind'')) (map_of effect_kinds) of
             None \<Rightarrow> Err (ValueError ''effect kind is not registered; generic shell effects are forbidden'')
           | Some kind \<Rightarrow>
               (if entry_text d ''generation'' = [] then Err (ValueError ''effect generation is required'')
                else (case jget_or d ''parameters'' (JObj []) of
                        JObj ps \<Rightarrow>
                          (if list_ex (has_key ps) [''shell'', ''command'', ''argv''] then Err (ValueError ''generic shell parameters are forbidden'')
                           else Ok \<lparr>te_kind = kind, te_generation = entry_text d ''generation'', te_parameters = ps\<rparr>)
                      | _ \<Rightarrow> Err (ValueError ''effect parameters must be an object''))))
      | _ \<Rightarrow> Err (TypeError ''effect is not subscriptable by a name''))"

definition effect_hash :: "pylib \<Rightarrow> typed_effect \<Rightarrow> string" where
  "effect_hash lib e = plan_identity lib ''effect''
     (JObj [(''kind'', JStr (kind_value (te_kind e))), (''generation'', JStr (te_generation e)), (''parameters'', JObj (te_parameters e))])"

section \<open>Requests and decisions\<close>

record plan_request =
  pq_request_id :: string
  pq_plan_commit :: string
  pq_solution_hash :: string
  pq_closure_hash :: string
  pq_graph_id :: string
  pq_object_generation :: string
  pq_effect :: typed_effect
  pq_summary :: string
  pq_evidence :: "string list"
  pq_requested_by :: string
  pq_expires_at :: time

text \<open>A sequence of non-empty strings that is not itself a string; \<^const>\<open>None\<close> for anything else.\<close>

definition identities :: "json \<Rightarrow> string list option" where
  "identities v =
     (case v of
        JList xs \<Rightarrow> (if list_all (\<lambda>x. case x of JStr s \<Rightarrow> s \<noteq> [] | _ \<Rightarrow> False) xs then Some (map (the \<circ> jstr) xs) else None)
      | _ \<Rightarrow> None)"

text \<open>\<^verbatim>\<open>datetime.fromisoformat\<close> is \<open>iso_parse\<close>, and \<open>isotext\<close> is \<^verbatim>\<open>isoformat\<close> of what was parsed.\<close>

definition parse_expiry :: "pylib \<Rightarrow> (json \<Rightarrow> string) \<Rightarrow> isolib \<Rightarrow> jobj \<Rightarrow> time \<Rightarrow> (string \<times> time) result" where
  "parse_expiry lib cs il data now =
     (if \<not> has_key data ''expires_at'' then Err (KeyError ''expires_at'')
      else (let text = concat (map (\<lambda>c. if c = CHR ''Z'' then ''+00:00'' else [c]) (py_str lib cs (jget data ''expires_at'')))
            in case iso_parse il text of
                 None \<Rightarrow> Err (ValueError ''Invalid isoformat string'')
               | Some (Naive _) \<Rightarrow> Err (ValueError ''expires_at must be a future timezone-aware timestamp'')
               | Some (Aware t) \<Rightarrow>
                   (if t \<le> now then Err (ValueError ''expires_at must be a future timezone-aware timestamp'') else Ok (text, t))))"

definition plan_request_of ::
  "pylib \<Rightarrow> (json \<Rightarrow> string) \<Rightarrow> isolib \<Rightarrow> (string \<Rightarrow> string) \<Rightarrow> jobj \<Rightarrow> jobj \<Rightarrow> string \<Rightarrow> time \<Rightarrow> plan_request result" where
  "plan_request_of lib cs il isotext data solution current now =
     bind_result (validate_for_dispatch lib solution current) (\<lambda>_.
     bind_result (parse_expiry lib cs il data now) (\<lambda>(text, expires).
       if list_ex (\<lambda>k. \<not> nonblank_str (jget data k)) [''graph_id'', ''object_generation'', ''summary'', ''requested_by'']
       then Err (ValueError ''graph_id, object_generation, summary, and requested_by are required'')
       else (case identities (jget_or data ''evidence'' (JList [])) of
               None \<Rightarrow> Err (ValueError ''evidence must be a sequence of identities'')
             | Some evidence \<Rightarrow>
                 bind_result (parse_effect (jget_or data ''effect'' (JObj []))) (\<lambda>effect.
                   let summary = py_strip (entry_text data ''summary'');
                       by = py_strip (entry_text data ''requested_by'');
                       payload = JObj
                         [(''plan_commit'', JStr current), (''solution_hash'', jget solution ''solution_hash''),
                          (''closure_hash'', jget solution ''closure_hash''), (''graph_id'', jget data ''graph_id''),
                          (''object_generation'', jget data ''object_generation''), (''effect_hash'', JStr (effect_hash lib effect)),
                          (''summary'', JStr summary), (''evidence'', jstrs (sorted_set evidence)), (''requested_by'', JStr by),
                          (''expires_at'', JStr (isotext text))]
                   in Ok \<lparr>pq_request_id = plan_identity lib ''request'' payload, pq_plan_commit = current,
                          pq_solution_hash = py_str lib cs (jget solution ''solution_hash''),
                          pq_closure_hash = py_str lib cs (jget solution ''closure_hash''), pq_graph_id = entry_text data ''graph_id'',
                          pq_object_generation = entry_text data ''object_generation'', pq_effect = effect, pq_summary = summary,
                          pq_evidence = sorted_set evidence, pq_requested_by = by, pq_expires_at = expires\<rparr>))))"

datatype decision_kind = Approve | Hold | Reconcile

definition decision_kinds :: "(string \<times> decision_kind) list" where
  "decision_kinds = [(''approve'', Approve), (''hold'', Hold), (''reconcile'', Reconcile)]"

definition decision_value :: "decision_kind \<Rightarrow> string" where
  "decision_value k = (case k of Approve \<Rightarrow> ''approve'' | Hold \<Rightarrow> ''hold'' | Reconcile \<Rightarrow> ''reconcile'')"

record plan_decision =
  pd_decision_id :: string
  pd_request_id :: string
  pd_kind :: decision_kind
  pd_decided_by :: string
  pd_reason :: string
  pd_evidence :: "string list"
  pd_decided_at :: time

definition plan_decision_of :: "pylib \<Rightarrow> (time \<Rightarrow> string) \<Rightarrow> string \<Rightarrow> jobj \<Rightarrow> time \<Rightarrow> plan_decision result" where
  "plan_decision_of lib isofmt rid data now =
     (case Option.bind (jstr (jget data ''kind'')) (map_of decision_kinds) of
        None \<Rightarrow> Err (ValueError ''not a valid DecisionKind'')
      | Some kind \<Rightarrow>
          (if entry_text data ''decided_by'' = [] \<or> entry_text data ''reason'' = [] then Err (ValueError ''decided_by and reason are required'')
           else (case identities (jget_or data ''reconciliation_evidence'' (JList [])) of
                   None \<Rightarrow> Err (ValueError ''reconciliation_evidence must be a sequence of identities'')
                 | Some evidence \<Rightarrow>
                     (if kind \<noteq> Reconcile \<and> evidence \<noteq> []
                      then Err (ValueError ''reconciliation_evidence is only valid for reconcile decisions'')
                      else Ok \<lparr>pd_decision_id = plan_identity lib ''decision'' (JObj
                                 [(''request_id'', JStr rid), (''kind'', JStr (decision_value kind)),
                                  (''decided_by'', jget data ''decided_by''), (''reason'', jget data ''reason''),
                                  (''reconciliation_evidence'', jstrs (sorted_set evidence)), (''decided_at'', JStr (isofmt now))]),
                               pd_request_id = rid, pd_kind = kind, pd_decided_by = entry_text data ''decided_by'',
                               pd_reason = entry_text data ''reason'', pd_evidence = sorted_set evidence, pd_decided_at = now\<rparr>))))"

section \<open>The tables\<close>

record request_record =
  rr_request :: plan_request
  rr_effect_hash :: string
  rr_requested_at :: time

record plan_attempt =
  pt_receipt_id :: uuid
  pt_request_id :: string
  pt_effect_hash :: string
  pt_generation :: string
  pt_handler_id :: string
  pt_executor :: string
  pt_started_at :: time
  pt_completed_at :: "time option"
  pt_outcome :: "string option"
  pt_evidence :: "string list"
  pt_rollback :: "string option"
  pt_detail :: string

record plan_log_entry =
  pv_request_id :: string
  pv_type :: string
  pv_details :: json

record plan_store =
  ps_requests :: "request_record list"
  ps_decisions :: "plan_decision list"
  ps_attempts :: "plan_attempt list"
  ps_events :: "plan_log_entry list"

definition empty_plan_store :: plan_store where
  "empty_plan_store = \<lparr>ps_requests = [], ps_decisions = [], ps_attempts = [], ps_events = []\<rparr>"

definition request_row :: "string \<Rightarrow> plan_store \<Rightarrow> request_record option" where
  "request_row rid s = find (\<lambda>r. pq_request_id (rr_request r) = rid) (ps_requests s)"

definition decisions_for :: "string \<Rightarrow> plan_store \<Rightarrow> plan_decision list" where
  "decisions_for rid s = filter (\<lambda>d. pd_request_id d = rid) (ps_decisions s)"

definition attempts_for :: "string \<Rightarrow> plan_store \<Rightarrow> plan_attempt list" where
  "attempts_for rid s = filter (\<lambda>t. pt_request_id t = rid) (ps_attempts s)"

definition active_attempt :: "string \<Rightarrow> plan_store \<Rightarrow> plan_attempt option" where
  "active_attempt rid s = find (\<lambda>t. pt_completed_at t = None) (attempts_for rid s)"

text \<open>\<^verbatim>\<open>ORDER BY key DESC LIMIT 1\<close>; the keys end in the primary key.\<close>

definition last_by :: "('a \<Rightarrow> 'k::linorder) \<Rightarrow> 'a list \<Rightarrow> 'a option" where
  "last_by key xs = (if xs = [] then None else Some (last (sort_key key xs)))"

definition latest_decision :: "string \<Rightarrow> plan_store \<Rightarrow> plan_decision option" where
  "latest_decision rid s = last_by (\<lambda>d. (pd_decided_at d, pd_decision_id d)) (decisions_for rid s)"

definition latest_attempt :: "string \<Rightarrow> plan_store \<Rightarrow> plan_attempt option" where
  "latest_attempt rid s = last_by (\<lambda>t. (pt_started_at t, pt_receipt_id t)) (attempts_for rid s)"

definition log_event :: "string \<Rightarrow> string \<Rightarrow> json \<Rightarrow> plan_store \<Rightarrow> plan_store" where
  "log_event rid type details s = s\<lparr>ps_events := ps_events s @ [\<lparr>pv_request_id = rid, pv_type = type, pv_details = details\<rparr>]\<rparr>"

text \<open>The primary keys and the partial unique index \<^verbatim>\<open>plan_authority_one_active_execution\<close>.\<close>

definition put_attempts :: "plan_attempt list \<Rightarrow> plan_store \<Rightarrow> plan_store result" where
  "put_attempts ts s =
     (if \<not> distinct (map pt_receipt_id ts) then Err (UniqueViolation ''plan_authority_effect_receipts_pkey'')
      else if \<not> distinct (map pt_request_id (filter (\<lambda>t. pt_completed_at t = None) ts))
      then Err (UniqueViolation ''plan_authority_one_active_execution'')
      else Ok (s\<lparr>ps_attempts := ts\<rparr>))"

definition put_decision :: "plan_decision \<Rightarrow> plan_store \<Rightarrow> plan_store result" where
  "put_decision d s =
     (if pd_decision_id d \<in> set (map pd_decision_id (ps_decisions s)) then Err (UniqueViolation ''plan_authority_decisions_pkey'')
      else Ok (s\<lparr>ps_decisions := ps_decisions s @ [d]\<rparr>))"

section \<open>The transactions\<close>

definition create_plan_request :: "pylib \<Rightarrow> time \<Rightarrow> plan_request \<Rightarrow> plan_store \<Rightarrow> (request_record \<times> plan_store) result" where
  "create_plan_request lib now q s =
     (if request_row (pq_request_id q) s \<noteq> None then Err (ValueError ''request already exists'')
      else (let row = \<lparr>rr_request = q, rr_effect_hash = effect_hash lib (pq_effect q), rr_requested_at = now\<rparr>
            in Ok (row, log_event (pq_request_id q) ''requested'' (JObj [(''request_id'', JStr (pq_request_id q))])
                          (s\<lparr>ps_requests := ps_requests s @ [row]\<rparr>))))"

definition allowed_after :: "decision_kind option \<Rightarrow> decision_kind list" where
  "allowed_after prior =
     (case prior of
        None \<Rightarrow> [Approve, Hold, Reconcile]
      | Some Hold \<Rightarrow> [Approve, Reconcile]
      | Some Reconcile \<Rightarrow> [Approve, Hold]
      | Some Approve \<Rightarrow> [Hold, Reconcile])"

definition decision_guard :: "plan_decision \<Rightarrow> plan_store \<Rightarrow> plan_attempt option result" where
  "decision_guard d s =
     (case request_row (pd_request_id d) s of
        None \<Rightarrow> Err (ValueError ''request is absent'')
      | Some r \<Rightarrow>
          (let active = active_attempt (pd_request_id d) s;
               latest = latest_attempt (pd_request_id d) s;
               prior = map_option pd_kind (latest_decision (pd_request_id d) s)
           in if pq_expires_at (rr_request r) \<le> pd_decided_at d \<and> active = None then Err (ValueError ''request is expired'')
              else if active \<noteq> None \<and> pd_kind d \<noteq> Reconcile
              then Err (ValueError ''request has an unresolved execution attempt; reconcile it explicitly'')
              else if active \<noteq> None \<and> pd_evidence d = [] then Err (ValueError ''active execution reconciliation requires evidence'')
              else if active = None \<and> (case latest of None \<Rightarrow> False | Some t \<Rightarrow> pt_outcome t \<noteq> Some ''retry'')
              then Err (ValueError ''request has a terminal execution outcome'')
              else if pd_kind d \<notin> set (allowed_after prior)
              then Err (ValueError (''invalid authority transition '' @ (case prior of None \<Rightarrow> ''pending'' | Some k \<Rightarrow> decision_value k)
                     @ '' -> '' @ decision_value (pd_kind d)))
              else Ok active))"

definition complete_attempt ::
  "string \<Rightarrow> string list \<Rightarrow> string option \<Rightarrow> string \<Rightarrow> time \<Rightarrow> plan_attempt \<Rightarrow> plan_attempt" where
  "complete_attempt outcome evidence rollback detail now t =
     t\<lparr>pt_outcome := Some outcome, pt_evidence := evidence, pt_rollback := rollback, pt_detail := detail, pt_completed_at := Some now\<rparr>"

text \<open>\<^verbatim>\<open>UPDATE ... WHERE receipt_id=... AND completed_at IS NULL\<close>\<close>

definition attempt_update :: "uuid \<Rightarrow> (plan_attempt \<Rightarrow> plan_attempt) \<Rightarrow> plan_store \<Rightarrow> plan_store result" where
  "attempt_update i f s = put_attempts (map (\<lambda>t. if pt_receipt_id t = i \<and> pt_completed_at t = None then f t else t) (ps_attempts s)) s"

definition decision_json :: "(time \<Rightarrow> string) \<Rightarrow> plan_decision \<Rightarrow> json" where
  "decision_json strtime d = JObj
     [(''decision_id'', JStr (pd_decision_id d)), (''request_id'', JStr (pd_request_id d)), (''kind'', JStr (decision_value (pd_kind d))),
      (''decided_by'', JStr (pd_decided_by d)), (''reason'', JStr (pd_reason d)), (''reconciliation_evidence'', jstrs (pd_evidence d)),
      (''decided_at'', JStr (strtime (pd_decided_at d)))]"

text \<open>A decision while an attempt is active settles the attempt as ambiguous.\<close>

definition decide :: "(time \<Rightarrow> string) \<Rightarrow> plan_decision \<Rightarrow> plan_store \<Rightarrow> ((plan_decision \<times> uuid option) \<times> plan_store) result" where
  "decide strtime d s =
     bind_result (decision_guard d s) (\<lambda>active.
     bind_result (case active of
         None \<Rightarrow> Ok s
       | Some t \<Rightarrow> attempt_update (pt_receipt_id t)
           (\<lambda>x. x\<lparr>pt_outcome := Some ''ambiguous'', pt_evidence := pd_evidence d,
                  pt_detail := ''reconciled active execution as ambiguous: '' @ pd_reason d, pt_completed_at := Some (pd_decided_at d)\<rparr>) s) (\<lambda>s1.
     bind_result (put_decision d s1) (\<lambda>s2.
       let s3 = (case active of
                   None \<Rightarrow> s2
                 | Some t \<Rightarrow> log_event (pd_request_id d) ''execution-reconciled'' (JObj
                     [(''receipt_id'', JStr (pt_receipt_id t)), (''outcome'', JStr ''ambiguous''), (''evidence'', jstrs (pd_evidence d))]) s2)
       in Ok ((d, map_option pt_receipt_id active), log_event (pd_request_id d) ''decided'' (decision_json strtime d) s3))))"

definition execution_json :: "(time \<Rightarrow> string) \<Rightarrow> plan_attempt \<Rightarrow> json" where
  "execution_json isofmt t = JObj
     [(''schema'', JStr ''tgw-plan-effect-receipt/v2''), (''receipt_id'', JStr (pt_receipt_id t)), (''request_id'', JStr (pt_request_id t)),
      (''effect_hash'', JStr (pt_effect_hash t)), (''generation'', JStr (pt_generation t)), (''handler_id'', JStr (pt_handler_id t)),
      (''executor_principal'', JStr (pt_executor t)), (''started_at'', JStr (isofmt (pt_started_at t)))]"

text \<open>The condition of the \<^verbatim>\<open>INSERT ... SELECT\<close>.\<close>

definition may_begin :: "string \<Rightarrow> string \<Rightarrow> time \<Rightarrow> string \<Rightarrow> plan_store \<Rightarrow> request_record \<Rightarrow> bool" where
  "may_begin hash gen now rid s r \<longleftrightarrow>
     pq_expires_at (rr_request r) > now \<and> rr_effect_hash r = hash \<and> te_generation (pq_effect (rr_request r)) = gen
     \<and> map_option pd_kind (latest_decision rid s) = Some Approve
     \<and> \<not> list_ex (\<lambda>t. pt_completed_at t \<noteq> None \<and> (case pt_outcome t of None \<Rightarrow> False | Some o' \<Rightarrow> o' \<noteq> ''retry'')) (attempts_for rid s)
     \<and> active_attempt rid s = None"

definition begin_execution ::
  "(time \<Rightarrow> string) \<Rightarrow> uuid \<Rightarrow> time \<Rightarrow> string \<Rightarrow> string \<Rightarrow> string \<Rightarrow> string \<Rightarrow> string \<Rightarrow> plan_store \<Rightarrow> (plan_attempt \<times> plan_store) result" where
  "begin_execution isofmt i now rid hash gen handler executor s =
     (if \<not> is_principal_identity executor \<or> \<not> starts_with executor ''executor:''
      then Err (ValueError ''configured executor principal is required'')
      else (case request_row rid s of
              None \<Rightarrow> Err (ValueError ''request is absent'')
            | Some r \<Rightarrow>
                (if \<not> may_begin hash gen now rid s r
                 then Err (ValueError ''effect is not approved, expired, mismatched, terminal, or already executing'')
                 else (let t = \<lparr>pt_receipt_id = i, pt_request_id = rid, pt_effect_hash = rr_effect_hash r,
                              pt_generation = te_generation (pq_effect (rr_request r)), pt_handler_id = handler, pt_executor = executor,
                              pt_started_at = now, pt_completed_at = None, pt_outcome = None, pt_evidence = [], pt_rollback = None, pt_detail = []\<rparr>
                       in bind_result (put_attempts (ps_attempts s @ [t]) s) (\<lambda>s1.
                            Ok (t, log_event rid ''execution-started'' (execution_json isofmt t) s1))))))"

definition store_outcomes :: "string list" where
  "store_outcomes = [''succeeded'', ''retry'', ''ambiguous'', ''rolled_back'', ''failed'']"

definition complete_execution ::
  "time \<Rightarrow> uuid \<Rightarrow> string \<Rightarrow> string list \<Rightarrow> string option \<Rightarrow> string \<Rightarrow> plan_store \<Rightarrow> (plan_attempt \<times> plan_store) result" where
  "complete_execution now i outcome evidence rollback detail s =
     (if outcome \<notin> set store_outcomes then Err (ValueError ''execution outcome is not registered'')
      else if [] \<in> set evidence then Err (ValueError ''execution receipt content is invalid'')
      else (case pg_uuid i of
              None \<Rightarrow> Err (DatabaseError ''invalid input syntax for type uuid'')
            | Some u \<Rightarrow>
                (case find (\<lambda>t. pt_receipt_id t = u \<and> pt_completed_at t = None) (ps_attempts s) of
                   None \<Rightarrow> Err (ValueError ''execution receipt is absent or already completed'')
                 | Some t \<Rightarrow>
                     bind_result (attempt_update u (complete_attempt outcome (sorted_set evidence) rollback detail now) s) (\<lambda>s1.
                       Ok (complete_attempt outcome (sorted_set evidence) rollback detail now t,
                           log_event (pt_request_id t) ''execution-completed'' (JObj
                             [(''receipt_id'', JStr (pt_receipt_id t)), (''outcome'', JStr outcome),
                              (''rollback_receipt'', (case rollback of None \<Rightarrow> JNull | Some x \<Rightarrow> JStr x))]) s1)))))"

section \<open>Reading\<close>

record request_projection =
  rp_request :: request_record
  rp_decision :: "plan_decision option"
  rp_attempt :: "plan_attempt option"

definition project_request :: "plan_store \<Rightarrow> request_record \<Rightarrow> request_projection" where
  "project_request s r =
     \<lparr>rp_request = r, rp_decision = latest_decision (pq_request_id (rr_request r)) s,
      rp_attempt = latest_attempt (pq_request_id (rr_request r)) s\<rparr>"

definition get_request :: "string \<Rightarrow> plan_store \<Rightarrow> request_projection option" where
  "get_request rid s = map_option (project_request s) (request_row rid s)"

definition list_requests :: "int \<Rightarrow> plan_store \<Rightarrow> request_projection list result" where
  "list_requests limit s =
     (if limit < 0 then Err (DatabaseError ''LIMIT must not be negative'')
      else Ok (map (project_request s) (take (nat limit) (rev (sort_key rr_requested_at (ps_requests s))))))"

definition request_events :: "string \<Rightarrow> plan_store \<Rightarrow> plan_log_entry list" where
  "request_events rid s = filter (\<lambda>e. pv_request_id e = rid) (ps_events s)"

section \<open>The routes\<close>

text \<open>A route answers, raises an \<^verbatim>\<open>HTTPException\<close>, or lets another exception through. What the authentication dependency returns is
  \<^const>\<open>None\<close> when it is not a principal.\<close>

datatype 'a route = Answer 'a | Http int string | Route_raises py_error

definition require_principal :: "authority_principal option \<Rightarrow> principal_role \<Rightarrow> authority_principal route" where
  "require_principal v r =
     (case v of
        None \<Rightarrow> Http 401 (''configured authenticated '' @ role_value r @ '' principal is required'')
      | Some p \<Rightarrow> (if ap_role p \<noteq> r then Http 401 (''configured authenticated '' @ role_value r @ '' principal is required'') else Answer p))"

text \<open>\<^verbatim>\<open>except ValueError\<close>, with the subclasses of it that the solver raises.\<close>

fun value_error_text :: "py_error \<Rightarrow> string option" where
  "value_error_text (ValueError m) = Some m"
| "value_error_text (PlanResolutionError m) = Some m"
| "value_error_text (StalePlanCommit m) = Some m"
| "value_error_text e = None"

fun key_error_text :: "py_error \<Rightarrow> string option" where
  "key_error_text (KeyError m) = Some ([CHR 0x27] @ m @ [CHR 0x27])"
| "key_error_text e = None"

definition conflict_route :: "bool \<Rightarrow> py_error \<Rightarrow> 'a route" where
  "conflict_route keys e =
     (case value_error_text e of
        Some m \<Rightarrow> Http 409 m
      | None \<Rightarrow> (case (if keys then key_error_text e else None) of Some m \<Rightarrow> Http 409 m | None \<Rightarrow> Route_raises e))"

text \<open>\<open>load\<close> reads a solution by its hash and \<open>commit\<close> is the current Plan commit.\<close>

definition request_route ::
  "pylib \<Rightarrow> (json \<Rightarrow> string) \<Rightarrow> isolib \<Rightarrow> (string \<Rightarrow> string) \<Rightarrow> (string \<Rightarrow> jobj result) \<Rightarrow> string \<Rightarrow> time \<Rightarrow> time \<Rightarrow> jobj \<Rightarrow>
   authority_principal option \<Rightarrow> plan_store \<Rightarrow> request_record route \<times> plan_store" where
  "request_route lib cs il isotext load commit now db_now body who s =
     (case require_principal who Operator of
        Answer p \<Rightarrow>
          (let payload = AList.update ''requested_by'' (JStr (ap_identity p)) body
           in case bind_result (if has_key payload ''solution_hash'' then load (py_str lib cs (jget payload ''solution_hash''))
                                else Err (KeyError ''solution_hash'')) (\<lambda>solution.
                   bind_result (plan_request_of lib cs il isotext payload solution commit now) (\<lambda>q. create_plan_request lib db_now q s)) of
                Inl e \<Rightarrow> (conflict_route True e, s)
              | Inr (row, s') \<Rightarrow> (Answer row, s'))
      | Http c m \<Rightarrow> (Http c m, s)
      | Route_raises e \<Rightarrow> (Route_raises e, s))"

definition decide_route ::
  "pylib \<Rightarrow> (time \<Rightarrow> string) \<Rightarrow> (time \<Rightarrow> string) \<Rightarrow> time \<Rightarrow> string \<Rightarrow> jobj \<Rightarrow> authority_principal option \<Rightarrow> plan_store \<Rightarrow>
   (plan_decision \<times> uuid option) route \<times> plan_store" where
  "decide_route lib isofmt strtime now rid body who s =
     (case require_principal who Operator of
        Answer p \<Rightarrow>
          (case bind_result (plan_decision_of lib isofmt rid (AList.update ''decided_by'' (JStr (ap_identity p)) body) now)
                  (\<lambda>d. decide strtime d s) of
             Inl e \<Rightarrow> (conflict_route False e, s)
           | Inr (r, s') \<Rightarrow> (Answer r, s'))
      | Http c m \<Rightarrow> (Http c m, s)
      | Route_raises e \<Rightarrow> (Route_raises e, s))"

text \<open>What \<^verbatim>\<open>consume\<close> hands to the executor: the stored effect, whose hash must be the stored one.\<close>

definition stored_effect :: "pylib \<Rightarrow> request_record \<Rightarrow> typed_effect result" where
  "stored_effect lib r =
     bind_result (parse_effect (JObj [(''kind'', JStr (kind_value (te_kind (pq_effect (rr_request r))))),
         (''generation'', JStr (te_generation (pq_effect (rr_request r)))), (''parameters'', JObj (te_parameters (pq_effect (rr_request r))))])) (\<lambda>e.
       if effect_hash lib e \<noteq> rr_effect_hash r then Err (ValueError ''stored request effect binding is invalid'') else Ok e)"

definition consume_target :: "pylib \<Rightarrow> jobj \<Rightarrow> bool \<Rightarrow> string \<Rightarrow> authority_principal option \<Rightarrow> plan_store \<Rightarrow> (typed_effect \<times> string) route" where
  "consume_target lib body mounted rid who s =
     (if body \<noteq> [] then conflict_route True (ValueError ''consume takes no effect payload; the approved request is authoritative'')
      else if \<not> mounted then conflict_route True (ValueError ''no registered effect executor is mounted'')
      else (case require_principal who Executor of
              Answer p \<Rightarrow>
                (case get_request rid s of
                   None \<Rightarrow> conflict_route True (ValueError ''request not found'')
                 | Some row \<Rightarrow>
                     (case stored_effect lib (rp_request row) of
                        Inl e \<Rightarrow> conflict_route True e
                      | Inr e \<Rightarrow> Answer (e, ap_identity p)))
            | Http c m \<Rightarrow> Http c m
            | Route_raises e \<Rightarrow> Route_raises e))"

section \<open>The schema\<close>

definition created_tables :: "string list" where
  "created_tables = [''plan_authority_requests'', ''plan_authority_decisions'', ''plan_authority_effect_receipts'', ''plan_authority_events'']"

definition REQUIRED_TABLES :: "string list" where
  "REQUIRED_TABLES =
     [''plan_authority_requests'', ''plan_authority_decisions'', ''plan_authority_effect_receipts'',
      ''plan_authority_execution_receipts'', ''plan_authority_events'']"

definition require_plan_authority_schema :: "string \<Rightarrow> string list \<Rightarrow> string option \<Rightarrow> unit result" where
  "require_plan_authority_schema dsn tables constr =
     (if dsn = [] then Err (ValueError ''PlanAuthority database is not configured'')
      else if \<not> set REQUIRED_TABLES \<subseteq> set tables then Err (RuntimeError ''PlanAuthority schema is incomplete'')
      else if \<not> (case constr of None \<Rightarrow> False | Some c \<Rightarrow> contains_sub ''nixos-a3-successor-evaluation'' c)
      then Err (RuntimeError ''PlanAuthority effect-kind constraint is stale'')
      else Ok ())"

text \<open>No database that has the tables of the migration and no other passes the check: it asks for one more.\<close>

lemma fresh_schema_refused: "\<not> is_ok (require_plan_authority_schema dsn created_tables c)"
  by (simp add: require_plan_authority_schema_def REQUIRED_TABLES_def created_tables_def)

end
