(* ===== verification/Effect_Controller.thy ===== *)
theory Effect_Controller
  imports Plan_Authority Item_Pipeline
begin

text \<open>
  The controller of \<^verbatim>\<open>effect_handlers.py\<close>: it claims an approved effect in the plan authority, runs the registered handler,
  rolls back where the code does, and records the outcome. The registry that is injected into it is an argument: it
  prepares an effect into a handler and perhaps a rollback, which act on a world of their own. The store may lose the
  answer of a transaction, before or after it was committed, the process may die in it, and other processes run
  transactions in between. Calls of handlers and rollbacks are logged.
\<close>

section \<open>Exceptions and runs\<close>

text \<open>The exceptions the controller tells apart, with their message and evidence. The evidence of a consumption that is ambiguous is
  never empty: its first entry is kept apart.\<close>

datatype effect_exn =
    Retryable_effect string "string list"
  | Ambiguous_effect string "string list"
  | Held_effect string "string list"
  | Handler_error string "string list"
  | State_ambiguous string "string list" bool
  | Consumption_ambiguous string string "string list"
  | Other_exn py_error

fun exn_text :: "effect_exn \<Rightarrow> string" where
  "exn_text (Retryable_effect m ev) = m"
| "exn_text (Ambiguous_effect m ev) = m"
| "exn_text (Held_effect m ev) = m"
| "exn_text (Handler_error m ev) = m"
| "exn_text (State_ambiguous m ev r) = m"
| "exn_text (Consumption_ambiguous m o' ev) = m"
| "exn_text (Other_exn e) = error_text e"

datatype 'a ended = Gives 'a | Throws effect_exn | Perishes

text \<open>What can happen to the answer of a transaction.\<close>

datatype answer_fault = Lost_before py_error | Lost_after py_error | Killed_before | Killed_after

datatype effect_call = Called_handler string | Called_rollback string

record 'w execution =
  ex_store :: plan_store
  ex_world :: 'w
  ex_faults :: "answer_fault option list"
  ex_calls :: "effect_call list"
  ex_ticks :: nat

type_synonym ('a, 'w) act = "'w execution \<Rightarrow> 'a ended \<times> 'w execution"

definition giving :: "'a \<Rightarrow> ('a, 'w) act" where
  "giving v x = (Gives v, x)"

definition throwing :: "effect_exn \<Rightarrow> ('a, 'w) act" where
  "throwing e x = (Throws e, x)"

definition followed_by :: "('a, 'w) act \<Rightarrow> ('a \<Rightarrow> ('b, 'w) act) \<Rightarrow> ('b, 'w) act" where
  "followed_by m k x = (case m x of (Gives v, x') \<Rightarrow> k v x' | (Throws e, x') \<Rightarrow> (Throws e, x') | (Perishes, x') \<Rightarrow> (Perishes, x'))"

definition rescued :: "('a, 'w) act \<Rightarrow> (effect_exn \<Rightarrow> ('a, 'w) act) \<Rightarrow> ('a, 'w) act" where
  "rescued m h x = (case m x of (Throws e, x') \<Rightarrow> h e x' | r \<Rightarrow> r)"

text \<open>A transaction at its time, after what other processes did; the fault, if any, is the next of the list.\<close>

record surroundings =
  su_clock :: "nat \<Rightarrow> time"
  su_others :: "nat \<Rightarrow> plan_store \<Rightarrow> plan_store"

definition transact :: "surroundings \<Rightarrow> (time \<Rightarrow> plan_store \<Rightarrow> ('a \<times> plan_store) result) \<Rightarrow> ('a, 'w) act" where
  "transact su t x =
     (let s = su_others su (ex_ticks x) (ex_store x);
          y = x\<lparr>ex_store := s, ex_ticks := Suc (ex_ticks x), ex_faults := tl (ex_faults x)\<rparr>;
          fault = (case ex_faults x of [] \<Rightarrow> None | f # _ \<Rightarrow> f)
      in case t (su_clock su (ex_ticks x)) s of
           Inl e \<Rightarrow> (Throws (Other_exn e), y)
         | Inr (v, s') \<Rightarrow>
             (case fault of
                None \<Rightarrow> (Gives v, y\<lparr>ex_store := s'\<rparr>)
              | Some (Lost_before e) \<Rightarrow> (Throws (Other_exn e), y)
              | Some (Lost_after e) \<Rightarrow> (Throws (Other_exn e), y\<lparr>ex_store := s'\<rparr>)
              | Some Killed_before \<Rightarrow> (Perishes, y)
              | Some Killed_after \<Rightarrow> (Perishes, y\<lparr>ex_store := s'\<rparr>)))"

definition in_world :: "('w \<Rightarrow> 'a ended \<times> 'w) \<Rightarrow> ('a, 'w) act" where
  "in_world f x = (case f (ex_world x) of (r, w) \<Rightarrow> (r, x\<lparr>ex_world := w\<rparr>))"

definition calling :: "effect_call \<Rightarrow> ('w \<Rightarrow> 'a ended \<times> 'w) \<Rightarrow> ('a, 'w) act" where
  "calling c f x = in_world f (x\<lparr>ex_calls := ex_calls x @ [c]\<rparr>)"

section \<open>What is injected\<close>

text \<open>The result of a handler as the controller reads it: \<^verbatim>\<open>str\<close> of the evidence, and two entries. A result that is not a mapping or
  has evidence that is not iterable is an exception.\<close>

record handler_result =
  hr_evidence :: "string list"
  hr_terminal_outcome :: json
  hr_rollback_receipt :: json

record 'w prepared =
  pp_handler_id :: string
  pp_handler :: "'w \<Rightarrow> handler_result ended \<times> 'w"
  pp_rollback :: "('w \<Rightarrow> string ended \<times> 'w) option"

record 'w registry =
  rg_prepare :: "typed_effect \<Rightarrow> 'w \<Rightarrow> 'w prepared ended \<times> 'w"
  rg_app_bootstrap :: bool

text \<open>The authority has the two durable methods, is callable, or both. A callable authority returns the id of its receipt.\<close>

record 'w authority_seam =
  se_durable_methods :: bool
  se_callable :: "(string \<Rightarrow> string \<Rightarrow> string \<Rightarrow> 'w \<Rightarrow> string ended \<times> 'w) option"
  se_recorder :: "(json \<Rightarrow> 'w \<Rightarrow> json ended \<times> 'w) option"
  se_bound_evidence :: "string list"

definition uses_durable :: "'w authority_seam \<Rightarrow> string option \<Rightarrow> bool" where
  "uses_durable se executor = (se_durable_methods se \<and> (se_callable se = None \<or> executor \<noteq> None))"

definition make_seam :: "bool \<Rightarrow> (string \<Rightarrow> string \<Rightarrow> string \<Rightarrow> 'w \<Rightarrow> string ended \<times> 'w) option \<Rightarrow> (json \<Rightarrow> 'w \<Rightarrow> json ended \<times> 'w) option \<Rightarrow>
    string list \<Rightarrow> 'w authority_seam result" where
  "make_seam durable call recorder bound =
     (if [] \<in> set bound then Err (ValueError ''controller-bound evidence is invalid'')
      else Ok \<lparr>se_durable_methods = durable, se_callable = call, se_recorder = recorder, se_bound_evidence = sorted_set bound\<rparr>)"

section \<open>Receipts\<close>

datatype effect_outcome = Out_succeeded | Out_retry | Out_hold | Out_ambiguous | Out_rolled_back | Out_failed

definition outcome_value :: "effect_outcome \<Rightarrow> string" where
  "outcome_value o' =
     (case o' of Out_succeeded \<Rightarrow> ''succeeded'' | Out_retry \<Rightarrow> ''retry'' | Out_hold \<Rightarrow> ''hold'' | Out_ambiguous \<Rightarrow> ''ambiguous''
      | Out_rolled_back \<Rightarrow> ''rolled_back'' | Out_failed \<Rightarrow> ''failed'')"

record execution_receipt =
  xr_schema :: string
  xr_request_id :: string
  xr_authority_receipt_id :: string
  xr_effect_hash :: string
  xr_kind :: string
  xr_generation :: string
  xr_handler_id :: string
  xr_outcome :: effect_outcome
  xr_evidence :: "string list"
  xr_rollback :: "string option"
  xr_detail :: string
  xr_executor :: "string option"

definition opt_json :: "string option \<Rightarrow> json" where
  "opt_json v = (case v of None \<Rightarrow> JNull | Some s \<Rightarrow> JStr s)"

definition receipt_mapping :: "execution_receipt \<Rightarrow> jobj" where
  "receipt_mapping r =
     [(''schema'', JStr (xr_schema r)), (''request_id'', JStr (xr_request_id r)), (''authority_receipt_id'', JStr (xr_authority_receipt_id r)),
      (''effect_hash'', JStr (xr_effect_hash r)), (''effect_kind'', JStr (xr_kind r)), (''generation'', JStr (xr_generation r)),
      (''handler_id'', JStr (xr_handler_id r)), (''outcome'', JStr (outcome_value (xr_outcome r))), (''evidence'', jstrs (xr_evidence r)),
      (''rollback_receipt'', opt_json (xr_rollback r)), (''detail'', JStr (xr_detail r))]
     @ (case xr_executor r of None \<Rightarrow> [] | Some e \<Rightarrow> [(''executor_principal'', JStr e)])"

text \<open>\<^verbatim>\<open>_canonical\<close> of this module escapes what is not ASCII.\<close>

definition ascii_hash :: "pylib \<Rightarrow> json \<Rightarrow> string" where
  "ascii_hash lib v = sha256_hex lib (dumps dump_ascii lib v)"

definition receipt_hash :: "pylib \<Rightarrow> execution_receipt \<Rightarrow> string" where
  "receipt_hash lib r = ''sha256:'' @ ascii_hash lib (JObj (receipt_mapping r))"

definition sealed_mapping :: "pylib \<Rightarrow> execution_receipt \<Rightarrow> json" where
  "sealed_mapping lib r = JObj (receipt_mapping r @ [(''receipt_hash'', JStr (receipt_hash lib r))])"

text \<open>The arguments of one execution after the effect was prepared.\<close>

record 'w task =
  tk_request_id :: string
  tk_receipt_id :: string
  tk_effect :: typed_effect
  tk_handler_id :: string
  tk_executor :: "string option"

definition make_receipt :: "pylib \<Rightarrow> 'w task \<Rightarrow> effect_outcome \<Rightarrow> string list \<Rightarrow> string option \<Rightarrow> string \<Rightarrow> string option \<Rightarrow> execution_receipt" where
  "make_receipt lib t o' evidence rollback detail executor =
     \<lparr>xr_schema = (if executor \<noteq> None then ''tgw-effect-execution-receipt/v2'' else ''tgw-effect-execution-receipt/v1''),
      xr_request_id = tk_request_id t, xr_authority_receipt_id = tk_receipt_id t, xr_effect_hash = effect_hash lib (tk_effect t),
      xr_kind = kind_value (te_kind (tk_effect t)), xr_generation = te_generation (tk_effect t), xr_handler_id = tk_handler_id t,
      xr_outcome = o', xr_evidence = evidence, xr_rollback = rollback, xr_detail = detail, xr_executor = executor\<rparr>"

text \<open>The answer of the recorder must name the hash of the receipt.\<close>

definition recorder_accepts :: "string \<Rightarrow> json \<Rightarrow> bool" where
  "recorder_accepts h v =
     (case v of JObj d \<Rightarrow> jget d ''receipt_hash'' = JStr h \<and> (case jget d ''receipt'' of JStr s \<Rightarrow> s \<noteq> [] | _ \<Rightarrow> False) | _ \<Rightarrow> False)"

definition finish_effect ::
  "pylib \<Rightarrow> surroundings \<Rightarrow> 'w authority_seam \<Rightarrow> 'w task \<Rightarrow> effect_outcome \<Rightarrow> string list \<Rightarrow> string option \<Rightarrow> string \<Rightarrow> (execution_receipt, 'w) act" where
  "finish_effect lib su se t o' evidence rollback detail =
     (let evidence' = sorted_set (evidence @ se_bound_evidence se)
      in if uses_durable se (tk_executor t)
         then followed_by (transact su (\<lambda>now. complete_execution now (tk_receipt_id t) (outcome_value o') evidence' rollback detail))
                (\<lambda>_. giving (make_receipt lib t o' evidence' rollback detail (tk_executor t)))
         else (let r = make_receipt lib t o' evidence' rollback detail None
               in case se_recorder se of
                    None \<Rightarrow> giving r
                  | Some record_it \<Rightarrow>
                      (let lost = [''effect-terminal-persistence:'' @ receipt_hash lib r]
                       in rescued
                            (followed_by (in_world (record_it (sealed_mapping lib r))) (\<lambda>v.
                               if recorder_accepts (receipt_hash lib r) v then giving r
                               else throwing (Other_exn (OSError ''terminal recorder returned a mismatched receipt''))))
                            (\<lambda>_. if o' = Out_succeeded
                                 then throwing (State_ambiguous ''successful provider result could not be durably terminated'' lost True)
                                 else giving (make_receipt lib t Out_ambiguous lost rollback
                                        ''terminal execution receipt persistence is ambiguous'' None)))))"

section \<open>One execution\<close>

text \<open>The call of the rollback and the end it gives, \<^verbatim>\<open>return self._finish(..., ROLLED_BACK, ...)\<close>; and what the code does when that
  raises. The three places that roll back differ in the evidence they keep.\<close>

definition rollback_attempt ::
  "pylib \<Rightarrow> surroundings \<Rightarrow> 'w authority_seam \<Rightarrow> 'w task \<Rightarrow> ('w \<Rightarrow> string ended \<times> 'w) option \<Rightarrow> string list \<Rightarrow> string \<Rightarrow> (execution_receipt, 'w) act" where
  "rollback_attempt lib su se t rollback kept m =
     followed_by (case rollback of
                    None \<Rightarrow> throwing (Other_exn (RuntimeError ''W09 reconciliation provider is absent''))
                  | Some f \<Rightarrow> calling (Called_rollback (tk_receipt_id t)) f)
       (\<lambda>receipt. finish_effect lib su se t Out_rolled_back kept (Some receipt) m)"

definition roll_back ::
  "pylib \<Rightarrow> surroundings \<Rightarrow> 'w authority_seam \<Rightarrow> 'w task \<Rightarrow> ('w \<Rightarrow> string ended \<times> 'w) option \<Rightarrow> string list \<Rightarrow> string \<Rightarrow> (execution_receipt, 'w) act" where
  "roll_back lib su se t rollback kept m =
     rescued (rollback_attempt lib su se t rollback kept m)
       (\<lambda>e. let detail = ''effect='' @ m @ ''; rollback='' @ exn_text e
            in case e of
                 State_ambiguous rm ev r \<Rightarrow> finish_effect lib su se t Out_ambiguous (kept @ ev) None detail
               | _ \<Rightarrow> finish_effect lib su se t Out_failed kept None detail)"

definition ambiguity_observation :: "pylib \<Rightarrow> 'w task \<Rightarrow> string \<Rightarrow> string" where
  "ambiguity_observation lib t detail = ''effect-ambiguity-memory:sha256:'' @ ascii_hash lib (JObj
     [(''schema'', JStr ''tgw-effect-ambiguity-observation/v1''), (''request_id'', JStr (tk_request_id t)),
      (''authority_receipt_id'', JStr (tk_receipt_id t)), (''effect_hash'', JStr (effect_hash lib (tk_effect t))),
      (''generation'', JStr (te_generation (tk_effect t))), (''handler_id'', JStr (tk_handler_id t)), (''detail'', JStr detail)])"

definition handle_exn ::
  "pylib \<Rightarrow> surroundings \<Rightarrow> 'w authority_seam \<Rightarrow> bool \<Rightarrow> 'w task \<Rightarrow> ('w \<Rightarrow> string ended \<times> 'w) option \<Rightarrow> effect_exn \<Rightarrow> (execution_receipt, 'w) act" where
  "handle_exn lib su se app t rollback e =
     (let finish = finish_effect lib su se t
      in case e of
           Retryable_effect m ev \<Rightarrow>
             (if te_kind (tk_effect t) = Approval_platform_bootstrap_deployment \<and> app then roll_back lib su se t rollback ev m
              else finish Out_retry ev None m)
         | Held_effect m ev \<Rightarrow> finish Out_hold ev None m
         | Ambiguous_effect m ev \<Rightarrow>
             finish Out_ambiguous (if ev = [] \<and> \<not> uses_durable se (tk_executor t) then [ambiguity_observation lib t m] else ev) None m
         | State_ambiguous m ev must \<Rightarrow>
             (if must \<and> rollback \<noteq> None then roll_back lib su se t rollback ev m else finish Out_ambiguous ev None m)
         | Handler_error m ev \<Rightarrow> (if rollback \<noteq> None then roll_back lib su se t rollback [] m else finish Out_failed ev None m)
         | _ \<Rightarrow> (if rollback \<noteq> None then roll_back lib su se t rollback [] (exn_text e) else finish Out_failed [] None (exn_text e)))"

definition handler_attempt ::
  "pylib \<Rightarrow> surroundings \<Rightarrow> 'w authority_seam \<Rightarrow> bool \<Rightarrow> 'w prepared \<Rightarrow> 'w task \<Rightarrow> (execution_receipt, 'w) act" where
  "handler_attempt lib su se app p t =
     followed_by (calling (Called_handler (tk_receipt_id t)) (pp_handler p)) (\<lambda>r.
       case hr_rollback_receipt r of
         JStr receipt \<Rightarrow>
           (if te_kind (tk_effect t) = Approval_platform_bootstrap_deployment \<and> app \<and> hr_terminal_outcome r = JStr ''rolled_back''
            then finish_effect lib su se t Out_rolled_back (hr_evidence r) (Some receipt) ''remote transaction restored predecessor before returning''
            else finish_effect lib su se t Out_succeeded (hr_evidence r) None [])
       | _ \<Rightarrow> finish_effect lib su se t Out_succeeded (hr_evidence r) None [])"

definition run_handler ::
  "pylib \<Rightarrow> surroundings \<Rightarrow> 'w authority_seam \<Rightarrow> bool \<Rightarrow> 'w prepared \<Rightarrow> 'w task \<Rightarrow> (execution_receipt, 'w) act" where
  "run_handler lib su se app p t = rescued (handler_attempt lib su se app p t) (handle_exn lib su se app t (pp_rollback p))"

text \<open>\<open>fresh\<close> is the generated id of the durable attempt.\<close>

definition execute_effect ::
  "pylib \<Rightarrow> (time \<Rightarrow> string) \<Rightarrow> surroundings \<Rightarrow> 'w registry \<Rightarrow> 'w authority_seam \<Rightarrow> uuid \<Rightarrow> string \<Rightarrow> typed_effect \<Rightarrow> string option \<Rightarrow>
   (execution_receipt, 'w) act" where
  "execute_effect lib isofmt su rg se fresh rid effect executor =
     followed_by (in_world (rg_prepare rg effect)) (\<lambda>p.
       let task = (\<lambda>i who. \<lparr>tk_request_id = rid, tk_receipt_id = i, tk_effect = effect, tk_handler_id = pp_handler_id p, tk_executor = who\<rparr>)
       in if uses_durable se executor
          then (case executor of
                  None \<Rightarrow> throwing (Other_exn (ValueError ''executor principal is required for durable authority execution''))
                | Some who \<Rightarrow>
                    (if who = [] then throwing (Other_exn (ValueError ''executor principal is required for durable authority execution''))
                     else followed_by (transact su (\<lambda>now. begin_execution isofmt fresh now rid (effect_hash lib effect) (te_generation effect)
                              (pp_handler_id p) who)) (\<lambda>a.
                            run_handler lib su se (rg_app_bootstrap rg) p (task (pt_receipt_id a) executor))))
          else (case se_callable se of
                  None \<Rightarrow> throwing (Other_exn (ValueError ''authority execution seam is unavailable''))
                | Some call \<Rightarrow>
                    (\<lambda>x. case in_world (call rid (effect_hash lib effect) (te_generation effect)) x of
                       (Gives i, y) \<Rightarrow> run_handler lib su se (rg_app_bootstrap rg) p (task i executor) y
                     | (Throws (Consumption_ambiguous m i ev), y) \<Rightarrow>
                         finish_effect lib su se (task i None) Out_ambiguous (i # ev) None m y
                     | (Throws e, y) \<Rightarrow> (Throws e, y)
                     | (Perishes, y) \<Rightarrow> (Perishes, y))))"

section \<open>The route that consumes an approval\<close>

definition consume_route ::
  "pylib \<Rightarrow> (time \<Rightarrow> string) \<Rightarrow> surroundings \<Rightarrow> ('w registry \<times> 'w authority_seam) option \<Rightarrow> uuid \<Rightarrow> string \<Rightarrow> jobj \<Rightarrow> authority_principal option \<Rightarrow>
   'w execution \<Rightarrow> execution_receipt ended route \<times> 'w execution" where
  "consume_route lib isofmt su mounted fresh rid body who x =
     (case consume_target lib body (mounted \<noteq> None) rid who (ex_store x) of
        Http c m \<Rightarrow> (Http c m, x)
      | Route_raises e \<Rightarrow> (Route_raises e, x)
      | Answer (effect, executor) \<Rightarrow>
          (case mounted of
             None \<Rightarrow> (Answer Perishes, x)
           | Some (rg, se) \<Rightarrow>
               (case execute_effect lib isofmt su rg se fresh rid effect (Some executor) x of
                  (Throws (Other_exn e), y) \<Rightarrow> (conflict_route True e, y)
                | (r, y) \<Rightarrow> (Answer r, y))))"

end
