(* ===== verification/Plan_Authority_Steps.thy ===== *)
theory Plan_Authority_Steps
  imports Plan_Authority Ledger_Steps
begin

text \<open>
  The plan authority as a transition system: its invariant, two more interpretations of the locale \<open>one_way_table\<close>, and the
  life of a request. Whatever transactions are run, an approval is spent by the first attempt that does not end in a retry,
  every attempt was approved for exactly the stored effect, and the four tables implement a small state machine.
\<close>

section \<open>Last rows\<close>

lemma last_by_SomeD: "last_by key xs = Some x \<Longrightarrow> x \<in> set xs \<and> (\<forall>y\<in>set xs. key y \<le> key x)"
proof -
  assume a: "last_by key xs = Some x"
  then have "xs \<noteq> []" and x: "x = last (sort_key key xs)" by (auto simp: last_by_def split: if_splits)
  then have ne: "sort_key key xs \<noteq> []" by (metis length_0_conv length_sort)
  have "sorted (map key (butlast (sort_key key xs) @ [x]))" using ne x by simp
  then have "\<forall>y\<in>set (butlast (sort_key key xs)). key y \<le> key x" by (auto simp: sorted_append)
  moreover have "set xs = set (butlast (sort_key key xs) @ [x])" using ne x by (metis append_butlast_last_id set_sort)
  ultimately show ?thesis by auto
qed

lemma last_by_None [simp]: "last_by key xs = None \<longleftrightarrow> xs = []"
  by (simp add: last_by_def)

lemma last_by_append:
  assumes "inj_on key (set (xs @ [d]))"
  shows "last_by key (xs @ [d]) \<in> {Some d, last_by key xs}"
proof -
  obtain x where x: "last_by key (xs @ [d]) = Some x" by (metis last_by_None append_is_Nil_conv list.distinct(1) option.exhaust)
  note m = last_by_SomeD[OF x]
  show ?thesis
  proof (cases "x = d")
    case False
    then have mem: "x \<in> set xs" using m by auto
    then obtain y where y: "last_by key xs = Some y" by (cases "last_by key xs") auto
    have "key x \<le> key y" "key y \<le> key x" using m mem last_by_SomeD[OF y] by simp_all
    then have "key x = key y" by (rule antisym)
    then have "x = y" using assms mem last_by_SomeD[OF y] by (auto dest: inj_onD)
    then show ?thesis using x y by simp
  qed (simp add: x)
qed

lemma distinct_filter_map:
  assumes "\<And>t. g (f t) = g t" and "\<And>t. Q (f t) \<Longrightarrow> P t" and "distinct (map g (filter P ts))"
  shows "distinct (map g (filter Q (map f ts)))"
proof -
  have sub: "set (filter Q (map f us)) \<subseteq> f ` set (filter P us)" for us using assms(2) by auto
  show ?thesis using assms(3)
  proof (induction ts)
    case (Cons t ts)
    show ?case
    proof (cases "Q (f t)")
      case True
      then have "P t" by (rule assms(2))
      moreover have "g t \<notin> g ` set (filter Q (map f ts))" using Cons.prems \<open>P t\<close> sub[of ts] assms(1) by auto
      ultimately show ?thesis using Cons True assms(1) by simp
    next
      case False
      then show ?thesis using Cons by (cases "P t") auto
    qed
  qed simp
qed

section \<open>Transactions as steps\<close>

inductive plan_step :: "plan_store \<Rightarrow> plan_store \<Rightarrow> bool" where
  request: "create_plan_request lib now q s = Ok (row, s') \<Longrightarrow> plan_step s s'"
| decide: "decide strtime d s = Ok (x, s') \<Longrightarrow> plan_step s s'"
| start: "begin_execution isofmt i now rid hash gen handler executor s = Ok (t, s') \<Longrightarrow> plan_step s s'"
| finish: "complete_execution now i outcome evidence rollback detail s = Ok (t, s') \<Longrightarrow> plan_step s s'"

definition unreleased :: "plan_attempt \<Rightarrow> bool" where
  "unreleased t = (pt_outcome t \<noteq> Some ''retry'')"

text \<open>The invariant: the keys, one unreleased attempt per request, an outcome exactly when completed, attempts
  bound to their requests, and an approval behind every active attempt.\<close>

definition plan_store_ok :: "plan_store \<Rightarrow> bool" where
  "plan_store_ok s \<longleftrightarrow>
     distinct (map (pq_request_id \<circ> rr_request) (ps_requests s)) \<and> distinct (map pd_decision_id (ps_decisions s))
     \<and> distinct (map pt_receipt_id (ps_attempts s)) \<and> distinct (map pt_request_id (filter unreleased (ps_attempts s)))
     \<and> (\<forall>t\<in>set (ps_attempts s). (pt_completed_at t = None \<longleftrightarrow> pt_outcome t = None)
          \<and> (\<exists>r. request_row (pt_request_id t) s = Some r \<and> pt_effect_hash t = rr_effect_hash r
               \<and> pt_generation t = te_generation (pq_effect (rr_request r)))
          \<and> (pt_completed_at t = None \<longrightarrow> map_option pd_kind (latest_decision (pt_request_id t) s) = Some Approve))"

lemma empty_plan_store_ok: "plan_store_ok empty_plan_store"
  by (simp add: plan_store_ok_def empty_plan_store_def)

lemma log_event_simps [simp]:
  "ps_requests (log_event rid ty d s) = ps_requests s" "ps_decisions (log_event rid ty d s) = ps_decisions s"
  "ps_attempts (log_event rid ty d s) = ps_attempts s"
  by (simp_all add: log_event_def)

lemma put_attempts_OkD:
  "put_attempts ts s = Ok s' \<Longrightarrow> s' = s\<lparr>ps_attempts := ts\<rparr> \<and> distinct (map pt_receipt_id ts)"
  by (auto simp: put_attempts_def split: if_splits)

lemma put_decision_OkD:
  "put_decision d s = Ok s' \<Longrightarrow> s' = s\<lparr>ps_decisions := ps_decisions s @ [d]\<rparr> \<and> pd_decision_id d \<notin> set (map pd_decision_id (ps_decisions s))"
  by (auto simp: put_decision_def split: if_splits)

lemma active_NoneD: "active_attempt rid s = None \<Longrightarrow> t \<in> set (ps_attempts s) \<Longrightarrow> pt_request_id t = rid \<Longrightarrow> pt_completed_at t \<noteq> None"
  by (auto simp: active_attempt_def attempts_for_def find_None_iff)

lemma active_SomeD: "active_attempt rid s = Some t \<Longrightarrow> t \<in> set (ps_attempts s) \<and> pt_request_id t = rid \<and> pt_completed_at t = None"
  by (auto simp: active_attempt_def attempts_for_def dest: find_SomeD)

lemma active_iff: "active_attempt rid s \<noteq> None \<longleftrightarrow> (\<exists>t\<in>set (ps_attempts s). pt_request_id t = rid \<and> pt_completed_at t = None)"
  by (auto simp: active_attempt_def attempts_for_def find_None_iff)

section \<open>What each transaction does\<close>

definition settling :: "(plan_attempt \<Rightarrow> plan_attempt) \<Rightarrow> bool" where
  "settling f \<longleftrightarrow> (\<forall>t. pt_receipt_id (f t) = pt_receipt_id t \<and> pt_request_id (f t) = pt_request_id t \<and> pt_effect_hash (f t) = pt_effect_hash t
     \<and> pt_generation (f t) = pt_generation t \<and> pt_handler_id (f t) = pt_handler_id t \<and> pt_executor (f t) = pt_executor t
     \<and> pt_started_at (f t) = pt_started_at t \<and> pt_completed_at (f t) \<noteq> None \<and> pt_outcome (f t) \<noteq> None)"

definition settle_in :: "uuid \<Rightarrow> (plan_attempt \<Rightarrow> plan_attempt) \<Rightarrow> plan_store \<Rightarrow> plan_store" where
  "settle_in i f s = s\<lparr>ps_attempts := map (\<lambda>t. if pt_receipt_id t = i \<and> pt_completed_at t = None then f t else t) (ps_attempts s)\<rparr>"

lemma attempt_update_OkD: "attempt_update i f s = Ok s' \<Longrightarrow> s' = settle_in i f s"
  by (auto simp: attempt_update_def settle_in_def dest: put_attempts_OkD)

lemma decide_OkD:
  assumes "decide strtime d s = Ok (x, s')"
  obtains r active f where "request_row (pd_request_id d) s = Some r" "active_attempt (pd_request_id d) s = active" "settling f"
    "pd_kind d \<in> set (allowed_after (map_option pd_kind (latest_decision (pd_request_id d) s)))"
    "active = None \<Longrightarrow> pq_expires_at (rr_request r) > pd_decided_at d \<and>
       (\<forall>t. latest_attempt (pd_request_id d) s = Some t \<longrightarrow> pt_outcome t = Some ''retry'')"
    "\<And>t. active = Some t \<Longrightarrow> pd_kind d = Reconcile \<and> pt_outcome (f t) = Some ''ambiguous''"
    "pd_decision_id d \<notin> set (map pd_decision_id (ps_decisions s))"
    "ps_requests s' = ps_requests s" "ps_decisions s' = ps_decisions s @ [d]"
    "ps_attempts s' = (case active of None \<Rightarrow> ps_attempts s | Some t \<Rightarrow> ps_attempts (settle_in (pt_receipt_id t) f s))"
proof -
  obtain active where g: "decision_guard d s = Ok active" using assms by (cases "decision_guard d s") (auto simp: decide_def)
  let ?f = "\<lambda>x. x\<lparr>pt_outcome := Some ''ambiguous'', pt_evidence := pd_evidence d,
                  pt_detail := ''reconciled active execution as ambiguous: '' @ pd_reason d, pt_completed_at := Some (pd_decided_at d)\<rparr>"
  have f: "settling ?f" by (simp add: settling_def)
  obtain r where r: "request_row (pd_request_id d) s = Some r" using g by (auto simp: decision_guard_def split: option.splits)
  note g' = g[unfolded decision_guard_def r option.case Let_def]
  have a: "active_attempt (pd_request_id d) s = active" using g' by (simp split: if_splits)
  have k: "pd_kind d \<in> set (allowed_after (map_option pd_kind (latest_decision (pd_request_id d) s)))"
    using g' by (simp split: if_splits)
  have n: "pq_expires_at (rr_request r) > pd_decided_at d \<and>
       (\<forall>t. latest_attempt (pd_request_id d) s = Some t \<longrightarrow> pt_outcome t = Some ''retry'')" if "active = None"
    using g' that a by (auto split: if_splits)
  have y: "pd_kind d = Reconcile \<and> pt_outcome (?f t) = Some ''ambiguous''" if "active = Some t" for t
    using g' that a by (simp split: if_splits)
  obtain s1 where s1: "(case active of None \<Rightarrow> Ok s | Some t \<Rightarrow> attempt_update (pt_receipt_id t) ?f s) = Ok s1"
    using assms g by (cases "case active of None \<Rightarrow> Ok s | Some t \<Rightarrow> attempt_update (pt_receipt_id t) ?f s") (auto simp: decide_def)
  have s1': "s1 = (case active of None \<Rightarrow> s | Some t \<Rightarrow> settle_in (pt_receipt_id t) ?f s)"
    using s1 by (cases active) (auto dest: attempt_update_OkD)
  obtain s2 where s2: "put_decision d s1 = Ok s2" using assms g s1 by (cases "put_decision d s1") (auto simp: decide_def)
  note p = put_decision_OkD[OF s2]
  have "s' = log_event (pd_request_id d) ''decided'' (decision_json strtime d) (case active of
                   None \<Rightarrow> s2
                 | Some t \<Rightarrow> log_event (pd_request_id d) ''execution-reconciled'' (JObj
                     [(''receipt_id'', JStr (pt_receipt_id t)), (''outcome'', JStr ''ambiguous''), (''evidence'', jstrs (pd_evidence d))]) s2)"
    using assms g s1 s2 by (simp add: decide_def Let_def)
  then have "ps_requests s' = ps_requests s2 \<and> ps_decisions s' = ps_decisions s2 \<and> ps_attempts s' = ps_attempts s2"
    by (simp split: option.splits)
  then show thesis
    using that[OF r a f k n y] p s1' by (cases active) (simp_all add: settle_in_def)
qed

lemma begin_OkD:
  assumes "begin_execution isofmt i now rid hash gen handler executor s = Ok (t, s')"
  obtains r where "request_row rid s = Some r" "may_begin hash gen now rid s r" "is_principal_identity executor" "starts_with executor ''executor:''"
    "t = \<lparr>pt_receipt_id = i, pt_request_id = rid, pt_effect_hash = hash, pt_generation = gen, pt_handler_id = handler, pt_executor = executor,
      pt_started_at = now, pt_completed_at = None, pt_outcome = None, pt_evidence = [], pt_rollback = None, pt_detail = []\<rparr>"
    "ps_requests s' = ps_requests s" "ps_decisions s' = ps_decisions s" "ps_attempts s' = ps_attempts s @ [t]"
    "i \<notin> set (map pt_receipt_id (ps_attempts s))"
proof -
  obtain r where r: "request_row rid s = Some r" "may_begin hash gen now rid s r" "is_principal_identity executor" "starts_with executor ''executor:''"
    using assms by (auto simp: begin_execution_def split: if_splits option.splits)
  let ?t = "\<lparr>pt_receipt_id = i, pt_request_id = rid, pt_effect_hash = rr_effect_hash r, pt_generation = te_generation (pq_effect (rr_request r)),
      pt_handler_id = handler, pt_executor = executor, pt_started_at = now, pt_completed_at = None, pt_outcome = None, pt_evidence = [],
      pt_rollback = None, pt_detail = []\<rparr>"
  have h: "rr_effect_hash r = hash" "te_generation (pq_effect (rr_request r)) = gen" using r(2) by (simp_all add: may_begin_def)
  obtain s1 where s1: "put_attempts (ps_attempts s @ [?t]) s = Ok s1" and t: "t = ?t" and s': "s' = log_event rid ''execution-started'' (execution_json isofmt ?t) s1"
    using assms r by (cases "put_attempts (ps_attempts s @ [?t]) s") (auto simp: begin_execution_def Let_def)
  note p = put_attempts_OkD[OF s1]
  show thesis
    by (rule that[OF r]) (use p s' t h in auto)
qed

lemma complete_OkD:
  assumes "complete_execution now i outcome evidence rollback detail s = Ok (t', s')"
  obtains u t f where "pg_uuid i = Some u" "outcome \<in> set store_outcomes" "t \<in> set (ps_attempts s)" "pt_receipt_id t = u" "pt_completed_at t = None"
    "settling f" "t' = f t" "pt_outcome (f t) = Some outcome" "ps_requests s' = ps_requests s" "ps_decisions s' = ps_decisions s"
    "ps_attempts s' = ps_attempts (settle_in u f s)"
proof -
  obtain u where u: "pg_uuid i = Some u" using assms by (auto simp: complete_execution_def split: if_splits option.splits)
  have o: "outcome \<in> set store_outcomes" using assms by (auto simp: complete_execution_def split: if_splits)
  let ?f = "complete_attempt outcome (sorted_set evidence) rollback detail now"
  obtain t where t: "find (\<lambda>t. pt_receipt_id t = u \<and> pt_completed_at t = None) (ps_attempts s) = Some t"
    using assms u by (auto simp: complete_execution_def split: if_splits option.splits)
  obtain s1 where s1: "attempt_update u ?f s = Ok s1"
    using assms u t by (cases "attempt_update u ?f s") (auto simp: complete_execution_def split: if_splits)
  have s': "t' = ?f t" "ps_requests s' = ps_requests s1" "ps_decisions s' = ps_decisions s1" "ps_attempts s' = ps_attempts s1"
    using assms u t s1 by (auto simp: complete_execution_def split: if_splits)
  have f: "settling ?f" "pt_outcome (?f t) = Some outcome" by (simp_all add: settling_def complete_attempt_def)
  have "t \<in> set (ps_attempts s)" "pt_receipt_id t = u" "pt_completed_at t = None" using find_SomeD[OF t] by simp_all
  from that[OF u o this f(1) s'(1) f(2)] s' attempt_update_OkD[OF s1] show thesis by (simp add: settle_in_def)
qed

lemma create_OkD:
  assumes "create_plan_request lib now q s = Ok (row, s')"
  shows "request_row (pq_request_id q) s = None" "ps_requests s' = ps_requests s @ [row]" "rr_request row = q"
    "rr_effect_hash row = effect_hash lib (pq_effect q)" "ps_decisions s' = ps_decisions s" "ps_attempts s' = ps_attempts s"
  using assms by (auto simp: create_plan_request_def Let_def split: if_splits)

section \<open>The invariant\<close>

lemma request_row_append: "request_row rid s = Some r \<Longrightarrow> ps_requests s' = ps_requests s @ rs \<Longrightarrow> request_row rid s' = Some r"
proof -
  have "find P xs = Some r \<Longrightarrow> find P (xs @ ys) = Some r" for P :: "request_record \<Rightarrow> bool" and xs ys
    by (induction xs) (auto split: if_splits)
  then show "request_row rid s = Some r \<Longrightarrow> ps_requests s' = ps_requests s @ rs \<Longrightarrow> request_row rid s' = Some r"
    by (simp add: request_row_def)
qed

lemma request_row_same: "ps_requests s' = ps_requests s \<Longrightarrow> request_row rid s' = request_row rid s"
  by (simp add: request_row_def)

lemma latest_decision_same: "ps_decisions s' = ps_decisions s \<Longrightarrow> latest_decision rid s' = latest_decision rid s"
  by (simp add: latest_decision_def decisions_for_def)

lemma latest_decision_other: "ps_decisions s' = ps_decisions s @ [d] \<Longrightarrow> pd_request_id d \<noteq> rid \<Longrightarrow> latest_decision rid s' = latest_decision rid s"
  by (simp add: latest_decision_def decisions_for_def)

lemma latest_decision_added:
  assumes "ps_decisions s' = ps_decisions s @ [d]" and "distinct (map pd_decision_id (ps_decisions s'))"
  shows "latest_decision (pd_request_id d) s' \<in> {Some d, latest_decision (pd_request_id d) s}"
proof -
  let ?ds = "decisions_for (pd_request_id d) s"
  have "decisions_for (pd_request_id d) s' = ?ds @ [d]" using assms(1) by (simp add: decisions_for_def)
  moreover have "inj_on (\<lambda>d. (pd_decided_at d, pd_decision_id d)) (set (?ds @ [d]))"
  proof -
    have "inj_on pd_decision_id (set (ps_decisions s'))" using assms(2) by (simp add: distinct_map)
    moreover have "set (?ds @ [d]) \<subseteq> set (ps_decisions s')" using assms(1) by (auto simp: decisions_for_def)
    ultimately have "inj_on pd_decision_id (set (?ds @ [d]))" by (rule inj_on_subset)
    then show ?thesis by (auto simp: inj_on_def)
  qed
  ultimately show ?thesis using last_by_append[of "\<lambda>d. (pd_decided_at d, pd_decision_id d)" ?ds d] by (simp add: latest_decision_def)
qed

text \<open>Settling an attempt keeps the keys and can only release.\<close>

lemma settle_keeps:
  assumes "plan_store_ok s" and "settling f" and "ps_requests s' = ps_requests s" and "ps_attempts s' = ps_attempts (settle_in i f s)"
    and "distinct (map pd_decision_id (ps_decisions s'))"
    and "\<And>t. t \<in> set (ps_attempts s) \<Longrightarrow> pt_completed_at t = None \<Longrightarrow> pt_receipt_id t \<noteq> i \<Longrightarrow>
       latest_decision (pt_request_id t) s' = latest_decision (pt_request_id t) s"
  shows "plan_store_ok s'"
proof -
  let ?f = "\<lambda>t. if pt_receipt_id t = i \<and> pt_completed_at t = None then f t else t"
  have ts: "ps_attempts s' = map ?f (ps_attempts s)" using assms(4) by (simp add: settle_in_def)
  have id: "pt_receipt_id (?f t) = pt_receipt_id t" "pt_request_id (?f t) = pt_request_id t" "pt_effect_hash (?f t) = pt_effect_hash t"
    "pt_generation (?f t) = pt_generation t" for t
    using assms(2) by (simp_all add: settling_def)
  have "map pt_receipt_id (ps_attempts s') = map pt_receipt_id (ps_attempts s)" by (simp add: ts id(1))
  then have keys: "distinct (map pt_receipt_id (ps_attempts s'))" using assms(1) by (simp add: plan_store_ok_def)
  have old: "\<And>t. t \<in> set (ps_attempts s) \<Longrightarrow> (pt_completed_at t = None \<longleftrightarrow> pt_outcome t = None)
          \<and> (\<exists>r. request_row (pt_request_id t) s = Some r \<and> pt_effect_hash t = rr_effect_hash r
               \<and> pt_generation t = te_generation (pq_effect (rr_request r)))
          \<and> (pt_completed_at t = None \<longrightarrow> map_option pd_kind (latest_decision (pt_request_id t) s) = Some Approve)"
    using assms(1) by (simp add: plan_store_ok_def)
  have rows: "map (pq_request_id \<circ> rr_request) (ps_requests s') = map (pq_request_id \<circ> rr_request) (ps_requests s)" using assms(3) by simp
  have un: "distinct (map pt_request_id (filter unreleased (map g (ps_attempts s))))"
    if "\<And>t. pt_request_id (g t) = pt_request_id t" "\<And>t. t \<in> set (ps_attempts s) \<Longrightarrow> unreleased (g t) \<Longrightarrow> unreleased t" for g
  proof -
    let ?g = "\<lambda>t. if t \<in> set (ps_attempts s) then g t else t"
    have "distinct (map pt_request_id (filter unreleased (map ?g (ps_attempts s))))"
      by (rule distinct_filter_map[where P = unreleased]) (use assms(1) that in \<open>auto simp: plan_store_ok_def split: if_splits\<close>)
    moreover have "map ?g (ps_attempts s) = map g (ps_attempts s)" by simp
    ultimately show ?thesis by simp
  qed
  have "distinct (map pt_request_id (filter unreleased (ps_attempts s')))"
    unfolding ts by (rule un) (use old id(2) in \<open>auto simp: unreleased_def split: if_splits\<close>)
  moreover have "\<forall>t\<in>set (ps_attempts s'). (pt_completed_at t = None \<longleftrightarrow> pt_outcome t = None)
          \<and> (\<exists>r. request_row (pt_request_id t) s' = Some r \<and> pt_effect_hash t = rr_effect_hash r
               \<and> pt_generation t = te_generation (pq_effect (rr_request r)))
          \<and> (pt_completed_at t = None \<longrightarrow> map_option pd_kind (latest_decision (pt_request_id t) s') = Some Approve)"
  proof
    fix t' assume "t' \<in> set (ps_attempts s')"
    then obtain t where t: "t \<in> set (ps_attempts s)" "t' = ?f t" by (auto simp: ts)
    note o = old[OF t(1)]
    have c: "pt_completed_at (f t) \<noteq> None" "pt_outcome (f t) \<noteq> None" using assms(2) by (simp_all add: settling_def)
    have "pt_completed_at t' = None \<Longrightarrow> latest_decision (pt_request_id t') s' = latest_decision (pt_request_id t') s"
      using assms(6)[OF t(1)] t(2) c by (auto split: if_splits)
    with o c show "(pt_completed_at t' = None \<longleftrightarrow> pt_outcome t' = None)
          \<and> (\<exists>r. request_row (pt_request_id t') s' = Some r \<and> pt_effect_hash t' = rr_effect_hash r
               \<and> pt_generation t' = te_generation (pq_effect (rr_request r)))
          \<and> (pt_completed_at t' = None \<longrightarrow> map_option pd_kind (latest_decision (pt_request_id t') s') = Some Approve)"
      unfolding t(2) id request_row_same[OF assms(3)] by (auto split: if_splits)
  qed
  ultimately show ?thesis using assms(1,5) keys rows by (simp add: plan_store_ok_def)
qed

lemma decide_ok:
  assumes "plan_store_ok s" and "decide strtime d s = Ok (x, s')"
  shows "plan_store_ok s'"
  using assms(2)
proof (cases rule: decide_OkD)
  case (1 r active f)
  have ids: "distinct (map pd_decision_id (ps_decisions s'))" using 1 assms(1) by (simp add: plan_store_ok_def)
  show ?thesis
  proof (cases active)
    case None
    then have same: "ps_attempts s' = ps_attempts s" using 1 by simp
    have "latest_decision (pt_request_id t) s' = latest_decision (pt_request_id t) s"
      if "t \<in> set (ps_attempts s)" "pt_completed_at t = None" for t
      using latest_decision_other[OF 1(9)] active_NoneD[of "pd_request_id d" s t] 1(2) None that by metis
    then show ?thesis
      using assms(1) 1(8) ids by (auto simp: plan_store_ok_def same request_row_same[OF 1(8)])
  next
    case (Some t)
    note a = active_SomeD[OF 1(2)[unfolded Some]]
    have other: "pt_request_id u \<noteq> pd_request_id d" if u: "u \<in> set (ps_attempts s)" "pt_completed_at u = None" "pt_receipt_id u \<noteq> pt_receipt_id t" for u
    proof
      assume same: "pt_request_id u = pd_request_id d"
      have "unreleased u" "unreleased t" using assms(1) u a by (auto simp: plan_store_ok_def unreleased_def)
      then have "{u, t} \<subseteq> set (filter unreleased (ps_attempts s))" using u a by simp
      moreover have "inj_on pt_request_id (set (filter unreleased (ps_attempts s)))" using assms(1) by (simp add: plan_store_ok_def distinct_map)
      ultimately have "u = t" using same a inj_onD[of pt_request_id _ u t] by simp
      with u(3) show False by simp
    qed
    show ?thesis
      by (rule settle_keeps[OF assms(1) 1(3) 1(8) _ ids, of "pt_receipt_id t"])
        (use 1(10) Some in simp, metis latest_decision_other[OF 1(9)] other)
  qed
qed

lemma begin_unreleased:
  assumes "plan_store_ok s" and "may_begin hash gen now rid s r" and "t \<in> set (ps_attempts s)" and "pt_request_id t = rid"
  shows "\<not> unreleased t"
proof -
  have "active_attempt rid s = None" using assms(2) by (simp add: may_begin_def)
  from active_NoneD[OF this assms(3,4)] have c: "pt_completed_at t \<noteq> None" .
  then obtain out where "pt_outcome t = Some out" using assms(1,3) by (auto simp: plan_store_ok_def)
  then show ?thesis using assms(2-4) c by (auto simp: may_begin_def list_ex_iff attempts_for_def unreleased_def)
qed

lemma begin_ok:
  assumes "plan_store_ok s" and "begin_execution isofmt i now rid hash gen handler executor s = Ok (t, s')"
  shows "plan_store_ok s'"
  using assms(2)
proof (cases rule: begin_OkD)
  case (1 r)
  have new: "pt_request_id t = rid" "unreleased t" "pt_receipt_id t = i" by (simp_all add: 1(5) unreleased_def)
  have "rid \<notin> pt_request_id ` set (filter unreleased (ps_attempts s))"
    using begin_unreleased[OF assms(1) 1(2)] by auto
  then have un: "distinct (map pt_request_id (filter unreleased (ps_attempts s')))"
    using assms(1) new by (simp add: 1(8) plan_store_ok_def)
  have "map_option pd_kind (latest_decision rid s) = Some Approve" "rr_effect_hash r = hash" "te_generation (pq_effect (rr_request r)) = gen"
    using 1(2) by (simp_all add: may_begin_def)
  then have "\<exists>r. request_row (pt_request_id t) s' = Some r \<and> pt_effect_hash t = rr_effect_hash r
      \<and> pt_generation t = te_generation (pq_effect (rr_request r))" "map_option pd_kind (latest_decision (pt_request_id t) s') = Some Approve"
    using 1(1) by (simp_all add: request_row_same[OF 1(6)] latest_decision_same[OF 1(7)] 1(5))
  moreover have "pt_completed_at t = None" "pt_outcome t = None" by (simp_all add: 1(5))
  moreover have "distinct (map pt_receipt_id (ps_attempts s'))" using assms(1) 1(9) new by (simp add: 1(8) plan_store_ok_def)
  moreover have "(pt_completed_at u = None \<longleftrightarrow> pt_outcome u = None)
          \<and> (\<exists>r. request_row (pt_request_id u) s' = Some r \<and> pt_effect_hash u = rr_effect_hash r
               \<and> pt_generation u = te_generation (pq_effect (rr_request r)))
          \<and> (pt_completed_at u = None \<longrightarrow> map_option pd_kind (latest_decision (pt_request_id u) s') = Some Approve)"
    if "u \<in> set (ps_attempts s)" for u
    using assms(1) that unfolding plan_store_ok_def request_row_same[OF 1(6)] latest_decision_same[OF 1(7)] by blast
  ultimately show ?thesis
    using assms(1) un unfolding plan_store_ok_def 1(6,7) by (simp add: 1(8))
qed

lemma create_ok:
  assumes "plan_store_ok s" and "create_plan_request lib now q s = Ok (row, s')"
  shows "plan_store_ok s'"
proof -
  note c = create_OkD[OF assms(2)]
  have "pq_request_id q \<notin> set (map (pq_request_id \<circ> rr_request) (ps_requests s))"
    using c(1) by (auto simp: request_row_def find_None_iff)
  then have keys: "distinct (map (pq_request_id \<circ> rr_request) (ps_requests s'))" using assms(1) c(3) by (simp add: c(2) plan_store_ok_def)
  have "request_row rid s = Some r \<Longrightarrow> request_row rid s' = Some r" for rid r using request_row_append c(2) by blast
  with keys show ?thesis
    using assms(1) unfolding plan_store_ok_def c(5,6) latest_decision_same[OF c(5)] by blast
qed

lemma complete_ok:
  assumes "plan_store_ok s" and "complete_execution now i outcome evidence rollback detail s = Ok (t, s')"
  shows "plan_store_ok s'"
  using assms(2)
proof (cases rule: complete_OkD)
  case (1 u t f)
  have "distinct (map pd_decision_id (ps_decisions s'))" using assms(1) by (simp add: 1(10) plan_store_ok_def)
  from settle_keeps[OF assms(1) 1(6) 1(9) 1(11) this] latest_decision_same[OF 1(10)] show ?thesis by blast
qed

lemma plan_step_ok: "plan_step s s' \<Longrightarrow> plan_store_ok s \<Longrightarrow> plan_store_ok s'"
  by (induction rule: plan_step.induct) (blast intro: create_ok decide_ok begin_ok complete_ok)+

section \<open>Rows that only move forward\<close>

definition attempt_by_id :: "plan_store \<Rightarrow> uuid \<Rightarrow> plan_attempt option" where
  "attempt_by_id s i = find (\<lambda>t. pt_receipt_id t = i) (ps_attempts s)"

text \<open>An active attempt is completed once; nothing else of it ever changes.\<close>

definition attempt_move :: "plan_attempt \<Rightarrow> plan_attempt \<Rightarrow> bool" where
  "attempt_move t t' \<longleftrightarrow> pt_completed_at t = None \<and> (\<exists>f. settling f \<and> t' = f t)"

lemma find_distinct:
  assumes "distinct (map g xs)" and "x \<in> set xs"
  shows "find (\<lambda>y. g y = g x) xs = Some x"
  using assms by (induction xs) auto

lemma attempt_by_id_mem: "plan_store_ok s \<Longrightarrow> t \<in> set (ps_attempts s) \<Longrightarrow> attempt_by_id s (pt_receipt_id t) = Some t"
  unfolding attempt_by_id_def by (rule find_distinct) (simp_all add: plan_store_ok_def)

lemma attempt_by_id_SomeD: "attempt_by_id s i = Some t \<Longrightarrow> t \<in> set (ps_attempts s) \<and> pt_receipt_id t = i"
  unfolding attempt_by_id_def by (rule find_SomeD)

lemma settle_row:
  assumes "plan_store_ok s'" and "settling f" and "ps_attempts s' = ps_attempts (settle_in u f s)" and "attempt_by_id s i = Some t"
  shows "\<exists>t'. attempt_by_id s' i = Some t' \<and> (t' = t \<or> attempt_move t t')"
proof -
  note t = attempt_by_id_SomeD[OF assms(4)]
  let ?t = "if pt_receipt_id t = u \<and> pt_completed_at t = None then f t else t"
  have "?t \<in> set (ps_attempts s')" using t by (auto simp: assms(3) settle_in_def)
  moreover have "pt_receipt_id ?t = i" using t assms(2) by (simp add: settling_def)
  ultimately have "attempt_by_id s' i = Some ?t" using attempt_by_id_mem[OF assms(1), of ?t] by simp
  then show ?thesis using assms(2) by (auto simp: attempt_move_def)
qed

lemma attempt_row_step:
  assumes "plan_store_ok s" and "plan_step s s'" and "attempt_by_id s i = Some t"
  shows "\<exists>t'. attempt_by_id s' i = Some t' \<and> (t' = t \<or> attempt_move t t')"
proof -
  have ok: "plan_store_ok s'" using plan_step_ok assms(1,2) by blast
  note t = attempt_by_id_SomeD[OF assms(3)]
  have stays: ?thesis if "t \<in> set (ps_attempts s')" using attempt_by_id_mem[OF ok that] t by blast
  show ?thesis using assms(2)
  proof cases
    case (request lib now q row)
    then show ?thesis using create_OkD(6)[OF request] t stays by simp
  next
    case (decide strtime d x)
    then show ?thesis
    proof (cases rule: decide_OkD)
      case (1 r active f)
      show ?thesis
      proof (cases active)
        case None
        then show ?thesis using 1(10) t stays by simp
      next
        case (Some u)
        then show ?thesis using settle_row[OF ok 1(3) _ assms(3), of "pt_receipt_id u"] 1(10) by simp
      qed
    qed
  next
    case (start isofmt j now rid hash gen handler executor u)
    then show ?thesis
    proof (cases rule: begin_OkD)
      case (1 r)
      then show ?thesis using t stays by simp
    qed
  next
    case (finish now j outcome evidence rollback detail u)
    then show ?thesis
    proof (cases rule: complete_OkD)
      case (1 k u f)
      then show ?thesis using settle_row[OF ok 1(6,11) assms(3)] by simp
    qed
  qed
qed

lemma request_row_step:
  assumes "plan_step s s'" and "request_row rid s = Some r"
  shows "request_row rid s' = Some r"
  using assms(1)
proof cases
  case (request lib now q row)
  then show ?thesis using request_row_append[OF assms(2)] create_OkD(2) by blast
next
  case (decide strtime d x)
  then show ?thesis by (rule decide_OkD) (use assms(2) in \<open>simp add: request_row_def\<close>)
next
  case (start isofmt j now rid hash gen handler executor u)
  then show ?thesis by (rule begin_OkD) (use assms(2) in \<open>simp add: request_row_def\<close>)
next
  case (finish now j outcome evidence rollback detail u)
  then show ?thesis by (rule complete_OkD) (use assms(2) in \<open>simp add: request_row_def\<close>)
qed

interpretation plan_attempts: one_way_table plan_store_ok plan_step attempt_by_id attempt_move
  by unfold_locales (blast intro: plan_step_ok, rule attempt_row_step)

interpretation plan_requests: one_way_table plan_store_ok plan_step "\<lambda>s rid. request_row rid s" "\<lambda>_ _. False"
  by unfold_locales (blast intro: plan_step_ok, blast intro: request_row_step)

section \<open>The life of a request\<close>

datatype phase = Open "decision_kind option" | Executing | Spent

definition phase_of :: "string \<Rightarrow> plan_store \<Rightarrow> phase" where
  "phase_of rid s =
     (if active_attempt rid s \<noteq> None then Executing
      else if list_ex unreleased (attempts_for rid s) then Spent
      else Open (map_option pd_kind (latest_decision rid s)))"

inductive phase_step :: "phase \<Rightarrow> phase \<Rightarrow> bool" where
  decided: "k \<in> set (allowed_after d) \<Longrightarrow> phase_step (Open d) (Open (Some k))"
| started: "phase_step (Open (Some Approve)) Executing"
| released: "phase_step Executing (Open (Some Approve))"
| settled: "phase_step Executing Spent"

inductive_cases from_spent: "phase_step Spent p"

lemma spent_final: "phase_step\<^sup>*\<^sup>* Spent p \<Longrightarrow> p = Spent"
  by (induction rule: rtranclp_induct) (auto elim: from_spent)

lemma unreleased_iff: "list_ex unreleased (attempts_for rid s) \<longleftrightarrow> (\<exists>t\<in>set (ps_attempts s). pt_request_id t = rid \<and> unreleased t)"
  by (auto simp: list_ex_iff attempts_for_def)

lemma unreleased_unique:
  assumes "plan_store_ok s" and "t \<in> set (ps_attempts s)" and "u \<in> set (ps_attempts s)" and "pt_request_id t = pt_request_id u"
    and "unreleased t" and "unreleased u"
  shows "t = u"
proof -
  have "inj_on pt_request_id (set (filter unreleased (ps_attempts s)))" using assms(1) by (simp add: plan_store_ok_def distinct_map)
  from inj_onD[OF this assms(4)] show ?thesis using assms by simp
qed

lemma active_unreleased: "plan_store_ok s \<Longrightarrow> t \<in> set (ps_attempts s) \<Longrightarrow> pt_completed_at t = None \<Longrightarrow> unreleased t"
  by (auto simp: plan_store_ok_def unreleased_def)

lemma phase_same:
  "attempts_for rid s' = attempts_for rid s \<Longrightarrow> latest_decision rid s' = latest_decision rid s \<Longrightarrow> phase_of rid s' = phase_of rid s"
  by (simp add: phase_of_def active_attempt_def)

lemma attempts_for_settled:
  assumes "settling f" and "ps_attempts s' = ps_attempts (settle_in (pt_receipt_id t) f s)" and "plan_store_ok s" and "t \<in> set (ps_attempts s)"
    and "rid \<noteq> pt_request_id t"
  shows "attempts_for rid s' = attempts_for rid s"
proof -
  let ?g = "\<lambda>x. if pt_receipt_id x = pt_receipt_id t \<and> pt_completed_at x = None then f x else x"
  have kept: "filter (\<lambda>t. pt_request_id t = rid) (map g xs) = filter (\<lambda>t. pt_request_id t = rid) xs"
    if "\<forall>x\<in>set xs. pt_request_id (g x) = pt_request_id x \<and> (pt_request_id x = rid \<longrightarrow> g x = x)" for g :: "plan_attempt \<Rightarrow> plan_attempt" and xs
    using that by (induction xs) auto
  have "x = t" if "x \<in> set (ps_attempts s)" "pt_receipt_id x = pt_receipt_id t" for x
    using attempt_by_id_mem[OF assms(3)] assms(4) that by (metis option.inject)
  then have "\<forall>x\<in>set (ps_attempts s). pt_request_id (?g x) = pt_request_id x \<and> (pt_request_id x = rid \<longrightarrow> ?g x = x)"
    using assms(1,5) unfolding settling_def by metis
  from kept[OF this] show ?thesis by (simp add: attempts_for_def assms(2) settle_in_def)
qed

text \<open>Settling the active attempt of a request ends its execution.\<close>

lemma settled_phase:
  assumes "plan_store_ok s" and "settling f" and "ps_attempts s' = ps_attempts (settle_in (pt_receipt_id t) f s)"
    and "t \<in> set (ps_attempts s)" and "pt_completed_at t = None"
  shows "phase_of (pt_request_id t) s = Executing"
    and "phase_of (pt_request_id t) s' = (if pt_outcome (f t) = Some ''retry''
       then Open (map_option pd_kind (latest_decision (pt_request_id t) s')) else Spent)"
proof -
  have "active_attempt (pt_request_id t) s \<noteq> None" unfolding active_iff using assms(4,5) by blast
  then show "phase_of (pt_request_id t) s = Executing" by (simp add: phase_of_def)
  let ?f = "\<lambda>x. if pt_receipt_id x = pt_receipt_id t \<and> pt_completed_at x = None then f x else x"
  have ts: "ps_attempts s' = map ?f (ps_attempts s)" by (simp add: assms(3) settle_in_def)
  have c: "pt_completed_at (f x) \<noteq> None" "pt_request_id (f x) = pt_request_id x" for x using assms(2) by (simp_all add: settling_def)
  have t: "unreleased t" using active_unreleased assms(1,4,5) by blast
  have same: "x = t" if "x \<in> set (ps_attempts s)" "pt_receipt_id x = pt_receipt_id t" for x
    using attempt_by_id_mem[OF assms(1) that(1)] attempt_by_id_mem[OF assms(1,4)] that(2) by (metis option.inject)
  have mem: "u \<in> set (ps_attempts s') \<and> pt_request_id u = pt_request_id t \<and> unreleased u \<longleftrightarrow> u = f t \<and> unreleased (f t)" for u
  proof
    assume u: "u \<in> set (ps_attempts s') \<and> pt_request_id u = pt_request_id t \<and> unreleased u"
    then obtain x where x: "x \<in> set (ps_attempts s)" "u = ?f x" by (auto simp: ts)
    show "u = f t \<and> unreleased (f t)"
    proof (cases "x = t")
      case False
      then have "u = x" using same x by auto
      then have "x = t" using unreleased_unique[OF assms(1) x(1) assms(4)] u t by simp
      with False show ?thesis by simp
    qed (use x u assms(5) in simp)
  next
    assume u: "u = f t \<and> unreleased (f t)"
    have "f t = ?f t" using assms(5) by simp
    then have "f t \<in> set (ps_attempts s')" using assms(4) unfolding ts set_map by (rule image_eqI)
    then show "u \<in> set (ps_attempts s') \<and> pt_request_id u = pt_request_id t \<and> unreleased u"
      using u c(2) by simp
  qed
  have "u \<notin> set (ps_attempts s') \<or> pt_request_id u \<noteq> pt_request_id t \<or> pt_completed_at u \<noteq> None" for u
  proof (rule ccontr)
    assume n: "\<not> ?thesis"
    then obtain x where x: "x \<in> set (ps_attempts s)" "u = ?f x" by (auto simp: ts)
    then have "x = u" using n c(1)[of x] by (auto split: if_splits)
    moreover from this have "pt_completed_at x = None" using n by simp
    ultimately have "x = u" "pt_completed_at x = None" by blast+
    then have "x = t" using unreleased_unique[OF assms(1) x(1) assms(4)] active_unreleased[OF assms(1) x(1)] t n by simp
    then show False using x n c(1) assms(5) by simp
  qed
  then have "active_attempt (pt_request_id t) s' = None" using active_iff by blast
  moreover have "list_ex unreleased (attempts_for (pt_request_id t) s') \<longleftrightarrow> pt_outcome (f t) \<noteq> Some ''retry''"
    using mem unfolding unreleased_iff by (auto simp: unreleased_def)
  ultimately show "phase_of (pt_request_id t) s' = (if pt_outcome (f t) = Some ''retry''
       then Open (map_option pd_kind (latest_decision (pt_request_id t) s')) else Spent)"
    by (simp add: phase_of_def)
qed

lemma begin_phase:
  assumes "plan_store_ok s" and "begin_execution isofmt i now rid hash gen handler executor s = Ok (t, s')"
  shows "phase_of rid s = Open (Some Approve)" "phase_of rid s' = Executing" "r \<noteq> rid \<Longrightarrow> phase_of r s' = phase_of r s"
proof -
  from assms(2) have "phase_of rid s = Open (Some Approve) \<and> phase_of rid s' = Executing \<and> (r \<noteq> rid \<longrightarrow> phase_of r s' = phase_of r s)"
  proof (cases rule: begin_OkD)
    case (1 q)
    have "\<not> list_ex unreleased (attempts_for rid s)" using begin_unreleased[OF assms(1) 1(2)] by (auto simp: unreleased_iff)
    then have before: "phase_of rid s = Open (Some Approve)" using 1(2) by (simp add: phase_of_def may_begin_def)
    have "t \<in> set (ps_attempts s')" "pt_request_id t = rid" "pt_completed_at t = None" by (simp add: 1(8), simp_all add: 1(5))
    then have "active_attempt rid s' \<noteq> None" unfolding active_iff by blast
    moreover have "phase_of r s' = phase_of r s" if "r \<noteq> rid"
      by (rule phase_same[OF _ latest_decision_same[OF 1(7)]]) (use that in \<open>simp add: attempts_for_def 1(8) 1(5)\<close>)
    ultimately show ?thesis using before by (simp add: phase_of_def)
  qed
  then show "phase_of rid s = Open (Some Approve)" "phase_of rid s' = Executing" "r \<noteq> rid \<Longrightarrow> phase_of r s' = phase_of r s"
    by simp_all
qed

text \<open>C10: the four tables implement the life of a request: in any store that satisfies the invariant, and it holds in every reachable one,
  each transaction leaves the phase of every request as it is or makes one step of a small machine. A request is open with its latest
  decision; only from the approval can it be executing; it returns to that approval only by a retry; otherwise it is spent for good.\<close>

theorem lifecycle_refines:
  assumes "plan_step\<^sup>*\<^sup>* empty_plan_store s" and "plan_step s s'"
  shows "phase_of rid s' = phase_of rid s \<or> phase_step (phase_of rid s) (phase_of rid s')"
proof -
  have ok: "plan_store_ok s" using plan_attempts.sound_steps[OF assms(1) empty_plan_store_ok] .
  show ?thesis using assms(2)
  proof cases
    case (request lib now q row)
    note c = create_OkD[OF request]
    then have "phase_of rid s' = phase_of rid s" by (intro phase_same latest_decision_same) (simp_all add: attempts_for_def)
    then show ?thesis ..
  next
    case (decide strtime d x)
    then show ?thesis
    proof (cases rule: decide_OkD)
      case (1 r active f)
      have ids: "distinct (map pd_decision_id (ps_decisions s'))" using 1 ok by (simp add: plan_store_ok_def)
      show ?thesis
      proof (cases active)
        case None
        then have same: "attempts_for rid s' = attempts_for rid s" for rid using 1(10) by (simp add: attempts_for_def)
        show ?thesis
        proof (cases "rid = pd_request_id d")
          case True
          have "latest_decision rid s' = Some d \<or> latest_decision rid s' = latest_decision rid s"
            using latest_decision_added[OF 1(9) ids] True by simp
          then show ?thesis
          proof
            assume "latest_decision rid s' = Some d"
            then show ?thesis using 1(4) True phase_step.decided[of "pd_kind d" "map_option pd_kind (latest_decision rid s)"]
              by (simp add: phase_of_def active_attempt_def same)
          qed (simp add: phase_same[OF same])
        qed (simp add: phase_same[OF same latest_decision_other[OF 1(9)]])
      next
        case (Some t)
        note a = active_SomeD[OF 1(2)[unfolded Some]]
        have at: "ps_attempts s' = ps_attempts (settle_in (pt_receipt_id t) f s)" using 1(10) Some by simp
        show ?thesis
        proof (cases "rid = pt_request_id t")
          case True
          have "pt_outcome (f t) = Some ''ambiguous''" using 1(6)[OF Some] by simp
          then show ?thesis using settled_phase[OF ok 1(3) at] a True phase_step.settled by simp
        next
          case False
          then show ?thesis
            using phase_same[OF attempts_for_settled[OF 1(3) at ok] latest_decision_other[OF 1(9)]] a by simp
        qed
      qed
    qed
  next
    case (start isofmt j now r hash gen handler executor u)
    note p = begin_phase[OF ok start]
    show ?thesis using p(1,2) p(3)[of rid] phase_step.started by (cases "rid = r") simp_all
  next
    case (finish now j outcome evidence rollback detail u)
    then show ?thesis
    proof (cases rule: complete_OkD)
      case (1 k t f)
      have at: "ps_attempts s' = ps_attempts (settle_in (pt_receipt_id t) f s)" using 1(4,11) by simp
      show ?thesis
      proof (cases "rid = pt_request_id t")
        case True
        have "map_option pd_kind (latest_decision rid s') = Some Approve"
          using ok 1(3,5) True latest_decision_same[OF 1(10)] by (auto simp: plan_store_ok_def)
        then show ?thesis
          using settled_phase[OF ok 1(6) at 1(3,5)] True phase_step.released phase_step.settled by (simp split: if_splits)
      next
        case False
        then show ?thesis
          using phase_same[OF attempts_for_settled[OF 1(6) at ok 1(3)] latest_decision_same[OF 1(10)]] by simp
      qed
    qed
  qed
qed

text \<open>A request that has an attempt is begun again only when that attempt was released.\<close>

lemma begun_again:
  assumes "plan_store_ok s1" and "t \<in> set (ps_attempts s1)" and "plan_step\<^sup>*\<^sup>* s1 s2"
    and "begin_execution isofmt i now (pt_request_id t) hash gen handler executor s2 = Ok (t', s3)"
  obtains u where "attempt_by_id s2 (pt_receipt_id t) = Some u" "\<not> unreleased u" "pt_receipt_id t' = i" "i \<noteq> pt_receipt_id t"
proof -
  have ok: "plan_store_ok s2" using plan_attempts.sound_steps[OF assms(3,1)] .
  obtain u where u: "attempt_by_id s2 (pt_receipt_id t) = Some u" "attempt_move\<^sup>*\<^sup>* t u"
    using plan_attempts.row_steps[OF assms(3,1)] attempt_by_id_mem[OF assms(1,2)] by blast
  have "pt_request_id v = pt_request_id w" if "attempt_move\<^sup>*\<^sup>* w v" for v w
    using that by (induction rule: rtranclp_induct) (auto simp: attempt_move_def settling_def)
  then have same: "pt_request_id u = pt_request_id t" using u(2) .
  note m = attempt_by_id_SomeD[OF u(1)]
  from assms(4) show thesis
  proof (cases rule: begin_OkD)
    case (1 r)
    have "\<not> unreleased u" using begin_unreleased[OF ok 1(2)] m same by blast
    moreover have "i \<noteq> pt_receipt_id t" using 1(9) m by (metis image_eqI list.set_map)
    ultimately show thesis using that[OF u(1)] 1(5) by simp
  qed
qed

text \<open>C12: an approval is spent by the first attempt that does not end in a retry: when an attempt of a request was started and
  any transactions were run, another attempt of it can start only after the first was completed as a retry.\<close>

theorem approval_spent_once:
  assumes "plan_store_ok s" and "begin_execution isofmt i now rid hash gen handler executor s = Ok (t, s1)" and "plan_step\<^sup>*\<^sup>* s1 s2"
    and "begin_execution isofmt' i' now' rid hash' gen' handler' executor' s2 = Ok (t', s3)"
  shows "\<exists>u. attempt_by_id s2 i = Some u \<and> pt_outcome u = Some ''retry'' \<and> pt_receipt_id t' \<noteq> i"
proof -
  have t: "t \<in> set (ps_attempts s1)" "pt_receipt_id t = i" "pt_request_id t = rid"
    by (rule begin_OkD[OF assms(2)]; simp)+
  from begun_again[OF begin_ok[OF assms(1,2)] t(1) assms(3) assms(4)[folded t(3)]] t(2) show ?thesis
    unfolding unreleased_def by metis
qed

text \<open>C11: an attempt starts only for a stored request that has not expired, whose latest decision approves it and whose effect has
  exactly the given hash and generation; the request row and the binding of the attempt stay as they are for ever.\<close>

theorem attempt_was_approved:
  assumes "plan_store_ok s" and "begin_execution isofmt i now rid hash gen handler executor s = Ok (t, s1)" and "plan_step\<^sup>*\<^sup>* s1 s2"
  shows "\<exists>r d u. request_row rid s = Some r \<and> request_row rid s2 = Some r \<and> rr_effect_hash r = hash
    \<and> te_generation (pq_effect (rr_request r)) = gen \<and> now < pq_expires_at (rr_request r)
    \<and> d \<in> set (decisions_for rid s) \<and> pd_kind d = Approve \<and> (\<forall>e\<in>set (decisions_for rid s). pd_decided_at e \<le> pd_decided_at d)
    \<and> attempt_by_id s2 i = Some u \<and> pt_request_id u = rid \<and> pt_effect_hash u = hash \<and> pt_generation u = gen
    \<and> pt_handler_id u = handler \<and> pt_executor u = executor"
proof -
  have ok: "plan_store_ok s1" using begin_ok[OF assms(1,2)] .
  from assms(2) show ?thesis
  proof (cases rule: begin_OkD)
    case (1 r)
    obtain d where d: "latest_decision rid s = Some d" "pd_kind d = Approve" using 1(2) by (auto simp: may_begin_def)
    have late: "d \<in> set (decisions_for rid s)" "\<forall>e\<in>set (decisions_for rid s). pd_decided_at e \<le> pd_decided_at d"
      using last_by_SomeD[OF d(1)[unfolded latest_decision_def]] by (auto simp: less_eq_prod_def)
    have r: "request_row rid s2 = Some r"
      using plan_requests.settled_steps[OF assms(3) ok] request_row_same[OF 1(6)] 1(1) by metis
    have "t \<in> set (ps_attempts s1)" using 1(8) by simp
    then obtain u where u: "attempt_by_id s2 i = Some u" "attempt_move\<^sup>*\<^sup>* t u"
      using plan_attempts.row_steps[OF assms(3) ok] attempt_by_id_mem[OF ok] 1(5) by force
    have "pt_request_id v = pt_request_id w \<and> pt_effect_hash v = pt_effect_hash w \<and> pt_generation v = pt_generation w
        \<and> pt_handler_id v = pt_handler_id w \<and> pt_executor v = pt_executor w" if "attempt_move\<^sup>*\<^sup>* w v" for v w
      using that by (induction rule: rtranclp_induct) (auto simp: attempt_move_def settling_def)
    from this[OF u(2)] show ?thesis
      using 1(1,2) r d late u(1) by (intro exI[of _ r] exI[of _ d] exI[of _ u]) (simp add: may_begin_def 1(5))
  qed
qed

section \<open>A request that is retried\<close>

definition sample_plan_request :: plan_request where
  "sample_plan_request = \<lparr>pq_request_id = ''r'', pq_plan_commit = ''c'', pq_solution_hash = ''s'', pq_closure_hash = ''k'', pq_graph_id = ''g'',
     pq_object_generation = ''o'', pq_effect = \<lparr>te_kind = Authority_canary, te_generation = ''gen'', te_parameters = []\<rparr>, pq_summary = ''x'',
     pq_evidence = [], pq_requested_by = ''operator:dave'', pq_expires_at = 100\<rparr>"

definition sample_approval :: plan_decision where
  "sample_approval = \<lparr>pd_decision_id = ''d'', pd_request_id = ''r'', pd_kind = Approve, pd_decided_by = ''operator:dave'', pd_reason = ''ok'',
     pd_evidence = [], pd_decided_at = 1\<rparr>"

definition sample_created :: plan_store where
  "sample_created = snd (projr (create_plan_request sample_hash 0 sample_plan_request empty_plan_store))"

definition sample_approved :: plan_store where
  "sample_approved = snd (projr (decide (\<lambda>_. []) sample_approval sample_created))"

definition sample_begin :: "uuid \<Rightarrow> time \<Rightarrow> plan_store \<Rightarrow> (plan_attempt \<times> plan_store) result" where
  "sample_begin i now s = begin_execution (\<lambda>_. []) i now ''r'' (effect_hash sample_hash (pq_effect sample_plan_request)) ''gen'' ''h'' ''executor:a'' s"

definition sample_second :: uuid where
  "sample_second = ''00000000-0000-4000-8000-000000000002''"

definition sample_executing :: plan_store where
  "sample_executing = snd (projr (sample_begin sample_authority_id 2 sample_approved))"

definition sample_released :: plan_store where
  "sample_released = snd (projr (complete_execution 3 sample_authority_id ''retry'' [] None [] sample_executing))"

lemma result_cases: "is_ok r \<Longrightarrow> r = Ok (fst (projr r), snd (projr r))"
  by (cases r) simp_all

lemma sample_plan_runs:
  "is_ok (create_plan_request sample_hash 0 sample_plan_request empty_plan_store)" "is_ok (decide (\<lambda>_. []) sample_approval sample_created)"
  "is_ok (sample_begin sample_authority_id 2 sample_approved)"
  "is_ok (complete_execution 3 sample_authority_id ''retry'' [] None [] sample_executing)" "is_ok (sample_begin sample_second 4 sample_released)"
  by code_simp+

lemma sample_plan_steps: "plan_step empty_plan_store sample_created" "plan_step sample_created sample_approved"
  "plan_step sample_approved sample_executing" "plan_step sample_executing sample_released"
  using plan_step.request[OF result_cases[OF sample_plan_runs(1)]] plan_step.decide[OF result_cases[OF sample_plan_runs(2)]]
    plan_step.start[OF result_cases[OF sample_plan_runs(3), unfolded sample_begin_def]]
    plan_step.finish[OF result_cases[OF sample_plan_runs(4)]]
  by (simp_all add: sample_created_def sample_approved_def sample_executing_def sample_released_def sample_begin_def)

lemma sample_approved_reachable: "plan_step\<^sup>*\<^sup>* empty_plan_store sample_approved"
  using sample_plan_steps(1,2) by (meson converse_rtranclp_into_rtranclp rtranclp.rtrancl_refl)

lemma sample_approved_ok: "plan_store_ok sample_approved"
  using plan_attempts.sound_steps[OF sample_approved_reachable empty_plan_store_ok] .

lemma sample_begun: "begin_execution (\<lambda>_. []) sample_authority_id 2 ''r'' (effect_hash sample_hash (pq_effect sample_plan_request)) ''gen'' ''h'' ''executor:a''
    sample_approved = Ok (fst (projr (sample_begin sample_authority_id 2 sample_approved)), sample_executing)"
  using result_cases[OF sample_plan_runs(3)] by (simp add: sample_executing_def sample_begin_def)

theorem lifecycle_refines_witness: "phase_step (phase_of ''r'' sample_approved) (phase_of ''r'' sample_executing)"
proof -
  have "phase_of ''r'' sample_executing \<noteq> phase_of ''r'' sample_approved" using begin_phase(1,2)[OF sample_approved_ok sample_begun] by simp
  with lifecycle_refines[OF sample_approved_reachable sample_plan_steps(3), of "''r''"] show ?thesis by blast
qed

theorem approval_spent_once_witness:
  "\<exists>u. attempt_by_id sample_released sample_authority_id = Some u \<and> pt_outcome u = Some ''retry''"
  using approval_spent_once[OF sample_approved_ok sample_begun r_into_rtranclp[of plan_step, OF sample_plan_steps(4)]
      result_cases[OF sample_plan_runs(5), unfolded sample_begin_def]] by blast

theorem attempt_was_approved_witness:
  "\<exists>r d. request_row ''r'' sample_released = Some r \<and> d \<in> set (decisions_for ''r'' sample_approved) \<and> pd_kind d = Approve
    \<and> (2 :: rat) < pq_expires_at (rr_request r)"
  using attempt_was_approved[OF sample_approved_ok sample_begun r_into_rtranclp[of plan_step, OF sample_plan_steps(4)]] by blast

end
