(* ===== verification/Effect_Controller_Safety.thy ===== *)
theory Effect_Controller_Safety
  imports Effect_Controller Plan_Authority_Steps
begin

text \<open>
  What the controller guarantees when the plan authority is durable: whatever answers are lost, wherever the process dies and
  whatever other processes do, the handler of a request is called again only after its first attempt was released by a retry,
  a receipt that is returned is the one that is stored, and it tells what was called.
\<close>

section \<open>Runs only take steps of the plan authority\<close>

definition fair :: "surroundings \<Rightarrow> bool" where
  "fair su \<longleftrightarrow> (\<forall>n s. plan_step\<^sup>*\<^sup>* s (su_others su n s))"

named_theorems stepping \<open>acts that change the store by transactions only\<close>

definition steps_only :: "('a, 'w) act \<Rightarrow> bool" where
  "steps_only m \<longleftrightarrow> (\<forall>x. plan_step\<^sup>*\<^sup>* (ex_store x) (ex_store (snd (m x))))"

lemma steps_onlyD: "steps_only m \<Longrightarrow> m x = (r, y) \<Longrightarrow> plan_step\<^sup>*\<^sup>* (ex_store x) (ex_store y)"
  by (metis snd_conv steps_only_def)

lemma steps_only_simple [stepping]: "steps_only (giving v)" "steps_only (throwing e)" "steps_only (in_world f)" "steps_only (calling c f)"
  by (auto simp: steps_only_def giving_def throwing_def in_world_def calling_def split: prod.splits)

lemma steps_only_followed [stepping]: "steps_only m \<Longrightarrow> (\<And>v. steps_only (k v)) \<Longrightarrow> steps_only (followed_by m k)"
  unfolding steps_only_def followed_by_def by (auto split: prod.splits ended.splits) (metis rtranclp_trans snd_conv)+

lemma steps_only_rescued [stepping]: "steps_only m \<Longrightarrow> (\<And>e. steps_only (h e)) \<Longrightarrow> steps_only (rescued m h)"
  unfolding steps_only_def rescued_def by (auto split: prod.splits ended.splits) (metis rtranclp_trans snd_conv)+

lemma steps_only_transact:
  assumes "fair su" and "\<And>now s v s'. t now s = Ok (v, s') \<Longrightarrow> plan_step s s'"
  shows "steps_only (transact su t :: ('a, 'w) act)"
  unfolding steps_only_def
proof
  fix x :: "'w execution"
  let ?s = "su_others su (ex_ticks x) (ex_store x)"
  have o: "plan_step\<^sup>*\<^sup>* (ex_store x) ?s" using assms(1) by (simp add: fair_def)
  show "plan_step\<^sup>*\<^sup>* (ex_store x) (ex_store (snd ((transact su t :: ('a, 'w) act) x)))"
  proof (cases "t (su_clock su (ex_ticks x)) ?s")
    case (Inl e)
    then show ?thesis using o by (simp add: transact_def Let_def)
  next
    case (Inr r)
    then obtain v s' where r: "t (su_clock su (ex_ticks x)) ?s = Ok (v, s')" by (cases r) auto
    have "plan_step\<^sup>*\<^sup>* (ex_store x) s'" using o assms(2)[OF r] by (rule rtranclp.rtrancl_into_rtrancl)
    then show ?thesis using o r by (auto simp: transact_def Let_def split: list.splits option.splits answer_fault.splits)
  qed
qed

lemma finish_steps [stepping]: "fair su \<Longrightarrow> steps_only (finish_effect lib su se t o' evidence rollback detail)"
  unfolding finish_effect_def Let_def
  by (auto intro!: stepping steps_only_transact plan_step.finish split: option.splits if_splits)

lemma rollback_attempt_steps [stepping]: "fair su \<Longrightarrow> steps_only (rollback_attempt lib su se t rollback kept m)"
  unfolding rollback_attempt_def by (auto intro!: stepping split: option.splits)

lemma roll_back_steps [stepping]: "fair su \<Longrightarrow> steps_only (roll_back lib su se t rollback kept m)"
  unfolding roll_back_def Let_def by (auto intro!: stepping split: effect_exn.splits)

lemma handle_exn_steps [stepping]: "fair su \<Longrightarrow> steps_only (handle_exn lib su se app t rollback e)"
  unfolding handle_exn_def Let_def by (auto intro!: stepping split: effect_exn.splits if_splits)

lemma handler_attempt_steps [stepping]: "fair su \<Longrightarrow> steps_only (handler_attempt lib su se app p t)"
  unfolding handler_attempt_def by (auto intro!: stepping split: json.splits)

lemma run_handler_steps [stepping]: "fair su \<Longrightarrow> steps_only (run_handler lib su se app p t)"
  unfolding run_handler_def by (auto intro!: stepping)

section \<open>What is called\<close>

lemma transact_calls [simp]: "ex_calls (snd (transact su t x)) = ex_calls x"
  by (auto simp: transact_def Let_def split: sum.splits list.splits option.splits answer_fault.splits)

lemma in_world_calls [simp]: "ex_calls (snd (in_world f x)) = ex_calls x" "ex_store (snd (in_world f x)) = ex_store x"
  by (simp_all add: in_world_def split: prod.splits)

lemma calling_calls [simp]: "ex_calls (snd (calling c f x)) = ex_calls x @ [c]" "ex_store (snd (calling c f x)) = ex_store x"
  by (simp_all add: calling_def)

lemma followed_by_Gives: "followed_by m k x = (Gives v, y) \<longleftrightarrow> (\<exists>w z. m x = (Gives w, z) \<and> k w z = (Gives v, y))"
  by (auto simp: followed_by_def split: prod.splits ended.splits)

lemma rescued_Gives:
  "rescued m h x = (Gives v, y) \<longleftrightarrow> m x = (Gives v, y) \<or> (\<exists>e z. m x = (Throws e, z) \<and> h e z = (Gives v, y))"
  by (auto simp: rescued_def split: prod.splits ended.splits)

lemma transact_Gives:
  "transact su t x = (Gives v, y) \<Longrightarrow> t (su_clock su (ex_ticks x)) (su_others su (ex_ticks x) (ex_store x)) = Ok (v, ex_store y)"
  by (auto simp: transact_def Let_def split: sum.splits list.splits option.splits answer_fault.splits)

text \<open>Acts whose calls are one of the lists \<open>L\<close>.\<close>

definition calls_in :: "effect_call list set \<Rightarrow> ('a, 'w) act \<Rightarrow> bool" where
  "calls_in L m \<longleftrightarrow> (\<forall>x. \<exists>cs\<in>L. ex_calls (snd (m x)) = ex_calls x @ cs)"

named_theorems quiet \<open>acts that call nothing\<close>

lemma calls_inD: "calls_in L m \<Longrightarrow> m x = (r, y) \<Longrightarrow> \<exists>cs\<in>L. ex_calls y = ex_calls x @ cs"
  by (metis calls_in_def snd_conv)

lemma calls_in_mono: "calls_in L m \<Longrightarrow> L \<subseteq> N \<Longrightarrow> calls_in N m"
  unfolding calls_in_def by blast

lemma calls_in_simple [quiet]: "calls_in {[]} (giving v)" "calls_in {[]} (throwing e)" "calls_in {[]} (in_world f)" "calls_in {[]} (transact su t)"
  by (simp_all add: calls_in_def giving_def throwing_def)

lemma calls_in_calling: "calls_in {[c]} (calling c f)"
  by (simp add: calls_in_def)

lemma calls_in_followed:
  assumes "calls_in L m" and "\<And>v. calls_in M (k v)" and "\<And>cs ds. cs \<in> L \<Longrightarrow> ds \<in> insert [] M \<Longrightarrow> cs @ ds \<in> N"
  shows "calls_in N (followed_by m k)"
  unfolding calls_in_def
proof
  fix x
  obtain r z where r: "m x = (r, z)" by (cases "m x")
  with assms(1) obtain cs where cs: "cs \<in> L" "ex_calls z = ex_calls x @ cs" by (meson calls_inD)
  show "\<exists>cs\<in>N. ex_calls (snd (followed_by m k x)) = ex_calls x @ cs"
  proof (cases r)
    case (Gives v)
    from assms(2)[of v] obtain ds where "ds \<in> M" "ex_calls (snd (k v z)) = ex_calls z @ ds" unfolding calls_in_def by blast
    then show ?thesis using assms(3)[OF cs(1)] cs(2) r Gives by (intro bexI[of _ "cs @ ds"]) (simp_all add: followed_by_def)
  qed (use r cs assms(3)[OF cs(1), of "[]"] in \<open>auto simp: followed_by_def\<close>)
qed

lemma calls_in_rescued:
  assumes "calls_in L m" and "\<And>e. calls_in M (h e)" and "\<And>cs ds. cs \<in> L \<Longrightarrow> ds \<in> insert [] M \<Longrightarrow> cs @ ds \<in> N"
  shows "calls_in N (rescued m h)"
  unfolding calls_in_def
proof
  fix x
  obtain r z where r: "m x = (r, z)" by (cases "m x")
  with assms(1) obtain cs where cs: "cs \<in> L" "ex_calls z = ex_calls x @ cs" by (meson calls_inD)
  show "\<exists>cs\<in>N. ex_calls (snd (rescued m h x)) = ex_calls x @ cs"
  proof (cases r)
    case (Throws e)
    from assms(2)[of e] obtain ds where "ds \<in> M" "ex_calls (snd (h e z)) = ex_calls z @ ds" unfolding calls_in_def by blast
    then show ?thesis using assms(3)[OF cs(1)] cs(2) r Throws by (intro bexI[of _ "cs @ ds"]) (simp_all add: rescued_def)
  qed (use r cs assms(3)[OF cs(1), of "[]"] in \<open>auto simp: rescued_def\<close>)
qed

lemma finish_quiet [quiet]: "calls_in {[]} (finish_effect lib su se t o' evidence rollback detail)"
  unfolding finish_effect_def Let_def
  by (auto intro!: quiet calls_in_followed[where L = "{[]}" and M = "{[]}"] calls_in_rescued[where L = "{[]}" and M = "{[]}"]
      split: option.splits if_splits)

text \<open>Every durable end is one transaction that completes the attempt; only its success returns a receipt.\<close>

lemma durable_finish:
  assumes "uses_durable se (tk_executor t)" and "finish_effect lib su se t o' evidence rollback detail x = (Gives r, y)"
  shows "\<exists>now u. complete_execution now (tk_receipt_id t) (outcome_value o') (xr_evidence r) rollback detail (su_others su (ex_ticks x) (ex_store x))
          = Ok (u, ex_store y)"
    and "r = make_receipt lib t o' (sorted_set (evidence @ se_bound_evidence se)) rollback detail (tk_executor t)" and "ex_calls y = ex_calls x"
proof -
  let ?m = "transact su (\<lambda>now. complete_execution now (tk_receipt_id t) (outcome_value o') (sorted_set (evidence @ se_bound_evidence se)) rollback detail)"
  obtain u where u: "?m x = (Gives u, y)" and r: "r = make_receipt lib t o' (sorted_set (evidence @ se_bound_evidence se)) rollback detail (tk_executor t)"
    using assms by (auto simp: finish_effect_def Let_def followed_by_Gives giving_def)
  show "r = make_receipt lib t o' (sorted_set (evidence @ se_bound_evidence se)) rollback detail (tk_executor t)" by (rule r)
  show "ex_calls y = ex_calls x" using transact_calls[of su _ x] u by (metis snd_conv)
  show "\<exists>now u. complete_execution now (tk_receipt_id t) (outcome_value o') (xr_evidence r) rollback detail (su_others su (ex_ticks x) (ex_store x))
          = Ok (u, ex_store y)"
    using transact_Gives[OF u] by (auto simp: r make_receipt_def)
qed

text \<open>A run that returns a receipt ended in \<^const>\<open>finish_effect\<close>; \<open>P\<close> says after which calls with which outcome.\<close>

definition ends_in :: "pylib \<Rightarrow> surroundings \<Rightarrow> 'w authority_seam \<Rightarrow> 'w task \<Rightarrow> (effect_call list \<Rightarrow> effect_outcome \<Rightarrow> bool) \<Rightarrow> (execution_receipt, 'w) act \<Rightarrow> bool" where
  "ends_in lib su se t P m \<longleftrightarrow> (\<forall>x r y. m x = (Gives r, y) \<longrightarrow>
     (\<exists>z o' ev rb d cs. finish_effect lib su se t o' ev rb d z = (Gives r, y) \<and> plan_step\<^sup>*\<^sup>* (ex_store x) (ex_store z)
        \<and> ex_calls z = ex_calls x @ cs \<and> P cs o'))"

lemma ends_in_finish: "P [] o' \<Longrightarrow> ends_in lib su se t P (finish_effect lib su se t o' ev rb d)"
  unfolding ends_in_def by fastforce

lemma ends_in_simple: "ends_in lib su se t P (throwing e)"
  by (simp add: ends_in_def throwing_def)

lemma ends_in_mono: "ends_in lib su se t P m \<Longrightarrow> (\<And>cs o'. P cs o' \<Longrightarrow> Q cs o') \<Longrightarrow> ends_in lib su se t Q m"
  unfolding ends_in_def by meson

lemma ends_in_followed:
  assumes "calls_in L m" and "steps_only m" and "\<And>v cs. cs \<in> L \<Longrightarrow> ends_in lib su se t (\<lambda>ds. P (cs @ ds)) (k v)"
  shows "ends_in lib su se t P (followed_by m k)"
  unfolding ends_in_def
proof (intro allI impI)
  fix x r y assume "followed_by m k x = (Gives r, y)"
  then obtain v z where z: "m x = (Gives v, z)" "k v z = (Gives r, y)" by (auto simp: followed_by_Gives)
  from calls_inD[OF assms(1) z(1)] obtain cs where cs: "cs \<in> L" "ex_calls z = ex_calls x @ cs" by blast
  from assms(3)[OF cs(1)] z(2) obtain w o' ev rb d ds where w: "finish_effect lib su se t o' ev rb d w = (Gives r, y)"
    "plan_step\<^sup>*\<^sup>* (ex_store z) (ex_store w)" "ex_calls w = ex_calls z @ ds" "P (cs @ ds) o'" unfolding ends_in_def by blast
  have "plan_step\<^sup>*\<^sup>* (ex_store x) (ex_store w)" using steps_onlyD[OF assms(2) z(1)] w(2) by (rule rtranclp_trans)
  with w cs(2) show "\<exists>z o' ev rb d cs. finish_effect lib su se t o' ev rb d z = (Gives r, y) \<and> plan_step\<^sup>*\<^sup>* (ex_store x) (ex_store z)
        \<and> ex_calls z = ex_calls x @ cs \<and> P cs o'" by (metis append_assoc)
qed

lemma ends_in_rescued:
  assumes "ends_in lib su se t P m" and "calls_in L m" and "steps_only m" and "\<And>e cs. cs \<in> L \<Longrightarrow> ends_in lib su se t (\<lambda>ds. P (cs @ ds)) (h e)"
  shows "ends_in lib su se t P (rescued m h)"
  unfolding ends_in_def
proof (intro allI impI)
  fix x r y assume "rescued m h x = (Gives r, y)"
  then consider (first) "m x = (Gives r, y)" | (second) e z where "m x = (Throws e, z)" "h e z = (Gives r, y)"
    by (auto simp: rescued_Gives)
  then show "\<exists>z o' ev rb d cs. finish_effect lib su se t o' ev rb d z = (Gives r, y) \<and> plan_step\<^sup>*\<^sup>* (ex_store x) (ex_store z)
        \<and> ex_calls z = ex_calls x @ cs \<and> P cs o'"
  proof cases
    case first
    then show ?thesis using assms(1) unfolding ends_in_def by blast
  next
    case second
    from calls_inD[OF assms(2) second(1)] obtain cs where cs: "cs \<in> L" "ex_calls z = ex_calls x @ cs" by blast
    from assms(4)[OF cs(1)] second(2) obtain w o' ev rb d ds where w: "finish_effect lib su se t o' ev rb d w = (Gives r, y)"
      "plan_step\<^sup>*\<^sup>* (ex_store z) (ex_store w)" "ex_calls w = ex_calls z @ ds" "P (cs @ ds) o'" unfolding ends_in_def by blast
    have "plan_step\<^sup>*\<^sup>* (ex_store x) (ex_store w)" using steps_onlyD[OF assms(3) second(1)] w(2) by (rule rtranclp_trans)
    with w cs(2) show ?thesis by (metis append_assoc)
  qed
qed

text \<open>After a failure a rollback is recorded only when it was called, and a success never is.\<close>

definition failure_calls :: "'w task \<Rightarrow> effect_call list \<Rightarrow> effect_outcome \<Rightarrow> bool" where
  "failure_calls t cs o' \<longleftrightarrow> o' \<noteq> Out_succeeded \<and> cs \<in> {[], [Called_rollback (tk_receipt_id t)]}
     \<and> (o' = Out_rolled_back \<longrightarrow> cs \<noteq> []) \<and> (o' \<in> {Out_retry, Out_hold} \<longrightarrow> cs = [])"

lemma rollback_attempt_calls: "calls_in {[], [Called_rollback (tk_receipt_id t)]} (rollback_attempt lib su se t rollback kept m)"
proof -
  have "calls_in {[], [Called_rollback (tk_receipt_id t)]}
      (case rollback of None \<Rightarrow> throwing e | Some f \<Rightarrow> calling (Called_rollback (tk_receipt_id t)) f)" for e
    by (auto intro!: calls_in_mono[OF calls_in_simple(2)] calls_in_mono[OF calls_in_calling] split: option.split)
  then show ?thesis unfolding rollback_attempt_def by (rule calls_in_followed[OF _ finish_quiet]) auto
qed

lemma rollback_attempt_ends: "ends_in lib su se t (failure_calls t) (rollback_attempt lib su se t rollback kept m)"
proof (cases rollback)
  case (Some f)
  show ?thesis
    unfolding rollback_attempt_def Some option.case
    by (rule ends_in_followed[OF calls_in_calling steps_only_simple(4)]) (auto intro!: ends_in_finish simp: failure_calls_def)
qed (simp add: rollback_attempt_def ends_in_def followed_by_def throwing_def)

lemma roll_back_calls: "calls_in {[], [Called_rollback (tk_receipt_id t)]} (roll_back lib su se t rollback kept m)"
  unfolding roll_back_def Let_def
  by (rule calls_in_rescued[OF rollback_attempt_calls, where M = "{[]}"]) (auto intro: quiet split: effect_exn.splits)

lemma roll_back_ends: "fair su \<Longrightarrow> ends_in lib su se t (failure_calls t) (roll_back lib su se t rollback kept m)"
  unfolding roll_back_def Let_def
  by (rule ends_in_rescued[OF rollback_attempt_ends rollback_attempt_calls rollback_attempt_steps]) (auto intro!: ends_in_finish simp: failure_calls_def split: effect_exn.splits)

lemma handle_exn_calls: "calls_in {[], [Called_rollback (tk_receipt_id t)]} (handle_exn lib su se app t rollback e)"
  unfolding handle_exn_def Let_def
  by (auto intro!: calls_in_mono[OF finish_quiet] roll_back_calls split: effect_exn.splits)

lemma handle_exn_ends: "fair su \<Longrightarrow> ends_in lib su se t (failure_calls t) (handle_exn lib su se app t rollback e)"
  unfolding handle_exn_def Let_def
  by (auto intro!: ends_in_finish roll_back_ends simp: failure_calls_def split: effect_exn.splits)

text \<open>The handler is called once; a success is recorded only when nothing else was called, and a rollback that was not called only where
  the bootstrap handler reports that it restored the predecessor itself.\<close>

definition handler_calls :: "'w task \<Rightarrow> effect_call list \<Rightarrow> effect_outcome \<Rightarrow> bool" where
  "handler_calls t cs o' \<longleftrightarrow>
     cs \<in> {[Called_handler (tk_receipt_id t)], [Called_handler (tk_receipt_id t), Called_rollback (tk_receipt_id t)]}
     \<and> (o' \<in> {Out_succeeded, Out_retry, Out_hold} \<longrightarrow> cs = [Called_handler (tk_receipt_id t)])
     \<and> (o' = Out_rolled_back \<and> te_kind (tk_effect t) \<noteq> Approval_platform_bootstrap_deployment \<longrightarrow> length cs = 2)"

lemma handler_attempt_calls: "calls_in {[Called_handler (tk_receipt_id t)]} (handler_attempt lib su se app p t)"
  unfolding handler_attempt_def
  by (rule calls_in_followed[OF calls_in_calling, where M = "{[]}"]) (auto intro: quiet split: json.splits)

lemma handler_attempt_ends: "ends_in lib su se t (handler_calls t) (handler_attempt lib su se app p t)"
  unfolding handler_attempt_def
  by (rule ends_in_followed[OF calls_in_calling steps_only_simple(4)]) (auto intro!: ends_in_finish simp: handler_calls_def split: json.splits)

lemma run_handler_calls:
  "calls_in {[Called_handler (tk_receipt_id t)], [Called_handler (tk_receipt_id t), Called_rollback (tk_receipt_id t)]}
     (run_handler lib su se app p t)"
  unfolding run_handler_def by (rule calls_in_rescued[OF handler_attempt_calls handle_exn_calls]) auto

lemma run_handler_ends: "fair su \<Longrightarrow> ends_in lib su se t (handler_calls t) (run_handler lib su se app p t)"
  unfolding run_handler_def
  by (rule ends_in_rescued[OF handler_attempt_ends handler_attempt_calls handler_attempt_steps])
    (auto intro!: ends_in_mono[OF handle_exn_ends] simp: failure_calls_def handler_calls_def)

section \<open>One durable execution\<close>

lemma durable_execution:
  assumes "fair su" and "uses_durable se executor" and "execute_effect lib isofmt su rg se fresh rid effect executor x = (r, z)"
  obtains (refused) "\<nexists>v. r = Gives v" "ex_calls z = ex_calls x"
  | (ran) p who a w s now where "executor = Some who"
      "begin_execution isofmt fresh now rid (effect_hash lib effect) (te_generation effect) (pp_handler_id p) who s = Ok (a, ex_store w)"
      "plan_step\<^sup>*\<^sup>* (ex_store x) s" "ex_calls w = ex_calls x"
      "run_handler lib su se (rg_app_bootstrap rg) p
         \<lparr>tk_request_id = rid, tk_receipt_id = fresh, tk_effect = effect, tk_handler_id = pp_handler_id p, tk_executor = executor\<rparr> w = (r, z)"
proof -
  obtain q y where q: "in_world (rg_prepare rg effect) x = (q, y)" by (cases "in_world (rg_prepare rg effect) x")
  have y: "ex_calls y = ex_calls x" "ex_store y = ex_store x" using in_world_calls[of "rg_prepare rg effect" x] q by simp_all
  show thesis
  proof (cases q)
    case (Gives p)
    show thesis
    proof (cases "executor = None \<or> executor = Some []")
      case True
      then have "r = Throws (Other_exn (ValueError ''executor principal is required for durable authority execution''))" "z = y"
        using assms(2,3) q Gives by (auto simp: execute_effect_def followed_by_def throwing_def Let_def)
      then show thesis using refused y by simp
    next
      case False
      then obtain who where who: "executor = Some who" "who \<noteq> []" by auto
      let ?claim = "transact su (\<lambda>now. begin_execution isofmt fresh now rid (effect_hash lib effect) (te_generation effect) (pp_handler_id p) who)"
      let ?run = "\<lambda>a. run_handler lib su se (rg_app_bootstrap rg) p
         \<lparr>tk_request_id = rid, tk_receipt_id = pt_receipt_id a, tk_effect = effect, tk_handler_id = pp_handler_id p, tk_executor = executor\<rparr>"
      have z: "followed_by ?claim ?run y = (r, z)"
        using assms(2,3) q Gives who by (simp add: execute_effect_def followed_by_def[of "in_world f" for f] Let_def)
      obtain b w where b: "?claim y = (b, w)" by (cases "?claim y")
      have w: "ex_calls w = ex_calls y" using transact_calls[of su _ y] b by (metis snd_conv)
      show thesis
      proof (cases b)
        case (Gives a)
        note t = transact_Gives[OF b[unfolded Gives]]
        have "pt_receipt_id a = fresh" using t by (rule begin_OkD) simp
        moreover have "plan_step\<^sup>*\<^sup>* (ex_store x) (su_others su (ex_ticks y) (ex_store y))" using assms(1) y(2) by (simp add: fair_def)
        ultimately show thesis using ran[OF who(1) t _ _] w y z b Gives by (simp add: followed_by_def)
      qed (use z b w y refused in \<open>auto simp: followed_by_def\<close>)
    qed
  qed (use assms(3) q y refused in \<open>auto simp: execute_effect_def followed_by_def\<close>)
qed

lemma durable_calls:
  assumes "fair su" and "uses_durable se executor" and "execute_effect lib isofmt su rg se i rid effect executor x = (r, y)"
    and "ex_calls y \<noteq> ex_calls x"
  obtains t s1 where "t \<in> set (ps_attempts s1)" "pt_receipt_id t = i" "pt_request_id t = rid" "plan_step\<^sup>*\<^sup>* s1 (ex_store y)"
    "\<exists>now hash gen handler who s. begin_execution isofmt i now rid hash gen handler who s = Ok (t, s1) \<and> plan_step\<^sup>*\<^sup>* (ex_store x) s"
  using assms(1-3)
proof (cases rule: durable_execution)
  case refused
  then show thesis using assms(4) by simp
next
  case (ran p who a w s now)
  have "a \<in> set (ps_attempts (ex_store w))" "pt_receipt_id a = i" "pt_request_id a = rid" by (rule begin_OkD[OF ran(2)]; simp)+
  then show thesis using that[of a "ex_store w"] steps_onlyD[OF run_handler_steps[OF assms(1)] ran(5)] ran(2,3) by blast
qed

text \<open>C9: the handler of a request is not called again: when two executions of one request both called something, whatever happened in and
  between them, lost answers, deaths and transactions of others included, then the first attempt is stored as released by a retry.\<close>

theorem handler_not_rerun:
  assumes "fair su" and "uses_durable se executor" and "plan_store_ok (ex_store x)"
    and "execute_effect lib isofmt su rg se i rid effect executor x = (r, y)" and "ex_calls y \<noteq> ex_calls x"
    and "plan_step\<^sup>*\<^sup>* (ex_store y) (ex_store x')"
    and "fair su'" and "uses_durable se' executor'"
    and "execute_effect lib' isofmt' su' rg' se' j rid effect' executor' x' = (r', z)" and "ex_calls z \<noteq> ex_calls x'"
  shows "\<exists>u. attempt_by_id (ex_store z) i = Some u \<and> pt_outcome u = Some ''retry'' \<and> j \<noteq> i"
proof -
  obtain t s1 now hash gen handler who s where t: "t \<in> set (ps_attempts s1)" "pt_receipt_id t = i" "pt_request_id t = rid" "plan_step\<^sup>*\<^sup>* s1 (ex_store y)"
    "begin_execution isofmt i now rid hash gen handler who s = Ok (t, s1)" "plan_step\<^sup>*\<^sup>* (ex_store x) s"
    by (rule durable_calls[OF assms(1,2,4,5)]) blast
  have ok: "plan_store_ok s1" using begin_ok[OF plan_attempts.sound_steps[OF t(6) assms(3)] t(5)] .
  obtain t' s3 now' hash' gen' handler' who' s2 where n: "pt_receipt_id t' = j" "plan_step\<^sup>*\<^sup>* s3 (ex_store z)"
    "begin_execution isofmt' j now' rid hash' gen' handler' who' s2 = Ok (t', s3)" "plan_step\<^sup>*\<^sup>* (ex_store x') s2"
    by (rule durable_calls[OF assms(7-10)]) blast
  have "plan_step\<^sup>*\<^sup>* s1 s2" using t(4) assms(6) n(4) by (meson rtranclp_trans)
  then obtain u where u: "attempt_by_id s2 i = Some u" "\<not> unreleased u" "j \<noteq> i"
    using begun_again[OF ok t(1) _ n(3)[folded t(3)]] t(2) by metis
  have ok2: "plan_store_ok s2" using plan_attempts.sound_steps[OF \<open>plan_step\<^sup>*\<^sup>* s1 s2\<close> ok] .
  have "pt_completed_at u \<noteq> None" using u ok2 attempt_by_id_SomeD[OF u(1)] by (auto simp: plan_store_ok_def unreleased_def)
  then have "\<not> attempt_move u v" for v by (simp add: attempt_move_def)
  moreover have "plan_step\<^sup>*\<^sup>* s2 (ex_store z)" using plan_step.start[OF n(3)] n(2) by (rule converse_rtranclp_into_rtranclp)
  ultimately have "attempt_by_id (ex_store z) i = Some u" using plan_attempts.settled_steps[OF _ ok2 u(1)] by blast
  then show ?thesis using u(2,3) by (simp add: unreleased_def)
qed

text \<open>What a completion stores.\<close>

lemma complete_stores:
  assumes "plan_store_ok s" and "canonical_uuid i" and "complete_execution now i oc evidence rollback detail s = Ok (u, s')"
  shows "attempt_by_id s' i = Some u" "pt_outcome u = Some oc" "pt_evidence u = sorted_set evidence" "pt_rollback u = rollback" "pt_detail u = detail"
    "oc \<in> set store_outcomes"
proof -
  show "pt_outcome u = Some oc" "pt_evidence u = sorted_set evidence" "pt_rollback u = rollback" "pt_detail u = detail"
    using assms(3) by (auto simp: complete_execution_def complete_attempt_def bind_result_def split: if_splits option.splits sum.splits)
  from assms(3) have "attempt_by_id s' i = Some u \<and> oc \<in> set store_outcomes"
  proof (cases rule: complete_OkD)
    case (1 k t f)
    have k: "k = i" using assms(2) 1(1) by (simp add: canonical_uuid_def)
    have "u \<in> set (ps_attempts s')" using 1 by (auto simp: settle_in_def)
    moreover have "pt_receipt_id u = i" using 1 k by (simp add: settling_def)
    ultimately show ?thesis using attempt_by_id_mem[OF complete_ok[OF assms(1,3)]] 1(2) by blast
  qed
  then show "attempt_by_id s' i = Some u" "oc \<in> set store_outcomes" by simp_all
qed

lemma sorted_set_idem [simp]: "sorted_set (sorted_set xs) = sorted_set xs"
  by (rule sorted_set_cong) simp

lemma durable_receipt:
  assumes "fair su" and "uses_durable se executor" and "plan_store_ok (ex_store x)" and "canonical_uuid i"
    and "execute_effect lib isofmt su rg se i rid effect executor x = (Gives r, y)"
  obtains t u p where "handler_calls t (drop (length (ex_calls x)) (ex_calls y)) (xr_outcome r)" "tk_receipt_id t = i" "tk_effect t = effect"
    "r = make_receipt lib t (xr_outcome r) (xr_evidence r) (xr_rollback r) (xr_detail r) executor"
    "tk_request_id t = rid" "tk_handler_id t = p" "take (length (ex_calls x)) (ex_calls y) = ex_calls x"
    "attempt_by_id (ex_store y) i = Some u" "pt_outcome u = Some (outcome_value (xr_outcome r))" "pt_evidence u = xr_evidence r"
    "pt_rollback u = xr_rollback r" "pt_detail u = xr_detail r" "outcome_value (xr_outcome r) \<in> set store_outcomes"
    "pt_request_id u = rid" "pt_effect_hash u = effect_hash lib effect" "pt_generation u = te_generation effect" "pt_handler_id u = p"
    "Some (pt_executor u) = executor"
  using assms(1,2,5)
proof (cases rule: durable_execution)
  case refused
  then show thesis by simp
next
  case (ran p who a w s now)
  let ?t = "\<lparr>tk_request_id = rid, tk_receipt_id = i, tk_effect = effect, tk_handler_id = pp_handler_id p, tk_executor = executor\<rparr> :: 'a task"
  obtain z o' ev rb d cs where f: "finish_effect lib su se ?t o' ev rb d z = (Gives r, y)" "plan_step\<^sup>*\<^sup>* (ex_store w) (ex_store z)"
    "ex_calls z = ex_calls w @ cs" "handler_calls ?t cs o'"
    using run_handler_ends[OF assms(1)] ran(5) unfolding ends_in_def by blast
  have dur: "uses_durable se (tk_executor ?t)" using assms(2) by simp
  note fin = durable_finish[OF dur f(1)]
  have r: "xr_outcome r = o'" "xr_evidence r = sorted_set (ev @ se_bound_evidence se)" "xr_rollback r = rb" "xr_detail r = d"
    by (simp_all add: fin(2) make_receipt_def)
  let ?s = "su_others su (ex_ticks z) (ex_store z)"
  obtain now' u where c: "complete_execution now' i (outcome_value o') (xr_evidence r) rb d ?s = Ok (u, ex_store y)" using fin(1) by auto
  have ok: "plan_store_ok (ex_store w)" using begin_ok[OF plan_attempts.sound_steps[OF ran(3) assms(3)] ran(2)] .
  have st: "plan_step\<^sup>*\<^sup>* (ex_store w) ?s" using f(2) assms(1) unfolding fair_def by (meson rtranclp_trans)
  note m = complete_stores[OF plan_attempts.sound_steps[OF st ok] assms(4) c]
  have a: "a \<in> set (ps_attempts (ex_store w))" "pt_receipt_id a = i" "pt_request_id a = rid" "pt_effect_hash a = effect_hash lib effect"
    "pt_generation a = te_generation effect" "pt_handler_id a = pp_handler_id p" "pt_executor a = who"
    by (rule begin_OkD[OF ran(2)]; simp)+
  have "plan_step\<^sup>*\<^sup>* (ex_store w) (ex_store y)" using st plan_step.finish[OF c] by (rule rtranclp.rtrancl_into_rtrancl)
  then have "attempt_move\<^sup>*\<^sup>* a u"
    using plan_attempts.row_steps[OF _ ok] attempt_by_id_mem[OF ok a(1)] a(2) m(1) by fastforce
  then have "pt_request_id u = pt_request_id a \<and> pt_effect_hash u = pt_effect_hash a \<and> pt_generation u = pt_generation a
        \<and> pt_handler_id u = pt_handler_id a \<and> pt_executor u = pt_executor a"
    by (induction rule: rtranclp_induct) (auto simp: attempt_move_def settling_def)
  then have b: "pt_request_id u = rid" "pt_effect_hash u = effect_hash lib effect" "pt_generation u = te_generation effect"
    "pt_handler_id u = pp_handler_id p" "Some (pt_executor u) = executor" using a ran(1) by simp_all
  have calls: "ex_calls y = ex_calls x @ cs" using fin(3) f(3) ran(4) by simp
  show thesis
    by (rule that[of ?t "pp_handler_id p" u]) (use f(4) r fin(2) m b calls in \<open>simp_all add: make_receipt_def\<close>)
qed

text \<open>C13: a receipt that a durable execution returns is the stored attempt: its outcome, evidence, rollback receipt and detail are in the
  row of its id, which is bound to the request, to the hash and generation of the executed effect, to the handler and to the executor.\<close>

theorem receipt_is_recorded:
  assumes "fair su" and "uses_durable se executor" and "plan_store_ok (ex_store x)" and "canonical_uuid i"
    and "execute_effect lib isofmt su rg se i rid effect executor x = (Gives r, y)"
  shows "\<exists>u. attempt_by_id (ex_store y) (xr_authority_receipt_id r) = Some u \<and> pt_outcome u = Some (outcome_value (xr_outcome r))
    \<and> pt_evidence u = xr_evidence r \<and> pt_rollback u = xr_rollback r \<and> pt_detail u = xr_detail r
    \<and> xr_request_id r = rid \<and> pt_request_id u = rid \<and> xr_effect_hash r = effect_hash lib effect \<and> pt_effect_hash u = effect_hash lib effect
    \<and> pt_generation u = te_generation effect \<and> pt_handler_id u = xr_handler_id r \<and> Some (pt_executor u) = executor \<and> xr_executor r = executor"
proof (rule durable_receipt[OF assms])
  fix t u p
  assume a: "tk_receipt_id t = i" "tk_effect t = effect" "tk_request_id t = rid" "tk_handler_id t = p"
    and r: "r = make_receipt lib t (xr_outcome r) (xr_evidence r) (xr_rollback r) (xr_detail r) executor"
    and u: "attempt_by_id (ex_store y) i = Some u" "pt_outcome u = Some (outcome_value (xr_outcome r))" "pt_evidence u = xr_evidence r"
    "pt_rollback u = xr_rollback r" "pt_detail u = xr_detail r"
    "pt_request_id u = rid" "pt_effect_hash u = effect_hash lib effect" "pt_generation u = te_generation effect" "pt_handler_id u = p"
    "Some (pt_executor u) = executor"
  have "xr_authority_receipt_id r = i" "xr_request_id r = rid" "xr_effect_hash r = effect_hash lib effect" "xr_handler_id r = p" "xr_executor r = executor"
    by (subst r, simp add: make_receipt_def a)+
  with u show ?thesis by simp
qed


section \<open>Two ends that the store does not have\<close>

text \<open>The store refuses the outcome \<^verbatim>\<open>hold\<close>: an effect whose handler held it stays an active attempt, and the caller gets the
  refusal of the store.\<close>

lemma held_effect_refused:
  assumes "uses_durable se (tk_executor t)"
  shows "fst (handle_exn lib su se app t rollback (Held_effect m ev) x) = Throws (Other_exn (ValueError ''execution outcome is not registered''))"
    and "ex_store (snd (handle_exn lib su se app t rollback (Held_effect m ev) x)) = su_others su (ex_ticks x) (ex_store x)"
  using assms
  by (simp_all add: handle_exn_def finish_effect_def Let_def followed_by_def transact_def complete_execution_def outcome_value_def store_outcomes_def)

definition alone :: surroundings where
  "alone = \<lparr>su_clock = (\<lambda>n. of_nat n + 2), su_others = (\<lambda>_ s. s)\<rparr>"

definition sample_prepared :: "handler_result ended \<Rightarrow> unit prepared" where
  "sample_prepared h = \<lparr>pp_handler_id = ''h'', pp_handler = (\<lambda>w. (h, w)), pp_rollback = Some (\<lambda>w. (Gives ''undone'', w))\<rparr>"

definition sample_registry :: "handler_result ended \<Rightarrow> unit registry" where
  "sample_registry h = \<lparr>rg_prepare = (\<lambda>e w. (Gives (sample_prepared h), w)), rg_app_bootstrap = False\<rparr>"

definition durable_seam :: "unit authority_seam" where
  "durable_seam = \<lparr>se_durable_methods = True, se_callable = None, se_recorder = None, se_bound_evidence = []\<rparr>"

definition sample_effect_start :: "plan_store \<Rightarrow> answer_fault option list \<Rightarrow> unit execution" where
  "sample_effect_start s fs = \<lparr>ex_store = s, ex_world = (), ex_faults = fs, ex_calls = [], ex_ticks = 0\<rparr>"

definition sample_effect_run :: "handler_result ended \<Rightarrow> answer_fault option list \<Rightarrow> uuid \<Rightarrow> plan_store \<Rightarrow> execution_receipt ended \<times> unit execution" where
  "sample_effect_run h fs i s = execute_effect sample_hash (\<lambda>_. []) alone (sample_registry h) durable_seam i ''r'' (pq_effect sample_plan_request)
     (Some ''executor:a'') (sample_effect_start s fs)"

definition sample_success :: "handler_result ended" where
  "sample_success = Gives \<lparr>hr_evidence = [''e''], hr_terminal_outcome = JNull, hr_rollback_receipt = JNull\<rparr>"

definition sample_retry :: "handler_result ended" where
  "sample_retry = Throws (Retryable_effect ''later'' [])"

text \<open>When the answer of the transaction that records a success is lost, the success is rolled back and stays recorded.\<close>

lemma success_rolled_back:
  "ex_calls (snd (sample_effect_run sample_success [None, Some (Lost_after (DatabaseError ''server closed the connection''))] sample_authority_id sample_approved))
     = [Called_handler sample_authority_id, Called_rollback sample_authority_id]"
  "map_option pt_outcome (attempt_by_id (ex_store (snd (sample_effect_run sample_success
      [None, Some (Lost_after (DatabaseError ''server closed the connection''))] sample_authority_id sample_approved))) sample_authority_id)
     = Some (Some ''succeeded'')"
  by code_simp+

lemma fair_alone: "fair alone"
  by (simp add: fair_def alone_def)

lemma sample_durable: "uses_durable durable_seam (Some e)"
  by (simp add: uses_durable_def durable_seam_def)

definition sample_first :: "execution_receipt ended \<times> unit execution" where
  "sample_first = sample_effect_run sample_retry [] sample_authority_id sample_approved"

definition sample_rerun :: "execution_receipt ended \<times> unit execution" where
  "sample_rerun = sample_effect_run sample_success [] sample_second (ex_store (snd sample_first))"

lemma sample_calls: "ex_calls (snd sample_first) = [Called_handler sample_authority_id]" "ex_calls (snd sample_rerun) = [Called_handler sample_second]"
  "map_option xr_outcome (case fst sample_first of Gives r \<Rightarrow> Some r | _ \<Rightarrow> None) = Some Out_retry" "canonical_uuid sample_authority_id"
  by code_simp+

theorem handler_not_rerun_witness:
  "\<exists>u. attempt_by_id (ex_store (snd sample_rerun)) sample_authority_id = Some u \<and> pt_outcome u = Some ''retry''"
proof -
  have first: "execute_effect sample_hash (\<lambda>_. []) alone (sample_registry sample_retry) durable_seam sample_authority_id ''r''
      (pq_effect sample_plan_request) (Some ''executor:a'') (sample_effect_start sample_approved []) = (fst sample_first, snd sample_first)"
    and second: "execute_effect sample_hash (\<lambda>_. []) alone (sample_registry sample_success) durable_seam sample_second ''r''
      (pq_effect sample_plan_request) (Some ''executor:a'') (sample_effect_start (ex_store (snd sample_first)) []) = (fst sample_rerun, snd sample_rerun)"
    by (simp_all add: sample_first_def sample_rerun_def sample_effect_run_def)
  have "plan_store_ok (ex_store (sample_effect_start sample_approved []))" using sample_approved_ok by (simp add: sample_effect_start_def)
  from handler_not_rerun[OF fair_alone sample_durable this first _ _ fair_alone sample_durable second]
  have "\<exists>u. attempt_by_id (ex_store (snd sample_rerun)) sample_authority_id = Some u \<and> pt_outcome u = Some ''retry''
      \<and> sample_second \<noteq> sample_authority_id" by (simp add: sample_calls, simp add: sample_effect_start_def)
  then show ?thesis by blast
qed

lemma sample_first_receipt:
  obtains r where "execute_effect sample_hash (\<lambda>_. []) alone (sample_registry sample_retry) durable_seam sample_authority_id ''r''
      (pq_effect sample_plan_request) (Some ''executor:a'') (sample_effect_start sample_approved []) = (Gives r, snd sample_first)" "xr_outcome r = Out_retry"
proof -
  obtain r where "fst sample_first = Gives r" "xr_outcome r = Out_retry" using sample_calls(3) by (auto split: ended.splits)
  then show thesis using that[of r] by (metis prod.collapse sample_first_def sample_effect_run_def)
qed

lemma sample_start_ok: "plan_store_ok (ex_store (sample_effect_start sample_approved []))" "ex_calls (sample_effect_start s fs) = []"
  using sample_approved_ok by (simp_all add: sample_effect_start_def)

theorem receipt_is_recorded_witness: "\<exists>i u. attempt_by_id (ex_store (snd sample_first)) i = Some u \<and> pt_outcome u = Some ''retry''"
proof (rule sample_first_receipt)
  fix r assume r: "execute_effect sample_hash (\<lambda>_. []) alone (sample_registry sample_retry) durable_seam sample_authority_id ''r''
      (pq_effect sample_plan_request) (Some ''executor:a'') (sample_effect_start sample_approved []) = (Gives r, snd sample_first)" "xr_outcome r = Out_retry"
  from receipt_is_recorded[OF fair_alone sample_durable sample_start_ok(1) sample_calls(4) r(1)] r(2) show ?thesis
    by (auto simp: outcome_value_def)
qed


end
