(* ===== verification/Spec2Isabelle.thy ===== *)
theory Spec2Isabelle
  imports Queue_Reports Kernel_Scheduler Provider_Observations Plan_Dispatch Workflow_Foundation Evaluation_Safety Mutation_Receipts Withdrawal_Safety Effect_Controller_Safety
begin

text \<open>
  \<^bold>\<open>Trader Grim's warehouse: the durable core\<close>

  The program (\<^verbatim>\<open>src/src/tgw\<close>) is an inventory and listing platform. Its core is a set of components
  that share one PostgreSQL database and meet in the job queue:

  \<^item> the \<^emph>\<open>job queue\<close> (\<^verbatim>\<open>queue/state_machine.py\<close> with \<^verbatim>\<open>queue/live_schema.sql\<close>) keeps jobs with leases,
    dedupe keys, retries and a history table;
  \<^item> the \<^emph>\<open>worker\<close> (\<^verbatim>\<open>queue/worker_base.py\<close>) claims jobs, runs a handler and reports the outcome;
  \<^item> the \<^emph>\<open>workflow kernel\<close> (\<^verbatim>\<open>workflow_kernel/\<close>) evaluates evidence into a work graph, selects a
    treatment and dispatches it to the queue;
  \<^item> the \<^emph>\<open>listing workflow\<close> (\<^verbatim>\<open>workflow/item_snapshot.py\<close>, \<^verbatim>\<open>item_pipeline.py\<close>, \<^verbatim>\<open>profiles.py\<close>, \<^verbatim>\<open>treatments.py\<close>,
    \<^verbatim>\<open>foundation.py\<close>, with \<^verbatim>\<open>assets.py\<close> for the order of photos) reads item documents into evidence, runs the kernel
    over the registered treatments and dispatches the next piece of work;
  \<^item> the \<^emph>\<open>effect ledger\<close> (\<^verbatim>\<open>provider_effects.py\<close>, \<^verbatim>\<open>workflow/operator_authority.py\<close>,
    \<^verbatim>\<open>provider_observations.py\<close>) lets a request out to the provider once, under an operator's
    authority, and keeps the evidence of what happened;
  \<^item> the \<^emph>\<open>item mutation\<close> (\<^verbatim>\<open>item_mutation.py\<close>) changes one item document in a journalled transaction that survives the death
    of the process and failing writes, and projects it into the catalog;
  \<^item> the \<^emph>\<open>plan authority\<close> (\<^verbatim>\<open>plan_authority.py\<close> with \<^verbatim>\<open>plan_authority.sql\<close>) keeps the requests for effects that a plan
    declares, an operator's decisions on them and the attempts to execute them; the \<^emph>\<open>effect controller\<close>
    (\<^verbatim>\<open>effect_handlers.py\<close>) runs an approved effect and records what became of it;
  \<^item> the \<^emph>\<open>plan solver\<close> (\<^verbatim>\<open>plan_solver.py\<close>) resolves the capabilities that a plan needs into a closed set of
    providers and decides whether the solution may be dispatched.

  \<^bold>\<open>How the model is built.\<close> Data are records and datatypes with the fields of the dataclasses and the
  columns of the tables. A transaction is a function from the database to an error or to a value and
  the new database; an exception rolls back, so an error carries no database. Where one Python call
  runs several transactions, what other processes do in between is an argument: the two
  ledgers of \<^verbatim>\<open>reconcile_provider_effect\<close>, the \<open>ce_between\<close> functions of \<^verbatim>\<open>close_local_success\<close>, the
  \<open>between\<close> function of the worker. Interleavings of whole transactions are step relations
  (\<open>queue_step\<close>, \<open>ledger_step\<close>, \<open>observation_step\<close>, \<open>plan_step\<close>), one rule per operation, and theorems about "whatever
  happens" quantify over their reflexive transitive closure. Row locks and advisory locks
  are modelled by running transactions one after the other. Every function is total and
  executable. Fuel is used in the plan solver only: for the nested search, where it is the depth of the
  stack and is proved to suffice for every graph that parses, and for the loop over phases, whose fuel is
  the number of providers. Time is rational, so rounding of floats and of time stamps to
  microseconds is not modelled; strings are UTF-8 byte strings; lower and upper casing is ASCII; a
  jsonb column returns the value that was stored in it.

  \<^bold>\<open>Theories.\<close>
  \<^item> \<open>Tgw_Prelude\<close>: errors, Python string operations, sorting and dictionary lemmas.
  \<^item> \<open>Json_Value\<close>: JSON values, both equalities, canonical text, the checkpoint validator
    \<^verbatim>\<open>_validate_json_value\<close> (it accepts exactly the JSON values).
  \<^item> \<open>Host_Text\<close>: UUID and time texts as PostgreSQL and Python read them.
  \<^item> \<open>Queue_Names\<close>, \<open>Queue_Rules\<close>, \<open>Queue_Table\<close>, \<open>Queue_Enqueue\<close>, \<open>Queue_Lifecycle\<close>, \<open>Queue_Publication\<close>: the
    definitions of the queue in the order of \<^verbatim>\<open>state_machine.py\<close>, with the triggers, the
    constraints and the SQL functions of the schema. \<open>Queue_Names\<close> shows that production and sandbox
    routes are disjoint and that routing can be inverted.
  \<^item> \<open>Queue_Steps\<close>: the transition system; every operation is a sequence of statements that move
    rows by \<open>row_step\<close>.
  \<^item> \<open>Queue_Invariants\<close>: the locales \<open>row_invariant\<close> and \<open>lease_fence\<close> with their interpretations: the lease
    columns, the attempt bound, and that a lease completes at most once; the history table
    replays every row; terminal rows stay terminal.
  \<^item> \<open>Queue_Closure\<close>: cancellation, recovery and the publication protocol: published files are never
    reported as cancelled while the fence stands.
  \<^item> \<open>Queue_Contracts\<close>: the outcome of each enqueue mode, of claiming, checkpointing, failing and
    completing a treatment, on every branch.
  \<^item> \<open>Queue_Worker\<close>: receipt validation, error classification, one turn of the worker loop; a turn refines
    the queue, failures are settled, success needs a receipt bound to the job.
  \<^item> \<open>Queue_Reports\<close>: depths, breakdowns and listings per environment, and the agent runs; the depths
    count exactly the environment's own jobs, and a waiting job always comes back.
  \<^item> \<open>Kernel_Evaluator\<close>, \<open>Kernel_Scheduler\<close>: contracts, evaluation and dispatch; the graph does not depend on
    the order of its inputs, eligibility is exact, selection follows the gates, and a treatment is not
    dispatched twice while its job is active, which spans the kernel and the queue.
  \<^item> \<open>Ledger_Table\<close>, \<open>Operator_Authority\<close>, \<open>Provider_Effects\<close>: the two ledger tables and all operations on
    them. \<open>Ledger_Steps\<close>: the locale \<open>one_way_table\<close>, interpreted for effects and authorities; an
    unresolved dispatch is never repeated, settled effects are immutable, an effect in flight
    fences its authority, every dispatch was authorised, a finished effect validates forever.
  \<^item> \<open>Provider_Observations\<close>: immutable observations, a third interpretation of \<open>one_way_table\<close>.
  \<^item> \<open>Py_Convert\<close>: Python's conversions and POSIX paths; a path is read back from its text. \<open>Photo_Order\<close>: the order of an
    item's photos, an interleaving of the operator's order with the natural one. \<open>Workflow_Registry\<close>: goal profiles, treatment
    contracts and condition aliases; the registry is free of ownership conflicts.
  \<^item> \<open>Item_Snapshot\<close>, \<open>Item_Pipeline\<close>: the checkers, the snapshot builder and the pipeline; what each verdict is, when photos count
    as synchronised, what an item gets next, and what external work and publishing need.
    \<open>Workflow_Foundation\<close>: treatment receipts and dispatch bindings; a dispatched payload is bound by its own graph only.
  \<^item> \<open>Ebay_Environment\<close>: endpoints and the binding of provider accounts to one environment. \<open>Goal_Requests\<close>, \<open>Listing_Commands\<close>:
    the operator's goal requests and the listing commands of \<^verbatim>\<open>workflow/listing_migration.py\<close>, from the frozen document and the
    issued authority to the job; an external treatment is dispatched only under an authority that covers it at that moment.
  \<^item> \<open>Item_Mutation\<close>: the journal, the archive, the receipts and every operation on them, in a small monad in which each durable
    write may fail, fail late or be the last one. \<open>Mutation_Safety\<close>: a Hoare logic with a postcondition for crashes; a mutation
    is applied at most once, the old document is archived first, one undisturbed call settles it. \<open>Mutation_Receipts\<close>:
    receipts are final, a reported commit is true, and a fresh process finds and finishes what died.
  \<^item> \<open>Withdrawal\<close>, \<open>Withdrawal_Safety\<close>: the synchronous withdrawal of \<^verbatim>\<open>listing_migration.py\<close>, which spans the snapshot, the kernel, the
    authority, the effect ledger and the item mutation; the provider is called for the current document under the standing
    authority, at most once per generation, and the document is marked as ended only after a success.
  \<^item> \<open>Workflow_Evaluate\<close>, \<open>Evaluation_Safety\<close>: the worker \<^verbatim>\<open>workers/workflow_evaluate.py\<close> that evaluates an item again after a
    treatment completed; it spans the queue, the kernel, the snapshot, the ledger and the listing commands. What it dispatches is local
    work, or the next listing effect when the operator's grant is found behind the event.
  \<^item> \<open>Plan_Graph\<close>, \<open>Plan_Solver\<close>: the machine graph with its parsers, the search, the phases, the artifact and
    its validators. \<open>Plan_Search\<close>: a declarative resolution relation, which the search computes exactly; soundness,
    completeness and termination of the search and of the phases. \<open>Plan_Dispatch\<close>: the same for the artifact,
    what may be dispatched, independence of the order of providers, and the execution graph adapter.
  \<^item> \<open>Plan_Authority\<close>: principals, typed effects, the four tables, every transaction on them and the routes.
    \<open>Plan_Authority_Steps\<close>: its invariant, two more interpretations of \<open>one_way_table\<close>; the tables implement the life of a request,
    an approval is spent once, every attempt was approved. \<open>Effect_Controller\<close>: one execution, in a small monad in which the store
    may lose an answer or the process may die. \<open>Effect_Controller_Safety\<close>: every run is a sequence of transactions, a handler is
    not run again, a returned receipt is the stored one and tells what was called.

  \<^bold>\<open>Parameters.\<close> SHA-256, the text of floats, \<^verbatim>\<open>datetime\<close> parsing and formatting, generated UUIDs and
  clocks, the text of exceptions, the handler of a worker, the publication callback and its undo, the
  observation callback of a reconciliation, the coding snapshot builder, the file system (parsed item documents, directory
  entries, the result of a directory walk; the goal requests take one file system per look, so that the document may change in between), the transform and the projection of an item mutation with the
  list of faults its writes meet, the registry that validates an effect and mounts its handler and rollback, a callable authority and
  its recorder, the outcome of a withdrawal call, the lookup of a staged receipt and the text of a list or dictionary are arguments; nothing is
  assumed of them except what a theorem states.

  \<^bold>\<open>Not modelled.\<close> The HTTP server, the consoles and command lines, the observers of hosts and Nix
  builds, the provider workers and clients, the registered effect providers with the bootstrap contracts, and the agent services: they do I/O around the state
  modelled here. The usage ledger of language models (\<^verbatim>\<open>ai_usage\<close>) sums costs in
  floating point. The Plan documents are left for an extension; of the item mutation, the lock file and the temporary files behind an atomic write.
\<close>

end
